(* ===== verification/PTZ.thy ===== *)
theory PTZ
  imports Prelude
begin

text \<open>
  The eight-byte pan/tilt/zoom control frame: class \<open>PTZCommand\<close> of
  \<open>include/gb28181/type_define.h\<close>. The array \<open>bytes[8]\<close> is a record of eight octets
  (so that no index is out of range), every mutator is a function from the frame to the new
  frame, \<open>ToHex\<close> returns the text and the frame it left behind, and \<open>FromHex\<close> returns an
  option as the code does. Enumerators keep their source names and \<open>_code\<close> functions give
  their values.
\<close>

section \<open>The frame and its enumerations\<close>

record PTZCommand =
  b0 :: u8
  b1 :: u8
  b2 :: u8
  b3 :: u8
  b4 :: u8
  b5 :: u8
  b6 :: u8
  b7 :: u8

datatype CommandType = CT_invalid | CT_PTZ | CT_FI | CT_PRESET | CT_CRUISE | CT_SCAN | CT_AUX

datatype PTZ_MOVE_TYPE = PTZ_Stop | PTZ_Up | PTZ_Down | PTZ_Left | PTZ_Right | PTZ_ZoomIn | PTZ_ZoomOut

datatype PTZ_FI_TYPE = FI_IrisOut | FI_IrisIn | FI_FocusOut | FI_FocusIn | FI_Close

datatype PTZ_PRESET_TYPE = PRESET_SetPreset | PRESET_CallPreset | PRESET_DelPreset

datatype PTZ_CRUISE_TYPE =
  CRUISE_AddPoint | CRUISE_DelPoint | CRUISE_SetSpeed | CRUISE_SetStayTime | CRUISE_StartCrusie

datatype PTZ_SCAN_TYPE = SCAN_Start | SCAN_SetSpeed

datatype PTZ_AUX_TYPE = AUX_On | AUX_Off

datatype ScanSubType = BeginScan | ScanLeft | ScanRight

fun move_code :: "PTZ_MOVE_TYPE \<Rightarrow> u8" where
  "move_code PTZ_Stop = 0x00"
| "move_code PTZ_Up = push_bit 3 1"
| "move_code PTZ_Down = push_bit 2 1"
| "move_code PTZ_Left = push_bit 1 1"
| "move_code PTZ_Right = push_bit 0 1"
| "move_code PTZ_ZoomIn = push_bit 4 1"
| "move_code PTZ_ZoomOut = push_bit 5 1"

fun fi_code :: "PTZ_FI_TYPE \<Rightarrow> u8" where
  "fi_code FI_IrisOut = push_bit 6 1 OR push_bit 3 1"
| "fi_code FI_IrisIn = push_bit 6 1 OR push_bit 2 1"
| "fi_code FI_FocusOut = push_bit 6 1 OR push_bit 1 1"
| "fi_code FI_FocusIn = push_bit 6 1 OR push_bit 0 1"
| "fi_code FI_Close = push_bit 6 1"

fun preset_code :: "PTZ_PRESET_TYPE \<Rightarrow> u8" where
  "preset_code PRESET_SetPreset = push_bit 7 1 OR 0x01"
| "preset_code PRESET_CallPreset = push_bit 7 1 OR 0x02"
| "preset_code PRESET_DelPreset = push_bit 7 1 OR 0x03"

fun cruise_code :: "PTZ_CRUISE_TYPE \<Rightarrow> u8" where
  "cruise_code CRUISE_AddPoint = push_bit 7 1 OR 0x04"
| "cruise_code CRUISE_DelPoint = push_bit 7 1 OR 0x05"
| "cruise_code CRUISE_SetSpeed = push_bit 7 1 OR 0x06"
| "cruise_code CRUISE_SetStayTime = push_bit 7 1 OR 0x07"
| "cruise_code CRUISE_StartCrusie = push_bit 7 1 OR 0x08"

fun scan_code :: "PTZ_SCAN_TYPE \<Rightarrow> u8" where
  "scan_code SCAN_Start = push_bit 7 1 OR 0x09"
| "scan_code SCAN_SetSpeed = push_bit 7 1 OR 0x0A"

fun aux_code :: "PTZ_AUX_TYPE \<Rightarrow> u8" where
  "aux_code AUX_On = push_bit 7 1 OR 0x0C"
| "aux_code AUX_Off = push_bit 7 1 OR 0x0D"

fun scan_sub_code :: "ScanSubType \<Rightarrow> u8" where
  "scan_sub_code BeginScan = 0"
| "scan_sub_code ScanLeft = 1"
| "scan_sub_code ScanRight = 2"

section \<open>Building a frame\<close>

definition PTZCommand_new :: "u16 \<Rightarrow> PTZCommand" where
  "PTZCommand_new device_address =
     \<lparr>b0 = 0xA5, b1 = 0x00, b2 = ucast device_address, b3 = 0x00, b4 = 0x00, b5 = 0x00,
      b6 = ucast (drop_bit 8 device_address AND 0x0F), b7 = 0x00\<rparr>"

definition ptz_Move :: "PTZ_MOVE_TYPE \<Rightarrow> u8 \<Rightarrow> PTZCommand \<Rightarrow> PTZCommand" where
  "ptz_Move type speed f =
     (let cmd = b3 f OR move_code type in
      if cmd > 0x2A then f
      else if cmd AND 0x03 = 0x03 \<or> cmd AND 0x0C = 0x0C \<or> cmd AND 0x30 = 0x30 then f
      else let g = f\<lparr>b3 := cmd\<rparr> in
        if type = PTZ_Left \<or> type = PTZ_Right then g\<lparr>b4 := speed\<rparr>
        else if type = PTZ_Up \<or> type = PTZ_Down then g\<lparr>b5 := speed\<rparr>
        else g\<lparr>b6 := push_bit 4 (speed AND 0x0F) OR (b6 f AND 0x0F)\<rparr>)"

definition ptz_FI :: "PTZ_FI_TYPE \<Rightarrow> u8 \<Rightarrow> PTZCommand \<Rightarrow> PTZCommand" where
  "ptz_FI type speed f =
     (if b3 f > 0x4A \<or> (b3 f \<noteq> 0 \<and> b3 f < 0x40) then f
      else let cmd = b3 f OR fi_code type in
        if cmd AND 0x03 = 0x03 \<or> cmd AND 0x0C = 0x0C then f
        else let g = f\<lparr>b3 := cmd\<rparr> in
          if type = FI_FocusIn \<or> type = FI_FocusOut then g\<lparr>b4 := speed\<rparr>
          else if type = FI_IrisIn \<or> type = FI_IrisOut then g\<lparr>b5 := speed\<rparr>
          else g)"

definition ptz_Preset :: "PTZ_PRESET_TYPE \<Rightarrow> u8 \<Rightarrow> PTZCommand \<Rightarrow> PTZCommand" where
  "ptz_Preset type preset_id f = f\<lparr>b3 := preset_code type, b5 := preset_id\<rparr>"

definition ptz_Cruise :: "PTZ_CRUISE_TYPE \<Rightarrow> u8 \<Rightarrow> u16 \<Rightarrow> PTZCommand \<Rightarrow> PTZCommand" where
  "ptz_Cruise type cruise_id preset_id f =
     (let g = f\<lparr>b3 := cruise_code type, b4 := cruise_id, b5 := ucast preset_id\<rparr> in
      if type = CRUISE_SetSpeed \<or> type = CRUISE_SetStayTime
      then g\<lparr>b6 := ucast (push_bit 4 (drop_bit 8 preset_id)) OR (b6 f AND 0x0F)\<rparr>
      else g)"

definition ptz_Scan :: "u8 \<Rightarrow> ScanSubType \<Rightarrow> PTZCommand \<Rightarrow> PTZCommand" where
  "ptz_Scan group_id sub_type f =
     f\<lparr>b3 := scan_code SCAN_Start, b4 := group_id, b5 := scan_sub_code sub_type\<rparr>"

definition ptz_ScanSpeed :: "PTZ_SCAN_TYPE \<Rightarrow> u8 \<Rightarrow> u16 \<Rightarrow> PTZCommand \<Rightarrow> PTZCommand" where
  "ptz_ScanSpeed type group_id speed f =
     f\<lparr>b3 := scan_code SCAN_SetSpeed, b4 := group_id, b5 := ucast speed,
       b6 := ucast (push_bit 4 (drop_bit 8 speed)) OR (b6 f AND 0x0F)\<rparr>"

definition ptz_Aux :: "PTZ_AUX_TYPE \<Rightarrow> u8 \<Rightarrow> PTZCommand \<Rightarrow> PTZCommand" where
  "ptz_Aux type aux_id f = f\<lparr>b3 := aux_code type, b4 := aux_id\<rparr>"

section \<open>Checksums and the hexadecimal form\<close>

definition CalculateChecksum :: "PTZCommand \<Rightarrow> PTZCommand" where
  "CalculateChecksum f = f\<lparr>b7 := b6 f + b5 f + b4 f + b3 f + b2 f + b1 f + b0 f\<rparr>"

definition CalculateBytes2 :: "PTZCommand \<Rightarrow> PTZCommand" where
  "CalculateBytes2 f =
     f\<lparr>b1 := (b1 f AND 0xF0)
        OR ((drop_bit 4 (b0 f) + (b0 f AND 0x0F) + drop_bit 4 (b1 f)) mod 16)\<rparr>"

definition ValidateFrame :: "PTZCommand \<Rightarrow> bool" where
  "ValidateFrame f = (if b0 f \<noteq> 0xA5 then False else b7 (CalculateChecksum f) = b7 f)"

definition HexToByte :: "string \<Rightarrow> u8 option" where
  "HexToByte hex =
     (case hex of
        [c, d] \<Rightarrow> (case (digit_val c, digit_val d) of
                     (Some x, Some y) \<Rightarrow> Some (of_nat (16 * x + y))
                   | _ \<Rightarrow> None)
      | _ \<Rightarrow> None)"

text \<open>The octets in memory order, which \<open>FrameToHex\<close> and \<open>FromHex\<close> walk through.\<close>

definition frame_bytes :: "PTZCommand \<Rightarrow> u8 list" where
  "frame_bytes f = [b0 f, b1 f, b2 f, b3 f, b4 f, b5 f, b6 f, b7 f]"

definition byte_hex :: "u8 \<Rightarrow> string" where
  "byte_hex b = [digit_char (unat b div 16), digit_char (unat b mod 16)]"

definition FrameToHex :: "PTZCommand \<Rightarrow> string" where
  "FrameToHex f = concat (map byte_hex (frame_bytes f))"

fun hex_pairs :: "string \<Rightarrow> u8 list option" where
  "hex_pairs [] = Some []"
| "hex_pairs [c] = None"
| "hex_pairs (c # d # cs) =
     (case HexToByte [c, d] of
        None \<Rightarrow> None
      | Some b \<Rightarrow> map_option (\<lambda>bs. b # bs) (hex_pairs cs))"

definition FromHex :: "string \<Rightarrow> PTZCommand option" where
  "FromHex hex =
     (if length hex \<noteq> 16 then None
      else case hex_pairs hex of
        Some [c0, c1, c2, c3, c4, c5, c6, c7] \<Rightarrow>
          (let frame = \<lparr>b0 = c0, b1 = c1, b2 = c2, b3 = c3, b4 = c4, b5 = c5, b6 = c6, b7 = c7\<rparr>
           in if \<not> ValidateFrame frame then None else Some frame)
      | _ \<Rightarrow> None)"

definition ToHex :: "PTZCommand \<Rightarrow> string \<times> PTZCommand" where
  "ToHex f = (let g = CalculateChecksum (CalculateBytes2 f) in (FrameToHex g, g))"

section \<open>Reading a frame\<close>

definition CommandByte :: "PTZCommand \<Rightarrow> u8" where
  "CommandByte f = b3 f"

definition Param1 :: "PTZCommand \<Rightarrow> u8" where
  "Param1 f = b4 f"

definition DeviceAddress :: "PTZCommand \<Rightarrow> u16" where
  "DeviceAddress f = push_bit 8 (ucast (b6 f AND 0x0F)) OR ucast (b2 f)"

definition Param2 :: "PTZCommand \<Rightarrow> u16" where
  "Param2 f = (if b3 f = 0x86 \<or> b3 f = 0x87 \<or> b3 f = 0x8A
     then push_bit 4 (ucast (b6 f AND 0xF0)) OR ucast (b5 f) else ucast (b5 f))"

definition get_command_type :: "PTZCommand \<Rightarrow> CommandType" where
  "get_command_type f =
     (if b3 f = 0 then CT_PTZ
      else if b3 f \<le> 0x2A then CT_PTZ
      else if b3 f \<le> 0x4A then CT_FI
      else if b3 f \<ge> 0x81 \<and> b3 f \<ge> 0x83 then CT_PRESET
      else if b3 f \<ge> 0x84 \<and> b3 f \<le> 0x88 then CT_CRUISE
      else if b3 f \<ge> 0x89 \<and> b3 f \<le> 0x8A then CT_SCAN
      else if b3 f \<ge> 0x8C \<and> b3 f \<le> 0x8D then CT_AUX
      else CT_invalid)"

definition Param3 :: "PTZCommand \<Rightarrow> u8" where
  "Param3 f = (if get_command_type f = CT_PTZ then drop_bit 4 (b6 f AND 0xF0) else 0)"

text \<open>\<open>static_cast<PTZ_MOVE_TYPE>\<close> of an octet keeps the octet: the result is the raw value.\<close>

definition get_move_type :: "PTZCommand \<Rightarrow> u8" where
  "get_move_type f = (if get_command_type f = CT_PTZ then b4 f else move_code PTZ_Stop)"

definition pan_speed :: "PTZCommand \<Rightarrow> u8" where
  "pan_speed f = (if get_command_type f = CT_PTZ then b4 f else 0)"

definition tilt_speed :: "PTZCommand \<Rightarrow> u8" where
  "tilt_speed f = (if get_command_type f = CT_PTZ then b5 f else 0)"

definition zoom_speed :: "PTZCommand \<Rightarrow> u8" where
  "zoom_speed f = (if get_command_type f = CT_PTZ then drop_bit 4 (b6 f AND 0xF0) else 0)"

definition iris_speed :: "PTZCommand \<Rightarrow> u8" where
  "iris_speed f = (if get_command_type f = CT_FI then b5 f else 0)"

definition focus_speed :: "PTZCommand \<Rightarrow> u8" where
  "focus_speed f = (if get_command_type f = CT_FI then b4 f else 0)"

definition get_preset_id :: "PTZCommand \<Rightarrow> u8" where
  "get_preset_id f =
     (if get_command_type f = CT_PRESET then b5 f
      else if get_command_type f = CT_CRUISE then (if b3 f = 0x84 \<or> b3 f = 0x85 then b5 f else 0)
      else 0)"

definition get_crusie_id :: "PTZCommand \<Rightarrow> u8" where
  "get_crusie_id f = (if get_command_type f = CT_CRUISE then b4 f else 0)"

definition get_cruise_speed :: "PTZCommand \<Rightarrow> u16" where
  "get_cruise_speed f =
     (if b3 f = 0x86 then ucast (b5 f) OR push_bit 4 (ucast (b6 f AND 0xF0)) else 0)"

definition get_cruise_stay_time :: "PTZCommand \<Rightarrow> u16" where
  "get_cruise_stay_time f =
     (if b3 f = 0x87 then ucast (b5 f) OR push_bit 4 (ucast (b6 f AND 0xF0)) else 0)"

definition get_aux_id :: "PTZCommand \<Rightarrow> u8" where
  "get_aux_id f = (if get_command_type f = CT_AUX then b4 f else 0)"

section \<open>Hexadecimal text and back\<close>

lemma HexToByte_byte_hex [simp]: "HexToByte (byte_hex b) = Some b"
proof -
  have "unat b < 256" using unsigned_less[of b] by simp
  moreover have "16 * (unat b div 16) + unat b mod 16 = unat b" by simp
  ultimately show ?thesis
    by (simp add: HexToByte_def byte_hex_def less_mult_imp_div_less del: of_nat_add of_nat_mult)
qed

lemma hex_pairs_byte_hex: "hex_pairs (byte_hex b @ s) = map_option (\<lambda>bs. b # bs) (hex_pairs s)"
  using HexToByte_byte_hex[of b] by (simp add: byte_hex_def)

lemma hex_pairs_concat [simp]: "hex_pairs (concat (map byte_hex bs)) = Some bs"
  by (induction bs) (simp_all add: hex_pairs_byte_hex)

lemma length_byte_hex_concat: "length (concat (map byte_hex bs)) = 2 * length bs"
  by (induction bs) (simp_all add: byte_hex_def)

lemma length_frame_bytes [simp]: "length (frame_bytes f) = 8"
  by (simp add: frame_bytes_def)

lemma hex_pairs_length: "hex_pairs s = Some bs \<Longrightarrow> length s = 2 * length bs"
  by (induction s arbitrary: bs rule: hex_pairs.induct) (auto split: option.splits)

lemma frame_bytes_inject: "frame_bytes f = [c0, c1, c2, c3, c4, c5, c6, c7] \<longleftrightarrow>
    f = \<lparr>b0 = c0, b1 = c1, b2 = c2, b3 = c3, b4 = c4, b5 = c5, b6 = c6, b7 = c7\<rparr>"
  by (cases f) (simp add: frame_bytes_def)

lemma ValidateFrame_iff:
  "ValidateFrame f \<longleftrightarrow> b0 f = 0xA5 \<and> b7 f = b6 f + b5 f + b4 f + b3 f + b2 f + b1 f + b0 f"
  by (auto simp: ValidateFrame_def CalculateChecksum_def)

lemma length8E:
  assumes "length bs = 8"
  obtains c0 c1 c2 c3 c4 c5 c6 c7 where "bs = [c0, c1, c2, c3, c4, c5, c6, c7]"
  using assms by (auto simp: length_Suc_conv numeral_eq_Suc)

text \<open>What \<open>FromHex\<close> computes from any list of eight octets.\<close>

lemma FromHex_bytes:
  "FromHex (concat (map byte_hex [c0, c1, c2, c3, c4, c5, c6, c7])) =
     (let f = \<lparr>b0 = c0, b1 = c1, b2 = c2, b3 = c3, b4 = c4, b5 = c5, b6 = c6, b7 = c7\<rparr>
      in if ValidateFrame f then Some f else None)"
  unfolding FromHex_def length_byte_hex_concat hex_pairs_concat by (simp add: Let_def)

lemma FromHex_FrameToHex: "ValidateFrame f \<Longrightarrow> FromHex (FrameToHex f) = Some f"
  by (cases f) (simp add: FrameToHex_def frame_bytes_def FromHex_bytes del: concat.simps list.map)

lemma ToHex_valid: "b0 f = 0xA5 \<Longrightarrow> ValidateFrame (snd (ToHex f))"
  by (simp add: ToHex_def ValidateFrame_iff CalculateChecksum_def CalculateBytes2_def Let_def)

lemma fst_ToHex: "fst (ToHex f) = FrameToHex (snd (ToHex f))"
  by (simp add: ToHex_def Let_def)

lemma FromHex_Some_iff:
  "FromHex s = Some f \<longleftrightarrow> length s = 16 \<and> hex_pairs s = Some (frame_bytes f) \<and> ValidateFrame f"
proof
  assume a: "FromHex s = Some f"
  then obtain bs where bs: "hex_pairs s = Some bs" and l: "length s = 16"
    by (auto simp: FromHex_def split: if_splits option.splits)
  with hex_pairs_length[OF bs] have "length bs = 8" by simp
  then obtain c0 c1 c2 c3 c4 c5 c6 c7 where "bs = [c0, c1, c2, c3, c4, c5, c6, c7]"
    by (rule length8E)
  with a bs l show "length s = 16 \<and> hex_pairs s = Some (frame_bytes f) \<and> ValidateFrame f"
    by (auto simp: FromHex_def Let_def frame_bytes_def split: if_splits)
next
  assume "length s = 16 \<and> hex_pairs s = Some (frame_bytes f) \<and> ValidateFrame f"
  then show "FromHex s = Some f" by (cases f) (simp add: FromHex_def frame_bytes_def)
qed

section \<open>Bit-level lemmas\<close>

lemma nibble_mask: "(0x0F :: 'a::len word) = mask 4"
  by (simp add: mask_numeral)

lemma shifted_nibble [simp]: "push_bit 4 (x :: u8) AND 0x0F = 0"
  unfolding nibble_mask by (rule bit_eqI) (auto simp: bit_simps)

lemma shifted_nibble16 [simp]: "(ucast (push_bit 4 (x :: u16)) :: u8) AND 0x0F = 0"
  unfolding nibble_mask by (rule bit_eqI) (auto simp: bit_simps)

lemma addr_nibble [simp]:
  "(ucast (drop_bit 8 (a :: u16) AND 0x0F) :: u8) AND 0x0F = ucast (drop_bit 8 a AND 0x0F)"
  unfolding nibble_mask by (rule bit_eqI) (auto simp: bit_simps)

lemma low_nibble_or: "(x OR y) AND 0x0F = (x AND 0x0F) OR (y AND 0x0F)" for x y :: u8
  by (simp add: bit.conj_disj_distrib2)

lemma high_nibble_back: "drop_bit 4 ((push_bit 4 (s AND 0x0F) OR (b AND 0x0F)) AND 0xF0) = s AND 0x0F"
  for s b :: u8
proof -
  have m: "(0x0F :: u8) = mask 4" "(0xF0 :: u8) = push_bit 4 (mask 4)"
    by (simp_all add: mask_numeral)
  show ?thesis unfolding m by (rule bit_eqI) (auto simp: bit_simps)
qed

lemma addr_bits:
  fixes a :: u16 and b :: u8
  assumes b: "b AND 0x0F = ucast (drop_bit 8 a AND 0x0F)"
  shows "push_bit 8 (ucast (b AND 0x0F)) OR ucast (ucast a :: u8) = a AND 0x0FFF"
proof -
  have m: "(0x0F :: u16) = mask 4" "(0x0FFF :: u16) = mask 12" by (simp_all add: mask_numeral)
  show ?thesis unfolding b m by (rule bit_eqI) (auto simp: bit_simps)
qed

lemma twelve_bits:
  "ucast (ucast n :: u8) OR
     push_bit 4 (ucast ((ucast (push_bit 4 (drop_bit 8 n)) OR (b AND 0x0F)) AND 0xF0 :: u8))
   = n AND 0x0FFF" for n :: u16 and b :: u8
proof -
  have m: "(0x0F :: u8) = mask 4" "(0xF0 :: u8) = push_bit 4 (mask 4)" "(0x0FFF :: u16) = mask 12"
    by (simp_all add: mask_numeral)
  show ?thesis unfolding m by (rule bit_eqI) (auto simp: bit_simps)
qed

lemma below_fi: "\<not> 0x4A < c \<Longrightarrow> c < 0x80" for c :: u8
  by (simp add: not_less) (erule order.strict_trans1, simp)

lemma fi_code_zoom: "(b OR fi_code u) AND 0x30 = b AND 0x30"
  by (cases u) (simp_all add: bit.conj_disj_distrib2)

section \<open>Frames built through the interface\<close>

text \<open>
  The frames a client can hold: made by the constructor with an address, then changed by any
  sequence of the mutators and \<open>ToHex\<close>.
\<close>

inductive ptz_built :: "u16 \<Rightarrow> PTZCommand \<Rightarrow> bool" for a where
  built_new: "ptz_built a (PTZCommand_new a)"
| built_Move: "ptz_built a f \<Longrightarrow> ptz_built a (ptz_Move t s f)"
| built_FI: "ptz_built a f \<Longrightarrow> ptz_built a (ptz_FI u s f)"
| built_Preset: "ptz_built a f \<Longrightarrow> ptz_built a (ptz_Preset p i f)"
| built_Cruise: "ptz_built a f \<Longrightarrow> ptz_built a (ptz_Cruise c i n f)"
| built_Scan: "ptz_built a f \<Longrightarrow> ptz_built a (ptz_Scan i d f)"
| built_ScanSpeed: "ptz_built a f \<Longrightarrow> ptz_built a (ptz_ScanSpeed y i n f)"
| built_Aux: "ptz_built a f \<Longrightarrow> ptz_built a (ptz_Aux x i f)"
| built_ToHex: "ptz_built a f \<Longrightarrow> ptz_built a (snd (ToHex f))"

text \<open>No two opposite motions at once: left/right, up/down (or the two iris bits), zoom in/out.\<close>

definition no_conflict :: "u8 \<Rightarrow> bool" where
  "no_conflict c \<longleftrightarrow> c AND 0x03 \<noteq> 0x03 \<and> c AND 0x0C \<noteq> 0x0C \<and> c AND 0x30 \<noteq> 0x30"

definition ptz_inv :: "u16 \<Rightarrow> PTZCommand \<Rightarrow> bool" where
  "ptz_inv a f \<longleftrightarrow> b0 f = 0xA5 \<and> b2 f = ucast a \<and> b6 f AND 0x0F = ucast (drop_bit 8 a AND 0x0F)
     \<and> (b3 f < 0x80 \<longrightarrow> no_conflict (b3 f))"

lemma inv_new: "ptz_inv a (PTZCommand_new a)"
  by (simp add: ptz_inv_def PTZCommand_new_def no_conflict_def)

lemma inv_Move: "ptz_inv a f \<Longrightarrow> ptz_inv a (ptz_Move t s f)"
  by (auto simp: ptz_inv_def ptz_Move_def no_conflict_def Let_def low_nibble_or and.assoc)

lemma inv_FI: "ptz_inv a f \<Longrightarrow> ptz_inv a (ptz_FI t s f)"
  by (auto simp: ptz_inv_def ptz_FI_def no_conflict_def Let_def fi_code_zoom dest: below_fi)

lemma inv_Preset: "ptz_inv a f \<Longrightarrow> ptz_inv a (ptz_Preset t s f)"
  by (cases t) (auto simp: ptz_inv_def ptz_Preset_def)

lemma inv_Cruise: "ptz_inv a f \<Longrightarrow> ptz_inv a (ptz_Cruise t s n f)"
  by (cases t) (auto simp: ptz_inv_def ptz_Cruise_def Let_def low_nibble_or and.assoc)

lemma inv_Scan: "ptz_inv a f \<Longrightarrow> ptz_inv a (ptz_Scan t s f)"
  by (auto simp: ptz_inv_def ptz_Scan_def)

lemma inv_ScanSpeed: "ptz_inv a f \<Longrightarrow> ptz_inv a (ptz_ScanSpeed t s n f)"
  by (auto simp: ptz_inv_def ptz_ScanSpeed_def low_nibble_or and.assoc)

lemma inv_Aux: "ptz_inv a f \<Longrightarrow> ptz_inv a (ptz_Aux t s f)"
  by (cases t) (auto simp: ptz_inv_def ptz_Aux_def)

lemma inv_ToHex: "ptz_inv a f \<Longrightarrow> ptz_inv a (snd (ToHex f))"
  by (simp add: ptz_inv_def ToHex_def Let_def CalculateChecksum_def CalculateBytes2_def)

lemmas ptz_inv_steps = inv_new inv_Move inv_FI inv_Preset inv_Cruise inv_Scan inv_ScanSpeed inv_Aux
  inv_ToHex

lemma ptz_built_inv: "ptz_built a f \<Longrightarrow> ptz_inv a f"
  by (induction rule: ptz_built.induct) (auto intro: ptz_inv_steps)

lemma ptz_inv_address: "ptz_inv a f \<Longrightarrow> DeviceAddress f = a AND 0x0FFF"
  using addr_bits[of "b6 f" a] by (simp add: ptz_inv_def DeviceAddress_def)

lemma ToHex_payload:
  "b2 (snd (ToHex f)) = b2 f" "b3 (snd (ToHex f)) = b3 f" "b4 (snd (ToHex f)) = b4 f"
  "b5 (snd (ToHex f)) = b5 f" "b6 (snd (ToHex f)) = b6 f" "b0 (snd (ToHex f)) = b0 f"
  by (simp_all add: ToHex_def Let_def CalculateChecksum_def CalculateBytes2_def)

section \<open>Properties\<close>

text \<open>
  C11. Every frame built through the interface survives the wire: \<open>FromHex\<close> of the text
  \<open>ToHex\<close> sends returns exactly the frame \<open>ToHex\<close> left behind, with the device address
  of the constructor (12 bits) and the command and parameter octets unchanged.
\<close>

theorem ptz_hex_roundtrip:
  assumes "ptz_built a f"
  shows "FromHex (fst (ToHex f)) = Some (snd (ToHex f))
    \<and> DeviceAddress (snd (ToHex f)) = a AND 0x0FFF
    \<and> CommandByte (snd (ToHex f)) = CommandByte f \<and> Param1 (snd (ToHex f)) = Param1 f
    \<and> Param2 (snd (ToHex f)) = Param2 f"
proof -
  from assms have inv: "ptz_inv a f" by (rule ptz_built_inv)
  then have "ValidateFrame (snd (ToHex f))" by (intro ToHex_valid) (simp add: ptz_inv_def)
  then show ?thesis
    using ptz_inv_address[OF inv_ToHex[OF inv]]
    by (simp add: fst_ToHex FromHex_FrameToHex CommandByte_def Param1_def Param2_def ToHex_payload)
qed

theorem ptz_hex_roundtrip_witness:
  "FromHex (fst (ToHex (ptz_Move PTZ_Left 0x20 (PTZCommand_new 0x0ABC))))
     = Some (snd (ToHex (ptz_Move PTZ_Left 0x20 (PTZCommand_new 0x0ABC))))"
  using ptz_hex_roundtrip[OF built_Move[OF built_new[of "0x0ABC"], of PTZ_Left "0x20"]] by blast

text \<open>
  C38. No sequence of the mutators corrupts the frame header or the device address, and a frame
  whose command octet is a motion or lens command never asks for two opposite motions at once.
\<close>

theorem ptz_built_safe:
  assumes "ptz_built a f"
  shows "b0 f = 0xA5 \<and> DeviceAddress f = a AND 0x0FFF \<and> (b3 f < 0x80 \<longrightarrow> no_conflict (b3 f))"
  using ptz_built_inv[OF assms] ptz_inv_address[of a f] by (auto simp: ptz_inv_def)

theorem ptz_built_safe_witness:
  "b3 (ptz_Move PTZ_Left 7 (ptz_Move PTZ_Right 9 (PTZCommand_new 5))) = 1
   \<and> no_conflict (b3 (ptz_Move PTZ_Left 7 (ptz_Move PTZ_Right 9 (PTZCommand_new 5))))"
proof -
  have "ptz_built 5 (ptz_Move PTZ_Left 7 (ptz_Move PTZ_Right 9 (PTZCommand_new 5)))"
    by (intro ptz_built.intros)
  from ptz_built_safe[OF this] show ?thesis
    by (simp add: ptz_Move_def PTZCommand_new_def Let_def)
qed

text \<open>
  \<open>FromHex\<close> accepts exactly the texts of sixteen hexadecimal digits whose octets start
  with \<open>A5\<close> and end with the sum of the others, and it returns those octets.
\<close>

theorem ptz_FromHex_accepts:
  "FromHex s = Some f \<longleftrightarrow>
     length s = 16 \<and> hex_pairs s = Some (frame_bytes f) \<and> b0 f = 0xA5
     \<and> b7 f = sum_list (take 7 (frame_bytes f))"
  by (auto simp: FromHex_Some_iff ValidateFrame_iff frame_bytes_def add.commute add.left_commute)

text \<open>
  A single corrupted octet is always detected: changing any one octet of a valid frame
  makes \<open>FromHex\<close> reject the text.
\<close>

theorem ptz_single_corruption_detected:
  assumes "ValidateFrame f" and "i < 8" and "b \<noteq> frame_bytes f ! i"
  shows "FromHex (concat (map byte_hex ((frame_bytes f)[i := b]))) = None"
proof (rule ccontr)
  assume "\<not> ?thesis"
  then obtain g where "FromHex (concat (map byte_hex ((frame_bytes f)[i := b]))) = Some g" by auto
  then have g: "frame_bytes g = (frame_bytes f)[i := b]" "ValidateFrame g"
    by (auto simp: FromHex_Some_iff)
  have "i \<in> {0, 1, 2, 3, 4, 5, 6, 7}" using assms(2) by auto
  with g assms(1,3) show False by (auto simp: ValidateFrame_iff frame_bytes_def)
qed

theorem ptz_single_corruption_detected_witness:
  "FromHex (concat (map byte_hex ((frame_bytes (snd (ToHex (PTZCommand_new 1))))[3 := 0x08]))) = None"
proof -
  have "ValidateFrame (snd (ToHex (PTZCommand_new 1)))"
    by (rule ToHex_valid) (simp add: PTZCommand_new_def)
  moreover have "(0x08 :: u8) \<noteq> frame_bytes (snd (ToHex (PTZCommand_new 1))) ! 3"
    by (simp add: frame_bytes_def ToHex_payload PTZCommand_new_def)
  ultimately show ?thesis by (intro ptz_single_corruption_detected) simp_all
qed

text \<open>
  The twelve-bit values survive their split over two octets: a cruise speed or stay time
  set on any frame is read back modulo 4096, and so is a scan speed through \<open>Param2\<close>.
\<close>

theorem ptz_twelve_bit_values:
  "get_cruise_speed (ptz_Cruise CRUISE_SetSpeed c n f) = n AND 0x0FFF
   \<and> get_cruise_stay_time (ptz_Cruise CRUISE_SetStayTime c n f) = n AND 0x0FFF
   \<and> Param2 (ptz_ScanSpeed y c n f) = n AND 0x0FFF"
  using twelve_bits[of n "b6 f"]
  by (simp add: get_cruise_speed_def get_cruise_stay_time_def Param2_def ptz_Cruise_def
      ptz_ScanSpeed_def or.commute)

text \<open>
  The motion and lens speeds set on a fresh frame are read back by the accessor of the same
  axis (the zoom speed in its four bits), and the frame is classified as a motion or lens command.
\<close>

theorem ptz_speeds_read_back:
  "pan_speed (ptz_Move PTZ_Left s (PTZCommand_new a)) = s
   \<and> tilt_speed (ptz_Move PTZ_Up s (PTZCommand_new a)) = s
   \<and> zoom_speed (ptz_Move PTZ_ZoomIn s (PTZCommand_new a)) = s AND 0x0F
   \<and> Param3 (ptz_Move PTZ_ZoomOut s (PTZCommand_new a)) = s AND 0x0F
   \<and> focus_speed (ptz_FI FI_FocusIn s (PTZCommand_new a)) = s
   \<and> iris_speed (ptz_FI FI_IrisOut s (PTZCommand_new a)) = s"
  using high_nibble_back[of s "ucast (drop_bit 8 a AND 0x0F)"]
  by (simp add: pan_speed_def tilt_speed_def zoom_speed_def Param3_def focus_speed_def iris_speed_def
      ptz_Move_def ptz_FI_def get_command_type_def PTZCommand_new_def Let_def)

text \<open>
  The classification of the commands with the top bit set: because the preset test reads
  \<open>>= 0x81 && >= 0x83\<close>, setting and calling a preset are classified as invalid, every cruise, scan
  and auxiliary command as a preset, and the cruise and auxiliary numbers always read as zero.
\<close>

theorem ptz_high_commands_misclassified:
  "get_command_type (ptz_Preset PRESET_SetPreset i f) = CT_invalid
   \<and> get_command_type (ptz_Preset PRESET_CallPreset i f) = CT_invalid
   \<and> get_preset_id (ptz_Preset PRESET_CallPreset i f) = 0
   \<and> get_command_type (ptz_Cruise c k n f) = CT_PRESET
   \<and> get_command_type (ptz_Scan k d f) = CT_PRESET
   \<and> get_command_type (ptz_Aux x k f) = CT_PRESET
   \<and> get_crusie_id g = 0 \<and> get_aux_id g = 0"
proof -
  have "get_command_type (ptz_Cruise c k n f) = CT_PRESET"
    by (cases c) (simp_all add: get_command_type_def ptz_Cruise_def Let_def)
  moreover have "get_command_type (ptz_Aux x k f) = CT_PRESET"
    by (cases x) (simp_all add: get_command_type_def ptz_Aux_def)
  moreover have "get_command_type g \<noteq> CT_CRUISE" "get_command_type g \<noteq> CT_AUX"
    by (auto simp: get_command_type_def word_le_nat_alt)
  ultimately show ?thesis
    by (simp add: get_preset_id_def get_crusie_id_def get_aux_id_def get_command_type_def
        ptz_Preset_def ptz_Scan_def)
qed

text \<open>The move type getter returns the horizontal speed octet, not the motion bits.\<close>

lemma ptz_move_type_is_pan_speed: "get_command_type f = CT_PTZ \<Longrightarrow> get_move_type f = pan_speed f"
  by (simp add: get_move_type_def pan_speed_def)

end
