(* ===== verification/Enums.thy ===== *)
theory Enums
  imports Prelude
begin

text \<open>
  The enumerations of \<open>include/gb28181/type_define.h\<close> and the conversions between them and
  their wire names in \<open>src/type_define_ext.cpp\<close>. Each X-macro map of the header is an
  association list of enumerator, value and name, in the header's order; the functions the
  macros generate are one definition over such a list, and the locale \<open>enum_map\<close> states what
  a map has to satisfy for the generated functions to be inverse to each other. Every map of
  the header is an interpretation.
\<close>

section \<open>Enumerations\<close>

datatype SipAuthType = Auth_none | Auth_digest | Auth_sm

datatype CharEncodingType = Enc_invalid | Enc_utf8 | Enc_gb2312 | Enc_gbk

datatype TransportType = Transport_none | Transport_udp | Transport_tcp | Transport_both

datatype PlatformManufacturer =
  Manu_unknown | Manu_self | Manu_hikvision | Manu_dahua | Manu_uniview | Manu_huawei | Manu_gongan

datatype PlatformVersionType = Ver_unknown | Ver_v10 | Ver_v11 | Ver_v20 | Ver_v30

datatype PlatformStatusType =
  Plat_offline | Plat_registering | Plat_online | Plat_network_error | Plat_auth_failure

datatype MessageRootType = Root_invalid | Root_Query | Root_Control | Root_Notify | Root_Response

datatype MessageCmdType =
    Cmd_invalid | Cmd_DeviceControl | Cmd_DeviceConfig | Cmd_DeviceStatus | Cmd_Catalog
  | Cmd_DeviceInfo | Cmd_RecordInfo | Cmd_Alarm | Cmd_ConfigDownload | Cmd_PresetQuery
  | Cmd_MobilePosition | Cmd_HomePositionQuery | Cmd_CruiseTrackListQuery | Cmd_CruiseTrackQuery
  | Cmd_PTZPosition | Cmd_SDCardStatus | Cmd_Keepalive | Cmd_MediaStatus | Cmd_Broadcast
  | Cmd_UploadSnapShotFinished | Cmd_VideoUploadNotify | Cmd_DeviceUpgradeResult

datatype SubscribeType =
  Sub_invalid | Sub_Catalog | Sub_Alarm | Sub_MobilePosition | Sub_PTZPosition

datatype ResultType = Result_invalid | Result_OK | Result_Error

datatype OnlineType = Online_invalid | Online_ONLINE | Online_OFFLINE

datatype RecordType = Record_invalid | Record_Record | Record_StopRecord

datatype GuardType = Guard_invalid | Guard_SetGuard | Guard_ResetGuard

datatype StatusType = Status_invalid | Status_ON | Status_OFF

datatype ItemEventType =
    Event_invalid | Event_ON | Event_OFF | Event_VLOST | Event_DEFECT | Event_ADD | Event_DEL
  | Event_UPDATE

datatype TargetTraceType = Trace_invalid | Trace_Auto | Trace_Manual | Trace_Stop

datatype DutyStatusType = Duty_invalid | Duty_ONDUTY | Duty_OFFDUTY | Duty_ALARM

text \<open>
  \<open>DeviceConfigType\<close> is used as a set of flags (\<open>operator|\<close>, \<open>operator&\<close>) and
  \<open>FrameMirrorType\<close> is cast from any integer, so both are their underlying word.
\<close>

type_synonym DeviceConfigType = u32
type_synonym FrameMirrorType = u32

section \<open>X-macro maps\<close>

type_synonym 'a xmap = "('a \<times> nat \<times> string) list"

definition GB28181_XML_ROOT_MAP :: "MessageRootType xmap" where
  "GB28181_XML_ROOT_MAP =
     [(Root_Query, 1, ''Query''), (Root_Control, 2, ''Control''), (Root_Notify, 3, ''Notify''),
      (Root_Response, 4, ''Response'')]"

definition GB28181_XML_CMD_MAP :: "MessageCmdType xmap" where
  "GB28181_XML_CMD_MAP =
     [(Cmd_DeviceControl, 1, ''DeviceControl''), (Cmd_DeviceConfig, 2, ''DeviceConfig''),
      (Cmd_DeviceStatus, 3, ''DeviceStatus''), (Cmd_Catalog, 4, ''Catalog''),
      (Cmd_DeviceInfo, 5, ''DeviceInfo''), (Cmd_RecordInfo, 6, ''RecordInfo''),
      (Cmd_Alarm, 7, ''Alarm''), (Cmd_ConfigDownload, 8, ''ConfigDownload''),
      (Cmd_PresetQuery, 9, ''PresetQuery''), (Cmd_MobilePosition, 10, ''MobilePosition''),
      (Cmd_HomePositionQuery, 11, ''HomePositionQuery''),
      (Cmd_CruiseTrackListQuery, 12, ''CruiseTrackListQuery''),
      (Cmd_CruiseTrackQuery, 13, ''CruiseTrackQuery''), (Cmd_PTZPosition, 14, ''PTZPosition''),
      (Cmd_SDCardStatus, 15, ''SDCardStatus''), (Cmd_Keepalive, 16, ''Keepalive''),
      (Cmd_MediaStatus, 17, ''MediaStatus''), (Cmd_Broadcast, 18, ''Broadcast''),
      (Cmd_UploadSnapShotFinished, 19, ''UploadSnapShotFinished''),
      (Cmd_VideoUploadNotify, 20, ''VideoUploadNotify''),
      (Cmd_DeviceUpgradeResult, 21, ''DeviceUpgradeResult'')]"

definition SubscribeTypeMap :: "SubscribeType xmap" where
  "SubscribeTypeMap =
     [(Sub_Catalog, 1, ''Catalog''), (Sub_Alarm, 2, ''Alarm''),
      (Sub_MobilePosition, 3, ''MobilePosition''), (Sub_PTZPosition, 4, ''PTZPosition'')]"

definition ResultTypeMap :: "ResultType xmap" where
  "ResultTypeMap = [(Result_OK, 1, ''OK''), (Result_Error, 2, ''ERROR'')]"

definition OnlineTypeMap :: "OnlineType xmap" where
  "OnlineTypeMap = [(Online_ONLINE, 1, ''ONLINE''), (Online_OFFLINE, 2, ''OFFLINE'')]"

definition RecordTypeMap :: "RecordType xmap" where
  "RecordTypeMap = [(Record_Record, 1, ''Record''), (Record_StopRecord, 2, ''StopRecord'')]"

definition GuardTypeMap :: "GuardType xmap" where
  "GuardTypeMap = [(Guard_SetGuard, 1, ''SetGuard''), (Guard_ResetGuard, 2, ''ResetGuard'')]"

definition StatusTypeMap :: "StatusType xmap" where
  "StatusTypeMap = [(Status_ON, 1, ''ON''), (Status_OFF, 2, ''OFF'')]"

definition ItemEventTypeMap :: "ItemEventType xmap" where
  "ItemEventTypeMap =
     [(Event_ON, 1, ''ON''), (Event_OFF, 2, ''OFF''), (Event_VLOST, 3, ''VLOST''),
      (Event_DEFECT, 4, ''DEFECT''), (Event_ADD, 5, ''ADD''), (Event_DEL, 6, ''DEL''),
      (Event_UPDATE, 7, ''UPDATE'')]"

definition TargetTraceTypeMap :: "TargetTraceType xmap" where
  "TargetTraceTypeMap =
     [(Trace_Auto, 1, ''Auto''), (Trace_Manual, 2, ''Manual''), (Trace_Stop, 3, ''Stop'')]"

definition DutyStatusTypeMap :: "DutyStatusType xmap" where
  "DutyStatusTypeMap =
     [(Duty_ONDUTY, 1, ''ONDUTY''), (Duty_OFFDUTY, 2, ''OFFDUTY''), (Duty_ALARM, 3, ''ALARM'')]"

definition DeviceConfigTypeMap :: "(DeviceConfigType \<times> string) list" where
  "DeviceConfigTypeMap =
     [(1, ''BasicParam''), (push_bit 1 1, ''VideoParamOpt''), (push_bit 2 1, ''SVACEncodeConfig''),
      (push_bit 3 1, ''SVACDecodeConfig''), (push_bit 4 1, ''VideoParamAttribute''),
      (push_bit 5 1, ''VideoRecordPlan''), (push_bit 6 1, ''VideoAlarmRecord''),
      (push_bit 7 1, ''PictureMask''), (push_bit 8 1, ''FrameMirror''),
      (push_bit 9 1, ''AlarmReport''), (push_bit 10 1, ''OSDConfig''),
      (push_bit 11 1, ''SnapShotConfig'')]"

section \<open>The functions the macros generate\<close>

text \<open>
  \<open>static_cast<int>(type)\<close> for an enumerator, 0 for the one the map does not list
  (\<open>invalid = 0\<close> in every enumeration).
\<close>

definition xmap_value :: "'a xmap \<Rightarrow> 'a \<Rightarrow> nat" where
  "xmap_value m type = (case map_of m type of None \<Rightarrow> 0 | Some (v, _) \<Rightarrow> v)"

text \<open>\<open>GET_ENUM_TYPE_STR\<close>: a switch over the enumerators, \<open>nullptr\<close> by default.\<close>

definition xmap_string :: "'a xmap \<Rightarrow> 'a \<Rightarrow> string option" where
  "xmap_string m type = map_option snd (map_of m type)"

text \<open>
  \<open>MAKE_GET_ENUM_TYPE_FUNC\<close>: \<open>invalid\<close> for a null or empty string, else the first enumerator
  whose name is equal up to case, else \<open>invalid\<close>.
\<close>

definition xmap_get :: "'a xmap \<Rightarrow> 'a \<Rightarrow> string option \<Rightarrow> 'a" where
  "xmap_get m bad val =
     (case val of
        None \<Rightarrow> bad
      | Some s \<Rightarrow> if s = [] then bad
                  else (case find (\<lambda>(_, _, str). strcaseeq str s) m of
                          None \<Rightarrow> bad
                        | Some (n, _, _) \<Rightarrow> n))"

definition getRootType :: "string option \<Rightarrow> MessageRootType" where
  "getRootType val =
     (case val of
        None \<Rightarrow> Root_invalid
      | Some s \<Rightarrow> (case find (\<lambda>(_, _, str). strcaseeq str s) GB28181_XML_ROOT_MAP of
                     None \<Rightarrow> Root_invalid
                   | Some (n, _, _) \<Rightarrow> n))"

definition getRootTypeString :: "MessageRootType \<Rightarrow> string option" where
  "getRootTypeString = xmap_string GB28181_XML_ROOT_MAP"

definition getCmdType :: "string option \<Rightarrow> MessageCmdType" where
  "getCmdType val =
     (case val of
        None \<Rightarrow> Cmd_invalid
      | Some s \<Rightarrow> (case find (\<lambda>(_, _, str). strcaseeq str s) GB28181_XML_CMD_MAP of
                     None \<Rightarrow> Cmd_invalid
                   | Some (n, _, _) \<Rightarrow> n))"

definition getCmdTypeString :: "MessageCmdType \<Rightarrow> string option" where
  "getCmdTypeString = xmap_string GB28181_XML_CMD_MAP"

text \<open>\<open>operator<<\<close> of the root and command types.\<close>

definition print_cmd :: "MessageCmdType \<Rightarrow> string" where
  "print_cmd type = (case getCmdTypeString type of None \<Rightarrow> ''Unknown'' | Some s \<Rightarrow> s)"

definition print_root :: "MessageRootType \<Rightarrow> string" where
  "print_root type = (case getRootTypeString type of None \<Rightarrow> ''Unknown'' | Some s \<Rightarrow> s)"

section \<open>The interface of a map\<close>

text \<open>
  What the header promises of each map: no enumerator and no value occurs twice, the invalid
  enumerator is not listed and no value is its 0, and the names are not empty and differ
  by more than case.
\<close>

locale enum_map =
  fixes m :: "'a xmap" and bad :: 'a
  assumes distinct_enumerators: "distinct (map fst m)"
    and distinct_values: "distinct (map (\<lambda>(_, v, _). v) m)"
    and values_positive: "(n, v, s) \<in> set m \<Longrightarrow> 0 < v"
    and distinct_names: "distinct (map (\<lambda>(_, _, s). map tolower s) m)"
    and names_nonempty: "(n, v, s) \<in> set m \<Longrightarrow> s \<noteq> []"
    and invalid_unlisted: "bad \<notin> fst ` set m"
begin

lemma string_iff: "xmap_string m t = Some s \<longleftrightarrow> (\<exists>v. (t, v, s) \<in> set m)"
  using distinct_enumerators by (auto simp: xmap_string_def map_of_eq_Some_iff)

lemma string_None_iff: "xmap_string m t = None \<longleftrightarrow> t \<notin> fst ` set m"
  by (simp add: xmap_string_def map_of_eq_None_iff)

lemma invalid_has_no_name: "xmap_string m bad = None"
  using invalid_unlisted by (simp add: string_None_iff)

lemma find_name:
  assumes "(t, v, s) \<in> set m" and "strcaseeq s s'"
  shows "find (\<lambda>(_, _, str). strcaseeq str s') m = Some (t, v, s)"
proof -
  have "find (\<lambda>(_, _, str). map tolower str = map tolower s') xs = Some (t, v, s)"
    if "(t, v, s) \<in> set xs" "distinct (map (\<lambda>(_, _, s). map tolower s) xs)" for xs
    using that assms(2)
    by (induction xs) (force simp: strcaseeq_def)+
  from this[OF assms(1) distinct_names] show ?thesis by (simp add: strcaseeq_def)
qed

text \<open>Parsing the printed name, in any capitalisation, gives the enumerator back.\<close>

lemma get_string:
  assumes "xmap_string m t = Some s" and "strcaseeq s s'"
  shows "xmap_get m bad (Some s') = t"
proof -
  from assms(1) obtain v where v: "(t, v, s) \<in> set m" by (auto simp: string_iff)
  have "s' \<noteq> []" using names_nonempty[OF v] assms(2) by (auto simp: strcaseeq_def)
  then show ?thesis by (simp add: xmap_get_def find_name[OF v assms(2)])
qed

lemma get_valid:
  assumes "xmap_get m bad val = t" and "t \<noteq> bad"
  obtains s s' where "val = Some s'" and "xmap_string m t = Some s" and "strcaseeq s s'"
proof -
  from assms obtain s' n v s where "val = Some s'"
    and "find (\<lambda>(_, _, str). strcaseeq str s') m = Some (n, v, s)" and "n = t"
    by (auto simp: xmap_get_def split: option.splits if_splits)
  moreover from this have "(t, v, s) \<in> set m" "strcaseeq s s'" by (auto dest: find_SomeD)
  ultimately show thesis using that string_iff by blast
qed

lemma get_iff:
  "t \<noteq> bad \<Longrightarrow> xmap_get m bad val = t \<longleftrightarrow>
     (\<exists>s s'. val = Some s' \<and> xmap_string m t = Some s \<and> strcaseeq s s')"
  by (metis get_valid get_string)

lemma value_inj:
  assumes "t \<in> fst ` set m" and "xmap_value m t = xmap_value m u"
  shows "t = u"
proof -
  from assms(1) obtain v s where t: "(t, v, s) \<in> set m" by auto
  then have mt: "map_of m t = Some (v, s)" using distinct_enumerators by simp
  then have "xmap_value m u = v" "0 < v"
    using assms(2) values_positive[OF t] by (auto simp: xmap_value_def)
  then obtain s' where "map_of m u = Some (v, s')"
    by (auto simp: xmap_value_def split: option.splits)
  then have u: "(u, v, s') \<in> set m" by (rule map_of_SomeD)
  have "distinct (map (\<lambda>(_, v, _). v) xs) \<Longrightarrow> (t, v, s) \<in> set xs \<Longrightarrow> (u, v, s') \<in> set xs \<Longrightarrow> t = u"
    for xs by (induction xs) force+
  from this[OF distinct_values t u] show ?thesis .
qed

end

lemmas xmap_defs = GB28181_XML_ROOT_MAP_def GB28181_XML_CMD_MAP_def SubscribeTypeMap_def
  ResultTypeMap_def OnlineTypeMap_def RecordTypeMap_def GuardTypeMap_def StatusTypeMap_def
  ItemEventTypeMap_def TargetTraceTypeMap_def DutyStatusTypeMap_def

interpretation root_map: enum_map GB28181_XML_ROOT_MAP Root_invalid
  by unfold_locales (auto simp: xmap_defs tolower_def)

interpretation cmd_map: enum_map GB28181_XML_CMD_MAP Cmd_invalid
  by unfold_locales (auto simp: xmap_defs tolower_def)

interpretation subscribe_map: enum_map SubscribeTypeMap Sub_invalid
  by unfold_locales (auto simp: xmap_defs tolower_def)

interpretation result_map: enum_map ResultTypeMap Result_invalid
  by unfold_locales (auto simp: xmap_defs tolower_def)

interpretation online_map: enum_map OnlineTypeMap Online_invalid
  by unfold_locales (auto simp: xmap_defs tolower_def)

interpretation record_map: enum_map RecordTypeMap Record_invalid
  by unfold_locales (auto simp: xmap_defs tolower_def)

interpretation guard_map: enum_map GuardTypeMap Guard_invalid
  by unfold_locales (auto simp: xmap_defs tolower_def)

interpretation status_map: enum_map StatusTypeMap Status_invalid
  by unfold_locales (auto simp: xmap_defs tolower_def)

interpretation event_map: enum_map ItemEventTypeMap Event_invalid
  by unfold_locales (auto simp: xmap_defs tolower_def)

interpretation trace_map: enum_map TargetTraceTypeMap Trace_invalid
  by unfold_locales (auto simp: xmap_defs tolower_def)

interpretation duty_map: enum_map DutyStatusTypeMap Duty_invalid
  by unfold_locales (auto simp: xmap_defs tolower_def)

section \<open>The declared character encoding\<close>

definition encodingMap :: "(string \<times> CharEncodingType) list" where
  "encodingMap =
     [(''utf8'', Enc_utf8), (''utf-8'', Enc_utf8), (''gb2312'', Enc_gb2312), (''gbk'', Enc_gbk)]"

definition getCharEncodingType :: "string \<Rightarrow> CharEncodingType" where
  "getCharEncodingType decl =
     (case find_sub ''encoding='' decl of
        None \<Rightarrow> Enc_invalid
      | Some (_, rest) \<Rightarrow>
          (case dropWhile is_space rest of
             [] \<Rightarrow> Enc_invalid
           | c # cs \<Rightarrow>
               if c \<noteq> CHR 0x22 then Enc_invalid
               else let encoding = map tolower (takeWhile (\<lambda>c. c \<noteq> CHR 0x22) cs) in
                 if encoding = [] then Enc_invalid
                 else (case map_of encodingMap encoding of None \<Rightarrow> Enc_invalid | Some e \<Rightarrow> e)))"

section \<open>Sets of configuration types\<close>

text \<open>\<open>operator|\<close> and \<open>operator&\<close> of \<open>DeviceConfigType\<close>, on the underlying word.\<close>

definition config_or :: "DeviceConfigType \<Rightarrow> DeviceConfigType \<Rightarrow> DeviceConfigType" where
  "config_or lhs rhs = lhs OR rhs"

definition config_and :: "DeviceConfigType \<Rightarrow> DeviceConfigType \<Rightarrow> DeviceConfigType" where
  "config_and lhs rhs = lhs AND rhs"

section \<open>Properties\<close>

lemma getRootType_xmap: "getRootType = xmap_get GB28181_XML_ROOT_MAP Root_invalid"
  by (rule ext) (auto simp: getRootType_def xmap_get_def GB28181_XML_ROOT_MAP_def strcaseeq_def
      split: option.splits)

lemma getCmdType_xmap: "getCmdType = xmap_get GB28181_XML_CMD_MAP Cmd_invalid"
  by (rule ext) (auto simp: getCmdType_def xmap_get_def GB28181_XML_CMD_MAP_def strcaseeq_def
      split: option.splits)

lemma root_string_total: "t \<noteq> Root_invalid \<Longrightarrow> \<exists>s. getRootTypeString t = Some s"
  by (cases t) (simp_all add: getRootTypeString_def xmap_string_def GB28181_XML_ROOT_MAP_def)

lemma cmd_string_total: "t \<noteq> Cmd_invalid \<Longrightarrow> \<exists>s. getCmdTypeString t = Some s"
  by (cases t) (simp_all add: getCmdTypeString_def xmap_string_def GB28181_XML_CMD_MAP_def)

lemma getRootType_string [simp]: "getRootTypeString t = Some s \<Longrightarrow> getRootType (Some s) = t"
  unfolding getRootType_xmap getRootTypeString_def by (rule root_map.get_string[OF _ strcaseeq_refl])

lemma getCmdType_string [simp]: "getCmdTypeString t = Some s \<Longrightarrow> getCmdType (Some s) = t"
  unfolding getCmdType_xmap getCmdTypeString_def by (rule cmd_map.get_string[OF _ strcaseeq_refl])

text \<open>
  The names of the message roots and commands identify them: a name read from a message gives
  a given root or command exactly when it is that enumerator's printed name up to case, and every
  enumerator other than \<open>invalid\<close> has such a name; so no two enumerators are confused on the wire.
\<close>

theorem message_names_faithful:
  "(r \<noteq> Root_invalid \<longrightarrow>
      (\<exists>s. getRootTypeString r = Some s \<and> (\<forall>x. getRootType (Some x) = r \<longleftrightarrow> strcaseeq s x)))
   \<and> (c \<noteq> Cmd_invalid \<longrightarrow>
      (\<exists>s. getCmdTypeString c = Some s \<and> (\<forall>x. getCmdType (Some x) = c \<longleftrightarrow> strcaseeq s x)))"
proof (intro conjI impI)
  assume r: "r \<noteq> Root_invalid"
  then obtain s where "getRootTypeString r = Some s" using root_string_total by blast
  then show "\<exists>s. getRootTypeString r = Some s \<and> (\<forall>x. getRootType (Some x) = r \<longleftrightarrow> strcaseeq s x)"
    using root_map.get_iff[OF r] by (auto simp: getRootType_xmap getRootTypeString_def)
next
  assume c: "c \<noteq> Cmd_invalid"
  then obtain s where "getCmdTypeString c = Some s" using cmd_string_total by blast
  then show "\<exists>s. getCmdTypeString c = Some s \<and> (\<forall>x. getCmdType (Some x) = c \<longleftrightarrow> strcaseeq s x)"
    using cmd_map.get_iff[OF c] by (auto simp: getCmdType_xmap getCmdTypeString_def)
qed

theorem message_names_faithful_witness:
  "\<exists>s. getCmdTypeString Cmd_Alarm = Some s \<and> (\<forall>x. getCmdType (Some x) = Cmd_Alarm \<longleftrightarrow> strcaseeq s x)"
  using message_names_faithful[of Root_Query Cmd_Alarm] by simp

end
