(* ===== verification/Records.thy ===== *)
theory Records
  imports Enums
begin

text \<open>
  The structures of \<open>include/gb28181/type_define.h\<close>: one record per struct, with the struct's
  fields in its order (each field name carries a two-letter tag of its record, since several
  structs share names), and one \<open>_default\<close> constant per struct that holds the member
  initialisers, which is what a value-initialised local of the code starts from. Inheritance is
  record extension. \<open>TimeSegmentInfo\<close> and \<open>RecordScheduleInfo\<close> abbreviate the two structs
  \<open>VideoRecordPlanCfgTypeRecordScheduleTimeSegment\<close> and \<open>VideoRecordPlanCfgTypeRecordSchedule\<close>.
\<close>

datatype ExtendData = ExtendData (ed_key: string) (ed_value: string) (ed_children: "ExtendData list")

record sip_account_status =
  st_register_time :: u64
  st_keepalive_time :: u64
  st_offline_time :: u64
  st_status :: PlatformStatusType
  st_error :: string

definition sip_account_status_default :: sip_account_status where
  "sip_account_status_default =
     \<lparr>st_register_time = 0, st_keepalive_time = 0, st_offline_time = 0,
      st_status = Plat_offline, st_error = ''''\<rparr>"

record sip_account =
  sa_platform_id :: string
  sa_domain :: string
  sa_name :: string
  sa_host :: string
  sa_password :: string
  sa_port :: u16
  sa_auth_type :: SipAuthType
  sa_keep_local_host :: bool
  sa_local_port :: u16
  sa_local_host :: string

definition sip_account_default :: sip_account where
  "sip_account_default =
     \<lparr>sa_platform_id = '''', sa_domain = '''', sa_name = '''', sa_host = '''',
      sa_password = '''', sa_port = 5060, sa_auth_type = Auth_none,
      sa_keep_local_host = False, sa_local_port = 0, sa_local_host = ''''\<rparr>"

record local_account = sip_account +
  la_allow_auto_register :: bool
  la_transport_type :: TransportType

definition local_account_default :: local_account where
  "local_account_default =
     \<lparr>sa_platform_id = '''', sa_domain = '''', sa_name = '''', sa_host = '''',
      sa_password = '''', sa_port = 5060, sa_auth_type = Auth_none,
      sa_keep_local_host = False, sa_local_port = 0, sa_local_host = '''',
      la_allow_auto_register = False, la_transport_type = Transport_both\<rparr>"

record platform_account = sip_account +
  pa_encoding :: CharEncodingType
  pa_transport_type :: TransportType
  pa_manufacturer :: PlatformManufacturer
  pa_version :: PlatformVersionType
  pa_plat_status :: sip_account_status

definition platform_account_default :: platform_account where
  "platform_account_default =
     \<lparr>sa_platform_id = '''', sa_domain = '''', sa_name = '''', sa_host = '''',
      sa_password = '''', sa_port = 5060, sa_auth_type = Auth_none,
      sa_keep_local_host = False, sa_local_port = 0, sa_local_host = '''',
      pa_encoding = Enc_gb2312, pa_transport_type = Transport_udp,
      pa_manufacturer = Manu_unknown, pa_version = Ver_unknown,
      pa_plat_status = sip_account_status_default\<rparr>"

record super_account = platform_account +
  su_register_expired :: i32
  su_keepalive_interval :: i32
  su_keepalive_times :: i32

definition super_account_default :: super_account where
  "super_account_default =
     \<lparr>sa_platform_id = '''', sa_domain = '''', sa_name = '''', sa_host = '''',
      sa_password = '''', sa_port = 5060, sa_auth_type = Auth_none,
      sa_keep_local_host = False, sa_local_port = 0, sa_local_host = '''',
      pa_encoding = Enc_gb2312, pa_transport_type = Transport_udp,
      pa_manufacturer = Manu_unknown, pa_version = Ver_unknown,
      pa_plat_status = sip_account_status_default, su_register_expired = 60 * 60 * 24,
      su_keepalive_interval = 30, su_keepalive_times = 3\<rparr>"

record PointType =
  pt_lx :: u16
  pt_ly :: u16
  pt_rx :: u16
  pt_ry :: u16

definition PointType_default :: PointType where
  "PointType_default =
     \<lparr>pt_lx = 0, pt_ly = 0, pt_rx = 0, pt_ry = 0\<rparr>"

record DeviceIdArr =
  da_DeviceID :: "string list"

definition DeviceIdArr_default :: DeviceIdArr where
  "DeviceIdArr_default =
     \<lparr>da_DeviceID = []\<rparr>"

record DeviceStatusAlarmStatusItem =
  ai_DeviceID :: string
  ai_DutyStatus :: DutyStatusType

definition DeviceStatusAlarmStatusItem_default :: DeviceStatusAlarmStatusItem where
  "DeviceStatusAlarmStatusItem_default =
     \<lparr>ai_DeviceID = '''', ai_DutyStatus = Duty_invalid\<rparr>"

record DeviceStatusAlarmStatus =
  as_Item :: "DeviceStatusAlarmStatusItem list"
  as_Num :: i32

definition DeviceStatusAlarmStatus_default :: DeviceStatusAlarmStatus where
  "DeviceStatusAlarmStatus_default =
     \<lparr>as_Item = [], as_Num = 0\<rparr>"

record PtzCmdParams =
  pp_PresetName :: string
  pp_CruiseTrackName :: string

definition PtzCmdParams_default :: PtzCmdParams where
  "PtzCmdParams_default =
     \<lparr>pp_PresetName = '''', pp_CruiseTrackName = ''''\<rparr>"

record BasicParamCfgType =
  bp_Name :: string
  bp_Expiration :: "i32 option"
  bp_HeartBeatInterval :: "i32 option"
  bp_HeartBeatCount :: "i32 option"

definition BasicParamCfgType_default :: BasicParamCfgType where
  "BasicParamCfgType_default =
     \<lparr>bp_Name = '''', bp_Expiration = None, bp_HeartBeatInterval = None,
      bp_HeartBeatCount = None\<rparr>"

record VideoParamOptCfgType =
  vo_DownloadSpeed :: string
  vo_Resolution :: string

definition VideoParamOptCfgType_default :: VideoParamOptCfgType where
  "VideoParamOptCfgType_default =
     \<lparr>vo_DownloadSpeed = '''', vo_Resolution = ''''\<rparr>"

record ROIParmaInfoItem =
  ri_ROISeq :: "i32 option"
  ri_TopLeft :: "i32 option"
  ri_BottomRight :: "i32 option"
  ri_ROIQP :: "i32 option"

definition ROIParmaInfoItem_default :: ROIParmaInfoItem where
  "ROIParmaInfoItem_default =
     \<lparr>ri_ROISeq = None, ri_TopLeft = None, ri_BottomRight = None, ri_ROIQP = None\<rparr>"

record ROIParmaInfo =
  ro_ROIFlag :: "i32 option"
  ro_ROINumber :: "i32 option"
  ro_Item :: "ROIParmaInfoItem list"

definition ROIParmaInfo_default :: ROIParmaInfo where
  "ROIParmaInfo_default =
     \<lparr>ro_ROIFlag = None, ro_ROINumber = None, ro_Item = []\<rparr>"

record SVACParamInfo =
  sp_SVCSpaceDomainMode :: i32
  sp_SVCTimeDomainMode :: i32
  sp_SSVCRatioValue :: string
  sp_SVCSpaceSupportMode :: "i32 option"
  sp_SVCTimeSupportMode :: "i32 option"
  sp_SSVCRatioSupportList :: string

definition SVACParamInfo_default :: SVACParamInfo where
  "SVACParamInfo_default =
     \<lparr>sp_SVCSpaceDomainMode = 0, sp_SVCTimeDomainMode = 0, sp_SSVCRatioValue = '''',
      sp_SVCSpaceSupportMode = None, sp_SVCTimeSupportMode = None,
      sp_SSVCRatioSupportList = ''''\<rparr>"

record SurveillanceParamInfo =
  sv_TimeFlag :: i32
  sv_OSDFlag :: i32
  sv_AIFlag :: i32
  sv_GISFlag :: i32

definition SurveillanceParamInfo_default :: SurveillanceParamInfo where
  "SurveillanceParamInfo_default =
     \<lparr>sv_TimeFlag = 0, sv_OSDFlag = 0, sv_AIFlag = 0, sv_GISFlag = 0\<rparr>"

record AudioParamInfo =
  au_AudioRecognitionFlag :: i32

definition AudioParamInfo_default :: AudioParamInfo where
  "AudioParamInfo_default =
     \<lparr>au_AudioRecognitionFlag = 0\<rparr>"

record SVACEncodeCfgType =
  se_ROIParma :: "ROIParmaInfo option"
  se_SVACParam :: "SVACParamInfo option"
  se_SurveillanceParam :: "SurveillanceParamInfo option"
  se_AudioParam :: "AudioParamInfo option"

definition SVACEncodeCfgType_default :: SVACEncodeCfgType where
  "SVACEncodeCfgType_default =
     \<lparr>se_ROIParma = None, se_SVACParam = None, se_SurveillanceParam = None,
      se_AudioParam = None\<rparr>"

record SVCParamInfo =
  sc_SVCSTMMode :: "i32 option"
  sc_SVCSpaceSupportMode :: "i32 option"
  sc_SVCTimeSupportMode :: "i32 option"

definition SVCParamInfo_default :: SVCParamInfo where
  "SVCParamInfo_default =
     \<lparr>sc_SVCSTMMode = None, sc_SVCSpaceSupportMode = None, sc_SVCTimeSupportMode = None\<rparr>"

record SVACDecodeCfgType =
  sd_SVCParam :: "SVCParamInfo option"
  sd_SurveillanceParam :: "SurveillanceParamInfo option"

definition SVACDecodeCfgType_default :: SVACDecodeCfgType where
  "SVACDecodeCfgType_default =
     \<lparr>sd_SVCParam = None, sd_SurveillanceParam = None\<rparr>"

record VideoParamAttributeCfgTypeItem =
  vi_StreamNumber :: i32
  vi_VideoFormat :: string
  vi_Resolution :: string
  vi_FrameRate :: string
  vi_BitRateType :: string
  vi_VideoBitRate :: string

definition VideoParamAttributeCfgTypeItem_default :: VideoParamAttributeCfgTypeItem where
  "VideoParamAttributeCfgTypeItem_default =
     \<lparr>vi_StreamNumber = 0, vi_VideoFormat = '''', vi_Resolution = '''',
      vi_FrameRate = '''', vi_BitRateType = '''', vi_VideoBitRate = ''''\<rparr>"

record VideoParamAttributeCfgType =
  va_Item :: "VideoParamAttributeCfgTypeItem list"
  va_Num :: i32

definition VideoParamAttributeCfgType_default :: VideoParamAttributeCfgType where
  "VideoParamAttributeCfgType_default =
     \<lparr>va_Item = [], va_Num = 0\<rparr>"

record TimeSegmentInfo =
  ts_StartHour :: i8
  ts_StartMin :: i8
  ts_StartSec :: i8
  ts_StopHour :: i8
  ts_StopMin :: i8
  ts_StopSec :: i8

definition TimeSegmentInfo_default :: TimeSegmentInfo where
  "TimeSegmentInfo_default =
     \<lparr>ts_StartHour = 0, ts_StartMin = 0, ts_StartSec = 0, ts_StopHour = 0, ts_StopMin = 0,
      ts_StopSec = 0\<rparr>"

record RecordScheduleInfo =
  rs_WeekDayNum :: i8
  rs_TimeSegmentSumNum :: i16
  rs_TimeSegment :: "TimeSegmentInfo list"

definition RecordScheduleInfo_default :: RecordScheduleInfo where
  "RecordScheduleInfo_default =
     \<lparr>rs_WeekDayNum = 0, rs_TimeSegmentSumNum = 0, rs_TimeSegment = []\<rparr>"

record VideoRecordPlanCfgType =
  rp_RecordEnable :: i8
  rp_StreamNumber :: i8
  rp_RecordScheduleSumNum :: u16
  rp_RecordSchedule :: "RecordScheduleInfo list"

definition VideoRecordPlanCfgType_default :: VideoRecordPlanCfgType where
  "VideoRecordPlanCfgType_default =
     \<lparr>rp_RecordEnable = 0, rp_StreamNumber = 0, rp_RecordScheduleSumNum = 0,
      rp_RecordSchedule = []\<rparr>"

record VideoAlarmRecordCfgType =
  ar_RecordEnable :: i32
  ar_StreamNumber :: i32
  ar_RecordTime :: "i32 option"
  ar_PreRecordTime :: "i32 option"

definition VideoAlarmRecordCfgType_default :: VideoAlarmRecordCfgType where
  "VideoAlarmRecordCfgType_default =
     \<lparr>ar_RecordEnable = 0, ar_StreamNumber = 0, ar_RecordTime = None,
      ar_PreRecordTime = None\<rparr>"

record RegionListItem =
  rl_Seq :: i32
  rl_Point :: PointType

definition RegionListItem_default :: RegionListItem where
  "RegionListItem_default =
     \<lparr>rl_Seq = 0, rl_Point = PointType_default\<rparr>"

record RegionListInfo =
  rg_Num :: i32
  rg_Item :: "RegionListItem list"

definition RegionListInfo_default :: RegionListInfo where
  "RegionListInfo_default =
     \<lparr>rg_Num = 0, rg_Item = []\<rparr>"

record FrameMirrorCfgType =
  fm_FrameMirror :: FrameMirrorType

definition FrameMirrorCfgType_default :: FrameMirrorCfgType where
  "FrameMirrorCfgType_default =
     \<lparr>fm_FrameMirror = 0\<rparr>"

record PictureMaskClgType =
  pm_On :: i32
  pm_SumNum :: i32
  pm_RegionList :: "RegionListInfo option"

definition PictureMaskClgType_default :: PictureMaskClgType where
  "PictureMaskClgType_default =
     \<lparr>pm_On = 0, pm_SumNum = 0, pm_RegionList = None\<rparr>"

record AlarmReportCfgType =
  al_MotionDetection :: i8
  al_FieldDetection :: i8

definition AlarmReportCfgType_default :: AlarmReportCfgType where
  "AlarmReportCfgType_default =
     \<lparr>al_MotionDetection = 0, al_FieldDetection = 0\<rparr>"

record OSDCfgTypeTextItem =
  ot_Text :: string
  ot_X :: i32
  ot_Y :: i32
  ot_FontSize :: "i32 option"

definition OSDCfgTypeTextItem_default :: OSDCfgTypeTextItem where
  "OSDCfgTypeTextItem_default =
     \<lparr>ot_Text = '''', ot_X = 0, ot_Y = 0, ot_FontSize = None\<rparr>"

record OSDCfgType =
  os_Length :: u16
  os_Width :: u16
  os_TimeX :: u16
  os_TimeY :: u16
  os_TimeEnable :: i8
  os_TextEnable :: i8
  os_TimeType :: "i8 option"
  os_SumNum :: i8
  os_FontSize :: "i8 option"
  os_Item :: "OSDCfgTypeTextItem list"

definition OSDCfgType_default :: OSDCfgType where
  "OSDCfgType_default =
     \<lparr>os_Length = 0, os_Width = 0, os_TimeX = 0, os_TimeY = 0, os_TimeEnable = 0,
      os_TextEnable = 1, os_TimeType = None, os_SumNum = 0, os_FontSize = None,
      os_Item = []\<rparr>"

record SnapShotCfgType =
  ss_SnapNum :: i32
  ss_Interval :: i32
  ss_UploadURL :: string
  ss_SessionID :: string

definition SnapShotCfgType_default :: SnapShotCfgType where
  "SnapShotCfgType_default =
     \<lparr>ss_SnapNum = 0, ss_Interval = 0, ss_UploadURL = '''', ss_SessionID = ''''\<rparr>"

record ItemMobilePositionType =
  mp_DeviceID :: string
  mp_CaptureTime :: string
  mp_Longitude :: double
  mp_Latitude :: double
  mp_Speed :: "double option"
  mp_Direction :: "double option"
  mp_Altitude :: "double option"
  mp_Height :: "double option"

definition ItemMobilePositionType_default :: ItemMobilePositionType where
  "ItemMobilePositionType_default =
     \<lparr>mp_DeviceID = '''', mp_CaptureTime = '''', mp_Longitude = 0, mp_Latitude = 0,
      mp_Speed = None, mp_Direction = None, mp_Altitude = None, mp_Height = None\<rparr>"

record PTZPreciseCtrlType =
  pc_Pan :: "double option"
  pc_Tilt :: "double option"
  pc_Zoom :: "double option"

definition PTZPreciseCtrlType_default :: PTZPreciseCtrlType where
  "PTZPreciseCtrlType_default =
     \<lparr>pc_Pan = None, pc_Tilt = None, pc_Zoom = None\<rparr>"

record ItemTypeInfoDetail =
  id_PTZType :: string
  id_PhotoelectricImagingType :: string
  id_CapturePositionType :: string
  id_RoomType :: i32
  id_SupplyLightType :: i32
  id_DirectionType :: "i32 option"
  id_Resolution :: string
  id_StreamNumberList :: string
  id_DownloadSpeed :: string
  id_SVCSpaceSupportMode :: i32
  id_SVCTimeSupportMode :: i32
  id_SSVCRatioSupportList :: string
  id_MobileDeviceType :: "i32 option"
  id_HorizontalFieldAngle :: "double option"
  id_VerticalFieldAngle :: "double option"
  id_MaxViewDistance :: "double option"
  id_GrassrootsCode :: string
  id_PointType :: "i32 option"
  id_PointCommonName :: string
  id_MAC :: string
  id_FunctionType :: string
  id_EncodeType :: string
  id_InstallTime :: string
  id_ManagementUnit :: string
  id_ContactInfo :: string
  id_RecordSaveDays :: "i32 option"
  id_IndustrialClassification :: string

definition ItemTypeInfoDetail_default :: ItemTypeInfoDetail where
  "ItemTypeInfoDetail_default =
     \<lparr>id_PTZType = '''', id_PhotoelectricImagingType = '''', id_CapturePositionType = '''',
      id_RoomType = 1, id_SupplyLightType = 1, id_DirectionType = None,
      id_Resolution = '''', id_StreamNumberList = '''', id_DownloadSpeed = '''',
      id_SVCSpaceSupportMode = 0, id_SVCTimeSupportMode = 0,
      id_SSVCRatioSupportList = '''', id_MobileDeviceType = None,
      id_HorizontalFieldAngle = None, id_VerticalFieldAngle = None,
      id_MaxViewDistance = None, id_GrassrootsCode = ''000000'', id_PointType = None,
      id_PointCommonName = '''', id_MAC = '''', id_FunctionType = '''',
      id_EncodeType = '''', id_InstallTime = '''', id_ManagementUnit = '''',
      id_ContactInfo = '''', id_RecordSaveDays = Some 0,
      id_IndustrialClassification = ''''\<rparr>"

record ItemTypeInfo =
  it_DeviceID :: string
  it_Name :: string
  it_Manufacturer :: string
  it_Model :: string
  it_CivilCode :: string
  it_Block :: string
  it_Address :: string
  it_Parental :: "i32 option"
  it_ParentID :: string
  it_RegisterWay :: "i32 option"
  it_SecurityLevelCode :: string
  it_Secrecy :: "i32 option"
  it_IPAddress :: string
  it_Port :: "i32 option"
  it_Password :: string
  it_Status :: "StatusType option"
  it_Longitude :: "double option"
  it_Latitude :: "double option"
  it_BusinessGroupID :: string
  it_Info :: "ItemTypeInfoDetail option"
  it_Event :: "ItemEventType option"

definition ItemTypeInfo_default :: ItemTypeInfo where
  "ItemTypeInfo_default =
     \<lparr>it_DeviceID = '''', it_Name = '''', it_Manufacturer = '''', it_Model = '''',
      it_CivilCode = '''', it_Block = '''', it_Address = '''', it_Parental = None,
      it_ParentID = '''', it_RegisterWay = None, it_SecurityLevelCode = '''',
      it_Secrecy = None, it_IPAddress = '''', it_Port = None, it_Password = '''',
      it_Status = None, it_Longitude = None, it_Latitude = None, it_BusinessGroupID = '''',
      it_Info = None, it_Event = None\<rparr>"

record PresetListItem =
  pl_PresetID :: string
  pl_PresetName :: string

definition PresetListItem_default :: PresetListItem where
  "PresetListItem_default =
     \<lparr>pl_PresetID = '''', pl_PresetName = ''''\<rparr>"

record AlarmCmdInfoType =
  ac_AlarmMethod :: string
  ac_AlarmType :: string

definition AlarmCmdInfoType_default :: AlarmCmdInfoType where
  "AlarmCmdInfoType_default =
     \<lparr>ac_AlarmMethod = ''0'', ac_AlarmType = ''''\<rparr>"

record DragZoomType =
  dz_Length :: i32
  dz_Width :: i32
  dz_MidPointX :: i32
  dz_MidPointY :: i32
  dz_LengthX :: i32
  dz_LengthY :: i32

definition DragZoomType_default :: DragZoomType where
  "DragZoomType_default =
     \<lparr>dz_Length = 0, dz_Width = 0, dz_MidPointX = 0, dz_MidPointY = 0, dz_LengthX = 0,
      dz_LengthY = 0\<rparr>"

record DeviceUpgradeType =
  du_Firmware :: string
  du_FileURL :: string
  du_Manufacturer :: string
  du_SessionID :: string

definition DeviceUpgradeType_default :: DeviceUpgradeType where
  "DeviceUpgradeType_default =
     \<lparr>du_Firmware = '''', du_FileURL = '''', du_Manufacturer = '''', du_SessionID = ''''\<rparr>"

record HomePositionType =
  hp_Enabled :: i8
  hp_PresetIndex :: "u16 option"
  hp_ResetTime :: "i32 option"

definition HomePositionType_default :: HomePositionType where
  "HomePositionType_default =
     \<lparr>hp_Enabled = 1, hp_PresetIndex = None, hp_ResetTime = None\<rparr>"

record ItemFileType =
  fl_DeviceID :: string
  fl_Name :: string
  fl_FilePath :: string
  fl_Address :: string
  fl_StartTime :: string
  fl_EndTime :: string
  fl_Secrecy :: i32
  fl_Type :: string
  fl_RecorderID :: string
  fl_FileSize :: string
  fl_RecordLocation :: string
  fl_StreamNumber :: "i8 option"

definition ItemFileType_default :: ItemFileType where
  "ItemFileType_default =
     \<lparr>fl_DeviceID = '''', fl_Name = '''', fl_FilePath = '''', fl_Address = '''',
      fl_StartTime = '''', fl_EndTime = '''', fl_Secrecy = 0, fl_Type = '''',
      fl_RecorderID = '''', fl_FileSize = '''', fl_RecordLocation = '''',
      fl_StreamNumber = None\<rparr>"

record CruiseTrackListItemType =
  ct_Number :: i32
  ct_Name :: string

definition CruiseTrackListItemType_default :: CruiseTrackListItemType where
  "CruiseTrackListItemType_default =
     \<lparr>ct_Number = 0, ct_Name = ''''\<rparr>"

record CruisePointType =
  cp_PresetIndex :: i32
  cp_StayTime :: i32
  cp_Speed :: i32

definition CruisePointType_default :: CruisePointType where
  "CruisePointType_default =
     \<lparr>cp_PresetIndex = 0, cp_StayTime = 0, cp_Speed = 0\<rparr>"

record SdCardInfoType =
  sk_ID :: i32
  sk_HddName :: string
  sk_Status :: string
  sk_FormatProgress :: i32
  sk_Capacity :: i32
  sk_FreeSpace :: i32

definition SdCardInfoType_default :: SdCardInfoType where
  "SdCardInfoType_default =
     \<lparr>sk_ID = 0, sk_HddName = '''', sk_Status = '''', sk_FormatProgress = 0,
      sk_Capacity = 0, sk_FreeSpace = 0\<rparr>"


end
