(* ===== verification/Xml.thy ===== *)
theory Xml
  imports Records
begin

text \<open>
  The element layer of \<open>src/type_define_ext.cpp\<close>: \<open>new_xml_element\<close> and \<open>from_xml_element\<close>
  for scalars, enumerations, optionals and the small structs, over tinyxml2.

  tinyxml2 is a git submodule whose code is not in the repository, so its operations are a
  parameter \<open>X\<close> of every definition, a record of functions over an abstract element type. What
  the code relies on is the predicate \<open>tinyxml2_laws\<close>: the documented behaviour of the methods
  used, stated only for the situations that arise (text is set on elements just made) and
  without saying whether an empty text survives, so that it describes the tree in memory and also,
  when no text is white space only, a tree read back from its serialised form. \<open>dom\<close> is a concrete instance.

  An element pointer is a value: \<open>InsertNewChildElement X key f root\<close> is the source's
  \<open>ele = root->InsertNewChildElement(key)\<close> followed by the changes \<open>f\<close> made through \<open>ele\<close>. The
  \<open>root == nullptr\<close> guards have no counterpart (an element value is never null), and a null or empty
  \<open>key\<close>, which take the same branch everywhere, are both the empty string.
\<close>

section \<open>The tinyxml2 interface\<close>

record 'e tinyxml2 =
  NewElement :: "string \<Rightarrow> 'e"
  Name :: "'e \<Rightarrow> string"
  InsertEndChild :: "'e \<Rightarrow> 'e \<Rightarrow> 'e" \<comment> \<open>parent, child\<close>
  SetText :: "string \<Rightarrow> 'e \<Rightarrow> 'e"
  SetTextInt :: "int \<Rightarrow> 'e \<Rightarrow> 'e"
  SetTextDouble :: "double \<Rightarrow> 'e \<Rightarrow> 'e"
  SetAttribute :: "string \<Rightarrow> int \<Rightarrow> 'e \<Rightarrow> 'e"
  GetText :: "'e \<Rightarrow> string option"
  ChildElements :: "'e \<Rightarrow> 'e list" \<comment> \<open>the \<open>FirstChildElement()\<close>, \<open>NextSiblingElement()\<close> chain\<close>
  NoChildren :: "'e \<Rightarrow> bool"
  QueryIntText :: "'e \<Rightarrow> int option" \<comment> \<open>\<open>None\<close> when the result is not \<open>XML_SUCCESS\<close>\<close>
  QueryUnsignedText :: "'e \<Rightarrow> int option"
  QueryDoubleText :: "'e \<Rightarrow> double option"

text \<open>A finite double: its exponent bits are not all ones.\<close>

definition finite_double :: "double \<Rightarrow> bool" where
  "finite_double d \<longleftrightarrow> drop_bit 52 d AND 0x7FF \<noteq> 0x7FF"

definition tinyxml2_laws :: "'e tinyxml2 \<Rightarrow> bool" where
  "tinyxml2_laws X \<longleftrightarrow>
     (\<forall>k. Name X (NewElement X k) = k)
   \<and> (\<forall>p c. Name X (InsertEndChild X p c) = Name X p)
   \<and> (\<forall>s e. Name X (SetText X s e) = Name X e)
   \<and> (\<forall>v e. Name X (SetTextInt X v e) = Name X e)
   \<and> (\<forall>d e. Name X (SetTextDouble X d e) = Name X e)
   \<and> (\<forall>a v e. Name X (SetAttribute X a v e) = Name X e)
   \<and> (\<forall>k. ChildElements X (NewElement X k) = [])
   \<and> (\<forall>p c. ChildElements X (InsertEndChild X p c) = ChildElements X p @ [c])
   \<and> (\<forall>s e. ChildElements X (SetText X s e) = ChildElements X e)
   \<and> (\<forall>v e. ChildElements X (SetTextInt X v e) = ChildElements X e)
   \<and> (\<forall>d e. ChildElements X (SetTextDouble X d e) = ChildElements X e)
   \<and> (\<forall>a v e. ChildElements X (SetAttribute X a v e) = ChildElements X e)
   \<and> (\<forall>k. NoChildren X (NewElement X k))
   \<and> (\<forall>p c. \<not> NoChildren X (InsertEndChild X p c))
   \<and> (\<forall>a v e. NoChildren X (SetAttribute X a v e) = NoChildren X e)
   \<and> (\<forall>k. GetText X (NewElement X k) = None)
   \<and> (\<forall>s k. s \<noteq> [] \<longrightarrow> GetText X (SetText X s (NewElement X k)) = Some s)
   \<and> (\<forall>k. GetText X (SetText X [] (NewElement X k)) \<in> {None, Some []})
   \<and> (\<forall>v k. - (2 ^ 31) \<le> v \<and> v < 2 ^ 31 \<longrightarrow>
          QueryIntText X (SetTextInt X v (NewElement X k)) = Some v)
   \<and> (\<forall>v k. 0 \<le> v \<and> v < 2 ^ 31 \<longrightarrow>
          QueryUnsignedText X (SetTextInt X v (NewElement X k)) = Some v)
   \<and> (\<forall>d k. finite_double d \<longrightarrow>
          QueryDoubleText X (SetTextDouble X d (NewElement X k)) = Some d)"

lemma tinyxml2_lawsD [xml_simps]:
  assumes "tinyxml2_laws X"
  shows "Name X (NewElement X k) = k"
    "Name X (InsertEndChild X p c) = Name X p"
    "Name X (SetText X s e) = Name X e"
    "Name X (SetTextInt X v e) = Name X e"
    "Name X (SetTextDouble X d e) = Name X e"
    "Name X (SetAttribute X a v e) = Name X e"
    "ChildElements X (NewElement X k) = []"
    "ChildElements X (InsertEndChild X p c) = ChildElements X p @ [c]"
    "ChildElements X (SetText X s e) = ChildElements X e"
    "ChildElements X (SetTextInt X v e) = ChildElements X e"
    "ChildElements X (SetTextDouble X d e) = ChildElements X e"
    "ChildElements X (SetAttribute X a v e) = ChildElements X e"
    "NoChildren X (NewElement X k)"
    "\<not> NoChildren X (InsertEndChild X p c)"
    "NoChildren X (SetAttribute X a v e) = NoChildren X e"
    "GetText X (NewElement X k) = None"
    "s \<noteq> [] \<Longrightarrow> GetText X (SetText X s (NewElement X k)) = Some s"
    "- (2 ^ 31) \<le> v \<Longrightarrow> v < 2 ^ 31 \<Longrightarrow> QueryIntText X (SetTextInt X v (NewElement X k)) = Some v"
    "0 \<le> v \<Longrightarrow> v < 2 ^ 31 \<Longrightarrow> QueryUnsignedText X (SetTextInt X v (NewElement X k)) = Some v"
    "finite_double d \<Longrightarrow> QueryDoubleText X (SetTextDouble X d (NewElement X k)) = Some d"
  using assms unfolding tinyxml2_laws_def by simp_all

text \<open>The text written by \<open>SetText\<close>, read into a string that was empty before.\<close>

lemma text_back [xml_simps]:
  assumes "tinyxml2_laws X"
  shows "(case GetText X (SetText X s (NewElement X k)) of None \<Rightarrow> [] | Some t \<Rightarrow> t) = s"
proof (cases "s = []")
  case True
  have "GetText X (SetText X [] (NewElement X k)) \<in> {None, Some []}"
    using assms unfolding tinyxml2_laws_def by blast
  with True show ?thesis by auto
next
  case False
  with assms show ?thesis by (simp add: tinyxml2_lawsD)
qed

section \<open>A concrete instance\<close>

datatype dom = Dom (dom_name: string) (dom_attrs: "(string \<times> int) list") (dom_text: "string option")
  (dom_children: "dom list")

fun dom_insert :: "dom \<Rightarrow> dom \<Rightarrow> dom" where
  "dom_insert (Dom n a t cs) c = Dom n a t (cs @ [c])"

fun dom_set_text :: "string \<Rightarrow> dom \<Rightarrow> dom" where
  "dom_set_text s (Dom n a t cs) = Dom n a (Some s) cs"

fun dom_set_attr :: "string \<Rightarrow> int \<Rightarrow> dom \<Rightarrow> dom" where
  "dom_set_attr k v (Dom n a t cs) = Dom n (a @ [(k, v)]) t cs"

definition dom_int :: "int \<Rightarrow> int \<Rightarrow> dom \<Rightarrow> int option" where
  "dom_int lo hi e =
     (case dom_text e of
        None \<Rightarrow> None
      | Some s \<Rightarrow> (case read_int s of
                     None \<Rightarrow> None
                   | Some v \<Rightarrow> if lo \<le> v \<and> v < hi then Some v else None))"

definition dom_xml :: "dom tinyxml2" where
  "dom_xml =
     \<lparr>NewElement = (\<lambda>k. Dom k [] None []), Name = dom_name, InsertEndChild = dom_insert,
      SetText = dom_set_text, SetTextInt = (\<lambda>v. dom_set_text (show_int v)),
      SetTextDouble = (\<lambda>d. dom_set_text (show_int (uint d))), SetAttribute = dom_set_attr,
      GetText = dom_text, ChildElements = dom_children,
      NoChildren = (\<lambda>e. dom_text e = None \<and> dom_children e = []),
      QueryIntText = dom_int (- (2 ^ 31)) (2 ^ 31), QueryUnsignedText = dom_int 0 (2 ^ 32),
      QueryDoubleText = (\<lambda>e. map_option word_of_int (dom_int 0 (2 ^ 64) e))\<rparr>"

lemma dom_insert_sel [simp]:
  "dom_name (dom_insert p c) = dom_name p" "dom_text (dom_insert p c) = dom_text p"
  "dom_children (dom_insert p c) = dom_children p @ [c]"
  by (cases p; simp)+

lemma dom_set_sel [simp]:
  "dom_name (dom_set_text s e) = dom_name e" "dom_children (dom_set_text s e) = dom_children e"
  "dom_text (dom_set_text s e) = Some s"
  "dom_name (dom_set_attr k v e) = dom_name e" "dom_children (dom_set_attr k v e) = dom_children e"
  "dom_text (dom_set_attr k v e) = dom_text e"
  by (cases e; simp)+

lemma dom_xml_laws: "tinyxml2_laws dom_xml"
proof -
  have "uint d < 2 ^ 64" for d :: double using uint_lt2p[of d] by simp
  then show ?thesis by (simp add: tinyxml2_laws_def dom_xml_def dom_int_def)
qed

section \<open>Walking and building\<close>

text \<open>\<open>FirstChildElement(key)\<close>, and the elements a \<open>NextSiblingElement(key)\<close> loop visits.\<close>

definition FirstChildElement :: "'e tinyxml2 \<Rightarrow> 'e \<Rightarrow> string \<Rightarrow> 'e option" where
  "FirstChildElement X e key = find (\<lambda>c. Name X c = key) (ChildElements X e)"

definition ChildElementsNamed :: "'e tinyxml2 \<Rightarrow> 'e \<Rightarrow> string \<Rightarrow> 'e list" where
  "ChildElementsNamed X e key = filter (\<lambda>c. Name X c = key) (ChildElements X e)"

definition InsertNewChildElement :: "'e tinyxml2 \<Rightarrow> string \<Rightarrow> ('e \<Rightarrow> 'e) \<Rightarrow> 'e \<Rightarrow> 'e" where
  "InsertNewChildElement X key f root = InsertEndChild X root (f (NewElement X key))"

text \<open>A block of statements that each change the same element.\<close>

definition block :: "('e \<Rightarrow> 'e) list \<Rightarrow> 'e \<Rightarrow> 'e" where
  "block fs e = fold (\<lambda>f. f) fs e"

lemma block_simps [simp]:
  "block [] e = e" "block (f # fs) e = block fs (f e)" "block (fs @ gs) e = block gs (block fs e)"
  by (simp_all add: block_def)

section \<open>Writing scalars\<close>

text \<open>
  \<open>MAKE_NEW_XML_ELE\<close>. The eight- and sixteen-bit integers are promoted to \<open>int\<close> by
  \<open>SetText\<close>, so they and \<open>int32_t\<close> are two definitions, for signed and for unsigned types.
\<close>

definition MAKE_NEW_XML_ELE :: "'e tinyxml2 \<Rightarrow> ('e \<Rightarrow> 'e) \<Rightarrow> string \<Rightarrow> 'e \<Rightarrow> 'e" where
  "MAKE_NEW_XML_ELE X set_text key root =
     (if key = [] then root else InsertNewChildElement X key set_text root)"

definition new_xml_element_int :: "'e tinyxml2 \<Rightarrow> 'a::len word \<Rightarrow> string \<Rightarrow> 'e \<Rightarrow> 'e" where
  "new_xml_element_int X val = MAKE_NEW_XML_ELE X (SetTextInt X (sint val))"

definition new_xml_element_uint :: "'e tinyxml2 \<Rightarrow> 'a::len word \<Rightarrow> string \<Rightarrow> 'e \<Rightarrow> 'e" where
  "new_xml_element_uint X val = MAKE_NEW_XML_ELE X (SetTextInt X (uint val))"

definition new_xml_element_double :: "'e tinyxml2 \<Rightarrow> double \<Rightarrow> string \<Rightarrow> 'e \<Rightarrow> 'e" where
  "new_xml_element_double X val = MAKE_NEW_XML_ELE X (SetTextDouble X val)"

definition new_xml_element_string :: "'e tinyxml2 \<Rightarrow> string \<Rightarrow> string \<Rightarrow> 'e \<Rightarrow> 'e" where
  "new_xml_element_string X val key root =
     (if key = [] then root else InsertNewChildElement X key (SetText X val) root)"

text \<open>The overloads for \<open>std::optional\<close>, over the overload for the value.\<close>

definition new_xml_element_opt ::
    "('v \<Rightarrow> string \<Rightarrow> 'e \<Rightarrow> 'e) \<Rightarrow> 'v option \<Rightarrow> string \<Rightarrow> 'e \<Rightarrow> 'e" where
  "new_xml_element_opt new val key root =
     (case val of None \<Rightarrow> root | Some v \<Rightarrow> new v key root)"

text \<open>\<open>MAKE_ENUM_XML_ELE\<close>, for the enumeration with the given map.\<close>

definition new_xml_element_enum ::
    "'e tinyxml2 \<Rightarrow> 'v xmap \<Rightarrow> 'v \<Rightarrow> 'v \<Rightarrow> string \<Rightarrow> 'e \<Rightarrow> 'e" where
  "new_xml_element_enum X m bad val key root =
     (if val = bad then root
      else if key = [] then root
      else case xmap_string m val of
        None \<Rightarrow> root
      | Some name_str \<Rightarrow> InsertNewChildElement X key (SetText X name_str) root)"

definition new_xml_element_FrameMirrorType ::
    "'e tinyxml2 \<Rightarrow> FrameMirrorType \<Rightarrow> string \<Rightarrow> 'e \<Rightarrow> 'e" where
  "new_xml_element_FrameMirrorType X val key root =
     (if key = [] then root else InsertNewChildElement X key (SetTextInt X (sint val)) root)"

section \<open>Reading scalars\<close>

text \<open>\<open>(key != nullptr && key[0] != '\0') ? root->FirstChildElement(key) : root\<close>\<close>

definition select_element :: "'e tinyxml2 \<Rightarrow> 'e \<Rightarrow> string \<Rightarrow> 'e option" where
  "select_element X root key = (if key \<noteq> [] then FirstChildElement X root key else Some root)"

text \<open>
  \<open>MAKE_FROM_XML_ELE\<close>: the success flag and the new value of the reference argument.
\<close>

definition MAKE_FROM_XML_ELE ::
    "'e tinyxml2 \<Rightarrow> ('e \<Rightarrow> 'q option) \<Rightarrow> ('q \<Rightarrow> 'v) \<Rightarrow> 'v \<Rightarrow> 'e \<Rightarrow> string \<Rightarrow> bool \<times> 'v" where
  "MAKE_FROM_XML_ELE X func cast val root key =
     (case select_element X root key of
        None \<Rightarrow> (False, val)
      | Some ele \<Rightarrow> (case func ele of
                      None \<Rightarrow> (False, val)
                    | Some value \<Rightarrow> (True, cast value)))"

definition from_xml_element_int ::
    "'e tinyxml2 \<Rightarrow> 'a::len word \<Rightarrow> 'e \<Rightarrow> string \<Rightarrow> bool \<times> 'a word" where
  "from_xml_element_int X = MAKE_FROM_XML_ELE X (QueryIntText X) word_of_int"

definition from_xml_element_uint ::
    "'e tinyxml2 \<Rightarrow> 'a::len word \<Rightarrow> 'e \<Rightarrow> string \<Rightarrow> bool \<times> 'a word" where
  "from_xml_element_uint X = MAKE_FROM_XML_ELE X (QueryUnsignedText X) word_of_int"

definition from_xml_element_double ::
    "'e tinyxml2 \<Rightarrow> double \<Rightarrow> 'e \<Rightarrow> string \<Rightarrow> bool \<times> double" where
  "from_xml_element_double X = MAKE_FROM_XML_ELE X (QueryDoubleText X) (\<lambda>v. v)"

definition from_xml_element_string ::
    "'e tinyxml2 \<Rightarrow> string \<Rightarrow> 'e \<Rightarrow> string \<Rightarrow> bool \<times> string" where
  "from_xml_element_string X val root key =
     (case select_element X root key of
        None \<Rightarrow> (False, val)
      | Some ele \<Rightarrow> (case GetText X ele of None \<Rightarrow> (False, val) | Some t \<Rightarrow> (True, t)))"

text \<open>The overloads for \<open>std::optional\<close>: only a value that is already there is read into.\<close>

definition from_xml_element_opt ::
    "('v \<Rightarrow> 'e \<Rightarrow> string \<Rightarrow> bool \<times> 'v) \<Rightarrow> 'v option \<Rightarrow> 'e \<Rightarrow> string \<Rightarrow> bool \<times> 'v option" where
  "from_xml_element_opt from val root key =
     (case val of
        None \<Rightarrow> (False, None)
      | Some v \<Rightarrow> (False, Some (snd (from v root key))))"

text \<open>\<open>FROM_ENUM_XML_ELE\<close>\<close>

definition from_xml_element_enum ::
    "'e tinyxml2 \<Rightarrow> 'v xmap \<Rightarrow> 'v \<Rightarrow> 'v \<Rightarrow> 'e \<Rightarrow> string \<Rightarrow> bool \<times> 'v" where
  "from_xml_element_enum X m bad val root key =
     (let val' = (case select_element X root key of
                    None \<Rightarrow> val
                  | Some ele \<Rightarrow> xmap_get m bad (GetText X ele))
      in (val' \<noteq> bad, val'))"

definition from_xml_element_FrameMirrorType ::
    "'e tinyxml2 \<Rightarrow> FrameMirrorType \<Rightarrow> 'e \<Rightarrow> string \<Rightarrow> bool \<times> FrameMirrorType" where
  "from_xml_element_FrameMirrorType X val root key =
     (case select_element X root key of
        None \<Rightarrow> (False, val)
      | Some ele \<Rightarrow> (case QueryIntText X ele of
                      None \<Rightarrow> (False, val)
                    | Some v \<Rightarrow> (True, word_of_int v)))"

section \<open>Reading back\<close>

text \<open>
  Rules that take the value written under a key out of an element built by a block of
  statements: a lookup passes over statements for other keys, and finds the statement for
  its own key. They are conditional rewrite rules, collected in \<open>xml_simps\<close>, so that a
  round trip of a struct is one call of \<open>simp\<close>.
\<close>

lemmas new_xml_element_defs = new_xml_element_int_def new_xml_element_uint_def
  new_xml_element_double_def new_xml_element_string_def MAKE_NEW_XML_ELE_def

lemma First_New [xml_simps]: "tinyxml2_laws X \<Longrightarrow> FirstChildElement X (NewElement X k) k' = None"
  by (simp add: FirstChildElement_def tinyxml2_lawsD)

lemma Named_New [xml_simps]: "tinyxml2_laws X \<Longrightarrow> ChildElementsNamed X (NewElement X k) k' = []"
  by (simp add: ChildElementsNamed_def tinyxml2_lawsD)

lemma First_Named: "FirstChildElement X e k = (case ChildElementsNamed X e k of [] \<Rightarrow> None | c # _ \<Rightarrow> Some c)"
  by (simp add: FirstChildElement_def ChildElementsNamed_def find_eq_hd_filter)

lemma Insert_sel [xml_simps]:
  assumes "tinyxml2_laws X"
  shows "Name X (InsertNewChildElement X k f e) = Name X e"
    "\<not> NoChildren X (InsertNewChildElement X k f e)"
    "ChildElements X (InsertNewChildElement X k f e) = ChildElements X e @ [f (NewElement X k)]"
  using assms by (simp_all add: InsertNewChildElement_def tinyxml2_lawsD)

lemma Insert_pass [xml_simps]:
  assumes "tinyxml2_laws X" and "Name X (f (NewElement X k)) = k" and "k \<noteq> k'"
  shows "FirstChildElement X (InsertNewChildElement X k f e) k' = FirstChildElement X e k'"
    "ChildElementsNamed X (InsertNewChildElement X k f e) k' = ChildElementsNamed X e k'"
  using assms
  by (simp_all add: FirstChildElement_def ChildElementsNamed_def Insert_sel find_append split: option.splits)

lemma Insert_found [xml_simps]:
  assumes "tinyxml2_laws X" and "Name X (f (NewElement X k)) = k"
  shows "FirstChildElement X e k = None \<Longrightarrow>
      FirstChildElement X (InsertNewChildElement X k f e) k = Some (f (NewElement X k))"
    "ChildElementsNamed X (InsertNewChildElement X k f e) k
      = ChildElementsNamed X e k @ [f (NewElement X k)]"
  using assms
  by (simp_all add: FirstChildElement_def ChildElementsNamed_def Insert_sel find_append)

lemma Set_pass [xml_simps]:
  assumes "tinyxml2_laws X"
  shows "FirstChildElement X (SetAttribute X a v e) k = FirstChildElement X e k"
    "ChildElementsNamed X (SetAttribute X a v e) k = ChildElementsNamed X e k"
  using assms by (simp_all add: FirstChildElement_def ChildElementsNamed_def tinyxml2_lawsD)

lemma MAKE_NEW_sel [xml_simps]:
  assumes "tinyxml2_laws X" and "k \<noteq> []"
  shows "MAKE_NEW_XML_ELE X f k e = InsertNewChildElement X k f e"
    "new_xml_element_string X s k e = InsertNewChildElement X k (SetText X s) e"
    "new_xml_element_int X i k e = InsertNewChildElement X k (SetTextInt X (sint i)) e"
    "new_xml_element_uint X i k e = InsertNewChildElement X k (SetTextInt X (uint i)) e"
    "new_xml_element_double X d k e = InsertNewChildElement X k (SetTextDouble X d) e"
    "new_xml_element_FrameMirrorType X fm k e = InsertNewChildElement X k (SetTextInt X (sint fm)) e"
  using assms by (simp_all add: new_xml_element_defs new_xml_element_FrameMirrorType_def)

text \<open>An optional writes at most one element under its key.\<close>

definition writes_under :: "'e tinyxml2 \<Rightarrow> string \<Rightarrow> ('e \<Rightarrow> 'e) \<Rightarrow> bool" where
  "writes_under X k g \<longleftrightarrow> (\<forall>e. Name X (g e) = Name X e
     \<and> (\<exists>cs. ChildElements X (g e) = ChildElements X e @ cs \<and> (\<forall>c \<in> set cs. Name X c = k)))"

lemma writes_underD:
  assumes "writes_under X k g"
  shows "Name X (g e) = Name X e"
    and "k \<noteq> k' \<Longrightarrow> FirstChildElement X (g e) k' = FirstChildElement X e k'"
    and "k \<noteq> k' \<Longrightarrow> ChildElementsNamed X (g e) k' = ChildElementsNamed X e k'"
proof -
  from assms obtain cs where g: "Name X (g e) = Name X e"
      "ChildElements X (g e) = ChildElements X e @ cs" "\<forall>c \<in> set cs. Name X c = k"
    unfolding writes_under_def by blast
  then show "Name X (g e) = Name X e" by simp
  assume "k \<noteq> k'"
  with g show "ChildElementsNamed X (g e) k' = ChildElementsNamed X e k'"
    by (auto simp: ChildElementsNamed_def filter_empty_conv)
  then show "FirstChildElement X (g e) k' = FirstChildElement X e k'"
    by (simp add: First_Named)
qed

lemma writes_opt:
  assumes "tinyxml2_laws X" and "k \<noteq> []"
  shows "writes_under X k (new_xml_element_opt (new_xml_element_int X) oi k)"
    "writes_under X k (new_xml_element_opt (new_xml_element_uint X) ou k)"
    "writes_under X k (new_xml_element_opt (new_xml_element_double X) od k)"
    "writes_under X k (new_xml_element_enum X m bad val k)"
  using assms
  by (auto simp: writes_under_def new_xml_element_opt_def new_xml_element_enum_def MAKE_NEW_sel
      Insert_sel tinyxml2_lawsD split: option.splits)

lemmas opt_pass [xml_simps] =
  writes_underD(1)[OF writes_opt(1)] writes_underD(2)[OF writes_opt(1)] writes_underD(3)[OF writes_opt(1)]
  writes_underD(1)[OF writes_opt(2)] writes_underD(2)[OF writes_opt(2)] writes_underD(3)[OF writes_opt(2)]
  writes_underD(1)[OF writes_opt(3)] writes_underD(2)[OF writes_opt(3)] writes_underD(3)[OF writes_opt(3)]
  writes_underD(1)[OF writes_opt(4)] writes_underD(2)[OF writes_opt(4)] writes_underD(3)[OF writes_opt(4)]

lemma opt_NoChildren [xml_simps]:
  assumes "tinyxml2_laws X" and "k \<noteq> []"
  shows "NoChildren X (new_xml_element_opt (new_xml_element_int X) oi k e) \<longleftrightarrow> oi = None \<and> NoChildren X e"
    "NoChildren X (new_xml_element_opt (new_xml_element_uint X) ou k e) \<longleftrightarrow> ou = None \<and> NoChildren X e"
    "NoChildren X (new_xml_element_opt (new_xml_element_double X) od k e) \<longleftrightarrow> od = None \<and> NoChildren X e"
  using assms by (simp_all add: new_xml_element_opt_def MAKE_NEW_sel Insert_sel split: option.splits)

text \<open>Reading: what each reader makes of the element its writer made.\<close>

lemma string_back [xml_simps]:
  assumes "tinyxml2_laws X"
  shows "snd (case GetText X (SetText X s (NewElement X k)) of None \<Rightarrow> (False, []) | Some t \<Rightarrow> (True, t)) = s"
  using text_back[OF assms, of s k]
  by (cases "GetText X (SetText X s (NewElement X k))") simp_all

lemma sint_bounds: "LENGTH('a) \<le> 32 \<Longrightarrow> - (2 ^ 31) \<le> sint v \<and> sint v < 2 ^ 31" for v :: "'a::len word"
proof -
  assume "LENGTH('a) \<le> 32"
  then have "(2 :: int) ^ (LENGTH('a) - 1) \<le> 2 ^ 31" by (intro power_increasing) auto
  with sint_ge[of v] sint_lt[of v] show ?thesis by linarith
qed

lemma uint_bounds: "LENGTH('a) \<le> 31 \<Longrightarrow> uint v < 2 ^ 31" for v :: "'a::len word"
proof -
  assume "LENGTH('a) \<le> 31"
  then have "(2 :: int) ^ LENGTH('a) \<le> 2 ^ 31" by (intro power_increasing) auto
  with uint_lt2p[of v] show ?thesis by linarith
qed

lemma int_back [xml_simps]:
  fixes v :: "'a::len word"
  assumes "tinyxml2_laws X"
  shows "LENGTH('a) \<le> 32 \<Longrightarrow> QueryIntText X (SetTextInt X (sint v) (NewElement X k)) = Some (sint v)"
    "LENGTH('a) \<le> 31 \<Longrightarrow> QueryUnsignedText X (SetTextInt X (uint v) (NewElement X k)) = Some (uint v)"
  using assms sint_bounds[of v] uint_bounds[of v] by (simp_all add: tinyxml2_lawsD)

lemma enum_text_back:
  assumes "tinyxml2_laws X" and "enum_map m bad" and "xmap_string m t = Some s"
  shows "xmap_get m bad (GetText X (SetText X s (NewElement X k))) = t"
proof -
  have "s \<noteq> []" using assms(2,3) by (auto simp: enum_map.string_iff dest: enum_map.names_nonempty)
  then show ?thesis
    using assms by (simp add: tinyxml2_lawsD enum_map.get_string[OF assms(2,3) strcaseeq_refl])
qed

lemmas from_xml_element_defs [xml_simps] = from_xml_element_int_def from_xml_element_uint_def
  from_xml_element_double_def from_xml_element_string_def from_xml_element_FrameMirrorType_def
  MAKE_FROM_XML_ELE_def select_element_def

text \<open>An optional that starts out empty stays empty, whatever the document holds.\<close>

lemma from_opt_None [simp, xml_simps]: "from_xml_element_opt from None root key = (False, None)"
  by (simp add: from_xml_element_opt_def)

text \<open>An enumerator written under a fresh key is read back, and reading succeeds.\<close>

lemma enum_back:
  assumes "tinyxml2_laws X" and "enum_map m bad" and "k \<noteq> []" and "FirstChildElement X e k = None"
    and "xmap_string m t \<noteq> None"
  shows "from_xml_element_enum X m bad old (new_xml_element_enum X m bad t k e) k = (True, t)"
proof -
  obtain s where s: "xmap_string m t = Some s" using assms(5) by auto
  then have t: "t \<noteq> bad" using enum_map.invalid_has_no_name[OF assms(2)] by auto
  have "Name X (SetText X s (NewElement X k)) = k" using assms(1) by (simp add: tinyxml2_lawsD)
  with assms s t show ?thesis
    by (simp add: from_xml_element_enum_def new_xml_element_enum_def select_element_def Let_def
        Insert_found enum_text_back)
qed

text \<open>A loop that appends one element per item, and what a sibling loop then visits.\<close>

definition append_items :: "'e tinyxml2 \<Rightarrow> string \<Rightarrow> ('i \<Rightarrow> 'e \<Rightarrow> 'e) \<Rightarrow> 'i list \<Rightarrow> 'e \<Rightarrow> 'e" where
  "append_items X key body items e = fold (\<lambda>it. InsertNewChildElement X key (body it)) items e"

lemma append_items_sel [xml_simps]:
  assumes "tinyxml2_laws X"
  shows "Name X (append_items X k body its e) = Name X e"
    "NoChildren X (append_items X k body its e) \<longleftrightarrow> its = [] \<and> NoChildren X e"
  using assms unfolding append_items_def
  by (induction its arbitrary: e) (auto simp: Insert_sel)

lemma append_items_pass [xml_simps]:
  assumes "tinyxml2_laws X" and "\<And>it. Name X (body it (NewElement X k)) = k" and "k \<noteq> k'"
  shows "FirstChildElement X (append_items X k body its e) k' = FirstChildElement X e k'"
    "ChildElementsNamed X (append_items X k body its e) k' = ChildElementsNamed X e k'"
  using assms unfolding append_items_def
  by (induction its arbitrary: e) (simp_all add: Insert_pass)

lemma append_items_found [xml_simps]:
  assumes "tinyxml2_laws X" and "\<And>it. Name X (body it (NewElement X k)) = k"
  shows "ChildElementsNamed X (append_items X k body its e) k
    = ChildElementsNamed X e k @ map (\<lambda>it. body it (NewElement X k)) its"
  using assms unfolding append_items_def
  by (induction its arbitrary: e) (simp_all add: Insert_found)

end
