(* ===== verification/ConfigXml.thy ===== *)
theory ConfigXml
  imports Xml
begin

text \<open>
  The structures of \<open>src/type_define_ext.cpp\<close> above the scalars: the sets of configuration
  types, the device id list, the alarm status list, and the writer and reader of each of
  the twelve device configurations. A reader returns the \<open>has\<close> out-argument, its result
  and the new value of the struct. ZLToolKit (a system dependency) supplies \<open>toolkit::split\<close> and
  \<open>toolkit::str_format\<close>, which are the parameters \<open>split\<close> and \<open>fmt\<close>.
\<close>

section \<open>Sets of configuration types\<close>

text \<open>
  The writer walks \<open>DeviceConfigTypeMap_\<close>, an \<open>unordered_map\<close> filled from the header's map, whose
  iteration order \<open>order\<close> the standard leaves open.
\<close>

definition new_xml_element_DeviceConfigType ::
    "'e tinyxml2 \<Rightarrow> (DeviceConfigType \<times> string) list \<Rightarrow> DeviceConfigType \<Rightarrow> string \<Rightarrow> 'e \<Rightarrow> 'e" where
  "new_xml_element_DeviceConfigType X order val key root =
     (if val = 0 then root
      else if key = [] then root
      else let str = concat (map (\<lambda>(t, s). if t AND val \<noteq> 0 then s @ ''/'' else []) order)
        in if str = [] then root
           else InsertNewChildElement X key (SetText X (butlast str)) root)"

definition from_xml_element_DeviceConfigType ::
    "'e tinyxml2 \<Rightarrow> (string \<Rightarrow> string \<Rightarrow> string list) \<Rightarrow> (DeviceConfigType \<times> string) list \<Rightarrow>
     DeviceConfigType \<Rightarrow> 'e \<Rightarrow> string \<Rightarrow> bool \<times> DeviceConfigType" where
  "from_xml_element_DeviceConfigType X split order val root key =
     (case from_xml_element_string X [] root key of
        (False, _) \<Rightarrow> (False, val)
      | (True, str) \<Rightarrow>
          (let val' = fold (\<lambda>it v. case find (\<lambda>(t, s). strcaseeq s it) order of
                                None \<Rightarrow> v
                              | Some (t, _) \<Rightarrow> v OR t) (split str ''/'') val
           in (val' \<noteq> 0, val')))"

section \<open>Device id and alarm status lists\<close>

definition new_xml_element_DeviceIdArr :: "'e tinyxml2 \<Rightarrow> DeviceIdArr \<Rightarrow> string \<Rightarrow> 'e \<Rightarrow> 'e" where
  "new_xml_element_DeviceIdArr X val key root =
     (if da_DeviceID val = [] \<or> key = [] then root
      else InsertNewChildElement X key
        (append_items X ''DeviceID'' (\<lambda>it. SetText X it) (da_DeviceID val)) root)"

text \<open>The loop stops at the first element without text.\<close>

definition from_xml_element_DeviceIdArr ::
    "'e tinyxml2 \<Rightarrow> DeviceIdArr \<Rightarrow> 'e \<Rightarrow> string \<Rightarrow> bool \<times> DeviceIdArr" where
  "from_xml_element_DeviceIdArr X val root key =
     (if key = [] then (False, val)
      else case FirstChildElement X root key of
        None \<Rightarrow> (False, val)
      | Some ele \<Rightarrow>
          (let texts = takeWhile (\<lambda>t. t \<noteq> None)
                 (map (GetText X) (ChildElementsNamed X ele ''DeviceID''));
               val' = val\<lparr>da_DeviceID := da_DeviceID val @ map the texts\<rparr>
           in (da_DeviceID val' \<noteq> [], val')))"

text \<open>The element is inserted under the literal name \<open>key\<close>.\<close>

definition new_xml_element_AlarmStatusItem ::
    "'e tinyxml2 \<Rightarrow> DeviceStatusAlarmStatusItem \<Rightarrow> string \<Rightarrow> 'e \<Rightarrow> 'e" where
  "new_xml_element_AlarmStatusItem X val key root =
     (if key = [] then root
      else InsertNewChildElement X ''key''
        (block [new_xml_element_string X (ai_DeviceID val) ''DeviceID'',
                new_xml_element_enum X DutyStatusTypeMap Duty_invalid (ai_DutyStatus val) ''DutyStatus'']) root)"

definition new_xml_element_AlarmStatus ::
    "'e tinyxml2 \<Rightarrow> DeviceStatusAlarmStatus \<Rightarrow> string \<Rightarrow> 'e \<Rightarrow> 'e" where
  "new_xml_element_AlarmStatus X val key root =
     (if as_Item val = [] \<or> key = [] then root
      else InsertNewChildElement X key
        (block [fold (\<lambda>it. new_xml_element_AlarmStatusItem X it ''Item'') (as_Item val),
                SetAttribute X ''Num'' (int (length (as_Item val)))]) root)"

definition from_xml_element_AlarmStatus ::
    "'e tinyxml2 \<Rightarrow> DeviceStatusAlarmStatus \<Rightarrow> 'e \<Rightarrow> string \<Rightarrow> bool \<times> DeviceStatusAlarmStatus" where
  "from_xml_element_AlarmStatus X val root key =
     (if key = [] then (False, val)
      else case FirstChildElement X root key of
        None \<Rightarrow> (False, val)
      | Some ele \<Rightarrow>
          (let read = (\<lambda>sub_ele.
                 let (ok1, id) = from_xml_element_string X [] sub_ele ''DeviceID'';
                     (ok2, st) = from_xml_element_enum X DutyStatusTypeMap Duty_invalid Duty_invalid sub_ele ''DutyStatus''
                 in if ok1 \<and> ok2 then [\<lparr>ai_DeviceID = id, ai_DutyStatus = st\<rparr>] else []);
               items = as_Item val @ concat (map read (ChildElementsNamed X ele ''Item''))
           in (True, \<lparr>as_Item = items, as_Num = of_nat (length items)\<rparr>)))"

section \<open>Writing the device configurations\<close>

text \<open>
  The value is a pointer of the source and may be null: then the element is made and left empty.
\<close>

definition new_config :: "'e tinyxml2 \<Rightarrow> ('c \<Rightarrow> 'e \<Rightarrow> 'e) \<Rightarrow> 'c option \<Rightarrow> string \<Rightarrow> 'e \<Rightarrow> 'e" where
  "new_config X body val key root =
     (if key = [] then root
      else InsertNewChildElement X key
        (\<lambda>ele. case val of None \<Rightarrow> ele | Some v \<Rightarrow> body v ele) root)"

definition write_BasicParam :: "'e tinyxml2 \<Rightarrow> BasicParamCfgType \<Rightarrow> 'e \<Rightarrow> 'e" where
  "write_BasicParam X val = block
     [new_xml_element_string X (bp_Name val) ''Name'',
      new_xml_element_opt (new_xml_element_int X) (bp_Expiration val) ''Expiration'',
      new_xml_element_opt (new_xml_element_int X) (bp_HeartBeatInterval val) ''HeartBeatInterval'',
      new_xml_element_opt (new_xml_element_int X) (bp_HeartBeatCount val) ''HeartBeatCount'']"

definition write_VideoParamOpt :: "'e tinyxml2 \<Rightarrow> VideoParamOptCfgType \<Rightarrow> 'e \<Rightarrow> 'e" where
  "write_VideoParamOpt X val = block
     [new_xml_element_string X (vo_DownloadSpeed val) ''DownloadSpeed'',
      new_xml_element_string X (vo_Resolution val) ''Resolution'']"

definition write_ROIItem :: "'e tinyxml2 \<Rightarrow> ROIParmaInfoItem \<Rightarrow> 'e \<Rightarrow> 'e" where
  "write_ROIItem X it = block
     [new_xml_element_opt (new_xml_element_int X) (ri_ROISeq it) ''ROISeq'',
      new_xml_element_opt (new_xml_element_int X) (ri_TopLeft it) ''TopLeft'',
      new_xml_element_opt (new_xml_element_int X) (ri_BottomRight it) ''BottomRight'',
      new_xml_element_opt (new_xml_element_int X) (ri_ROIQP it) ''ROIQP'']"

definition write_ROIParma :: "'e tinyxml2 \<Rightarrow> ROIParmaInfo \<Rightarrow> 'e \<Rightarrow> 'e" where
  "write_ROIParma X val = block
     [new_xml_element_opt (new_xml_element_int X) (ro_ROIFlag val) ''ROIFlag'',
      new_xml_element_opt (new_xml_element_int X) (ro_ROINumber val) ''ROINumber'',
      append_items X ''Item'' (write_ROIItem X) (ro_Item val)]"

definition write_SVACParam :: "'e tinyxml2 \<Rightarrow> SVACParamInfo \<Rightarrow> 'e \<Rightarrow> 'e" where
  "write_SVACParam X val = block
     [new_xml_element_int X (sp_SVCSpaceDomainMode val) ''SVCSpaceDomainMode'',
      new_xml_element_int X (sp_SVCTimeDomainMode val) ''SVCTimeDomainMode'',
      new_xml_element_string X (sp_SSVCRatioValue val) ''SSVCRatioValue'',
      new_xml_element_opt (new_xml_element_int X) (sp_SVCSpaceSupportMode val) ''SVCSpaceSupportMode'',
      new_xml_element_opt (new_xml_element_int X) (sp_SVCTimeSupportMode val) ''SVCTimeSupportMode'',
      new_xml_element_string X (sp_SSVCRatioSupportList val) ''SSVCRatioSupportList'']"

definition write_SurveillanceParam :: "'e tinyxml2 \<Rightarrow> SurveillanceParamInfo \<Rightarrow> 'e \<Rightarrow> 'e" where
  "write_SurveillanceParam X val = block
     [new_xml_element_int X (sv_TimeFlag val) ''TimeFlag'',
      new_xml_element_int X (sv_OSDFlag val) ''OSDFlag'',
      new_xml_element_int X (sv_AIFlag val) ''AIFlag'',
      new_xml_element_int X (sv_GISFlag val) ''GISFlag'']"

definition write_AudioParam :: "'e tinyxml2 \<Rightarrow> AudioParamInfo \<Rightarrow> 'e \<Rightarrow> 'e" where
  "write_AudioParam X val = new_xml_element_int X (au_AudioRecognitionFlag val) ''AudioRecognitionFlag''"

text \<open>An optional sub-structure: its element, when there is a value.\<close>

definition new_sub :: "'e tinyxml2 \<Rightarrow> ('c \<Rightarrow> 'e \<Rightarrow> 'e) \<Rightarrow> 'c option \<Rightarrow> string \<Rightarrow> 'e \<Rightarrow> 'e" where
  "new_sub X body val key ele =
     (case val of None \<Rightarrow> ele | Some v \<Rightarrow> InsertNewChildElement X key (body v) ele)"

definition write_SVACEncode :: "'e tinyxml2 \<Rightarrow> SVACEncodeCfgType \<Rightarrow> 'e \<Rightarrow> 'e" where
  "write_SVACEncode X val = block
     [new_sub X (write_ROIParma X) (se_ROIParma val) ''ROIParma'',
      new_sub X (write_SVACParam X) (se_SVACParam val) ''SVACParam'',
      new_sub X (write_SurveillanceParam X) (se_SurveillanceParam val) ''SurveillanceParam'',
      new_sub X (write_AudioParam X) (se_AudioParam val) ''AudioParam'']"

definition write_SVCParam :: "'e tinyxml2 \<Rightarrow> SVCParamInfo \<Rightarrow> 'e \<Rightarrow> 'e" where
  "write_SVCParam X val = block
     [new_xml_element_opt (new_xml_element_int X) (sc_SVCSTMMode val) ''SVCSTMMode'',
      new_xml_element_opt (new_xml_element_int X) (sc_SVCSpaceSupportMode val) ''SVCSpaceSupportMode'',
      new_xml_element_opt (new_xml_element_int X) (sc_SVCTimeSupportMode val) ''SVCTimeSupportMode'']"

definition write_SVACDecode :: "'e tinyxml2 \<Rightarrow> SVACDecodeCfgType \<Rightarrow> 'e \<Rightarrow> 'e" where
  "write_SVACDecode X val = block
     [new_sub X (write_SVCParam X) (sd_SVCParam val) ''SVCParam'',
      new_sub X (write_SurveillanceParam X) (sd_SurveillanceParam val) ''SurveillanceParam'']"

definition write_VideoParamAttributeItem :: "'e tinyxml2 \<Rightarrow> VideoParamAttributeCfgTypeItem \<Rightarrow> 'e \<Rightarrow> 'e" where
  "write_VideoParamAttributeItem X it = block
     [new_xml_element_int X (vi_StreamNumber it) ''StreamNumber'',
      new_xml_element_string X (vi_VideoFormat it) ''VideoFormat'',
      new_xml_element_string X (vi_Resolution it) ''Resolution'',
      new_xml_element_string X (vi_FrameRate it) ''FrameRate'',
      new_xml_element_string X (vi_BitRateType it) ''BitRateType'',
      new_xml_element_string X (vi_VideoBitRate it) ''VideoBitRate'']"

definition new_xml_element_VideoParamAttribute ::
    "'e tinyxml2 \<Rightarrow> VideoParamAttributeCfgType option \<Rightarrow> string \<Rightarrow> 'e \<Rightarrow> 'e" where
  "new_xml_element_VideoParamAttribute X val key root =
     (if key = [] then root
      else InsertNewChildElement X key
        (\<lambda>ele. case val of
           None \<Rightarrow> SetAttribute X ''Num'' 0 ele
         | Some v \<Rightarrow> block
             [SetAttribute X ''Num'' (int (length (va_Item v))),
              append_items X ''Item'' (write_VideoParamAttributeItem X) (va_Item v)] ele) root)"

definition write_TimeSegment :: "'e tinyxml2 \<Rightarrow> TimeSegmentInfo \<Rightarrow> 'e \<Rightarrow> 'e" where
  "write_TimeSegment X t = block
     [new_xml_element_int X (ts_StartHour t) ''StartHour'',
      new_xml_element_int X (ts_StartMin t) ''StartMin'',
      new_xml_element_int X (ts_StartSec t) ''StartSec'',
      new_xml_element_int X (ts_StopHour t) ''StopHour'',
      new_xml_element_int X (ts_StopMin t) ''StopMin'',
      new_xml_element_int X (ts_StopSec t) ''StopSec'']"

text \<open>The time segments are inserted into \<open>ele\<close>, beside the schedule they belong to.\<close>

definition write_RecordSchedule :: "'e tinyxml2 \<Rightarrow> RecordScheduleInfo \<Rightarrow> 'e \<Rightarrow> 'e" where
  "write_RecordSchedule X it = block
     [InsertNewChildElement X ''RecordSchedule'' (block
        [new_xml_element_int X (rs_WeekDayNum it) ''WeekDayNum'',
         new_xml_element_int X (rs_TimeSegmentSumNum it) ''TimeSegmentSumNum'']),
      append_items X ''TimeSegment'' (write_TimeSegment X) (rs_TimeSegment it)]"

definition write_VideoRecordPlan :: "'e tinyxml2 \<Rightarrow> VideoRecordPlanCfgType \<Rightarrow> 'e \<Rightarrow> 'e" where
  "write_VideoRecordPlan X val = block
     [new_xml_element_int X (rp_RecordEnable val) ''RecordEnable'',
      new_xml_element_uint X (rp_RecordScheduleSumNum val) ''RecordScheduleSumNum'',
      fold (write_RecordSchedule X) (rp_RecordSchedule val),
      new_xml_element_int X (rp_StreamNumber val) ''StreamNumber'']"

definition write_VideoAlarmRecord :: "'e tinyxml2 \<Rightarrow> VideoAlarmRecordCfgType \<Rightarrow> 'e \<Rightarrow> 'e" where
  "write_VideoAlarmRecord X val = block
     [new_xml_element_int X (ar_RecordEnable val) ''RecordEnable'',
      new_xml_element_int X (ar_StreamNumber val) ''StreamNumber'',
      new_xml_element_opt (new_xml_element_int X) (ar_RecordTime val) ''RecordTime'',
      new_xml_element_opt (new_xml_element_int X) (ar_PreRecordTime val) ''PreRecordTime'']"

text \<open>
  The item element is made under \<open>RegionList\<close> and left empty: \<open>Seq\<close> and \<open>Point\<close> are inserted into
  \<open>ele\<close>, the picture mask element itself, after the list.
\<close>

definition write_PictureMask :: "'e tinyxml2 \<Rightarrow> (int list \<Rightarrow> string) \<Rightarrow> PictureMaskClgType \<Rightarrow> 'e \<Rightarrow> 'e" where
  "write_PictureMask X fmt val = block
     [new_xml_element_int X (pm_On val) ''On'',
      new_xml_element_int X (pm_SumNum val) ''SumNum'',
      (\<lambda>ele. case pm_RegionList val of
         None \<Rightarrow> ele
       | Some rl \<Rightarrow> block
           [InsertNewChildElement X ''RegionList'' (block
              [SetAttribute X ''Num'' (int (length (rg_Item rl))),
               append_items X ''Item'' (\<lambda>it e. e) (rg_Item rl)]),
            fold (\<lambda>it. block
              [new_xml_element_int X (rl_Seq it) ''Seq'',
               new_xml_element_string X
                 (fmt [uint (pt_lx (rl_Point it)), uint (pt_ly (rl_Point it)),
                       uint (pt_rx (rl_Point it)), uint (pt_ry (rl_Point it))]) ''Point''])
              (rg_Item rl)] ele)]"

definition new_xml_element_FrameMirror ::
    "'e tinyxml2 \<Rightarrow> FrameMirrorCfgType option \<Rightarrow> string \<Rightarrow> 'e \<Rightarrow> 'e" where
  "new_xml_element_FrameMirror X val key root =
     (if key = [] then root
      else case val of
        Some v \<Rightarrow> new_xml_element_FrameMirrorType X (fm_FrameMirror v) ''FrameMirror'' root
      | None \<Rightarrow> InsertNewChildElement X key (\<lambda>e. e) root)"

definition write_AlarmReport :: "'e tinyxml2 \<Rightarrow> AlarmReportCfgType \<Rightarrow> 'e \<Rightarrow> 'e" where
  "write_AlarmReport X val = block
     [new_xml_element_int X (al_MotionDetection val) ''MotionDetection'',
      new_xml_element_int X (al_FieldDetection val) ''FieldDetection'']"

definition write_OSDItem :: "'e tinyxml2 \<Rightarrow> OSDCfgTypeTextItem \<Rightarrow> 'e \<Rightarrow> 'e" where
  "write_OSDItem X it = block
     [new_xml_element_string X (ot_Text it) ''Text'',
      new_xml_element_int X (ot_X it) ''X'',
      new_xml_element_int X (ot_Y it) ''Y'',
      new_xml_element_opt (new_xml_element_int X) (ot_FontSize it) ''FontSize'']"

definition write_OSDConfig :: "'e tinyxml2 \<Rightarrow> OSDCfgType \<Rightarrow> 'e \<Rightarrow> 'e" where
  "write_OSDConfig X val = block
     [new_xml_element_uint X (os_Length val) ''Length'',
      new_xml_element_uint X (os_Width val) ''Width'',
      new_xml_element_uint X (os_TimeX val) ''TimeX'',
      new_xml_element_uint X (os_TimeY val) ''TimeY'',
      new_xml_element_int X (os_TimeEnable val) ''TimeEnable'',
      new_xml_element_int X (os_TextEnable val) ''TextEnable'',
      new_xml_element_opt (new_xml_element_int X) (os_TimeType val) ''TimeType'',
      new_xml_element_int X (os_SumNum val) ''SumNum'',
      new_xml_element_opt (new_xml_element_int X) (os_FontSize val) ''FontSize'',
      append_items X ''Item'' (write_OSDItem X) (os_Item val)]"

definition write_SnapShot :: "'e tinyxml2 \<Rightarrow> SnapShotCfgType \<Rightarrow> 'e \<Rightarrow> 'e" where
  "write_SnapShot X val = block
     [new_xml_element_int X (ss_SnapNum val) ''SnapNum'',
      new_xml_element_int X (ss_Interval val) ''Interval'',
      new_xml_element_string X (ss_UploadURL val) ''UploadURL'',
      new_xml_element_string X (ss_SessionID val) ''SessionID'']"

section \<open>Reading the device configurations\<close>

text \<open>
  The frame every reader but the frame mirror's shares: \<open>has\<close>, the result, the value. An element
  without children is there but not read.
\<close>

definition from_config ::
    "'e tinyxml2 \<Rightarrow> ('c \<Rightarrow> 'e \<Rightarrow> 'c) \<Rightarrow> 'c \<Rightarrow> 'e \<Rightarrow> string \<Rightarrow> bool \<times> bool \<times> 'c" where
  "from_config X body val root key =
     (if key = [] then (False, False, val)
      else case FirstChildElement X root key of
        None \<Rightarrow> (False, False, val)
      | Some ele \<Rightarrow> if NoChildren X ele then (True, False, val) else (True, True, body val ele))"

text \<open>A sub-structure is read when its element is there and has children.\<close>

definition from_sub ::
    "'e tinyxml2 \<Rightarrow> ('c \<Rightarrow> 'e \<Rightarrow> 'c) \<Rightarrow> 'c \<Rightarrow> 'c option \<Rightarrow> 'e \<Rightarrow> string \<Rightarrow> 'c option" where
  "from_sub X body init old ele key =
     (case FirstChildElement X ele key of
        None \<Rightarrow> old
      | Some sub \<Rightarrow> if NoChildren X sub then old else Some (body init sub))"

text \<open>A sibling loop that skips the elements without children and reads one value from each other.\<close>

definition load_items :: "'e tinyxml2 \<Rightarrow> ('c \<Rightarrow> 'e \<Rightarrow> 'c) \<Rightarrow> 'c \<Rightarrow> 'e \<Rightarrow> string \<Rightarrow> 'c list" where
  "load_items X body init ele key =
     map (body init) (filter (\<lambda>item. \<not> NoChildren X item) (ChildElementsNamed X ele key))"

definition read_BasicParam :: "'e tinyxml2 \<Rightarrow> BasicParamCfgType \<Rightarrow> 'e \<Rightarrow> BasicParamCfgType" where
  "read_BasicParam X val ele = val
     \<lparr>bp_Name := snd (from_xml_element_string X (bp_Name val) ele ''Name''),
        bp_Expiration := snd (from_xml_element_opt (from_xml_element_int X) (bp_Expiration val) ele ''Expiration''),
        bp_HeartBeatInterval := snd (from_xml_element_opt (from_xml_element_int X) (bp_HeartBeatInterval val) ele ''HeartBeatInterval''),
        bp_HeartBeatCount := snd (from_xml_element_opt (from_xml_element_int X) (bp_HeartBeatCount val) ele ''HeartBeatCount'')\<rparr>"

definition read_VideoParamOpt :: "'e tinyxml2 \<Rightarrow> VideoParamOptCfgType \<Rightarrow> 'e \<Rightarrow> VideoParamOptCfgType" where
  "read_VideoParamOpt X val ele = val
     \<lparr>vo_DownloadSpeed := snd (from_xml_element_string X (vo_DownloadSpeed val) ele ''DownloadSpeed''),
        vo_Resolution := snd (from_xml_element_string X (vo_Resolution val) ele ''Resolution'')\<rparr>"

definition read_ROIItem :: "'e tinyxml2 \<Rightarrow> ROIParmaInfoItem \<Rightarrow> 'e \<Rightarrow> ROIParmaInfoItem" where
  "read_ROIItem X val ele = val
     \<lparr>ri_ROISeq := snd (from_xml_element_opt (from_xml_element_int X) (ri_ROISeq val) ele ''ROISeq''),
        ri_TopLeft := snd (from_xml_element_opt (from_xml_element_int X) (ri_TopLeft val) ele ''TopLeft''),
        ri_BottomRight := snd (from_xml_element_opt (from_xml_element_int X) (ri_BottomRight val) ele ''BottomRight''),
        ri_ROIQP := snd (from_xml_element_opt (from_xml_element_int X) (ri_ROIQP val) ele ''ROIQP'')\<rparr>"

definition read_ROIParma :: "'e tinyxml2 \<Rightarrow> ROIParmaInfo \<Rightarrow> 'e \<Rightarrow> ROIParmaInfo" where
  "read_ROIParma X val ele = val
     \<lparr>ro_ROIFlag := snd (from_xml_element_opt (from_xml_element_int X) (ro_ROIFlag val) ele ''ROIFlag''),
        ro_ROINumber := snd (from_xml_element_opt (from_xml_element_int X) (ro_ROINumber val) ele ''ROINumber''),
        ro_Item := ro_Item val @ load_items X (read_ROIItem X) ROIParmaInfoItem_default ele ''Item''\<rparr>"

definition read_SVACParam :: "'e tinyxml2 \<Rightarrow> SVACParamInfo \<Rightarrow> 'e \<Rightarrow> SVACParamInfo" where
  "read_SVACParam X val ele = val
     \<lparr>sp_SVCSpaceDomainMode := snd (from_xml_element_int X (sp_SVCSpaceDomainMode val) ele ''SVCSpaceDomainMode''),
        sp_SVCTimeDomainMode := snd (from_xml_element_int X (sp_SVCTimeDomainMode val) ele ''SVCTimeDomainMode''),
        sp_SSVCRatioValue := snd (from_xml_element_string X (sp_SSVCRatioValue val) ele ''SSVCRatioValue''),
        sp_SVCSpaceSupportMode := snd (from_xml_element_opt (from_xml_element_int X) (sp_SVCSpaceSupportMode val) ele ''SVCSpaceSupportMode''),
        sp_SVCTimeSupportMode := snd (from_xml_element_opt (from_xml_element_int X) (sp_SVCTimeSupportMode val) ele ''SVCTimeSupportMode''),
        sp_SSVCRatioSupportList := snd (from_xml_element_string X (sp_SSVCRatioSupportList val) ele ''SSVCRatioSupportList'')\<rparr>"

definition read_SurveillanceParam :: "'e tinyxml2 \<Rightarrow> SurveillanceParamInfo \<Rightarrow> 'e \<Rightarrow> SurveillanceParamInfo" where
  "read_SurveillanceParam X val ele = val
     \<lparr>sv_TimeFlag := snd (from_xml_element_int X (sv_TimeFlag val) ele ''TimeFlag''),
        sv_OSDFlag := snd (from_xml_element_int X (sv_OSDFlag val) ele ''OSDFlag''),
        sv_AIFlag := snd (from_xml_element_int X (sv_AIFlag val) ele ''AIFlag''),
        sv_GISFlag := snd (from_xml_element_int X (sv_GISFlag val) ele ''GISFlag'')\<rparr>"

definition read_AudioParam :: "'e tinyxml2 \<Rightarrow> AudioParamInfo \<Rightarrow> 'e \<Rightarrow> AudioParamInfo" where
  "read_AudioParam X val ele = val
     \<lparr>au_AudioRecognitionFlag := snd (from_xml_element_int X (au_AudioRecognitionFlag val) ele ''AudioRecognitionFlag'')\<rparr>"

definition read_SVACEncode :: "'e tinyxml2 \<Rightarrow> SVACEncodeCfgType \<Rightarrow> 'e \<Rightarrow> SVACEncodeCfgType" where
  "read_SVACEncode X val ele = val
     \<lparr>se_ROIParma := from_sub X (read_ROIParma X) ROIParmaInfo_default (se_ROIParma val) ele ''ROIParma'',
      se_SVACParam := from_sub X (read_SVACParam X) SVACParamInfo_default (se_SVACParam val) ele ''SVACParam'',
      se_SurveillanceParam := from_sub X (read_SurveillanceParam X) SurveillanceParamInfo_default
        (se_SurveillanceParam val) ele ''SurveillanceParam'',
      se_AudioParam := from_sub X (read_AudioParam X) AudioParamInfo_default (se_AudioParam val) ele ''AudioParam''\<rparr>"

definition read_SVCParam :: "'e tinyxml2 \<Rightarrow> SVCParamInfo \<Rightarrow> 'e \<Rightarrow> SVCParamInfo" where
  "read_SVCParam X val ele = val
     \<lparr>sc_SVCSTMMode := snd (from_xml_element_opt (from_xml_element_int X) (sc_SVCSTMMode val) ele ''SVCSTMMode''),
        sc_SVCSpaceSupportMode := snd (from_xml_element_opt (from_xml_element_int X) (sc_SVCSpaceSupportMode val) ele ''SVCSpaceSupportMode''),
        sc_SVCTimeSupportMode := snd (from_xml_element_opt (from_xml_element_int X) (sc_SVCTimeSupportMode val) ele ''SVCTimeSupportMode'')\<rparr>"

definition read_SVACDecode :: "'e tinyxml2 \<Rightarrow> SVACDecodeCfgType \<Rightarrow> 'e \<Rightarrow> SVACDecodeCfgType" where
  "read_SVACDecode X val ele = val
     \<lparr>sd_SVCParam := from_sub X (read_SVCParam X) SVCParamInfo_default (sd_SVCParam val) ele ''SVCParam'',
      sd_SurveillanceParam := from_sub X (read_SurveillanceParam X) SurveillanceParamInfo_default
        (sd_SurveillanceParam val) ele ''SurveillanceParam''\<rparr>"

definition read_VideoParamAttributeItem :: "'e tinyxml2 \<Rightarrow> VideoParamAttributeCfgTypeItem \<Rightarrow> 'e \<Rightarrow> VideoParamAttributeCfgTypeItem" where
  "read_VideoParamAttributeItem X val ele = val
     \<lparr>vi_StreamNumber := snd (from_xml_element_int X (vi_StreamNumber val) ele ''StreamNumber''),
        vi_VideoFormat := snd (from_xml_element_string X (vi_VideoFormat val) ele ''VideoFormat''),
        vi_Resolution := snd (from_xml_element_string X (vi_Resolution val) ele ''Resolution''),
        vi_FrameRate := snd (from_xml_element_string X (vi_FrameRate val) ele ''FrameRate''),
        vi_BitRateType := snd (from_xml_element_string X (vi_BitRateType val) ele ''BitRateType''),
        vi_VideoBitRate := snd (from_xml_element_string X (vi_VideoBitRate val) ele ''VideoBitRate'')\<rparr>"

definition read_VideoParamAttribute ::
    "'e tinyxml2 \<Rightarrow> VideoParamAttributeCfgType \<Rightarrow> 'e \<Rightarrow> VideoParamAttributeCfgType" where
  "read_VideoParamAttribute X val ele =
     (let items = va_Item val @ load_items X (read_VideoParamAttributeItem X)
            VideoParamAttributeCfgTypeItem_default ele ''Item''
      in val\<lparr>va_Item := items, va_Num := of_nat (length items)\<rparr>)"

definition read_TimeSegment :: "'e tinyxml2 \<Rightarrow> TimeSegmentInfo \<Rightarrow> 'e \<Rightarrow> TimeSegmentInfo" where
  "read_TimeSegment X val ele = val
     \<lparr>ts_StartHour := snd (from_xml_element_int X (ts_StartHour val) ele ''StartHour''),
        ts_StartMin := snd (from_xml_element_int X (ts_StartMin val) ele ''StartMin''),
        ts_StartSec := snd (from_xml_element_int X (ts_StartSec val) ele ''StartSec''),
        ts_StopHour := snd (from_xml_element_int X (ts_StopHour val) ele ''StopHour''),
        ts_StopMin := snd (from_xml_element_int X (ts_StopMin val) ele ''StopMin''),
        ts_StopSec := snd (from_xml_element_int X (ts_StopSec val) ele ''StopSec'')\<rparr>"

text \<open>The inner loop tests the schedule element, which has children, so it skips no segment.\<close>

definition read_RecordSchedule :: "'e tinyxml2 \<Rightarrow> RecordScheduleInfo \<Rightarrow> 'e \<Rightarrow> RecordScheduleInfo" where
  "read_RecordSchedule X val item = val
     \<lparr>rs_WeekDayNum := snd (from_xml_element_int X (rs_WeekDayNum val) item ''WeekDayNum''),
      rs_TimeSegmentSumNum := snd (from_xml_element_int X (rs_TimeSegmentSumNum val) item ''TimeSegmentSumNum''),
      rs_TimeSegment := rs_TimeSegment val @
        map (read_TimeSegment X TimeSegmentInfo_default)
          (filter (\<lambda>item2. \<not> NoChildren X item) (ChildElementsNamed X item ''TimeSegment''))\<rparr>"

definition read_VideoRecordPlan :: "'e tinyxml2 \<Rightarrow> VideoRecordPlanCfgType \<Rightarrow> 'e \<Rightarrow> VideoRecordPlanCfgType" where
  "read_VideoRecordPlan X val ele = val
     \<lparr>rp_RecordEnable := snd (from_xml_element_int X (rp_RecordEnable val) ele ''RecordEnable''),
      rp_StreamNumber := snd (from_xml_element_int X (rp_StreamNumber val) ele ''StreamNumber''),
      rp_RecordScheduleSumNum := snd (from_xml_element_uint X (rp_RecordScheduleSumNum val) ele ''RecordScheduleSumNum''),
      rp_RecordSchedule := rp_RecordSchedule val @
        load_items X (read_RecordSchedule X) RecordScheduleInfo_default ele ''RecordSchedule''\<rparr>"

definition read_VideoAlarmRecord :: "'e tinyxml2 \<Rightarrow> VideoAlarmRecordCfgType \<Rightarrow> 'e \<Rightarrow> VideoAlarmRecordCfgType" where
  "read_VideoAlarmRecord X val ele = val
     \<lparr>ar_RecordEnable := snd (from_xml_element_int X (ar_RecordEnable val) ele ''RecordEnable''),
        ar_StreamNumber := snd (from_xml_element_int X (ar_StreamNumber val) ele ''StreamNumber''),
        ar_RecordTime := snd (from_xml_element_opt (from_xml_element_int X) (ar_RecordTime val) ele ''RecordTime''),
        ar_PreRecordTime := snd (from_xml_element_opt (from_xml_element_int X) (ar_PreRecordTime val) ele ''PreRecordTime'')\<rparr>"

text \<open>The four numbers of a point, assigned one by one until \<open>std::stoi\<close> throws.\<close>

definition read_point :: "string list \<Rightarrow> PointType \<Rightarrow> PointType" where
  "read_point pair p =
     (case pair of
        [a, b, c, d] \<Rightarrow>
          (case std_stoi a of None \<Rightarrow> p | Some lx \<Rightarrow>
           let p = p\<lparr>pt_lx := word_of_int lx\<rparr> in
           case std_stoi b of None \<Rightarrow> p | Some ly \<Rightarrow>
           let p = p\<lparr>pt_ly := word_of_int ly\<rparr> in
           case std_stoi c of None \<Rightarrow> p | Some rx \<Rightarrow>
           let p = p\<lparr>pt_rx := word_of_int rx\<rparr> in
           case std_stoi d of None \<Rightarrow> p | Some ry \<Rightarrow> p\<lparr>pt_ry := word_of_int ry\<rparr>)
      | _ \<Rightarrow> p)"

text \<open>\<open>point->Value()\<close> of an element is its name.\<close>

definition read_RegionItem ::
    "'e tinyxml2 \<Rightarrow> (string \<Rightarrow> string \<Rightarrow> string list) \<Rightarrow> RegionListItem \<Rightarrow> 'e \<Rightarrow> RegionListItem" where
  "read_RegionItem X split val item = val
     \<lparr>rl_Seq := snd (from_xml_element_int X (rl_Seq val) item ''Seq''),
      rl_Point := (case FirstChildElement X item ''Point'' of
                     None \<Rightarrow> rl_Point val
                   | Some point \<Rightarrow> read_point (split (Name X point) '','') (rl_Point val))\<rparr>"

definition read_RegionList ::
    "'e tinyxml2 \<Rightarrow> (string \<Rightarrow> string \<Rightarrow> string list) \<Rightarrow> RegionListInfo \<Rightarrow> 'e \<Rightarrow> RegionListInfo" where
  "read_RegionList X split val region_list =
     (let items = rg_Item val @
            load_items X (read_RegionItem X split) RegionListItem_default region_list ''Item''
      in val\<lparr>rg_Item := items, rg_Num := of_nat (length items)\<rparr>)"

definition read_PictureMask ::
    "'e tinyxml2 \<Rightarrow> (string \<Rightarrow> string \<Rightarrow> string list) \<Rightarrow> PictureMaskClgType \<Rightarrow> 'e \<Rightarrow> PictureMaskClgType" where
  "read_PictureMask X split val ele = val
     \<lparr>pm_On := snd (from_xml_element_int X (pm_On val) ele ''On''),
      pm_SumNum := snd (from_xml_element_int X (pm_SumNum val) ele ''SumNum''),
      pm_RegionList := from_sub X (read_RegionList X split) RegionListInfo_default
        (pm_RegionList val) ele ''RegionList''\<rparr>"

definition from_xml_element_FrameMirror ::
    "'e tinyxml2 \<Rightarrow> FrameMirrorCfgType \<Rightarrow> 'e \<Rightarrow> string \<Rightarrow> bool \<times> bool \<times> FrameMirrorCfgType" where
  "from_xml_element_FrameMirror X val root key =
     (if key = [] then (False, False, val)
      else case FirstChildElement X root key of
        None \<Rightarrow> (False, False, val)
      | Some ele \<Rightarrow>
          (let (ok, v) = from_xml_element_FrameMirrorType X (fm_FrameMirror val) root key
           in (True, ok, val\<lparr>fm_FrameMirror := v\<rparr>)))"

definition read_AlarmReport :: "'e tinyxml2 \<Rightarrow> AlarmReportCfgType \<Rightarrow> 'e \<Rightarrow> AlarmReportCfgType" where
  "read_AlarmReport X val ele = val
     \<lparr>al_MotionDetection := snd (from_xml_element_int X (al_MotionDetection val) ele ''MotionDetection''),
        al_FieldDetection := snd (from_xml_element_int X (al_FieldDetection val) ele ''FieldDetection'')\<rparr>"

definition read_OSDItem :: "'e tinyxml2 \<Rightarrow> OSDCfgTypeTextItem \<Rightarrow> 'e \<Rightarrow> OSDCfgTypeTextItem" where
  "read_OSDItem X val ele = val
     \<lparr>ot_Text := snd (from_xml_element_string X (ot_Text val) ele ''Text''),
        ot_X := snd (from_xml_element_int X (ot_X val) ele ''X''),
        ot_Y := snd (from_xml_element_int X (ot_Y val) ele ''Y''),
        ot_FontSize := snd (from_xml_element_opt (from_xml_element_int X) (ot_FontSize val) ele ''FontSize'')\<rparr>"

definition read_OSDConfig :: "'e tinyxml2 \<Rightarrow> OSDCfgType \<Rightarrow> 'e \<Rightarrow> OSDCfgType" where
  "read_OSDConfig X val ele = val
     \<lparr>os_Length := snd (from_xml_element_uint X (os_Length val) ele ''Length''),
        os_Width := snd (from_xml_element_uint X (os_Width val) ele ''Width''),
        os_TimeX := snd (from_xml_element_uint X (os_TimeX val) ele ''TimeX''),
        os_TimeY := snd (from_xml_element_uint X (os_TimeY val) ele ''TimeY''),
        os_TimeEnable := snd (from_xml_element_int X (os_TimeEnable val) ele ''TimeEnable''),
        os_TextEnable := snd (from_xml_element_int X (os_TextEnable val) ele ''TextEnable''),
        os_TimeType := snd (from_xml_element_opt (from_xml_element_int X) (os_TimeType val) ele ''TimeType''),
        os_SumNum := snd (from_xml_element_int X (os_SumNum val) ele ''SumNum''),
        os_FontSize := snd (from_xml_element_opt (from_xml_element_int X) (os_FontSize val) ele ''FontSize''),
        os_Item := os_Item val @ load_items X (read_OSDItem X) OSDCfgTypeTextItem_default ele ''Item''\<rparr>"

definition read_SnapShot :: "'e tinyxml2 \<Rightarrow> SnapShotCfgType \<Rightarrow> 'e \<Rightarrow> SnapShotCfgType" where
  "read_SnapShot X val ele = val
     \<lparr>ss_SnapNum := snd (from_xml_element_int X (ss_SnapNum val) ele ''SnapNum''),
        ss_Interval := snd (from_xml_element_int X (ss_Interval val) ele ''Interval''),
        ss_UploadURL := snd (from_xml_element_string X (ss_UploadURL val) ele ''UploadURL''),
        ss_SessionID := snd (from_xml_element_string X (ss_SessionID val) ele ''SessionID'')\<rparr>"

end
