(* ===== verification/ConfigCodec.thy ===== *)
theory ConfigCodec
  imports ConfigXml
begin

text \<open>
  What the configuration codec of \<open>src/type_define_ext.cpp\<close> promises: a locale for the contract of
  a struct's writer and reader, its interpretations on the code's writers and readers, and
  the round trips. \<open>norm\<close> is what a value is after one trip: the identity where the codec is exact,
  and a stated loss where it is not.
\<close>

section \<open>The contract of a writer and its reader\<close>

locale struct_codec =
  fixes put :: "'e tinyxml2 \<Rightarrow> 'c \<Rightarrow> 'e \<Rightarrow> 'e"
    and get :: "'e tinyxml2 \<Rightarrow> 'c \<Rightarrow> 'e \<Rightarrow> 'c"
    and init :: 'c and norm :: "'c \<Rightarrow> 'c" and filled :: "'c \<Rightarrow> bool"
  assumes put_name: "tinyxml2_laws X \<Longrightarrow> Name X (put X v e) = Name X e"
    and put_empty: "tinyxml2_laws X \<Longrightarrow> NoChildren X (put X v (NewElement X k)) \<longleftrightarrow> \<not> filled v"
    and get_put: "tinyxml2_laws X \<Longrightarrow> get X init (put X v (NewElement X k)) = norm v"
begin

lemma name_new: "tinyxml2_laws X \<Longrightarrow> Name X (put X v (NewElement X k)) = k"
  by (simp add: put_name tinyxml2_lawsD)

lemma config_roundtrip:
  assumes "tinyxml2_laws X" and "key \<noteq> []" and "FirstChildElement X root key = None"
  shows "from_config X (get X) init (new_config X (put X) (Some v) key root) key
    = (True, filled v, if filled v then norm v else init)"
  using assms by (simp add: from_config_def new_config_def Insert_found name_new put_empty get_put)

lemma sub_roundtrip:
  assumes "tinyxml2_laws X" and "FirstChildElement X ele key = None"
  shows "from_sub X (get X) init None (new_sub X (put X) val key ele) key
    = (case val of None \<Rightarrow> None | Some v \<Rightarrow> if filled v then Some (norm v) else None)"
  using assms
  by (simp add: from_sub_def new_sub_def Insert_found name_new put_empty get_put split: option.splits)

lemma sub_writes:
  assumes "tinyxml2_laws X"
  shows "writes_under X key (new_sub X (put X) val key)"
  using assms by (auto simp: writes_under_def new_sub_def Insert_sel name_new split: option.splits)

lemma sub_NoChildren:
  "tinyxml2_laws X \<Longrightarrow> NoChildren X (new_sub X (put X) val key e) \<longleftrightarrow> val = None \<and> NoChildren X e"
  by (simp add: new_sub_def Insert_sel split: option.splits)

lemma sub_pass:
  assumes "tinyxml2_laws X" and "key \<noteq> key'"
  shows "from_sub X rd d old (new_sub X (put X) val key e) key' = from_sub X rd d old e key'"
    "FirstChildElement X (new_sub X (put X) val key e) key' = FirstChildElement X e key'"
    "ChildElementsNamed X (new_sub X (put X) val key e) key' = ChildElementsNamed X e key'"
  using assms by (simp_all add: from_sub_def writes_underD(2,3)[OF sub_writes])

lemma sub_name: "tinyxml2_laws X \<Longrightarrow> Name X (new_sub X (put X) val key e) = Name X e"
  by (rule writes_underD(1)[OF sub_writes])

lemmas sub_simps = sub_roundtrip sub_pass sub_name sub_NoChildren

lemma items_name:
  "tinyxml2_laws X \<Longrightarrow> k \<noteq> k' \<Longrightarrow> FirstChildElement X (append_items X k (put X) its e) k' = FirstChildElement X e k'"
  "tinyxml2_laws X \<Longrightarrow> k \<noteq> k' \<Longrightarrow> ChildElementsNamed X (append_items X k (put X) its e) k' = ChildElementsNamed X e k'"
  by (simp_all add: append_items_pass name_new)

lemma items_roundtrip:
  assumes "tinyxml2_laws X" and "ChildElementsNamed X e k = []"
  shows "load_items X (get X) init (append_items X k (put X) its e) k = map norm (filter filled its)"
  using assms
  by (simp add: load_items_def append_items_found name_new filter_map o_def put_empty get_put)

end

interpretation BasicParam: struct_codec write_BasicParam read_BasicParam BasicParamCfgType_default
  "\<lambda>v. v\<lparr>bp_Expiration := None, bp_HeartBeatInterval := None, bp_HeartBeatCount := None\<rparr>" "\<lambda>v. True"
  by unfold_locales (simp_all add: write_BasicParam_def read_BasicParam_def BasicParamCfgType_default_def xml_simps)

interpretation VideoParamOpt: struct_codec write_VideoParamOpt read_VideoParamOpt
  VideoParamOptCfgType_default "\<lambda>v. v" "\<lambda>v. True"
  by unfold_locales (simp_all add: write_VideoParamOpt_def read_VideoParamOpt_def
      VideoParamOptCfgType_default_def xml_simps)

interpretation ROIItem: struct_codec write_ROIItem read_ROIItem ROIParmaInfoItem_default
  "\<lambda>v. ROIParmaInfoItem_default" "\<lambda>v. v \<noteq> ROIParmaInfoItem_default"
  by unfold_locales (auto simp: write_ROIItem_def read_ROIItem_def ROIParmaInfoItem_default_def xml_simps)

interpretation SVACParam: struct_codec write_SVACParam read_SVACParam SVACParamInfo_default
  "\<lambda>v. v\<lparr>sp_SVCSpaceSupportMode := None, sp_SVCTimeSupportMode := None\<rparr>" "\<lambda>v. True"
  by unfold_locales (simp_all add: write_SVACParam_def read_SVACParam_def SVACParamInfo_default_def xml_simps)

interpretation ROIParma: struct_codec write_ROIParma read_ROIParma ROIParmaInfo_default
  "\<lambda>v. ROIParmaInfo_default\<lparr>ro_Item :=
     map (\<lambda>it. ROIParmaInfoItem_default) (filter (\<lambda>it. it \<noteq> ROIParmaInfoItem_default) (ro_Item v))\<rparr>"
  "\<lambda>v. v \<noteq> ROIParmaInfo_default"
  by unfold_locales (auto simp: write_ROIParma_def read_ROIParma_def ROIParmaInfo_default_def xml_simps
      ROIItem.items_roundtrip ROIItem.items_name)

interpretation SurveillanceParam: struct_codec write_SurveillanceParam read_SurveillanceParam
  SurveillanceParamInfo_default "\<lambda>v. v" "\<lambda>v. True"
  by unfold_locales (simp_all add: write_SurveillanceParam_def read_SurveillanceParam_def
      SurveillanceParamInfo_default_def xml_simps)

interpretation AudioParam: struct_codec write_AudioParam read_AudioParam AudioParamInfo_default
  "\<lambda>v. v" "\<lambda>v. True"
  by unfold_locales (simp_all add: write_AudioParam_def read_AudioParam_def AudioParamInfo_default_def xml_simps)

text \<open>What a sub-structure becomes on the way: lost when it wrote nothing.\<close>

definition kept :: "('c \<Rightarrow> bool) \<Rightarrow> ('c \<Rightarrow> 'c) \<Rightarrow> 'c option \<Rightarrow> 'c option" where
  "kept filled norm val = (case val of None \<Rightarrow> None | Some v \<Rightarrow> if filled v then Some (norm v) else None)"

definition SVACEncode_after :: "SVACEncodeCfgType \<Rightarrow> SVACEncodeCfgType" where
  "SVACEncode_after v = v
     \<lparr>se_ROIParma := kept (\<lambda>r. r \<noteq> ROIParmaInfo_default)
        (\<lambda>r. ROIParmaInfo_default\<lparr>ro_Item := map (\<lambda>it. ROIParmaInfoItem_default)
           (filter (\<lambda>it. it \<noteq> ROIParmaInfoItem_default) (ro_Item r))\<rparr>) (se_ROIParma v),
      se_SVACParam := map_option
        (\<lambda>p. p\<lparr>sp_SVCSpaceSupportMode := None, sp_SVCTimeSupportMode := None\<rparr>) (se_SVACParam v)\<rparr>"

interpretation SVACEncode: struct_codec write_SVACEncode read_SVACEncode SVACEncodeCfgType_default
  SVACEncode_after "\<lambda>v. v \<noteq> SVACEncodeCfgType_default"
  by unfold_locales
    (auto simp: write_SVACEncode_def read_SVACEncode_def SVACEncodeCfgType_default_def SVACEncode_after_def
      kept_def xml_simps ROIParma.sub_simps SVACParam.sub_simps SurveillanceParam.sub_simps
      AudioParam.sub_simps split: option.splits)

interpretation SVCParam: struct_codec write_SVCParam read_SVCParam SVCParamInfo_default
  "\<lambda>v. SVCParamInfo_default" "\<lambda>v. v \<noteq> SVCParamInfo_default"
  by unfold_locales (auto simp: write_SVCParam_def read_SVCParam_def SVCParamInfo_default_def xml_simps)

definition SVACDecode_after :: "SVACDecodeCfgType \<Rightarrow> SVACDecodeCfgType" where
  "SVACDecode_after v = v
     \<lparr>sd_SVCParam := kept (\<lambda>r. r \<noteq> SVCParamInfo_default) (\<lambda>r. SVCParamInfo_default) (sd_SVCParam v)\<rparr>"

interpretation SVACDecode: struct_codec write_SVACDecode read_SVACDecode SVACDecodeCfgType_default
  SVACDecode_after "\<lambda>v. v \<noteq> SVACDecodeCfgType_default"
  by unfold_locales
    (auto simp: write_SVACDecode_def read_SVACDecode_def SVACDecodeCfgType_default_def SVACDecode_after_def
      kept_def xml_simps SVCParam.sub_simps SurveillanceParam.sub_simps split: option.splits)

interpretation VideoParamAttributeItem: struct_codec write_VideoParamAttributeItem
  read_VideoParamAttributeItem VideoParamAttributeCfgTypeItem_default "\<lambda>v. v" "\<lambda>v. True"
  by unfold_locales (simp_all add: write_VideoParamAttributeItem_def read_VideoParamAttributeItem_def
      VideoParamAttributeCfgTypeItem_default_def xml_simps)

interpretation TimeSegment: struct_codec write_TimeSegment read_TimeSegment TimeSegmentInfo_default
  "\<lambda>v. v" "\<lambda>v. True"
  by unfold_locales (simp_all add: write_TimeSegment_def read_TimeSegment_def
      TimeSegmentInfo_default_def xml_simps)

interpretation VideoAlarmRecord: struct_codec write_VideoAlarmRecord read_VideoAlarmRecord
  VideoAlarmRecordCfgType_default "\<lambda>v. v\<lparr>ar_RecordTime := None, ar_PreRecordTime := None\<rparr>" "\<lambda>v. True"
  by unfold_locales (simp_all add: write_VideoAlarmRecord_def read_VideoAlarmRecord_def
      VideoAlarmRecordCfgType_default_def xml_simps)

interpretation AlarmReport: struct_codec write_AlarmReport read_AlarmReport AlarmReportCfgType_default
  "\<lambda>v. v" "\<lambda>v. True"
  by unfold_locales (simp_all add: write_AlarmReport_def read_AlarmReport_def
      AlarmReportCfgType_default_def xml_simps)

interpretation OSDItem: struct_codec write_OSDItem read_OSDItem OSDCfgTypeTextItem_default
  "\<lambda>v. v\<lparr>ot_FontSize := None\<rparr>" "\<lambda>v. True"
  by unfold_locales (simp_all add: write_OSDItem_def read_OSDItem_def OSDCfgTypeTextItem_default_def xml_simps)

interpretation OSDConfig: struct_codec write_OSDConfig read_OSDConfig OSDCfgType_default
  "\<lambda>v. v\<lparr>os_TimeType := None, os_FontSize := None,
     os_Item := map (\<lambda>it. it\<lparr>ot_FontSize := None\<rparr>) (os_Item v)\<rparr>" "\<lambda>v. True"
  by unfold_locales (simp_all add: write_OSDConfig_def read_OSDConfig_def OSDCfgType_default_def xml_simps
      OSDItem.items_roundtrip OSDItem.items_name)

interpretation SnapShot: struct_codec write_SnapShot read_SnapShot SnapShotCfgType_default
  "\<lambda>v. v" "\<lambda>v. True"
  by unfold_locales (simp_all add: write_SnapShot_def read_SnapShot_def SnapShotCfgType_default_def xml_simps)


section \<open>Record plan and picture mask\<close>

lemma write_TimeSegment_name: "tinyxml2_laws X \<Longrightarrow> Name X (write_TimeSegment X t (NewElement X k)) = k"
  by (rule TimeSegment.name_new)

lemma write_RecordSchedule_children:
  assumes "tinyxml2_laws X"
  shows "Name X (write_RecordSchedule X it e) = Name X e"
    "k \<noteq> ''RecordSchedule'' \<Longrightarrow> k \<noteq> ''TimeSegment'' \<Longrightarrow>
       FirstChildElement X (write_RecordSchedule X it e) k = FirstChildElement X e k"
    "ChildElementsNamed X (write_RecordSchedule X it e) ''RecordSchedule''
       = ChildElementsNamed X e ''RecordSchedule'' @
         [block [new_xml_element_int X (rs_WeekDayNum it) ''WeekDayNum'',
           new_xml_element_int X (rs_TimeSegmentSumNum it) ''TimeSegmentSumNum''] (NewElement X ''RecordSchedule'')]"
  using assms
  by (simp_all add: write_RecordSchedule_def xml_simps TimeSegment.items_name write_TimeSegment_name)

lemma write_RecordSchedules_children:
  assumes "tinyxml2_laws X"
  shows "Name X (fold (write_RecordSchedule X) its e) = Name X e"
    "k \<noteq> ''RecordSchedule'' \<Longrightarrow> k \<noteq> ''TimeSegment'' \<Longrightarrow>
       FirstChildElement X (fold (write_RecordSchedule X) its e) k = FirstChildElement X e k"
    "ChildElementsNamed X (fold (write_RecordSchedule X) its e) ''RecordSchedule''
       = ChildElementsNamed X e ''RecordSchedule'' @
         map (\<lambda>it. block [new_xml_element_int X (rs_WeekDayNum it) ''WeekDayNum'',
           new_xml_element_int X (rs_TimeSegmentSumNum it) ''TimeSegmentSumNum''] (NewElement X ''RecordSchedule'')) its"
  using assms by (induction its arbitrary: e) (simp_all add: write_RecordSchedule_children)

interpretation VideoRecordPlan: struct_codec write_VideoRecordPlan read_VideoRecordPlan
  VideoRecordPlanCfgType_default
  "\<lambda>v. v\<lparr>rp_RecordSchedule := map (\<lambda>s. s\<lparr>rs_TimeSegment := []\<rparr>) (rp_RecordSchedule v)\<rparr>" "\<lambda>v. True"
  by unfold_locales
    (simp_all add: write_VideoRecordPlan_def read_VideoRecordPlan_def VideoRecordPlanCfgType_default_def
      load_items_def filter_map o_def read_RecordSchedule_def RecordScheduleInfo_default_def
      write_RecordSchedules_children xml_simps)


lemma region_fold_pass:
  assumes "tinyxml2_laws X"
  shows "Name X (fold (\<lambda>it. block [new_xml_element_int X (f it) ''Seq'', new_xml_element_string X (g it) ''Point'']) its e)
      = Name X e"
    "k \<noteq> ''Seq'' \<Longrightarrow> k \<noteq> ''Point'' \<Longrightarrow>
       FirstChildElement X (fold (\<lambda>it. block [new_xml_element_int X (f it) ''Seq'', new_xml_element_string X (g it) ''Point'']) its e) k
       = FirstChildElement X e k"
    "NoChildren X (fold (\<lambda>it. block [new_xml_element_int X (f it) ''Seq'', new_xml_element_string X (g it) ''Point'']) its e)
       \<longleftrightarrow> its = [] \<and> NoChildren X e"
  using assms by (induction its arbitrary: e) (auto simp: xml_simps)

definition PictureMask_after :: "PictureMaskClgType \<Rightarrow> PictureMaskClgType" where
  "PictureMask_after v = v\<lparr>pm_RegionList :=
     (case pm_RegionList v of
        None \<Rightarrow> None
      | Some rl \<Rightarrow> if rg_Item rl = [] then None else Some RegionListInfo_default)\<rparr>"

lemma load_items_empty:
  assumes "tinyxml2_laws X" and "ChildElementsNamed X e k = []"
  shows "load_items X body init (append_items X k (\<lambda>it e. e) its e) k = []"
  using assms by (simp add: load_items_def append_items_found tinyxml2_lawsD)

interpretation PictureMask: struct_codec "\<lambda>X. write_PictureMask X fmt" "\<lambda>X. read_PictureMask X split"
  PictureMaskClgType_default PictureMask_after "\<lambda>v. True"
  for fmt :: "int list \<Rightarrow> string" and split :: "string \<Rightarrow> string \<Rightarrow> string list"
  by unfold_locales
    (simp_all add: write_PictureMask_def read_PictureMask_def PictureMaskClgType_default_def
      PictureMask_after_def region_fold_pass from_sub_def read_RegionList_def Let_def load_items_empty
      RegionListInfo_default_def xml_simps split: option.splits)

section \<open>The elements with a frame of their own\<close>

lemma VideoParamAttribute_roundtrip_aux:
  assumes "tinyxml2_laws X" and "key \<noteq> []" and "FirstChildElement X root key = None"
  shows "from_config X (read_VideoParamAttribute X) VideoParamAttributeCfgType_default
      (new_xml_element_VideoParamAttribute X (Some v) key root) key
    = (True, va_Item v \<noteq> [],
       \<lparr>va_Item = va_Item v, va_Num = of_nat (length (va_Item v))\<rparr>)"
  using assms
  by (simp add: from_config_def new_xml_element_VideoParamAttribute_def read_VideoParamAttribute_def
      Let_def VideoParamAttributeItem.items_roundtrip VideoParamAttributeItem.items_name
      VideoParamAttributeItem.name_new VideoParamAttributeCfgType_default_def xml_simps)

lemma FrameMirror_roundtrip_aux:
  assumes "tinyxml2_laws X" and "FirstChildElement X root ''FrameMirror'' = None"
  shows "from_xml_element_FrameMirror X old
      (new_xml_element_FrameMirror X (Some v) ''FrameMirror'' root) ''FrameMirror'' = (True, True, v)"
  using assms
  by (simp add: from_xml_element_FrameMirror_def new_xml_element_FrameMirror_def xml_simps)

lemma AlarmStatus_items_under_key:
  assumes "tinyxml2_laws X"
  shows "Name X (fold (\<lambda>it. new_xml_element_AlarmStatusItem X it ''Item'') its e) = Name X e"
    "ChildElementsNamed X (fold (\<lambda>it. new_xml_element_AlarmStatusItem X it ''Item'') its e) ''Item''
       = ChildElementsNamed X e ''Item''"
    "length (ChildElementsNamed X (fold (\<lambda>it. new_xml_element_AlarmStatusItem X it ''Item'') its e) ''key'')
       = length (ChildElementsNamed X e ''key'') + length its"
  using assms
  by (induction its arbitrary: e) (simp_all add: new_xml_element_AlarmStatusItem_def xml_simps)

lemma takeWhile_map_Some: "takeWhile (\<lambda>t. \<exists>y. t = Some y) (map Some xs) = map Some xs"
  by (induction xs) simp_all


lemma DeviceIdArr_texts:
  assumes "tinyxml2_laws X" and "[] \<notin> set ids"
  shows "map (GetText X) (map (\<lambda>it. SetText X it (NewElement X k)) ids) = map Some ids"
  using assms by (induction ids) (auto simp: tinyxml2_lawsD)

section \<open>Sets of configuration types\<close>

text \<open>
  The documented behaviour of \<open>toolkit::split\<close> on which the reader relies: cutting a text of non-empty
  pieces at a one-character delimiter gives the pieces back.
\<close>

definition split_law :: "(string \<Rightarrow> string \<Rightarrow> string list) \<Rightarrow> bool" where
  "split_law split \<longleftrightarrow> (\<forall>c ps. ps \<noteq> [] \<longrightarrow> (\<forall>p \<in> set ps. p \<noteq> [] \<and> c \<notin> set p) \<longrightarrow>
     split (join [c] ps) [c] = ps)"

text \<open>A concrete instance: the non-empty runs of other characters.\<close>

fun split_char :: "char \<Rightarrow> string \<Rightarrow> string \<Rightarrow> string list" where
  "split_char c acc [] = (if acc = [] then [] else [rev acc])"
| "split_char c acc (x # xs) =
     (if x = c then (if acc = [] then split_char c [] xs else rev acc # split_char c [] xs)
      else split_char c (x # acc) xs)"

definition split_ref :: "string \<Rightarrow> string \<Rightarrow> string list" where
  "split_ref s d = split_char (hd d) [] s"

lemma split_char_piece: "c \<notin> set p \<Longrightarrow> split_char c acc (p @ s) = split_char c (rev p @ acc) s"
  by (induction p arbitrary: acc) auto

lemma split_ref_law: "split_law split_ref"
proof -
  have "split_char c [] (join [c] ps) = ps" if "\<forall>p \<in> set ps. p \<noteq> [] \<and> c \<notin> set p" for c ps
    using that
  proof (induction "[c]" ps rule: join.induct)
    case (2 p)
    then show ?case using split_char_piece[of c p "[]" "[]"] by simp
  qed (simp_all add: split_char_piece)
  then show ?thesis by (simp add: split_law_def split_ref_def)
qed

lemma join_nonempty: "ps \<noteq> [] \<Longrightarrow> [] \<notin> set ps \<Longrightarrow> join sep ps \<noteq> []"
  by (induction sep ps rule: join.induct) auto

text \<open>The loop's text less its last character is the list of the names set, joined.\<close>

lemma butlast_concat_join:
  "ps \<noteq> [] \<Longrightarrow> butlast (concat (map (\<lambda>s. s @ [c]) ps)) = join [c] ps"
proof (induction "[c]" ps rule: join.induct)
  case (3 p q ps)
  then show ?case by (simp add: butlast_append)
qed simp_all

lemma concat_flags:
  "concat (map (\<lambda>(t, s). if P t then s @ d else []) order)
     = concat (map (\<lambda>s. s @ d) (map snd (filter (\<lambda>(t, s). P t) order)))"
  by (induction order) auto

lemma config_names_distinct: "distinct (map (\<lambda>(t, s). map tolower s) DeviceConfigTypeMap)"
  by (simp add: DeviceConfigTypeMap_def tolower_def)

lemma config_names_ok: "list_all (\<lambda>(t, s). s \<noteq> [] \<and> CHR ''/'' \<notin> set s) DeviceConfigTypeMap"
  by (simp add: DeviceConfigTypeMap_def)

lemma config_flags: "map fst DeviceConfigTypeMap = map (\<lambda>i. push_bit i 1) [0..<12]"
  by (simp add: DeviceConfigTypeMap_def upt_rec)

lemma config_names:
  assumes "set order = set DeviceConfigTypeMap" and "(t, s) \<in> set order"
  shows "s \<noteq> []" "CHR ''/'' \<notin> set s"
  using assms config_names_ok by (auto simp: list_all_iff)

lemma config_find:
  assumes "set order = set DeviceConfigTypeMap" and "(t, s) \<in> set order"
  shows "find (\<lambda>(t, s'). strcaseeq s' s) order = Some (t, s)"
proof -
  have inj: "inj_on (\<lambda>(t, s). map tolower s) (set DeviceConfigTypeMap)"
    using config_names_distinct by (simp add: distinct_map)
  have "find (\<lambda>(t, s'). strcaseeq s' s) order \<noteq> None"
    using assms(2) strcaseeq_refl[of s] unfolding find_None_iff by force
  then obtain t' s' where f: "find (\<lambda>(t, s'). strcaseeq s' s) order = Some (t', s')" by auto
  have "strcaseeq s' s" "(t', s') \<in> set DeviceConfigTypeMap"
    using find_SomeD[OF f] assms(1) by simp_all
  with inj_onD[OF inj, of "(t', s')" "(t, s)"] assms have "(t', s') = (t, s)"
    by (simp add: strcaseeq_def)
  with f show ?thesis by simp
qed

lemma config_fold_bit:
  assumes "set order = set DeviceConfigTypeMap" and "set sel \<subseteq> set order"
  shows "bit (fold (\<lambda>it v. case find (\<lambda>(t, s). strcaseeq s it) order of
            None \<Rightarrow> v | Some (t, _) \<Rightarrow> v OR t) (map snd sel) val) n
    \<longleftrightarrow> bit val n \<or> (\<exists>(t, s) \<in> set sel. bit t n)"
  using assms(2)
proof (induction sel arbitrary: val)
  case (Cons ts sel)
  obtain t s where "ts = (t, s)" by (cases ts)
  with Cons show ?case
    using config_find[OF assms(1), of t s] by (auto simp: bit_or_iff)
qed simp

text \<open>The flags the map lists are the single bits below the twelfth.\<close>

lemma config_selected_bit:
  assumes "set order = set DeviceConfigTypeMap" and "val AND NOT (mask 12) = 0"
  shows "(\<exists>(t, s) \<in> set (filter (\<lambda>(t, s). t AND val \<noteq> 0) order). bit t n) \<longleftrightarrow> bit val n"
proof -
  have range: "n < 12" if "bit val n"
  proof (rule ccontr)
    assume "\<not> n < 12"
    then have "bit (val AND NOT (mask 12)) n"
      using that by (auto simp: bit_simps dest: bit_imp_le_length)
    with assms(2) show False by simp
  qed
  have flag: "(push_bit i 1 AND val \<noteq> 0) = bit val i" if "i < 12" for i
    using that by (metis and.commute bit_iff_and_push_bit_not_eq_0)
  have fsts: "fst ` set order = (\<lambda>i. push_bit i 1) ` {0..<12}"
    using config_flags assms(1) by (metis list.set_map set_upt)
  have "(\<exists>(t, s) \<in> set (filter (\<lambda>(t, s). t AND val \<noteq> 0) order). bit t n)
      \<longleftrightarrow> (\<exists>t \<in> fst ` set order. t AND val \<noteq> 0 \<and> bit t n)"
    by force
  also have "\<dots> \<longleftrightarrow> (\<exists>i < 12. bit val i \<and> bit (push_bit i 1 :: u32) n)"
    unfolding fsts using flag by auto
  also have "\<dots> \<longleftrightarrow> bit val n"
    using range by (auto simp: bit_simps)
  finally show ?thesis .
qed

section \<open>Properties\<close>

text \<open>
  C16. The exact configurations. Written under a key the document does not have yet and read
  back into a fresh struct, the video parameter options, the alarm report and the snapshot
  configuration come back field for field with \<open>has\<close> and the result true; the video parameter
  attributes come back with \<open>Num\<close> set to the number of items (and are reported unread when there are
  none); the frame mirror comes back when its key is \<open>FrameMirror\<close>, the name its writer uses.
\<close>

theorem config_exact_roundtrip:
  assumes "tinyxml2_laws X" and "key \<noteq> []" and "FirstChildElement X root key = None"
  shows "from_config X (read_VideoParamOpt X) VideoParamOptCfgType_default
      (new_config X (write_VideoParamOpt X) (Some vo) key root) key = (True, True, vo)
    \<and> from_config X (read_AlarmReport X) AlarmReportCfgType_default
      (new_config X (write_AlarmReport X) (Some al) key root) key = (True, True, al)
    \<and> from_config X (read_SnapShot X) SnapShotCfgType_default
      (new_config X (write_SnapShot X) (Some ss) key root) key = (True, True, ss)
    \<and> from_config X (read_VideoParamAttribute X) VideoParamAttributeCfgType_default
      (new_xml_element_VideoParamAttribute X (Some va) key root) key
      = (True, va_Item va \<noteq> [], va\<lparr>va_Num := of_nat (length (va_Item va))\<rparr>)
    \<and> (key = ''FrameMirror'' \<longrightarrow> from_xml_element_FrameMirror X FrameMirrorCfgType_default
      (new_xml_element_FrameMirror X (Some fm) key root) key = (True, True, fm))"
  using VideoParamOpt.config_roundtrip[OF assms] AlarmReport.config_roundtrip[OF assms]
    SnapShot.config_roundtrip[OF assms] VideoParamAttribute_roundtrip_aux[OF assms]
    FrameMirror_roundtrip_aux[OF assms(1)] assms(3)
  by (auto simp: VideoParamAttributeCfgType_default_def)

theorem config_exact_roundtrip_witness:
  "from_config dom_xml (read_AlarmReport dom_xml) AlarmReportCfgType_default
      (new_config dom_xml (write_AlarmReport dom_xml) (Some \<lparr>al_MotionDetection = 1, al_FieldDetection = - 2\<rparr>)
        ''FrameMirror'' (NewElement dom_xml ''Response'')) ''FrameMirror''
    = (True, True, \<lparr>al_MotionDetection = 1, al_FieldDetection = - 2\<rparr>)
   \<and> from_xml_element_FrameMirror dom_xml FrameMirrorCfgType_default
      (new_xml_element_FrameMirror dom_xml (Some \<lparr>fm_FrameMirror = 3\<rparr>) ''FrameMirror''
        (NewElement dom_xml ''Response'')) ''FrameMirror'' = (True, True, \<lparr>fm_FrameMirror = 3\<rparr>)"
  using config_exact_roundtrip[OF dom_xml_laws, of "''FrameMirror''" "NewElement dom_xml ''Response''"]
  by (simp add: First_New dom_xml_laws)

text \<open>
  Optional parameters do not survive the wire. For the basic parameters, the alarm recording,
  the OSD and the two SVAC configurations, whatever optional values are written, a fresh struct read
  from the result has none of them: the optional readers only assign through a value that is
  already present. Everything else in those structs comes back as written.
\<close>

theorem config_optionals_never_loaded:
  assumes "tinyxml2_laws X" and "key \<noteq> []" and "FirstChildElement X root key = None"
  shows "from_config X (read_BasicParam X) BasicParamCfgType_default
      (new_config X (write_BasicParam X) (Some bp) key root) key
      = (True, True, bp\<lparr>bp_Expiration := None, bp_HeartBeatInterval := None, bp_HeartBeatCount := None\<rparr>)
    \<and> from_config X (read_VideoAlarmRecord X) VideoAlarmRecordCfgType_default
      (new_config X (write_VideoAlarmRecord X) (Some ar) key root) key
      = (True, True, ar\<lparr>ar_RecordTime := None, ar_PreRecordTime := None\<rparr>)
    \<and> from_config X (read_OSDConfig X) OSDCfgType_default
      (new_config X (write_OSDConfig X) (Some os) key root) key
      = (True, True, os\<lparr>os_TimeType := None, os_FontSize := None,
           os_Item := map (\<lambda>it. it\<lparr>ot_FontSize := None\<rparr>) (os_Item os)\<rparr>)
    \<and> from_config X (read_SVACEncode X) SVACEncodeCfgType_default
      (new_config X (write_SVACEncode X) (Some se) key root) key
      = (True, se \<noteq> SVACEncodeCfgType_default, SVACEncode_after se)
    \<and> from_config X (read_SVACDecode X) SVACDecodeCfgType_default
      (new_config X (write_SVACDecode X) (Some sd) key root) key
      = (True, sd \<noteq> SVACDecodeCfgType_default, SVACDecode_after sd)"
  using BasicParam.config_roundtrip[OF assms] VideoAlarmRecord.config_roundtrip[OF assms]
    OSDConfig.config_roundtrip[OF assms] SVACEncode.config_roundtrip[OF assms]
    SVACDecode.config_roundtrip[OF assms]
  by (auto simp: SVACEncode_after_def SVACDecode_after_def kept_def SVACEncodeCfgType_default_def
      SVACDecodeCfgType_default_def)

theorem config_optionals_never_loaded_witness:
  "from_config dom_xml (read_VideoAlarmRecord dom_xml) VideoAlarmRecordCfgType_default
      (new_config dom_xml (write_VideoAlarmRecord dom_xml)
        (Some \<lparr>ar_RecordEnable = 1, ar_StreamNumber = 0, ar_RecordTime = Some 30, ar_PreRecordTime = None\<rparr>)
        ''VideoAlarmRecord'' (NewElement dom_xml ''Response'')) ''VideoAlarmRecord''
   = (True, True, \<lparr>ar_RecordEnable = 1, ar_StreamNumber = 0, ar_RecordTime = None, ar_PreRecordTime = None\<rparr>)"
  using config_optionals_never_loaded[OF dom_xml_laws, of "''VideoAlarmRecord''" "NewElement dom_xml ''Response''"]
  by (simp add: First_New dom_xml_laws)

text \<open>
  Nested lists that are written beside their owner are lost. A video record plan keeps its own
  fields and one schedule per schedule written, each without its time segments; a picture mask
  keeps its switches, but its region list comes back empty (or absent when it had no region),
  whatever \<open>toolkit::split\<close> and \<open>toolkit::str_format\<close> do.
\<close>

theorem config_nested_lists_lost:
  assumes "tinyxml2_laws X" and "key \<noteq> []" and "FirstChildElement X root key = None"
  shows "from_config X (read_VideoRecordPlan X) VideoRecordPlanCfgType_default
      (new_config X (write_VideoRecordPlan X) (Some rp) key root) key
      = (True, True, rp\<lparr>rp_RecordSchedule := map (\<lambda>s. s\<lparr>rs_TimeSegment := []\<rparr>) (rp_RecordSchedule rp)\<rparr>)
    \<and> from_config X (read_PictureMask X split) PictureMaskClgType_default
      (new_config X (\<lambda>v. write_PictureMask X fmt v) (Some pm) key root) key
      = (True, True, PictureMask_after pm)"
  using VideoRecordPlan.config_roundtrip[OF assms] PictureMask.config_roundtrip[OF assms]
  by simp

theorem config_nested_lists_lost_witness:
  "snd (snd (from_config dom_xml (read_VideoRecordPlan dom_xml) VideoRecordPlanCfgType_default
      (new_config dom_xml (write_VideoRecordPlan dom_xml)
        (Some \<lparr>rp_RecordEnable = 1, rp_StreamNumber = 0, rp_RecordScheduleSumNum = 1, rp_RecordSchedule =
           [\<lparr>rs_WeekDayNum = 3, rs_TimeSegmentSumNum = 1, rs_TimeSegment = [TimeSegmentInfo_default]\<rparr>]\<rparr>)
        ''VideoRecordPlan'' (NewElement dom_xml ''Response'')) ''VideoRecordPlan''))
   = \<lparr>rp_RecordEnable = 1, rp_StreamNumber = 0, rp_RecordScheduleSumNum = 1, rp_RecordSchedule =
           [\<lparr>rs_WeekDayNum = 3, rs_TimeSegmentSumNum = 1, rs_TimeSegment = []\<rparr>]\<rparr>"
  using config_nested_lists_lost[OF dom_xml_laws, of "''VideoRecordPlan''" "NewElement dom_xml ''Response''"]
  by (simp add: First_New dom_xml_laws)

text \<open>
  A set of configuration types survives the wire in any hash order: for every enumeration
  \<open>order\<close> of the map (and possibly another one on the reading side), a non-empty set of listed flags
  written under a fresh key is read back into an empty set as the same set, with success.
\<close>

theorem config_type_set_roundtrip:
  assumes "tinyxml2_laws X" and "split_law split" and "key \<noteq> []" and "FirstChildElement X root key = None"
    and "set order = set DeviceConfigTypeMap" and "set order' = set DeviceConfigTypeMap"
    and "val \<noteq> 0" and "val AND NOT (mask 12) = 0"
  shows "from_xml_element_DeviceConfigType X split order' 0
      (new_xml_element_DeviceConfigType X order val key root) key = (True, val)"
proof -
  define sel where "sel = filter (\<lambda>(t, s). t AND val \<noteq> 0) order"
  let ?ps = "map snd sel"
  have sub: "set sel \<subseteq> set order" by (auto simp: sel_def)
  have ex: "(\<exists>(t, s) \<in> set sel. bit t n) \<longleftrightarrow> bit val n" for n
    unfolding sel_def by (rule config_selected_bit[OF assms(5,8)])
  obtain n where "bit val n" using assms(7) by (metis bit_eqI bit_0_eq bot_apply bot_bool_def)
  with ex have ne: "?ps \<noteq> []" by fastforce
  have ok: "\<forall>p \<in> set ?ps. p \<noteq> [] \<and> CHR ''/'' \<notin> set p"
    using sub config_names[OF assms(5)] by auto
  have str: "concat (map (\<lambda>(t, s). if t AND val \<noteq> 0 then s @ ''/'' else []) order)
      = concat (map (\<lambda>s. s @ ''/'') ?ps)"
    by (simp add: concat_flags sel_def)
  have joined: "join ''/'' ?ps \<noteq> []" using ne ok by (intro join_nonempty) auto
  have last: "butlast (concat (map (\<lambda>s. s @ ''/'') ?ps)) = join ''/'' ?ps"
    by (rule butlast_concat_join[OF ne])
  have nonempty: "concat (map (\<lambda>s. s @ ''/'') ?ps) \<noteq> []" using last joined by (metis butlast.simps(1))
  have new: "new_xml_element_DeviceConfigType X order val key root
      = InsertNewChildElement X key (SetText X (join ''/'' ?ps)) root"
    using assms(3,7) str last nonempty by (simp add: new_xml_element_DeviceConfigType_def)
  have split: "split (join ''/'' ?ps) ''/'' = ?ps"
    using assms(2) ne ok unfolding split_law_def by blast
  have "fold (\<lambda>it v. case find (\<lambda>(t, s). strcaseeq s it) order' of
            None \<Rightarrow> v | Some (t, _) \<Rightarrow> v OR t) ?ps 0 = val"
    using config_fold_bit[OF assms(6)] sub assms(5,6) ex by (intro bit_eqI) simp
  then show ?thesis
    using assms(1,3,4,7) joined
    by (simp add: from_xml_element_DeviceConfigType_def new from_xml_element_string_def
        select_element_def Insert_found tinyxml2_lawsD split Let_def)
qed

theorem config_type_set_roundtrip_witness:
  "from_xml_element_DeviceConfigType dom_xml split_ref (rev DeviceConfigTypeMap) 0
      (new_xml_element_DeviceConfigType dom_xml DeviceConfigTypeMap 0x805 ''ConfigType''
        (NewElement dom_xml ''Query'')) ''ConfigType'' = (True, 0x805)"
  by (rule config_type_set_roundtrip[OF dom_xml_laws split_ref_law])
    (simp_all add: First_New dom_xml_laws mask_eq_decr_exp)

text \<open>
  The two lists of device ids. The ids of a \<open>DeviceIdArr\<close> (none of them empty) survive the
  wire in order; the items of a device status alarm list do not: each is written under the
  literal element name \<open>key\<close>, of which the document gets one per item, and the reader, which looks for
  \<open>Item\<close>, reports success with no items.
\<close>

theorem id_lists_on_the_wire:
  assumes "tinyxml2_laws X" and "key \<noteq> []" and "FirstChildElement X root key = None"
    and "da_DeviceID ids \<noteq> []" and "[] \<notin> set (da_DeviceID ids)" and "as_Item st \<noteq> []"
  shows "from_xml_element_DeviceIdArr X DeviceIdArr_default
      (new_xml_element_DeviceIdArr X ids key root) key = (True, ids)
    \<and> from_xml_element_AlarmStatus X DeviceStatusAlarmStatus_default
      (new_xml_element_AlarmStatus X st key root) key = (True, DeviceStatusAlarmStatus_default)
    \<and> (\<exists>ele. FirstChildElement X (new_xml_element_AlarmStatus X st key root) key = Some ele
         \<and> length (ChildElementsNamed X ele ''key'') = length (as_Item st))"
  using assms
  by (simp add: from_xml_element_DeviceIdArr_def new_xml_element_DeviceIdArr_def DeviceIdArr_default_def
      from_xml_element_AlarmStatus_def new_xml_element_AlarmStatus_def DeviceStatusAlarmStatus_default_def
      DeviceIdArr_texts[unfolded map_map o_def] o_def takeWhile_map_Some AlarmStatus_items_under_key
      Let_def xml_simps)

theorem id_lists_on_the_wire_witness:
  "from_xml_element_DeviceIdArr dom_xml DeviceIdArr_default
      (new_xml_element_DeviceIdArr dom_xml \<lparr>da_DeviceID = [''3402'', ''3403'']\<rparr> ''DeviceList''
        (NewElement dom_xml ''Notify'')) ''DeviceList'' = (True, \<lparr>da_DeviceID = [''3402'', ''3403'']\<rparr>)"
  using id_lists_on_the_wire[OF dom_xml_laws, of "''DeviceList''" "NewElement dom_xml ''Notify''"
      "\<lparr>da_DeviceID = [''3402'', ''3403'']\<rparr>"
      "\<lparr>as_Item = [\<lparr>ai_DeviceID = ''1'', ai_DutyStatus = Duty_invalid\<rparr>], as_Num = 1\<rparr>"]
  by (simp add: First_New dom_xml_laws)

end
