(* ===== verification/Message_Base.thy ===== *)
theory Message_Base
  imports ConfigCodec
begin

text \<open>
  \<open>MessageBase\<close> (\<open>include/gb28181/message/message_base.h\<close>, \<open>src/message/message_base.cpp\<close>): the header every
  message shares, its conversion from and to XML, and the contract of the derived classes.
  The members a derived class adds are the field \<open>mb_detail\<close>, and its overrides of
  \<open>load_detail\<close> and \<open>parse_detail\<close> are function arguments of \<open>load_from_xml\<close> and \<open>parse_to_xml\<close>, with the root
  element of the document. A message also has a \<open>fault\<close> outcome: the C++ behaviour is undefined (or
  an exception escapes) when a \<open>std::string\<close> is made from the null pointer \<open>GetText()\<close>
  returns for an element without text, and when an empty \<open>std::optional\<close> is dereferenced.
\<close>

section \<open>Faults\<close>

datatype fault = NullText | NoValue

type_synonym 'a outcome = "fault + 'a"

definition bind_outcome :: "'a outcome \<Rightarrow> ('a \<Rightarrow> 'b outcome) \<Rightarrow> 'b outcome" where
  "bind_outcome r f = (case r of Inl x \<Rightarrow> Inl x | Inr a \<Rightarrow> f a)"

lemma bind_outcome_simps [simp]:
  "bind_outcome (Inl x) f = Inl x" "bind_outcome (Inr a) f = f a"
  by (simp_all add: bind_outcome_def)

text \<open>\<open>std::string s = ele->GetText()\<close>\<close>

definition string_of_text :: "'e tinyxml2 \<Rightarrow> 'e \<Rightarrow> string outcome" where
  "string_of_text X ele = (case GetText X ele of None \<Rightarrow> Inl NullText | Some t \<Rightarrow> Inr t)"

text \<open>A loop of \<open>emplace_back(ele->GetText())\<close>.\<close>

fun strings_of_texts :: "'e tinyxml2 \<Rightarrow> 'e list \<Rightarrow> string list outcome" where
  "strings_of_texts X [] = Inr []"
| "strings_of_texts X (e # es) =
     bind_outcome (string_of_text X e) (\<lambda>t. bind_outcome (strings_of_texts X es) (\<lambda>ts. Inr (t # ts)))"

section \<open>Documents and messages\<close>

text \<open>What the code uses of \<open>XMLDocument\<close>: a leading declaration and the root element.\<close>

record 'e XMLDocument =
  Declaration :: "string option"
  RootElement :: "'e option"

record ('e, 'd) MessageBase =
  mb_root :: MessageRootType
  mb_cmd :: MessageCmdType
  mb_is_valid :: bool
  mb_encoding :: CharEncodingType
  mb_sn :: i32
  mb_reason :: string
  mb_device_id :: "string option"
  mb_xml :: "'e XMLDocument option"
  mb_extend_data :: "ExtendData list"
  mb_error :: string
  mb_detail :: 'd

definition MessageBase_default :: "'d \<Rightarrow> ('e, 'd) MessageBase" where
  "MessageBase_default detail =
     \<lparr>mb_root = Root_invalid, mb_cmd = Cmd_invalid, mb_is_valid = False, mb_encoding = Enc_invalid,
      mb_sn = 0, mb_reason = [], mb_device_id = None, mb_xml = None, mb_extend_data = [],
      mb_error = [], mb_detail = detail\<rparr>"

text \<open>The constructor from a document, and the one that takes over another message's members.\<close>

definition MessageBase_xml :: "'e XMLDocument option \<Rightarrow> 'd \<Rightarrow> ('e, 'd) MessageBase" where
  "MessageBase_xml xml detail = (MessageBase_default detail)\<lparr>mb_xml := xml\<rparr>"

definition MessageBase_move :: "('e, 'c) MessageBase \<Rightarrow> 'd \<Rightarrow> ('e, 'd) MessageBase" where
  "MessageBase_move other detail =
     \<lparr>mb_root = mb_root other, mb_cmd = mb_cmd other, mb_is_valid = mb_is_valid other,
      mb_encoding = mb_encoding other, mb_sn = mb_sn other, mb_reason = mb_reason other,
      mb_device_id = mb_device_id other, mb_xml = mb_xml other,
      mb_extend_data = mb_extend_data other, mb_error = mb_error other, mb_detail = detail\<rparr>"

text \<open>How most constructors of requests and responses start.\<close>

definition MessageBase_new ::
    "MessageRootType \<Rightarrow> MessageCmdType \<Rightarrow> string option \<Rightarrow> string \<Rightarrow> 'd \<Rightarrow> ('e, 'd) MessageBase" where
  "MessageBase_new root cmd device_id reason detail =
     (MessageBase_default detail)
       \<lparr>mb_root := root, mb_cmd := cmd, mb_device_id := device_id, mb_reason := reason\<rparr>"

definition extend :: "ExtendData list \<Rightarrow> ('e, 'd) MessageBase \<Rightarrow> ('e, 'd) MessageBase" where
  "extend data m = m\<lparr>mb_extend_data := mb_extend_data m @ data\<rparr>"

definition append_extend :: "ExtendData \<Rightarrow> ('e, 'd) MessageBase \<Rightarrow> ('e, 'd) MessageBase" where
  "append_extend data m = m\<lparr>mb_extend_data := mb_extend_data m @ [data]\<rparr>"

section \<open>Reading\<close>

text \<open>\<open>ele->IntText(0)\<close>\<close>

definition IntText :: "'e tinyxml2 \<Rightarrow> int \<Rightarrow> 'e \<Rightarrow> int" where
  "IntText X defaultValue ele = (case QueryIntText X ele of None \<Rightarrow> defaultValue | Some v \<Rightarrow> v)"

text \<open>The header fields \<open>load_from_xml\<close> takes from the root element, in the order of the code.\<close>

definition load_header :: "'e tinyxml2 \<Rightarrow> 'e \<Rightarrow> ('e, 'd) MessageBase \<Rightarrow> ('e, 'd) MessageBase outcome" where
  "load_header X root m =
     (let m = (case FirstChildElement X root ''CmdType'' of
                 None \<Rightarrow> m
               | Some cmd_ele \<Rightarrow> m\<lparr>mb_cmd := getCmdType (GetText X cmd_ele)\<rparr>);
          m = (case FirstChildElement X root ''SN'' of
                 None \<Rightarrow> m
               | Some ele \<Rightarrow> m\<lparr>mb_sn := word_of_int (IntText X 0 ele)\<rparr>)
      in bind_outcome
           (case FirstChildElement X root ''DeviceID'' of
              None \<Rightarrow> Inr m
            | Some ele \<Rightarrow> bind_outcome (string_of_text X ele) (\<lambda>t. Inr (m\<lparr>mb_device_id := Some t\<rparr>)))
           (\<lambda>m. case FirstChildElement X root ''Reason'' of
              None \<Rightarrow> Inr m
            | Some ele \<Rightarrow> bind_outcome (string_of_text X ele) (\<lambda>t. Inr (m\<lparr>mb_reason := t\<rparr>))))"

definition load_encoding :: "'e XMLDocument \<Rightarrow> ('e, 'd) MessageBase \<Rightarrow> ('e, 'd) MessageBase" where
  "load_encoding doc m =
     (if mb_encoding m = Enc_invalid then
        (case Declaration doc of
           None \<Rightarrow> m
         | Some decl \<Rightarrow> (let enc = getCharEncodingType decl
                         in if enc \<noteq> Enc_invalid then m\<lparr>mb_encoding := enc\<rparr> else m))
      else m)"

type_synonym ('e, 'd) load_detail =
  "'e \<Rightarrow> ('e, 'd) MessageBase \<Rightarrow> (bool \<times> ('e, 'd) MessageBase) outcome"

definition load_from_xml ::
    "'e tinyxml2 \<Rightarrow> ('e, 'd) load_detail \<Rightarrow> ('e, 'd) MessageBase \<Rightarrow> (bool \<times> ('e, 'd) MessageBase) outcome" where
  "load_from_xml X load_detail m =
     (case mb_xml m of
        None \<Rightarrow> Inr (False, m)
      | Some doc \<Rightarrow> (case RootElement doc of
          None \<Rightarrow> Inr (False, m)
        | Some root \<Rightarrow>
            (let m = m\<lparr>mb_root := getRootType (Some (Name X root))\<rparr>
             in if mb_root m = Root_invalid then Inr (False, m)
                else bind_outcome (load_header X root m) (\<lambda>m.
                  bind_outcome (load_detail root (load_encoding doc m)) (\<lambda>(valid, m).
                    Inr (valid, m\<lparr>mb_is_valid := valid\<rparr>))))))"

section \<open>Writing\<close>

fun append_extend_to_xml :: "'e tinyxml2 \<Rightarrow> ExtendData \<Rightarrow> 'e \<Rightarrow> 'e" where
  "append_extend_to_xml X (ExtendData key val children) root =
     (if key = [] then root
      else InsertNewChildElement X key
        (\<lambda>ele. fold (append_extend_to_xml X) children (if val \<noteq> [] then SetText X val ele else ele)) root)"

definition load_extend_data :: "'e tinyxml2 \<Rightarrow> ExtendData list \<Rightarrow> 'e \<Rightarrow> 'e" where
  "load_extend_data X data root = fold (append_extend_to_xml X) data root"

definition xml_declaration :: "CharEncodingType \<Rightarrow> string" where
  "xml_declaration enc =
     (case enc of
        Enc_gb2312 \<Rightarrow> ''xml version=\"1.0\" encoding=\"GB2312\"''
      | Enc_gbk \<Rightarrow> ''xml version=\"1.0\" encoding=\"GBK\"''
      | _ \<Rightarrow> ''xml version=\"1.0\" encoding=\"UTF-8\"'')"

text \<open>The header elements of a new document.\<close>

definition header_root :: "'e tinyxml2 \<Rightarrow> ('e, 'd) MessageBase \<Rightarrow> 'e" where
  "header_root X m = block
     [InsertNewChildElement X ''CmdType'' (SetText X (the (getCmdTypeString (mb_cmd m)))),
      InsertNewChildElement X ''SN'' (SetTextInt X (sint (mb_sn m))),
      (\<lambda>root. case mb_device_id m of
         None \<Rightarrow> root
       | Some i \<Rightarrow> if i = [] then root else InsertNewChildElement X ''DeviceID'' (SetText X i) root),
      (\<lambda>root. if mb_reason m = [] then root
              else InsertNewChildElement X ''Reason'' (SetText X (mb_reason m)) root)]
     (NewElement X (the (getRootTypeString (mb_root m))))"

type_synonym ('e, 'd) parse_detail =
  "'e \<Rightarrow> ('e, 'd) MessageBase \<Rightarrow> bool \<times> ('e, 'd) MessageBase \<times> 'e"

definition parse_to_xml ::
    "'e tinyxml2 \<Rightarrow> ('e, 'd) parse_detail \<Rightarrow> bool \<Rightarrow> ('e, 'd) MessageBase \<Rightarrow> bool \<times> ('e, 'd) MessageBase" where
  "parse_to_xml X parse_detail force m =
     (let m = (if force then m\<lparr>mb_xml := None\<rparr> else m)
      in if mb_xml m \<noteq> None then (True, m)
         else if mb_root m = Root_invalid then (False, m)
         else if mb_cmd m = Cmd_invalid then (False, m)
         else (let decl = xml_declaration (mb_encoding m)
               in case parse_detail (header_root X m) m of
                 (False, m, _) \<Rightarrow> (False, m\<lparr>mb_xml := None\<rparr>)
               | (True, m, root) \<Rightarrow>
                   (True, m\<lparr>mb_xml := Some \<lparr>Declaration = Some decl,
                              RootElement = Some (load_extend_data X (mb_extend_data m) root)\<rparr>\<rparr>)))"

text \<open>
  \<open>str\<close>: the text of the document in the message's encoding, and whether \<open>payload_too_big\<close> is called.
  The printer and the conversions (\<open>iconv\<close>) are parameters.
\<close>

definition MessageBase_str ::
    "('e XMLDocument \<Rightarrow> string) \<Rightarrow> (string \<Rightarrow> string) \<Rightarrow> (string \<Rightarrow> string) \<Rightarrow> ('e, 'd) MessageBase \<Rightarrow> string \<times> bool" where
  "MessageBase_str Print utf8_to_gb2312 utf8_to_gbk m =
     (case mb_xml m of
        None \<Rightarrow> ([], False)
      | Some doc \<Rightarrow>
          (let str = (if mb_encoding m = Enc_gb2312 then utf8_to_gb2312 (Print doc)
                      else if mb_encoding m = Enc_gbk then utf8_to_gbk (Print doc)
                      else Print doc)
           in (str, 8 * 1024 - 500 < length str)))"

definition print_message :: "('e, 'd) MessageBase \<Rightarrow> string" where
  "print_message msg =
     ''['' @ print_root (mb_root msg) @ ''->'' @ print_cmd (mb_cmd msg) @ '':'' @ show_int (sint (mb_sn msg)) @ ''] ''"


section \<open>The contract of a derived class\<close>

definition base_keys :: "string set" where
  "base_keys = {''CmdType'', ''SN'', ''DeviceID'', ''Reason''}"

text \<open>A root element that holds nothing but header elements, and one that continues another.\<close>

definition header_only :: "'e tinyxml2 \<Rightarrow> 'e \<Rightarrow> bool" where
  "header_only X r \<longleftrightarrow> (\<forall>c \<in> set (ChildElements X r). Name X c \<in> base_keys)"

definition continues :: "'e tinyxml2 \<Rightarrow> 'e \<Rightarrow> 'e \<Rightarrow> bool" where
  "continues X r r' \<longleftrightarrow> Name X r' = Name X r
     \<and> (\<forall>k \<in> base_keys. FirstChildElement X r' k = FirstChildElement X r k)"

lemma header_only_lookup [xml_simps]:
  assumes "header_only X r" and "k \<notin> base_keys"
  shows "FirstChildElement X r k = None" "ChildElementsNamed X r k = []"
  using assms by (auto simp: header_only_def FirstChildElement_def ChildElementsNamed_def
      find_None_iff filter_empty_conv)

lemma continues_refl [simp]: "continues X r r"
  by (simp add: continues_def)

lemma continues_trans: "continues X r s \<Longrightarrow> continues X s t \<Longrightarrow> continues X r t"
  by (simp add: continues_def)

lemma continues_writes_under:
  assumes "writes_under X k f" and "k \<notin> base_keys" and "continues X r s"
  shows "continues X r (f s)"
  unfolding continues_def
proof (intro conjI ballI)
  show "Name X (f s) = Name X r"
    using assms(3) writes_underD(1)[OF assms(1)] by (simp add: continues_def)
  fix k' assume "k' \<in> base_keys"
  moreover from this assms(2) have "k \<noteq> k'" by auto
  ultimately show "FirstChildElement X (f s) k' = FirstChildElement X r k'"
    using assms(3) writes_underD(2)[OF assms(1)] by (simp add: continues_def)
qed

lemma writes_Insert:
  assumes "tinyxml2_laws X" and "Name X (f (NewElement X k)) = k"
  shows "writes_under X k (InsertNewChildElement X k f)"
  using assms by (auto simp: writes_under_def Insert_sel)

lemma writes_append_items:
  assumes "tinyxml2_laws X" and "\<And>it. Name X (body it (NewElement X k)) = k"
  shows "writes_under X k (append_items X k body its)"
proof -
  have "ChildElements X (append_items X k body its e)
      = ChildElements X e @ map (\<lambda>it. body it (NewElement X k)) its" for e
    using assms unfolding append_items_def by (induction its arbitrary: e) (simp_all add: Insert_sel)
  then show ?thesis using assms by (auto simp: writes_under_def append_items_sel)
qed

lemma header_root_only:
  assumes "tinyxml2_laws X"
  shows "header_only X (header_root X m)"
    "Name X (header_root X m) = the (getRootTypeString (mb_root m))"
  using assms
  by (auto simp: header_only_def header_root_def Insert_sel tinyxml2_lawsD base_keys_def split: option.splits)

lemma header_root_lookup:
  assumes "tinyxml2_laws X"
  shows "FirstChildElement X (header_root X m) ''CmdType''
      = Some (SetText X (the (getCmdTypeString (mb_cmd m))) (NewElement X ''CmdType''))"
    "FirstChildElement X (header_root X m) ''SN'' = Some (SetTextInt X (sint (mb_sn m)) (NewElement X ''SN''))"
    "FirstChildElement X (header_root X m) ''DeviceID'' =
       (case mb_device_id m of None \<Rightarrow> None
        | Some i \<Rightarrow> if i = [] then None else Some (SetText X i (NewElement X ''DeviceID'')))"
    "FirstChildElement X (header_root X m) ''Reason'' =
       (if mb_reason m = [] then None else Some (SetText X (mb_reason m) (NewElement X ''Reason'')))"
  using assms by (simp_all add: header_root_def xml_simps split: option.splits)

text \<open>An empty device id is not written, and the encodings without a name are written as UTF-8.\<close>

definition wire_device_id :: "string option \<Rightarrow> string option" where
  "wire_device_id i = (if i = Some [] then None else i)"

definition wire_encoding :: "CharEncodingType \<Rightarrow> CharEncodingType" where
  "wire_encoding enc = (if enc = Enc_invalid then Enc_utf8 else enc)"

lemma encoding_roundtrip: "getCharEncodingType (xml_declaration enc) = wire_encoding enc"
  by (cases enc; hypsubst; code_simp)


text \<open>What the receiver of a message holds: the header of the sender, and the detail after \<open>norm\<close>.\<close>

definition received ::
    "('d \<Rightarrow> 'd) \<Rightarrow> ('e, 'd) MessageBase \<Rightarrow> 'e XMLDocument \<Rightarrow> ('e, 'd) MessageBase" where
  "received norm m doc = (MessageBase_xml (Some doc) (norm (mb_detail m)))
     \<lparr>mb_root := mb_root m, mb_cmd := mb_cmd m, mb_is_valid := True, mb_sn := mb_sn m,
      mb_encoding := wire_encoding (mb_encoding m), mb_reason := mb_reason m,
      mb_device_id := wire_device_id (mb_device_id m)\<rparr>"

definition survives_wire ::
    "'e tinyxml2 \<Rightarrow> ('e, 'd) load_detail \<Rightarrow> ('e, 'd) parse_detail \<Rightarrow> 'd \<Rightarrow> ('d \<Rightarrow> 'd) \<Rightarrow>
     ('e, 'd) MessageBase \<Rightarrow> bool" where
  "survives_wire X load parse fresh norm m \<longleftrightarrow>
     (\<exists>m' doc. parse_to_xml X parse True m = (True, m') \<and> mb_xml m' = Some doc
        \<and> load_from_xml X load (MessageBase_xml (Some doc) fresh) = Inr (True, received norm m doc))"

text \<open>A message that can be sent: it has a type and no user extension data.\<close>

definition sendable :: "('e, 'd) MessageBase \<Rightarrow> bool" where
  "sendable m \<longleftrightarrow> mb_root m \<noteq> Root_invalid \<and> mb_cmd m \<noteq> Cmd_invalid \<and> mb_extend_data m = []"

lemma load_header_back:
  assumes X: "tinyxml2_laws X" and root: "mb_root m \<noteq> Root_invalid" and cmd: "mb_cmd m \<noteq> Cmd_invalid"
    and r: "continues X (header_root X m) r"
    and m0: "mb_device_id m0 = None" "mb_reason m0 = []"
  shows "getRootType (Some (Name X r)) = mb_root m"
    "load_header X r m0 = Inr (m0\<lparr>mb_cmd := mb_cmd m, mb_sn := mb_sn m,
       mb_device_id := wire_device_id (mb_device_id m), mb_reason := mb_reason m\<rparr>)"
proof -
  obtain rs where rs: "getRootTypeString (mb_root m) = Some rs" using root root_string_total by blast
  have "Name X r = rs" using r header_root_only(2)[OF X, of m] rs by (simp add: continues_def)
  with rs show "getRootType (Some (Name X r)) = mb_root m" by simp
  obtain cs where cs: "getCmdTypeString (mb_cmd m) = Some cs" using cmd cmd_string_total by blast
  then have "cs \<noteq> []"
    by (auto simp: getCmdTypeString_def cmd_map.string_iff dest: cmd_map.names_nonempty)
  moreover have "FirstChildElement X r k = FirstChildElement X (header_root X m) k" if "k \<in> base_keys" for k
    using r that by (simp add: continues_def)
  ultimately show "load_header X r m0 = Inr (m0\<lparr>mb_cmd := mb_cmd m, mb_sn := mb_sn m,
       mb_device_id := wire_device_id (mb_device_id m), mb_reason := mb_reason m\<rparr>)"
    using X cs m0 int_back(1)[OF X, of "mb_sn m"]
    by (cases "mb_device_id m")
      (simp_all add: load_header_def base_keys_def header_root_lookup string_of_text_def IntText_def
        wire_device_id_def tinyxml2_lawsD)
qed

text \<open>
  The contract comes in two strengths: the reader of a loose codec may rely on the reason that the header brought, since some
  classes read it again.
\<close>

locale loose_codec =
  fixes load :: "'e tinyxml2 \<Rightarrow> ('e, 'd) load_detail"
    and parse :: "'e tinyxml2 \<Rightarrow> ('e, 'd) parse_detail"
    and fresh :: 'd and norm :: "'d \<Rightarrow> 'd" and ok :: "string option \<Rightarrow> string \<Rightarrow> 'd \<Rightarrow> bool"
  assumes writes: "tinyxml2_laws X \<Longrightarrow> ok (mb_device_id m) (mb_reason m) (mb_detail m) \<Longrightarrow>
      \<exists>m' r'. parse X (header_root X m) m = (True, m', r') \<and> continues X (header_root X m) r'
        \<and> mb_extend_data m' = mb_extend_data m"
    and reads: "tinyxml2_laws X \<Longrightarrow> ok (mb_device_id m) (mb_reason m) (mb_detail m) \<Longrightarrow>
      header_only X r \<Longrightarrow> mb_detail w = fresh \<Longrightarrow> mb_device_id w = wire_device_id (mb_device_id m) \<Longrightarrow>
      mb_reason w = mb_reason m \<Longrightarrow>
      load X (snd (snd (parse X r m))) w = Inr (True, w\<lparr>mb_detail := norm (mb_detail m)\<rparr>)"
begin

lemma message_roundtrip:
  assumes X: "tinyxml2_laws X" and m: "sendable m" "ok (mb_device_id m) (mb_reason m) (mb_detail m)"
  shows "survives_wire X (load X) (parse X) fresh norm m"
proof -
  let ?msg = "m\<lparr>mb_xml := None\<rparr>"
  obtain m' r where p: "parse X (header_root X ?msg) ?msg = (True, m', r)" "continues X (header_root X ?msg) r"
      "mb_extend_data m' = mb_extend_data m"
    using writes[OF X, of ?msg] m by auto
  let ?doc = "\<lparr>Declaration = Some (xml_declaration (mb_encoding m)), RootElement = Some r\<rparr>"
  have sent: "parse_to_xml X (parse X) True m = (True, m'\<lparr>mb_xml := Some ?doc\<rparr>)"
    using m p by (simp add: parse_to_xml_def sendable_def load_extend_data_def)
  let ?empty = "(MessageBase_xml (Some ?doc) fresh)\<lparr>mb_root := mb_root m\<rparr>"
  have head: "getRootType (Some (Name X r)) = mb_root m"
    "load_header X r ?empty = Inr (?empty\<lparr>mb_cmd := mb_cmd m, mb_sn := mb_sn m,
       mb_device_id := wire_device_id (mb_device_id m), mb_reason := mb_reason m\<rparr>)"
    using load_header_back[OF X _ _ p(2), of ?empty] m
    by (simp_all add: sendable_def MessageBase_xml_def MessageBase_default_def)
  have detail: "load X r m0 = Inr (True, m0\<lparr>mb_detail := norm (mb_detail m)\<rparr>)"
    if "mb_detail m0 = fresh" "mb_device_id m0 = wire_device_id (mb_device_id m)" "mb_reason m0 = mb_reason m" for m0
    using reads[OF X, where m = ?msg and r = "header_root X ?msg" and w = m0] p(1) m that
      header_root_only(1)[OF X, of ?msg] by simp
  have "load_from_xml X (load X) (MessageBase_xml (Some ?doc) fresh) = Inr (True, received norm m ?doc)"
    using m head detail
    by (simp add: load_from_xml_def load_encoding_def encoding_roundtrip received_def sendable_def
        MessageBase_xml_def MessageBase_default_def wire_encoding_def Let_def)
  with sent show ?thesis unfolding survives_wire_def by auto
qed

text \<open>A message whose document is there already is not written again.\<close>

lemma parse_idempotent: "mb_xml m \<noteq> None \<Longrightarrow> parse_to_xml X (parse X) False m = (True, m)"
  by (simp add: parse_to_xml_def)

end

locale message_codec =
  fixes load :: "'e tinyxml2 \<Rightarrow> ('e, 'd) load_detail"
    and parse :: "'e tinyxml2 \<Rightarrow> ('e, 'd) parse_detail"
    and fresh :: 'd and norm :: "'d \<Rightarrow> 'd" and ok :: "string option \<Rightarrow> string \<Rightarrow> 'd \<Rightarrow> bool"
  assumes parse_ok: "tinyxml2_laws X \<Longrightarrow> ok (mb_device_id m) (mb_reason m) (mb_detail m) \<Longrightarrow>
      \<exists>m' r'. parse X (header_root X m) m = (True, m', r') \<and> continues X (header_root X m) r'
        \<and> mb_extend_data m' = mb_extend_data m"
    and load_parse: "tinyxml2_laws X \<Longrightarrow> ok (mb_device_id m) (mb_reason m) (mb_detail m) \<Longrightarrow>
      header_only X r \<Longrightarrow> mb_detail w = fresh \<Longrightarrow> mb_device_id w = wire_device_id (mb_device_id m) \<Longrightarrow>
      load X (snd (snd (parse X r m))) w = Inr (True, w\<lparr>mb_detail := norm (mb_detail m)\<rparr>)"

sublocale message_codec \<subseteq> loose_codec load parse fresh norm ok
  by unfold_locales (use parse_ok load_parse in blast)+

end
