(* ===== verification/Messages.thy ===== *)
theory Messages
  imports Message_Base
begin

text \<open>
  The query, response and notification messages of \<open>src/message\<close> that carry a few fields or one list:
  keepalive, broadcast, device information, device status, preset, home position, mobile position, SD
  card, PTZ position and cruise track. One record per class with data (its private members,
  tagged by two letters), its \<open>load_\<close> and \<open>parse_\<close> functions (the overrides of \<open>load_detail\<close> and
  \<open>parse_detail\<close>), and an interpretation of \<open>message_codec\<close>. A class without data members
  uses the inherited functions and the unit detail.
\<close>

section \<open>Shared pieces\<close>

abbreviation from_Result ::
    "'e tinyxml2 \<Rightarrow> ResultType \<Rightarrow> 'e \<Rightarrow> string \<Rightarrow> bool \<times> ResultType" where
  "from_Result X \<equiv> from_xml_element_enum X ResultTypeMap Result_invalid"

abbreviation new_Result :: "'e tinyxml2 \<Rightarrow> ResultType \<Rightarrow> string \<Rightarrow> 'e \<Rightarrow> 'e" where
  "new_Result X \<equiv> new_xml_element_enum X ResultTypeMap Result_invalid"

text \<open>\<open>error_message_ = "..."; return false;\<close> and \<open>return true;\<close>\<close>

definition reject :: "string \<Rightarrow> ('e, 'd) MessageBase \<Rightarrow> bool \<times> ('e, 'd) MessageBase" where
  "reject err m = (False, m\<lparr>mb_error := err\<rparr>)"

definition accept :: "'d \<Rightarrow> ('e, 'd) MessageBase \<Rightarrow> bool \<times> ('e, 'd) MessageBase" where
  "accept d m = (True, m\<lparr>mb_detail := d\<rparr>)"

text \<open>The inherited \<open>load_detail\<close> and \<open>parse_detail\<close>.\<close>

definition load_nothing :: "('e, 'd) load_detail" where
  "load_nothing root m = Inr (True, m)"

definition parse_nothing :: "('e, 'd) parse_detail" where
  "parse_nothing root m = (True, m, root)"

text \<open>The \<open>Info\<close> texts of a response: one element each, directly under the root.\<close>

definition write_texts :: "'e tinyxml2 \<Rightarrow> string \<Rightarrow> string list \<Rightarrow> 'e \<Rightarrow> 'e" where
  "write_texts X key = append_items X key (\<lambda>it. SetText X it)"

lemma strings_back:
  assumes "tinyxml2_laws X" and "[] \<notin> set its"
  shows "strings_of_texts X (map (\<lambda>it. SetText X it (NewElement X k)) its) = Inr its"
  using assms by (induction its) (auto simp: string_of_text_def tinyxml2_lawsD)

lemma write_texts_simps [xml_simps]:
  assumes "tinyxml2_laws X"
  shows "Name X (write_texts X k its e) = Name X e"
    "k \<noteq> k' \<Longrightarrow> FirstChildElement X (write_texts X k its e) k' = FirstChildElement X e k'"
    "k \<noteq> k' \<Longrightarrow> ChildElementsNamed X (write_texts X k its e) k' = ChildElementsNamed X e k'"
    "ChildElementsNamed X (write_texts X k its e) k
       = ChildElementsNamed X e k @ map (\<lambda>it. SetText X it (NewElement X k)) its"
  using assms
  by (simp_all add: write_texts_def append_items_sel append_items_pass append_items_found tinyxml2_lawsD)

lemma write_texts_first:
  assumes "tinyxml2_laws X" and "ChildElementsNamed X e k = []"
  shows "FirstChildElement X (write_texts X k (a # its) e) k = Some (SetText X a (NewElement X k))"
    "ChildElements X (write_texts X k its' e) = ChildElements X e @ map (\<lambda>it. SetText X it (NewElement X k)) its'"
proof -
  show "FirstChildElement X (write_texts X k (a # its) e) k = Some (SetText X a (NewElement X k))"
    using assms by (simp add: First_Named write_texts_simps)
  show "ChildElements X (write_texts X k its' e) = ChildElements X e @ map (\<lambda>it. SetText X it (NewElement X k)) its'"
    using assms(1) unfolding write_texts_def append_items_def
    by (induction its' arbitrary: e) (simp_all add: Insert_sel)
qed

lemma string_back_old:
  assumes "tinyxml2_laws X" and "old = []"
  shows "snd (case GetText X (SetText X s (NewElement X k)) of None \<Rightarrow> (False, old) | Some t \<Rightarrow> (True, t)) = s"
  unfolding assms(2) by (rule string_back[OF assms(1)])

text \<open>An enumerator that has a name is written as its name, and its name is read as the enumerator.\<close>

lemma enum_write:
  assumes "enum_map M bad" and "k \<noteq> []" and "xmap_string M t \<noteq> None"
  shows "new_xml_element_enum X M bad t k e = InsertNewChildElement X k (SetText X (the (xmap_string M t))) e"
  using assms enum_map.invalid_has_no_name[OF assms(1)] by (auto simp: new_xml_element_enum_def)

lemma enum_unwritten: "new_xml_element_enum X M bad bad k e = e"
  by (simp add: new_xml_element_enum_def)

lemma enum_read:
  assumes "tinyxml2_laws X" and "enum_map M bad" and "xmap_string M t \<noteq> None"
  shows "xmap_get M bad (GetText X (SetText X (the (xmap_string M t)) (NewElement X k))) = t"
  using assms by (auto simp: enum_text_back)

lemma enum_names:
  "xmap_string ResultTypeMap r = None \<longleftrightarrow> r = Result_invalid"
  "xmap_string OnlineTypeMap n = None \<longleftrightarrow> n = Online_invalid"
  "xmap_string StatusTypeMap t = None \<longleftrightarrow> t = Status_invalid"
  "xmap_string RecordTypeMap c = None \<longleftrightarrow> c = Record_invalid"
  "xmap_string GuardTypeMap g = None \<longleftrightarrow> g = Guard_invalid"
  "xmap_string TargetTraceTypeMap a = None \<longleftrightarrow> a = Trace_invalid"
  by ((cases r; simp add: xmap_string_def ResultTypeMap_def),
      (cases n; simp add: xmap_string_def OnlineTypeMap_def),
      (cases t; simp add: xmap_string_def StatusTypeMap_def),
      (cases c; simp add: xmap_string_def RecordTypeMap_def),
      (cases g; simp add: xmap_string_def GuardTypeMap_def),
      (cases a; simp add: xmap_string_def TargetTraceTypeMap_def))

lemmas enum_codec =
  enum_write[OF result_map.enum_map_axioms] enum_write[OF online_map.enum_map_axioms]
  enum_write[OF status_map.enum_map_axioms] enum_write[OF record_map.enum_map_axioms]
  enum_write[OF guard_map.enum_map_axioms] enum_write[OF trace_map.enum_map_axioms]
  enum_read[OF _ result_map.enum_map_axioms] enum_read[OF _ online_map.enum_map_axioms]
  enum_read[OF _ status_map.enum_map_axioms] enum_read[OF _ record_map.enum_map_axioms]
  enum_read[OF _ guard_map.enum_map_axioms] enum_read[OF _ trace_map.enum_map_axioms]
  enum_names enum_unwritten from_xml_element_enum_def

lemmas codec_simps = continues_def base_keys_def wire_device_id_def strings_back reject_def accept_def Let_def

section \<open>Keepalive\<close>

record KeepaliveMessageRequest =
  ka_status :: ResultType
  ka_info :: "string list"

definition KeepaliveMessageRequest_default :: KeepaliveMessageRequest where
  "KeepaliveMessageRequest_default = \<lparr>ka_status = Result_invalid, ka_info = []\<rparr>"

definition KeepaliveMessageRequest_new :: "string \<Rightarrow> ResultType \<Rightarrow> ('e, KeepaliveMessageRequest) MessageBase" where
  "KeepaliveMessageRequest_new device_id status =
     MessageBase_new Root_Notify Cmd_Keepalive (Some device_id) [] \<lparr>ka_status = status, ka_info = []\<rparr>"

text \<open>
  The loop starts at the first \<open>DeviceID\<close> and goes on with the following siblings named \<open>Info\<close>.
\<close>

fun after_first :: "('a \<Rightarrow> bool) \<Rightarrow> 'a list \<Rightarrow> 'a list" where
  "after_first P [] = []"
| "after_first P (x # xs) = (if P x then xs else after_first P xs)"

definition load_Keepalive :: "'e tinyxml2 \<Rightarrow> ('e, KeepaliveMessageRequest) load_detail" where
  "load_Keepalive X root m =
     (let (ok, st) = from_Result X (ka_status (mb_detail m)) root ''Status'';
          d = (mb_detail m)\<lparr>ka_status := st\<rparr>
      in if \<not> ok then Inr (False, m\<lparr>mb_detail := d\<rparr>)
         else (case FirstChildElement X root ''Info'' of
            None \<Rightarrow> Inr (accept d m)
          | Some info \<Rightarrow> (case FirstChildElement X info ''DeviceID'' of
              None \<Rightarrow> Inr (accept d m)
            | Some item \<Rightarrow>
                (let rest = after_first (\<lambda>c. Name X c = ''DeviceID'') (ChildElements X info)
                 in bind_outcome
                      (strings_of_texts X (item # filter (\<lambda>c. Name X c = ''Info'') rest))
                      (\<lambda>ts. Inr (accept (d\<lparr>ka_info := ka_info d @ ts\<rparr>) m))))))"

definition parse_Keepalive :: "'e tinyxml2 \<Rightarrow> ('e, KeepaliveMessageRequest) parse_detail" where
  "parse_Keepalive X root m =
     (let d = mb_detail m in (True, m, block
        [new_Result X (ka_status d) ''Status'',
         (\<lambda>root. if ka_info d \<noteq> []
            then InsertNewChildElement X ''Info'' (write_texts X ''DeviceID'' (ka_info d)) root
            else root)] root))"

section \<open>Broadcast\<close>

record BroadcastNotifyRequest =
  br_source_id :: string
  br_target_id :: string

definition BroadcastNotifyRequest_default :: BroadcastNotifyRequest where
  "BroadcastNotifyRequest_default = \<lparr>br_source_id = [], br_target_id = []\<rparr>"

definition BroadcastNotifyRequest_new :: "string \<Rightarrow> string \<Rightarrow> ('e, BroadcastNotifyRequest) MessageBase" where
  "BroadcastNotifyRequest_new source_id target_id =
     MessageBase_new Root_Notify Cmd_Broadcast None [] \<lparr>br_source_id = source_id, br_target_id = target_id\<rparr>"

definition load_BroadcastRequest :: "'e tinyxml2 \<Rightarrow> ('e, BroadcastNotifyRequest) load_detail" where
  "load_BroadcastRequest X root m =
     (let d = mb_detail m;
          (ok1, s) = from_xml_element_string X (br_source_id d) root ''SourceID'';
          d = d\<lparr>br_source_id := s\<rparr>
      in if \<not> ok1 then Inr (reject ''invalid parameter, SourceID missing'' (m\<lparr>mb_detail := d\<rparr>))
         else let (ok2, t) = from_xml_element_string X (br_target_id d) root ''TargetID'';
                  d = d\<lparr>br_target_id := t\<rparr>
              in if \<not> ok2 then Inr (reject ''invalid parameter, TargetID missing'' (m\<lparr>mb_detail := d\<rparr>))
                 else Inr (accept d m))"

definition parse_BroadcastRequest :: "'e tinyxml2 \<Rightarrow> ('e, BroadcastNotifyRequest) parse_detail" where
  "parse_BroadcastRequest X root m = (True, m, block
     [new_xml_element_string X (br_source_id (mb_detail m)) ''SourceID'',
      new_xml_element_string X (br_target_id (mb_detail m)) ''TargetID''] root)"

text \<open>A response whose only field is the mandatory result.\<close>

record ResultResponse =
  rr_result :: ResultType

definition ResultResponse_default :: ResultResponse where
  "ResultResponse_default = \<lparr>rr_result = Result_invalid\<rparr>"

definition BroadcastNotifyResponse_new :: "string \<Rightarrow> ResultType \<Rightarrow> ('e, ResultResponse) MessageBase" where
  "BroadcastNotifyResponse_new device_id result =
     MessageBase_new Root_Response Cmd_Broadcast (Some device_id) [] \<lparr>rr_result = result\<rparr>"

definition load_BroadcastResponse :: "'e tinyxml2 \<Rightarrow> ('e, ResultResponse) load_detail" where
  "load_BroadcastResponse X root m =
     (let (ok, r) = from_Result X (rr_result (mb_detail m)) root ''Result'';
          d = (mb_detail m)\<lparr>rr_result := r\<rparr>
      in if \<not> ok then Inr (reject ''invalid parameter, Result missing'' (m\<lparr>mb_detail := d\<rparr>))
         else Inr (accept d m))"

definition parse_BroadcastResponse :: "'e tinyxml2 \<Rightarrow> ('e, ResultResponse) parse_detail" where
  "parse_BroadcastResponse X root m =
     (True, m, new_Result X (rr_result (mb_detail m)) ''Result'' root)"


lemma after_first_none: "\<forall>x \<in> set xs. \<not> Q x \<Longrightarrow> filter Q (after_first P xs) = []"
  by (induction xs) auto

interpretation KeepaliveRequest: message_codec load_Keepalive parse_Keepalive
  KeepaliveMessageRequest_default "\<lambda>d. d\<lparr>ka_info := take 1 (ka_info d)\<rparr>"
  "\<lambda>i r d. ka_status d \<noteq> Result_invalid \<and> [] \<notin> set (ka_info d)"
proof (unfold_locales, goal_cases)
  case (1 X m)
  then show ?case
    by (auto simp: parse_Keepalive_def Let_def codec_simps enum_codec xml_simps)
next
  case (2 X m r w)
  then show ?case
    by (cases "ka_info (mb_detail m)")
      (auto simp: parse_Keepalive_def load_Keepalive_def KeepaliveMessageRequest_default_def codec_simps
        enum_codec write_texts_first after_first_none string_of_text_def xml_simps)
qed

interpretation BroadcastRequest: message_codec load_BroadcastRequest parse_BroadcastRequest
  BroadcastNotifyRequest_default "\<lambda>d. d" "\<lambda>i r d. br_source_id d \<noteq> [] \<and> br_target_id d \<noteq> []"
  by unfold_locales
    (auto simp: parse_BroadcastRequest_def load_BroadcastRequest_def BroadcastNotifyRequest_default_def codec_simps xml_simps)

interpretation BroadcastResponse: message_codec load_BroadcastResponse parse_BroadcastResponse
  ResultResponse_default "\<lambda>d. d" "\<lambda>i r d. rr_result d \<noteq> Result_invalid"
  by unfold_locales
    (auto simp: parse_BroadcastResponse_def load_BroadcastResponse_def ResultResponse_default_def codec_simps enum_codec xml_simps)


section \<open>Requests without members\<close>

definition DeviceInfoMessageRequest_new :: "string \<Rightarrow> ('e, unit) MessageBase" where
  "DeviceInfoMessageRequest_new device_id = MessageBase_new Root_Query Cmd_DeviceInfo (Some device_id) [] ()"

definition DeviceStatusMessageRequest_new :: "string \<Rightarrow> ('e, unit) MessageBase" where
  "DeviceStatusMessageRequest_new device_id = MessageBase_new Root_Query Cmd_DeviceStatus (Some device_id) [] ()"

definition PresetRequestMessage_new :: "string \<Rightarrow> ('e, unit) MessageBase" where
  "PresetRequestMessage_new device_id = MessageBase_new Root_Query Cmd_PresetQuery (Some device_id) [] ()"

definition HomePositionRequestMessage_new :: "string \<Rightarrow> ('e, unit) MessageBase" where
  "HomePositionRequestMessage_new device_id = MessageBase_new Root_Query Cmd_HomePositionQuery (Some device_id) [] ()"

definition SdCardRequestMessage_new :: "string \<Rightarrow> ('e, unit) MessageBase" where
  "SdCardRequestMessage_new device_id = MessageBase_new Root_Query Cmd_SDCardStatus (Some device_id) [] ()"

definition PTZPositionRequestMessage_new :: "string \<Rightarrow> ('e, unit) MessageBase" where
  "PTZPositionRequestMessage_new device_id = MessageBase_new Root_Query Cmd_PTZPosition (Some device_id) [] ()"

definition CruiseTrackListRequestMessage_new :: "string \<Rightarrow> ('e, unit) MessageBase" where
  "CruiseTrackListRequestMessage_new device_id =
     MessageBase_new Root_Query Cmd_CruiseTrackListQuery (Some device_id) [] ()"

interpretation PlainRequest: message_codec "\<lambda>X. load_nothing" "\<lambda>X. parse_nothing" "()" "\<lambda>d. d" "\<lambda>i r d. True"
  by unfold_locales (simp_all add: load_nothing_def parse_nothing_def continues_def)

section \<open>Device information\<close>

record DeviceInfoMessageResponse =
  di_device_name :: string
  di_result :: ResultType
  di_manufacturer :: string
  di_model :: string
  di_firmware :: string
  di_channel :: "i32 option"
  di_info :: "string list"

definition DeviceInfoMessageResponse_default :: DeviceInfoMessageResponse where
  "DeviceInfoMessageResponse_default =
     \<lparr>di_device_name = [], di_result = Result_invalid, di_manufacturer = [], di_model = [],
      di_firmware = [], di_channel = None, di_info = []\<rparr>"

definition DeviceInfoMessageResponse_new ::
    "string \<Rightarrow> ResultType \<Rightarrow> ('e, DeviceInfoMessageResponse) MessageBase" where
  "DeviceInfoMessageResponse_new device_id result =
     MessageBase_new Root_Response Cmd_DeviceInfo (Some device_id) []
       (DeviceInfoMessageResponse_default\<lparr>di_result := result\<rparr>)"

definition load_DeviceInfo :: "'e tinyxml2 \<Rightarrow> ('e, DeviceInfoMessageResponse) load_detail" where
  "load_DeviceInfo X root m =
     (let (ok, r) = from_Result X (di_result (mb_detail m)) root ''Result'';
          d = (mb_detail m)\<lparr>di_result := r\<rparr>
      in if \<not> ok then Inr (reject ''The Result field invalid'' (m\<lparr>mb_detail := d\<rparr>))
         else let d = d
             \<lparr>di_device_name := snd (from_xml_element_string X (di_device_name d) root ''DeviceName''),
              di_manufacturer := snd (from_xml_element_string X (di_manufacturer d) root ''Manufacturer''),
              di_model := snd (from_xml_element_string X (di_model d) root ''Model''),
              di_firmware := snd (from_xml_element_string X (di_firmware d) root ''Firmware''),
              di_channel := snd (from_xml_element_opt (from_xml_element_int X) (di_channel d) root ''Channel'')\<rparr>
         in bind_outcome (strings_of_texts X (ChildElementsNamed X root ''Info''))
              (\<lambda>ts. Inr (accept (d\<lparr>di_info := di_info d @ ts\<rparr>) m)))"

definition parse_DeviceInfo :: "'e tinyxml2 \<Rightarrow> ('e, DeviceInfoMessageResponse) parse_detail" where
  "parse_DeviceInfo X root m =
     (let d = mb_detail m
      in if di_result d = Result_invalid then (False, m\<lparr>mb_error := ''The Result field invalid''\<rparr>, root)
         else (True, m, block
           [new_Result X (di_result d) ''Result'',
            new_xml_element_string X (di_device_name d) ''DeviceName'',
            new_xml_element_string X (di_manufacturer d) ''Manufacturer'',
            new_xml_element_string X (di_model d) ''Model'',
            new_xml_element_string X (di_firmware d) ''Firmware'',
            new_xml_element_opt (new_xml_element_int X) (di_channel d) ''Channel'',
            write_texts X ''Info'' (di_info d)] root))"

interpretation DeviceInfo: message_codec load_DeviceInfo parse_DeviceInfo DeviceInfoMessageResponse_default
  "\<lambda>d. d\<lparr>di_channel := None\<rparr>" "\<lambda>i r d. di_result d \<noteq> Result_invalid \<and> [] \<notin> set (di_info d)"
  by unfold_locales
    (simp_all add: parse_DeviceInfo_def load_DeviceInfo_def DeviceInfoMessageResponse_default_def
      codec_simps enum_codec xml_simps)

section \<open>Device status\<close>

record DeviceStatusMessageResponse =
  dv_result :: ResultType
  dv_online :: OnlineType
  dv_status :: ResultType
  dv_encode :: StatusType
  dv_record :: StatusType
  dv_device_time :: string
  dv_alarm_status :: DeviceStatusAlarmStatus
  dv_info :: "string list"

definition DeviceStatusMessageResponse_default :: DeviceStatusMessageResponse where
  "DeviceStatusMessageResponse_default =
     \<lparr>dv_result = Result_invalid, dv_online = Online_invalid, dv_status = Result_invalid,
      dv_encode = Status_invalid, dv_record = Status_invalid, dv_device_time = [],
      dv_alarm_status = DeviceStatusAlarmStatus_default, dv_info = []\<rparr>"

definition DeviceStatusMessageResponse_new ::
    "string \<Rightarrow> ResultType \<Rightarrow> OnlineType \<Rightarrow> ResultType \<Rightarrow> ('e, DeviceStatusMessageResponse) MessageBase" where
  "DeviceStatusMessageResponse_new device_id result online status =
     MessageBase_new Root_Response Cmd_DeviceStatus (Some device_id) []
       (DeviceStatusMessageResponse_default\<lparr>dv_result := result, dv_online := online, dv_status := status\<rparr>)"

definition load_DeviceStatus :: "'e tinyxml2 \<Rightarrow> ('e, DeviceStatusMessageResponse) load_detail" where
  "load_DeviceStatus X root m =
     (let d = mb_detail m;
          (ok1, r) = from_Result X (dv_result d) root ''Result'';
          d = d\<lparr>dv_result := r\<rparr>
      in if \<not> ok1 then Inr (reject ''The Result field invalid'' (m\<lparr>mb_detail := d\<rparr>))
      else let (ok2, n) = from_xml_element_enum X OnlineTypeMap Online_invalid (dv_online d) root ''Online'';
          d = d\<lparr>dv_online := n\<rparr>
      in if \<not> ok2 then Inr (reject ''The Online field invalid'' (m\<lparr>mb_detail := d\<rparr>))
      else let (ok3, st) = from_Result X (dv_status d) root ''Status'';
          d = d\<lparr>dv_status := st\<rparr>
      in if \<not> ok3 then Inr (reject ''The Status field invalid'' (m\<lparr>mb_detail := d\<rparr>))
      else let d = d
             \<lparr>dv_encode := snd (from_xml_element_enum X StatusTypeMap Status_invalid (dv_encode d) root ''Encode''),
              dv_record := snd (from_xml_element_enum X StatusTypeMap Status_invalid (dv_record d) root ''Record''),
              dv_device_time := snd (from_xml_element_string X (dv_device_time d) root ''DeviceTime''),
              dv_alarm_status := snd (from_xml_element_AlarmStatus X (dv_alarm_status d) root ''Alarmstatus'')\<rparr>
         in bind_outcome (strings_of_texts X (ChildElementsNamed X root ''Info''))
              (\<lambda>ts. Inr (accept (d\<lparr>dv_info := dv_info d @ ts\<rparr>) m)))"

definition parse_DeviceStatus :: "'e tinyxml2 \<Rightarrow> ('e, DeviceStatusMessageResponse) parse_detail" where
  "parse_DeviceStatus X root m =
     (let d = mb_detail m
      in if dv_result d = Result_invalid then (False, m\<lparr>mb_error := ''The Result field invalid''\<rparr>, root)
         else if dv_online d = Online_invalid then (False, m\<lparr>mb_error := ''The Online field invalid''\<rparr>, root)
         else if dv_status d = Result_invalid then (False, m\<lparr>mb_error := ''The Status field invalid''\<rparr>, root)
         else (True, m, block
           [new_Result X (dv_result d) ''Result'',
            new_xml_element_enum X OnlineTypeMap Online_invalid (dv_online d) ''Online'',
            new_Result X (dv_status d) ''Status'',
            new_xml_element_string X (mb_reason m) ''Reason'',
            (if dv_encode d \<noteq> Status_invalid
             then new_xml_element_enum X StatusTypeMap Status_invalid (dv_encode d) ''Encode'' else (\<lambda>e. e)),
            (if dv_record d \<noteq> Status_invalid
             then new_xml_element_enum X StatusTypeMap Status_invalid (dv_record d) ''Record'' else (\<lambda>e. e)),
            (if dv_device_time d \<noteq> [] then new_xml_element_string X (dv_device_time d) ''DeviceTime'' else (\<lambda>e. e)),
            (if as_Item (dv_alarm_status d) \<noteq> []
             then new_xml_element_AlarmStatus X (dv_alarm_status d) ''Alarmstatus'' else (\<lambda>e. e)),
            write_texts X ''Info'' (dv_info d)] root))"


text \<open>A second element under the same name does not hide the first.\<close>

lemma Insert_keeps_first:
  assumes "tinyxml2_laws X" and "Name X (f (NewElement X k)) = k" and "FirstChildElement X e k = Some c"
  shows "FirstChildElement X (InsertNewChildElement X k f e) k = Some c"
  using assms by (simp add: FirstChildElement_def Insert_sel find_append)

lemma fun_if: "(if b then f else g) x = (if b then f x else g x)"
  by simp

definition DeviceStatus_after :: "DeviceStatusMessageResponse \<Rightarrow> DeviceStatusMessageResponse" where
  "DeviceStatus_after d = d\<lparr>dv_alarm_status := DeviceStatusAlarmStatus_default\<rparr>"

lemma AlarmStatus_read_back:
  assumes "tinyxml2_laws X" and "as_Item st \<noteq> []"
  shows "new_xml_element_AlarmStatus X st ''Alarmstatus'' e = InsertNewChildElement X ''Alarmstatus''
      (block [fold (\<lambda>it. new_xml_element_AlarmStatusItem X it ''Item'') (as_Item st),
                SetAttribute X ''Num'' (int (length (as_Item st)))]) e"
  using assms by (simp add: new_xml_element_AlarmStatus_def)

interpretation DeviceStatus: message_codec load_DeviceStatus parse_DeviceStatus
  DeviceStatusMessageResponse_default DeviceStatus_after
  "\<lambda>i r d. dv_result d \<noteq> Result_invalid \<and> dv_online d \<noteq> Online_invalid \<and> dv_status d \<noteq> Result_invalid
     \<and> r \<noteq> [] \<and> [] \<notin> set (dv_info d)"
proof (unfold_locales, goal_cases)
  case (1 X m)
  then show ?case
    by (simp add: parse_DeviceStatus_def codec_simps enum_codec AlarmStatus_read_back AlarmStatus_items_under_key
        Insert_keeps_first header_root_lookup xml_simps)
next
  case (2 X m r w)
  then show ?case
    by (cases "dv_encode (mb_detail m) = Status_invalid"; cases "dv_record (mb_detail m) = Status_invalid";
        cases "dv_device_time (mb_detail m) = []"; cases "as_Item (dv_alarm_status (mb_detail m)) = []")
      (simp_all add: parse_DeviceStatus_def load_DeviceStatus_def DeviceStatusMessageResponse_default_def
        DeviceStatus_after_def from_xml_element_AlarmStatus_def DeviceStatusAlarmStatus_default_def
        codec_simps enum_codec AlarmStatus_read_back AlarmStatus_items_under_key xml_simps)
qed

end
