(* ===== verification/Message_Lists.thy ===== *)
theory Message_Lists
  imports Messages
begin

text \<open>
  The messages with one list or a few optional numbers: presets, home position, mobile position,
  SD cards, PTZ position and cruise tracks (\<open>src/message/preset_message.cpp\<close>,
  \<open>home_position_message.cpp\<close>, \<open>mobile_position_request_message.cpp\<close>, \<open>sd_card_status_message.cpp\<close>,
  \<open>ptz_position_message.cpp\<close>, \<open>cruise_track_message.cpp\<close>). The items are read and written by
  functions in the contract of \<open>struct_codec\<close>. The member \<open>ListMessageBase::sum_num_\<close> of a list message is a
  field of its detail.
\<close>

section \<open>Preset list\<close>

text \<open>
  \<open>PresetResponseMessage\<close> declares a \<open>sum_num_\<close> of its own beside the inherited one that \<open>sum_num()\<close>
  returns; both are fields here.
\<close>

record PresetResponseMessage =
  pr_base_sum_num :: i32 \<comment> \<open>\<open>ListMessageBase::sum_num_\<close>\<close>
  pr_sum_num :: i32
  pr_preset_list :: "PresetListItem list"

definition PresetResponseMessage_default :: PresetResponseMessage where
  "PresetResponseMessage_default = \<lparr>pr_base_sum_num = 0, pr_sum_num = 0, pr_preset_list = []\<rparr>"

definition PresetResponseMessage_new ::
    "string \<Rightarrow> i32 \<Rightarrow> PresetListItem list \<Rightarrow> ('e, PresetResponseMessage) MessageBase" where
  "PresetResponseMessage_new device_id sum_num vec =
     MessageBase_new Root_Response Cmd_PresetQuery (Some device_id) []
       \<lparr>pr_base_sum_num = 0, pr_sum_num = sum_num, pr_preset_list = vec\<rparr>"

definition write_PresetListItem :: "'e tinyxml2 \<Rightarrow> PresetListItem \<Rightarrow> 'e \<Rightarrow> 'e" where
  "write_PresetListItem X p = block
     [new_xml_element_string X (pl_PresetID p) ''PresetID'',
      new_xml_element_string X (pl_PresetName p) ''PresetName'']"

definition read_PresetListItem :: "'e tinyxml2 \<Rightarrow> PresetListItem \<Rightarrow> 'e \<Rightarrow> PresetListItem" where
  "read_PresetListItem X v item = v
     \<lparr>pl_PresetID := snd (from_xml_element_string X (pl_PresetID v) item ''PresetID''),
      pl_PresetName := snd (from_xml_element_string X (pl_PresetName v) item ''PresetName'')\<rparr>"

definition load_Preset :: "'e tinyxml2 \<Rightarrow> ('e, PresetResponseMessage) load_detail" where
  "load_Preset X root m =
     (let d = (mb_detail m)\<lparr>pr_sum_num := snd (from_xml_element_int X (pr_sum_num (mb_detail m)) root ''SumNum'')\<rparr>
      in case FirstChildElement X root ''PresetList'' of
           None \<Rightarrow> Inr (reject ''the PresetList node does not exist'' (m\<lparr>mb_detail := d\<rparr>))
         | Some ele \<Rightarrow> Inr (accept (d\<lparr>pr_preset_list := pr_preset_list d @
              load_items X (read_PresetListItem X) PresetListItem_default ele ''Item''\<rparr>) m))"

text \<open>\<open>sum_num_ ? sum_num() : preset_list_.size()\<close> has the type \<open>size_t\<close>.\<close>

definition preset_sum_num :: "PresetResponseMessage \<Rightarrow> u64" where
  "preset_sum_num d = (if pr_sum_num d \<noteq> 0 then scast (pr_base_sum_num d) else of_nat (length (pr_preset_list d)))"

definition parse_Preset :: "'e tinyxml2 \<Rightarrow> ('e, PresetResponseMessage) parse_detail" where
  "parse_Preset X root m =
     (let d = mb_detail m in (True, m, block
        [new_xml_element_uint X (preset_sum_num d) ''SumNum'',
         InsertNewChildElement X ''PresetList'' (block
           [SetAttribute X ''Num'' (int (length (pr_preset_list d))),
            append_items X ''Item'' (write_PresetListItem X) (pr_preset_list d)])] root))"

interpretation PresetListItem: struct_codec write_PresetListItem read_PresetListItem
  PresetListItem_default "\<lambda>v. v" "\<lambda>v. True"
  by unfold_locales (simp_all add: write_PresetListItem_def read_PresetListItem_def PresetListItem_default_def xml_simps)

lemma small_size:
  assumes "n < 2 ^ 31"
  shows "uint (of_nat n :: u64) = int n" "(ucast (of_nat n :: u64) :: i32) = of_nat n"
  using assms by (simp_all add: unsigned_of_nat take_bit_nat_eq_self)

interpretation Preset: message_codec load_Preset parse_Preset PresetResponseMessage_default
  "\<lambda>d. \<lparr>pr_base_sum_num = 0,
     pr_sum_num = (if pr_sum_num d \<noteq> 0 then 0 else of_nat (length (pr_preset_list d))),
     pr_preset_list = pr_preset_list d\<rparr>"
  "\<lambda>i r d. pr_base_sum_num d = 0 \<and> length (pr_preset_list d) < 2 ^ 31"
  by unfold_locales
    (simp_all add: parse_Preset_def load_Preset_def PresetResponseMessage_default_def preset_sum_num_def
      small_size PresetListItem.items_roundtrip PresetListItem.items_name PresetListItem.name_new
      append_items_sel codec_simps xml_simps)

section \<open>Home position and mobile position\<close>

definition HomePositionResponseMessage_new ::
    "string \<Rightarrow> HomePositionType option \<Rightarrow> ('e, HomePositionType option) MessageBase" where
  "HomePositionResponseMessage_new device_id home_position =
     MessageBase_new Root_Response Cmd_HomePositionQuery (Some device_id) [] home_position"

definition write_HomePosition :: "'e tinyxml2 \<Rightarrow> HomePositionType \<Rightarrow> 'e \<Rightarrow> 'e" where
  "write_HomePosition X v = block
     [new_xml_element_int X (hp_Enabled v) ''Enabled'',
      new_xml_element_opt (new_xml_element_uint X) (hp_PresetIndex v) ''PresetIndex'',
      new_xml_element_opt (new_xml_element_int X) (hp_ResetTime v) ''ResetTime'']"

definition read_HomePosition :: "'e tinyxml2 \<Rightarrow> HomePositionType \<Rightarrow> 'e \<Rightarrow> HomePositionType" where
  "read_HomePosition X v ele = v
     \<lparr>hp_Enabled := snd (from_xml_element_int X (hp_Enabled v) ele ''Enabled''),
      hp_PresetIndex := snd (from_xml_element_opt (from_xml_element_uint X) (hp_PresetIndex v) ele ''PresetIndex''),
      hp_ResetTime := snd (from_xml_element_opt (from_xml_element_int X) (hp_ResetTime v) ele ''ResetTime'')\<rparr>"

definition load_HomePosition :: "'e tinyxml2 \<Rightarrow> ('e, HomePositionType option) load_detail" where
  "load_HomePosition X root m =
     Inr (accept (from_sub X (read_HomePosition X) HomePositionType_default (mb_detail m) root ''HomePosition'') m)"

definition parse_HomePosition :: "'e tinyxml2 \<Rightarrow> ('e, HomePositionType option) parse_detail" where
  "parse_HomePosition X root m =
     (True, m, new_sub X (write_HomePosition X) (mb_detail m) ''HomePosition'' root)"

interpretation HomePosition: struct_codec write_HomePosition read_HomePosition HomePositionType_default
  "\<lambda>v. v\<lparr>hp_PresetIndex := None, hp_ResetTime := None\<rparr>" "\<lambda>v. True"
  by unfold_locales (simp_all add: write_HomePosition_def read_HomePosition_def HomePositionType_default_def xml_simps)

interpretation HomePositionResponse: message_codec load_HomePosition parse_HomePosition None
  "map_option (\<lambda>v. v\<lparr>hp_PresetIndex := None, hp_ResetTime := None\<rparr>)" "\<lambda>i r d. True"
  by unfold_locales
    (simp_all add: parse_HomePosition_def load_HomePosition_def codec_simps HomePosition.sub_simps xml_simps
      split: option.splits)

record MobilePositionRequestMessage =
  mp_interval :: i32

definition MobilePositionRequestMessage_default :: MobilePositionRequestMessage where
  "MobilePositionRequestMessage_default = \<lparr>mp_interval = 5\<rparr>"

definition MobilePositionRequestMessage_new ::
    "string \<Rightarrow> i32 \<Rightarrow> ('e, MobilePositionRequestMessage) MessageBase" where
  "MobilePositionRequestMessage_new device_id interval =
     MessageBase_new Root_Query Cmd_MobilePosition (Some device_id) [] \<lparr>mp_interval = interval\<rparr>"

definition load_MobilePosition :: "'e tinyxml2 \<Rightarrow> ('e, MobilePositionRequestMessage) load_detail" where
  "load_MobilePosition X root m =
     (let d = mb_detail m
      in Inr (accept (d\<lparr>mp_interval := snd (from_xml_element_int X (mp_interval d) root ''Interval'')\<rparr>) m))"

definition parse_MobilePosition :: "'e tinyxml2 \<Rightarrow> ('e, MobilePositionRequestMessage) parse_detail" where
  "parse_MobilePosition X root m =
     (True, m, new_xml_element_int X (mp_interval (mb_detail m)) ''Interval'' root)"

interpretation MobilePosition: message_codec load_MobilePosition parse_MobilePosition
  MobilePositionRequestMessage_default "\<lambda>d. d" "\<lambda>i r d. True"
  by unfold_locales
    (simp_all add: parse_MobilePosition_def load_MobilePosition_def MobilePositionRequestMessage_default_def
      codec_simps xml_simps)

section \<open>SD cards\<close>

record SdCardResponseMessage =
  sr_result :: ResultType
  sr_sum_num :: i32
  sr_sd_cards :: "SdCardInfoType list"

definition SdCardResponseMessage_default :: SdCardResponseMessage where
  "SdCardResponseMessage_default = \<lparr>sr_result = Result_invalid, sr_sum_num = 0, sr_sd_cards = []\<rparr>"

definition SdCardResponseMessage_new ::
    "string \<Rightarrow> i32 \<Rightarrow> SdCardInfoType list \<Rightarrow> ResultType \<Rightarrow> string \<Rightarrow> ('e, SdCardResponseMessage) MessageBase" where
  "SdCardResponseMessage_new device_id sum_num l result reason =
     MessageBase_new Root_Response Cmd_SDCardStatus (Some device_id) reason
       \<lparr>sr_result = result, sr_sum_num = sum_num, sr_sd_cards = l\<rparr>"

definition write_SdCard :: "'e tinyxml2 \<Rightarrow> SdCardInfoType \<Rightarrow> 'e \<Rightarrow> 'e" where
  "write_SdCard X v = block
     [new_xml_element_int X (sk_ID v) ''ID'',
      new_xml_element_string X (sk_HddName v) ''HddName'',
      new_xml_element_string X (sk_Status v) ''Status'',
      new_xml_element_int X (sk_FormatProgress v) ''FormatProgress'',
      new_xml_element_int X (sk_Capacity v) ''Capacity'',
      new_xml_element_int X (sk_FreeSpace v) ''FreeSpace'']"

definition read_SdCard :: "'e tinyxml2 \<Rightarrow> SdCardInfoType \<Rightarrow> 'e \<Rightarrow> SdCardInfoType" where
  "read_SdCard X v item = v
     \<lparr>sk_ID := snd (from_xml_element_int X (sk_ID v) item ''ID''),
      sk_HddName := snd (from_xml_element_string X (sk_HddName v) item ''HddName''),
      sk_Status := snd (from_xml_element_string X (sk_Status v) item ''Status''),
      sk_FormatProgress := snd (from_xml_element_int X (sk_FormatProgress v) item ''FormatProgress''),
      sk_Capacity := snd (from_xml_element_int X (sk_Capacity v) item ''Capacity''),
      sk_FreeSpace := snd (from_xml_element_int X (sk_FreeSpace v) item ''FreeSpace'')\<rparr>"

interpretation SdCard: struct_codec write_SdCard read_SdCard SdCardInfoType_default "\<lambda>v. v" "\<lambda>v. True"
  by unfold_locales (simp_all add: write_SdCard_def read_SdCard_def SdCardInfoType_default_def xml_simps)

text \<open>This loop does not skip empty items.\<close>

definition load_SdCard :: "'e tinyxml2 \<Rightarrow> ('e, SdCardResponseMessage) load_detail" where
  "load_SdCard X root m =
     (let d = mb_detail m;
          d = d\<lparr>sr_result := snd (from_Result X (sr_result d) root ''Result''),
                sr_sum_num := snd (from_xml_element_int X (sr_sum_num d) root ''SumNum'')\<rparr>
      in case FirstChildElement X root ''SDCardStatusInfo'' of
           None \<Rightarrow> Inr (accept d m)
         | Some l \<Rightarrow> Inr (accept (d\<lparr>sr_sd_cards := sr_sd_cards d @
              map (read_SdCard X SdCardInfoType_default) (ChildElementsNamed X l ''Item'')\<rparr>) m))"

definition parse_SdCard :: "'e tinyxml2 \<Rightarrow> ('e, SdCardResponseMessage) parse_detail" where
  "parse_SdCard X root m =
     (let d = mb_detail m in (True, m, block
        [new_Result X (sr_result d) ''Result'',
         new_xml_element_int X (sr_sum_num d) ''SumNum'',
         (if sr_sd_cards d \<noteq> []
          then InsertNewChildElement X ''SDCardStatusInfo'' (append_items X ''Item'' (write_SdCard X) (sr_sd_cards d))
          else (\<lambda>e. e))] root))"

interpretation SdCardResponse: message_codec load_SdCard parse_SdCard SdCardResponseMessage_default
  "\<lambda>d. d" "\<lambda>i r d. True"
proof (unfold_locales, goal_cases)
  case (1 X m)
  then show ?case
    by (simp add: parse_SdCard_def codec_simps append_items_sel xml_simps)
next
  case (2 X m r w)
  then show ?case
    by (cases "sr_result (mb_detail m) = Result_invalid"; cases "sr_sd_cards (mb_detail m) = []")
      (simp_all add: parse_SdCard_def load_SdCard_def SdCardResponseMessage_default_def
      SdCard.name_new SdCard.get_put append_items_sel append_items_found o_def codec_simps enum_codec xml_simps)
qed


section \<open>PTZ position\<close>

record PTZPositionNotifyMessage =
  po_pan :: "double option"
  po_tilt :: "double option"
  po_zoom :: "double option"
  po_horizontal_field_angle :: "double option"
  po_vertical_field_angle :: "double option"
  po_max_view_distance :: "double option"

definition PTZPositionNotifyMessage_default :: PTZPositionNotifyMessage where
  "PTZPositionNotifyMessage_default =
     \<lparr>po_pan = None, po_tilt = None, po_zoom = None, po_horizontal_field_angle = None,
      po_vertical_field_angle = None, po_max_view_distance = None\<rparr>"

text \<open>The response has the same six fields beside a result.\<close>

record PTZPositionResponseMessage = PTZPositionNotifyMessage +
  po_result :: ResultType

definition PTZPositionResponseMessage_default :: PTZPositionResponseMessage where
  "PTZPositionResponseMessage_default = PTZPositionNotifyMessage.extend PTZPositionNotifyMessage_default
     \<lparr>po_result = Result_invalid\<rparr>"

definition PTZPositionResponseMessage_new ::
    "string \<Rightarrow> ResultType \<Rightarrow> string \<Rightarrow> ('e, PTZPositionResponseMessage) MessageBase" where
  "PTZPositionResponseMessage_new device_id result reason =
     MessageBase_new Root_Response Cmd_PTZPosition (Some device_id) reason
       (PTZPositionResponseMessage_default\<lparr>po_result := result\<rparr>)"

definition PTZPositionNotifyMessage_new :: "string \<Rightarrow> string \<Rightarrow> ('e, PTZPositionNotifyMessage) MessageBase" where
  "PTZPositionNotifyMessage_new device_id reason =
     MessageBase_new Root_Notify Cmd_PTZPosition (Some device_id) reason PTZPositionNotifyMessage_default"

definition write_position :: "'e tinyxml2 \<Rightarrow> 'z PTZPositionNotifyMessage_scheme \<Rightarrow> 'e \<Rightarrow> 'e" where
  "write_position X d = block
     [new_xml_element_opt (new_xml_element_double X) (po_pan d) ''Pan'',
      new_xml_element_opt (new_xml_element_double X) (po_tilt d) ''Tilt'',
      new_xml_element_opt (new_xml_element_double X) (po_zoom d) ''Zoom'',
      new_xml_element_opt (new_xml_element_double X) (po_horizontal_field_angle d) ''HorizontalFieldAngle'',
      new_xml_element_opt (new_xml_element_double X) (po_vertical_field_angle d) ''VerticalFieldAngle'',
      new_xml_element_opt (new_xml_element_double X) (po_max_view_distance d) ''MaxViewDistance'']"

definition read_position ::
    "'e tinyxml2 \<Rightarrow> 'z PTZPositionNotifyMessage_scheme \<Rightarrow> 'e \<Rightarrow> 'z PTZPositionNotifyMessage_scheme" where
  "read_position X d root = d
     \<lparr>po_pan := snd (from_xml_element_opt (from_xml_element_double X) (po_pan d) root ''Pan''),
      po_tilt := snd (from_xml_element_opt (from_xml_element_double X) (po_tilt d) root ''Tilt''),
      po_zoom := snd (from_xml_element_opt (from_xml_element_double X) (po_zoom d) root ''Zoom''),
      po_horizontal_field_angle := snd (from_xml_element_opt (from_xml_element_double X)
        (po_horizontal_field_angle d) root ''HorizontalFieldAngle''),
      po_vertical_field_angle := snd (from_xml_element_opt (from_xml_element_double X)
        (po_vertical_field_angle d) root ''VerticalFieldAngle''),
      po_max_view_distance := snd (from_xml_element_opt (from_xml_element_double X)
        (po_max_view_distance d) root ''MaxViewDistance'')\<rparr>"

definition load_PTZPositionResponse :: "'e tinyxml2 \<Rightarrow> ('e, PTZPositionResponseMessage) load_detail" where
  "load_PTZPositionResponse X root m =
     (let d = mb_detail m; d = d\<lparr>po_result := snd (from_Result X (po_result d) root ''Result'')\<rparr>
      in Inr (accept (read_position X d root) m))"

definition parse_PTZPositionResponse :: "'e tinyxml2 \<Rightarrow> ('e, PTZPositionResponseMessage) parse_detail" where
  "parse_PTZPositionResponse X root m =
     (True, m, block [new_Result X (po_result (mb_detail m)) ''Result'', write_position X (mb_detail m)] root)"

definition load_PTZPositionNotify :: "'e tinyxml2 \<Rightarrow> ('e, PTZPositionNotifyMessage) load_detail" where
  "load_PTZPositionNotify X root m = Inr (accept (read_position X (mb_detail m) root) m)"

definition parse_PTZPositionNotify :: "'e tinyxml2 \<Rightarrow> ('e, PTZPositionNotifyMessage) parse_detail" where
  "parse_PTZPositionNotify X root m = (True, m, write_position X (mb_detail m) root)"

interpretation PTZPositionNotify: message_codec load_PTZPositionNotify parse_PTZPositionNotify
  PTZPositionNotifyMessage_default "\<lambda>d. PTZPositionNotifyMessage_default" "\<lambda>i r d. True"
  by unfold_locales
    (simp_all add: parse_PTZPositionNotify_def load_PTZPositionNotify_def write_position_def read_position_def
      PTZPositionNotifyMessage_default_def codec_simps xml_simps)

interpretation PTZPositionResponse: message_codec load_PTZPositionResponse parse_PTZPositionResponse
  PTZPositionResponseMessage_default "\<lambda>d. PTZPositionResponseMessage_default\<lparr>po_result := po_result d\<rparr>"
  "\<lambda>i r d. True"
proof (unfold_locales, goal_cases)
  case (1 X m)
  then show ?case by (simp add: parse_PTZPositionResponse_def write_position_def codec_simps xml_simps)
next
  case (2 X m r w)
  then show ?case
    by (cases "po_result (mb_detail m) = Result_invalid")
      (simp_all add: parse_PTZPositionResponse_def load_PTZPositionResponse_def write_position_def
        read_position_def PTZPositionResponseMessage_default_def PTZPositionNotifyMessage_default_def
        PTZPositionNotifyMessage.defs codec_simps enum_codec xml_simps)
qed

section \<open>Cruise tracks\<close>

record CruiseTrackRequestMessage =
  cr_number :: i32

definition CruiseTrackRequestMessage_default :: CruiseTrackRequestMessage where
  "CruiseTrackRequestMessage_default = \<lparr>cr_number = 0\<rparr>"

definition CruiseTrackRequestMessage_new :: "string \<Rightarrow> i32 \<Rightarrow> ('e, CruiseTrackRequestMessage) MessageBase" where
  "CruiseTrackRequestMessage_new device_id number =
     MessageBase_new Root_Query Cmd_CruiseTrackQuery (Some device_id) [] \<lparr>cr_number = number\<rparr>"

definition load_CruiseTrackRequest :: "'e tinyxml2 \<Rightarrow> ('e, CruiseTrackRequestMessage) load_detail" where
  "load_CruiseTrackRequest X root m =
     (let (ok, n) = from_xml_element_int X (cr_number (mb_detail m)) root ''Number'';
          d = (mb_detail m)\<lparr>cr_number := n\<rparr>
      in if \<not> ok then Inr (reject ''Number not found'' (m\<lparr>mb_detail := d\<rparr>)) else Inr (accept d m))"

definition parse_CruiseTrackRequest :: "'e tinyxml2 \<Rightarrow> ('e, CruiseTrackRequestMessage) parse_detail" where
  "parse_CruiseTrackRequest X root m = (True, m, new_xml_element_int X (cr_number (mb_detail m)) ''Number'' root)"

interpretation CruiseTrackRequest: message_codec load_CruiseTrackRequest parse_CruiseTrackRequest
  CruiseTrackRequestMessage_default "\<lambda>d. d" "\<lambda>i r d. True"
  by unfold_locales
    (simp_all add: parse_CruiseTrackRequest_def load_CruiseTrackRequest_def CruiseTrackRequestMessage_default_def
      codec_simps xml_simps)

record CruiseTrackListResponseMessage =
  cl_sum_num :: i32 \<comment> \<open>\<open>ListMessageBase::sum_num_\<close>\<close>
  cl_result :: ResultType
  cl_cruise_track_list :: "CruiseTrackListItemType list"

definition CruiseTrackListResponseMessage_default :: CruiseTrackListResponseMessage where
  "CruiseTrackListResponseMessage_default = \<lparr>cl_sum_num = 0, cl_result = Result_invalid, cl_cruise_track_list = []\<rparr>"

text \<open>The \<open>reason\<close> argument of the longer constructor is not used.\<close>

definition CruiseTrackListResponseMessage_new ::
    "string \<Rightarrow> i32 \<Rightarrow> CruiseTrackListItemType list \<Rightarrow> ResultType \<Rightarrow> string \<Rightarrow>
     ('e, CruiseTrackListResponseMessage) MessageBase" where
  "CruiseTrackListResponseMessage_new device_id sum_num l result reason =
     MessageBase_new Root_Response Cmd_CruiseTrackListQuery (Some device_id) []
       \<lparr>cl_sum_num = sum_num, cl_result = result, cl_cruise_track_list = l\<rparr>"

definition write_CruiseTrackItem :: "'e tinyxml2 \<Rightarrow> CruiseTrackListItemType \<Rightarrow> 'e \<Rightarrow> 'e" where
  "write_CruiseTrackItem X v = block
     [new_xml_element_int X (ct_Number v) ''Number'', new_xml_element_string X (ct_Name v) ''Name'']"

definition read_CruiseTrackItem :: "'e tinyxml2 \<Rightarrow> CruiseTrackListItemType \<Rightarrow> 'e \<Rightarrow> CruiseTrackListItemType" where
  "read_CruiseTrackItem X v item = v
     \<lparr>ct_Number := snd (from_xml_element_int X (ct_Number v) item ''Number''),
      ct_Name := snd (from_xml_element_string X (ct_Name v) item ''Name'')\<rparr>"

interpretation CruiseTrackItem: struct_codec write_CruiseTrackItem read_CruiseTrackItem
  CruiseTrackListItemType_default "\<lambda>v. v" "\<lambda>v. True"
  by unfold_locales
    (simp_all add: write_CruiseTrackItem_def read_CruiseTrackItem_def CruiseTrackListItemType_default_def xml_simps)

definition load_CruiseTrackList :: "'e tinyxml2 \<Rightarrow> ('e, CruiseTrackListResponseMessage) load_detail" where
  "load_CruiseTrackList X root m =
     (let d = mb_detail m;
          d = d\<lparr>cl_result := snd (from_Result X (cl_result d) root ''Result''),
                cl_sum_num := snd (from_xml_element_int X (cl_sum_num d) root ''SumNum'')\<rparr>
      in case FirstChildElement X root ''CruiseTrackList'' of
           None \<Rightarrow> Inr (accept d m)
         | Some l \<Rightarrow> Inr (accept (d\<lparr>cl_cruise_track_list := cl_cruise_track_list d @
              map (read_CruiseTrackItem X CruiseTrackListItemType_default) (ChildElementsNamed X l ''CruiseTrack'')\<rparr>) m))"

definition parse_CruiseTrackList :: "'e tinyxml2 \<Rightarrow> ('e, CruiseTrackListResponseMessage) parse_detail" where
  "parse_CruiseTrackList X root m =
     (let d = mb_detail m in (True, m, block
        [new_Result X (cl_result d) ''Result'',
         new_xml_element_int X (cl_sum_num d) ''SumNum'',
         (if cl_cruise_track_list d \<noteq> []
          then InsertNewChildElement X ''CruiseTrackList'' (block
            [SetAttribute X ''Num'' (int (length (cl_cruise_track_list d))),
             append_items X ''CruiseTrack'' (write_CruiseTrackItem X) (cl_cruise_track_list d)])
          else (\<lambda>e. e))] root))"

interpretation CruiseTrackList: message_codec load_CruiseTrackList parse_CruiseTrackList
  CruiseTrackListResponseMessage_default "\<lambda>d. d" "\<lambda>i r d. True"
proof (unfold_locales, goal_cases)
  case (1 X m)
  then show ?case by (simp add: parse_CruiseTrackList_def codec_simps append_items_sel xml_simps)
next
  case (2 X m r w)
  then show ?case
    by (cases "cl_result (mb_detail m) = Result_invalid"; cases "cl_cruise_track_list (mb_detail m) = []")
      (simp_all add: parse_CruiseTrackList_def load_CruiseTrackList_def CruiseTrackListResponseMessage_default_def
        CruiseTrackItem.name_new CruiseTrackItem.get_put append_items_sel append_items_found o_def
        codec_simps enum_codec xml_simps)
qed

end
