(* ===== verification/Device_Control.thy ===== *)
theory Device_Control
  imports Messages PTZ
begin

text \<open>
  The device control messages (\<open>include/gb28181/message/device_control_message.h\<close>,
  \<open>src/message/device_control_message.cpp\<close>): the thirteen requests, each an extension of the record with
  the extra information, the response, and the dispatch of received controls in
  \<open>SuperPlatformImpl::on_control\<close> (\<open>src/super_platform_impl.cpp\<close>).

  \<open>DeviceControlRequestMessage\<close> derives virtually from \<open>MessageBase\<close>, and no class below it names
  \<open>MessageBase\<close> in a constructor: the base of a control built from a document or from another
  message is default-initialised (the initialiser in the middle class is ignored for a virtual base). That is
  \<open>DeviceControl_from\<close>.
\<close>

section \<open>The common part\<close>

record DeviceControlRequestMessage =
  dc_extra_info :: "string list"

definition DeviceControl_from :: "('e, 'c) MessageBase \<Rightarrow> 'd \<Rightarrow> ('e, 'd) MessageBase" where
  "DeviceControl_from other detail = MessageBase_default detail"

definition DeviceControl_new :: "string \<Rightarrow> 'd \<Rightarrow> ('e, 'd) MessageBase" where
  "DeviceControl_new device_id detail =
     MessageBase_new Root_Control Cmd_DeviceControl (Some device_id) [] detail"

definition load_extra ::
    "'e tinyxml2 \<Rightarrow> 'e \<Rightarrow> 'z DeviceControlRequestMessage_scheme \<Rightarrow> 'z DeviceControlRequestMessage_scheme outcome" where
  "load_extra X root d =
     bind_outcome (strings_of_texts X (ChildElementsNamed X root ''ExtraInfo''))
       (\<lambda>ts. Inr (d\<lparr>dc_extra_info := dc_extra_info d @ ts\<rparr>))"

definition write_extra :: "'e tinyxml2 \<Rightarrow> 'z DeviceControlRequestMessage_scheme \<Rightarrow> 'e \<Rightarrow> 'e" where
  "write_extra X d = write_texts X ''ExtraInfo'' (filter (\<lambda>it. it \<noteq> []) (dc_extra_info d))"

text \<open>A request's loading: the common part first, its result ignored, then the class's own part.\<close>

definition load_control ::
    "'e tinyxml2 \<Rightarrow> ('e \<Rightarrow> 'z DeviceControlRequestMessage_scheme \<Rightarrow>
       (string option \<times> 'z DeviceControlRequestMessage_scheme) outcome) \<Rightarrow>
     ('e, 'z DeviceControlRequestMessage_scheme) load_detail" where
  "load_control X own root m =
     bind_outcome (load_extra X root (mb_detail m)) (\<lambda>d.
       bind_outcome (own root d) (\<lambda>(err, d).
         Inr (case err of None \<Rightarrow> accept d m | Some e \<Rightarrow> reject e (m\<lparr>mb_detail := d\<rparr>))))"

definition parse_control ::
    "'e tinyxml2 \<Rightarrow> ('z DeviceControlRequestMessage_scheme \<Rightarrow> 'e \<Rightarrow> 'e) \<Rightarrow>
     ('e, 'z DeviceControlRequestMessage_scheme) parse_detail" where
  "parse_control X own root m =
     (True, m, block [write_extra X (mb_detail m), own (mb_detail m)] root)"

definition extra_after :: "'z DeviceControlRequestMessage_scheme \<Rightarrow> 'z DeviceControlRequestMessage_scheme" where
  "extra_after d = d\<lparr>dc_extra_info := filter (\<lambda>it. it \<noteq> []) (dc_extra_info d)\<rparr>"

section \<open>The requests\<close>

record PTZCmdRequest = DeviceControlRequestMessage +
  pz_cmd :: PTZCommand
  pz_params :: "PtzCmdParams option"

definition PTZCmdRequest_default :: PTZCmdRequest where
  "PTZCmdRequest_default = \<lparr>dc_extra_info = [], pz_cmd = PTZCommand_new 0, pz_params = None\<rparr>"

definition PTZCmdRequest_new ::
    "string \<Rightarrow> PTZCommand \<Rightarrow> PtzCmdParams option \<Rightarrow> string list \<Rightarrow> ('e, PTZCmdRequest) MessageBase" where
  "PTZCmdRequest_new device_id cmd params extra =
     DeviceControl_new device_id \<lparr>dc_extra_info = extra, pz_cmd = cmd, pz_params = params\<rparr>"

definition write_PtzCmdParams :: "'e tinyxml2 \<Rightarrow> PtzCmdParams \<Rightarrow> 'e \<Rightarrow> 'e" where
  "write_PtzCmdParams X p = block
     [(if pp_PresetName p \<noteq> [] then new_xml_element_string X (pp_PresetName p) ''PresetName'' else (\<lambda>e. e)),
      (if pp_CruiseTrackName p \<noteq> [] then new_xml_element_string X (pp_CruiseTrackName p) ''CruiseTrackName'' else (\<lambda>e. e))]"

definition read_PtzCmdParams :: "'e tinyxml2 \<Rightarrow> PtzCmdParams \<Rightarrow> 'e \<Rightarrow> PtzCmdParams" where
  "read_PtzCmdParams X v ele = v
     \<lparr>pp_PresetName := snd (from_xml_element_string X (pp_PresetName v) ele ''PresetName''),
      pp_CruiseTrackName := snd (from_xml_element_string X (pp_CruiseTrackName v) ele ''CruiseTrackName'')\<rparr>"

definition load_PTZCmd :: "'e tinyxml2 \<Rightarrow> ('e, PTZCmdRequest) load_detail" where
  "load_PTZCmd X = load_control X (\<lambda>root d.
     case FirstChildElement X root ''PTZCmd'' of
       None \<Rightarrow> Inr (Some ''PTZCmdType not found'', d)
     | Some ele \<Rightarrow> bind_outcome (string_of_text X ele) (\<lambda>hex.
         case FromHex hex of
           None \<Rightarrow> Inr (Some ''Invalid PTZ command'', d)
         | Some cmd \<Rightarrow> Inr (None, d\<lparr>pz_cmd := cmd, pz_params :=
             from_sub X (read_PtzCmdParams X) PtzCmdParams_default (pz_params d) root ''PTZCmdParams''\<rparr>)))"

text \<open>\<open>ToHex\<close> also completes the check octets of the member.\<close>

definition parse_PTZCmd :: "'e tinyxml2 \<Rightarrow> ('e, PTZCmdRequest) parse_detail" where
  "parse_PTZCmd X root m =
     (let d = mb_detail m; (hex, cmd) = ToHex (pz_cmd d)
      in (True, m\<lparr>mb_detail := d\<lparr>pz_cmd := cmd\<rparr>\<rparr>, block
           [write_extra X d,
            InsertNewChildElement X ''PTZCmd'' (SetText X hex),
            new_sub X (write_PtzCmdParams X) (pz_params d) ''PTZCmdParams''] root))"

record TeleBootRequest = DeviceControlRequestMessage +
  tb_tele_boot :: string

definition TeleBootRequest_default :: TeleBootRequest where
  "TeleBootRequest_default = \<lparr>dc_extra_info = [], tb_tele_boot = ''Boot''\<rparr>"

definition load_TeleBoot :: "'e tinyxml2 \<Rightarrow> ('e, TeleBootRequest) load_detail" where
  "load_TeleBoot X = load_control X (\<lambda>root d.
     Inr (if FirstChildElement X root ''TeleBoot'' = None then Some ''TeleBoot not found'' else None, d))"

definition parse_TeleBoot :: "'e tinyxml2 \<Rightarrow> ('e, TeleBootRequest) parse_detail" where
  "parse_TeleBoot X = parse_control X (\<lambda>d. new_xml_element_string X (tb_tele_boot d) ''TeleBoot'')"

record RecordCmdRequest = DeviceControlRequestMessage +
  rc_record_type :: RecordType
  rc_stream_number :: i8

definition RecordCmdRequest_default :: RecordCmdRequest where
  "RecordCmdRequest_default = \<lparr>dc_extra_info = [], rc_record_type = Record_invalid, rc_stream_number = 0\<rparr>"

definition load_RecordCmd :: "'e tinyxml2 \<Rightarrow> ('e, RecordCmdRequest) load_detail" where
  "load_RecordCmd X = load_control X (\<lambda>root d.
     let (ok, t) = from_xml_element_enum X RecordTypeMap Record_invalid (rc_record_type d) root ''RecordCmd'';
         d = d\<lparr>rc_record_type := t\<rparr>
     in if \<not> ok then Inr (Some ''RecordType not found'', d)
        else Inr (None, d\<lparr>rc_stream_number := snd (from_xml_element_int X (rc_stream_number d) root ''StreamNumber'')\<rparr>))"

definition parse_RecordCmd :: "'e tinyxml2 \<Rightarrow> ('e, RecordCmdRequest) parse_detail" where
  "parse_RecordCmd X = parse_control X (\<lambda>d. block
     [new_xml_element_enum X RecordTypeMap Record_invalid (rc_record_type d) ''RecordCmd'',
      new_xml_element_int X (rc_stream_number d) ''StreamNumber''])"

record GuardCmdRequest = DeviceControlRequestMessage +
  gc_guard_type :: GuardType

definition GuardCmdRequest_default :: GuardCmdRequest where
  "GuardCmdRequest_default = \<lparr>dc_extra_info = [], gc_guard_type = Guard_invalid\<rparr>"

definition load_GuardCmd :: "'e tinyxml2 \<Rightarrow> ('e, GuardCmdRequest) load_detail" where
  "load_GuardCmd X = load_control X (\<lambda>root d.
     let (ok, t) = from_xml_element_enum X GuardTypeMap Guard_invalid (gc_guard_type d) root ''GuardCmd''
     in Inr (if ok then None else Some ''GuardType not found'', d\<lparr>gc_guard_type := t\<rparr>))"

definition parse_GuardCmd :: "'e tinyxml2 \<Rightarrow> ('e, GuardCmdRequest) parse_detail" where
  "parse_GuardCmd X = parse_control X
     (\<lambda>d. new_xml_element_enum X GuardTypeMap Guard_invalid (gc_guard_type d) ''GuardCmd'')"

record AlarmCmdRequest = DeviceControlRequestMessage +
  am_alarm_cmd :: string
  am_info :: "AlarmCmdInfoType option"

definition AlarmCmdRequest_default :: AlarmCmdRequest where
  "AlarmCmdRequest_default = \<lparr>dc_extra_info = [], am_alarm_cmd = ''ResetAlarm'', am_info = None\<rparr>"

definition write_AlarmCmdInfo :: "'e tinyxml2 \<Rightarrow> AlarmCmdInfoType \<Rightarrow> 'e \<Rightarrow> 'e" where
  "write_AlarmCmdInfo X v = block
     [new_xml_element_string X (ac_AlarmMethod v) ''AlarmMethod'',
      new_xml_element_string X (ac_AlarmType v) ''AlarmType'']"

definition read_AlarmCmdInfo :: "'e tinyxml2 \<Rightarrow> AlarmCmdInfoType \<Rightarrow> 'e \<Rightarrow> AlarmCmdInfoType" where
  "read_AlarmCmdInfo X v ele = v
     \<lparr>ac_AlarmMethod := snd (from_xml_element_string X (ac_AlarmMethod v) ele ''AlarmMethod''),
      ac_AlarmType := snd (from_xml_element_string X (ac_AlarmType v) ele ''AlarmType'')\<rparr>"

definition load_AlarmCmd :: "'e tinyxml2 \<Rightarrow> ('e, AlarmCmdRequest) load_detail" where
  "load_AlarmCmd X = load_control X (\<lambda>root d.
     let (ok, s) = from_xml_element_string X (am_alarm_cmd d) root ''AlarmCmd'';
         d = d\<lparr>am_alarm_cmd := s\<rparr>
     in if \<not> ok then Inr (Some ''AlarmCmd not found'', d)
        else (case FirstChildElement X root ''Info'' of
            None \<Rightarrow> Inr (None, d)
          | Some ele \<Rightarrow> Inr (None, d\<lparr>am_info := Some (read_AlarmCmdInfo X AlarmCmdInfoType_default ele)\<rparr>)))"

definition parse_AlarmCmd :: "'e tinyxml2 \<Rightarrow> ('e, AlarmCmdRequest) parse_detail" where
  "parse_AlarmCmd X = parse_control X (\<lambda>d. block
     [new_xml_element_string X (am_alarm_cmd d) ''AlarmCmd'',
      new_sub X (write_AlarmCmdInfo X) (am_info d) ''Info''])"

record IFrameCmdRequest = DeviceControlRequestMessage +
  if_iframe_cmd :: string

definition IFrameCmdRequest_default :: IFrameCmdRequest where
  "IFrameCmdRequest_default = \<lparr>dc_extra_info = [], if_iframe_cmd = ''Send''\<rparr>"

definition load_IFrameCmd :: "'e tinyxml2 \<Rightarrow> ('e, IFrameCmdRequest) load_detail" where
  "load_IFrameCmd X = load_control X (\<lambda>root d.
     Inr (if \<not> (FirstChildElement X root ''IFrameCmd'' \<noteq> None \<or> FirstChildElement X root ''IFameCmd'' \<noteq> None)
          then Some ''IFrameCmd not found'' else None, d))"

definition parse_IFrameCmd :: "'e tinyxml2 \<Rightarrow> ('e, IFrameCmdRequest) parse_detail" where
  "parse_IFrameCmd X = parse_control X (\<lambda>d. block
     [new_xml_element_string X (if_iframe_cmd d) ''IFrameCmd'',
      new_xml_element_string X (if_iframe_cmd d) ''IFameCmd''])"

record DragZoomRequest = DeviceControlRequestMessage +
  dr_drag_zoom :: DragZoomType

definition DragZoomRequest_default :: DragZoomRequest where
  "DragZoomRequest_default = \<lparr>dc_extra_info = [], dr_drag_zoom = DragZoomType_default\<rparr>"

definition write_DragZoom :: "'e tinyxml2 \<Rightarrow> DragZoomType \<Rightarrow> 'e \<Rightarrow> 'e" where
  "write_DragZoom X v = block
     [new_xml_element_int X (dz_Length v) ''Length'', new_xml_element_int X (dz_Width v) ''Width'',
      new_xml_element_int X (dz_MidPointX v) ''MidPointX'', new_xml_element_int X (dz_MidPointY v) ''MidPointY'',
      new_xml_element_int X (dz_LengthX v) ''LengthX'', new_xml_element_int X (dz_LengthY v) ''LengthY'']"

definition read_DragZoom :: "'e tinyxml2 \<Rightarrow> DragZoomType \<Rightarrow> 'e \<Rightarrow> DragZoomType" where
  "read_DragZoom X v ele = v
     \<lparr>dz_Length := snd (from_xml_element_int X (dz_Length v) ele ''Length''),
      dz_Width := snd (from_xml_element_int X (dz_Width v) ele ''Width''),
      dz_MidPointX := snd (from_xml_element_int X (dz_MidPointX v) ele ''MidPointX''),
      dz_MidPointY := snd (from_xml_element_int X (dz_MidPointY v) ele ''MidPointY''),
      dz_LengthX := snd (from_xml_element_int X (dz_LengthX v) ele ''LengthX''),
      dz_LengthY := snd (from_xml_element_int X (dz_LengthY v) ele ''LengthY'')\<rparr>"

definition load_DragZoomIn :: "'e tinyxml2 \<Rightarrow> ('e, DragZoomRequest) load_detail" where
  "load_DragZoomIn X = load_control X (\<lambda>root d.
     case FirstChildElement X root ''DragZoomIn'' of
       None \<Rightarrow> Inr (Some ''DragZoomIn not found'', d)
     | Some ele \<Rightarrow> Inr (None, d\<lparr>dr_drag_zoom := read_DragZoom X (dr_drag_zoom d) ele\<rparr>))"

definition parse_DragZoomIn :: "'e tinyxml2 \<Rightarrow> ('e, DragZoomRequest) parse_detail" where
  "parse_DragZoomIn X = parse_control X
     (\<lambda>d. InsertNewChildElement X ''DragZoomIn'' (write_DragZoom X (dr_drag_zoom d)))"

text \<open>\<open>DragZoomOut::load_detail\<close> has the body of the writer: it inserts elements into the received document.\<close>

definition parse_DragZoomOut :: "'e tinyxml2 \<Rightarrow> ('e, DragZoomRequest) parse_detail" where
  "parse_DragZoomOut X = parse_control X
     (\<lambda>d. InsertNewChildElement X ''DragZoomOut'' (write_DragZoom X (dr_drag_zoom d)))"

definition load_DragZoomOut :: "'e tinyxml2 \<Rightarrow> ('e, DragZoomRequest) load_detail" where
  "load_DragZoomOut X root m =
     (case parse_DragZoomOut X root m of
        (ok, m, root) \<Rightarrow> Inr (ok, m\<lparr>mb_xml := map_option (\<lambda>doc. doc\<lparr>RootElement := Some root\<rparr>) (mb_xml m)\<rparr>))"


record HomePositionRequest = DeviceControlRequestMessage +
  hq_enabled :: i8
  hq_preset_index :: "u8 option"
  hq_reset_time :: "i32 option"

definition HomePositionRequest_default :: HomePositionRequest where
  "HomePositionRequest_default =
     \<lparr>dc_extra_info = [], hq_enabled = 0, hq_preset_index = None, hq_reset_time = None\<rparr>"

definition load_HomePositionCmd :: "'e tinyxml2 \<Rightarrow> ('e, HomePositionRequest) load_detail" where
  "load_HomePositionCmd X = load_control X (\<lambda>root d.
     case FirstChildElement X root ''HomePosition'' of
       None \<Rightarrow> Inr (Some ''HomePosition not found'', d)
     | Some ele \<Rightarrow>
         let (ok, v) = from_xml_element_int X (hq_enabled d) ele ''Enabled''; d = d\<lparr>hq_enabled := v\<rparr>
         in if \<not> ok then Inr (Some ''HomePosition->Enabled not found'', d)
            else Inr (None, d
              \<lparr>hq_reset_time := snd (from_xml_element_opt (from_xml_element_int X) (hq_reset_time d) ele ''ResetTime''),
               hq_preset_index := snd (from_xml_element_opt (from_xml_element_uint X) (hq_preset_index d) ele ''PresetIndex'')\<rparr>))"

definition parse_HomePositionCmd :: "'e tinyxml2 \<Rightarrow> ('e, HomePositionRequest) parse_detail" where
  "parse_HomePositionCmd X = parse_control X (\<lambda>d. InsertNewChildElement X ''HomePosition'' (block
     [new_xml_element_int X (hq_enabled d) ''Enabled'',
      new_xml_element_opt (new_xml_element_int X) (hq_reset_time d) ''ResetTime'',
      new_xml_element_opt (new_xml_element_uint X) (hq_preset_index d) ''PresetIndex'']))"

record PtzPreciseCtrlRequest = DeviceControlRequestMessage +
  px_ctrl :: PTZPreciseCtrlType

definition PtzPreciseCtrlRequest_default :: PtzPreciseCtrlRequest where
  "PtzPreciseCtrlRequest_default = \<lparr>dc_extra_info = [], px_ctrl = PTZPreciseCtrlType_default\<rparr>"

definition load_PtzPreciseCtrl :: "'e tinyxml2 \<Rightarrow> ('e, PtzPreciseCtrlRequest) load_detail" where
  "load_PtzPreciseCtrl X = load_control X (\<lambda>root d.
     case FirstChildElement X root ''PTZPreciseCtrl'' of
       None \<Rightarrow> Inr (Some ''PTZPreciseCtrl not found'', d)
     | Some ele \<Rightarrow> if NoChildren X ele then Inr (Some ''PTZPreciseCtrl not found'', d)
         else Inr (None, d\<lparr>px_ctrl := (px_ctrl d)
           \<lparr>pc_Pan := snd (from_xml_element_opt (from_xml_element_double X) (pc_Pan (px_ctrl d)) ele ''Pan''),
            pc_Tilt := snd (from_xml_element_opt (from_xml_element_double X) (pc_Tilt (px_ctrl d)) ele ''Tilt''),
            pc_Zoom := snd (from_xml_element_opt (from_xml_element_double X) (pc_Zoom (px_ctrl d)) ele ''Zoom'')\<rparr>\<rparr>))"

definition parse_PtzPreciseCtrl :: "'e tinyxml2 \<Rightarrow> ('e, PtzPreciseCtrlRequest) parse_detail" where
  "parse_PtzPreciseCtrl X = parse_control X (\<lambda>d. InsertNewChildElement X ''PTZPreciseCtrl'' (block
     [new_xml_element_opt (new_xml_element_double X) (pc_Pan (px_ctrl d)) ''Pan'',
      new_xml_element_opt (new_xml_element_double X) (pc_Tilt (px_ctrl d)) ''Tilt'',
      new_xml_element_opt (new_xml_element_double X) (pc_Zoom (px_ctrl d)) ''Zoom'']))"

record DeviceUpgradeRequest = DeviceControlRequestMessage +
  dg_upgrade :: DeviceUpgradeType

definition DeviceUpgradeRequest_default :: DeviceUpgradeRequest where
  "DeviceUpgradeRequest_default = \<lparr>dc_extra_info = [], dg_upgrade = DeviceUpgradeType_default\<rparr>"

definition write_DeviceUpgrade :: "'e tinyxml2 \<Rightarrow> DeviceUpgradeType \<Rightarrow> 'e \<Rightarrow> 'e" where
  "write_DeviceUpgrade X v = block
     [new_xml_element_string X (du_Firmware v) ''Firmware'', new_xml_element_string X (du_FileURL v) ''FileURL'',
      new_xml_element_string X (du_Manufacturer v) ''Manufacturer'',
      new_xml_element_string X (du_SessionID v) ''SessionID'']"

definition read_DeviceUpgrade :: "'e tinyxml2 \<Rightarrow> DeviceUpgradeType \<Rightarrow> 'e \<Rightarrow> DeviceUpgradeType" where
  "read_DeviceUpgrade X v ele = v
     \<lparr>du_Firmware := snd (from_xml_element_string X (du_Firmware v) ele ''Firmware''),
      du_FileURL := snd (from_xml_element_string X (du_FileURL v) ele ''FileURL''),
      du_Manufacturer := snd (from_xml_element_string X (du_Manufacturer v) ele ''Manufacturer''),
      du_SessionID := snd (from_xml_element_string X (du_SessionID v) ele ''SessionID'')\<rparr>"

text \<open>This one sets no error message when its element is missing.\<close>

definition load_DeviceUpgrade :: "'e tinyxml2 \<Rightarrow> ('e, DeviceUpgradeRequest) load_detail" where
  "load_DeviceUpgrade X root m =
     bind_outcome (load_extra X root (mb_detail m)) (\<lambda>d.
       case FirstChildElement X root ''DeviceUpgrade'' of
         None \<Rightarrow> Inr (False, m\<lparr>mb_detail := d\<rparr>)
       | Some ele \<Rightarrow> if NoChildren X ele then Inr (False, m\<lparr>mb_detail := d\<rparr>)
           else Inr (accept (d\<lparr>dg_upgrade := read_DeviceUpgrade X (dg_upgrade d) ele\<rparr>) m))"

definition parse_DeviceUpgrade :: "'e tinyxml2 \<Rightarrow> ('e, DeviceUpgradeRequest) parse_detail" where
  "parse_DeviceUpgrade X = parse_control X
     (\<lambda>d. InsertNewChildElement X ''DeviceUpgrade'' (write_DeviceUpgrade X (dg_upgrade d)))"

record FormatSDCardRequest = DeviceControlRequestMessage +
  fs_index :: u8

definition FormatSDCardRequest_default :: FormatSDCardRequest where
  "FormatSDCardRequest_default = \<lparr>dc_extra_info = [], fs_index = 0\<rparr>"

definition load_FormatSDCard :: "'e tinyxml2 \<Rightarrow> ('e, FormatSDCardRequest) load_detail" where
  "load_FormatSDCard X = load_control X (\<lambda>root d.
     let (ok, v) = from_xml_element_uint X (fs_index d) root ''FormatSDCard''
     in Inr (if ok then None else Some ''FormatSDCard not found'', d\<lparr>fs_index := v\<rparr>))"

definition parse_FormatSDCard :: "'e tinyxml2 \<Rightarrow> ('e, FormatSDCardRequest) parse_detail" where
  "parse_FormatSDCard X = parse_control X (\<lambda>d. new_xml_element_uint X (fs_index d) ''FormatSDCard'')"

record TargetTrackRequest = DeviceControlRequestMessage +
  tt_target_trace :: TargetTraceType
  tt_device_id2 :: string
  tt_target_area :: "DragZoomType option"

definition TargetTrackRequest_default :: TargetTrackRequest where
  "TargetTrackRequest_default =
     \<lparr>dc_extra_info = [], tt_target_trace = Trace_invalid, tt_device_id2 = [], tt_target_area = None\<rparr>"

definition load_TargetTrack :: "'e tinyxml2 \<Rightarrow> ('e, TargetTrackRequest) load_detail" where
  "load_TargetTrack X = load_control X (\<lambda>root d.
     let (ok, t) = from_xml_element_enum X TargetTraceTypeMap Trace_invalid (tt_target_trace d) root ''TargetTrack'';
         d = d\<lparr>tt_target_trace := t\<rparr>
     in if \<not> ok then Inr (Some ''TargetTrack trace not found'', d)
        else Inr (None, d
          \<lparr>tt_device_id2 := snd (from_xml_element_string X (tt_device_id2 d) root ''DeviceID2''),
           tt_target_area := from_sub X (read_DragZoom X) DragZoomType_default (tt_target_area d) root ''TargetArea''\<rparr>))"

definition parse_TargetTrack :: "'e tinyxml2 \<Rightarrow> ('e, TargetTrackRequest) parse_detail" where
  "parse_TargetTrack X = parse_control X (\<lambda>d. block
     [new_xml_element_enum X TargetTraceTypeMap Trace_invalid (tt_target_trace d) ''TargetTrack'',
      new_xml_element_string X (tt_device_id2 d) ''DeviceID2'',
      new_sub X (write_DragZoom X) (tt_target_area d) ''TargetArea''])"

section \<open>The response\<close>

definition DeviceControlResponseMessage_new ::
    "string \<Rightarrow> ResultType \<Rightarrow> string \<Rightarrow> ('e, ResultResponse) MessageBase" where
  "DeviceControlResponseMessage_new device_id result reason =
     MessageBase_new Root_Response Cmd_DeviceControl (Some device_id) reason \<lparr>rr_result = result\<rparr>"

definition load_DeviceControlResponse :: "'e tinyxml2 \<Rightarrow> ('e, ResultResponse) load_detail" where
  "load_DeviceControlResponse X root m =
     (let (ok, r) = from_Result X (rr_result (mb_detail m)) root ''Result'';
          d = (mb_detail m)\<lparr>rr_result := r\<rparr>
      in if \<not> ok then Inr (reject ''Result not found'' (m\<lparr>mb_detail := d\<rparr>)) else Inr (accept d m))"

definition parse_DeviceControlResponse :: "'e tinyxml2 \<Rightarrow> ('e, ResultResponse) parse_detail" where
  "parse_DeviceControlResponse X root m =
     (if rr_result (mb_detail m) = Result_invalid then (False, m\<lparr>mb_error := ''Result invalid''\<rparr>, root)
      else (True, m, new_Result X (rr_result (mb_detail m)) ''Result'' root))"

section \<open>Contracts\<close>

interpretation PtzCmdParams: struct_codec write_PtzCmdParams read_PtzCmdParams PtzCmdParams_default
  "\<lambda>v. v" "\<lambda>v. v \<noteq> PtzCmdParams_default"
  by unfold_locales
    (auto simp: write_PtzCmdParams_def read_PtzCmdParams_def PtzCmdParams_default_def xml_simps)

interpretation DragZoom: struct_codec write_DragZoom read_DragZoom DragZoomType_default "\<lambda>v. v" "\<lambda>v. True"
  by unfold_locales (simp_all add: write_DragZoom_def read_DragZoom_def DragZoomType_default_def xml_simps)

interpretation DeviceUpgrade: struct_codec write_DeviceUpgrade read_DeviceUpgrade DeviceUpgradeType_default
  "\<lambda>v. v" "\<lambda>v. True"
  by unfold_locales
    (simp_all add: write_DeviceUpgrade_def read_DeviceUpgrade_def DeviceUpgradeType_default_def xml_simps)

lemmas control_defs = load_control_def parse_control_def load_extra_def write_extra_def extra_after_def

interpretation TeleBoot: message_codec load_TeleBoot parse_TeleBoot TeleBootRequest_default
  "\<lambda>d. extra_after d\<lparr>tb_tele_boot := ''Boot''\<rparr>" "\<lambda>i r d. True"
  by unfold_locales
    (simp_all add: load_TeleBoot_def parse_TeleBoot_def TeleBootRequest_default_def control_defs codec_simps xml_simps)

interpretation RecordCmd: message_codec load_RecordCmd parse_RecordCmd RecordCmdRequest_default
  extra_after "\<lambda>i r d. rc_record_type d \<noteq> Record_invalid"
  by unfold_locales
    (simp_all add: load_RecordCmd_def parse_RecordCmd_def RecordCmdRequest_default_def control_defs codec_simps
      enum_codec xml_simps)

interpretation GuardCmd: message_codec load_GuardCmd parse_GuardCmd GuardCmdRequest_default
  extra_after "\<lambda>i r d. gc_guard_type d \<noteq> Guard_invalid"
  by unfold_locales
    (simp_all add: load_GuardCmd_def parse_GuardCmd_def GuardCmdRequest_default_def control_defs codec_simps
      enum_codec xml_simps)


interpretation AlarmCmd: message_codec load_AlarmCmd parse_AlarmCmd AlarmCmdRequest_default extra_after
  "\<lambda>i r d. am_alarm_cmd d \<noteq> [] \<and> (\<forall>v. am_info d = Some v \<longrightarrow> ac_AlarmMethod v \<noteq> [])"
  by unfold_locales
    (simp_all add: load_AlarmCmd_def parse_AlarmCmd_def AlarmCmdRequest_default_def control_defs codec_simps
      new_sub_def write_AlarmCmdInfo_def read_AlarmCmdInfo_def AlarmCmdInfoType_default_def xml_simps
      split: option.splits)

interpretation IFrameCmd: message_codec load_IFrameCmd parse_IFrameCmd IFrameCmdRequest_default
  "\<lambda>d. extra_after d\<lparr>if_iframe_cmd := ''Send''\<rparr>" "\<lambda>i r d. True"
  by unfold_locales
    (simp_all add: load_IFrameCmd_def parse_IFrameCmd_def IFrameCmdRequest_default_def control_defs codec_simps xml_simps)

interpretation DragZoomIn: message_codec load_DragZoomIn parse_DragZoomIn DragZoomRequest_default
  extra_after "\<lambda>i r d. True"
  by unfold_locales
    (simp_all add: load_DragZoomIn_def parse_DragZoomIn_def DragZoomRequest_default_def control_defs codec_simps
      DragZoom.name_new DragZoom.get_put xml_simps)

interpretation HomePositionCmd: message_codec load_HomePositionCmd parse_HomePositionCmd HomePositionRequest_default
  "\<lambda>d. extra_after d\<lparr>hq_preset_index := None, hq_reset_time := None\<rparr>" "\<lambda>i r d. True"
  by unfold_locales
    (simp_all add: load_HomePositionCmd_def parse_HomePositionCmd_def HomePositionRequest_default_def control_defs
      codec_simps xml_simps)

interpretation PtzPreciseCtrl: message_codec load_PtzPreciseCtrl parse_PtzPreciseCtrl PtzPreciseCtrlRequest_default
  "\<lambda>d. extra_after d\<lparr>px_ctrl := PTZPreciseCtrlType_default\<rparr>"
  "\<lambda>i r d. px_ctrl d \<noteq> PTZPreciseCtrlType_default"
proof (unfold_locales, goal_cases)
  case (1 X m)
  then show ?case by (simp add: parse_PtzPreciseCtrl_def control_defs codec_simps xml_simps)
next
  case (2 X m r w)
  then have "\<not> (pc_Pan (px_ctrl (mb_detail m)) = None \<and> pc_Tilt (px_ctrl (mb_detail m)) = None
      \<and> pc_Zoom (px_ctrl (mb_detail m)) = None)"
    by (cases "px_ctrl (mb_detail m)") (simp add: PTZPreciseCtrlType_default_def)
  with 2 show ?case
    by (auto simp: load_PtzPreciseCtrl_def parse_PtzPreciseCtrl_def PtzPreciseCtrlRequest_default_def
        PTZPreciseCtrlType_default_def control_defs codec_simps xml_simps)
qed

interpretation DeviceUpgradeCmd: message_codec load_DeviceUpgrade parse_DeviceUpgrade DeviceUpgradeRequest_default
  extra_after "\<lambda>i r d. True"
  by unfold_locales
    (simp_all add: load_DeviceUpgrade_def parse_DeviceUpgrade_def DeviceUpgradeRequest_default_def control_defs
      codec_simps DeviceUpgrade.name_new DeviceUpgrade.get_put DeviceUpgrade.put_empty xml_simps)

interpretation FormatSDCard: message_codec load_FormatSDCard parse_FormatSDCard FormatSDCardRequest_default
  extra_after "\<lambda>i r d. True"
  by unfold_locales
    (simp_all add: load_FormatSDCard_def parse_FormatSDCard_def FormatSDCardRequest_default_def control_defs
      codec_simps xml_simps)

interpretation TargetTrack: message_codec load_TargetTrack parse_TargetTrack TargetTrackRequest_default
  extra_after "\<lambda>i r d. tt_target_trace d \<noteq> Trace_invalid"
proof (unfold_locales, goal_cases)
  case (1 X m)
  then show ?case
    by (simp add: parse_TargetTrack_def control_defs codec_simps enum_codec DragZoom.sub_simps xml_simps)
next
  case (2 X m r w)
  then show ?case
    by (cases "tt_target_area (mb_detail m)")
      (simp_all add: load_TargetTrack_def parse_TargetTrack_def TargetTrackRequest_default_def control_defs
        codec_simps enum_codec DragZoom.sub_simps string_back_old xml_simps)
qed

interpretation DeviceControlResponse: message_codec load_DeviceControlResponse parse_DeviceControlResponse
  ResultResponse_default "\<lambda>d. d" "\<lambda>i r d. rr_result d \<noteq> Result_invalid"
  by unfold_locales
    (simp_all add: load_DeviceControlResponse_def parse_DeviceControlResponse_def ResultResponse_default_def
      codec_simps enum_codec xml_simps)


text \<open>The PTZ command: its frame crosses the wire as the text of \<open>ToHex\<close>.\<close>

interpretation PTZCmd: message_codec load_PTZCmd parse_PTZCmd PTZCmdRequest_default
  "\<lambda>d. (extra_after d)\<lparr>pz_cmd := snd (ToHex (pz_cmd d)), pz_params := kept (\<lambda>p. p \<noteq> PtzCmdParams_default) (\<lambda>p. p) (pz_params d)\<rparr>"
  "\<lambda>i r d. b0 (pz_cmd d) = 0xA5"
proof (unfold_locales, goal_cases)
  case (1 X m)
  then show ?case
    by (simp add: parse_PTZCmd_def control_defs codec_simps PtzCmdParams.sub_simps xml_simps split: prod.split)
next
  case (2 X m r w)
  let ?f = "pz_cmd (mb_detail m)"
  have hex: "FromHex (fst (ToHex ?f)) = Some (snd (ToHex ?f))"
    using 2(2) ToHex_valid[of ?f] by (simp add: fst_ToHex FromHex_FrameToHex)
  then have "fst (ToHex ?f) \<noteq> []" by (auto simp: FromHex_def)
  note hex = hex this
  with 2 show ?case
    by (cases "ToHex ?f"; cases "pz_params (mb_detail m)")
      (simp_all add: load_PTZCmd_def parse_PTZCmd_def PTZCmdRequest_default_def control_defs kept_def
        codec_simps string_of_text_def PtzCmdParams.sub_simps xml_simps)
qed

section \<open>Dispatch of the received controls\<close>

text \<open>
  What \<open>on_control\<close> returns for a handler that has loaded its request, or not: 400 when
  \<open>load_from_xml\<close> fails, otherwise the result of the event, 404 when no listener took it and 200
  when one did. \<open>listeners\<close> is the number \<open>NOTICE_EMIT\<close> returns for the event of a handler, which is only
  evaluated when the request has loaded; the second component says whether the event was emitted.
\<close>

definition process :: "(bool \<times> 'm) outcome \<Rightarrow> nat \<Rightarrow> (nat \<times> bool) outcome" where
  "process loaded listeners = bind_outcome loaded (\<lambda>(ok, request).
     Inr (if \<not> ok then (400, False) else if listeners = 0 then (404, True) else (200, True)))"

text \<open>The request class a child element of the document selects, by the order of the tests.\<close>

datatype control_class =
  K_PTZCmd | K_RecordCmd | K_IFrameCmd | K_DragZoomIn | K_DragZoomOut | K_TargetTrack | K_PtzPreciseCtrl
| K_HomePosition | K_AlarmCmd | K_GuardCmd | K_TeleBoot | K_FormatSDCard | K_DeviceUpgrade

definition control_class_of :: "string \<Rightarrow> control_class option" where
  "control_class_of name = map_of
     [(''PTZCmd'', K_PTZCmd), (''RecordCmd'', K_RecordCmd), (''IFrameCmd'', K_IFrameCmd), (''IFameCmd'', K_IFrameCmd),
      (''DragZoomIn'', K_DragZoomIn), (''DragZoomOut'', K_DragZoomOut), (''TargetTrack'', K_TargetTrack),
      (''PTZPreciseCtrl'', K_PtzPreciseCtrl), (''HomePosition'', K_HomePosition), (''AlarmCmd'', K_AlarmCmd),
      (''GuardCmd'', K_GuardCmd), (''TeleBoot'', K_TeleBoot), (''FormatSDCard'', K_FormatSDCard),
      (''DeviceUpgrade'', K_DeviceUpgrade)] name"

definition process_control ::
    "'e tinyxml2 \<Rightarrow> control_class \<Rightarrow> ('e, 'c) MessageBase \<Rightarrow> nat \<Rightarrow> (nat \<times> bool) outcome" where
  "process_control X k message listeners =
     (case k of
        K_PTZCmd \<Rightarrow> process (load_from_xml X (load_PTZCmd X) (DeviceControl_from message PTZCmdRequest_default)) listeners
      | K_RecordCmd \<Rightarrow> process (load_from_xml X (load_RecordCmd X) (DeviceControl_from message RecordCmdRequest_default)) listeners
      | K_IFrameCmd \<Rightarrow> process (load_from_xml X (load_IFrameCmd X) (DeviceControl_from message IFrameCmdRequest_default)) listeners
      | K_DragZoomIn \<Rightarrow> process (load_from_xml X (load_DragZoomIn X) (DeviceControl_from message DragZoomRequest_default)) listeners
      | K_DragZoomOut \<Rightarrow> process (load_from_xml X (load_DragZoomOut X) (DeviceControl_from message DragZoomRequest_default)) listeners
      | K_TargetTrack \<Rightarrow> process (load_from_xml X (load_TargetTrack X) (DeviceControl_from message TargetTrackRequest_default)) listeners
      | K_PtzPreciseCtrl \<Rightarrow> process (load_from_xml X (load_PtzPreciseCtrl X) (DeviceControl_from message PtzPreciseCtrlRequest_default)) listeners
      | K_HomePosition \<Rightarrow> process (load_from_xml X (load_HomePositionCmd X) (DeviceControl_from message HomePositionRequest_default)) listeners
      | K_AlarmCmd \<Rightarrow> process (load_from_xml X (load_AlarmCmd X) (DeviceControl_from message AlarmCmdRequest_default)) listeners
      | K_GuardCmd \<Rightarrow> process (load_from_xml X (load_GuardCmd X) (DeviceControl_from message GuardCmdRequest_default)) listeners
      | K_TeleBoot \<Rightarrow> process (load_from_xml X (load_TeleBoot X) (DeviceControl_from message TeleBootRequest_default)) listeners
      | K_FormatSDCard \<Rightarrow> process (load_from_xml X (load_FormatSDCard X) (DeviceControl_from message FormatSDCardRequest_default)) listeners
      | K_DeviceUpgrade \<Rightarrow> process (load_from_xml X (load_DeviceUpgrade X) (DeviceControl_from message DeviceUpgradeRequest_default)) listeners)"

text \<open>The loop over the children of the root: the first one that names a class decides.\<close>

fun on_device_control ::
    "'e tinyxml2 \<Rightarrow> 'e list \<Rightarrow> ('e, 'c) MessageBase \<Rightarrow> (control_class \<Rightarrow> nat) \<Rightarrow> (nat \<times> bool) outcome" where
  "on_device_control X [] message listeners = Inr (404, False)"
| "on_device_control X (ele # eles) message listeners =
     (if Name X ele = ''CmdType'' \<or> Name X ele = ''SN'' \<or> Name X ele = ''DeviceID''
      then on_device_control X eles message listeners
      else case control_class_of (Name X ele) of
        None \<Rightarrow> on_device_control X eles message listeners
      | Some k \<Rightarrow> process_control X k message (listeners k))"

end
