(* ===== verification/Message_Facts.thy ===== *)
theory Message_Facts
  imports Message_Lists Device_Control
begin

text \<open>
  The properties of the messages: what survives the way over the wire from one library instance to
  another, what does not, and what the receiving side does with the device controls.
\<close>

section \<open>A tree that drops empty texts\<close>

text \<open>
  \<open>wire_xml\<close> is the concrete instance after a trip through text: an element made with an empty text has
  none when it is read back.
\<close>

definition wire_xml :: "dom tinyxml2" where
  "wire_xml = dom_xml\<lparr>GetText := (\<lambda>e. if dom_text e = Some [] then None else dom_text e)\<rparr>"

lemma wire_xml_laws: "tinyxml2_laws wire_xml"
  using dom_xml_laws by (simp add: tinyxml2_laws_def wire_xml_def dom_xml_def)

section \<open>Properties\<close>

text \<open>
  C12. The messages that survive the wire unchanged, when their source and target or their result is set: broadcast requests and
  responses, and device control responses; and without a condition plain
  queries, mobile position queries, SD card responses, cruise track queries and lists. The receiver's message has the sender's root, command, serial number,
  reason, device id (an empty one is dropped) and every member, is valid, and takes its
  encoding from the declaration.
\<close>

theorem messages_survive_wire:
  assumes "tinyxml2_laws X"
  shows "(sendable b \<and> br_source_id (mb_detail b) \<noteq> [] \<and> br_target_id (mb_detail b) \<noteq> [] \<longrightarrow>
      survives_wire X (load_BroadcastRequest X) (parse_BroadcastRequest X) BroadcastNotifyRequest_default (\<lambda>d. d) b)
    \<and> (sendable q \<longrightarrow> survives_wire X load_nothing parse_nothing () (\<lambda>d. d) q)
    \<and> (sendable p \<longrightarrow>
      survives_wire X (load_MobilePosition X) (parse_MobilePosition X) MobilePositionRequestMessage_default (\<lambda>d. d) p)
    \<and> (sendable s \<longrightarrow> survives_wire X (load_SdCard X) (parse_SdCard X) SdCardResponseMessage_default (\<lambda>d. d) s)
    \<and> (sendable n \<longrightarrow>
      survives_wire X (load_CruiseTrackRequest X) (parse_CruiseTrackRequest X) CruiseTrackRequestMessage_default (\<lambda>d. d) n)
    \<and> (sendable l \<longrightarrow>
      survives_wire X (load_CruiseTrackList X) (parse_CruiseTrackList X) CruiseTrackListResponseMessage_default (\<lambda>d. d) l)
    \<and> (sendable r \<and> rr_result (mb_detail r) \<noteq> Result_invalid \<longrightarrow>
      survives_wire X (load_DeviceControlResponse X) (parse_DeviceControlResponse X) ResultResponse_default (\<lambda>d. d) r)
    \<and> (sendable a \<and> rr_result (mb_detail a) \<noteq> Result_invalid \<longrightarrow>
      survives_wire X (load_BroadcastResponse X) (parse_BroadcastResponse X) ResultResponse_default (\<lambda>d. d) a)"
  using BroadcastRequest.message_roundtrip[OF assms] PlainRequest.message_roundtrip[OF assms]
    MobilePosition.message_roundtrip[OF assms] SdCardResponse.message_roundtrip[OF assms]
    CruiseTrackRequest.message_roundtrip[OF assms] CruiseTrackList.message_roundtrip[OF assms]
    DeviceControlResponse.message_roundtrip[OF assms] BroadcastResponse.message_roundtrip[OF assms]
  by simp

lemma sendable_new:
  "root \<noteq> Root_invalid \<Longrightarrow> cmd \<noteq> Cmd_invalid \<Longrightarrow> sendable (MessageBase_new root cmd i r d)"
  by (simp add: sendable_def MessageBase_new_def MessageBase_default_def)

theorem messages_survive_wire_witness:
  "survives_wire wire_xml (load_CruiseTrackList wire_xml) (parse_CruiseTrackList wire_xml)
     CruiseTrackListResponseMessage_default (\<lambda>d. d)
     (CruiseTrackListResponseMessage_new ''34020000001320000001'' 1 [\<lparr>ct_Number = 7, ct_Name = []\<rparr>] Result_OK [])
    \<and> survives_wire wire_xml (load_BroadcastResponse wire_xml) (parse_BroadcastResponse wire_xml) ResultResponse_default (\<lambda>d. d)
     (BroadcastNotifyResponse_new ''34020000001320000001'' Result_OK)"
  using messages_survive_wire[OF wire_xml_laws, of undefined undefined undefined undefined undefined
      "CruiseTrackListResponseMessage_new ''34020000001320000001'' 1 [\<lparr>ct_Number = 7, ct_Name = []\<rparr>] Result_OK []" undefined
      "BroadcastNotifyResponse_new ''34020000001320000001'' Result_OK"]
  by (simp add: CruiseTrackListResponseMessage_new_def BroadcastNotifyResponse_new_def sendable_new MessageBase_new_def MessageBase_default_def
      sendable_def)

text \<open>
  What other messages lose on the way, and nothing else: a keepalive arrives with at most the first
  of the faulty device ids; a device information response without its channel count; a device
  status response without its alarm items; a home position without preset index and reset
  time; a PTZ position, as response or notification, without any of its six values.
\<close>

theorem messages_lossy_on_wire:
  assumes "tinyxml2_laws X"
  shows "(sendable k \<and> ka_status (mb_detail k) \<noteq> Result_invalid \<and> [] \<notin> set (ka_info (mb_detail k)) \<longrightarrow>
      survives_wire X (load_Keepalive X) (parse_Keepalive X) KeepaliveMessageRequest_default
        (\<lambda>d. d\<lparr>ka_info := take 1 (ka_info d)\<rparr>) k)
    \<and> (sendable i \<and> di_result (mb_detail i) \<noteq> Result_invalid \<and> [] \<notin> set (di_info (mb_detail i)) \<longrightarrow>
      survives_wire X (load_DeviceInfo X) (parse_DeviceInfo X) DeviceInfoMessageResponse_default
        (\<lambda>d. d\<lparr>di_channel := None\<rparr>) i)
    \<and> (sendable s \<and> dv_result (mb_detail s) \<noteq> Result_invalid \<and> dv_online (mb_detail s) \<noteq> Online_invalid
        \<and> dv_status (mb_detail s) \<noteq> Result_invalid \<and> mb_reason s \<noteq> [] \<and> [] \<notin> set (dv_info (mb_detail s)) \<longrightarrow>
      survives_wire X (load_DeviceStatus X) (parse_DeviceStatus X) DeviceStatusMessageResponse_default
        (\<lambda>d. d\<lparr>dv_alarm_status := DeviceStatusAlarmStatus_default\<rparr>) s)
    \<and> (sendable h \<longrightarrow>
      survives_wire X (load_HomePosition X) (parse_HomePosition X) None
        (map_option (\<lambda>v. v\<lparr>hp_PresetIndex := None, hp_ResetTime := None\<rparr>)) h)
    \<and> (sendable p \<longrightarrow>
      survives_wire X (load_PTZPositionResponse X) (parse_PTZPositionResponse X) PTZPositionResponseMessage_default
        (\<lambda>d. PTZPositionResponseMessage_default\<lparr>po_result := po_result d\<rparr>) p)
    \<and> (sendable n \<longrightarrow>
      survives_wire X (load_PTZPositionNotify X) (parse_PTZPositionNotify X) PTZPositionNotifyMessage_default
        (\<lambda>d. PTZPositionNotifyMessage_default) n)"
  using KeepaliveRequest.message_roundtrip[OF assms] DeviceInfo.message_roundtrip[OF assms]
    DeviceStatus.message_roundtrip[OF assms, unfolded DeviceStatus_after_def[abs_def]]
    HomePositionResponse.message_roundtrip[OF assms] PTZPositionResponse.message_roundtrip[OF assms]
    PTZPositionNotify.message_roundtrip[OF assms]
  by simp

theorem messages_lossy_on_wire_witness:
  "survives_wire wire_xml (load_Keepalive wire_xml) (parse_Keepalive wire_xml) KeepaliveMessageRequest_default
     (\<lambda>d. d\<lparr>ka_info := take 1 (ka_info d)\<rparr>)
     ((KeepaliveMessageRequest_new ''3402'' Result_OK)\<lparr>mb_detail := \<lparr>ka_status = Result_OK, ka_info = [''1'', ''2'']\<rparr>\<rparr>)"
  using messages_lossy_on_wire[OF wire_xml_laws,
      of "(KeepaliveMessageRequest_new ''3402'' Result_OK)\<lparr>mb_detail := \<lparr>ka_status = Result_OK, ka_info = [''1'', ''2'']\<rparr>\<rparr>"]
  by (simp add: KeepaliveMessageRequest_new_def sendable_def MessageBase_new_def MessageBase_default_def)

text \<open>
  A device status response without a reason cannot be received. It is written with an empty
  \<open>Reason\<close> element; once the document has gone through text, where an empty element has no text,
  \<open>load_from_xml\<close> makes a \<open>std::string\<close> from a null pointer before the members are looked at.
\<close>

theorem device_status_without_reason_faults:
  assumes "tinyxml2_laws X" and "GetText X (SetText X [] (NewElement X ''Reason'')) = None"
    and "sendable m" and "mb_reason m = []" and "dv_result (mb_detail m) \<noteq> Result_invalid"
    and "dv_online (mb_detail m) \<noteq> Online_invalid" and "dv_status (mb_detail m) \<noteq> Result_invalid"
  shows "\<exists>m' doc. parse_to_xml X (parse_DeviceStatus X) True m = (True, m') \<and> mb_xml m' = Some doc
    \<and> load_from_xml X (load_DeviceStatus X) (MessageBase_xml (Some doc) DeviceStatusMessageResponse_default)
        = Inl NullText"
proof -
  let ?msg = "m\<lparr>mb_xml := None\<rparr>"
  define r where "r = snd (snd (parse_DeviceStatus X (header_root X ?msg) ?msg))"
  have root: "mb_root m \<noteq> Root_invalid" and cmd: "mb_cmd m \<noteq> Cmd_invalid"
    using assms(3) by (simp_all add: sendable_def)
  have parse: "parse_DeviceStatus X (header_root X ?msg) ?msg = (True, ?msg, r)"
    using assms(5-7) by (simp add: r_def parse_DeviceStatus_def Let_def)
  have name: "Name X r = Name X (header_root X ?msg)"
    using assms(1,4-7)
    by (simp add: r_def parse_DeviceStatus_def Let_def enum_codec AlarmStatus_read_back AlarmStatus_items_under_key xml_simps)
  have keys: "FirstChildElement X r k = FirstChildElement X (header_root X ?msg) k"
    if "k \<in> {''CmdType'', ''SN'', ''DeviceID''}" for k
    using assms(1,4-7) that
    by (auto simp: r_def parse_DeviceStatus_def Let_def enum_codec AlarmStatus_read_back AlarmStatus_items_under_key xml_simps)
  have reason: "FirstChildElement X r ''Reason'' = Some (SetText X [] (NewElement X ''Reason''))"
    using assms(1,4-7)
    by (simp add: r_def parse_DeviceStatus_def Let_def enum_codec AlarmStatus_read_back AlarmStatus_items_under_key
        header_root_lookup xml_simps)
  obtain rs where rs: "getRootTypeString (mb_root m) = Some rs" using root root_string_total by blast
  have ty: "getRootType (Some (Name X r)) = mb_root m"
    unfolding name header_root_only(2)[OF assms(1)] using rs by simp
  have head: "load_header X r w = Inl NullText" for w :: "('a, DeviceStatusMessageResponse) MessageBase"
    using assms(1,2) keys reason
    by (cases "mb_device_id m")
      (simp_all add: load_header_def Let_def header_root_lookup string_of_text_def tinyxml2_lawsD)
  show ?thesis
    using parse ty head root cmd assms(3)
    by (auto simp: parse_to_xml_def Let_def sendable_def load_extend_data_def load_from_xml_def
        MessageBase_xml_def MessageBase_default_def)
qed

theorem device_status_without_reason_faults_witness:
  "\<exists>m' doc. parse_to_xml wire_xml (parse_DeviceStatus wire_xml) True
       (DeviceStatusMessageResponse_new ''3402'' Result_OK Online_ONLINE Result_OK) = (True, m') \<and> mb_xml m' = Some doc
    \<and> load_from_xml wire_xml (load_DeviceStatus wire_xml)
        (MessageBase_xml (Some doc) DeviceStatusMessageResponse_default) = Inl NullText"
  by (rule device_status_without_reason_faults[OF wire_xml_laws])
    (simp_all add: wire_xml_def dom_xml_def DeviceStatusMessageResponse_new_def sendable_new
      MessageBase_new_def MessageBase_default_def sendable_def)


text \<open>
  The preset list carries its items exactly, but not its total: a response built with a
  non-zero total announces the inherited \<open>sum_num_\<close>, which is 0, and whatever total a received document
  announces, \<open>sum_num()\<close> of the loaded message (the inherited member) is what it was before, 0.
\<close>

theorem preset_list_total_lost:
  assumes "tinyxml2_laws X"
  shows "(sendable m \<and> pr_base_sum_num (mb_detail m) = 0 \<and> length (pr_preset_list (mb_detail m)) < 2 ^ 31 \<longrightarrow>
      survives_wire X (load_Preset X) (parse_Preset X) PresetResponseMessage_default
        (\<lambda>d. \<lparr>pr_base_sum_num = 0,
           pr_sum_num = (if pr_sum_num d \<noteq> 0 then 0 else of_nat (length (pr_preset_list d))),
           pr_preset_list = pr_preset_list d\<rparr>) m)
    \<and> (load_Preset X root w = Inr (ok, w') \<longrightarrow> pr_base_sum_num (mb_detail w') = pr_base_sum_num (mb_detail w))"
proof (intro conjI impI, goal_cases)
  case 1
  then show ?case using Preset.message_roundtrip[OF assms, of m] by simp
next
  case 2
  then show ?case
    by (auto simp: load_Preset_def Let_def reject_def accept_def split: option.splits)
qed

theorem preset_list_total_lost_witness:
  "survives_wire wire_xml (load_Preset wire_xml) (parse_Preset wire_xml) PresetResponseMessage_default
     (\<lambda>d. \<lparr>pr_base_sum_num = 0,
        pr_sum_num = (if pr_sum_num d \<noteq> 0 then 0 else of_nat (length (pr_preset_list d))),
        pr_preset_list = pr_preset_list d\<rparr>)
     (PresetResponseMessage_new ''3402'' 1 [\<lparr>pl_PresetID = ''1'', pl_PresetName = ''gate''\<rparr>])"
  using preset_list_total_lost[OF wire_xml_laws,
      of "PresetResponseMessage_new ''3402'' 1 [\<lparr>pl_PresetID = ''1'', pl_PresetName = ''gate''\<rparr>]"]
  by (simp add: PresetResponseMessage_new_def sendable_def MessageBase_new_def MessageBase_default_def)

text \<open>
  The members of the device controls: on a root element made by the writer, the reader of the same
  class recovers the PTZ frame (with its check octets completed) and its parameters, the record, guard
  and target track commands, the zoom rectangle, the upgrade and the SD card index, and the
  extra information without its empty texts.
\<close>

theorem control_members_roundtrip:
  assumes "tinyxml2_laws X" and "header_only X root"
  shows "(b0 (pz_cmd (mb_detail p)) = 0xA5 \<and> mb_detail p' = PTZCmdRequest_default \<and> mb_device_id p' = wire_device_id (mb_device_id p) \<longrightarrow>
      load_PTZCmd X (snd (snd (parse_PTZCmd X root p))) p' = Inr (True, p'\<lparr>mb_detail :=
        (extra_after (mb_detail p))\<lparr>pz_cmd := snd (ToHex (pz_cmd (mb_detail p))),
          pz_params := kept (\<lambda>v. v \<noteq> PtzCmdParams_default) (\<lambda>v. v) (pz_params (mb_detail p))\<rparr>\<rparr>))
    \<and> (rc_record_type (mb_detail c) \<noteq> Record_invalid \<and> mb_detail c' = RecordCmdRequest_default \<and> mb_device_id c' = wire_device_id (mb_device_id c) \<longrightarrow>
      load_RecordCmd X (snd (snd (parse_RecordCmd X root c))) c' = Inr (True, c'\<lparr>mb_detail := extra_after (mb_detail c)\<rparr>))
    \<and> (tt_target_trace (mb_detail t) \<noteq> Trace_invalid \<and> mb_detail t' = TargetTrackRequest_default \<and> mb_device_id t' = wire_device_id (mb_device_id t) \<longrightarrow>
      load_TargetTrack X (snd (snd (parse_TargetTrack X root t))) t' = Inr (True, t'\<lparr>mb_detail := extra_after (mb_detail t)\<rparr>))
    \<and> (mb_detail z' = DragZoomRequest_default \<and> mb_device_id z' = wire_device_id (mb_device_id z) \<longrightarrow>
      load_DragZoomIn X (snd (snd (parse_DragZoomIn X root z))) z' = Inr (True, z'\<lparr>mb_detail := extra_after (mb_detail z)\<rparr>))
    \<and> (mb_detail u' = DeviceUpgradeRequest_default \<and> mb_device_id u' = wire_device_id (mb_device_id u) \<longrightarrow>
      load_DeviceUpgrade X (snd (snd (parse_DeviceUpgrade X root u))) u' = Inr (True, u'\<lparr>mb_detail := extra_after (mb_detail u)\<rparr>))
    \<and> (mb_detail f' = FormatSDCardRequest_default \<and> mb_device_id f' = wire_device_id (mb_device_id f) \<longrightarrow>
      load_FormatSDCard X (snd (snd (parse_FormatSDCard X root f))) f' = Inr (True, f'\<lparr>mb_detail := extra_after (mb_detail f)\<rparr>))"
  using PTZCmd.load_parse[OF assms(1) _ assms(2)] RecordCmd.load_parse[OF assms(1) _ assms(2)]
    TargetTrack.load_parse[OF assms(1) _ assms(2)] DragZoomIn.load_parse[OF assms(1) _ assms(2)]
    DeviceUpgradeCmd.load_parse[OF assms(1) _ assms(2)] FormatSDCard.load_parse[OF assms(1) _ assms(2)]
  by simp

theorem control_members_roundtrip_witness:
  "load_FormatSDCard wire_xml (snd (snd (parse_FormatSDCard wire_xml (NewElement wire_xml ''Control'')
      (MessageBase_default \<lparr>dc_extra_info = [[], ''x''], fs_index = 3\<rparr>)))) (MessageBase_default FormatSDCardRequest_default)
   = Inr (True, MessageBase_default \<lparr>dc_extra_info = [''x''], fs_index = 3\<rparr>)"
  using control_members_roundtrip[OF wire_xml_laws, of "NewElement wire_xml ''Control''" _ _ _ _ _ _ _ _ _ _
      "MessageBase_default FormatSDCardRequest_default" "MessageBase_default \<lparr>dc_extra_info = [[], ''x''], fs_index = 3\<rparr>"]
  by (simp add: header_only_def tinyxml2_lawsD wire_xml_laws MessageBase_default_def extra_after_def wire_device_id_def)

text \<open>
  C14. Every received device control is turned away. Whatever message comes in and whoever listens,
  no control event is ever emitted: the answer is 400 when a child element names a known control (its
  request object, whose virtual base was default-initialised, has no document to load) and 404 otherwise.
\<close>

theorem device_controls_never_dispatched:
  "on_device_control X eles message listeners =
     Inr (if \<exists>e \<in> set eles. control_class_of (Name X e) \<noteq> None then 400 else 404, False)"
proof -
  have "process_control X k message n = Inr (400, False)" for k n
    by (cases k)
      (simp_all add: process_control_def process_def load_from_xml_def DeviceControl_from_def MessageBase_default_def)
  then show ?thesis
    by (induction eles) (auto simp: control_class_of_def split: option.splits)
qed

end
