(* ===== verification/Request_Proxy.thy ===== *)
theory Request_Proxy
  imports Records
begin

text \<open>
  The request proxies (\<open>src/request/RequestProxyImpl.cpp\<close>, \<open>RequestListImpl.cpp\<close>,
  \<open>RequestConfigDownloadImpl.cpp\<close> and their headers): one object follows one request from sending to its last
  response. The three classes are one record, with \<open>pq_class\<close> for the dynamic class; each
  handler takes the proxy to its new state, the calls it makes on the outside (an \<open>event list\<close>, in order) and its
  result. The callbacks of the application are parameters: a response callback returns
  a code, or throws a \<open>std::exception\<close> with a message. A received response is what the handlers look at of it. Which
  reply codes mean success and which are provisional is decided by macros of the SIP library,
  the parameters \<open>success\<close> and \<open>info\<close>.
\<close>

section \<open>Types\<close>

datatype Status = Init | Sending | Replied | Succeeded | Timeout | Failed

datatype RequestType = RT_invalid | NoResponse | OneResponse | MultipleResponses

datatype proxy_class = C_Plain | C_List | C_ConfigDownload

text \<open>\<open>DeviceControlType\<close>, with the values of its enumerators.\<close>

datatype DeviceControlType =
  DC_PTZCmd | DC_TeleBoot | DC_RecordCmd | DC_GuardCmd | DC_AlarmCmd | DC_IFrameCmd | DC_DragZoomIn
| DC_DragZoomOut | DC_HomePosition | DC_PtzPreciseCtrl | DC_DeviceUpgrade | DC_FormatSDCard | DC_TargetTrack

fun control_code :: "DeviceControlType \<Rightarrow> nat" where
  "control_code DC_PTZCmd = 1"
| "control_code DC_TeleBoot = 2"
| "control_code DC_RecordCmd = 3"
| "control_code DC_GuardCmd = 4"
| "control_code DC_AlarmCmd = 5"
| "control_code DC_IFrameCmd = 6"
| "control_code DC_DragZoomIn = 7"
| "control_code DC_DragZoomOut = 8"
| "control_code DC_HomePosition = 9"
| "control_code DC_PtzPreciseCtrl = 10"
| "control_code DC_DeviceUpgrade = 11"
| "control_code DC_FormatSDCard = 12"
| "control_code DC_TargetTrack = 13"

section \<open>The factory\<close>

definition flag64 :: "nat \<Rightarrow> u64" where
  "flag64 n = push_bit n 1"

definition cmd_value :: "MessageCmdType \<Rightarrow> nat" where
  "cmd_value = xmap_value GB28181_XML_CMD_MAP"

definition multi_response_cmds :: u64 where
  "multi_response_cmds = flag64 (cmd_value Cmd_Catalog) OR flag64 (cmd_value Cmd_ConfigDownload)
     OR flag64 (cmd_value Cmd_RecordInfo) OR flag64 (cmd_value Cmd_PresetQuery)
     OR flag64 (cmd_value Cmd_CruiseTrackQuery) OR flag64 (cmd_value Cmd_CruiseTrackListQuery)"

definition no_response_cmds :: u64 where
  "no_response_cmds = flag64 (control_code DC_PTZCmd) OR flag64 (control_code DC_TeleBoot)
     OR flag64 (control_code DC_IFrameCmd) OR flag64 (control_code DC_DragZoomIn)
     OR flag64 (control_code DC_DragZoomOut) OR flag64 (control_code DC_PtzPreciseCtrl)
     OR flag64 (control_code DC_FormatSDCard) OR flag64 (control_code DC_TargetTrack)"

text \<open>
  The class and type of the proxy for a request; \<open>control\<close> is the control type when the message is
  a \<open>DeviceControlRequestMessage\<close>.
\<close>

definition newRequestProxy ::
    "MessageRootType \<Rightarrow> MessageCmdType \<Rightarrow> DeviceControlType option \<Rightarrow> (proxy_class \<times> RequestType) option" where
  "newRequestProxy root command control =
     (let type = (case root of
          Root_Query \<Rightarrow>
            Some (if multi_response_cmds AND flag64 (cmd_value command) \<noteq> 0 then MultipleResponses else OneResponse)
        | Root_Control \<Rightarrow>
            Some (if command = Cmd_DeviceControl then
                    (case control of
                       None \<Rightarrow> OneResponse
                     | Some c \<Rightarrow> if no_response_cmds AND flag64 (control_code c) \<noteq> 0 then NoResponse else OneResponse)
                  else OneResponse)
        | Root_Notify \<Rightarrow> Some (if command \<noteq> Cmd_Alarm then NoResponse else OneResponse)
        | Root_Response \<Rightarrow> Some NoResponse
        | Root_invalid \<Rightarrow> None)
      in case type of
           None \<Rightarrow> None
         | Some t \<Rightarrow> Some
             (if t = MultipleResponses
              then (if command = Cmd_ConfigDownload then C_ConfigDownload else C_List) else C_Plain, t))"

section \<open>State\<close>

text \<open>
  A received response: its command, the outcome of \<open>load_from_xml\<close> and its error, the counts of a
  \<open>ListMessageBase\<close>, and the set, result and reason of a configuration download response.
\<close>

record response =
  rs_cmd :: MessageCmdType
  rs_loads :: bool
  rs_error :: string
  rs_num :: i32
  rs_sum_num :: i32
  rs_config_type :: DeviceConfigType
  rs_result :: ResultType
  rs_reason :: string

record proxy =
  pq_class :: proxy_class
  pq_type :: RequestType
  pq_sn :: i32
  pq_status :: Status
  pq_reply_code :: int
  pq_error :: string
  pq_send_time :: u64
  pq_reply_time :: u64
  pq_response_begin_time :: u64
  pq_response_end_time :: u64
  pq_responses :: "response list"
  pq_result_flag :: bool
  pq_rcb :: bool \<comment> \<open>whether the result callback is set\<close>
  pq_reply_callback :: bool
  pq_response_callback :: bool
  pq_timer :: bool \<comment> \<open>the base class's timer is running\<close>
  pq_own_timer :: bool \<comment> \<open>the derived class's timer is running\<close>
  pq_sum_num :: i32
  pq_recv_num :: i32
  pq_recv_config :: DeviceConfigType
  pq_request_config :: DeviceConfigType
  pq_pending :: nat \<comment> \<open>calls of \<open>on_completed\<close> queued with \<open>async\<close>\<close>
  pq_sent :: bool \<comment> \<open>whether \<open>send\<close> has been called\<close>
  pq_inflight :: bool \<comment> \<open>the transaction still owes a final reply or an error\<close>

definition proxy_new ::
    "proxy_class \<Rightarrow> RequestType \<Rightarrow> i32 \<Rightarrow> DeviceConfigType \<Rightarrow> bool \<Rightarrow> bool \<Rightarrow> proxy" where
  "proxy_new c t sn request_config reply_cb response_cb =
     \<lparr>pq_class = c, pq_type = t, pq_sn = sn, pq_status = Init, pq_reply_code = 0, pq_error = [],
      pq_send_time = 0, pq_reply_time = 0, pq_response_begin_time = 0, pq_response_end_time = 0,
      pq_responses = [], pq_result_flag = False, pq_rcb = False, pq_reply_callback = reply_cb,
      pq_response_callback = response_cb, pq_timer = False, pq_own_timer = False, pq_sum_num = 0,
      pq_recv_num = 0, pq_recv_config = 0, pq_request_config = request_config, pq_pending = 0,
      pq_sent = False, pq_inflight = False\<rparr>"

datatype event =
  AddProxy i32 \<comment> \<open>\<open>platform_->add_request_proxy\<close>\<close>
| RemoveProxy i32
| Transmit i32 \<comment> \<open>\<open>platform_->uac_send3\<close>\<close>
| ResultCallback Status string
| ReplyCallback int
| ResponseCallback response bool

text \<open>How a response handler ends: a SIP code, an exception of the callback, or a null dereference.\<close>

datatype result = Code int | Thrown | NullDeref

section \<open>Completion\<close>

text \<open>\<open>on_completed_l\<close>: the derived classes drop their timer.\<close>

definition on_completed_l :: "proxy \<Rightarrow> proxy" where
  "on_completed_l p = (if pq_class p = C_Plain then p else p\<lparr>pq_own_timer := False\<rparr>)"

definition on_completed :: "proxy \<Rightarrow> proxy \<times> event list" where
  "on_completed p =
     (if pq_result_flag p then (p, [])
      else (on_completed_l (p\<lparr>pq_result_flag := True, pq_reply_callback := False,
              pq_response_callback := False, pq_rcb := False\<rparr>),
            (if pq_rcb p then [ResultCallback (pq_status p) (pq_error p)] else []) @ [RemoveProxy (pq_sn p)]))"

section \<open>Sending\<close>

text \<open>
  \<open>send\<close>: \<open>request\<close> is \<open>None\<close> for a null message, otherwise the outcome and error of its \<open>parse_to_xml\<close>;
  \<open>rcb\<close> tells whether a callback is given.
\<close>

definition send :: "u64 \<Rightarrow> (bool \<times> string) option \<Rightarrow> bool \<Rightarrow> proxy \<Rightarrow> proxy \<times> event list" where
  "send now request rcb p =
     (let p = p\<lparr>pq_sent := True\<rparr> in case request of
        None \<Rightarrow> on_completed (p\<lparr>pq_error := ''the request message is empty'', pq_status := Failed\<rparr>)
      | Some (parsed, err) \<Rightarrow>
          (let p = p\<lparr>pq_rcb := rcb\<rparr>
           in if \<not> parsed
              then on_completed (p\<lparr>pq_error := ''make request payload failed, error = '' @ err, pq_status := Failed\<rparr>)
              else (p\<lparr>pq_send_time := now, pq_inflight := True\<rparr>, [AddProxy (pq_sn p), Transmit (pq_sn p)])))"

text \<open>The error callback of \<open>uac_send3\<close>.\<close>

definition on_send_error :: "string \<Rightarrow> proxy \<Rightarrow> proxy \<times> event list" where
  "on_send_error err p = on_completed (p\<lparr>pq_status := Failed, pq_error := err, pq_inflight := False\<rparr>)"

section \<open>The reply\<close>

definition on_reply_l :: "proxy \<Rightarrow> proxy" where
  "on_reply_l p =
     (case pq_class p of
        C_Plain \<Rightarrow> p
      | C_List \<Rightarrow> if pq_status p = Replied then p\<lparr>pq_own_timer := True\<rparr> else p
      | C_ConfigDownload \<Rightarrow> p\<lparr>pq_own_timer := True\<rparr>)"

text \<open>\<open>has_msg\<close> is false when the transaction ended without a reply.\<close>

definition on_reply ::
    "(int \<Rightarrow> bool) \<Rightarrow> (int \<Rightarrow> bool) \<Rightarrow> u64 \<Rightarrow> bool \<Rightarrow> int \<Rightarrow> proxy \<Rightarrow> proxy \<times> event list" where
  "on_reply success info now has_msg code p =
     (let p = p\<lparr>pq_reply_time := now, pq_reply_code := code, pq_inflight := info code\<rparr>;
          p = (if success code
               then p\<lparr>pq_status := (if pq_type p = NoResponse then Succeeded else Replied)\<rparr>
               else p\<lparr>pq_error := (if code = 408 \<or> \<not> has_msg then ''no reply'' else ''status code = '' @ show_int code),
                      pq_status := (if code = 408 \<or> \<not> has_msg then Timeout else Failed)\<rparr>);
          p = on_reply_l p;
          cb = (if pq_reply_callback p then [ReplyCallback code] else []);
          p = p\<lparr>pq_reply_callback := False\<rparr>
      in if pq_status p \<noteq> Replied
         then (let (p, evs) = on_completed p in (p, cb @ evs))
         else (p\<lparr>pq_timer := True\<rparr>, cb))"

section \<open>Timers and queued completions\<close>

definition on_timer :: "proxy \<Rightarrow> proxy \<times> event list" where
  "on_timer p =
     (let p = p\<lparr>pq_timer := False\<rparr>
      in if pq_status p = Replied
         then on_completed (p\<lparr>pq_status := Timeout, pq_error := ''the wait for a response has timed out''\<rparr>)
         else (p, []))"

text \<open>The derived timers; \<open>elapsed\<close> is the list ticker's time since the last packet, in milliseconds.\<close>

definition on_own_timer :: "nat \<Rightarrow> proxy \<Rightarrow> proxy \<times> event list" where
  "on_own_timer elapsed p =
     (case pq_class p of
        C_Plain \<Rightarrow> (p, [])
      | C_List \<Rightarrow>
          if 5000 < elapsed
          then on_completed (p\<lparr>pq_own_timer := False, pq_status := Timeout,
                 pq_error := ''the wait for a response has timed out''\<rparr>)
          else (p, [])
      | C_ConfigDownload \<Rightarrow>
          (let p = p\<lparr>pq_own_timer := False\<rparr>;
               p = (if pq_status p = Replied
                    then p\<lparr>pq_status := Timeout, pq_error := ''the wait for a response has timed out''\<rparr> else p)
           in on_completed p))"

definition on_async :: "proxy \<Rightarrow> proxy \<times> event list" where
  "on_async p = on_completed (p\<lparr>pq_pending := pq_pending p - 1\<rparr>)"

section \<open>Responses\<close>

text \<open>The commands whose response class derives from \<open>ListMessageBase\<close>.\<close>

definition is_list_response :: "MessageCmdType \<Rightarrow> bool" where
  "is_list_response c \<longleftrightarrow>
     c \<in> {Cmd_Catalog, Cmd_RecordInfo, Cmd_PresetQuery, Cmd_CruiseTrackListQuery, Cmd_CruiseTrackQuery}"

definition known_response :: "MessageCmdType \<Rightarrow> bool" where
  "known_response c \<longleftrightarrow>
     c \<in> {Cmd_DeviceControl, Cmd_DeviceConfig, Cmd_DeviceStatus, Cmd_Catalog, Cmd_DeviceInfo, Cmd_RecordInfo,
          Cmd_ConfigDownload, Cmd_PresetQuery, Cmd_HomePositionQuery, Cmd_CruiseTrackListQuery,
          Cmd_CruiseTrackQuery, Cmd_PTZPosition, Cmd_SDCardStatus, Cmd_Broadcast}"

text \<open>Calling the response callback: what it returns, and the event when it is set.\<close>

definition call_response :: "(string + int) \<Rightarrow> proxy \<Rightarrow> response \<Rightarrow> bool \<Rightarrow> (string + int) \<times> event list" where
  "call_response cb p r completed =
     (if pq_response_callback p then (cb, [ResponseCallback r completed]) else (Inr 200, []))"

definition on_response_plain :: "u64 \<Rightarrow> string + int \<Rightarrow> response \<Rightarrow> proxy \<Rightarrow> proxy \<times> event list \<times> result" where
  "on_response_plain now cb r p =
     (let completed = (pq_type p = OneResponse);
          p = (if completed then p\<lparr>pq_response_end_time := now, pq_status := Succeeded\<rparr> else p)
      in case call_response cb p r completed of
           (Inl what, evs) \<Rightarrow> (p, evs, Thrown)
         | (Inr code, evs) \<Rightarrow>
             ((if completed then p\<lparr>pq_pending := pq_pending p + 1\<rparr> else p), evs,
              Code (if code \<noteq> 0 then code else 400)))"

text \<open>The counters are 32-bit; \<open>fetch_add\<close> wraps around.\<close>

definition on_response_list :: "u64 \<Rightarrow> string + int \<Rightarrow> response \<Rightarrow> proxy \<Rightarrow> proxy \<times> event list \<times> result" where
  "on_response_list now cb r p =
     (if \<not> is_list_response (rs_cmd r) then (p, [], NullDeref)
      else let recv_num = pq_recv_num p;
          p = p\<lparr>pq_recv_num := recv_num + rs_num r, pq_sum_num := rs_sum_num r\<rparr>;
          completed = (sint (pq_sum_num p) \<le> sint (recv_num + rs_num r));
          p = (if completed then p\<lparr>pq_own_timer := False, pq_response_end_time := now, pq_status := Succeeded\<rparr> else p)
      in case call_response cb p r completed of
           (Inl what, evs) \<Rightarrow> (p, evs, Thrown)
         | (Inr code, evs) \<Rightarrow>
             if completed then (let (p, evs') = on_completed p in (p, evs @ evs', Code code))
             else (p, evs, Code code))"

definition on_response_config :: "u64 \<Rightarrow> string + int \<Rightarrow> response \<Rightarrow> proxy \<Rightarrow> proxy \<times> event list \<times> result" where
  "on_response_config now cb r p =
     (if rs_cmd r \<noteq> Cmd_ConfigDownload then (p, [], NullDeref)
      else let p = p\<lparr>pq_recv_config := config_or (pq_recv_config p) (rs_config_type r)\<rparr>;
          is_end = (pq_recv_config p = pq_request_config p);
          p = (if is_end then p\<lparr>pq_own_timer := False, pq_response_end_time := now, pq_status := Succeeded\<rparr> else p)
      in if rs_config_type r = 0 \<and> rs_result r \<noteq> Result_OK
         then (let (p, evs) = on_completed (p\<lparr>pq_own_timer := False, pq_response_end_time := now,
                     pq_status := Failed, pq_error := ''response failed, '' @ rs_reason r\<rparr>)
               in (p, evs, Code 200))
         else case call_response cb p r is_end of
           (Inl what, evs) \<Rightarrow> (p\<lparr>pq_error := what\<rparr>, evs, Code 500)
         | (Inr code, evs) \<Rightarrow>
             if is_end then (let (p, evs') = on_completed p in (p, evs @ evs', Code code))
             else (p, evs, Code code))"

text \<open>The entry point: the message becomes a response of the class for its command, and is loaded.\<close>

definition on_response :: "u64 \<Rightarrow> string + int \<Rightarrow> response \<Rightarrow> proxy \<Rightarrow> proxy \<times> event list \<times> result" where
  "on_response now cb r p =
     (if \<not> known_response (rs_cmd r) then (p, [], Code 400)
      else let p = p\<lparr>pq_timer := False, pq_responses := pq_responses p @ [r],
            pq_response_begin_time := (if pq_response_begin_time p = 0 then now else pq_response_begin_time p)\<rparr>
      in if \<not> rs_loads r
         then (p\<lparr>pq_status := Failed, pq_error := ''load_from_xml failed, error = '' @ rs_error r,
                 pq_pending := pq_pending p + 1\<rparr>, [], Code 400)
         else (case pq_class p of
                 C_Plain \<Rightarrow> on_response_plain now cb r p
               | C_List \<Rightarrow> on_response_list now cb r p
               | C_ConfigDownload \<Rightarrow> on_response_config now cb r p))"

text \<open>\<open>RequestListImpl::response\<close>, whose cached member is never set: the response, when there is exactly one.\<close>

definition list_response :: "proxy \<Rightarrow> response option" where
  "list_response p = (case pq_responses p of [r] \<Rightarrow> Some r | _ \<Rightarrow> None)"

text \<open>
  \<open>RequestConfigDownloadImpl::response\<close>: the first response is kept, and the loop over the others copies the entries
  of each into itself.
\<close>

definition config_response :: "proxy \<Rightarrow> response option" where
  "config_response p = (case pq_responses p of [] \<Rightarrow> None | r # _ \<Rightarrow> Some r)"

section \<open>Handlers\<close>

text \<open>
  The inputs a sent proxy can get: the reply or error of its transaction, its timers, a queued
  completion, and a response, which finds the proxy by its number. An input is enabled when the object it comes from
  exists. Handlers run one at a time here.
\<close>

datatype input =
  I_Reply u64 bool int
| I_SendError string
| I_Timer
| I_OwnTimer nat
| I_Async
| I_Response u64 "string + int" response

fun enabled :: "input \<Rightarrow> proxy \<Rightarrow> bool" where
  "enabled (I_Reply now has_msg code) p = pq_inflight p"
| "enabled (I_SendError err) p = pq_inflight p"
| "enabled I_Timer p = pq_timer p"
| "enabled (I_OwnTimer elapsed) p = pq_own_timer p"
| "enabled I_Async p = (0 < pq_pending p)"
| "enabled (I_Response now cb r) p = pq_sent p"

fun handle :: "(int \<Rightarrow> bool) \<Rightarrow> (int \<Rightarrow> bool) \<Rightarrow> input \<Rightarrow> proxy \<Rightarrow> proxy \<times> event list" where
  "handle success info (I_Reply now has_msg code) p = on_reply success info now has_msg code p"
| "handle success info (I_SendError err) p = on_send_error err p"
| "handle success info I_Timer p = on_timer p"
| "handle success info (I_OwnTimer elapsed) p = on_own_timer elapsed p"
| "handle success info I_Async p = on_async p"
| "handle success info (I_Response now cb r) p = (case on_response now cb r p of (p', evs, res) \<Rightarrow> (p', evs))"

end
