(* ===== verification/Request_Runs.thy ===== *)
theory Request_Runs
  imports Request_Proxy
begin

text \<open>
  The runs of a request proxy: what the handlers leave alone, the quiet and the final steps, the run relation with the
  invariant that the completion happens once, and sequences of inputs.
\<close>

section \<open>Completion\<close>

lemmas proxy_steps =
  on_reply_def on_send_error_def on_timer_def on_own_timer_def on_async_def on_response_def on_response_plain_def
  on_response_list_def on_response_config_def on_reply_l_def call_response_def

text \<open>The part of a proxy that only \<open>on_completed\<close> and \<open>send\<close> write.\<close>

lemma on_completed_flag [simp]: "pq_result_flag (fst (on_completed p))"
  by (simp add: on_completed_def on_completed_l_def)

lemma on_completed_again [simp]: "pq_result_flag p \<Longrightarrow> on_completed p = (p, [])"
  by (simp add: on_completed_def)

lemma on_completed_keeps [simp]:
  "pq_sn (fst (on_completed p)) = pq_sn p" "pq_status (fst (on_completed p)) = pq_status p"
  "pq_error (fst (on_completed p)) = pq_error p" "pq_sent (fst (on_completed p)) = pq_sent p"
  "pq_class (fst (on_completed p)) = pq_class p" "pq_type (fst (on_completed p)) = pq_type p"
  by (simp_all add: on_completed_def on_completed_l_def)

text \<open>
  A step is quiet when it leaves the completion alone, and final when it completes the proxy: then its last events
  are the result and the removal, and the callbacks are gone.
\<close>

fun progress :: "event \<Rightarrow> bool" where
  "progress (ReplyCallback c) = True"
| "progress (ResponseCallback r b) = True"
| "progress e = False"

definition closed :: "proxy \<Rightarrow> bool" where
  "closed p \<longleftrightarrow> pq_result_flag p \<and> \<not> pq_rcb p \<and> \<not> pq_reply_callback p \<and> \<not> pq_response_callback p"

definition final_events :: "proxy \<Rightarrow> proxy \<Rightarrow> event list" where
  "final_events p p' =
     (if pq_rcb p then [ResultCallback (pq_status p') (pq_error p')] else []) @ [RemoveProxy (pq_sn p)]"

definition quiet :: "proxy \<Rightarrow> proxy \<Rightarrow> event list \<Rightarrow> bool" where
  "quiet p p' evs \<longleftrightarrow> pq_result_flag p' = pq_result_flag p \<and> pq_rcb p' = pq_rcb p \<and> list_all progress evs"

definition final :: "proxy \<Rightarrow> proxy \<Rightarrow> event list \<Rightarrow> bool" where
  "final p p' evs \<longleftrightarrow> \<not> pq_result_flag p \<and> closed p' \<and>
     (\<exists>before. evs = before @ final_events p p' \<and> list_all progress before)"

lemma on_completed_final:
  assumes "\<not> pq_result_flag p" "pq_rcb p = pq_rcb q" "pq_sn p = pq_sn q" "\<not> pq_result_flag q" "list_all progress evs"
  shows "final q (fst (on_completed p)) (evs @ snd (on_completed p))"
  using assms
  by (auto simp: final_def closed_def on_completed_def on_completed_l_def final_events_def intro!: exI [of _ evs])

text \<open>What the handlers never change.\<close>

lemma handle_keeps:
  "pq_sn (fst (handle success info i p)) = pq_sn p \<and> pq_sent (fst (handle success info i p)) = pq_sent p
   \<and> pq_class (fst (handle success info i p)) = pq_class p \<and> pq_type (fst (handle success info i p)) = pq_type p"
  by (cases i; cases "pq_class p")
     (simp_all add: proxy_steps on_completed_def on_completed_l_def Let_def
        split: if_splits sum.split)

lemma step_closed: "closed p \<Longrightarrow> closed (fst (handle success info i p)) \<and> snd (handle success info i p) = []"
  by (cases i; cases "pq_class p")
     (simp_all add: proxy_steps closed_def on_completed_def on_completed_l_def Let_def split: if_splits sum.split)

lemma step_open:
  assumes "\<not> pq_result_flag p"
  shows "quiet p (fst (handle success info i p)) (snd (handle success info i p))
    \<or> final p (fst (handle success info i p)) (snd (handle success info i p))"
  using assms
  by (cases i; cases "pq_class p")
     (auto simp: proxy_steps quiet_def final_def final_events_def closed_def on_completed_def on_completed_l_def
        Let_def split: if_splits sum.splits)

section \<open>Runs\<close>

text \<open>
  The runs of a proxy: it is sent, then handles enabled inputs in any order. \<open>allowed\<close> restricts the inputs.
\<close>

inductive run ::
    "(int \<Rightarrow> bool) \<Rightarrow> (int \<Rightarrow> bool) \<Rightarrow> (input \<Rightarrow> proxy \<Rightarrow> bool) \<Rightarrow> (bool \<times> string) \<Rightarrow> bool \<Rightarrow> proxy
      \<Rightarrow> proxy \<Rightarrow> event list \<Rightarrow> bool"
  for success info allowed m rcb p where
  run_send: "run success info allowed m rcb p (fst (send now (Some m) rcb p)) (snd (send now (Some m) rcb p))"
| run_step: "run success info allowed m rcb p q evs \<Longrightarrow> enabled i q \<Longrightarrow> allowed i q
    \<Longrightarrow> run success info allowed m rcb p (fst (handle success info i q)) (evs @ snd (handle success info i q))"

definition any_input :: "input \<Rightarrow> proxy \<Rightarrow> bool" where
  "any_input i p = True"

text \<open>
  A cooperative environment: the response callback returns, and a response to a multi-part request
  has the class the request's proxy casts it to.
\<close>

fun cooperative :: "input \<Rightarrow> proxy \<Rightarrow> bool" where
  "cooperative (I_Response now cb r) p =
     ((case cb of Inl what \<Rightarrow> False | Inr code \<Rightarrow> True) \<and>
      (case pq_class p of
         C_Plain \<Rightarrow> True
       | C_List \<Rightarrow> is_list_response (rs_cmd r)
       | C_ConfigDownload \<Rightarrow> rs_cmd r = Cmd_ConfigDownload))"
| "cooperative i p = True"

fun ends_request :: "event \<Rightarrow> bool" where
  "ends_request (ResultCallback st err) = True"
| "ends_request (RemoveProxy sn) = True"
| "ends_request e = False"

lemma progress_not_end: "list_all progress evs \<Longrightarrow> list_all (\<lambda>e. \<not> ends_request e) evs"
  by (induction evs) (auto elim: progress.elims)

definition once :: "bool \<Rightarrow> i32 \<Rightarrow> proxy \<Rightarrow> event list \<Rightarrow> bool" where
  "once rcb sn q evs \<longleftrightarrow>
     (if pq_result_flag q
      then closed q \<and> (\<exists>before st err. evs = before @ (if rcb then [ResultCallback st err] else []) @ [RemoveProxy sn]
             \<and> list_all (\<lambda>e. \<not> ends_request e) before)
      else pq_rcb q = rcb \<and> list_all (\<lambda>e. \<not> ends_request e) evs)"

lemma once_step:
  assumes "once rcb (pq_sn q) q evs"
  shows "once rcb (pq_sn q) (fst (handle success info i q)) (evs @ snd (handle success info i q))"
proof (cases "pq_result_flag q")
  case True
  then have "closed q" using assms by (simp add: once_def)
  then show ?thesis using assms step_closed [of q success info i] True by (simp add: once_def closed_def)
next
  case False
  let ?q = "fst (handle success info i q)" and ?evs = "snd (handle success info i q)"
  have old: "pq_rcb q = rcb" "list_all (\<lambda>e. \<not> ends_request e) evs" using assms False by (simp_all add: once_def)
  from step_open [OF False, of success info i] show ?thesis
  proof
    assume "quiet q ?q ?evs"
    then show ?thesis using False old progress_not_end by (simp add: once_def quiet_def)
  next
    assume "final q ?q ?evs"
    then obtain before where b: "closed ?q" "?evs = before @ final_events q ?q" "list_all progress before"
      by (auto simp: final_def)
    have "list_all (\<lambda>e. \<not> ends_request e) (evs @ before)" using old(2) progress_not_end [OF b(3)] by simp
    then show ?thesis using b(1,2) old(1)
      by (auto simp: once_def final_events_def closed_def intro!: exI [of _ "evs @ before"])
  qed
qed

lemma run_keeps:
  "run success info allowed m rcb p q evs \<Longrightarrow>
     pq_sn q = pq_sn p \<and> pq_class q = pq_class p \<and> pq_type q = pq_type p \<and> pq_sent q"
proof (induction rule: run.induct)
  case (run_send now)
  then show ?case by (cases m) (simp add: send_def Let_def)
qed (simp add: handle_keeps)

lemma run_once:
  assumes "run success info allowed m rcb (proxy_new c t sn config rep res) q evs"
  shows "once rcb sn q evs"
  using assms
proof (induction rule: run.induct)
  case (run_send now)
  then show ?case
    by (cases m; cases "pq_class (proxy_new c t sn config rep res)")
       (simp_all add: send_def proxy_new_def once_def closed_def on_completed_def on_completed_l_def Let_def)
next
  case (run_step q evs i)
  then show ?case using once_step [of rcb q evs success info i] run_keeps [OF run_step.hyps(1)]
    by (simp add: proxy_new_def)
qed

section \<open>Sequences of inputs\<close>

text \<open>The usual reply codes, and a response, for concrete runs.\<close>

definition ok_code :: "int \<Rightarrow> bool" where
  "ok_code c \<longleftrightarrow> 200 \<le> c \<and> c < 300"

definition info_code :: "int \<Rightarrow> bool" where
  "info_code c \<longleftrightarrow> 100 \<le> c \<and> c < 200"

definition sample_response :: "MessageCmdType \<Rightarrow> i32 \<Rightarrow> i32 \<Rightarrow> DeviceConfigType \<Rightarrow> response" where
  "sample_response cmd num announced config =
     \<lparr>rs_cmd = cmd, rs_loads = True, rs_error = [], rs_num = num, rs_sum_num = announced, rs_config_type = config,
      rs_result = Result_OK, rs_reason = []\<rparr>"

definition handle_all ::
    "(int \<Rightarrow> bool) \<Rightarrow> (int \<Rightarrow> bool) \<Rightarrow> input list \<Rightarrow> proxy \<Rightarrow> proxy \<times> event list" where
  "handle_all success info is p =
     fold (\<lambda>i (p, evs). (fst (handle success info i p), evs @ snd (handle success info i p))) is (p, [])"

fun allowed_all ::
    "(int \<Rightarrow> bool) \<Rightarrow> (int \<Rightarrow> bool) \<Rightarrow> (input \<Rightarrow> proxy \<Rightarrow> bool) \<Rightarrow> input list \<Rightarrow> proxy \<Rightarrow> bool" where
  "allowed_all success info allowed [] p = True"
| "allowed_all success info allowed (i # is) p =
     (enabled i p \<and> allowed i p \<and> allowed_all success info allowed is (fst (handle success info i p)))"

lemma handle_all_fold:
  "fold (\<lambda>i (p, evs). (fst (handle success info i p), evs @ snd (handle success info i p))) is (p, evs)
   = (fst (handle_all success info is p), evs @ snd (handle_all success info is p))"
proof (induction "is" arbitrary: p evs)
  case Nil
  then show ?case by (simp add: handle_all_def)
next
  case (Cons i "is")
  show ?case
    using Cons [of "fst (handle success info i p)" "evs @ snd (handle success info i p)"]
      Cons [of "fst (handle success info i p)" "snd (handle success info i p)"]
    by (simp add: handle_all_def)
qed

lemma handle_all_simps [simp]:
  "handle_all success info [] p = (p, [])"
  "fst (handle_all success info (i # is) p) = fst (handle_all success info is (fst (handle success info i p)))"
  "snd (handle_all success info (i # is) p) =
     snd (handle success info i p) @ snd (handle_all success info is (fst (handle success info i p)))"
  using handle_all_fold [of success info "is" "fst (handle success info i p)" "snd (handle success info i p)"]
  by (simp_all add: handle_all_def)

lemma run_all:
  assumes "run success info allowed m rcb p q evs" "allowed_all success info allowed is q"
  shows "run success info allowed m rcb p (fst (handle_all success info is q)) (evs @ snd (handle_all success info is q))"
  using assms
proof (induction "is" arbitrary: q evs)
  case (Cons i "is")
  have "run success info allowed m rcb p (fst (handle success info i q)) (evs @ snd (handle success info i q))"
    using Cons.prems by (intro run_step) simp_all
  from Cons.IH [OF this] Cons.prems show ?case by simp
qed simp

text \<open>The proxy of a request sent at time 0 with a result callback, and what happened so far.\<close>

definition sent_proxy :: "proxy_class \<Rightarrow> RequestType \<Rightarrow> i32 \<Rightarrow> DeviceConfigType \<Rightarrow> bool \<Rightarrow> bool \<Rightarrow> proxy" where
  "sent_proxy c t sn config rep res = fst (send 0 (Some (True, [])) True (proxy_new c t sn config rep res))"

lemma run_sent_all:
  assumes "allowed_all success info allowed is (sent_proxy c t sn config rep res)"
  shows "run success info allowed (True, []) True (proxy_new c t sn config rep res)
    (fst (handle_all success info is (sent_proxy c t sn config rep res)))
    ([AddProxy sn, Transmit sn] @ snd (handle_all success info is (sent_proxy c t sn config rep res)))"
proof -
  let ?p = "proxy_new c t sn config rep res"
  have "run success info allowed (True, []) True ?p (sent_proxy c t sn config rep res) [AddProxy sn, Transmit sn]"
    using run_send [of success info allowed "(True, [])" True ?p 0]
    by (simp add: sent_proxy_def send_def proxy_new_def)
  from run_all [OF this assms] show ?thesis .
qed

end
