(* ===== verification/Request_Facts.thy ===== *)
theory Request_Facts
  imports Request_Runs
begin

text \<open>
  What the request proxies guarantee over every run: the completion happens once and is final, no request waits for
  ever, which proxy a request gets, what a reported success means, and where the order of messages or an exception matters.
\<close>

section \<open>The completion happens once and is final\<close>

text \<open>C1. However replies, responses, errors, timers and queued calls interleave, a request completes at most once:
the result callback is called once, the proxy then leaves the platform's table, that is the last thing it does, and the
callbacks of the application are released. Before the completion neither has happened.\<close>

theorem request_completes_once:
  assumes "run success info any_input m rcb (proxy_new c t sn config rep res) q evs"
  shows "if pq_result_flag q
         then closed q \<and> (\<exists>before st err.
                evs = before @ (if rcb then [ResultCallback st err] else []) @ [RemoveProxy sn]
                \<and> list_all (\<lambda>e. \<not> ends_request e) before)
         else pq_rcb q = rcb \<and> list_all (\<lambda>e. \<not> ends_request e) evs"
  using run_once [OF assms] unfolding once_def .

lemma request_completes_once_witness:
  "\<exists>q evs st err. run ok_code info_code any_input (True, []) True (proxy_new C_Plain OneResponse 7 0 True True) q evs
     \<and> pq_result_flag q \<and> filter ends_request evs = [ResultCallback st err, RemoveProxy 7]"
proof -
  let ?is = "[I_Reply 1 True 200, I_Response 2 (Inr 200) (sample_response Cmd_DeviceStatus 0 0 0), I_Async]"
  have ok: "allowed_all ok_code info_code any_input ?is (sent_proxy C_Plain OneResponse 7 0 True True)"
    by code_simp
  have flag: "pq_result_flag (fst (handle_all ok_code info_code ?is (sent_proxy C_Plain OneResponse 7 0 True True)))"
    by code_simp
  note r = run_sent_all [OF ok]
  from request_completes_once [OF r] flag obtain before st err where
    b: "[AddProxy 7, Transmit 7] @ snd (handle_all ok_code info_code ?is (sent_proxy C_Plain OneResponse 7 0 True True))
          = before @ [ResultCallback st err] @ [RemoveProxy 7]"
      "list_all (\<lambda>e. \<not> ends_request e) before"
    by auto
  have "filter ends_request before = []" using b(2) by (induction before) auto
  then have "filter ends_request ([AddProxy 7, Transmit 7] @ snd (handle_all ok_code info_code ?is
      (sent_proxy C_Plain OneResponse 7 0 True True))) = [ResultCallback st err, RemoveProxy 7]"
    unfolding b(1) by simp
  with r flag show ?thesis by blast
qed

section \<open>The proxy of a request\<close>

lemma multi_mask:
  "(multi_response_cmds AND flag64 (cmd_value command) \<noteq> 0) \<longleftrightarrow>
    command \<in> {Cmd_ConfigDownload, Cmd_Catalog, Cmd_RecordInfo, Cmd_PresetQuery, Cmd_CruiseTrackQuery,
      Cmd_CruiseTrackListQuery}"
  by (cases command; hypsubst; code_simp)

lemma silent_mask:
  "(no_response_cmds AND flag64 (control_code c) \<noteq> 0) \<longleftrightarrow>
    c \<in> {DC_PTZCmd, DC_TeleBoot, DC_IFrameCmd, DC_DragZoomIn, DC_DragZoomOut, DC_PtzPreciseCtrl, DC_FormatSDCard,
      DC_TargetTrack}"
  by (cases c; hypsubst; code_simp)

text \<open>The kind of proxy a request gets, for every root, command and control: which requests expect no
response, one, or several, as the bit masks of the factory say it.\<close>

theorem request_proxy_kinds:
  "newRequestProxy root command control =
     (case root of
        Root_Query \<Rightarrow> Some
          (if command = Cmd_ConfigDownload then (C_ConfigDownload, MultipleResponses)
           else if command \<in> {Cmd_Catalog, Cmd_RecordInfo, Cmd_PresetQuery, Cmd_CruiseTrackQuery, Cmd_CruiseTrackListQuery}
             then (C_List, MultipleResponses)
           else (C_Plain, OneResponse))
      | Root_Control \<Rightarrow> Some
          (C_Plain, if command = Cmd_DeviceControl \<and> control \<in> Some ` {DC_PTZCmd, DC_TeleBoot, DC_IFrameCmd,
               DC_DragZoomIn, DC_DragZoomOut, DC_PtzPreciseCtrl, DC_FormatSDCard, DC_TargetTrack}
             then NoResponse else OneResponse)
      | Root_Notify \<Rightarrow> Some (C_Plain, if command = Cmd_Alarm then OneResponse else NoResponse)
      | Root_Response \<Rightarrow> Some (C_Plain, NoResponse)
      | Root_invalid \<Rightarrow> None)"
  by (cases root; cases control) (auto simp: newRequestProxy_def Let_def multi_mask silent_mask)

section \<open>No request is forgotten\<close>

text \<open>
  What an uncompleted request still has to come: the end of its transaction, a queued completion, the timer of its
  class or, for a plain request with a response due, the base timer.
\<close>

definition awaits :: "proxy \<Rightarrow> bool" where
  "awaits p \<longleftrightarrow> pq_result_flag p \<or> pq_inflight p \<or> 0 < pq_pending p \<or>
     (case pq_class p of
        C_Plain \<Rightarrow> pq_timer p \<and> pq_status p = Replied \<and> pq_type p = OneResponse
      | C_List \<Rightarrow> pq_own_timer p
      | C_ConfigDownload \<Rightarrow> pq_own_timer p)"

definition sound_kind :: "proxy \<Rightarrow> bool" where
  "sound_kind p \<longleftrightarrow>
     (if pq_class p = C_Plain then pq_type p \<in> {NoResponse, OneResponse} else pq_type p = MultipleResponses)"

lemma awaits_step:
  assumes "awaits p" "sound_kind p" "cooperative i p"
  shows "awaits (fst (handle success info i p))"
  using assms
  by (cases i; cases "pq_class p")
     (auto simp: proxy_steps awaits_def sound_kind_def on_completed_def on_completed_l_def Let_def
        split: if_splits sum.splits)

lemma run_awaits:
  assumes "run success info cooperative m rcb (proxy_new c t sn config rep res) q evs"
    and "sound_kind (proxy_new c t sn config rep res)"
  shows "awaits q \<and> sound_kind q"
  using assms(1)
proof (induction rule: run.induct)
  case (run_send now)
  then show ?case using assms(2)
    by (cases m) (auto simp: send_def awaits_def sound_kind_def Let_def split: if_splits)
next
  case (run_step q evs i)
  then have "sound_kind (fst (handle success info i q))" by (auto simp: sound_kind_def handle_keeps split: if_splits)
  then show ?case using run_step awaits_step by blast
qed

lemma made_sound: "newRequestProxy root command control = Some (c, t) \<Longrightarrow> sound_kind (proxy_new c t sn config rep res)"
  unfolding newRequestProxy_def Let_def
  by (cases root; cases control) (auto simp: sound_kind_def proxy_new_def split: if_splits)

text \<open>C8. No request waits for ever. In every state a request of the factory can reach while the application's
callback returns and responses have the class its proxy expects, an uncompleted request has something left that
completes it without any answer of the peer: the timeout of its transaction, one of its timers, or a
queued completion.\<close>

theorem request_never_forgotten:
  assumes "newRequestProxy root command control = Some (c, t)" "\<not> success 408"
    and "run success info cooperative m rcb (proxy_new c t sn config rep res) q evs" "\<not> pq_result_flag q"
  shows "\<exists>i \<in> {I_Reply 0 False 408, I_Timer, I_OwnTimer 5001, I_Async}.
    enabled i q \<and> pq_result_flag (fst (handle success info i q))"
proof -
  have "awaits q" "sound_kind q" using run_awaits [OF assms(3) made_sound [OF assms(1)]] by simp_all
  then show ?thesis using assms(2,4)
    by (cases "pq_class q") (auto simp: awaits_def sound_kind_def on_reply_def on_reply_l_def on_timer_def
      on_own_timer_def on_async_def Let_def case_prod_beta)
qed

lemma request_never_forgotten_witness:
  "\<exists>q evs. run ok_code info_code cooperative (True, []) True (proxy_new C_List MultipleResponses 7 0 True True) q evs
     \<and> \<not> pq_result_flag q \<and> (\<exists>i \<in> {I_Reply 0 False 408, I_Timer, I_OwnTimer 5001, I_Async}.
        enabled i q \<and> pq_result_flag (fst (handle ok_code info_code i q)))"
proof -
  let ?is = "[I_Reply 1 True 200, I_Response 2 (Inr 200) (sample_response Cmd_Catalog 1 3 0)]"
  let ?p = "sent_proxy C_List MultipleResponses 7 0 True True"
  have ok: "allowed_all ok_code info_code cooperative ?is ?p" by code_simp
  have flag: "\<not> pq_result_flag (fst (handle_all ok_code info_code ?is ?p))" by code_simp
  have made: "newRequestProxy Root_Query Cmd_Catalog None = Some (C_List, MultipleResponses)" by code_simp
  have "\<not> ok_code 408" by code_simp
  from run_sent_all [OF ok] flag request_never_forgotten [OF made this run_sent_all [OF ok] flag] show ?thesis by blast
qed

section \<open>The order of reply and response\<close>

text \<open>The reply and the response of a request that expects one response may overtake each other. In the expected
order the request is reported as succeeded; when the response arrives before the reply, the reply
overwrites the state and the answered request is reported as merely replied.\<close>

theorem response_before_reply_not_succeeded:
  assumes "success code" "\<not> info code" "known_response (rs_cmd r)" "rs_loads r"
  shows "filter ends_request (snd (handle_all success info
            [I_Reply t1 True code, I_Response t2 (Inr ret) r, I_Async] (sent_proxy C_Plain OneResponse sn config rep res)))
          = [ResultCallback Succeeded [], RemoveProxy sn]
       \<and> filter ends_request (snd (handle_all success info
            [I_Response t1 (Inr ret) r, I_Reply t2 True code, I_Async] (sent_proxy C_Plain OneResponse sn config rep res)))
          = [ResultCallback Replied [], RemoveProxy sn]"
  using assms
  by (cases rep; cases res)
     (simp_all add: sent_proxy_def send_def proxy_new_def proxy_steps on_completed_def on_completed_l_def Let_def)

lemma response_before_reply_not_succeeded_witness:
  "filter ends_request (snd (handle_all ok_code info_code
     [I_Response 1 (Inr 200) (sample_response Cmd_DeviceInfo 0 0 0), I_Reply 2 True 200, I_Async]
     (sent_proxy C_Plain OneResponse 7 0 True True))) = [ResultCallback Replied [], RemoveProxy 7]"
proof -
  have "ok_code 200" "\<not> info_code 200" "known_response (rs_cmd (sample_response Cmd_DeviceInfo 0 0 0))"
    "rs_loads (sample_response Cmd_DeviceInfo 0 0 0)" by code_simp+
  from response_before_reply_not_succeeded [where success = ok_code and info = info_code and code = 200, OF this]
  show ?thesis by blast
qed

section \<open>What a reported success means\<close>

definition earned :: "(int \<Rightarrow> bool) \<Rightarrow> proxy \<Rightarrow> bool" where
  "earned success p \<longleftrightarrow> (pq_status p = Succeeded \<longrightarrow>
     (\<exists>r \<in> set (pq_responses p). rs_loads r) \<or> (pq_type p = NoResponse \<and> success (pq_reply_code p)))"

lemma earned_step:
  assumes "earned success p"
  shows "earned success (fst (handle success info i p))
    \<and> (\<forall>err. ResultCallback Succeeded err \<in> set (snd (handle success info i p)) \<longrightarrow>
        pq_status (fst (handle success info i p)) = Succeeded)"
  using assms
  by (cases i; cases "pq_class p")
     (auto simp: proxy_steps earned_def on_completed_def on_completed_l_def Let_def split: if_splits sum.splits)

lemma responses_kept: "set (pq_responses p) \<subseteq> set (pq_responses (fst (handle success info i p)))"
  by (cases i; cases "pq_class p")
     (auto simp: proxy_steps on_completed_def on_completed_l_def Let_def split: if_splits sum.splits)

text \<open>C15. A request is reported as succeeded only when a response of the peer was received and loaded, or, for a
request without response, after a reply with a success code.\<close>

theorem success_is_earned:
  assumes "run success info any_input m rcb (proxy_new c t sn config rep res) q evs"
    and "ResultCallback Succeeded err \<in> set evs"
  shows "(\<exists>r \<in> set (pq_responses q). rs_loads r) \<or>
    (t = NoResponse \<and> (\<exists>p before rest. evs = before @ rest \<and> success (pq_reply_code p)
       \<and> run success info any_input m rcb (proxy_new c t sn config rep res) p before))"
proof -
  have "earned success q \<and> (ResultCallback Succeeded err \<in> set evs \<longrightarrow>
    ((\<exists>r \<in> set (pq_responses q). rs_loads r) \<or>
     (t = NoResponse \<and> (\<exists>p before rest. evs = before @ rest \<and> success (pq_reply_code p)
       \<and> run success info any_input m rcb (proxy_new c t sn config rep res) p before))))"
    using assms(1)
  proof (induction rule: run.induct)
    case (run_send now)
    then show ?case
      by (cases m) (simp add: send_def earned_def proxy_new_def on_completed_def on_completed_l_def Let_def)
  next
    case (run_step q evs i)
    let ?q = "fst (handle success info i q)" and ?e = "snd (handle success info i q)"
    have r: "run success info any_input m rcb (proxy_new c t sn config rep res) ?q (evs @ ?e)"
      using run_step by (intro run.run_step) simp_all
    then have t: "pq_type ?q = t" using run_keeps by (fastforce simp: proxy_new_def)
    note step = earned_step [of success q info i]
    show ?case
    proof (cases "ResultCallback Succeeded err \<in> set evs")
      case True
      then have "(\<exists>r \<in> set (pq_responses q). rs_loads r) \<or> (t = NoResponse \<and> (\<exists>p before rest. evs = before @ rest
         \<and> success (pq_reply_code p) \<and> run success info any_input m rcb (proxy_new c t sn config rep res) p before))"
        using run_step by blast
      then show ?thesis using step run_step responses_kept [of q success info i] append_assoc by blast
    next
      case False
      have "success (pq_reply_code ?q) \<Longrightarrow> \<exists>p before rest. evs @ ?e = before @ rest \<and> success (pq_reply_code p)
         \<and> run success info any_input m rcb (proxy_new c t sn config rep res) p before"
        using r by (intro exI [of _ ?q] exI [of _ "evs @ ?e"] exI [of _ "[]"]) simp
      with False show ?thesis using step run_step t by (auto simp: earned_def)
    qed
  qed
  then show ?thesis using assms(2) by blast
qed

lemma success_is_earned_witness:
  "\<exists>q evs. run ok_code info_code any_input (True, []) True (proxy_new C_Plain NoResponse 7 0 True True) q evs
     \<and> ResultCallback Succeeded [] \<in> set evs \<and> pq_responses q = []
     \<and> (\<exists>p before rest. evs = before @ rest \<and> ok_code (pq_reply_code p)
       \<and> run ok_code info_code any_input (True, []) True (proxy_new C_Plain NoResponse 7 0 True True) p before)"
proof -
  let ?is = "[I_Reply 1 True 200]" and ?p = "sent_proxy C_Plain NoResponse 7 0 True True"
  have ok: "allowed_all ok_code info_code any_input ?is ?p" by code_simp
  have none: "pq_responses (fst (handle_all ok_code info_code ?is ?p)) = []" by code_simp
  have "snd (handle_all ok_code info_code ?is ?p) = [ReplyCallback 200, ResultCallback Succeeded [], RemoveProxy 7]"
    by code_simp
  then have here: "ResultCallback Succeeded [] \<in> set ([AddProxy 7, Transmit 7] @ snd (handle_all ok_code info_code ?is ?p))"
    by simp
  note r = run_sent_all [OF ok]
  have "\<not> (\<exists>r \<in> set (pq_responses (fst (handle_all ok_code info_code ?is ?p))). rs_loads r)" by (simp only: none) simp
  with success_is_earned [OF r here] r here none show ?thesis by blast
qed

section \<open>A callback that throws\<close>

text \<open>The responses that complete a request.\<close>

definition completes_with :: "response \<Rightarrow> proxy \<Rightarrow> bool" where
  "completes_with r p \<longleftrightarrow> known_response (rs_cmd r) \<and> rs_loads r \<and>
     (case pq_class p of
        C_Plain \<Rightarrow> pq_type p = OneResponse
      | C_List \<Rightarrow> is_list_response (rs_cmd r) \<and> sint (rs_sum_num r) \<le> sint (pq_recv_num p + rs_num r)
      | C_ConfigDownload \<Rightarrow> rs_cmd r = Cmd_ConfigDownload \<and> rs_result r = Result_OK
          \<and> config_or (pq_recv_config p) (rs_config_type r) = pq_request_config p)"

text \<open>When the response callback throws on the response that completes a request, the request is stranded: it is
not completed, and once its transaction has ended no timer or queued call is left that would complete it.\<close>

theorem throwing_callback_strands_request:
  assumes "completes_with r p" "pq_response_callback p" "\<not> pq_result_flag p" "\<not> pq_inflight p" "pq_pending p = 0"
    and "pq_class p = C_Plain \<longrightarrow> \<not> pq_own_timer p"
    and "q = fst (handle success info (I_Response now (Inl what) r) p)"
  shows "\<not> pq_result_flag q \<and> (\<forall>i. enabled i q \<longrightarrow> (\<exists>now cb r. i = I_Response now cb r))"
proof -
  have "\<not> pq_result_flag q \<and> \<not> pq_inflight q \<and> pq_pending q = 0 \<and> \<not> pq_timer q \<and> \<not> pq_own_timer q"
    using assms by (cases "pq_class p") (auto simp: proxy_steps completes_with_def Let_def)
  then show ?thesis by (auto elim!: enabled.elims)
qed

lemma throwing_callback_strands_request_witness:
  "\<exists>q. \<not> pq_result_flag q \<and> pq_status q = Succeeded \<and> (\<forall>i. enabled i q \<longrightarrow> (\<exists>now cb r. i = I_Response now cb r))"
proof -
  let ?p = "fst (handle ok_code info_code (I_Reply 1 True 200) (sent_proxy C_ConfigDownload MultipleResponses 7 1 True True))"
  let ?r = "sample_response Cmd_ConfigDownload 0 0 1"
  let ?q = "fst (handle ok_code info_code (I_Response 2 (Inl ''bad'') ?r) ?p)"
  have "completes_with ?r ?p" "pq_response_callback ?p" "\<not> pq_result_flag ?p" "\<not> pq_inflight ?p" "pq_pending ?p = 0"
    "pq_class ?p = C_Plain \<longrightarrow> \<not> pq_own_timer ?p" by code_simp+
  from throwing_callback_strands_request [OF this, of ?q ok_code info_code 2 "''bad''"]
  have "\<not> pq_result_flag ?q \<and> (\<forall>i. enabled i ?q \<longrightarrow> (\<exists>now cb r. i = I_Response now cb r))" by simp
  moreover have "pq_status ?q = Succeeded" by code_simp
  ultimately show ?thesis by blast
qed

end
