(* ===== verification/Request_Lists.thy ===== *)
theory Request_Lists
  imports Request_Runs
begin

text \<open>
  The multi-part requests: how the packets of a list response and of a configuration download complete the request,
  against a reference that counts in mathematical integers.
\<close>

section \<open>Multi-part responses\<close>

text \<open>
  What a list request hands to the application: each packet with whether it is the last, until the announced number of
  items is reached; \<open>acc\<close> is the number received before.
\<close>

fun delivered :: "int \<Rightarrow> int \<Rightarrow> response list \<Rightarrow> (response \<times> bool) list" where
  "delivered announced acc [] = []"
| "delivered announced acc (r # rs) =
     (if announced \<le> acc + sint (rs_num r) then [(r, True)]
      else (r, False) # delivered announced (acc + sint (rs_num r)) rs)"

definition packet_total :: "response list \<Rightarrow> int" where
  "packet_total rs = (\<Sum>r\<leftarrow>rs. sint (rs_num r))"

definition list_packet :: "i32 \<Rightarrow> response \<Rightarrow> bool" where
  "list_packet announced r \<longleftrightarrow>
     known_response (rs_cmd r) \<and> is_list_response (rs_cmd r) \<and> rs_loads r \<and> rs_sum_num r = announced
     \<and> 0 \<le> sint (rs_num r)"

definition respond_all :: "u64 \<Rightarrow> int \<Rightarrow> response list \<Rightarrow> input list" where
  "respond_all now code rs = map (I_Response now (Inr code)) rs"

lemma list_packet_step:
  assumes "pq_class p = C_List" "list_packet announced r"
  shows "handle success info (I_Response now (Inr code) r) p =
    (let n = pq_recv_num p + rs_num r;
         p = p\<lparr>pq_timer := False, pq_responses := pq_responses p @ [r],
            pq_response_begin_time := (if pq_response_begin_time p = 0 then now else pq_response_begin_time p),
            pq_recv_num := n, pq_sum_num := announced\<rparr>;
         cb = (if pq_response_callback p then [ResponseCallback r (sint announced \<le> sint n)] else [])
     in if sint announced \<le> sint n
        then (let q = on_completed (p\<lparr>pq_own_timer := False, pq_response_end_time := now, pq_status := Succeeded\<rparr>)
              in (fst q, cb @ snd q))
        else (p, cb))"
  using assms
  by (simp add: list_packet_def on_response_def on_response_list_def call_response_def Let_def split: prod.split)

text \<open>Once a list request is complete, further packets are swallowed.\<close>

lemma closed_all: "closed p \<Longrightarrow> closed (fst (handle_all success info is p)) \<and> snd (handle_all success info is p) = []"
  by (induction "is" arbitrary: p) (simp_all add: step_closed)

lemma sint_add_small:
  fixes a b :: i32
  assumes "0 \<le> sint a" "0 \<le> sint b" "sint a + sint b < 2 ^ 31"
  shows "sint (a + b) = sint a + sint b"
  using assms by (simp add: sint_word_ariths signed_take_bit_int_eq_self)

lemma packet_total_simps [simp]:
  "packet_total [] = 0" "packet_total (r # rs) = sint (rs_num r) + packet_total rs"
  by (simp_all add: packet_total_def)

lemma packet_total_nonneg: "list_all (list_packet announced) rs \<Longrightarrow> 0 \<le> packet_total rs"
  by (induction rs) (simp_all add: list_packet_def)

lemma list_packets_aux:
  assumes "pq_class p = C_List" "\<not> pq_result_flag p" "pq_response_callback p" "pq_sn p = sn" "pq_rcb p = rcb"
    "list_all (list_packet announced) rs" "0 \<le> sint (pq_recv_num p)"
    "sint (pq_recv_num p) + packet_total rs < 2 ^ 31"
  shows "(pq_result_flag (fst (handle_all success info (respond_all now code rs) p)) \<longleftrightarrow>
      rs \<noteq> [] \<and> sint announced \<le> sint (pq_recv_num p) + packet_total rs)
    \<and> snd (handle_all success info (respond_all now code rs) p) =
      map (\<lambda>(r, last). ResponseCallback r last) (delivered (sint announced) (sint (pq_recv_num p)) rs)
      @ (if rs \<noteq> [] \<and> sint announced \<le> sint (pq_recv_num p) + packet_total rs
         then (if rcb then [ResultCallback Succeeded (pq_error p)] else []) @ [RemoveProxy sn] else [])"
  using assms
proof (induction rs arbitrary: p)
  case Nil
  then show ?case by (simp add: respond_all_def)
next
  case (Cons r rs)
  let ?i = "I_Response now (Inr code) r" and ?is = "respond_all now code rs"
  let ?q = "fst (handle success info ?i p)"
  have r: "list_packet announced r" "0 \<le> sint (rs_num r)" "list_all (list_packet announced) rs"
    using Cons.prems by simp_all (simp add: list_packet_def)
  note rest = packet_total_nonneg [OF r(3)]
  have n: "sint (pq_recv_num p + rs_num r) = sint (pq_recv_num p) + sint (rs_num r)"
    using Cons.prems r rest by (intro sint_add_small) simp_all
  note step = list_packet_step [OF Cons.prems(1) r(1), of success info now code]
  show ?case
  proof (cases "sint announced \<le> sint (pq_recv_num p) + sint (rs_num r)")
    case True
    then have "closed ?q" "snd (handle success info ?i p) = ResponseCallback r True
        # (if rcb then [ResultCallback Succeeded (pq_error p)] else []) @ [RemoveProxy sn]"
      using Cons.prems by (simp_all add: step n closed_def on_completed_def on_completed_l_def Let_def del: handle.simps)
    then show ?thesis using True rest closed_all [of ?q success info ?is]
      by (simp add: respond_all_def closed_def del: handle.simps)
  next
    case False
    then have q: "pq_class ?q = C_List" "\<not> pq_result_flag ?q" "pq_response_callback ?q" "pq_sn ?q = sn" "pq_rcb ?q = rcb"
      "pq_recv_num ?q = pq_recv_num p + rs_num r" "pq_error ?q = pq_error p"
      "snd (handle success info ?i p) = [ResponseCallback r False]"
      using Cons.prems by (simp_all add: step n Let_def del: handle.simps)
    have "rs = [] \<Longrightarrow> \<not> sint announced \<le> sint (pq_recv_num p) + packet_total (r # rs)" using False by simp
    then show ?thesis using False Cons.IH [of ?q] Cons.prems q r rest n
      by (auto simp add: respond_all_def add.assoc simp del: handle.simps)
  qed
qed

text \<open>C13. A list request hands every packet to the application in order, marks as last exactly the packet with which
the announced number of items is reached, reports success there, and drops what comes later: the handlers' 32-bit
counters refine the count in mathematical integers while the total stays below 2^31.\<close>

theorem list_packets_delivered:
  assumes "pq_class p = C_List" "\<not> pq_result_flag p" "pq_response_callback p" "pq_recv_num p = 0"
    and "list_all (list_packet announced) rs" "packet_total rs < 2 ^ 31"
  shows "snd (handle_all success info (respond_all now code rs) p) =
      map (\<lambda>(r, last). ResponseCallback r last) (delivered (sint announced) 0 rs)
      @ (if rs \<noteq> [] \<and> sint announced \<le> packet_total rs
         then (if pq_rcb p then [ResultCallback Succeeded (pq_error p)] else []) @ [RemoveProxy (pq_sn p)] else [])"
  using list_packets_aux [OF assms(1,2,3) refl refl assms(5)] assms(4,6) by simp

lemma list_packets_delivered_witness:
  "snd (handle_all ok_code info_code
     (respond_all 5 200 [sample_response Cmd_Catalog 2 3 0, sample_response Cmd_Catalog 1 3 0,
        sample_response Cmd_Catalog 1 3 0])
     (sent_proxy C_List MultipleResponses 7 0 True True))
   = [ResponseCallback (sample_response Cmd_Catalog 2 3 0) False, ResponseCallback (sample_response Cmd_Catalog 1 3 0) True,
      ResultCallback Succeeded [], RemoveProxy 7]"
proof -
  let ?p = "sent_proxy C_List MultipleResponses 7 0 True True"
  let ?rs = "[sample_response Cmd_Catalog 2 3 0, sample_response Cmd_Catalog 1 3 0, sample_response Cmd_Catalog 1 3 0]"
  have "pq_class ?p = C_List" "\<not> pq_result_flag ?p" "pq_response_callback ?p" "pq_recv_num ?p = 0"
    "list_all (list_packet 3) ?rs" "packet_total ?rs < 2 ^ 31" by code_simp+
  note l = list_packets_delivered [OF this, of ok_code info_code 5 200]
  have "map (\<lambda>(r, last). ResponseCallback r last) (delivered (sint (3 :: i32)) 0 ?rs)
      @ (if ?rs \<noteq> [] \<and> sint (3 :: i32) \<le> packet_total ?rs
         then (if pq_rcb ?p then [ResultCallback Succeeded (pq_error ?p)] else []) @ [RemoveProxy (pq_sn ?p)] else [])
    = [ResponseCallback (sample_response Cmd_Catalog 2 3 0) False, ResponseCallback (sample_response Cmd_Catalog 1 3 0) True,
       ResultCallback Succeeded [], RemoveProxy 7]" by code_simp
  with l show ?thesis by (simp only:)
qed

text \<open>A list request is complete exactly when a packet has come and the items received reach the announced
number; so a response that announces no number (or 0) completes it with the first packet.\<close>

theorem list_request_completes:
  assumes "pq_class p = C_List" "\<not> pq_result_flag p" "pq_response_callback p" "pq_recv_num p = 0"
    and "list_all (list_packet announced) rs" "packet_total rs < 2 ^ 31"
  shows "pq_result_flag (fst (handle_all success info (respond_all now code rs) p))
    \<longleftrightarrow> rs \<noteq> [] \<and> sint announced \<le> packet_total rs"
  using list_packets_aux [OF assms(1,2,3) refl refl assms(5)] assms(4,6) by simp

lemma list_request_completes_witness:
  "pq_result_flag (fst (handle_all ok_code info_code (respond_all 5 200 [sample_response Cmd_PresetQuery 2 0 0])
     (sent_proxy C_List MultipleResponses 7 0 True True)))"
proof -
  let ?p = "sent_proxy C_List MultipleResponses 7 0 True True" and ?rs = "[sample_response Cmd_PresetQuery 2 0 0]"
  have "pq_class ?p = C_List" "\<not> pq_result_flag ?p" "pq_response_callback ?p" "pq_recv_num ?p = 0"
    "list_all (list_packet 0) ?rs" "packet_total ?rs < 2 ^ 31" by code_simp+
  from list_request_completes [OF this, of ok_code info_code 5 200] \<open>packet_total ?rs < 2 ^ 31\<close>
  show ?thesis by (simp add: sample_response_def)
qed

section \<open>Configuration downloads\<close>

definition config_packet :: "response \<Rightarrow> bool" where
  "config_packet r \<longleftrightarrow> rs_cmd r = Cmd_ConfigDownload \<and> rs_loads r \<and> rs_result r = Result_OK"

definition received_configs :: "response list \<Rightarrow> DeviceConfigType" where
  "received_configs rs = foldl (\<lambda>acc r. config_or acc (rs_config_type r)) 0 rs"

lemma config_packets_aux:
  assumes "pq_class p = C_ConfigDownload" "\<not> pq_result_flag p" "list_all config_packet rs"
  shows "pq_result_flag (fst (handle_all success info (respond_all now code rs) p)) \<longleftrightarrow>
    (\<exists>n \<in> {1..length rs}. foldl (\<lambda>acc r. config_or acc (rs_config_type r)) (pq_recv_config p) (take n rs) = pq_request_config p)"
  using assms
proof (induction rs arbitrary: p)
  case Nil
  then show ?case by (simp add: respond_all_def)
next
  case (Cons r rs)
  let ?i = "I_Response now (Inr code) r" and ?is = "respond_all now code rs"
  let ?q = "fst (handle success info ?i p)" and ?new = "config_or (pq_recv_config p) (rs_config_type r)"
  let ?f = "foldl (\<lambda>acc r. config_or acc (rs_config_type r))"
  have split: "(\<exists>n \<in> {1..length (r # rs)}. ?f (pq_recv_config p) (take n (r # rs)) = pq_request_config p) \<longleftrightarrow>
      ?new = pq_request_config p \<or> (\<exists>n \<in> {1..length rs}. ?f ?new (take n rs) = pq_request_config p)"
    (is "?L \<longleftrightarrow> ?R")
  proof
    assume ?L
    then obtain n where n: "n \<in> {1..length (r # rs)}" "?f (pq_recv_config p) (take n (r # rs)) = pq_request_config p"
      by blast
    then show ?R by (cases n; cases "n = 1") auto
  next
    assume ?R
    then show ?L
    proof
      assume "?new = pq_request_config p"
      then show ?L by (intro bexI [of _ 1]) simp_all
    next
      assume "\<exists>n \<in> {1..length rs}. ?f ?new (take n rs) = pq_request_config p"
      then obtain n where "n \<in> {1..length rs}" "?f ?new (take n rs) = pq_request_config p" by blast
      then show ?L by (intro bexI [of _ "Suc n"]) simp_all
    qed
  qed
  have r: "known_response (rs_cmd r)" "rs_cmd r = Cmd_ConfigDownload" "rs_loads r" "rs_result r = Result_OK"
    "list_all config_packet rs"
    using Cons.prems by simp_all (simp_all add: config_packet_def known_response_def)
  show ?case
  proof (cases "?new = pq_request_config p")
    case True
    then have "closed ?q" using Cons.prems r
      by (cases "pq_response_callback p")
         (simp_all add: on_response_def on_response_config_def call_response_def closed_def on_completed_def
            on_completed_l_def Let_def split: prod.split)
    then show ?thesis using True split closed_all [of ?q success info ?is]
      by (simp add: respond_all_def closed_def del: handle.simps)
  next
    case False
    then have q: "pq_class ?q = C_ConfigDownload" "\<not> pq_result_flag ?q" "pq_recv_config ?q = ?new"
      "pq_request_config ?q = pq_request_config p"
      using Cons.prems r
      by (cases "pq_response_callback p";
          simp add: on_response_def on_response_config_def call_response_def Let_def split: prod.split)+
    show ?thesis using False Cons.IH [OF q(1,2) r(5)] q(3,4) split
      by (simp add: respond_all_def del: handle.simps)
  qed
qed

text \<open>A configuration download is complete exactly when, after some packet, the union of the received
configuration types is the requested one.\<close>

theorem config_request_completes:
  assumes "pq_class p = C_ConfigDownload" "\<not> pq_result_flag p" "pq_recv_config p = 0" "list_all config_packet rs"
  shows "pq_result_flag (fst (handle_all success info (respond_all now code rs) p)) \<longleftrightarrow>
    (\<exists>n \<in> {1..length rs}. received_configs (take n rs) = pq_request_config p)"
  using config_packets_aux [OF assms(1,2,4)] assms(3) by (simp add: received_configs_def)

lemma config_request_completes_witness:
  "pq_result_flag (fst (handle_all ok_code info_code
     (respond_all 5 200 [sample_response Cmd_ConfigDownload 0 0 1, sample_response Cmd_ConfigDownload 0 0 2])
     (sent_proxy C_ConfigDownload MultipleResponses 7 3 True True)))"
proof -
  let ?p = "sent_proxy C_ConfigDownload MultipleResponses 7 3 True True"
  let ?rs = "[sample_response Cmd_ConfigDownload 0 0 1, sample_response Cmd_ConfigDownload 0 0 2]"
  have p: "pq_class ?p = C_ConfigDownload" "\<not> pq_result_flag ?p" "pq_recv_config ?p = 0" "list_all config_packet ?rs"
    by code_simp+
  have "received_configs (take 2 ?rs) = pq_request_config ?p" by code_simp
  moreover have "2 \<in> {1..length ?rs}" by simp
  ultimately show ?thesis using config_request_completes [OF p, of ok_code info_code 5 200] by blast
qed

text \<open>A device that answers a configuration download with a type that was not asked for makes the request
wait for its timer: once an unrequested type is recorded, no later packet completes it.\<close>

theorem unrequested_config_never_completes:
  assumes "pq_class p = C_ConfigDownload" "\<not> pq_result_flag p" "list_all config_packet rs"
    and "config_and (pq_recv_config p) (NOT (pq_request_config p)) \<noteq> 0"
  shows "\<not> pq_result_flag (fst (handle_all success info (respond_all now code rs) p))"
proof -
  let ?f = "foldl (\<lambda>acc r. config_or acc (rs_config_type r))"
  have keep: "acc AND NOT (pq_request_config p) \<noteq> 0 \<Longrightarrow> ?f acc rs' \<noteq> pq_request_config p" for acc rs'
  proof (induction rs' arbitrary: acc)
    case (Cons r rs')
    have "(acc OR rs_config_type r) AND NOT (pq_request_config p) \<noteq> 0"
      using Cons.prems by (simp add: bit.conj_disj_distrib2 or_eq_0_iff)
    then show ?case using Cons.IH by (simp add: config_or_def)
  qed auto
  have "pq_recv_config p AND NOT (pq_request_config p) \<noteq> 0" using assms(4) by (simp add: config_and_def)
  from keep [OF this] show ?thesis unfolding config_packets_aux [OF assms(1-3)] by blast
qed

lemma unrequested_config_never_completes_witness:
  "\<not> pq_result_flag (fst (handle_all ok_code info_code (respond_all 5 200 [sample_response Cmd_ConfigDownload 0 0 1])
     (fst (handle ok_code info_code (I_Response 4 (Inr 200) (sample_response Cmd_ConfigDownload 0 0 4))
       (sent_proxy C_ConfigDownload MultipleResponses 7 1 True True)))))"
proof -
  let ?p = "fst (handle ok_code info_code (I_Response 4 (Inr 200) (sample_response Cmd_ConfigDownload 0 0 4))
       (sent_proxy C_ConfigDownload MultipleResponses 7 1 True True))"
  let ?rs = "[sample_response Cmd_ConfigDownload 0 0 1]"
  have "pq_class ?p = C_ConfigDownload" "\<not> pq_result_flag ?p" "list_all config_packet ?rs"
    "config_and (pq_recv_config ?p) (NOT (pq_request_config ?p)) \<noteq> 0" by code_simp+
  from unrequested_config_never_completes [OF this] show ?thesis .
qed

end
