(* ===== verification/Request_Table.thy ===== *)
theory Request_Table
  imports Request_Runs
begin

text \<open>
  The part of a platform that follows its requests (\<open>src/platform_helper.cpp\<close>): the serial numbers, the table
  of pending requests, the routing of responses, and the system of all the requests of one platform over that
  table. A request object is known by its index in the order of construction, as the program knows it by its
  pointer.
\<close>

section \<open>Serial numbers\<close>

definition INT32_MAX :: i32 where
  "INT32_MAX = 0x7FFFFFFF"

text \<open>\<open>get_new_sn\<close>: the number handed out and the next one.\<close>

definition get_new_sn :: "i32 \<Rightarrow> i32 \<times> i32" where
  "get_new_sn old_value = (old_value, if old_value = INT32_MAX then 1 else old_value + 1)"

text \<open>The n-th number handed out, counted from 0, when the first one is 1.\<close>

fun sn_after :: "nat \<Rightarrow> i32" where
  "sn_after 0 = 1"
| "sn_after (Suc n) = snd (get_new_sn (sn_after n))"

lemma sn_after_closed: "uint (sn_after n) = int (n mod (2 ^ 31 - 1)) + 1"
proof (induction n)
  case (Suc n)
  let ?m = "n mod 2147483647"
  have IH: "uint (sn_after n) = int ?m + 1" using Suc by simp
  have bound: "?m < 2147483647" by simp
  show ?case
  proof (cases "sn_after n = INT32_MAX")
    case True
    then have "Suc ?m = 2147483647" using IH by (simp add: INT32_MAX_def)
    then have "Suc n mod 2147483647 = 0" by (simp add: mod_Suc)
    then show ?thesis using True by (simp add: get_new_sn_def)
  next
    case False
    have "uint (sn_after n) \<noteq> uint INT32_MAX" using False by (metis word_uint_eq_iff)
    then have ne: "Suc ?m \<noteq> 2147483647" using IH by (simp add: INT32_MAX_def)
    have "uint (sn_after n + 1) = uint (sn_after n) + 1"
      using IH bound by (simp add: uint_word_ariths)
    then show ?thesis using False IH ne by (simp add: get_new_sn_def mod_Suc)
  qed
qed simp

lemma sn_after_nonzero: "sn_after n \<noteq> 0"
proof
  assume "sn_after n = 0"
  then show False using sn_after_closed [of n] by simp
qed

lemma sn_after_inj:
  assumes "sn_after m = sn_after n" "m < 2 ^ 31 - 1" "n < 2 ^ 31 - 1"
  shows "m = n"
proof -
  have "int (m mod (2 ^ 31 - 1)) + 1 = int (n mod (2 ^ 31 - 1)) + 1"
    unfolding sn_after_closed [symmetric] assms(1) ..
  then have "m mod (2 ^ 31 - 1) = n mod (2 ^ 31 - 1)" by linarith
  then show ?thesis using assms(2,3) by (simp only: mod_less)
qed

section \<open>The table\<close>

text \<open>What the rest of the platform uses of a table of pending requests.\<close>

locale request_registry =
  fixes add :: "i32 \<Rightarrow> 'p \<Rightarrow> 't \<Rightarrow> 't" and remove :: "i32 \<Rightarrow> 't \<Rightarrow> 't" and find :: "i32 \<Rightarrow> 't \<Rightarrow> 'p option"
  assumes find_add: "find sn (add sn' p t) = (if sn = sn' then Some p else find sn t)"
    and find_remove: "find sn (remove sn' t) = (if sn = sn' then None else find sn t)"
begin

lemma find_add_same [simp]: "find sn (add sn p t) = Some p"
  by (simp add: find_add)

lemma find_add_other: "sn \<noteq> sn' \<Longrightarrow> find sn (add sn' p t) = find sn t"
  by (simp add: find_add)

lemma find_remove_other: "sn \<noteq> sn' \<Longrightarrow> find sn (remove sn' t) = find sn t"
  by (simp add: find_remove)

lemma remove_add: "find sn' (remove sn (add sn p t)) = find sn' (remove sn t)"
  by (simp add: find_add find_remove)

end

text \<open>\<open>request_map_\<close>, an \<open>unordered_map\<close> from numbers to proxies.\<close>

definition add_request_proxy :: "i32 \<Rightarrow> 'p \<Rightarrow> (i32 \<rightharpoonup> 'p) \<Rightarrow> (i32 \<rightharpoonup> 'p)" where
  "add_request_proxy sn proxy request_map = request_map(sn \<mapsto> proxy)"

definition remove_request_proxy :: "i32 \<Rightarrow> (i32 \<rightharpoonup> 'p) \<Rightarrow> (i32 \<rightharpoonup> 'p)" where
  "remove_request_proxy sn request_map = request_map(sn := None)"

definition find_request_proxy :: "i32 \<Rightarrow> (i32 \<rightharpoonup> 'p) \<Rightarrow> 'p option" where
  "find_request_proxy sn request_map = request_map sn"

interpretation table: request_registry add_request_proxy remove_request_proxy find_request_proxy
  by unfold_locales (simp_all add: add_request_proxy_def remove_request_proxy_def find_request_proxy_def)

section \<open>The system\<close>

record system =
  sy_sn :: i32 \<comment> \<open>\<open>platform_sn_\<close>\<close>
  sy_map :: "i32 \<rightharpoonup> nat" \<comment> \<open>\<open>request_map_\<close>\<close>
  sy_proxies :: "proxy list" \<comment> \<open>the request objects\<close>

definition system_new :: system where
  "system_new = \<lparr>sy_sn = 1, sy_map = (\<lambda>sn. None), sy_proxies = []\<rparr>"

text \<open>The constructor takes a new number when it is given 0.\<close>

definition create ::
    "proxy_class \<Rightarrow> RequestType \<Rightarrow> i32 \<Rightarrow> DeviceConfigType \<Rightarrow> bool \<Rightarrow> bool \<Rightarrow> system \<Rightarrow> system" where
  "create c t sn config rep res s =
     (let (request_sn, next_sn) = (if sn = 0 then get_new_sn (sy_sn s) else (sn, sy_sn s))
      in s\<lparr>sy_sn := next_sn, sy_proxies := sy_proxies s @ [proxy_new c t request_sn config rep res]\<rparr>)"

text \<open>The calls a proxy makes on the platform's table.\<close>

fun apply_event :: "nat \<Rightarrow> event \<Rightarrow> (i32 \<rightharpoonup> nat) \<Rightarrow> (i32 \<rightharpoonup> nat)" where
  "apply_event k (AddProxy sn) m = add_request_proxy sn k m"
| "apply_event k (RemoveProxy sn) m = remove_request_proxy sn m"
| "apply_event k e m = m"

definition run_on :: "nat \<Rightarrow> (proxy \<Rightarrow> proxy \<times> event list) \<Rightarrow> system \<Rightarrow> system" where
  "run_on k f s = (case f (sy_proxies s ! k) of (p, evs) \<Rightarrow>
     s\<lparr>sy_proxies := (sy_proxies s)[k := p], sy_map := fold (apply_event k) evs (sy_map s)\<rparr>)"

text \<open>A received response: the proxy it is handed to, or the code 404.\<close>

definition on_response_sn ::
    "u64 \<Rightarrow> string + int \<Rightarrow> i32 \<Rightarrow> response \<Rightarrow> system \<Rightarrow> system \<times> result" where
  "on_response_sn now cb sn r s =
     (case find_request_proxy sn (sy_map s) of
        None \<Rightarrow> (s, Code 404)
      | Some k \<Rightarrow>
          (run_on k (\<lambda>p. case on_response now cb r p of (p', evs, res) \<Rightarrow> (p', evs)) s,
           snd (snd (on_response now cb r (sy_proxies s ! k)))))"

text \<open>
  The runs of a system: objects are made and sent, get the inputs of their transaction and timers, and get the
  responses the table routes to them. An object takes a new number, or the number of a query of the peer, which it answers;
  \<open>foreign\<close> are the numbers taken from the peer so far.
\<close>

inductive system_run :: "(int \<Rightarrow> bool) \<Rightarrow> (int \<Rightarrow> bool) \<Rightarrow> i32 list \<Rightarrow> system \<Rightarrow> bool" for success info where
  sys_new: "system_run success info [] system_new"
| sys_create: "system_run success info foreign s \<Longrightarrow> system_run success info foreign (create c t 0 config rep res s)"
| sys_foreign: "system_run success info foreign s \<Longrightarrow> sn \<noteq> 0
    \<Longrightarrow> system_run success info (sn # foreign) (create c t sn config rep res s)"
| sys_send: "system_run success info foreign s \<Longrightarrow> k < length (sy_proxies s) \<Longrightarrow> \<not> pq_sent (sy_proxies s ! k)
    \<Longrightarrow> system_run success info foreign (run_on k (send now (Some m) rcb) s)"
| sys_input: "system_run success info foreign s \<Longrightarrow> k < length (sy_proxies s) \<Longrightarrow> pq_sent (sy_proxies s ! k)
    \<Longrightarrow> enabled i (sy_proxies s ! k) \<Longrightarrow> (\<And>now cb r. i \<noteq> I_Response now cb r)
    \<Longrightarrow> system_run success info foreign (run_on k (handle success info i) s)"
| sys_response: "system_run success info foreign s \<Longrightarrow> system_run success info foreign (fst (on_response_sn now cb sn r s))"

definition pending :: "proxy \<Rightarrow> bool" where
  "pending p \<longleftrightarrow> pq_sent p \<and> \<not> pq_result_flag p"

text \<open>
  The table only leads to pending objects, under their own number; to an object whose number was never taken from the peer it
  leads exactly while it is pending, and no other object has that number. \<open>n\<close> counts the new numbers taken.
\<close>

definition tracked :: "nat \<Rightarrow> i32 list \<Rightarrow> system \<Rightarrow> bool" where
  "tracked n foreign s \<longleftrightarrow>
     sy_sn s = sn_after n \<and> n \<le> length (sy_proxies s)
   \<and> (\<forall>k < length (sy_proxies s). pq_result_flag (sy_proxies s ! k) \<longrightarrow> closed (sy_proxies s ! k) \<and> pq_sent (sy_proxies s ! k))
   \<and> (\<forall>k < length (sy_proxies s). pq_sn (sy_proxies s ! k) \<in> set foreign \<or> (\<exists>i < n. pq_sn (sy_proxies s ! k) = sn_after i))
   \<and> (\<forall>j < length (sy_proxies s). \<forall>k < length (sy_proxies s).
        pq_sn (sy_proxies s ! j) = pq_sn (sy_proxies s ! k) \<and> pq_sn (sy_proxies s ! k) \<notin> set foreign \<longrightarrow> j = k)
   \<and> (\<forall>sn k. find_request_proxy sn (sy_map s) = Some k \<longrightarrow>
        k < length (sy_proxies s) \<and> pq_sn (sy_proxies s ! k) = sn \<and> pending (sy_proxies s ! k))
   \<and> (\<forall>k < length (sy_proxies s). pending (sy_proxies s ! k) \<and> pq_sn (sy_proxies s ! k) \<notin> set foreign \<longrightarrow>
        find_request_proxy (pq_sn (sy_proxies s ! k)) (sy_map s) = Some k)"

lemma trackedD:
  assumes "tracked n foreign s"
  shows "k < length (sy_proxies s) \<Longrightarrow> pq_result_flag (sy_proxies s ! k) \<Longrightarrow> closed (sy_proxies s ! k) \<and> pq_sent (sy_proxies s ! k)"
    and "k < length (sy_proxies s) \<Longrightarrow> pq_sn (sy_proxies s ! k) \<notin> set foreign \<Longrightarrow> \<exists>i < n. pq_sn (sy_proxies s ! k) = sn_after i"
    and "j < length (sy_proxies s) \<Longrightarrow> k < length (sy_proxies s) \<Longrightarrow> pq_sn (sy_proxies s ! j) = pq_sn (sy_proxies s ! k)
      \<Longrightarrow> pq_sn (sy_proxies s ! k) \<notin> set foreign \<Longrightarrow> j = k"
    and "find_request_proxy sn (sy_map s) = Some k
      \<Longrightarrow> k < length (sy_proxies s) \<and> pq_sn (sy_proxies s ! k) = sn \<and> pending (sy_proxies s ! k)"
    and "k < length (sy_proxies s) \<Longrightarrow> pending (sy_proxies s ! k) \<Longrightarrow> pq_sn (sy_proxies s ! k) \<notin> set foreign
      \<Longrightarrow> find_request_proxy (pq_sn (sy_proxies s ! k)) (sy_map s) = Some k"
  using assms unfolding tracked_def by blast+

lemma apply_progress: "list_all progress evs \<Longrightarrow> fold (apply_event k) evs m = m"
proof (induction evs arbitrary: m)
  case (Cons e evs)
  then show ?case by (cases e) simp_all
qed simp

lemma apply_final:
  "fold (apply_event k) (final_events p p') m = remove_request_proxy (pq_sn p) m"
  by (simp add: final_events_def)

text \<open>What an operation of an object may do to the table: nothing, add itself, or remove its number.\<close>

definition own_entry :: "nat \<Rightarrow> proxy \<Rightarrow> proxy \<Rightarrow> (i32 \<rightharpoonup> nat) \<Rightarrow> (i32 \<rightharpoonup> nat) \<Rightarrow> bool" where
  "own_entry k p q m m' \<longleftrightarrow>
     (\<forall>sn. sn \<noteq> pq_sn p \<longrightarrow> find_request_proxy sn m' = find_request_proxy sn m)
   \<and> (find_request_proxy (pq_sn p) m' = Some k \<and> pending q
      \<or> find_request_proxy (pq_sn p) m' = None \<and> \<not> pending q
      \<or> find_request_proxy (pq_sn p) m' = find_request_proxy (pq_sn p) m \<and> pending q = pending p)"

lemma tracked_run_on:
  assumes "tracked n foreign s" "k < length (sy_proxies s)"
    and f: "f (sy_proxies s ! k) = (q, evs)" "pq_sn q = pq_sn (sy_proxies s ! k)" "pq_result_flag q \<longrightarrow> closed q \<and> pq_sent q"
    and upd: "own_entry k (sy_proxies s ! k) q (sy_map s) (fold (apply_event k) evs (sy_map s))"
  shows "tracked n foreign (run_on k f s)"
proof -
  let ?m = "fold (apply_event k) evs (sy_map s)" and ?ps = "(sy_proxies s)[k := q]"
  have new: "run_on k f s = s\<lparr>sy_proxies := ?ps, sy_map := ?m\<rparr>"
    by (simp add: run_on_def f(1))
  have sns: "pq_sn (?ps ! j) = pq_sn (sy_proxies s ! j)" if "j < length (sy_proxies s)" for j
    using that f(2) by (cases "j = k") simp_all
  have found: "j < length (sy_proxies s) \<and> pq_sn (?ps ! j) = sn \<and> pending (?ps ! j)"
    if j: "find_request_proxy sn ?m = Some j" for sn j
  proof (cases "sn = pq_sn (sy_proxies s ! k)")
    case True
    then consider "j = k" "pending q" | "find_request_proxy sn (sy_map s) = Some j" "pending q = pending (sy_proxies s ! k)"
      using upd j unfolding own_entry_def by auto
    then show ?thesis
    proof cases
      case 1
      then show ?thesis using True assms(2) f(2) by simp
    next
      case 2
      note old = trackedD(4) [OF assms(1) 2(1)]
      then have "pending (?ps ! j)" using 2(2) by (cases "j = k") simp_all
      then show ?thesis using old sns [of j] by simp
    qed
  next
    case False
    then have "find_request_proxy sn (sy_map s) = Some j"
      using upd j by (simp add: own_entry_def)
    moreover from this have "j \<noteq> k" using trackedD(4) [OF assms(1)] False by blast
    ultimately show ?thesis using trackedD(4) [OF assms(1)] by simp
  qed
  have kept: "find_request_proxy (pq_sn (?ps ! j)) ?m = Some j"
    if j: "j < length (sy_proxies s)" "pending (?ps ! j)" "pq_sn (?ps ! j) \<notin> set foreign" for j
  proof (cases "j = k")
    case True
    then have q: "pending q" "?ps ! j = q" "pq_sn (sy_proxies s ! k) \<notin> set foreign" using j f(2) by simp_all
    then consider "find_request_proxy (pq_sn (sy_proxies s ! k)) ?m = Some k"
      | "find_request_proxy (pq_sn (sy_proxies s ! k)) ?m = find_request_proxy (pq_sn (sy_proxies s ! k)) (sy_map s)"
        "pending (sy_proxies s ! k)"
      using upd unfolding own_entry_def by auto
    then show ?thesis
      using trackedD(5) [OF assms(1,2)] q(3) f(2) True assms(2) by cases simp_all
  next
    case False
    then have "pq_sn (sy_proxies s ! j) \<noteq> pq_sn (sy_proxies s ! k)"
      using j trackedD(3) [OF assms(1) assms(2) j(1)] by auto
    then show ?thesis using False j upd trackedD(5) [OF assms(1) j(1)] by (simp add: own_entry_def)
  qed
  have "pq_result_flag (?ps ! j) \<longrightarrow> closed (?ps ! j) \<and> pq_sent (?ps ! j)" if "j < length (sy_proxies s)" for j
    using that f(3) trackedD(1) [OF assms(1) that] by (cases "j = k") simp_all
  moreover have "pq_sn (?ps ! j) \<in> set foreign \<or> (\<exists>i < n. pq_sn (?ps ! j) = sn_after i)" if "j < length (sy_proxies s)" for j
    using trackedD(2) [OF assms(1) that] sns [OF that] by auto
  moreover have "j = i" if "j < length (sy_proxies s)" "i < length (sy_proxies s)" "pq_sn (?ps ! j) = pq_sn (?ps ! i)"
      "pq_sn (?ps ! i) \<notin> set foreign" for j i
    using trackedD(3) [OF assms(1) that(1,2)] that(3,4) unfolding sns [OF that(1)] sns [OF that(2)] by blast
  ultimately show ?thesis
    using assms(1) found kept unfolding tracked_def new by simp
qed

lemma tracked_create:
  assumes "tracked n foreign s" "length (sy_proxies s) < 2 ^ 31 - 1"
  shows "tracked (Suc n) foreign (create c t 0 config rep res s)"
proof -
  have "sy_sn s = sn_after n" using assms by (simp add: tracked_def)
  then have new: "create c t 0 config rep res s =
      s\<lparr>sy_sn := sn_after (Suc n), sy_proxies := sy_proxies s @ [proxy_new c t (sn_after n) config rep res]\<rparr>"
    by (simp add: create_def get_new_sn_def)
  have le: "n < 2 ^ 31 - 1" using assms by (simp add: tracked_def)
  have fresh: "pq_sn (sy_proxies s ! k) \<noteq> sn_after n"
    if k: "k < length (sy_proxies s)" "sn_after n \<notin> set foreign" for k
  proof
    assume eq: "pq_sn (sy_proxies s ! k) = sn_after n"
    then obtain i where i: "i < n" "sn_after i = sn_after n"
      using trackedD(2) [OF assms(1) k(1)] k(2) by auto
    then show False using sn_after_inj [OF i(2)] le by simp
  qed
  let ?ps = "sy_proxies s @ [proxy_new c t (sn_after n) config rep res]" and ?l = "length (sy_proxies s)"
  have last: "pq_sn (?ps ! ?l) = sn_after n" "\<not> pq_result_flag (?ps ! ?l)" "\<not> pending (?ps ! ?l)"
    by (simp_all add: proxy_new_def pending_def)
  have old: "?ps ! j = sy_proxies s ! j" if "j < ?l" for j
    using that by (simp add: nth_append)
  note t = assms(1) [unfolded tracked_def]
  have "pq_sn (?ps ! j) \<in> set foreign \<or> (\<exists>i < Suc n. pq_sn (?ps ! j) = sn_after i)" if "j < Suc ?l" for j
    using trackedD(2) [OF assms(1), of j] last(1) old [of j] that by (cases "j = ?l") (auto simp: less_Suc_eq simp del: sn_after.simps)
  moreover have "j = k" if "j < Suc ?l" "k < Suc ?l" "pq_sn (?ps ! j) = pq_sn (?ps ! k)" "pq_sn (?ps ! k) \<notin> set foreign" for j k
    using that trackedD(3) [OF assms(1), of j k] last(1) old [of j] old [of k] fresh [of j] fresh [of k]
    by (cases "j = ?l"; cases "k = ?l") (auto simp: less_Suc_eq simp del: sn_after.simps)
  moreover have "pq_result_flag (?ps ! j) \<longrightarrow> closed (?ps ! j) \<and> pq_sent (?ps ! j)" if "j < Suc ?l" for j
    using that trackedD(1) [OF assms(1), of j] last(2) old [of j] by (cases "j = ?l") auto
  moreover have "j < Suc ?l \<and> pq_sn (?ps ! j) = sn \<and> pending (?ps ! j)" if "find_request_proxy sn (sy_map s) = Some j" for sn j
    using trackedD(4) [OF assms(1) that] old [of j] by auto
  moreover have "find_request_proxy (pq_sn (?ps ! j)) (sy_map s) = Some j"
    if "j < Suc ?l" "pending (?ps ! j)" "pq_sn (?ps ! j) \<notin> set foreign" for j
    using that trackedD(5) [OF assms(1), of j] last(3) old [of j] by (cases "j = ?l") auto
  ultimately show ?thesis using t unfolding tracked_def new by (simp del: sn_after.simps)
qed

lemma tracked_foreign:
  assumes "tracked n foreign s" "sn \<noteq> 0"
  shows "tracked n (sn # foreign) (create c t sn config rep res s)"
  using assms
  by (auto simp: tracked_def create_def nth_append less_Suc_eq pending_def proxy_new_def simp del: sn_after.simps)

lemma tracked_send:
  assumes "tracked n foreign s" "k < length (sy_proxies s)" "\<not> pq_sent (sy_proxies s ! k)"
  shows "tracked n foreign (run_on k (send now (Some m) rcb) s)"
proof (rule tracked_run_on [OF assms(1,2) surjective_pairing])
  let ?p = "sy_proxies s ! k"
  have p: "\<not> pq_result_flag ?p" using assms by (auto simp: tracked_def)
  note facts = send_def on_completed_def on_completed_l_def closed_def Let_def
  show "pq_sn (fst (send now (Some m) rcb ?p)) = pq_sn ?p"
    "pq_result_flag (fst (send now (Some m) rcb ?p)) \<longrightarrow>
       closed (fst (send now (Some m) rcb ?p)) \<and> pq_sent (fst (send now (Some m) rcb ?p))"
    using p by (cases m; cases "pq_class ?p"; simp add: facts)+
  show "own_entry k ?p (fst (send now (Some m) rcb ?p)) (sy_map s) (fold (apply_event k) (snd (send now (Some m) rcb ?p)) (sy_map s))"
    using p by (cases m; cases "pq_class ?p")
      (auto simp: own_entry_def facts pending_def table.find_add table.find_remove)
qed

lemma tracked_handle:
  assumes "tracked n foreign s" "k < length (sy_proxies s)" "pq_sent (sy_proxies s ! k)"
  shows "tracked n foreign (run_on k (handle success info i) s)"
proof (rule tracked_run_on [OF assms(1,2) surjective_pairing])
  let ?p = "sy_proxies s ! k"
  let ?q = "fst (handle success info i ?p)" and ?evs = "snd (handle success info i ?p)"
  have p: "pq_result_flag ?p \<longrightarrow> closed ?p" using assms by (auto simp: tracked_def)
  show "pq_sn ?q = pq_sn ?p" by (simp add: handle_keeps)
  have sent: "pq_sent ?q" using assms(3) by (simp add: handle_keeps)
  have "(pq_result_flag ?q \<longrightarrow> closed ?q) \<and> own_entry k ?p ?q (sy_map s) (fold (apply_event k) ?evs (sy_map s))"
  proof (cases "pq_result_flag ?p")
    case True
    then have "closed ?q" "?evs = []" using p step_closed [of ?p success info i] by simp_all
    then show ?thesis using True by (simp add: own_entry_def pending_def closed_def)
  next
    case False
    from step_open [OF False, of success info i] show ?thesis
    proof
      assume "quiet ?p ?q ?evs"
      then show ?thesis using False sent assms(3)
        by (auto simp: own_entry_def quiet_def pending_def apply_progress)
    next
      assume "final ?p ?q ?evs"
      then obtain before where "closed ?q" "?evs = before @ final_events ?p ?q" "list_all progress before"
        by (auto simp: final_def)
      then show ?thesis
        by (auto simp: own_entry_def apply_progress apply_final table.find_remove pending_def closed_def)
    qed
  qed
  then show "pq_result_flag ?q \<longrightarrow> closed ?q \<and> pq_sent ?q"
    and "own_entry k ?p ?q (sy_map s) (fold (apply_event k) ?evs (sy_map s))"
    using sent by blast+
qed

lemma run_on_length [simp]: "length (sy_proxies (run_on k f s)) = length (sy_proxies s)"
  by (simp add: run_on_def split: prod.split)

lemma routed:
  "on_response_sn now cb sn r s = (case find_request_proxy sn (sy_map s) of
     None \<Rightarrow> (s, Code 404)
   | Some k \<Rightarrow> (run_on k (handle (\<lambda>c. True) (\<lambda>c. True) (I_Response now cb r)) s,
       snd (snd (on_response now cb r (sy_proxies s ! k)))))"
  by (simp add: on_response_sn_def run_on_def split: option.split prod.split)

lemma tracked_reachable:
  assumes "system_run success info foreign s" "length (sy_proxies s) < 2 ^ 31 - 1"
  shows "\<exists>n. tracked n foreign s"
  using assms
proof (induction rule: system_run.induct)
  case sys_new
  then show ?case by (intro exI [of _ 0]) (simp add: tracked_def system_new_def find_request_proxy_def)
next
  case (sys_create foreign s c t config rep res)
  then have "length (sy_proxies s) < 2 ^ 31 - 1" by (simp add: create_def split: prod.splits)
  then show ?case using sys_create tracked_create by blast
next
  case (sys_foreign foreign s sn c t config rep res)
  then have "length (sy_proxies s) < 2 ^ 31 - 1" by (simp add: create_def)
  then show ?case using sys_foreign tracked_foreign by blast
next
  case (sys_send foreign s k now m rcb)
  then show ?case using tracked_send by (metis run_on_length)
next
  case (sys_input foreign s k i)
  then show ?case using tracked_handle by (metis run_on_length)
next
  case (sys_response foreign s now cb sn r)
  then obtain n where s: "length (sy_proxies s) < 2 ^ 31 - 1" "tracked n foreign s"
    by (auto simp: routed split: option.splits)
  show ?case
  proof (cases "find_request_proxy sn (sy_map s)")
    case None
    then show ?thesis using s by (auto simp: routed)
  next
    case (Some k)
    then have "k < length (sy_proxies s)" "pq_sent (sy_proxies s ! k)" using s(2) by (auto simp: tracked_def pending_def)
    from tracked_handle [OF s(2) this] show ?thesis using Some by (auto simp: routed)
  qed
qed

section \<open>Properties\<close>

text \<open>The serial numbers are always between 1 and INT32_MAX, wrap around from INT32_MAX to 1, and repeat only
after 2^31 - 1 of them.\<close>

theorem serial_numbers:
  "1 \<le> sint (sn_after n) \<and> sint (sn_after n) \<le> 2 ^ 31 - 1
   \<and> sint (sn_after n) = int (n mod (2 ^ 31 - 1)) + 1
   \<and> (sn_after m = sn_after n \<longleftrightarrow> m mod (2 ^ 31 - 1) = n mod (2 ^ 31 - 1))"
proof -
  let ?m = "n mod (2 ^ 31 - 1)"
  have m: "?m < 2 ^ 31 - 1" by (rule mod_less_divisor) simp
  have u: "uint (sn_after n) = int ?m + 1" by (rule sn_after_closed)
  have "int ?m < int (2 ^ 31 - 1)" using m by (simp only: of_nat_less_iff)
  then have "int ?m < 2 ^ 31 - 1" by simp
  then have "sint (sn_after n) = int ?m + 1"
    unfolding sint_uint u by (intro signed_take_bit_int_eq_self) simp_all
  moreover have "sn_after m = sn_after n \<longleftrightarrow> m mod (2 ^ 31 - 1) = ?m"
    unfolding word_uint_eq_iff sn_after_closed by linarith
  ultimately show ?thesis using \<open>int ?m < 2 ^ 31 - 1\<close> by linarith
qed

text \<open>C17. In every run with fewer than 2^31 - 1 proxies, a response with the number of a request goes to exactly this
request while it is sent and not completed, and gets the code 404 before and after, and no other proxy has its number, as long as no
proxy was made under that same number for the answer to a query of the peer (the platform puts both kinds into one table, see
\<open>foreign_number_displaces_request\<close>). A response with any number never reaches a proxy of another number, or one that is not sent or
is completed.\<close>

theorem responses_reach_their_request:
  assumes "system_run success info foreign s" "length (sy_proxies s) < 2 ^ 31 - 1" "k < length (sy_proxies s)"
  shows "(pq_sn (sy_proxies s ! k) \<notin> set foreign \<longrightarrow>
      on_response_sn now cb (pq_sn (sy_proxies s ! k)) r s =
       (if pq_sent (sy_proxies s ! k) \<and> \<not> pq_result_flag (sy_proxies s ! k)
        then (run_on k (\<lambda>p. case on_response now cb r p of (p', evs, res) \<Rightarrow> (p', evs)) s,
              snd (snd (on_response now cb r (sy_proxies s ! k))))
        else (s, Code 404))
      \<and> (\<forall>j < length (sy_proxies s). pq_sn (sy_proxies s ! j) = pq_sn (sy_proxies s ! k) \<longrightarrow> j = k))
    \<and> (on_response_sn now cb sn r s = (s, Code 404)
      \<or> (\<exists>j < length (sy_proxies s). pq_sn (sy_proxies s ! j) = sn \<and> pq_sent (sy_proxies s ! j) \<and> \<not> pq_result_flag (sy_proxies s ! j)
          \<and> fst (on_response_sn now cb sn r s) = run_on j (\<lambda>p. case on_response now cb r p of (p', evs, res) \<Rightarrow> (p', evs)) s))"
proof -
  obtain n where t: "tracked n foreign s" using tracked_reachable [OF assms(1,2)] by blast
  have "find_request_proxy (pq_sn (sy_proxies s ! k)) (sy_map s) = (if pending (sy_proxies s ! k) then Some k else None)
      \<and> (\<forall>j < length (sy_proxies s). pq_sn (sy_proxies s ! j) = pq_sn (sy_proxies s ! k) \<longrightarrow> j = k)"
    if own: "pq_sn (sy_proxies s ! k) \<notin> set foreign"
  proof -
    have unique: "\<forall>j < length (sy_proxies s). pq_sn (sy_proxies s ! j) = pq_sn (sy_proxies s ! k) \<longrightarrow> j = k"
      using t assms(3) own unfolding tracked_def by blast
    show ?thesis
    proof (cases "pending (sy_proxies s ! k)")
      case True
      then show ?thesis using t assms(3) own unique by (simp add: tracked_def)
    next
      case False
      have "find_request_proxy (pq_sn (sy_proxies s ! k)) (sy_map s) \<noteq> Some j" for j
        using t unique False unfolding tracked_def by metis
      then show ?thesis using False unique by (metis option.exhaust)
    qed
  qed
  moreover have "j < length (sy_proxies s) \<and> pq_sn (sy_proxies s ! j) = sn \<and> pending (sy_proxies s ! j)"
    if "find_request_proxy sn (sy_map s) = Some j" for j
    using t that unfolding tracked_def by blast
  ultimately show ?thesis
    by (cases "find_request_proxy sn (sy_map s)") (auto simp: on_response_sn_def pending_def)
qed

lemma responses_reach_their_request_witness:
  "\<exists>s. system_run ok_code info_code [7] s \<and> fst (on_response_sn 5 (Inr 200) 1 (sample_response Cmd_DeviceInfo 0 0 0) s) \<noteq> s
     \<and> on_response_sn 5 (Inr 200) 2 (sample_response Cmd_DeviceInfo 0 0 0) s = (s, Code 404)"
proof -
  let ?a = "create C_Plain OneResponse 0 0 True True system_new"
  let ?b = "create C_Plain NoResponse 7 0 True True (create C_Plain OneResponse 0 0 True True ?a)"
  let ?s = "run_on 0 (send 0 (Some (True, [])) True) ?b"
  let ?r = "sample_response Cmd_DeviceInfo 0 0 0"
  have run: "system_run ok_code info_code [7] ?s"
    by (intro sys_send sys_foreign sys_create sys_new; code_simp)
  have "length (sy_proxies ?s) = 3" by code_simp
  then have len: "length (sy_proxies ?s) < 2 ^ 31 - 1" "0 < length (sy_proxies ?s)" "1 < length (sy_proxies ?s)"
    by simp_all
  have sn: "pq_sn (sy_proxies ?s ! 0) = 1" "pq_sn (sy_proxies ?s ! 1) = 2" by code_simp+
  have st: "pq_sent (sy_proxies ?s ! 0)" "\<not> pq_result_flag (sy_proxies ?s ! 0)" "\<not> pq_sent (sy_proxies ?s ! 1)"
    "sy_proxies (run_on 0 (\<lambda>p. case on_response 5 (Inr 200) ?r p of (p', evs, res) \<Rightarrow> (p', evs)) ?s) \<noteq> sy_proxies ?s"
    by code_simp+
  have own: "(1 :: i32) \<notin> set [7]" "(2 :: i32) \<notin> set [7]" by simp_all
  have "on_response_sn 5 (Inr 200) 2 ?r ?s = (?s, Code 404)"
    using responses_reach_their_request [OF run len(1,3), of 5 "Inr 200" ?r] sn st own by simp
  moreover have "fst (on_response_sn 5 (Inr 200) 1 ?r ?s) \<noteq> ?s"
    using responses_reach_their_request [OF run len(1,2), of 5 "Inr 200" ?r] sn st own by auto
  ultimately show ?thesis using run by blast
qed

text \<open>A message sent under a number of the peer (an answer to its query, made with the number of the query) takes
the place of an own pending request with the same number: from then on the responses to the
request go to the answer's proxy, and when the answer is confirmed the request cannot be found at all.\<close>

theorem foreign_number_displaces_request:
  assumes "find_request_proxy sn (sy_map s) = Some k" "sn \<noteq> 0" "success code" "\<not> info code"
    and "j = length (sy_proxies s)"
    and "s' = run_on j (send now (Some (True, err)) rcb) (create C_Plain NoResponse sn config rep res s)"
  shows "find_request_proxy sn (sy_map s') = Some j
    \<and> find_request_proxy sn (sy_map (run_on j (handle success info (I_Reply t True code)) s')) = None"
  using assms
  by (simp add: create_def run_on_def send_def on_reply_def on_reply_l_def on_completed_def on_completed_l_def
      proxy_new_def Let_def table.find_add table.find_remove)

lemma foreign_number_displaces_request_witness:
  "\<exists>(s :: system) s'. find_request_proxy 1 (sy_map s) = Some 0 \<and> find_request_proxy 1 (sy_map s') = Some 1
     \<and> find_request_proxy 1 (sy_map (run_on 1 (handle ok_code info_code (I_Reply 9 True 200)) s')) = None"
proof -
  let ?s = "run_on 0 (send 0 (Some (True, [])) True) (create C_Plain OneResponse 0 0 True True system_new)"
  let ?s' = "run_on 1 (send 0 (Some (True, [])) True) (create C_Plain NoResponse 1 0 True True ?s)"
  have "find_request_proxy 1 (sy_map ?s) = Some 0" "(1 :: i32) \<noteq> 0" "ok_code 200" "\<not> info_code 200"
    "1 = length (sy_proxies ?s)" by code_simp+
  from foreign_number_displaces_request [where success = ok_code and info = info_code and code = 200, OF this refl,
      of 0 "[]" True 0 True True 9] this(1)
  show ?thesis by blast
qed

end
