(* ===== verification/Query_Handlers.thy ===== *)
theory Query_Handlers
  imports Request_Table Message_Lists
begin

text \<open>
  The handlers a super platform's queries, controls and broadcasts go through (the templates
  \<open>OneResponseQueryHandler\<close>, \<open>MultiResponseQueryHandler\<close> and \<open>NoResponseQueryHandler\<close> of
  \<open>src/super_platform_impl.cpp\<close>) and the table \<open>SuperPlatformImpl::on_query\<close> that selects them. A handler's
  context is a record; what its callbacks do is a list of actions. The application is
  the environment: it answers, or the 5-second timeout does.
\<close>

section \<open>Which handler\<close>

datatype handler_kind = OneResponseQueryHandler | MultiResponseQueryHandler | NoResponseQueryHandler

definition on_query_handler :: "MessageCmdType \<Rightarrow> handler_kind option" where
  "on_query_handler type =
     (case type of
        Cmd_DeviceStatus \<Rightarrow> Some OneResponseQueryHandler
      | Cmd_Catalog \<Rightarrow> Some MultiResponseQueryHandler
      | Cmd_DeviceInfo \<Rightarrow> Some OneResponseQueryHandler
      | Cmd_RecordInfo \<Rightarrow> Some MultiResponseQueryHandler
      | Cmd_ConfigDownload \<Rightarrow> Some MultiResponseQueryHandler
      | Cmd_PresetQuery \<Rightarrow> Some MultiResponseQueryHandler
      | Cmd_HomePositionQuery \<Rightarrow> Some OneResponseQueryHandler
      | Cmd_CruiseTrackListQuery \<Rightarrow> Some MultiResponseQueryHandler
      | Cmd_CruiseTrackQuery \<Rightarrow> Some MultiResponseQueryHandler
      | Cmd_PTZPosition \<Rightarrow> Some OneResponseQueryHandler
      | Cmd_SDCardStatus \<Rightarrow> Some OneResponseQueryHandler
      | _ \<Rightarrow> None)"

text \<open>The handlers \<open>on_control\<close> uses for the device controls.\<close>

definition on_control_handler :: "DeviceControlType \<Rightarrow> handler_kind" where
  "on_control_handler type =
     (case type of
        DC_PTZCmd \<Rightarrow> NoResponseQueryHandler
      | DC_RecordCmd \<Rightarrow> OneResponseQueryHandler
      | DC_IFrameCmd \<Rightarrow> NoResponseQueryHandler
      | DC_DragZoomIn \<Rightarrow> NoResponseQueryHandler
      | DC_DragZoomOut \<Rightarrow> NoResponseQueryHandler
      | DC_TargetTrack \<Rightarrow> NoResponseQueryHandler
      | DC_PtzPreciseCtrl \<Rightarrow> NoResponseQueryHandler
      | DC_HomePosition \<Rightarrow> OneResponseQueryHandler
      | DC_AlarmCmd \<Rightarrow> OneResponseQueryHandler
      | DC_GuardCmd \<Rightarrow> OneResponseQueryHandler
      | DC_TeleBoot \<Rightarrow> NoResponseQueryHandler
      | DC_FormatSDCard \<Rightarrow> NoResponseQueryHandler
      | DC_DeviceUpgrade \<Rightarrow> OneResponseQueryHandler)"

section \<open>The response of a query that timed out\<close>

definition create_DeviceStatus :: "string \<Rightarrow> ('e, DeviceStatusMessageResponse) MessageBase" where
  "create_DeviceStatus device_id = DeviceStatusMessageResponse_new device_id Result_Error Online_ONLINE Result_OK"

definition create_DeviceInfo :: "string \<Rightarrow> ('e, DeviceInfoMessageResponse) MessageBase" where
  "create_DeviceInfo device_id = DeviceInfoMessageResponse_new device_id Result_Error"

definition create_HomePosition :: "string \<Rightarrow> ('e, HomePositionType option) MessageBase" where
  "create_HomePosition device_id = HomePositionResponseMessage_new device_id None"

definition create_PTZPosition :: "string \<Rightarrow> ('e, PTZPositionResponseMessage) MessageBase" where
  "create_PTZPosition device_id = PTZPositionResponseMessage_new device_id Result_Error ''timeout''"

definition create_SdCard :: "string \<Rightarrow> ('e, SdCardResponseMessage) MessageBase" where
  "create_SdCard device_id = SdCardResponseMessage_new device_id 0 [] Result_Error ''timeout''"

definition create_CruiseTrackList :: "string \<Rightarrow> ('e, CruiseTrackListResponseMessage) MessageBase" where
  "create_CruiseTrackList device_id = CruiseTrackListResponseMessage_new device_id 0 [] Result_Error ''timeout''"

definition create_Preset :: "string \<Rightarrow> ('e, PresetResponseMessage) MessageBase" where
  "create_Preset device_id = PresetResponseMessage_new device_id 0 []"

definition create_Broadcast :: "string \<Rightarrow> ('e, ResultResponse) MessageBase" where
  "create_Broadcast device_id = BroadcastNotifyResponse_new device_id Result_Error"

text \<open>What every timeout does to it: \<open>mk device_id\<close> is the specialisation for the response class.\<close>

definition timeout_response ::
    "(string \<Rightarrow> ('e, 'd) MessageBase) \<Rightarrow> string option \<Rightarrow> ('e, 'd) MessageBase" where
  "timeout_response mk device_id =
     (mk (case device_id of None \<Rightarrow> [] | Some i \<Rightarrow> i))\<lparr>mb_reason := ''timeout''\<rparr>"

section \<open>One response\<close>

record one_context =
  oc_flag :: bool
  oc_timeout :: bool \<comment> \<open>the timeout task is armed\<close>
  oc_sn :: i32 \<comment> \<open>the number of the query\<close>
  oc_device_id :: "string option"

text \<open>A message handed to a new proxy and sent: the proxy's number and the message as it is transmitted.\<close>

datatype ('e, 'd) action = Send i32 "('e, 'd) MessageBase"

text \<open>
  A new \<open>RequestProxyImpl\<close> for a message, and its \<open>send\<close>: a number of 0 is replaced by a new one of the platform, and
  \<open>send\<close> stores the proxy's number in the message.
\<close>

definition send_response ::
    "i32 \<Rightarrow> ('e, 'd) MessageBase \<Rightarrow> i32 \<Rightarrow> i32 \<times> ('e, 'd) action list" where
  "send_response sn m platform_sn =
     (let (request_sn, next_sn) = (if sn = 0 then get_new_sn platform_sn else (sn, platform_sn))
      in (next_sn, [Send request_sn (m\<lparr>mb_sn := request_sn\<rparr>)]))"

text \<open>The callback \<open>response\<close>; \<open>alive\<close> tells whether the platform still exists.\<close>

definition one_respond ::
    "bool \<Rightarrow> ('e, 'd) MessageBase \<Rightarrow> one_context \<Rightarrow> i32 \<Rightarrow> one_context \<times> i32 \<times> ('e, 'd) action list" where
  "one_respond alive m ctx platform_sn =
     (if oc_flag ctx then (ctx, platform_sn, [])
      else let ctx = ctx\<lparr>oc_flag := True, oc_timeout := False\<rparr>
           in if alive then (ctx, send_response 0 (m\<lparr>mb_sn := oc_sn ctx\<rparr>) platform_sn)
              else (ctx, platform_sn, []))"

text \<open>The timeout task.\<close>

definition one_timeout ::
    "(string \<Rightarrow> ('e, 'd) MessageBase) \<Rightarrow> bool \<Rightarrow> one_context \<Rightarrow> i32 \<Rightarrow> one_context \<times> i32 \<times> ('e, 'd) action list" where
  "one_timeout mk alive ctx platform_sn =
     one_respond alive (timeout_response mk (oc_device_id ctx)) (ctx\<lparr>oc_timeout := False\<rparr>) platform_sn"

text \<open>
  \<open>process\<close>: the outcome of loading the request, which is \<open>None\<close> when \<open>load_from_xml\<close> fails, and the number of
  listeners \<open>NOTICE_EMIT\<close> reached; the code, and the context when the query is under way.
\<close>

definition one_process :: "(i32 \<times> string option) option \<Rightarrow> nat \<Rightarrow> int \<times> one_context option" where
  "one_process loaded listeners =
     (case loaded of
        None \<Rightarrow> (400, None)
      | Some (sn, device_id) \<Rightarrow>
          (let ctx = \<lparr>oc_flag = False, oc_timeout = True, oc_sn = sn, oc_device_id = device_id\<rparr>
           in if listeners = 0 then (404, None) else (200, Some ctx)))"

section \<open>Several responses\<close>

record ('e, 'd) multi_context =
  mc_flag :: bool
  mc_timeout :: bool
  mc_sn :: i32
  mc_device_id :: "string option"
  mc_responses :: "('e, 'd) MessageBase list"
  mc_stop :: bool \<comment> \<open>the flag shared by the workers\<close>
  mc_ignore_4xx :: bool

definition multi_process :: "(i32 \<times> string option) option \<Rightarrow> nat \<Rightarrow> int \<times> ('e, 'd) multi_context option" where
  "multi_process loaded listeners =
     (case loaded of
        None \<Rightarrow> (400, None)
      | Some (sn, device_id) \<Rightarrow>
          (let ctx = \<lparr>mc_flag = False, mc_timeout = True, mc_sn = sn, mc_device_id = device_id, mc_responses = [],
                mc_stop = False, mc_ignore_4xx = False\<rparr>
           in if listeners = 0 then (404, None) else (200, Some ctx)))"

text \<open>\<open>do_send_response\<close>: a worker takes the next response and sends it under the number of the query.\<close>

definition do_send_response ::
    "bool \<Rightarrow> ('e, 'd) multi_context \<Rightarrow> i32 \<Rightarrow> ('e, 'd) multi_context \<times> i32 \<times> ('e, 'd) action list" where
  "do_send_response alive ctx platform_sn =
     (if mc_stop ctx then (ctx, platform_sn, [])
      else case mc_responses ctx of
        [] \<Rightarrow> (ctx\<lparr>mc_stop := True\<rparr>, platform_sn, [])
      | m # ms \<Rightarrow>
          (let ctx = ctx\<lparr>mc_responses := ms\<rparr>
           in if alive then (ctx, send_response (mc_sn ctx) m platform_sn)
              else (ctx\<lparr>mc_stop := True\<rparr>, platform_sn, [])))"

fun start_workers ::
    "nat \<Rightarrow> bool \<Rightarrow> ('e, 'd) multi_context \<Rightarrow> i32 \<Rightarrow> ('e, 'd) multi_context \<times> i32 \<times> ('e, 'd) action list" where
  "start_workers 0 alive ctx platform_sn = (ctx, platform_sn, [])"
| "start_workers (Suc n) alive ctx platform_sn =
     (case do_send_response alive ctx platform_sn of (ctx, platform_sn, acts) \<Rightarrow>
      case start_workers n alive ctx platform_sn of (ctx, platform_sn, acts') \<Rightarrow> (ctx, platform_sn, acts @ acts'))"

text \<open>The callback: a concurrency of 0 starts one worker, a negative one none.\<close>

definition multi_respond ::
    "bool \<Rightarrow> ('e, 'd) MessageBase list \<Rightarrow> int \<Rightarrow> bool \<Rightarrow> ('e, 'd) multi_context \<Rightarrow> i32
      \<Rightarrow> ('e, 'd) multi_context \<times> i32 \<times> ('e, 'd) action list" where
  "multi_respond alive ms concurrency ignore_4xx ctx platform_sn =
     (if mc_flag ctx then (ctx, platform_sn, [])
      else let ctx = ctx\<lparr>mc_flag := True, mc_timeout := False, mc_responses := ms, mc_ignore_4xx := ignore_4xx\<rparr>
           in start_workers (if concurrency = 0 then 1 else nat concurrency) alive ctx platform_sn)"

definition multi_timeout ::
    "(string \<Rightarrow> ('e, 'd) MessageBase) \<Rightarrow> bool \<Rightarrow> ('e, 'd) multi_context \<Rightarrow> i32
      \<Rightarrow> ('e, 'd) multi_context \<times> i32 \<times> ('e, 'd) action list" where
  "multi_timeout mk alive ctx platform_sn =
     multi_respond alive [timeout_response mk (mc_device_id ctx)] 1 True (ctx\<lparr>mc_timeout := False\<rparr>) platform_sn"

text \<open>
  The result callback of a sent response: a failure stops all workers, unless it is a client error
  (\<open>client_error\<close>, a macro of the SIP library) other than 408 that is to be ignored.
\<close>

definition multi_done ::
    "(int \<Rightarrow> bool) \<Rightarrow> bool \<Rightarrow> Status \<Rightarrow> int \<Rightarrow> ('e, 'd) multi_context \<Rightarrow> i32
      \<Rightarrow> ('e, 'd) multi_context \<times> i32 \<times> ('e, 'd) action list" where
  "multi_done client_error alive status reply_code ctx platform_sn =
     (if status \<noteq> Succeeded \<and> \<not> (mc_ignore_4xx ctx \<and> client_error reply_code \<and> reply_code \<noteq> 408)
      then (ctx\<lparr>mc_stop := True\<rparr>, platform_sn, [])
      else do_send_response alive ctx platform_sn)"

end
