(* ===== verification/Query_Facts.thy ===== *)
theory Query_Facts
  imports Query_Handlers Request_Facts
begin

text \<open>
  What the query handlers guarantee: both ends agree on how many responses a request has, a query is answered once,
  the responses of a multi-part answer go out in order and completely, and under which number an answer travels.
\<close>

section \<open>Both ends of a request\<close>

text \<open>The two ends agree on the number of responses. The handlers of the platform that receives a query or a
device control are the ones that send as many responses (none, one, several) as the proxy of
the platform that sends it expects, for every query that is handled and every control.\<close>

theorem both_ends_agree:
  "(on_query_handler c = Some k \<longrightarrow>
      (\<exists>cls. newRequestProxy Root_Query c control = Some (cls, if k = MultiResponseQueryHandler then MultipleResponses else OneResponse)))
   \<and> newRequestProxy Root_Control Cmd_DeviceControl (Some d) =
      Some (C_Plain, if on_control_handler d = NoResponseQueryHandler then NoResponse else OneResponse)"
proof
  show "on_query_handler c = Some k \<longrightarrow>
      (\<exists>cls. newRequestProxy Root_Query c control = Some (cls, if k = MultiResponseQueryHandler then MultipleResponses else OneResponse))"
    by (cases c) (auto simp: on_query_handler_def newRequestProxy_def Let_def multi_mask)
  show "newRequestProxy Root_Control Cmd_DeviceControl (Some d) =
      Some (C_Plain, if on_control_handler d = NoResponseQueryHandler then NoResponse else OneResponse)"
    unfolding newRequestProxy_def Let_def
    by (simp add: silent_mask) (cases d; simp add: on_control_handler_def)
qed

lemma both_ends_agree_witness:
  "\<exists>cls. newRequestProxy Root_Query Cmd_Catalog None = Some (cls, MultipleResponses)"
  using both_ends_agree [of Cmd_Catalog MultiResponseQueryHandler None] by (simp add: on_query_handler_def)

section \<open>A query is answered once\<close>

datatype ('e, 'd) one_input = Answer "('e, 'd) MessageBase" | Elapsed

fun one_step ::
    "(string \<Rightarrow> ('e, 'd) MessageBase) \<Rightarrow> bool \<Rightarrow> ('e, 'd) one_input \<Rightarrow> one_context \<Rightarrow> i32
      \<Rightarrow> one_context \<times> i32 \<times> ('e, 'd) action list" where
  "one_step mk alive (Answer m) ctx sn = one_respond alive m ctx sn"
| "one_step mk alive Elapsed ctx sn = one_timeout mk alive ctx sn"

fun one_all ::
    "(string \<Rightarrow> ('e, 'd) MessageBase) \<Rightarrow> bool \<Rightarrow> ('e, 'd) one_input list \<Rightarrow> one_context \<Rightarrow> i32
      \<Rightarrow> one_context \<times> i32 \<times> ('e, 'd) action list" where
  "one_all mk alive [] ctx sn = (ctx, sn, [])"
| "one_all mk alive (i # is) ctx sn =
     (case one_step mk alive i ctx sn of (ctx, sn, acts) \<Rightarrow>
      case one_all mk alive is ctx sn of (ctx, sn, acts') \<Rightarrow> (ctx, sn, acts @ acts'))"

lemma one_flagged: "oc_flag ctx \<Longrightarrow> \<not> oc_timeout ctx \<Longrightarrow> one_step mk alive i ctx sn = (ctx, sn, [])"
  by (cases i) (simp_all add: one_respond_def one_timeout_def)

lemma one_all_flagged: "oc_flag ctx \<Longrightarrow> \<not> oc_timeout ctx \<Longrightarrow> one_all mk alive is ctx sn = (ctx, sn, [])"
  by (induction "is") (simp_all add: one_flagged)

text \<open>C30. A query with one response is answered exactly once: the handler arms the timeout, and whatever mix of answers of the
application and of the timeout comes, only the first one is sent, and it disarms the timeout; the timeout answers when
nothing else has. The answer travels under the next number of this platform and not under that of the query, whatever it is
(\<open>single_answer_under_wrong_number\<close>).\<close>

theorem query_answered_once:
  assumes "one_process (Some (q, device_id)) listeners = (200, Some ctx)"
  shows "oc_timeout ctx \<and> \<not> oc_flag ctx \<and> (\<exists>ctx'. oc_flag ctx' \<and> \<not> oc_timeout ctx' \<and> one_all mk True (i # is) ctx sn =
    (ctx', snd (get_new_sn sn),
     [Send sn ((case i of Answer m \<Rightarrow> m | Elapsed \<Rightarrow> timeout_response mk device_id)\<lparr>mb_sn := sn\<rparr>)]))"
proof -
  have ctx: "\<not> oc_flag ctx" "oc_device_id ctx = device_id" "oc_timeout ctx"
    using assms by (auto simp: one_process_def Let_def split: if_splits)
  let ?ctx = "ctx\<lparr>oc_flag := True, oc_timeout := False\<rparr>"
  have step: "one_step mk True i ctx sn = (?ctx, snd (get_new_sn sn),
      [Send sn ((case i of Answer m \<Rightarrow> m | Elapsed \<Rightarrow> timeout_response mk device_id)\<lparr>mb_sn := sn\<rparr>)])"
    using ctx by (cases i) (auto simp: one_respond_def one_timeout_def send_response_def get_new_sn_def Let_def)
  have "oc_flag ?ctx" "\<not> oc_timeout ?ctx" by simp_all
  from one_all_flagged [OF this, of mk True "is" "snd (get_new_sn sn)"] ctx show ?thesis by (simp add: step)
qed

lemma query_answered_once_witness:
  "\<exists>ctx ctx'. oc_timeout ctx \<and> \<not> oc_timeout ctx' \<and>
     one_all create_DeviceInfo True [Elapsed, Answer (create_DeviceInfo ''34'')] ctx 41 =
     (ctx', 42, [Send 41 ((timeout_response create_DeviceInfo (Some ''34''))\<lparr>mb_sn := 41\<rparr>)])"
proof -
  have "one_process (Some (7, Some ''34'')) 1 =
      (200, Some \<lparr>oc_flag = False, oc_timeout = True, oc_sn = 7, oc_device_id = Some ''34''\<rparr>)" by code_simp
  from query_answered_once [OF this, of create_DeviceInfo Elapsed "[Answer (create_DeviceInfo ''34'')]" 41]
  show ?thesis by (fastforce simp: get_new_sn_def INT32_MAX_def simp del: one_all.simps)
qed

section \<open>The responses of a multi-part answer\<close>

text \<open>
  The runs of the workers: the answer starts them, and every response sent is reported back once. The last
  components are the number of responses not yet reported and whether a report was a failure that stops the workers.
\<close>

inductive multi_run ::
    "(int \<Rightarrow> bool) \<Rightarrow> ('e, 'd) MessageBase list \<Rightarrow> int \<Rightarrow> bool \<Rightarrow> ('e, 'd) multi_context \<Rightarrow> i32
      \<Rightarrow> ('e, 'd) multi_context \<Rightarrow> i32 \<Rightarrow> ('e, 'd) action list \<Rightarrow> nat \<Rightarrow> bool \<Rightarrow> bool"
  for client_error ms concurrency ignore_4xx ctx0 sn0 where
  multi_start: "multi_respond True ms concurrency ignore_4xx ctx0 sn0 = (ctx, sn, acts) \<Longrightarrow>
    multi_run client_error ms concurrency ignore_4xx ctx0 sn0 ctx sn acts (length acts) False"
| multi_step: "multi_run client_error ms concurrency ignore_4xx ctx0 sn0 ctx sn sent (Suc n) failed \<Longrightarrow>
    multi_done client_error True status code ctx sn = (ctx', sn', acts) \<Longrightarrow>
    multi_run client_error ms concurrency ignore_4xx ctx0 sn0 ctx' sn' (sent @ acts) (n + length acts)
      (failed \<or> (status \<noteq> Succeeded \<and> \<not> (mc_ignore_4xx ctx \<and> client_error code \<and> code \<noteq> 408)))"

definition sent_as :: "i32 \<Rightarrow> ('e, 'd) MessageBase list \<Rightarrow> ('e, 'd) action list" where
  "sent_as q ms = map (\<lambda>m. Send q (m\<lparr>mb_sn := q\<rparr>)) ms"

lemma sent_as_simps [simp]:
  "sent_as q [] = []" "sent_as q (m # ms) = Send q (m\<lparr>mb_sn := q\<rparr>) # sent_as q ms"
  "sent_as q (ms @ ms') = sent_as q ms @ sent_as q ms'" "length (sent_as q ms) = length ms"
  by (simp_all add: sent_as_def)

text \<open>A worker takes at most one response off the queue; when it takes none, everything stops.\<close>

lemma worker_step:
  assumes "mc_sn ctx = q" "q \<noteq> 0" "do_send_response True ctx sn = (ctx', sn', acts)"
  shows "\<exists>now. mc_responses ctx = now @ mc_responses ctx' \<and> acts = sent_as q now \<and> length now \<le> 1
    \<and> mc_sn ctx' = q \<and> mc_ignore_4xx ctx' = mc_ignore_4xx ctx
    \<and> (now = [] \<longrightarrow> mc_stop ctx') \<and> (mc_stop ctx' \<longrightarrow> mc_stop ctx \<or> mc_responses ctx' = [])"
proof (cases "mc_stop ctx")
  case True
  then show ?thesis using assms by (intro exI [of _ "[]"]) (auto simp: do_send_response_def)
next
  case False
  show ?thesis
  proof (cases "mc_responses ctx")
    case Nil
    then show ?thesis using False assms by (intro exI [of _ "[]"]) (auto simp: do_send_response_def)
  next
    case (Cons m ms)
    then show ?thesis using False assms
      by (intro exI [of _ "[m]"]) (auto simp: do_send_response_def send_response_def Let_def)
  qed
qed

lemma workers_start:
  assumes "mc_sn ctx = q" "q \<noteq> 0" "\<not> mc_stop ctx" "start_workers n True ctx sn = (ctx', sn', acts)"
  shows "\<exists>now. mc_responses ctx = now @ mc_responses ctx' \<and> acts = sent_as q now \<and> length now \<le> n
    \<and> mc_sn ctx' = q \<and> mc_ignore_4xx ctx' = mc_ignore_4xx ctx
    \<and> (0 < n \<and> now = [] \<longrightarrow> mc_stop ctx') \<and> (mc_stop ctx' \<longrightarrow> mc_responses ctx' = [])"
  using assms
proof (induction n arbitrary: ctx sn acts)
  case 0
  then show ?case by (intro exI [of _ "[]"]) simp
next
  case (Suc n)
  obtain ctx1 sn1 acts1 where one: "do_send_response True ctx sn = (ctx1, sn1, acts1)" by (metis prod_cases3)
  obtain ctx2 sn2 acts2 where rest: "start_workers n True ctx1 sn1 = (ctx2, sn2, acts2)" by (metis prod_cases3)
  have eq: "ctx2 = ctx'" "acts = acts1 @ acts2" using Suc.prems(4) one rest by simp_all
  obtain now where now: "mc_responses ctx = now @ mc_responses ctx1" "acts1 = sent_as q now" "length now \<le> 1"
    "mc_sn ctx1 = q" "mc_ignore_4xx ctx1 = mc_ignore_4xx ctx" "now = [] \<longrightarrow> mc_stop ctx1"
    "mc_stop ctx1 \<longrightarrow> mc_responses ctx1 = []"
    using worker_step [OF Suc.prems(1,2) one] Suc.prems(3) by blast
  show ?case
  proof (cases "mc_stop ctx1")
    case True
    have stopped: "mc_stop c \<Longrightarrow> start_workers k True c s = (c, s, [])" for k c s
      by (induction k) (simp_all add: do_send_response_def)
    show ?thesis using now True rest eq Suc.prems stopped [of ctx1 n sn1]
      by (intro exI [of _ now]) auto
  next
    case False
    have "start_workers n True ctx1 sn1 = (ctx', sn', acts2)" using Suc.prems(4) one rest by simp
    from Suc.IH [OF now(4) Suc.prems(2) False this] obtain now' where
      "mc_responses ctx1 = now' @ mc_responses ctx'" "acts2 = sent_as q now'" "length now' \<le> n"
      "mc_sn ctx' = q" "mc_ignore_4xx ctx' = mc_ignore_4xx ctx1" "mc_stop ctx' \<longrightarrow> mc_responses ctx' = []"
      by blast
    then show ?thesis using now False eq by (intro exI [of _ "now @ now'"]) auto
  qed
qed

text \<open>What holds in a run: some front part of the responses has been sent, and the rest waits.\<close>

lemma multi_run_state:
  assumes "multi_process (Some (q, device_id)) listeners = (200, Some ctx0)" "q \<noteq> 0" "0 \<le> concurrency"
    and "multi_run client_error ms concurrency ignore_4xx ctx0 sn0 ctx sn sent n failed"
  shows "(\<exists>now. ms = now @ mc_responses ctx \<and> sent = sent_as q now) \<and> n \<le> (if concurrency = 0 then 1 else nat concurrency)
    \<and> mc_sn ctx = q \<and> (n = 0 \<longrightarrow> mc_stop ctx) \<and> (mc_stop ctx \<longrightarrow> failed \<or> mc_responses ctx = [])"
proof -
  let ?w = "if concurrency = 0 then 1 else nat concurrency"
  have fresh: "\<not> mc_flag ctx0" "mc_sn ctx0 = q" "\<not> mc_stop ctx0"
    using assms(1) by (auto simp: multi_process_def Let_def split: if_splits)
  show ?thesis
    using assms(4)
  proof (induction rule: multi_run.induct)
    case (multi_start ctx sn acts)
    let ?ctx = "ctx0\<lparr>mc_flag := True, mc_timeout := False, mc_responses := ms, mc_ignore_4xx := ignore_4xx\<rparr>"
    have st: "mc_sn ?ctx = q" "\<not> mc_stop ?ctx" "start_workers ?w True ?ctx sn0 = (ctx, sn, acts)"
      using multi_start fresh by (simp_all add: multi_respond_def)
    from workers_start [OF st(1) assms(2) st(2,3)] obtain now where
      now: "ms = now @ mc_responses ctx" "acts = sent_as q now" "length now \<le> ?w" "mc_sn ctx = q"
      "0 < ?w \<and> now = [] \<longrightarrow> mc_stop ctx" "mc_stop ctx \<longrightarrow> mc_responses ctx = []" by auto
    have "0 < ?w" using assms(3) by simp
    then show ?case using now by (cases now) auto
  next
    case (multi_step ctx sn sent n failed status code ctx' sn' acts)
    let ?bad = "status \<noteq> Succeeded \<and> \<not> (mc_ignore_4xx ctx \<and> client_error code \<and> code \<noteq> 408)"
    show ?case
    proof (cases ?bad)
      case True
      then have "ctx' = ctx\<lparr>mc_stop := True\<rparr>" "acts = []" using multi_step.hyps(2) by (auto simp: multi_done_def)
      then show ?thesis using multi_step.IH True by auto
    next
      case False
      then have "do_send_response True ctx sn = (ctx', sn', acts)"
        using multi_step.hyps(2) unfolding multi_done_def by (simp only: if_False)
      from worker_step [OF _ assms(2) this] multi_step.IH obtain now where
        now: "mc_responses ctx = now @ mc_responses ctx'" "acts = sent_as q now" "length now \<le> 1" "mc_sn ctx' = q"
        "now = [] \<longrightarrow> mc_stop ctx'" "mc_stop ctx' \<longrightarrow> mc_stop ctx \<or> mc_responses ctx' = []" by blast
      from multi_step.IH obtain before where "ms = before @ mc_responses ctx" "sent = sent_as q before" by blast
      then have "ms = (before @ now) @ mc_responses ctx'" "sent @ acts = sent_as q (before @ now)" using now by simp_all
      moreover have "n + length acts = 0 \<longrightarrow> mc_stop ctx'" using now by auto
      moreover have "mc_stop ctx \<longrightarrow> failed \<or> mc_responses ctx' = []" using multi_step.IH now by auto
      ultimately show ?thesis using multi_step.IH now by auto
    qed
  qed
qed

text \<open>When all are reported back without a failure, all have been sent.\<close>

lemma multi_all_sent:
  assumes "multi_process (Some (q, device_id)) listeners = (200, Some ctx0)" "q \<noteq> 0" "0 \<le> concurrency"
    and "multi_run client_error ms concurrency ignore_4xx ctx0 sn0 ctx sn sent 0 False"
  shows "sent = sent_as q ms"
  using multi_run_state [OF assms] by auto

text \<open>C29. The responses of a multi-part answer are sent in order, none twice and none left out, under the number of the
query, with at most as many under way as workers were asked for. When all are reported back without a
failure that stops the workers, everything has been sent.\<close>

theorem multi_responses_in_order:
  assumes "multi_process (Some (q, device_id)) listeners = (200, Some ctx0)" "q \<noteq> 0" "0 \<le> concurrency"
    and "multi_run client_error ms concurrency ignore_4xx ctx0 sn0 ctx sn sent n failed"
  shows "(\<exists>k \<le> length ms. sent = map (\<lambda>m. Send q (m\<lparr>mb_sn := q\<rparr>)) (take k ms) \<and> mc_responses ctx = drop k ms)
    \<and> int n \<le> max 1 concurrency
    \<and> (n = 0 \<and> \<not> failed \<longrightarrow> sent = map (\<lambda>m. Send q (m\<lparr>mb_sn := q\<rparr>)) ms)"
proof -
  obtain now where now: "ms = now @ mc_responses ctx" "sent = sent_as q now" "n \<le> (if concurrency = 0 then 1 else nat concurrency)"
    "n = 0 \<longrightarrow> mc_stop ctx" "mc_stop ctx \<longrightarrow> failed \<or> mc_responses ctx = []"
    using multi_run_state [OF assms] by blast
  then have "length now \<le> length ms" "now = take (length now) ms" "mc_responses ctx = drop (length now) ms"
    by simp_all
  moreover have "int n \<le> max 1 concurrency" using now(3) assms(3) by (auto split: if_splits)
  moreover have "n = 0 \<and> \<not> failed \<longrightarrow> now = ms" using now by auto
  ultimately show ?thesis using now(2) unfolding sent_as_def by metis
qed

lemma multi_responses_in_order_witness:
  "\<exists>ctx sn. multi_run (\<lambda>c. 400 \<le> c) [create_Preset ''1'', create_Preset ''2''] 0 False
      \<lparr>mc_flag = False, mc_timeout = True, mc_sn = 7, mc_device_id = None, mc_responses = [], mc_stop = False,
       mc_ignore_4xx = False\<rparr> 40 ctx sn
      [Send 7 ((create_Preset ''1'')\<lparr>mb_sn := 7\<rparr>), Send 7 ((create_Preset ''2'')\<lparr>mb_sn := 7\<rparr>)] 0 False"
proof -
  let ?ms = "[create_Preset ''1'', create_Preset ''2'']"
  let ?ctx = "\<lparr>mc_flag = False, mc_timeout = True, mc_sn = 7, mc_device_id = None, mc_responses = [], mc_stop = False,
       mc_ignore_4xx = False\<rparr>"
  let ?c = "\<lambda>ms stop. ?ctx\<lparr>mc_flag := True, mc_timeout := False, mc_responses := ms, mc_stop := stop\<rparr>"
  have p: "multi_process (Some (7, None)) 1 = (200, Some ?ctx)" by (simp add: multi_process_def Let_def)
  have a: "multi_respond True ?ms 0 False ?ctx 40 = (?c [create_Preset ''2''] False, 40, [Send 7 ((create_Preset ''1'')\<lparr>mb_sn := 7\<rparr>)])"
    by (simp add: multi_respond_def do_send_response_def send_response_def Let_def)
  have b: "multi_done (\<lambda>c. 400 \<le> c) True Succeeded 200 (?c [create_Preset ''2''] False) 40
      = (?c [] False, 40, [Send 7 ((create_Preset ''2'')\<lparr>mb_sn := 7\<rparr>)])"
    and c: "multi_done (\<lambda>c. 400 \<le> c) True Succeeded 200 (?c [] False) 40 = (?c [] True, 40, [])"
    by (simp_all add: multi_done_def do_send_response_def send_response_def Let_def)
  let ?a1 = "Send 7 ((create_Preset ''1'')\<lparr>mb_sn := 7\<rparr>)" and ?a2 = "Send 7 ((create_Preset ''2'')\<lparr>mb_sn := 7\<rparr>)"
  have r0: "multi_run (\<lambda>c. 400 \<le> c) ?ms 0 False ?ctx 40 (?c [create_Preset ''2''] False) 40 [?a1] (Suc 0) False"
    using multi_start [OF a, of "\<lambda>c. 400 \<le> c"] by simp
  have r1: "multi_run (\<lambda>c. 400 \<le> c) ?ms 0 False ?ctx 40 (?c [] False) 40 [?a1, ?a2] (Suc 0) False"
    using multi_step [OF r0 b] by simp
  have r2: "multi_run (\<lambda>c. 400 \<le> c) ?ms 0 False ?ctx 40 (?c [] True) 40 [?a1, ?a2] 0 False"
    using multi_step [OF r1 c] by simp
  from multi_responses_in_order [OF p _ _ r2] r2 show ?thesis by auto
qed

section \<open>The number an answer travels under\<close>

text \<open>The answer to a query with one response does not carry the number of the query. The handler stores the
query's number in the response, but the proxy it makes takes a new number of the own platform and overwrites it: the
asking platform, for which the query is pending under another number, never relates the answer to it.\<close>

theorem single_answer_under_wrong_number:
  assumes "one_process (Some (q, device_id)) listeners = (200, Some ctx)"
    and "system_run success info foreign s" "length (sy_proxies s) < 2 ^ 31 - 1" "k < length (sy_proxies s)"
    and "pq_sn (sy_proxies s ! k) = q" "sn \<noteq> q"
  shows "\<exists>m'. snd (snd (one_respond True m ctx sn)) = [Send sn m'] \<and> mb_sn m' = sn
    \<and> find_request_proxy (mb_sn m') (sy_map s) \<noteq> Some k"
proof -
  have ctx: "\<not> oc_flag ctx" using assms(1) by (auto simp: one_process_def Let_def split: if_splits)
  have "snd (snd (one_respond True m ctx sn)) = [Send sn (m\<lparr>mb_sn := sn\<rparr>)]"
    using ctx by (simp add: one_respond_def send_response_def get_new_sn_def Let_def)
  moreover have "find_request_proxy sn (sy_map s) \<noteq> Some k"
    using tracked_reachable [OF assms(2,3)] trackedD(4) assms(5,6) by blast
  ultimately show ?thesis by simp
qed

lemma single_answer_under_wrong_number_witness:
  "\<exists>s ctx. find_request_proxy 1 (sy_map s) = Some 0
     \<and> (\<exists>m'. snd (snd (one_respond True (create_DeviceInfo ''34'') ctx 9)) = [Send 9 m']
         \<and> find_request_proxy (mb_sn m') (sy_map (s :: system)) \<noteq> Some 0)"
proof -
  let ?a = "create C_Plain OneResponse 0 0 True True system_new"
  let ?s = "run_on 0 (send 0 (Some (True, [])) True) ?a"
  have run: "system_run ok_code info_code [] ?s"
    by (intro sys_send sys_create sys_new; code_simp)
  have "length (sy_proxies ?s) = 1" by code_simp
  then have len: "length (sy_proxies ?s) < 2 ^ 31 - 1" "0 < length (sy_proxies ?s)" by simp_all
  have sn: "pq_sn (sy_proxies ?s ! 0) = 1" "find_request_proxy 1 (sy_map ?s) = Some 0" by code_simp+
  have p: "one_process (Some (1, Some ''34'')) 1 =
      (200, Some \<lparr>oc_flag = False, oc_timeout = True, oc_sn = 1, oc_device_id = Some ''34''\<rparr>)" by code_simp
  from single_answer_under_wrong_number [OF p run len sn(1), of 9 "create_DeviceInfo ''34''"] sn(2)
  show ?thesis by auto
qed

end
