(* ===== verification/Sip_Session.thy ===== *)
theory Sip_Session
  imports Prelude
begin

text \<open>
  A SIP session over a socket (\<open>src/inner/sip_session.cpp\<close>): the address of the peer, the transport callbacks of
  the SIP library, and the framing of received bytes into SIP messages. The HTTP parser and the message objects of
  the SIP library are parameters; a socket is described by its family and by the peer it is connected to.
\<close>

section \<open>Addresses\<close>

datatype sockaddr =
    AF_INET u32 u16 \<comment> \<open>address and port\<close>
  | AF_INET6 "128 word" u16 u32 \<comment> \<open>address, port and scope\<close>

datatype family = Inet | Inet6

definition family_of :: "sockaddr \<Rightarrow> family" where
  "family_of a = (case a of AF_INET _ _ \<Rightarrow> Inet | AF_INET6 _ _ _ \<Rightarrow> Inet6)"

text \<open>A storage of another family is \<open>None\<close>.\<close>

definition areAddressesEqual :: "sockaddr option \<Rightarrow> sockaddr option \<Rightarrow> bool" where
  "areAddressesEqual a b =
     (case (a, b) of
        (Some (AF_INET x p), Some (AF_INET y q)) \<Rightarrow> p = q \<and> x = y
      | (Some (AF_INET6 x p c), Some (AF_INET6 y q d)) \<Rightarrow> p = q \<and> x = y \<and> c = d
      | _ \<Rightarrow> False)"

lemma areAddressesEqual_iff: "areAddressesEqual a b \<longleftrightarrow> a \<noteq> None \<and> a = b"
  by (cases a; cases b; cases "the a"; cases "the b") (auto simp: areAddressesEqual_def)

text \<open>\<open>IN6_IS_ADDR_V4MAPPED\<close>: ten octets 0 and two octets 255 before the IPv4 address.\<close>

definition v4mapped :: "128 word \<Rightarrow> bool" where
  "v4mapped a \<longleftrightarrow> drop_bit 32 a = mask 16"

text \<open>
  \<open>make_peer_addr\<close>: the address is rewritten in place into the family of the local socket, \<open>None\<close> when that
  cannot be found out.
\<close>

definition make_peer_addr :: "family option \<Rightarrow> sockaddr \<Rightarrow> sockaddr \<times> bool" where
  "make_peer_addr local_addr addr =
     (case local_addr of
        None \<Rightarrow> (addr, False)
      | Some f \<Rightarrow>
          if f = family_of addr then (addr, True)
          else case addr of
            AF_INET6 a p s \<Rightarrow> if v4mapped a then (AF_INET (ucast a) p, True) else (addr, False)
          | AF_INET a p \<Rightarrow> (AF_INET6 (push_bit 32 (mask 16) OR ucast a) p 0, True))"

lemma map_unmap: "v4mapped (push_bit 32 (mask 16) OR ucast (a :: u32))"
  unfolding v4mapped_def by (rule bit_word_eqI) (auto simp: bit_simps dest: bit_imp_le_length)

lemma unmap_of_map: "ucast (push_bit 32 (mask 16) OR ucast a :: 128 word) = (a :: u32)"
  by (rule bit_word_eqI) (auto simp: bit_simps)

lemma unmap_map:
  assumes "v4mapped a"
  shows "push_bit 32 (mask 16) OR ucast (ucast a :: u32) = a"
proof (rule bit_word_eqI)
  fix n assume n: "n < LENGTH(128)"
  have *: "bit (drop_bit 32 a) k = bit (mask 16 :: 128 word) k" for k using assms by (simp add: v4mapped_def)
  show "bit (push_bit 32 (mask 16) OR ucast (ucast a :: u32) :: 128 word) n = bit a n"
  proof (cases "n < 32")
    case True
    then show ?thesis using n by (simp add: bit_simps)
  next
    case False
    then have "n = 32 + (n - 32)" by simp
    then show ?thesis using n False * [of "n - 32"] by (auto simp: bit_simps)
  qed
qed

section \<open>Peers\<close>

record sip_session =
  se_udp :: bool
  se_peer_ip :: string \<comment> \<open>the peer the socket is connected to, or nothing\<close>
  se_peer_port :: u16
  se_family :: "family option" \<comment> \<open>of the local address of the socket\<close>
  se_addr :: "sockaddr option"
  se_local_ip :: string
  se_local_port :: u16
  se_ticker :: u64 \<comment> \<open>when the ticker was reset\<close>

text \<open>\<open>set_peer\<close> on an address, which is rewritten in place.\<close>

definition set_peer_addr :: "sockaddr option \<Rightarrow> sip_session \<Rightarrow> sip_session \<times> sockaddr option" where
  "set_peer_addr addr s =
     (if \<not> se_udp s \<or> se_peer_ip s \<noteq> [] then (s, addr)
      else case addr of
        None \<Rightarrow> (s, addr)
      | Some a \<Rightarrow> (case make_peer_addr (se_family s) a of (a', ok) \<Rightarrow>
          ((if ok then s\<lparr>se_addr := Some a'\<rparr> else s), Some a')))"

text \<open>\<open>set_peer\<close> on a host: \<open>make_sockaddr\<close> throws when it is no IP address, which is \<open>None\<close>.\<close>

definition set_peer ::
    "(string \<Rightarrow> u16 \<Rightarrow> sockaddr option) \<Rightarrow> string \<Rightarrow> u16 \<Rightarrow> sip_session \<Rightarrow> sip_session option" where
  "set_peer make_sockaddr host port s =
     (if \<not> se_udp s \<or> se_peer_ip s \<noteq> [] then Some s
      else case make_sockaddr host port of
        None \<Rightarrow> None
      | Some a \<Rightarrow> Some (fst (set_peer_addr (Some a) s)))"

definition set_local_ip :: "string \<Rightarrow> sip_session \<Rightarrow> sip_session" where
  "set_local_ip ip s = s\<lparr>se_local_ip := ip\<rparr>"

definition set_local_port :: "u16 \<Rightarrow> sip_session \<Rightarrow> sip_session" where
  "set_local_port port s = s\<lparr>se_local_port := port\<rparr>"

section \<open>Transport callbacks\<close>

text \<open>
  \<open>sip_via\<close>: the protocol and the local address for a Via header. \<open>sock_ip\<close> is what \<open>get_local_ip\<close> finds for the
  socket (\<open>None\<close> without a socket), \<open>host_ip\<close> what it finds for the host, \<open>sock_port\<close> the port of the socket.
  \<open>snprintf\<close> cuts the text to its buffer.
\<close>

definition sip_via :: "string option \<Rightarrow> string \<Rightarrow> u16 \<Rightarrow> sip_session \<Rightarrow> sip_session \<times> string \<times> string" where
  "sip_via sock_ip host_ip sock_port s =
     (let s = (if se_local_ip s = [] then s\<lparr>se_local_ip := (case sock_ip of None \<Rightarrow> [] | Some ip \<Rightarrow> ip)\<rparr> else s);
          s = (if se_local_ip s = [] then s\<lparr>se_local_ip := host_ip\<rparr> else s)
      in (s, if se_udp s then ''UDP'' else ''TCP'', take 127 (se_local_ip s @ '':'' @ show_nat (unat sock_port))))"

text \<open>\<open>sip_send\<close>: what is done with the bytes.\<close>

datatype transmission = sip_unknown_host | SendTo sockaddr string | SendPeer string

definition sip_send :: "u64 \<Rightarrow> string \<Rightarrow> sip_session \<Rightarrow> sip_session \<times> transmission" where
  "sip_send now data s =
     (if se_udp s \<and> se_peer_ip s = [] then
        (case se_addr s of None \<Rightarrow> (s, sip_unknown_host) | Some a \<Rightarrow> (s\<lparr>se_ticker := now\<rparr>, SendTo a data))
      else (s\<lparr>se_ticker := now\<rparr>, SendPeer data))"

definition sip_send_reply :: "u64 \<Rightarrow> string \<Rightarrow> sip_session \<Rightarrow> sip_session \<times> transmission" where
  "sip_send_reply now data s = (s\<lparr>se_ticker := now\<rparr>, SendPeer data)"

text \<open>\<open>onManager\<close>: whether the session is shut down; the clock counts milliseconds.\<close>

definition onManager :: "u64 \<Rightarrow> sip_session \<Rightarrow> bool" where
  "onManager now s \<longleftrightarrow> 60 * 1000 < now - se_ticker s"

section \<open>Framing\<close>

datatype wait_type = SIP_MESSAGE_TYPE_RESPONSE | SIP_MESSAGE_TYPE_REQUEST | SIP_MESSAGE_TYPE_NEED_MORE

record 'p receiver = sip_session +
  rc_handling :: bool
  rc_wait_type :: wait_type
  rc_parse :: "'p option"
  rc_buffers :: "string list"
  rc_message_buffer :: "string option"

text \<open>What is used of the libraries: the method names, a new parser, its input with the code and the number of bytes left, and the message.\<close>

record ('p, 'm) sip_library =
  sl_methods :: "string list"
  sl_create :: "wait_type \<Rightarrow> 'p"
  sl_input :: "'p \<Rightarrow> string \<Rightarrow> 'p \<times> int \<times> nat"
  sl_load :: "wait_type \<Rightarrow> 'p \<Rightarrow> 'm option"
  sl_set_rport :: "string \<Rightarrow> u16 \<Rightarrow> 'm \<Rightarrow> 'm"

datatype session_fault = Overread | NullParser

definition find_pos :: "string \<Rightarrow> string \<Rightarrow> nat option" where
  "find_pos pat s = map_option (\<lambda>(a, b). length a) (find_sub pat s)"

definition isblank :: "char \<Rightarrow> bool" where
  "isblank c \<longleftrightarrow> c = CHR '' '' \<or> c = CHR 0x09"

definition check_status :: "string \<Rightarrow> nat \<Rightarrow> bool" where
  "check_status line sip_pos \<longleftrightarrow> sip_pos + 7 + 4 \<le> length line \<and> isblank (line ! (sip_pos + 7))
     \<and> is_digit (line ! (sip_pos + 8)) \<and> is_digit (line ! (sip_pos + 9)) \<and> is_digit (line ! (sip_pos + 10))"

fun check_methods :: "string list \<Rightarrow> string \<Rightarrow> nat \<Rightarrow> nat option" where
  "check_methods [] line sip_pos = None"
| "check_methods (pattern # patterns) line sip_pos =
     (case find_pos pattern line of
        None \<Rightarrow> check_methods patterns line sip_pos
      | Some method_start \<Rightarrow>
          if method_start < sip_pos \<and> isblank (line ! (method_start + length pattern)) then Some method_start
          else check_methods patterns line sip_pos)"

text \<open>\<open>check_line\<close>: the kind of message a line starts, and where.\<close>

definition check_line :: "string list \<Rightarrow> string \<Rightarrow> (wait_type \<times> nat) option" where
  "check_line methods line =
     (case find_pos ''SIP/2.0'' line of
        None \<Rightarrow> None
      | Some sip_pos \<Rightarrow>
          if check_status line sip_pos then Some (SIP_MESSAGE_TYPE_RESPONSE, sip_pos)
          else map_option (\<lambda>k. (SIP_MESSAGE_TYPE_REQUEST, k)) (check_methods methods line sip_pos))"

text \<open>The search for a line feed from a position on.\<close>

definition find_lf :: "nat \<Rightarrow> string \<Rightarrow> nat option" where
  "find_lf pos data = map_option (\<lambda>k. pos + k) (find_pos [CHR 0x0A] (drop pos data))"

text \<open>
  The loop over the lines. \<open>substr\<close> is given the end of the line as its count, so a line after the first one is
  looked at together with what follows it.
\<close>

function scan_lines :: "string list \<Rightarrow> string \<Rightarrow> nat \<Rightarrow> nat \<Rightarrow> (wait_type \<times> nat \<times> nat) option" where
  "scan_lines methods data pos crlf_pos =
     (case check_line methods (take crlf_pos (drop pos data)) of
        Some (t, start) \<Rightarrow> Some (t, pos, start)
      | None \<Rightarrow>
          if length data \<le> crlf_pos + 1 \<or> crlf_pos < pos then None
          else case find_lf (crlf_pos + 1) data of
            None \<Rightarrow> None
          | Some crlf \<Rightarrow> scan_lines methods data (crlf_pos + 1) crlf)"
  by pat_completeness auto
termination
  by (relation "measure (\<lambda>(methods, data, pos, crlf_pos). length data - pos)") auto

declare scan_lines.simps [simp del]

text \<open>
  \<open>get_buffer\<close>: with nothing kept from before, a message that does not start at the first byte is copied with the
  length of the whole packet, beyond the packet's end.
\<close>

definition get_buffer :: "string option \<Rightarrow> string \<Rightarrow> nat \<Rightarrow> nat \<Rightarrow> session_fault + string" where
  "get_buffer message_buffer buffer pos start =
     (if pos = 0 \<and> start = 0 then Inr (case message_buffer of None \<Rightarrow> buffer | Some b \<Rightarrow> b)
      else case message_buffer of
        Some b \<Rightarrow> Inr (drop (pos + start) b)
      | None \<Rightarrow> Inl Overread)"

definition get_sip_message_type ::
    "('p, 'm) sip_library \<Rightarrow> string \<Rightarrow> 'p receiver \<Rightarrow> session_fault + ('p receiver \<times> string option)" where
  "get_sip_message_type lib buffer s =
     (if buffer = [] then Inr (s, None)
      else
        (let s = s\<lparr>rc_message_buffer := map_option (\<lambda>b. b @ buffer) (rc_message_buffer s)\<rparr>;
             data = (case rc_message_buffer s of None \<Rightarrow> buffer | Some b \<Rightarrow> b)
         in case find_lf 0 data of
              None \<Rightarrow>
                (case rc_message_buffer s of
                   None \<Rightarrow> Inr (s, None)
                 | Some b \<Rightarrow>
                     if 8 * 1024 < length b
                     then if length buffer < 1024 then Inl Overread
                          else Inr (s\<lparr>rc_message_buffer := Some (drop (length buffer - 1024) buffer)\<rparr>, None)
                     else Inr (s, None))
            | Some crlf_pos \<Rightarrow>
                (case scan_lines (sl_methods lib) data 0 crlf_pos of
                   None \<Rightarrow> Inr (s, None)
                 | Some (t, pos, start) \<Rightarrow>
                     (let s = s\<lparr>rc_wait_type := t, rc_parse := Some (sl_create lib t)\<rparr>
                      in case get_buffer (rc_message_buffer s) buffer pos start of
                           Inl e \<Rightarrow> Inl e
                         | Inr b \<Rightarrow> Inr (s\<lparr>rc_message_buffer := None\<rparr>, Some b)))))"

text \<open>One call of the parser: the bytes it leaves are put back, and a complete message is handed on.\<close>

definition parse_buffer ::
    "('p, 'm) sip_library \<Rightarrow> string \<Rightarrow> 'p receiver \<Rightarrow> session_fault + ('p receiver \<times> 'm list)" where
  "parse_buffer lib buffer s =
     (case rc_parse s of
        None \<Rightarrow> Inl NullParser
      | Some p \<Rightarrow> (case sl_input lib p buffer of (p, ret, len) \<Rightarrow>
          (let s = s\<lparr>rc_parse := Some p\<rparr>
           in if ret = 1 then Inr (s, [])
              else let s = (if 0 < len \<and> len < length buffer
                            then s\<lparr>rc_buffers := drop (length buffer - len) buffer # rc_buffers s\<rparr> else s)
                   in if ret = 0
                      then case sl_load lib (rc_wait_type s) p of
                             None \<Rightarrow> Inr (s\<lparr>rc_wait_type := SIP_MESSAGE_TYPE_NEED_MORE\<rparr>, [])
                           | Some m \<Rightarrow> Inr (s\<lparr>rc_parse := None, rc_wait_type := SIP_MESSAGE_TYPE_NEED_MORE\<rparr>,
                               [sl_set_rport lib (se_peer_ip s) (se_peer_port s) m])
                      else Inr (s\<lparr>rc_wait_type := SIP_MESSAGE_TYPE_NEED_MORE\<rparr>, []))))"

text \<open>Every turn of the loop uses up a byte or a buffer.\<close>

definition unread :: "'p receiver \<Rightarrow> nat" where
  "unread s = length (case rc_message_buffer s of None \<Rightarrow> [] | Some b \<Rightarrow> b)
     + sum_list (map (\<lambda>b. Suc (length b)) (rc_buffers s))"

lemma get_buffer_unread:
  "get_buffer mb buffer pos start = Inr b \<Longrightarrow> length b \<le> length (case mb of None \<Rightarrow> buffer | Some b \<Rightarrow> b)"
  by (auto simp: get_buffer_def split: if_splits option.splits)

lemma get_sip_message_type_unread:
  assumes "get_sip_message_type lib buffer s = Inr (s', r)"
  shows "unread s' + length (case r of None \<Rightarrow> [] | Some b \<Rightarrow> b) \<le> unread s + length buffer"
  using assms
  by (auto simp: get_sip_message_type_def unread_def Let_def split: if_splits option.splits sum.splits
      dest!: get_buffer_unread)

lemma parse_buffer_unread:
  assumes "parse_buffer lib buffer s = Inr (s', ms)"
  shows "unread s' \<le> unread s + length buffer"
  using assms
  by (auto simp: parse_buffer_def unread_def Let_def split: if_splits option.splits sum.splits prod.splits)

text \<open>A turn of the loop with the buffer it takes from the queue.\<close>

definition handle_front ::
    "('p, 'm) sip_library \<Rightarrow> string \<Rightarrow> 'p receiver \<Rightarrow> session_fault + ('p receiver \<times> 'm list)" where
  "handle_front lib front s =
     (case (if rc_wait_type s = SIP_MESSAGE_TYPE_NEED_MORE then get_sip_message_type lib front s
            else Inr (s, Some front)) of
        Inl e \<Rightarrow> Inl e
      | Inr (s', None) \<Rightarrow> Inr (s', [])
      | Inr (s', Some buffer) \<Rightarrow>
          if buffer = [] \<or> rc_wait_type s' = SIP_MESSAGE_TYPE_NEED_MORE then Inr (s', [])
          else parse_buffer lib buffer s')"

lemma handle_front_unread:
  assumes "handle_front lib front s = Inr (s', ms)"
  shows "unread s' \<le> unread s + length front"
proof (cases "rc_wait_type s = SIP_MESSAGE_TYPE_NEED_MORE")
  case True
  then obtain s1 r where got: "get_sip_message_type lib front s = Inr (s1, r)"
    using assms by (auto simp: handle_front_def split: sum.splits)
  have "unread s' \<le> unread s1 + length (case r of None \<Rightarrow> [] | Some b \<Rightarrow> b)"
    using assms True got parse_buffer_unread [of lib "the r" s1 s' ms]
    by (auto simp: handle_front_def split: option.splits if_splits)
  then show ?thesis using get_sip_message_type_unread [OF got] by linarith
next
  case False
  then show ?thesis
    using assms parse_buffer_unread [of lib front s s' ms] by (auto simp: handle_front_def split: if_splits)
qed

function handle_loop :: "('p, 'm) sip_library \<Rightarrow> 'p receiver \<Rightarrow> session_fault + ('p receiver \<times> 'm list)" where
  "handle_loop lib s =
     (case rc_buffers s of
        [] \<Rightarrow> Inr (s, [])
      | front # rest \<Rightarrow>
          (case handle_front lib front (s\<lparr>rc_buffers := rest\<rparr>) of
             Inl e \<Rightarrow> Inl e
           | Inr (s', ms) \<Rightarrow> (case handle_loop lib s' of
               Inl e \<Rightarrow> Inl e
             | Inr (s'', ms') \<Rightarrow> Inr (s'', ms @ ms'))))"
  by pat_completeness auto
termination
proof (relation "measure (\<lambda>(lib, s). unread s)", simp)
  fix lib :: "('p, 'm) sip_library" and s front rest s' ms and q :: "'p receiver \<times> 'm list"
  assume "rc_buffers s = front # rest" "handle_front lib front (s\<lparr>rc_buffers := rest\<rparr>) = Inr q" "(s', ms) = q"
  then show "((lib, s'), (lib, s)) \<in> measure (\<lambda>(lib, s). unread s)"
    using handle_front_unread [of lib front "s\<lparr>rc_buffers := rest\<rparr>" s' ms] by (simp add: unread_def)
qed

declare handle_loop.simps [simp del]

text \<open>\<open>handle_recv\<close> and \<open>onRecv\<close>, which queues a packet and schedules the former.\<close>

definition handle_recv :: "('p, 'm) sip_library \<Rightarrow> 'p receiver \<Rightarrow> session_fault + ('p receiver \<times> 'm list)" where
  "handle_recv lib s =
     (if rc_handling s then Inr (s, [])
      else case handle_loop lib (s\<lparr>rc_handling := True\<rparr>) of
        Inl e \<Rightarrow> Inl e
      | Inr (s, ms) \<Rightarrow> Inr (s\<lparr>rc_handling := False\<rparr>, ms))"

definition onRecv :: "u64 \<Rightarrow> string \<Rightarrow> 'p receiver \<Rightarrow> 'p receiver" where
  "onRecv now buffer s = s\<lparr>se_ticker := now, rc_buffers := rc_buffers s @ [buffer]\<rparr>"

end
