(* ===== verification/Platform_Helper.thy ===== *)
theory Platform_Helper
  imports Records Sip_Session
begin

text \<open>
  What both kinds of platform share (\<open>src/platform_helper.cpp\<close>): their addresses and URIs, and the sessions their
  messages are sent through. The account is that of the derived class. A TCP session is known by a number, as the
  program knows it by its pointer; the UDP sessions are kept per event poller, in the order of the program's map.
\<close>

record 'x platform_helper =
  ph_account :: "'x platform_account_scheme" \<comment> \<open>\<open>sip_account()\<close>\<close>
  ph_tcp_session :: "(nat \<times> sip_session) option"
  ph_remote_addr :: "sockaddr option"
  ph_udp_sessions :: "(nat \<times> sip_session) list" \<comment> \<open>\<open>udp_sip_session_map_\<close>\<close>
  ph_from_uri :: string
  ph_to_uri :: string
  ph_contact_uri :: string
  ph_status_cbs :: "nat set" \<comment> \<open>the keys of \<open>status_cbs_\<close>\<close>

section \<open>URIs\<close>

definition sip_uri :: "string \<Rightarrow> string \<Rightarrow> u16 \<Rightarrow> string" where
  "sip_uri user host port = ''sip:'' @ user @ ''@'' @ host @ '':'' @ show_nat (unat port)"

definition get_from_uri :: "('x, 'y) platform_helper_scheme \<Rightarrow> string" where
  "get_from_uri p = ph_from_uri p"

definition get_to_uri :: "('x, 'y) platform_helper_scheme \<Rightarrow> ('x, 'y) platform_helper_scheme \<times> string" where
  "get_to_uri p =
     (let p = (if ph_to_uri p = []
               then p\<lparr>ph_to_uri := sip_uri (sa_platform_id (ph_account p)) (sa_host (ph_account p)) (sa_port (ph_account p))\<rparr>
               else p)
      in (p, ph_to_uri p))"

definition get_contact_uri :: "('x, 'y) platform_helper_scheme \<Rightarrow> string" where
  "get_contact_uri p = (if ph_contact_uri p = [] then get_from_uri p else ph_contact_uri p)"

text \<open>
  \<open>update_remote_via\<close> with the address a peer saw: whether the contact changed, which is then broadcast. The port
  is compared at 32 bits and stored at 16.
\<close>

datatype contact_notice = ContactChanged string u16

definition update_remote_via ::
    "local_account \<Rightarrow> string \<times> u32 \<Rightarrow> ('x, 'y) platform_helper_scheme
      \<Rightarrow> ('x, 'y) platform_helper_scheme \<times> bool \<times> contact_notice list" where
  "update_remote_via server val p =
     (case val of (host, port) \<Rightarrow>
       if host = [] \<and> port = 0 then (p, False, [])
       else if sa_keep_local_host (ph_account p) then (p, False, [])
       else
         (let host_changed = (host \<noteq> [] \<and> sa_local_host (ph_account p) \<noteq> host);
              p = (if host_changed then p\<lparr>ph_account := (ph_account p)\<lparr>sa_local_host := host\<rparr>\<rparr> else p);
              port_changed = (port \<noteq> 0 \<and> ucast (sa_local_port (ph_account p)) \<noteq> port);
              p = (if port_changed then p\<lparr>ph_account := (ph_account p)\<lparr>sa_local_port := ucast port\<rparr>\<rparr> else p);
              changed = (host_changed \<or> port_changed)
          in if changed
             then (p\<lparr>ph_contact_uri := sip_uri (sa_platform_id server) (sa_local_host (ph_account p)) (sa_local_port (ph_account p)),
                     ph_tcp_session := map_option (\<lambda>(i, s). (i, set_local_port (ucast port) (set_local_ip host s))) (ph_tcp_session p)\<rparr>,
                   True, [ContactChanged (sa_local_host (ph_account p)) (sa_local_port (ph_account p))])
             else (p, False, [])))"

section \<open>The address of the peer\<close>

text \<open>The loop over the UDP sessions, each of which rewrites the address in place.\<close>

fun set_peers :: "sockaddr option \<Rightarrow> (nat \<times> sip_session) list \<Rightarrow> (nat \<times> sip_session) list" where
  "set_peers addr [] = []"
| "set_peers addr ((poller, s) # ss) =
     (case set_peer_addr addr s of (s', addr') \<Rightarrow> (poller, s') # set_peers addr' ss)"

definition on_platform_addr_changed ::
    "sockaddr option \<Rightarrow> ('x, 'y) platform_helper_scheme \<Rightarrow> ('x, 'y) platform_helper_scheme" where
  "on_platform_addr_changed addr p =
     (if addr \<noteq> None \<and> \<not> areAddressesEqual (ph_remote_addr p) addr
      then p\<lparr>ph_remote_addr := addr, ph_udp_sessions := set_peers addr (ph_udp_sessions p)\<rparr>
      else p)"

section \<open>Sessions\<close>

text \<open>\<open>set_tcp_session\<close>, and the error callback it installs.\<close>

definition set_tcp_session ::
    "nat \<Rightarrow> sip_session \<Rightarrow> ('x, 'y) platform_helper_scheme \<Rightarrow> ('x, 'y) platform_helper_scheme" where
  "set_tcp_session i s p = (if se_udp s then p else p\<lparr>ph_tcp_session := Some (i, s)\<rparr>)"

definition on_tcp_error :: "nat \<Rightarrow> ('x, 'y) platform_helper_scheme \<Rightarrow> ('x, 'y) platform_helper_scheme" where
  "on_tcp_error i p =
     (if map_option fst (ph_tcp_session p) = Some i then p\<lparr>ph_tcp_session := None\<rparr> else p)"

text \<open>
  \<open>get_session\<close> on a poller. The server's UDP sockets are given with the session that is made for each; \<open>None\<close> is a
  server that no longer exists. A missing socket makes \<open>at\<close> throw.
\<close>

datatype session_choice =
    TcpSession nat sip_session
  | UdpSession sip_session
  | ConnectTcp string u16
  | NoServer
  | PollerOutOfRange

definition server_socket :: "nat \<Rightarrow> (nat \<times> sip_session) list \<Rightarrow> sip_session option" where
  "server_socket poller sockets = (if length sockets = 1 then Some (snd (hd sockets)) else map_of sockets poller)"

definition get_session ::
    "(string \<Rightarrow> u16 \<Rightarrow> sockaddr option) \<Rightarrow> nat \<Rightarrow> (nat \<times> sip_session) list option \<Rightarrow> bool
      \<Rightarrow> ('x, 'y) platform_helper_scheme \<Rightarrow> ('x, 'y) platform_helper_scheme \<times> session_choice" where
  "get_session make_sockaddr poller server force_tcp p =
     (let is_udp = (\<not> force_tcp \<and> pa_transport_type (ph_account p) \<in> {Transport_udp, Transport_both})
      in case (if is_udp then None else ph_tcp_session p) of
           Some (i, s) \<Rightarrow> (p, TcpSession i s)
         | None \<Rightarrow>
             (case server of
                None \<Rightarrow> (p, NoServer)
              | Some sockets \<Rightarrow>
                  if is_udp
                  then (case map_of (ph_udp_sessions p) poller of
                          Some s \<Rightarrow> (p, UdpSession s)
                        | None \<Rightarrow> (case server_socket poller sockets of
                            None \<Rightarrow> (p, PollerOutOfRange)
                          | Some s \<Rightarrow>
                              (let (s, remote_addr) =
                                     (if ph_remote_addr p \<noteq> None then set_peer_addr (ph_remote_addr p) s
                                      else (case set_peer make_sockaddr (sa_host (ph_account p)) (sa_port (ph_account p)) s of
                                              None \<Rightarrow> s | Some s' \<Rightarrow> s', None));
                                   s = set_local_ip (sa_local_host (ph_account p)) s;
                                   s = set_local_port (sa_local_port (ph_account p)) s
                               in (p\<lparr>ph_remote_addr := remote_addr, ph_udp_sessions := ph_udp_sessions p @ [(poller, s)]\<rparr>,
                                   UdpSession s))))
                  else (p, ConnectTcp (sa_host (ph_account p)) (sa_port (ph_account p)))))"

text \<open>The callback of \<open>get_tcp_client\<close> with a connected session.\<close>

definition on_tcp_connected ::
    "nat \<Rightarrow> sip_session \<Rightarrow> ('x, 'y) platform_helper_scheme \<Rightarrow> ('x, 'y) platform_helper_scheme \<times> sip_session" where
  "on_tcp_connected i s p =
     (let s = set_local_port (sa_local_port (ph_account p)) (set_local_ip (sa_local_host (ph_account p)) s)
      in (if se_udp s then p else set_tcp_session i s p, s))"

text \<open>
  \<open>uac_send\<close>, \<open>uac_send2\<close> and \<open>uac_send3\<close> once the session is found or not: the report to the caller. \<open>sent\<close> is the
  code of \<open>sip_uac_send\<close>.
\<close>

definition uac_send_report :: "string option \<Rightarrow> sip_session option \<Rightarrow> int \<Rightarrow> bool \<times> string" where
  "uac_send_report error session sent =
     (case error of
        Some e \<Rightarrow> (False, e)
      | None \<Rightarrow>
          (case session of
             None \<Rightarrow> (False, ''got session failed'')
           | Some s \<Rightarrow> if sent \<noteq> 0 then (False, ''failed to send request, call sip_uac_send failed'') else (True, [])))"

section \<open>Status callbacks\<close>

definition set_platform_status_cb ::
    "nat \<Rightarrow> ('x, 'y) platform_helper_scheme \<Rightarrow> ('x, 'y) platform_helper_scheme" where
  "set_platform_status_cb user_data p = p\<lparr>ph_status_cbs := insert user_data (ph_status_cbs p)\<rparr>"

text \<open>\<open>remove_platform_status_cb\<close> erases the address of its parameter, not the parameter.\<close>

definition remove_platform_status_cb ::
    "nat \<Rightarrow> nat \<Rightarrow> ('x, 'y) platform_helper_scheme \<Rightarrow> ('x, 'y) platform_helper_scheme" where
  "remove_platform_status_cb address_of_user_data user_data p =
     p\<lparr>ph_status_cbs := ph_status_cbs p - {address_of_user_data}\<rparr>"

section \<open>UDP sessions follow the peer\<close>

text \<open>An address without the form it has for one family of sockets.\<close>

definition plain_addr :: "sockaddr \<Rightarrow> sockaddr" where
  "plain_addr a = (case a of
     AF_INET6 x p c \<Rightarrow> if v4mapped x then AF_INET (ucast x) p else a | AF_INET x p \<Rightarrow> a)"

text \<open>A socket of a family can send to an address.\<close>

definition reachable_by :: "family option \<Rightarrow> sockaddr \<Rightarrow> bool" where
  "reachable_by f a \<longleftrightarrow> snd (make_peer_addr f a)"

lemma plain_make_peer [simp]: "plain_addr (fst (make_peer_addr f a)) = plain_addr a"
  by (cases a) (auto simp: make_peer_addr_def plain_addr_def family_of_def map_unmap unmap_of_map split: option.splits)

lemma reachable_make_peer [simp]: "reachable_by f (fst (make_peer_addr g a)) = reachable_by f a"
  by (cases a; cases f; cases g)
     (auto simp: make_peer_addr_def reachable_by_def family_of_def map_unmap split: option.splits)

text \<open>The session sends to the address.\<close>

definition directed_to :: "sockaddr \<Rightarrow> sip_session \<Rightarrow> bool" where
  "directed_to a s \<longleftrightarrow> (se_udp s \<and> se_peer_ip s = [] \<and> reachable_by (se_family s) a \<longrightarrow>
     map_option plain_addr (se_addr s) = Some (plain_addr a))"

lemma directed_make_peer [simp]: "directed_to (fst (make_peer_addr f a)) s = directed_to a s"
  by (simp add: directed_to_def)

lemma set_peer_addr_directed:
  "set_peer_addr (Some a) s = (s', addr') \<Longrightarrow> directed_to a s' \<and> (\<exists>b. addr' = Some b \<and> directed_to b = directed_to a)"
proof -
  assume *: "set_peer_addr (Some a) s = (s', addr')"
  obtain b ok where m: "make_peer_addr (se_family s) a = (b, ok)" by fastforce
  have "plain_addr b = plain_addr a" using plain_make_peer [of "se_family s" a] m by simp
  moreover have "directed_to b = directed_to a" using directed_make_peer [of "se_family s" a] m by (simp add: fun_eq_iff)
  ultimately show ?thesis
    using * m by (auto simp: set_peer_addr_def directed_to_def reachable_by_def split: if_splits)
qed

lemma set_peers_directed: "(i, s) \<in> set (set_peers (Some a) ss) \<Longrightarrow> directed_to a s"
proof (induction "Some a" ss arbitrary: a rule: set_peers.induct)
  case (2 poller t ss)
  obtain t' addr' where t: "set_peer_addr (Some a) t = (t', addr')" by fastforce
  then obtain b where "directed_to a t'" "addr' = Some b" "directed_to b = directed_to a"
    using set_peer_addr_directed by blast
  then show ?case using 2 t by auto
qed simp

definition follows_peer :: "('x, 'y) platform_helper_scheme \<Rightarrow> bool" where
  "follows_peer p \<longleftrightarrow> (\<forall>a i s. ph_remote_addr p = Some a \<longrightarrow> (i, s) \<in> set (ph_udp_sessions p) \<longrightarrow> directed_to a s)"

lemma addr_changed_follows: "follows_peer p \<Longrightarrow> follows_peer (on_platform_addr_changed addr p)"
  by (auto simp: follows_peer_def on_platform_addr_changed_def dest: set_peers_directed)

lemma get_session_follows: "follows_peer p \<Longrightarrow> follows_peer (fst (get_session mk poller server force_tcp p))"
proof -
  assume *: "follows_peer p"
  have put: "follows_peer (p\<lparr>ph_remote_addr := r, ph_udp_sessions := ph_udp_sessions p @ [(poller, t)]\<rparr>)"
    if get: "(if ph_remote_addr p \<noteq> None then set_peer_addr (ph_remote_addr p) s else (u, None)) = (t0, r)"
      and t: "t = set_local_port port (set_local_ip host t0)" for s u t0 t r port host
  proof (cases "ph_remote_addr p")
    case None
    then show ?thesis using get by (simp add: follows_peer_def)
  next
    case (Some a)
    then obtain b where "directed_to a t0" "r = Some b" "directed_to b = directed_to a"
      using get set_peer_addr_directed [of a s t0 r] by auto
    moreover have "directed_to c t = directed_to c t0" for c
      unfolding t by (simp add: directed_to_def set_local_port_def set_local_ip_def)
    ultimately show ?thesis using * Some by (auto simp: follows_peer_def)
  qed
  show ?thesis using * by (auto simp: get_session_def Let_def put split: option.splits prod.splits)
qed

text \<open>The life of a platform, as far as its sessions are concerned.\<close>

inductive helper_run :: "('x, 'y) platform_helper_scheme \<Rightarrow> bool" where
  ph_new: "ph_udp_sessions p = [] \<Longrightarrow> helper_run p"
| ph_session: "helper_run p \<Longrightarrow> helper_run (fst (get_session mk poller server force_tcp p))"
| ph_moved: "helper_run p \<Longrightarrow> helper_run (on_platform_addr_changed addr p)"
| ph_via: "helper_run p \<Longrightarrow> helper_run (fst (update_remote_via server val p))"
| ph_tcp: "helper_run p \<Longrightarrow> helper_run (set_tcp_session i s p)"
| ph_error: "helper_run p \<Longrightarrow> helper_run (on_tcp_error i p)"

lemma via_keeps:
  "ph_udp_sessions (fst (update_remote_via server val p)) = ph_udp_sessions p"
  "ph_remote_addr (fst (update_remote_via server val p)) = ph_remote_addr p"
  by (simp_all add: update_remote_via_def Let_def split: prod.splits)

lemma run_follows: "helper_run p \<Longrightarrow> follows_peer p"
proof (induction rule: helper_run.induct)
  case (ph_new p)
  then show ?case by (simp add: follows_peer_def)
next
  case (ph_session p mk poller server force_tcp)
  show ?case by (rule get_session_follows [OF ph_session.IH])
next
  case (ph_moved p addr)
  show ?case by (rule addr_changed_follows [OF ph_moved.IH])
next
  case (ph_via p server val)
  then show ?case by (simp add: follows_peer_def via_keeps)
next
  case (ph_tcp p i s)
  then show ?case by (simp add: follows_peer_def set_tcp_session_def)
next
  case (ph_error p i)
  then show ?case by (simp add: follows_peer_def on_tcp_error_def)
qed

text \<open>C34. Whenever the address of a platform is known, every one of its cached UDP sessions sends to that address (in the
form of its socket's family), however the address changed after the session was made.\<close>

theorem udp_sessions_follow_peer:
  assumes "helper_run p" "ph_remote_addr p = Some a" "(i, s) \<in> set (ph_udp_sessions p)"
    and "se_udp s" "se_peer_ip s = []" "reachable_by (se_family s) a"
  shows "\<exists>b. snd (sip_send now data s) = SendTo b data \<and> plain_addr b = plain_addr a"
proof -
  have "map_option plain_addr (se_addr s) = Some (plain_addr a)"
    using run_follows [OF assms(1)] assms(2-) by (auto simp: follows_peer_def directed_to_def)
  then show ?thesis using assms(4,5) by (auto simp: sip_send_def)
qed

text \<open>A platform whose peer moved from one IPv4 address to another, seen from an IPv6 socket.\<close>

definition demo_socket :: sip_session where
  "demo_socket = \<lparr>se_udp = True, se_peer_ip = [], se_peer_port = 0, se_family = Some Inet6, se_addr = None,
     se_local_ip = [], se_local_port = 0, se_ticker = 0\<rparr>"

definition demo_helper :: "unit platform_helper" where
  "demo_helper = \<lparr>ph_account = platform_account_default, ph_tcp_session = None, ph_remote_addr = Some (AF_INET 1 5060),
     ph_udp_sessions = [], ph_from_uri = [], ph_to_uri = [], ph_contact_uri = [], ph_status_cbs = {}\<rparr>"

lemma udp_sessions_follow_peer_witness:
  "\<exists>s b. ph_udp_sessions (on_platform_addr_changed (Some (AF_INET 2 5060))
      (fst (get_session (\<lambda>h p. None) 0 (Some [(0, demo_socket)]) False demo_helper))) = [(0, s)]
    \<and> snd (sip_send 0 ''data'' s) = SendTo b ''data'' \<and> plain_addr b = AF_INET 2 5060"
proof -
  let ?p = "on_platform_addr_changed (Some (AF_INET 2 5060))
      (fst (get_session (\<lambda>h p. None) 0 (Some [(0, demo_socket)]) False demo_helper))"
  have run: "helper_run ?p" by (intro ph_moved ph_session ph_new) (simp add: demo_helper_def)
  obtain s where s: "ph_udp_sessions ?p = [(0, s)]" "se_udp s" "se_peer_ip s = []" "se_family s = Some Inet6"
    by (auto simp: get_session_def on_platform_addr_changed_def demo_helper_def demo_socket_def Let_def
        platform_account_default_def server_socket_def set_peer_addr_def make_peer_addr_def family_of_def
        areAddressesEqual_def set_local_ip_def set_local_port_def split: prod.splits)
  have r: "ph_remote_addr ?p = Some (AF_INET 2 5060)"
    by (auto simp: get_session_def on_platform_addr_changed_def demo_helper_def demo_socket_def Let_def
        platform_account_default_def server_socket_def set_peer_addr_def make_peer_addr_def family_of_def
        areAddressesEqual_def split: prod.splits)
  have "(0, s) \<in> set (ph_udp_sessions ?p)" using s(1) by simp
  from udp_sessions_follow_peer [OF run r this s(2,3), of 0 "''data''"] s show ?thesis
    by (auto simp: reachable_by_def make_peer_addr_def family_of_def plain_addr_def)
qed

end
