(* ===== verification/Digest.thy ===== *)
theory Digest
  imports Prelude
begin

text \<open>
  Digest authentication (\<open>src/inner/sip_common.cpp\<close>): the challenge of a server, the authorization a client
  computes for it, and the server's check. MD5 and SHA-256 are parameters that give the octets of a digest; random
  strings are arguments. The header of a message is its text, or \<open>None\<close> when it is absent or empty. An
  \<open>std::out_of_range\<close> exception is the result \<open>Inl\<close>.
\<close>

section \<open>Parsing the header\<close>

text \<open>Repeated \<open>std::getline\<close> with a delimiter: no piece comes after a delimiter at the end.\<close>

function getlines :: "char \<Rightarrow> string \<Rightarrow> string list" where
  "getlines d [] = []"
| "s \<noteq> [] \<Longrightarrow> getlines d s = takeWhile (\<lambda>c. c \<noteq> d) s # getlines d (drop 1 (dropWhile (\<lambda>c. c \<noteq> d) s))"
  by (atomize_elim) auto
termination
proof (relation "measure (\<lambda>(d, s). length s)", simp)
  fix d :: char and s :: string
  assume "s \<noteq> []"
  then have "0 < length s" by simp
  moreover have "length (dropWhile (\<lambda>c. c \<noteq> d) s) \<le> length s" by (rule length_dropWhile_le)
  ultimately have "length (dropWhile (\<lambda>c. c \<noteq> d) s) - 1 < length s" by linarith
  then show "((d, drop 1 (dropWhile (\<lambda>c. c \<noteq> d) s)), d, s) \<in> measure (\<lambda>(d, s). length s)" by simp
qed

lemma getlines_code [code]:
  "getlines d s = (if s = [] then []
     else takeWhile (\<lambda>c. c \<noteq> d) s # getlines d (drop 1 (dropWhile (\<lambda>c. c \<noteq> d) s)))"
  by simp

lemma no_delimiter: "d \<notin> set s \<Longrightarrow> takeWhile (\<lambda>c. c \<noteq> d) (s @ r) = s @ takeWhile (\<lambda>c. c \<noteq> d) r
    \<and> dropWhile (\<lambda>c. c \<noteq> d) (s @ r) = dropWhile (\<lambda>c. c \<noteq> d) r"
  by (induction s) auto

lemma getlines_last:
  assumes "d \<notin> set s" "s \<noteq> []"
  shows "getlines d s = [s]"
proof -
  have "takeWhile (\<lambda>c. c \<noteq> d) s = s" "dropWhile (\<lambda>c. c \<noteq> d) s = []" using no_delimiter [OF assms(1), of "[]"] by simp_all
  then show ?thesis using assms(2) by (simp only: getlines_code [of d s]) simp
qed

lemma getlines_Cons: "d \<notin> set s \<Longrightarrow> getlines d (s @ d # r) = s # getlines d r"
  using no_delimiter [of d s "d # r"] by (subst getlines_code) simp

definition blank :: "char \<Rightarrow> bool" where
  "blank c \<longleftrightarrow> c \<in> {CHR '' '', CHR 0x09, CHR 0x0D, CHR 0x0A}"

text \<open>Leading and trailing blanks are erased from the keys.\<close>

definition trim :: "string \<Rightarrow> string" where
  "trim s = rev (dropWhile blank (rev (dropWhile blank s)))"

text \<open>A value that starts with a quote loses its first and its last character.\<close>

definition unquote :: "string \<Rightarrow> string" where
  "unquote v = (if v \<noteq> [] \<and> hd v = CHR 0x22 then take (length v - 2) (drop 1 v) else v)"

definition header_field :: "string \<Rightarrow> (string \<times> string) option" where
  "header_field keyValue =
     (if CHR ''='' \<in> set keyValue
      then Some (trim (takeWhile (\<lambda>c. c \<noteq> CHR ''='') keyValue),
                 unquote (drop 1 (dropWhile (\<lambda>c. c \<noteq> CHR ''='') keyValue)))
      else None)"

datatype digest_fault = OutOfRange

text \<open>\<open>substr(start + 7)\<close> throws when nothing follows the word \<open>Digest\<close>.\<close>

definition parseAuthorizationHeader :: "string \<Rightarrow> digest_fault + (string \<rightharpoonup> string)" where
  "parseAuthorizationHeader authHeader =
     (case find_sub ''Digest'' authHeader of
        None \<Rightarrow> Inr Map.empty
      | Some (before, rest) \<Rightarrow>
          if rest = [] then Inl OutOfRange
          else Inr (fold (\<lambda>kv fields. case header_field kv of None \<Rightarrow> fields | Some (k, v) \<Rightarrow> fields(k \<mapsto> v))
                      (getlines (CHR '','') (drop 1 rest)) Map.empty))"

section \<open>Hashes\<close>

text \<open>Two lower-case hexadecimal digits per octet; both functions print the first 16 octets.\<close>

definition hash_hex :: "nat list \<Rightarrow> string" where
  "hash_hex hash = concat (map (\<lambda>b. [tolower (digit_char (b div 16 mod 16)), tolower (digit_char (b mod 16))]) (take 16 hash))"

definition md5 :: "(string \<Rightarrow> nat list) \<Rightarrow> string \<Rightarrow> string" where
  "md5 MD5 data = hash_hex (MD5 data)"

definition sha256 :: "(string \<Rightarrow> nat list) \<Rightarrow> string \<Rightarrow> string" where
  "sha256 SHA256 data = hash_hex (SHA256 data)"

definition select_hash ::
    "(string \<Rightarrow> nat list) \<Rightarrow> (string \<Rightarrow> nat list) \<Rightarrow> string \<Rightarrow> string \<Rightarrow> string" where
  "select_hash MD5 SHA256 algorithm = (if algorithm = ''MD5'' then md5 MD5 else sha256 SHA256)"

definition field :: "(string \<rightharpoonup> string) \<Rightarrow> string \<Rightarrow> string" where
  "field fields k = (case fields k of None \<Rightarrow> [] | Some v \<Rightarrow> v)"

definition algorithm_of :: "(string \<rightharpoonup> string) \<Rightarrow> string" where
  "algorithm_of fields = (case fields ''algorithm'' of None \<Rightarrow> ''MD5'' | Some v \<Rightarrow> v)"

text \<open>A2 for a request with a method, a URI and perhaps a payload.\<close>

definition digest_A2 :: "(string \<Rightarrow> string) \<Rightarrow> string \<Rightarrow> string \<Rightarrow> string \<Rightarrow> string option \<Rightarrow> string" where
  "digest_A2 H mthd uri qop payload =
     mthd @ '':'' @ uri @
     (if qop = ''auth-int''
      then (case payload of Some d \<Rightarrow> if d \<noteq> [] then '':'' @ H d else '':'' | None \<Rightarrow> '':'') else [])"

definition digest_response ::
    "(string \<Rightarrow> string) \<Rightarrow> string \<Rightarrow> string \<Rightarrow> string \<Rightarrow> string \<Rightarrow> string \<Rightarrow> string \<Rightarrow> string" where
  "digest_response H HA1 nonce nc cnonce qop HA2 =
     (if qop = [] then H (HA1 @ '':'' @ nonce @ '':'' @ HA2)
      else H (HA1 @ '':'' @ nonce @ '':'' @ nc @ '':'' @ cnonce @ '':'' @ qop @ '':'' @ HA2))"

section \<open>Server and client\<close>

text \<open>\<open>verify_authorization\<close>.\<close>

definition verify_authorization ::
    "(string \<Rightarrow> nat list) \<Rightarrow> (string \<Rightarrow> nat list) \<Rightarrow> string option \<Rightarrow> string \<Rightarrow> string option
      \<Rightarrow> string \<Rightarrow> string \<Rightarrow> digest_fault + bool" where
  "verify_authorization MD5 SHA256 authorization mthd payload user password =
     (case authorization of
        None \<Rightarrow> Inr False
      | Some auth_str \<Rightarrow> (case parseAuthorizationHeader auth_str of
          Inl e \<Rightarrow> Inl e
        | Inr fields \<Rightarrow>
            if fields = Map.empty then Inr False
            else (let H = select_hash MD5 SHA256 (algorithm_of fields);
                      A1 = user @ '':'' @ field fields ''realm'' @ '':'' @ password;
                      qop = field fields ''qop'';
                      A2 = digest_A2 H mthd (field fields ''uri'') qop payload
                  in Inr (digest_response H (H A1) (field fields ''nonce'') (field fields ''nc'')
                            (field fields ''cnonce'') qop (H A2) = field fields ''response''))))"

text \<open>\<open>generate_www_authentication_\<close>; \<open>nonce\<close> is the random string.\<close>

definition generate_www_authentication :: "string \<Rightarrow> string \<Rightarrow> string" where
  "generate_www_authentication realm nonce =
     ''Digest realm='' @ [CHR 0x22] @ realm @ [CHR 0x22] @ '', nonce='' @ [CHR 0x22] @ nonce @ [CHR 0x22]"

text \<open>The counter of a nonce, a signed \<open>int\<close> that is compared with an unsigned constant.\<close>

definition next_nc :: "string \<Rightarrow> string \<times> i32 \<Rightarrow> string \<times> i32" where
  "next_nc nonce nc_pair =
     (if fst nc_pair = nonce
      then (nonce, if uint (snd nc_pair + 1) \<ge> 0xFFFFFFFF then 1 else snd nc_pair + 1)
      else (nonce, 1))"

fun hex_digits :: "nat \<Rightarrow> nat \<Rightarrow> string" where
  "hex_digits 0 n = []"
| "hex_digits (Suc w) n = hex_digits w (n div 16) @ [tolower (digit_char (n mod 16))]"

text \<open>\<open>generate_authorization\<close>; \<open>cnonce\<close> is the random string. The result is empty when there is nothing to answer.\<close>

definition generate_authorization ::
    "(string \<Rightarrow> nat list) \<Rightarrow> (string \<Rightarrow> nat list) \<Rightarrow> string option \<Rightarrow> string option \<Rightarrow> string \<Rightarrow> string \<Rightarrow> string
      \<Rightarrow> string \<Rightarrow> string \<times> i32 \<Rightarrow> digest_fault + (string \<times> (string \<times> i32))" where
  "generate_authorization MD5 SHA256 www payload username password uri cnonce nc_pair =
     (case www of
        None \<Rightarrow> Inr ([], nc_pair)
      | Some www_authorization \<Rightarrow> (case parseAuthorizationHeader www_authorization of
          Inl e \<Rightarrow> Inl e
        | Inr fields \<Rightarrow>
            if fields = Map.empty \<or> fields ''realm'' = None \<or> fields ''nonce'' = None then Inr ([], nc_pair)
            else (let realm = field fields ''realm''; nonce = field fields ''nonce''; qop = field fields ''qop'';
                      algorithm = algorithm_of fields;
                      nc_pair = next_nc nonce nc_pair;
                      nc_str = hex_digits 8 (unat (snd nc_pair));
                      H = select_hash MD5 SHA256 algorithm;
                      HA1 = H (username @ '':'' @ realm @ '':'' @ password);
                      HA2 = H (digest_A2 H ''REGISTER'' uri qop payload);
                      response = digest_response H HA1 nonce nc_str cnonce qop HA2;
                      q = [CHR 0x22]
                  in Inr (''Digest '' @ ''username='' @ q @ username @ q @ '', '' @ ''realm='' @ q @ realm @ q @ '', ''
                       @ ''nonce='' @ q @ nonce @ q @ '', '' @ ''uri='' @ q @ uri @ q @ '', ''
                       @ ''response='' @ q @ response @ q @ '', '' @ ''algorithm='' @ algorithm
                       @ (if qop = [] then []
                          else '', qop='' @ qop @ '', nc='' @ nc_str @ '', '' @ ''cnonce='' @ q @ cnonce @ q), nc_pair))))"

section \<open>A challenge and its answer\<close>

definition quoted :: "string \<Rightarrow> string \<Rightarrow> string" where
  "quoted k v = k @ CHR ''='' # CHR 0x22 # v @ [CHR 0x22]"

lemma header_field_quoted:
  assumes "CHR ''='' \<notin> set k" "trim k = k"
  shows "header_field (quoted k v) = Some (k, v)" "header_field (CHR '' '' # quoted k v) = Some (k, v)"
proof -
  have b: "trim (CHR '' '' # k) = k" using assms(2) by (simp add: trim_def blank_def)
  have u: "unquote (CHR 0x22 # v @ [CHR 0x22]) = v" by (simp add: unquote_def)
  note n = no_delimiter [OF assms(1), of "CHR ''='' # CHR 0x22 # v @ [CHR 0x22]"]
  show "header_field (quoted k v) = Some (k, v)" "header_field (CHR '' '' # quoted k v) = Some (k, v)"
    using n u b assms(2) by (simp_all add: header_field_def quoted_def)
qed

lemma find_sub_prefix: "find_sub pat (pat @ r) = Some ([], r)"
  by (simp add: find_sub.simps)

lemma header_key_facts:
  "trim ''realm'' = ''realm''" "trim ''nonce'' = ''nonce''" "trim ''username'' = ''username''" "trim ''uri'' = ''uri''"
  "trim ''response'' = ''response''" "header_field '' algorithm=MD5'' = Some (''algorithm'', ''MD5'')"
  by code_simp+

definition plain :: "string \<Rightarrow> bool" where
  "plain s \<longleftrightarrow> CHR '','' \<notin> set s"

lemma quoted_comma: "plain v \<Longrightarrow> plain k \<Longrightarrow> CHR '','' \<notin> set (quoted k v) \<and> CHR '','' \<notin> set (CHR '' '' # quoted k v)"
  by (simp add: quoted_def plain_def)

lemma hash_hex_plain: "plain (hash_hex hash)"
proof -
  have code: "(of_char (tolower (digit_char m)) :: nat) = (if m < 10 then 48 + m else 87 + m)" if "m < 16" for m
    using that by (simp add: tolower_def digit_char_def)
  have "tolower (digit_char m) \<noteq> CHR '',''" if "m < 16" for m
  proof
    assume "tolower (digit_char m) = CHR '',''"
    then have "(of_char (tolower (digit_char m)) :: nat) = 44" by simp
    then show False using code [OF that] by (simp split: if_splits)
  qed
  then have "CHR '','' \<noteq> tolower (digit_char (n mod 16))" for n by (metis mod_less_divisor zero_less_numeral)
  then show ?thesis by (auto simp: hash_hex_def plain_def)
qed

lemma parse_challenge:
  assumes "plain realm" "plain nonce"
  shows "parseAuthorizationHeader (generate_www_authentication realm nonce) =
    Inr [''realm'' \<mapsto> realm, ''nonce'' \<mapsto> nonce]"
proof -
  have "generate_www_authentication realm nonce =
      ''Digest'' @ CHR '' '' # quoted ''realm'' realm @ CHR '','' # CHR '' '' # quoted ''nonce'' nonce"
    by (simp add: generate_www_authentication_def quoted_def)
  moreover have "getlines (CHR '','') (quoted ''realm'' realm @ CHR '','' # CHR '' '' # quoted ''nonce'' nonce) =
      [quoted ''realm'' realm, CHR '' '' # quoted ''nonce'' nonce]"
    using assms quoted_comma [of realm "''realm''"] quoted_comma [of nonce "''nonce''"]
    by (simp add: getlines_Cons getlines_last plain_def del: getlines.simps)
  ultimately show ?thesis
    by (simp add: parseAuthorizationHeader_def find_sub_prefix header_field_quoted header_key_facts
        del: append.simps getlines.simps find_sub.simps)
qed

text \<open>The client's header, field by field.\<close>

definition answer :: "string \<Rightarrow> string \<Rightarrow> string \<Rightarrow> string \<Rightarrow> string \<Rightarrow> string" where
  "answer user realm nonce uri response =
     ''Digest'' @ CHR '' '' # quoted ''username'' user @ CHR '','' # CHR '' '' # quoted ''realm'' realm
       @ CHR '','' # CHR '' '' # quoted ''nonce'' nonce @ CHR '','' # CHR '' '' # quoted ''uri'' uri
       @ CHR '','' # CHR '' '' # quoted ''response'' response @ CHR '','' # '' algorithm=MD5''"

lemma parse_answer:
  assumes "plain user" "plain realm" "plain nonce" "plain uri" "plain response"
  shows "parseAuthorizationHeader (answer user realm nonce uri response) =
    Inr [''username'' \<mapsto> user, ''realm'' \<mapsto> realm, ''nonce'' \<mapsto> nonce, ''uri'' \<mapsto> uri,
      ''response'' \<mapsto> response, ''algorithm'' \<mapsto> ''MD5'']"
proof -
  let ?rest = "quoted ''username'' user @ CHR '','' # CHR '' '' # quoted ''realm'' realm
       @ CHR '','' # CHR '' '' # quoted ''nonce'' nonce @ CHR '','' # CHR '' '' # quoted ''uri'' uri
       @ CHR '','' # CHR '' '' # quoted ''response'' response @ CHR '','' # '' algorithm=MD5''"
  have no: "CHR '','' \<notin> set (CHR '' '' # quoted k v)" if "plain v" "plain k" for k v
    using quoted_comma [OF that] by simp
  have keys: "plain ''realm''" "plain ''nonce''" "plain ''uri''" "plain ''response''"
    by (simp_all add: plain_def)
  have first: "CHR '','' \<notin> set (quoted ''username'' user)"
    using quoted_comma [OF assms(1), of "''username''"] by (simp add: plain_def)
  have "getlines (CHR '','') ?rest =
      [quoted ''username'' user, CHR '' '' # quoted ''realm'' realm, CHR '' '' # quoted ''nonce'' nonce,
       CHR '' '' # quoted ''uri'' uri, CHR '' '' # quoted ''response'' response, '' algorithm=MD5'']"
    using getlines_Cons [OF first] getlines_Cons [OF no [OF assms(2) keys(1)]] getlines_Cons [OF no [OF assms(3) keys(2)]]
      getlines_Cons [OF no [OF assms(4) keys(3)]] getlines_Cons [OF no [OF assms(5) keys(4)]]
      getlines_last [of "CHR '',''" "'' algorithm=MD5''"]
    by (simp del: getlines.simps)
  then show ?thesis
    by (simp add: answer_def parseAuthorizationHeader_def find_sub_prefix header_field_quoted header_key_facts
        del: append.simps getlines.simps find_sub.simps)
qed

lemma generated_answer:
  assumes "plain realm" "plain nonce"
  shows "generate_authorization MD5 SHA256 (Some (generate_www_authentication realm nonce)) payload user password uri
      cnonce nc_pair =
    Inr (answer user realm nonce uri (digest_response (md5 MD5) (md5 MD5 (user @ '':'' @ realm @ '':'' @ password)) nonce
      [] [] [] (md5 MD5 (''REGISTER:'' @ uri))), next_nc nonce nc_pair)"
  unfolding generate_authorization_def parse_challenge [OF assms] option.case sum.case
  by (simp add: field_def algorithm_of_def select_hash_def digest_A2_def digest_response_def answer_def quoted_def
      Let_def)

text \<open>An authorization header that is the bare word makes the server's check throw.\<close>

lemma bare_digest_throws:
  "verify_authorization MD5 SHA256 (Some ''Digest'') mthd payload user password = Inl OutOfRange"
proof -
  have "parseAuthorizationHeader ''Digest'' = Inl OutOfRange"
    by (simp add: parseAuthorizationHeader_def find_sub.simps)
  then show ?thesis by (simp add: verify_authorization_def)
qed

text \<open>C31. A server's challenge, the authorization the client computes for it, and the server's check fit together:
the check compares the digests of the two passwords, so it succeeds with the right password, and with
another one only on a collision of the hash. The strings must not contain a comma, at which the header is split.\<close>

theorem digest_handshake:
  assumes "plain realm" "plain nonce" "plain user" "plain uri"
  shows "\<exists>header. generate_authorization MD5 SHA256 (Some (generate_www_authentication realm nonce)) payload user password uri
        cnonce nc_pair = Inr (header, next_nc nonce nc_pair)
    \<and> verify_authorization MD5 SHA256 (Some header) ''REGISTER'' payload' user password = Inr True
    \<and> verify_authorization MD5 SHA256 (Some header) ''REGISTER'' payload' user password' =
        Inr (md5 MD5 (md5 MD5 (user @ '':'' @ realm @ '':'' @ password') @ '':'' @ nonce @ '':'' @ md5 MD5 (''REGISTER:'' @ uri))
           = md5 MD5 (md5 MD5 (user @ '':'' @ realm @ '':'' @ password) @ '':'' @ nonce @ '':'' @ md5 MD5 (''REGISTER:'' @ uri)))"
proof -
  define response where "response = digest_response (md5 MD5) (md5 MD5 (user @ '':'' @ realm @ '':'' @ password)) nonce
      [] [] [] (md5 MD5 (''REGISTER:'' @ uri))"
  have "plain response" by (simp add: response_def digest_response_def md5_def hash_hex_plain)
  note parsed = parse_answer [OF assms(3,1,2,4) this]
  have "verify_authorization MD5 SHA256 (Some (answer user realm nonce uri response)) ''REGISTER'' payload' user pw =
      Inr (md5 MD5 (md5 MD5 (user @ '':'' @ realm @ '':'' @ pw) @ '':'' @ nonce @ '':'' @ md5 MD5 (''REGISTER:'' @ uri))
         = response)" for pw
    unfolding verify_authorization_def parsed option.case sum.case
    by (simp add: field_def algorithm_of_def select_hash_def digest_A2_def digest_response_def Let_def)
  then show ?thesis
    using generated_answer [OF assms(1,2), of MD5 SHA256 payload user password uri cnonce nc_pair]
    by (simp add: response_def digest_response_def)
qed

lemma digest_handshake_witness:
  "\<exists>header. verify_authorization (\<lambda>s. map of_char s) (\<lambda>s. []) (Some header) ''REGISTER'' None ''34'' ''pw'' = Inr True"
proof -
  have "plain ''3402''" "plain ''abcd''" "plain ''34''" "plain ''sip:34@10.0.0.1''" by (simp_all add: plain_def)
  from digest_handshake [OF this, of "\<lambda>s. map of_char s" "\<lambda>s. []" None "''pw''" "[]" "([], 0)" None "''other''"]
  show ?thesis by blast
qed

end
