(* ===== verification/Subordinate.thy ===== *)
theory Subordinate
  imports Platform_Helper Digest
begin

text \<open>
  The platforms below this one (\<open>src/subordinate_platform_impl.cpp\<close>, with the table of platforms of
  \<open>src/inner/sip_server.cpp\<close>): their registration, their online state, and the
  watch over their keepalives. Times are in microseconds; the time, the peer of
  the session and the application's decision about a new platform are arguments.
\<close>

section \<open>A subordinate platform\<close>

record subordinate = "unit platform_helper" +
  sb_camouflage_online :: bool
  sb_timer :: bool \<comment> \<open>\<open>keepalive_timer_\<close> is running\<close>

definition sb_status :: "subordinate \<Rightarrow> sip_account_status" where
  "sb_status p = pa_plat_status (ph_account p)"

definition with_status :: "(sip_account_status \<Rightarrow> sip_account_status) \<Rightarrow> subordinate \<Rightarrow> subordinate" where
  "with_status f p = p\<lparr>ph_account := (ph_account p)\<lparr>pa_plat_status := f (pa_plat_status (ph_account p))\<rparr>\<rparr>"

definition set_encoding :: "CharEncodingType \<Rightarrow> subordinate \<Rightarrow> subordinate" where
  "set_encoding encoding p = p\<lparr>ph_account := (ph_account p)\<lparr>pa_encoding := encoding\<rparr>\<rparr>"

text \<open>The two clocks, \<open>getCurrentMicrosecond(true)\<close> and \<open>getCurrentMicrosecond(false)\<close>.\<close>

record clock =
  wall_time :: u64
  run_time :: u64

text \<open>
  \<open>set_status\<close>. The broadcast that is queued carries the status and whether it has changed; its error is read from
  the parameter after the parameter was moved from, so it is left out here.
\<close>

datatype notice = StatusNotice PlatformStatusType bool | KeepaliveNotice

definition set_status ::
    "clock \<Rightarrow> PlatformStatusType \<Rightarrow> string \<Rightarrow> subordinate \<Rightarrow> subordinate \<times> notice list" where
  "set_status now status error p =
     (let status_changed = (status \<noteq> st_status (sb_status p));
          p = (with_status (\<lambda>s. s\<lparr>st_status := status, st_error := error\<rparr>) p)\<lparr>sb_camouflage_online := False\<rparr>;
          p = (if status = Plat_online
               then (with_status (\<lambda>s. s\<lparr>st_register_time := wall_time now\<rparr>) p)\<lparr>sb_timer := True\<rparr>
               else (with_status (\<lambda>s. s\<lparr>st_offline_time := run_time now\<rparr>) p)\<lparr>sb_timer := False\<rparr>)
      in (p, [StatusNotice status status_changed]))"

text \<open>A run of the 5-second timer: 90 seconds without registration or keepalive take the platform offline.\<close>

definition keepalive_tick :: "clock \<Rightarrow> subordinate \<Rightarrow> subordinate \<times> notice list" where
  "keepalive_tick now p =
     (let last_time = max (st_register_time (sb_status p)) (st_keepalive_time (sb_status p));
          now_time = wall_time now
      in if last_time + 3 * 30 * 1000000 \<le> now_time
         then set_status now Plat_offline ''keepalive timeout'' p else (p, []))"

text \<open>\<open>on_keep_alive\<close>: a platform that is not online gets no reply.\<close>

definition on_keep_alive :: "clock \<Rightarrow> subordinate \<Rightarrow> subordinate \<times> notice list \<times> nat" where
  "on_keep_alive now p =
     (if st_status (sb_status p) \<noteq> Plat_online then (p, [], 0)
      else (with_status (\<lambda>s. s\<lparr>st_keepalive_time := wall_time now\<rparr>) p, [KeepaliveNotice], 200))"

definition camouflage_online :: "u64 \<Rightarrow> u64 \<Rightarrow> subordinate \<Rightarrow> subordinate" where
  "camouflage_online register_time keepalive_time p =
     (if st_status (sb_status p) = Plat_online then p
      else (with_status (\<lambda>s. s\<lparr>st_register_time := register_time, st_keepalive_time := keepalive_time,
              st_status := Plat_online\<rparr>) p)\<lparr>sb_camouflage_online := True, sb_timer := True\<rparr>)"

section \<open>Construction\<close>

text \<open>\<open>ip_addr\<close> is the address of a host that is an IP address.\<close>

definition SubordinatePlatformImpl ::
    "(string \<Rightarrow> u16 \<Rightarrow> sockaddr option) \<Rightarrow> local_account \<Rightarrow> platform_account \<Rightarrow> subordinate" where
  "SubordinatePlatformImpl ip_addr server account =
     (let account = (if sa_local_host account = [] then account\<lparr>sa_local_host := sa_local_host server\<rparr> else account);
          account = (if sa_local_port account = 0 then account\<lparr>sa_local_port := sa_local_port server\<rparr> else account);
          p = \<lparr>ph_account = account, ph_tcp_session = None, ph_remote_addr = None, ph_udp_sessions = [],
            ph_from_uri = sip_uri (sa_platform_id server) (sa_local_host server) (sa_local_port server),
            ph_to_uri = sip_uri (sa_platform_id account) (sa_host account) (sa_port account),
            ph_contact_uri = sip_uri (sa_platform_id server) (sa_local_host account) (sa_local_port account),
            ph_status_cbs = {}, sb_camouflage_online = False, sb_timer = False\<rparr>
      in on_platform_addr_changed (ip_addr (sa_host account) (sa_port account)) p)"

section \<open>Registration\<close>

text \<open>
  The session of a registration: its number, the address \<open>get_sock_peer_addr\<close> finds, and the local end of its socket.
\<close>

record session = sip_session +
  ss_id :: nat
  ss_peer_addr :: "sockaddr option"
  ss_sock_ip :: string
  ss_sock_port :: u16

record server =
  sv_account :: local_account
  sv_sub_platforms :: "string \<rightharpoonup> subordinate"

text \<open>The reply: its code, the \<open>Expires\<close> header, and the realm of a challenge.\<close>

record reply =
  rp_code :: nat
  rp_expires :: "int option"
  rp_challenge :: "string option"

definition reply_code_only :: "nat \<Rightarrow> reply" where
  "reply_code_only code = \<lparr>rp_code = code, rp_expires = None, rp_challenge = None\<rparr>"

definition add_session :: "session \<Rightarrow> subordinate \<Rightarrow> subordinate" where
  "add_session s p = (if se_udp s then p else set_tcp_session (ss_id s) (sip_session.truncate s) p)"

definition put_platform :: "string \<Rightarrow> subordinate \<Rightarrow> 's server_scheme \<Rightarrow> 's server_scheme" where
  "put_platform user p sv = sv\<lparr>sv_sub_platforms := (sv_sub_platforms sv)(user \<mapsto> p)\<rparr>"

text \<open>The account of a platform that registers by itself.\<close>

definition new_account :: "clock \<Rightarrow> session \<Rightarrow> local_account \<Rightarrow> string \<Rightarrow> platform_account" where
  "new_account now s server user = platform_account_default
     \<lparr>sa_name := user, sa_platform_id := user, sa_domain := take 10 user, sa_host := se_peer_ip s,
      sa_port := se_peer_port s, sa_password := sa_password server, sa_auth_type := sa_auth_type server,
      sa_local_port := (if ss_sock_port s = 0 then sa_local_port server else ss_sock_port s),
      sa_local_host := (if ss_sock_ip s = [] then sa_local_host server else ss_sock_ip s),
      pa_transport_type := (if se_udp s then Transport_udp else Transport_tcp),
      pa_plat_status := sip_account_status_default\<lparr>st_register_time := wall_time now, st_status := Plat_registering\<rparr>\<rparr>"

text \<open>
  \<open>on_recv_register\<close> with a live server. \<open>check password\<close> is \<open>verify_authorization\<close> on the request for a password, and
  \<open>allow\<close> the application's decision about a new account (\<open>None\<close> when no callback is set).
  The fault of the check ends the handler.
\<close>

definition on_recv_register ::
    "(string \<Rightarrow> u16 \<Rightarrow> sockaddr option) \<Rightarrow> (string \<Rightarrow> digest_fault + bool) \<Rightarrow> bool option \<Rightarrow> clock \<Rightarrow> session
      \<Rightarrow> string \<Rightarrow> int \<Rightarrow> 's server_scheme \<Rightarrow> digest_fault + ('s server_scheme \<times> notice list \<times> reply)" where
  "on_recv_register ip_addr check allow now s user expires sv =
     (let server = sv_account sv;
          granted = \<lparr>rp_code = 200, rp_expires = Some expires, rp_challenge = None\<rparr>;
          challenge = \<lparr>rp_code = 401, rp_expires = None, rp_challenge = Some (sa_domain server)\<rparr>
      in case sv_sub_platforms sv user of
        Some p \<Rightarrow>
          (let p = add_session s p
           in if expires = 0
              then (case set_status now Plat_offline ''logout'' p of (p, ns) \<Rightarrow>
                      Inr (put_platform user p sv, ns, reply_code_only 200))
              else (case (if sa_auth_type (ph_account p) = Auth_none then Inr True
                          else check (sa_password (ph_account p))) of
                      Inl e \<Rightarrow> Inl e
                    | Inr True \<Rightarrow>
                        (let p = p\<lparr>ph_account := (ph_account p)\<lparr>sa_host := se_peer_ip s, sa_port := se_peer_port s\<rparr>\<rparr>;
                             p = on_platform_addr_changed (ss_peer_addr s) p
                         in case set_status now Plat_online [] p of (p, ns) \<Rightarrow>
                              Inr (put_platform user p sv, ns, granted))
                    | Inr False \<Rightarrow> Inr (put_platform user p sv, [], challenge)))
      | None \<Rightarrow>
          if la_allow_auto_register server
          then if expires = 0 then Inr (sv, [], reply_code_only 200)
               else (case (if sa_auth_type server = Auth_none then Inr True else check (sa_password server)) of
                       Inl e \<Rightarrow> Inl e
                     | Inr False \<Rightarrow> Inr (sv, [], challenge)
                     | Inr True \<Rightarrow>
                         if allow = Some True
                         then (let p = SubordinatePlatformImpl ip_addr server (new_account now s server user);
                                   p = add_session s p;
                                   p = on_platform_addr_changed (ss_peer_addr s) p
                               in case set_status now Plat_online [] p of (p, ns) \<Rightarrow>
                                    Inr (put_platform user p sv, ns, granted))
                         else Inr (sv, [], reply_code_only 403))
          else Inr (sv, [], reply_code_only 403))"

end
