(* ===== verification/Subordinate_Facts.thy ===== *)
theory Subordinate_Facts
  imports Subordinate
begin

text \<open>
  What holds of the subordinate platforms: who can bring one online, who can take it offline, and how long a silent one
  stays online.
\<close>

lemmas sub_simps = sb_status_def with_status_def set_status_def add_session_def set_tcp_session_def
  on_platform_addr_changed_def put_platform_def reply_code_only_def Let_def

definition online :: "'s server_scheme \<Rightarrow> string \<Rightarrow> bool" where
  "online sv user \<longleftrightarrow> (case sv_sub_platforms sv user of
     None \<Rightarrow> False | Some p \<Rightarrow> st_status (sb_status p) = Plat_online)"

text \<open>The authorization type and password a registration of a user is checked with.\<close>

definition credentials :: "'s server_scheme \<Rightarrow> string \<Rightarrow> SipAuthType \<times> string" where
  "credentials sv user = (case sv_sub_platforms sv user of
     None \<Rightarrow> (sa_auth_type (sv_account sv), sa_password (sv_account sv))
   | Some p \<Rightarrow> (sa_auth_type (ph_account p), sa_password (ph_account p)))"

text \<open>A server with one known platform, whose registrations are checked, and a session of that platform.\<close>

definition demo_platform :: "subordinate" where
  "demo_platform = SubordinatePlatformImpl (\<lambda>_ _. None) local_account_default
     (platform_account_default\<lparr>sa_password := ''pw'', sa_auth_type := Auth_digest\<rparr>)"

definition demo_server :: "server" where
  "demo_server = \<lparr>sv_account = local_account_default, sv_sub_platforms = [''34'' \<mapsto> demo_platform]\<rparr>"

definition demo_session :: "session" where
  "demo_session = \<lparr>se_udp = True, se_peer_ip = ''10.0.0.2'', se_peer_port = 5060, se_family = Some Inet, se_addr = None,
     se_local_ip = [], se_local_port = 0, se_ticker = 0, ss_id = 1, ss_peer_addr = Some (AF_INET 7 5060),
     ss_sock_ip = ''10.0.0.1'', ss_sock_port = 5060\<rparr>"

definition demo_clock :: "u64 \<Rightarrow> clock" where
  "demo_clock t = \<lparr>wall_time = t, run_time = 0\<rparr>"

lemmas demo_simps = demo_platform_def demo_server_def demo_session_def demo_clock_def SubordinatePlatformImpl_def
  on_platform_addr_changed_def
  platform_account_default_def local_account_default_def sip_account_status_default_def

section \<open>Registration\<close>

text \<open>C18. A registration brings only the registering user online, and only when no authorization is asked of it or the
check of its password succeeded; it is then answered with 200 and the requested lifetime. An unknown user
must also be allowed by the server's settings and by the application.\<close>

theorem registration_checks_password:
  assumes "on_recv_register ip_addr check allow now session user expires sv = Inr (sv', ns, rp)"
    and "online sv' other" "\<not> online sv other"
  shows "other = user \<and> expires \<noteq> 0 \<and> rp_code rp = 200 \<and> rp_expires rp = Some expires
    \<and> (fst (credentials sv user) = Auth_none \<or> check (snd (credentials sv user)) = Inr True)
    \<and> (sv_sub_platforms sv user = None \<longrightarrow> la_allow_auto_register (sv_account sv) \<and> allow = Some True)"
proof (cases "sv_sub_platforms sv user")
  case None
  show ?thesis
  proof (cases "la_allow_auto_register (sv_account sv) \<and> expires \<noteq> 0")
    case True
    then show ?thesis using assms None
      by (auto simp: on_recv_register_def sub_simps online_def credentials_def split: if_splits sum.splits bool.splits option.splits)
  next
    case False
    then show ?thesis using assms None
      by (auto simp: on_recv_register_def sub_simps online_def split: if_splits)
  qed
next
  case (Some p)
  show ?thesis
  proof (cases "expires = 0")
    case True
    then show ?thesis using assms Some
      by (auto simp: on_recv_register_def sub_simps online_def split: if_splits)
  next
    case False
    then show ?thesis using assms Some
      by (auto simp: on_recv_register_def sub_simps online_def credentials_def split: if_splits sum.splits bool.splits option.splits)
  qed
qed

lemma registration_checks_password_witness:
  "\<exists>sv' :: server. online sv' ''34'' \<and> \<not> online demo_server ''34'' \<and> fst (credentials demo_server ''34'') = Auth_digest
    \<and> (fst (credentials demo_server ''34'') = Auth_none
      \<or> (Inr (snd (credentials demo_server ''34'') = ''pw'') :: digest_fault + bool) = Inr True)"
proof -
  define out where "out = on_recv_register (\<lambda>_ _. None) (\<lambda>pw. Inr (pw = ''pw'')) None (demo_clock 5) demo_session ''34'' 3600 demo_server"
  obtain sv' ns rp where out: "out = Inr (sv', ns, rp)" and on: "online sv' ''34''"
    by (simp add: out_def on_recv_register_def sub_simps demo_simps online_def)
  have off: "\<not> online demo_server ''34''" by (simp add: online_def demo_simps sub_simps)
  have "fst (credentials demo_server ''34'') = Auth_digest" by (simp add: credentials_def demo_simps)
  moreover have "fst (credentials demo_server ''34'') = Auth_none
      \<or> (Inr (snd (credentials demo_server ''34'') = ''pw'') :: digest_fault + bool) = Inr True"
    using registration_checks_password [OF out [unfolded out_def] on off] by (elim conjE)
  ultimately show ?thesis using on off by (intro exI [of _ sv'] conjI)
qed

text \<open>Taking a platform offline needs no password: a registration with lifetime 0 in the name of a known platform
logs it out and is answered with 200, whatever its authorization would have been checked to be.\<close>

theorem logout_needs_no_password:
  assumes "sv_sub_platforms sv user = Some p"
  shows "\<exists>sv' ns. on_recv_register ip_addr check allow now session user 0 sv = Inr (sv', ns, reply_code_only 200)
    \<and> \<not> online sv' user"
  using assms by (simp add: on_recv_register_def sub_simps online_def)

lemma logout_needs_no_password_witness:
  "\<exists>sv' ns. on_recv_register (\<lambda>_ _. None) (\<lambda>_. Inr False) None (demo_clock 5) demo_session ''34'' 0 demo_server
      = Inr (sv', ns, reply_code_only 200) \<and> \<not> online sv' ''34''"
  by (rule logout_needs_no_password [where p = demo_platform]) (simp add: demo_server_def)

section \<open>The watch over keepalives\<close>

text \<open>The life of a platform object: it is made with an account that is not online, and its operations come in any order.\<close>

inductive sub_run :: "(string \<Rightarrow> u16 \<Rightarrow> sockaddr option) \<Rightarrow> local_account \<Rightarrow> subordinate \<Rightarrow> bool" for ip_addr server where
  sub_new: "st_status (pa_plat_status account) \<noteq> Plat_online \<Longrightarrow>
    sub_run ip_addr server (SubordinatePlatformImpl ip_addr server account)"
| sub_status: "sub_run ip_addr server p \<Longrightarrow> sub_run ip_addr server (fst (set_status now status error p))"
| sub_tick: "sub_run ip_addr server p \<Longrightarrow> sb_timer p \<Longrightarrow> sub_run ip_addr server (fst (keepalive_tick now p))"
| sub_keepalive: "sub_run ip_addr server p \<Longrightarrow> sub_run ip_addr server (fst (on_keep_alive now p))"
| sub_camouflage: "sub_run ip_addr server p \<Longrightarrow> sub_run ip_addr server (camouflage_online reg keep p)"
| sub_address: "sub_run ip_addr server p \<Longrightarrow>
    sub_run ip_addr server (p\<lparr>ph_account := (ph_account p)\<lparr>sa_host := host, sa_port := port\<rparr>\<rparr>)"
| sub_moved: "sub_run ip_addr server p \<Longrightarrow> sub_run ip_addr server (on_platform_addr_changed addr p)"
| sub_session: "sub_run ip_addr server p \<Longrightarrow> sub_run ip_addr server (fst (get_session mk poller sockets force_tcp p))"
| sub_via: "sub_run ip_addr server p \<Longrightarrow> sub_run ip_addr server (fst (update_remote_via server val p))"
| sub_tcp: "sub_run ip_addr server p \<Longrightarrow> sub_run ip_addr server (set_tcp_session i s p)"
| sub_tcp_error: "sub_run ip_addr server p \<Longrightarrow> sub_run ip_addr server (on_tcp_error i p)"

lemma helper_keeps:
  "ph_account (on_platform_addr_changed addr p) = ph_account p" "sb_timer (on_platform_addr_changed addr p) = sb_timer p"
  "ph_account (set_tcp_session i s p) = ph_account p" "sb_timer (set_tcp_session i s p) = sb_timer p"
  "ph_account (on_tcp_error i p) = ph_account p" "sb_timer (on_tcp_error i p) = sb_timer p"
  "ph_account (fst (get_session mk poller sockets force_tcp p)) = ph_account p"
  "sb_timer (fst (get_session mk poller sockets force_tcp p)) = sb_timer p"
  "pa_plat_status (ph_account (fst (update_remote_via sv val p))) = pa_plat_status (ph_account p)"
  "sb_timer (fst (update_remote_via sv val p)) = sb_timer p"
  by (simp_all add: on_platform_addr_changed_def set_tcp_session_def on_tcp_error_def get_session_def
      update_remote_via_def Let_def split: option.splits prod.splits)

lemma watched: "sub_run ip_addr server p \<Longrightarrow> sb_timer p \<longleftrightarrow> st_status (sb_status p) = Plat_online"
  by (induction rule: sub_run.induct)
     (auto simp: SubordinatePlatformImpl_def keepalive_tick_def on_keep_alive_def camouflage_online_def helper_keeps
        sb_status_def with_status_def set_status_def Let_def split: if_splits)

text \<open>C28. An online platform, however it came online, is watched by its timer, and a run of the timer takes it offline
exactly when 90 seconds have passed since the later of its registration and its last keepalive; a platform
that is not online is not watched and its keepalives are ignored.\<close>

theorem silent_platform_goes_offline:
  assumes "sub_run ip_addr server p"
    and "uint (max (st_register_time (sb_status p)) (st_keepalive_time (sb_status p))) + 90000000 < 2 ^ 64"
  shows "(if st_status (sb_status p) = Plat_online
     then sb_timer p \<and> st_status (sb_status (fst (keepalive_tick now p))) =
       (if uint (max (st_register_time (sb_status p)) (st_keepalive_time (sb_status p))) + 90000000 \<le> uint (wall_time now)
        then Plat_offline else Plat_online)
     else \<not> sb_timer p \<and> on_keep_alive now p = (p, [], 0))"
proof -
  let ?last = "max (st_register_time (sb_status p)) (st_keepalive_time (sb_status p))"
  have "uint (?last + 90000000) = uint ?last + 90000000"
    using assms(2) by (simp add: uint_word_ariths)
  then have "?last + 90000000 \<le> wall_time now \<longleftrightarrow> uint ?last + 90000000 \<le> uint (wall_time now)" by (simp add: word_le_def)
  then show ?thesis using watched [OF assms(1)]
    by (simp add: keepalive_tick_def on_keep_alive_def sub_simps)
qed

lemma silent_platform_goes_offline_witness:
  "st_status (sb_status (fst (keepalive_tick (demo_clock 90000005) (fst (set_status (demo_clock 5) Plat_online [] demo_platform))))) = Plat_offline
    \<and> st_status (sb_status (fst (keepalive_tick (demo_clock 90000004) (fst (set_status (demo_clock 5) Plat_online [] demo_platform))))) = Plat_online"
proof -
  let ?p = "fst (set_status (demo_clock 5) Plat_online [] demo_platform)"
  have "sub_run (\<lambda>_ _. None) local_account_default ?p"
    unfolding demo_platform_def by (intro sub_status sub_new) (simp add: demo_simps)
  moreover have "st_status (sb_status ?p) = Plat_online" "st_register_time (sb_status ?p) = 5"
    "st_keepalive_time (sb_status ?p) = 0"
    by (simp_all add: sub_simps demo_simps)
  moreover have "wall_time (demo_clock t) = t" for t by (simp add: demo_clock_def)
  ultimately show ?thesis
    using silent_platform_goes_offline [of "\<lambda>_ _. None" local_account_default ?p "demo_clock 90000005"]
      silent_platform_goes_offline [of "\<lambda>_ _. None" local_account_default ?p "demo_clock 90000004"] by simp
qed

end
