(* ===== verification/Session_Facts.thy ===== *)
theory Session_Facts
  imports Sip_Session
begin

text \<open>
  What holds of a session's receiving side: the loop over the queue ends and empties it, the session itself keeps no bytes of a
  packet (only the parser of a message that is not complete and its type stay for the next one), and a message has to start with
  its packet.
\<close>

section \<open>Runs of a receiver\<close>

definition receiver_new :: "sip_session \<Rightarrow> 'p receiver" where
  "receiver_new s = sip_session.extend s
     (receiver.fields False SIP_MESSAGE_TYPE_NEED_MORE None [] None)"

inductive receiver_run :: "('p, 'm) sip_library \<Rightarrow> 'p receiver \<Rightarrow> bool" for lib where
  rc_new: "receiver_run lib (receiver_new s)"
| rc_recv: "receiver_run lib s \<Longrightarrow> receiver_run lib (onRecv now buffer s)"
| rc_handle: "receiver_run lib s \<Longrightarrow> handle_recv lib s = Inr (s', ms) \<Longrightarrow> receiver_run lib s'"

text \<open>No bytes are kept, and a parser is at hand whenever a message is under way.\<close>

definition receiver_ok :: "'p receiver \<Rightarrow> bool" where
  "receiver_ok s \<longleftrightarrow> rc_message_buffer s = None \<and> (rc_wait_type s = SIP_MESSAGE_TYPE_NEED_MORE \<or> rc_parse s \<noteq> None)"

lemma get_sip_message_type_fresh:
  assumes "rc_message_buffer s = None"
  shows "get_sip_message_type lib buffer s =
     (if buffer = [] then Inr (s, None)
      else case find_lf 0 buffer of
        None \<Rightarrow> Inr (s, None)
      | Some crlf_pos \<Rightarrow> (case scan_lines (sl_methods lib) buffer 0 crlf_pos of
          None \<Rightarrow> Inr (s, None)
        | Some (t, pos, start) \<Rightarrow>
            if pos = 0 \<and> start = 0
            then Inr (s\<lparr>rc_wait_type := t, rc_parse := Some (sl_create lib t)\<rparr>, Some buffer)
            else Inl Overread))"
proof -
  have [simp]: "s\<lparr>rc_message_buffer := None\<rparr> = s" using assms by (cases s) simp
  have [simp]: "s\<lparr>rc_wait_type := t, rc_parse := p, rc_message_buffer := None\<rparr> = s\<lparr>rc_wait_type := t, rc_parse := p\<rparr>" for t p
    using assms by (cases s) simp
  show ?thesis
    using assms by (simp add: get_sip_message_type_def get_buffer_def Let_def split: option.splits)
qed

lemma get_sip_message_type_ok:
  "receiver_ok s \<Longrightarrow> get_sip_message_type lib buffer s = Inr (s', r) \<Longrightarrow> receiver_ok s' \<and> rc_handling s' = rc_handling s"
  by (auto simp: receiver_ok_def get_sip_message_type_fresh split: if_splits option.splits)

lemma parse_buffer_ok:
  "receiver_ok s \<Longrightarrow> parse_buffer lib buffer s = Inr (s', ms) \<Longrightarrow> receiver_ok s' \<and> rc_handling s' = rc_handling s"
  by (auto simp: receiver_ok_def parse_buffer_def Let_def split: if_splits option.splits prod.splits)

lemma handle_front_ok:
  assumes "receiver_ok s"
  shows "case handle_front lib front s of
     Inl e \<Rightarrow> e = Overread
   | Inr (s', ms) \<Rightarrow> receiver_ok s' \<and> rc_handling s' = rc_handling s"
proof (cases "rc_wait_type s = SIP_MESSAGE_TYPE_NEED_MORE")
  case True
  then show ?thesis
    using assms
    by (auto simp: handle_front_def receiver_ok_def get_sip_message_type_fresh parse_buffer_def Let_def
        split: sum.splits option.splits prod.splits if_splits)
next
  case False
  then show ?thesis
    using assms
    by (auto simp: handle_front_def receiver_ok_def parse_buffer_def Let_def split: option.splits prod.splits if_splits)
qed

lemma handle_loop_ok:
  "receiver_ok s \<Longrightarrow>
     (case handle_loop lib s of
        Inl e \<Rightarrow> e = Overread
      | Inr (s', ms) \<Rightarrow> receiver_ok s' \<and> rc_buffers s' = [] \<and> rc_handling s' = rc_handling s)"
proof (induction lib s rule: handle_loop.induct)
  case (1 lib s)
  show ?case
  proof (cases "rc_buffers s")
    case Nil
    then show ?thesis using "1.prems" by (simp add: handle_loop.simps)
  next
    case (Cons front rest)
    have ok: "receiver_ok (s\<lparr>rc_buffers := rest\<rparr>)" using "1.prems" by (simp add: receiver_ok_def)
    show ?thesis
    proof (cases "handle_front lib front (s\<lparr>rc_buffers := rest\<rparr>)")
      case (Inl e)
      then show ?thesis using Cons handle_front_ok [OF ok, of lib front] by (simp add: handle_loop.simps [of lib s])
    next
      case (Inr q)
      then obtain s' ms where front: "handle_front lib front (s\<lparr>rc_buffers := rest\<rparr>) = Inr (s', ms)" by (cases q) simp
      then have "receiver_ok s'" "rc_handling s' = rc_handling s"
        using handle_front_ok [OF ok, of lib front] by simp_all
      then show ?thesis
        using "1.IH" [OF Cons front refl] Cons front
        by (auto simp: handle_loop.simps [of lib s] split: sum.splits prod.splits)
    qed
  qed
qed

lemma run_ok: "receiver_run lib s \<Longrightarrow> receiver_ok s \<and> \<not> rc_handling s"
proof (induction rule: receiver_run.induct)
  case (rc_new s)
  then show ?case by (simp add: receiver_ok_def receiver_new_def sip_session.defs receiver.defs)
next
  case (rc_recv s now buffer)
  then show ?case by (simp add: receiver_ok_def onRecv_def)
next
  case (rc_handle s s' ms)
  then have "receiver_ok (s\<lparr>rc_handling := True\<rparr>)" by (simp add: receiver_ok_def)
  from handle_loop_ok [OF this, of lib] rc_handle show ?case
    by (auto simp: handle_recv_def receiver_ok_def split: sum.splits prod.splits)
qed

section \<open>The loop and the framing\<close>

text \<open>C33. The loop over received packets always ends: it has emptied the queue and can be entered again, or a packet was
read past its end. It never uses a missing parser. The buffer for the bytes of an incomplete first line is empty after every run
of the loop; what stays for the next packet is the type of a message that is not complete, and then its parser too.\<close>

theorem receive_loop_drains:
  assumes "receiver_run lib s"
  shows "case handle_recv lib s of
      Inl e \<Rightarrow> e = Overread
    | Inr (s', ms) \<Rightarrow> rc_buffers s' = [] \<and> \<not> rc_handling s' \<and> rc_message_buffer s' = None
        \<and> (rc_wait_type s' = SIP_MESSAGE_TYPE_NEED_MORE \<or> rc_parse s' \<noteq> None)"
proof -
  have "receiver_ok (s\<lparr>rc_handling := True\<rparr>)" using run_ok [OF assms] by (simp add: receiver_ok_def)
  from handle_loop_ok [OF this, of lib] run_ok [OF assms] show ?thesis
    by (auto simp: handle_recv_def receiver_ok_def split: sum.splits prod.splits)
qed

lemma find_sub_char: "find_sub [c] s = None \<longleftrightarrow> c \<notin> set s"
proof (induction s)
  case Nil
  then show ?case by (simp add: find_sub.simps)
next
  case (Cons a s)
  then show ?case by (subst find_sub.simps) auto
qed

text \<open>A packet that comes to an idle receiver: what is found at its start decides.\<close>

lemma recv_idle:
  fixes packet :: string and now :: u64
  assumes "receiver_run lib s" "rc_wait_type s = SIP_MESSAGE_TYPE_NEED_MORE" "rc_buffers s = []"
  defines "s' \<equiv> (onRecv now packet s)\<lparr>rc_handling := True, rc_buffers := []\<rparr>"
  shows "get_sip_message_type lib packet s' = Inl e \<Longrightarrow> handle_recv lib (onRecv now packet s) = Inl e"
    and "get_sip_message_type lib packet s' = Inr (s', None) \<Longrightarrow>
      handle_recv lib (onRecv now packet s) = Inr (s'\<lparr>rc_handling := False\<rparr>, [])"
proof -
  have loop: "handle_loop lib ((onRecv now packet s)\<lparr>rc_handling := True\<rparr>) =
    (case handle_front lib packet s' of
      Inl e \<Rightarrow> Inl e
    | Inr (s', ms) \<Rightarrow> (case handle_loop lib s' of Inl e \<Rightarrow> Inl e | Inr (s'', ms') \<Rightarrow> Inr (s'', ms @ ms')))"
    using assms(3) by (subst handle_loop.simps) (simp add: onRecv_def s'_def)
  have idle: "\<not> rc_handling (onRecv now packet s)" "rc_wait_type s' = SIP_MESSAGE_TYPE_NEED_MORE" "rc_buffers s' = []"
    using run_ok [OF assms(1)] assms(2) by (simp_all add: onRecv_def s'_def)
  show "get_sip_message_type lib packet s' = Inl e \<Longrightarrow> handle_recv lib (onRecv now packet s) = Inl e"
    using idle by (simp add: handle_recv_def loop handle_front_def)
  show "get_sip_message_type lib packet s' = Inr (s', None) \<Longrightarrow>
      handle_recv lib (onRecv now packet s) = Inr (s'\<lparr>rc_handling := False\<rparr>, [])"
    using idle by (simp add: handle_recv_def loop handle_front_def handle_loop.simps [of lib s'])
qed

text \<open>A SIP message that waits for its first line has to bring all of it at its very start: a packet without a line
feed is dropped without a trace, so a line that comes in two packets is lost, and a message that is
preceded by anything in its packet, were it an empty line, is read beyond the packet's end.\<close>

theorem packets_framed_alone:
  assumes "receiver_run lib s" "rc_wait_type s = SIP_MESSAGE_TYPE_NEED_MORE" "rc_buffers s = []"
  shows "(CHR 0x0A \<notin> set packet \<longrightarrow> handle_recv lib (onRecv now packet s) = Inr (s\<lparr>se_ticker := now\<rparr>, []))
    \<and> (\<forall>k t pos start. find_lf 0 packet = Some k \<and> scan_lines (sl_methods lib) packet 0 k = Some (t, pos, start)
        \<and> 0 < pos + start \<longrightarrow> handle_recv lib (onRecv now packet s) = Inl Overread)"
proof -
  let ?s = "(onRecv now packet s)\<lparr>rc_handling := True, rc_buffers := []\<rparr>"
  have fresh: "rc_message_buffer s = None" "\<not> rc_handling s"
    using run_ok [OF assms(1)] by (simp_all add: receiver_ok_def)
  then have mb: "rc_message_buffer ?s = None" by (simp add: onRecv_def)
  have "handle_recv lib (onRecv now packet s) = Inr (s\<lparr>se_ticker := now\<rparr>, [])" if "CHR 0x0A \<notin> set packet"
  proof -
    have "find_lf 0 packet = None" using that by (simp add: find_lf_def find_pos_def find_sub_char)
    then have "get_sip_message_type lib packet ?s = Inr (?s, None)"
      by (simp add: get_sip_message_type_fresh [OF mb])
    from recv_idle(2) [OF assms this] fresh assms(3) show ?thesis by (cases s) (simp add: onRecv_def)
  qed
  moreover have "handle_recv lib (onRecv now packet s) = Inl Overread"
    if "find_lf 0 packet = Some k" "scan_lines (sl_methods lib) packet 0 k = Some (t, pos, start)" "0 < pos + start"
    for k t pos start
  proof -
    have "packet \<noteq> []" using that(1) by (auto simp: find_lf_def find_pos_def find_sub.simps)
    then have "get_sip_message_type lib packet ?s = Inl Overread"
      using that by (simp add: get_sip_message_type_fresh [OF mb])
    then show ?thesis by (rule recv_idle(1) [OF assms])
  qed
  ultimately show ?thesis by blast
qed

text \<open>A library whose parser takes every packet as one message.\<close>

definition demo_library :: "(unit, string) sip_library" where
  "demo_library = \<lparr>sl_methods = [''BYE''], sl_create = (\<lambda>t. ()), sl_input = (\<lambda>p b. (p, 0, 0)),
     sl_load = (\<lambda>t p. Some ''message''), sl_set_rport = (\<lambda>ip port m. m)\<rparr>"

definition demo_receiver :: "unit receiver" where
  "demo_receiver = receiver_new \<lparr>se_udp = False, se_peer_ip = ''10.0.0.2'', se_peer_port = 5060, se_family = Some Inet,
     se_addr = None, se_local_ip = [], se_local_port = 0, se_ticker = 0\<rparr>"

lemma demo_fields [simp]:
  "rc_wait_type demo_receiver = SIP_MESSAGE_TYPE_NEED_MORE" "rc_buffers demo_receiver = []"
  "sl_methods demo_library = [''BYE'']"
  by (simp_all add: demo_receiver_def demo_library_def receiver_new_def sip_session.defs receiver.defs)

lemma receive_loop_drains_witness:
  "case handle_recv demo_library (onRecv 1 [] demo_receiver) of
      Inl e \<Rightarrow> e = Overread
    | Inr (s', ms) \<Rightarrow> rc_buffers s' = [] \<and> \<not> rc_handling s' \<and> rc_message_buffer s' = None
        \<and> (rc_wait_type s' = SIP_MESSAGE_TYPE_NEED_MORE \<or> rc_parse s' \<noteq> None)"
  by (rule receive_loop_drains) (simp add: demo_receiver_def rc_new rc_recv)

lemma packets_framed_alone_witness:
  "handle_recv demo_library (onRecv 1 ''BYE sip:a SIP'' demo_receiver) = Inr (demo_receiver\<lparr>se_ticker := 1\<rparr>, [])
    \<and> handle_recv demo_library (onRecv 1 (CHR 0x0A # ''BYE sip:a SIP/2.0'' @ [CHR 0x0A]) demo_receiver) = Inl Overread"
proof -
  have run: "receiver_run demo_library demo_receiver" by (simp add: demo_receiver_def rc_new)
  have "find_lf 0 (CHR 0x0A # ''BYE sip:a SIP/2.0'' @ [CHR 0x0A]) = Some 0" by code_simp
  moreover have "scan_lines [''BYE''] (CHR 0x0A # ''BYE sip:a SIP/2.0'' @ [CHR 0x0A]) 0 0
      = Some (SIP_MESSAGE_TYPE_REQUEST, 1, 0)" by code_simp
  ultimately show ?thesis
    using packets_framed_alone [OF run, of "''BYE sip:a SIP''" 1]
      packets_framed_alone [OF run, of "CHR 0x0A # ''BYE sip:a SIP/2.0'' @ [CHR 0x0A]" 1] by auto
qed

end
