(* ===== verification/Super_Platform.thy ===== *)
theory Super_Platform
  imports Platform_Helper Digest
begin

text \<open>
  The platform above this one (\<open>src/super_platform_impl.cpp\<close>): registration, its refresh and its failures, redirection, and
  keepalives. A handler returns the new state and what it starts: transactions, and jobs for later. Transactions
  are answered, delayed jobs run and names are resolved by the environment.
\<close>

section \<open>State\<close>

text \<open>
  Jobs: \<open>to_register\<close> with a lifetime and an authorization, \<open>start_l\<close>, and \<open>to_keepalive\<close>.
\<close>

datatype job = Register int string | Start | Keepalive

record super_platform = "unit super_account_ext platform_helper" +
  su_moved_uri :: string
  su_temp_host :: string
  su_running :: bool
  su_temp_port :: u16
  su_auth_failed_count :: i32
  su_nc_pair :: "string \<times> i32"
  su_keepalive_timer :: bool \<comment> \<open>\<open>keepalive_timer_\<close> is set\<close>
  su_refresh_timer :: "job option" \<comment> \<open>the job of \<open>refresh_register_timer_\<close>\<close>
  su_fault_devices :: "string list"
  su_keepalive_ticker :: u64 \<comment> \<open>when the ticker was reset, in milliseconds\<close>

text \<open>
  What a handler starts. A REGISTER carries its lifetime and authorization, and a context that only remembers the
  lifetime. \<open>After\<close> delays a job by milliseconds; \<open>Soon\<close> is an asynchronous call; \<open>Detached\<close> is
  a delayed job whose handle was overwritten, so that it can no longer be cancelled.
\<close>

datatype effect =
    SendRegister string string int string \<comment> \<open>from, to, lifetime, authorization\<close>
  | SendKeepalive string "string list"
  | After int job
  | Soon job
  | Detached job
  | Resolve string u16
  | StatusChanged PlatformStatusType string
  | KeepaliveResult bool
  | Contact contact_notice
  | Shutdown

datatype super_fault = DigestFault digest_fault | SignedOverflow

text \<open>The two clocks: microseconds of the day, and the milliseconds of a ticker.\<close>

record super_clock =
  sc_wall_time :: u64
  sc_tick_time :: u64

definition su_status :: "super_platform \<Rightarrow> PlatformStatusType" where
  "su_status p = st_status (pa_plat_status (ph_account p))"

definition with_super_status :: "(sip_account_status \<Rightarrow> sip_account_status) \<Rightarrow> super_platform \<Rightarrow> super_platform" where
  "with_super_status f p = p\<lparr>ph_account := (ph_account p)\<lparr>pa_plat_status := f (pa_plat_status (ph_account p))\<rparr>\<rparr>"

definition SuperPlatformImpl :: "u64 \<Rightarrow> local_account \<Rightarrow> super_account \<Rightarrow> super_platform" where
  "SuperPlatformImpl now server account =
     (let account = (if sa_local_host account = [] then account\<lparr>sa_local_host := sa_local_host server\<rparr> else account);
          account = (if sa_local_port account = 0 then account\<lparr>sa_local_port := sa_local_port server\<rparr> else account)
      in \<lparr>ph_account = account, ph_tcp_session = None, ph_remote_addr = None, ph_udp_sessions = [],
            ph_from_uri = sip_uri (sa_platform_id server) (sa_local_host server) (sa_local_port server),
            ph_to_uri = sip_uri (sa_platform_id account) (sa_host account) (sa_port account),
            ph_contact_uri = sip_uri (sa_platform_id server) (sa_local_host account) (sa_local_port account),
            ph_status_cbs = {}, su_moved_uri = [], su_temp_host = [], su_running = False, su_temp_port = 0,
            su_auth_failed_count = 0, su_nc_pair = ([], 0), su_keepalive_timer = False, su_refresh_timer = None,
            su_fault_devices = [], su_keepalive_ticker = now\<rparr>)"

section \<open>The status\<close>

definition set_super_status ::
    "super_clock \<Rightarrow> PlatformStatusType \<Rightarrow> string \<Rightarrow> super_platform \<Rightarrow> super_platform \<times> effect list" where
  "set_super_status now status error p =
     (let p = with_super_status (\<lambda>s. s\<lparr>st_error := error\<rparr>) p;
          p = (if status = Plat_online then with_super_status (\<lambda>s. s\<lparr>st_register_time := sc_wall_time now\<rparr>) p else p)
      in if status = su_status p then (p, [])
         else (let p = (if status = Plat_offline then with_super_status (\<lambda>s. s\<lparr>st_offline_time := sc_wall_time now\<rparr>) p else p)
               in (with_super_status (\<lambda>s. s\<lparr>st_status := status\<rparr>) p, [StatusChanged status error])))"

text \<open>The redirected URI, if there is one, replaces the platform's own.\<close>

definition super_get_to_uri :: "super_platform \<Rightarrow> super_platform \<times> string" where
  "super_get_to_uri p = (if su_moved_uri p = [] then get_to_uri p else (p, su_moved_uri p))"

section \<open>Registering\<close>

definition to_register ::
    "super_clock \<Rightarrow> int \<Rightarrow> string \<Rightarrow> super_platform \<Rightarrow> super_platform \<times> effect list" where
  "to_register now expires authorization p =
     (let p = p\<lparr>su_refresh_timer := None\<rparr>
      in if expires \<noteq> 0 \<and> \<not> su_running p then (p, [])
         else (case super_get_to_uri p of (p, to_uri) \<Rightarrow>
               (let (p, es) = (if su_status p \<noteq> Plat_online then set_super_status now Plat_registering [] p else (p, []))
                in (p, es @ [SendRegister (get_from_uri p) to_uri expires authorization]))))"

text \<open>The callback for a REGISTER that could not be sent; \<open>alive\<close> means that someone but the context holds the platform.\<close>

definition on_register_unsent ::
    "super_clock \<Rightarrow> bool \<Rightarrow> int \<Rightarrow> string \<Rightarrow> super_platform \<Rightarrow> super_platform \<times> effect list" where
  "on_register_unsent now alive expires err p =
     (if alive
      then case set_super_status now Plat_network_error err p of (p, es) \<Rightarrow> (p, es @ [After 3000 (Register expires [])])
      else (p, []))"

text \<open>
  \<open>start_l\<close>: the address of the platform is taken as it is, or resolved first. \<open>ip_addr\<close> is the address of a
  host that is an IP address.
\<close>

definition start_l ::
    "(string \<Rightarrow> u16 \<Rightarrow> sockaddr option) \<Rightarrow> super_clock \<Rightarrow> super_platform \<Rightarrow> super_platform \<times> effect list" where
  "start_l ip_addr now p =
     (let host = (if su_temp_host p = [] then sa_host (ph_account p) else su_temp_host p);
          port = (if su_temp_host p = [] then sa_port (ph_account p)
                  else if su_temp_port p = 0 then sa_port (ph_account p) else su_temp_port p)
      in case ip_addr host port of
           Some a \<Rightarrow> to_register now 0 [] (on_platform_addr_changed (Some a) p)
         | None \<Rightarrow> (p, [Resolve host port]))"

definition on_resolved :: "sockaddr option \<Rightarrow> super_platform \<Rightarrow> super_platform \<times> effect list" where
  "on_resolved addr p =
     (case addr of
        Some a \<Rightarrow> (on_platform_addr_changed (Some a) p, [Soon (Register 0 [])])
      | None \<Rightarrow> (p, [After 3000 Start]))"

definition super_start ::
    "(string \<Rightarrow> u16 \<Rightarrow> sockaddr option) \<Rightarrow> super_clock \<Rightarrow> super_platform \<Rightarrow> super_platform \<times> effect list" where
  "super_start ip_addr now p = (if su_running p then (p, []) else start_l ip_addr now (p\<lparr>su_running := True\<rparr>))"

definition super_shutdown :: "super_clock \<Rightarrow> super_platform \<Rightarrow> super_platform \<times> effect list" where
  "super_shutdown now p =
     (if \<not> su_running p then (p, [])
      else let p = p\<lparr>su_running := False\<rparr>
           in if su_status p = Plat_online
              then case to_register now 0 [] p of (p, es) \<Rightarrow> (p, Shutdown # es)
              else (p, [Shutdown]))"

section \<open>Replies\<close>

text \<open>
  What is read of a reply: the \<open>received\<close> and \<open>rport\<close> of its Via, and the text of its headers, \<open>None\<close> when absent or empty.
\<close>

record sip_reply =
  sr_via :: "(string \<times> int) option"
  sr_expires :: "string option"
  sr_gb_version :: "string option"
  sr_contact :: "string option"
  sr_authenticate :: "string option"
  sr_payload :: "string option"

definition get_via_rport :: "sip_reply \<Rightarrow> string \<times> u32" where
  "get_via_rport msg =
     (case sr_via msg of
        Some (host, rport) \<Rightarrow> if rport \<le> 0 then (host, 0) else (host, word_of_int rport)
      | None \<Rightarrow> ([], 0))"

definition get_expires :: "(string \<Rightarrow> int option) \<Rightarrow> sip_reply \<Rightarrow> int" where
  "get_expires ToInt msg =
     (case sr_expires msg of
        Some hv \<Rightarrow> (case ToInt hv of None \<Rightarrow> 0 | Some expires \<Rightarrow> expires)
      | None \<Rightarrow> 0)"

definition get_message_gbt_version :: "sip_reply \<Rightarrow> PlatformVersionType" where
  "get_message_gbt_version msg =
     (case sr_gb_version msg of
        None \<Rightarrow> Ver_unknown
      | Some hv \<Rightarrow>
          if length hv < 3 then Ver_unknown
          else if take 3 hv = ''1.0'' then Ver_v10
          else if take 3 hv = ''1.1'' then Ver_v11
          else if take 3 hv = ''2.0'' then Ver_v20
          else if take 3 hv = ''3.0'' then Ver_v30
          else Ver_unknown)"

definition get_message_contact :: "sip_reply \<Rightarrow> string" where
  "get_message_contact msg = (case sr_contact msg of None \<Rightarrow> [] | Some hv \<Rightarrow> hv)"

text \<open>\<open>strtol\<close> in base 10 with a 64-bit \<open>long\<close>.\<close>

definition strtol :: "string \<Rightarrow> int" where
  "strtol s =
     (let t = dropWhile is_space s;
          neg = (t \<noteq> [] \<and> hd t = CHR ''-'');
          u = (if t \<noteq> [] \<and> (hd t = CHR ''-'' \<or> hd t = CHR ''+'') then tl t else t);
          n = int (fst (read_digits 0 u))
      in max (- (2 ^ 63)) (min (2 ^ 63 - 1) (if neg then - n else n)))"

text \<open>
  The temporary host and port of a redirection. \<open>host\<close> is the host that \<open>sip_contact_write\<close> left in the contact and \<open>rest\<close>
  the text behind it, which \<open>strtol\<close> may read on.
\<close>

definition redirect_address :: "string \<Rightarrow> string \<Rightarrow> string \<times> u16" where
  "redirect_address host rest =
     (let host = (case find_sub ''@'' host of None \<Rightarrow> host | Some (a, b) \<Rightarrow> b)
      in case find_sub '':'' host of
           None \<Rightarrow> (host, 5060)
         | Some (a, b) \<Rightarrow> (a, word_of_int (strtol (b @ rest))))"

definition clear_redirection :: "super_platform \<Rightarrow> super_platform" where
  "clear_redirection p = p\<lparr>su_moved_uri := [], su_temp_host := [], su_temp_port := 0\<rparr>"

text \<open>A refresh takes place five seconds before the end; the product is a signed \<open>int\<close>.\<close>

definition refresh_delay :: "int \<Rightarrow> int option" where
  "refresh_delay expires =
     (let delay = max (expires - 5) 5 * 1000 in if delay < 2 ^ 31 then Some delay else None)"

text \<open>What is not under \<open>src\<close>: the classes of codes, number parsing, the hashes, and \<open>sip_contact_write\<close>.\<close>

record sip_environment =
  en_info :: "int \<Rightarrow> bool"
  en_success :: "int \<Rightarrow> bool"
  en_redirect :: "int \<Rightarrow> bool"
  en_ToInt :: "string \<Rightarrow> int option"
  en_md5 :: "string \<Rightarrow> nat list"
  en_sha256 :: "string \<Rightarrow> nat list"
  en_contact :: "string \<Rightarrow> (string \<times> string) option"
  en_ip_addr :: "string \<Rightarrow> u16 \<Rightarrow> sockaddr option"

text \<open>A successful reply to a lifetime; \<open>authorization\<close> is that of the context.\<close>

definition on_register_success ::
    "sip_environment \<Rightarrow> super_clock \<Rightarrow> sip_reply \<Rightarrow> int \<Rightarrow> string \<Rightarrow> super_platform
      \<Rightarrow> super_fault + (super_platform \<times> effect list)" where
  "on_register_success env now reply expires authorization p =
     (let p = p\<lparr>su_auth_failed_count := 0\<rparr>
      in if expires = 0
         then (case set_super_status now Plat_offline ''active logout'' p of (p, es) \<Rightarrow>
                 Inr (p, es @ (if su_running p then [Soon (Register (sint (su_register_expired (ph_account p))) [])] else [])))
         else (let resp_expires = get_expires (en_ToInt env) reply;
                   expires = (if 0 < resp_expires then resp_expires else expires);
                   version = get_message_gbt_version reply;
                   p = (if version \<noteq> Ver_unknown then p\<lparr>ph_account := (ph_account p)\<lparr>pa_version := version\<rparr>\<rparr> else p)
               in case refresh_delay expires of
                    None \<Rightarrow> Inl SignedOverflow
                  | Some delay \<Rightarrow>
                      (let replaced = (case su_refresh_timer p of None \<Rightarrow> [] | Some j \<Rightarrow> [Detached j]);
                           p = p\<lparr>su_refresh_timer := Some (Register expires authorization),
                                 su_keepalive_ticker := sc_tick_time now, su_keepalive_timer := True\<rparr>
                       in case set_super_status now Plat_online [] p of (p, es) \<Rightarrow>
                            Inr (p, replaced @ es @ [Soon Keepalive]))))"

definition on_register_redirect ::
    "sip_environment \<Rightarrow> sip_reply \<Rightarrow> int \<Rightarrow> string \<Rightarrow> super_platform \<Rightarrow> super_platform \<times> effect list" where
  "on_register_redirect env reply expires authorization p =
     (let p = p\<lparr>su_moved_uri := get_message_contact reply\<rparr>
      in if su_moved_uri p \<noteq> []
         then (case en_contact env (su_moved_uri p) of
                 Some (host, rest) \<Rightarrow>
                   (case redirect_address host rest of (temp_host, temp_port) \<Rightarrow>
                      (p\<lparr>su_temp_port := temp_port, su_temp_host := temp_host\<rparr>, [Soon Start]))
               | None \<Rightarrow> (p\<lparr>su_temp_host := [], su_moved_uri := []\<rparr>, [After 3000 (Register expires authorization)]))
         else (p, [After 3000 (Register expires authorization)]))"

definition on_register_unauthorized ::
    "sip_environment \<Rightarrow> super_clock \<Rightarrow> local_account \<Rightarrow> string \<Rightarrow> sip_reply \<Rightarrow> int \<Rightarrow> super_platform
      \<Rightarrow> super_fault + (super_platform \<times> effect list)" where
  "on_register_unauthorized env now server cnonce reply expires p =
     (let p = p\<lparr>su_auth_failed_count := su_auth_failed_count p + 1\<rparr>
      in if 5 < sint (su_auth_failed_count p)
         then (let p = p\<lparr>su_auth_failed_count := 0\<rparr>;
                   p = (if su_moved_uri p \<noteq> [] then clear_redirection p else p)
               in Inr (start_l (en_ip_addr env) now p))
         else (case super_get_to_uri p of (p, to_uri) \<Rightarrow>
           (case generate_authorization (en_md5 env) (en_sha256 env) (sr_authenticate reply) (sr_payload reply)
                   (sa_platform_id server) (sa_password (ph_account p)) to_uri cnonce (su_nc_pair p) of
              Inl e \<Rightarrow> Inl (DigestFault e)
            | Inr (auth_str, nc_pair) \<Rightarrow>
                (let p = p\<lparr>su_nc_pair := nc_pair\<rparr>
                 in if auth_str = []
                    then (case set_super_status now Plat_auth_failure ''generate authorization failed'' p of (p, es) \<Rightarrow>
                            Inr (p, After 3000 (Register expires []) # es))
                    else Inr (p, [After 1 (Register expires auth_str)])))))"

definition on_register_failed ::
    "sip_environment \<Rightarrow> super_clock \<Rightarrow> int \<Rightarrow> int \<Rightarrow> super_platform \<Rightarrow> super_platform \<times> effect list" where
  "on_register_failed env now code expires p =
     (case set_super_status now Plat_auth_failure (''reply '' @ show_int code) p of (p, es) \<Rightarrow>
        if su_moved_uri p \<noteq> []
        then (case start_l (en_ip_addr env) now (clear_redirection p) of (p, es') \<Rightarrow> (p, es @ es'))
        else (p, es @ [After 3000 (Register expires [])]))"

text \<open>
  \<open>on_register_reply\<close>; no reply is a timeout. The authorization of the context is never stored, so it is empty.
\<close>

definition on_register_reply ::
    "sip_environment \<Rightarrow> super_clock \<Rightarrow> local_account \<Rightarrow> string \<Rightarrow> bool \<Rightarrow> sip_reply option \<Rightarrow> int \<Rightarrow> int \<Rightarrow> super_platform
      \<Rightarrow> super_fault + (super_platform \<times> effect list)" where
  "on_register_reply env now server cnonce alive reply code expires p =
     (if en_info env code then Inr (p, [])
      else if \<not> alive then Inr (p, [])
      else case (if code = 408 then None else reply) of
        None \<Rightarrow>
          (case set_super_status now Plat_network_error ''register timeout'' p of (p, es) \<Rightarrow>
             Inr (p, es @ [After 3000 (Register expires [])]))
      | Some reply \<Rightarrow>
          (case update_remote_via server (get_via_rport reply) p of (p, changed, ns) \<Rightarrow>
            (case (if en_success env code then on_register_success env now reply expires [] p
                   else if en_redirect env code then Inr (on_register_redirect env reply expires [] p)
                   else if code = 401 then on_register_unauthorized env now server cnonce reply expires p
                   else Inr (on_register_failed env now code expires p)) of
               Inl e \<Rightarrow> Inl e
             | Inr (p, es) \<Rightarrow> Inr (p, map Contact ns @ es))))"

section \<open>Keepalives\<close>

definition to_keepalive :: "local_account \<Rightarrow> super_platform \<Rightarrow> super_platform \<times> effect list" where
  "to_keepalive server p = (p, [SendKeepalive (sa_platform_id server) (su_fault_devices p)])"

text \<open>The callback of the request: the limit is computed with \<open>int\<close>s.\<close>

definition keepalive_limit :: "super_platform \<Rightarrow> u64" where
  "keepalive_limit p = scast (su_keepalive_interval (ph_account p) * su_keepalive_times (ph_account p) * 1000)"

definition on_keepalive_result ::
    "sip_environment \<Rightarrow> super_clock \<Rightarrow> bool \<Rightarrow> super_platform \<Rightarrow> super_platform \<times> effect list" where
  "on_keepalive_result env now succeeded p =
     (if succeeded
      then ((with_super_status (\<lambda>s. s\<lparr>st_keepalive_time := sc_wall_time now\<rparr>) p)\<lparr>su_keepalive_ticker := sc_tick_time now\<rparr>,
            [KeepaliveResult True])
      else (let elapsed = sc_tick_time now - su_keepalive_ticker p
            in if keepalive_limit p \<le> elapsed
               then (case set_super_status now Plat_offline (''keepalive timeout, '' @ show_nat (unat (elapsed div 1000)))
                            (p\<lparr>su_keepalive_timer := False\<rparr>) of (p, es) \<Rightarrow>
                     (case start_l (en_ip_addr env) now p of (p, es') \<Rightarrow> (p, KeepaliveResult False # es @ es')))
               else (p, [KeepaliveResult False])))"

end
