(* ===== verification/Super_Facts.thy ===== *)
theory Super_Facts
  imports Super_Platform
begin

text \<open>
  What holds of the registration with the platform above: it never gives up, an online platform is kept alive by its
  timer, and a wrong password is never reported.
\<close>

section \<open>The platform and what it has started\<close>

text \<open>What is under way: delayed jobs, REGISTER transactions with their lifetime, name lookups, and keepalive requests.\<close>

datatype task = Job job | Transaction int | Name string u16 | Probe

fun tasks_of :: "effect \<Rightarrow> task list" where
  "tasks_of (SendRegister f t e a) = [Transaction e]"
| "tasks_of (SendKeepalive i ds) = [Probe]"
| "tasks_of (After n j) = [Job j]"
| "tasks_of (Soon j) = [Job j]"
| "tasks_of (Detached j) = [Job j]"
| "tasks_of (Resolve h n) = [Name h n]"
| "tasks_of _ = []"

definition tasks :: "effect list \<Rightarrow> task list" where
  "tasks es = concat (map tasks_of es)"

lemma tasks_simps [simp]: "tasks [] = []" "tasks (e # es) = tasks_of e @ tasks es" "tasks (es @ es') = tasks es @ tasks es'"
  by (simp_all add: tasks_def)

fun run_job ::
    "sip_environment \<Rightarrow> super_clock \<Rightarrow> local_account \<Rightarrow> job \<Rightarrow> super_platform \<Rightarrow> super_platform \<times> effect list" where
  "run_job env now server (Register e a) p = to_register now e a p"
| "run_job env now server Start p = start_l (en_ip_addr env) now p"
| "run_job env now server Keepalive p = to_keepalive server p"

inductive super_run :: "sip_environment \<Rightarrow> local_account \<Rightarrow> super_platform \<Rightarrow> task list \<Rightarrow> bool" for env server where
  su_new: "st_status (pa_plat_status account) \<noteq> Plat_online \<Longrightarrow>
    super_run env server (SuperPlatformImpl t server account) []"
| su_start: "super_run env server p ts \<Longrightarrow> super_start (en_ip_addr env) now p = (p', es) \<Longrightarrow>
    super_run env server p' (ts @ tasks es)"
| su_shutdown: "super_run env server p ts \<Longrightarrow> super_shutdown now p = (p', es) \<Longrightarrow> super_run env server p' (ts @ tasks es)"
| su_job: "super_run env server p (ts1 @ Job j # ts2) \<Longrightarrow> run_job env now server j p = (p', es) \<Longrightarrow>
    super_run env server p' (ts1 @ ts2 @ tasks es)"
| su_refresh: "super_run env server p ts \<Longrightarrow> su_refresh_timer p = Some j \<Longrightarrow> run_job env now server j p = (p', es) \<Longrightarrow>
    super_run env server p' (ts @ tasks es)"
| su_info: "super_run env server p ts \<Longrightarrow> Transaction e \<in> set ts \<Longrightarrow> en_info env code \<Longrightarrow>
    on_register_reply env now server cnonce True reply code e p = Inr (p', es) \<Longrightarrow> super_run env server p' (ts @ tasks es)"
| su_reply: "super_run env server p (ts1 @ Transaction e # ts2) \<Longrightarrow> \<not> en_info env code \<Longrightarrow>
    on_register_reply env now server cnonce True reply code e p = Inr (p', es) \<Longrightarrow>
    super_run env server p' (ts1 @ ts2 @ tasks es)"
| su_unsent: "super_run env server p (ts1 @ Transaction e # ts2) \<Longrightarrow> on_register_unsent now True e err p = (p', es) \<Longrightarrow>
    super_run env server p' (ts1 @ ts2 @ tasks es)"
| su_name: "super_run env server p (ts1 @ Name h n # ts2) \<Longrightarrow> on_resolved addr p = (p', es) \<Longrightarrow>
    super_run env server p' (ts1 @ ts2 @ tasks es)"
| su_tick: "super_run env server p ts \<Longrightarrow> su_keepalive_timer p \<Longrightarrow> to_keepalive server p = (p', es) \<Longrightarrow>
    super_run env server p' (ts @ tasks es)"
| su_probe: "super_run env server p (ts1 @ Probe # ts2) \<Longrightarrow> on_keepalive_result env now ok p = (p', es) \<Longrightarrow>
    super_run env server p' (ts1 @ ts2 @ tasks es)"

section \<open>What every handler keeps\<close>

text \<open>A task that leads to another registration.\<close>

fun registering :: "task \<Rightarrow> bool" where
  "registering (Job (Register e a)) = True"
| "registering (Job Start) = True"
| "registering (Transaction e) = True"
| "registering (Name h n) = True"
| "registering _ = False"

definition driven :: "super_platform \<Rightarrow> task list \<Rightarrow> bool" where
  "driven p ts \<longleftrightarrow> (su_running p \<longrightarrow> (\<exists>e a. su_refresh_timer p = Some (Register e a)) \<or> (\<exists>t \<in> set ts. registering t))"

definition watched_over :: "super_platform \<Rightarrow> bool" where
  "watched_over p \<longleftrightarrow> (su_status p = Plat_online \<longrightarrow> su_keepalive_timer p)
     \<and> (su_refresh_timer p = None \<or> (\<exists>e a. su_refresh_timer p = Some (Register e a)))"

lemma driven_more: "driven p ts \<Longrightarrow> set ts \<subseteq> set ts' \<Longrightarrow> driven p ts'"
  by (auto simp: driven_def)

lemmas status_simps = su_status_def with_super_status_def set_super_status_def Let_def

text \<open>The results are written with \<open>fst\<close> and \<open>snd\<close>, so that these are simplification rules.\<close>

lemma set_super_status_keeps [simp]:
  "su_running (fst (set_super_status now st err p)) = su_running p"
  "su_refresh_timer (fst (set_super_status now st err p)) = su_refresh_timer p"
  "su_keepalive_timer (fst (set_super_status now st err p)) = su_keepalive_timer p"
  "su_moved_uri (fst (set_super_status now st err p)) = su_moved_uri p"
  "su_status (fst (set_super_status now st err p)) = st"
  "tasks (snd (set_super_status now st err p)) = []"
  "After n j \<notin> set (snd (set_super_status now st err p))"
  by (auto simp: status_simps)

lemma get_to_uri_keeps [simp]:
  "su_running (fst (super_get_to_uri p)) = su_running p"
  "su_refresh_timer (fst (super_get_to_uri p)) = su_refresh_timer p"
  "su_status (fst (super_get_to_uri p)) = su_status p"
  "su_keepalive_timer (fst (super_get_to_uri p)) = su_keepalive_timer p"
  by (auto simp: super_get_to_uri_def get_to_uri_def su_status_def Let_def)

lemma addr_changed_keeps [simp]:
  "su_running (on_platform_addr_changed a p) = su_running p"
  "su_refresh_timer (on_platform_addr_changed a p) = su_refresh_timer p"
  "su_status (on_platform_addr_changed a p) = su_status p"
  "su_keepalive_timer (on_platform_addr_changed a p) = su_keepalive_timer p"
  by (simp_all add: on_platform_addr_changed_def su_status_def)

lemma via_keeps_super [simp]:
  "su_running (fst (update_remote_via sv val p)) = su_running p"
  "su_refresh_timer (fst (update_remote_via sv val p)) = su_refresh_timer p"
  "su_status (fst (update_remote_via sv val p)) = su_status p"
  "su_keepalive_timer (fst (update_remote_via sv val p)) = su_keepalive_timer p"
  by (simp_all add: update_remote_via_def su_status_def Let_def split: prod.splits)

lemma status_upd [simp]:
  "su_status (p\<lparr>su_refresh_timer := x\<rparr>) = su_status p" "su_status (p\<lparr>su_running := r\<rparr>) = su_status p"
  "su_status (p\<lparr>su_keepalive_timer := k\<rparr>) = su_status p" "su_status (p\<lparr>su_moved_uri := u\<rparr>) = su_status p"
  "su_status (p\<lparr>su_auth_failed_count := n\<rparr>) = su_status p" "su_status (p\<lparr>su_nc_pair := q\<rparr>) = su_status p"
  "su_status (p\<lparr>su_temp_host := h\<rparr>) = su_status p" "su_status (p\<lparr>su_temp_port := tp\<rparr>) = su_status p"
  "su_status (p\<lparr>su_keepalive_ticker := tk\<rparr>) = su_status p"
  "su_status (p\<lparr>ph_account := (ph_account p)\<lparr>pa_version := v\<rparr>\<rparr>) = su_status p"
  by (simp_all add: su_status_def)

text \<open>
  One predicate for all handlers: the running flag stays, an online result had an online start or sets the timer, and
  some task leads to a registration while the platform runs.
\<close>

definition carries_on :: "super_platform \<Rightarrow> super_platform \<times> effect list \<Rightarrow> bool" where
  "carries_on p r \<longleftrightarrow> su_running (fst r) = su_running p \<and> driven (fst r) (tasks (snd r))
     \<and> (watched_over p \<longrightarrow> watched_over (fst r))"

lemma to_register_carries: "carries_on p (to_register now e a p)"
  by (auto simp: carries_on_def to_register_def Let_def driven_def watched_over_def split_beta)

lemma start_l_carries: "carries_on p (start_l ip_addr now p)"
proof -
  have "carries_on p (to_register now 0 [] (on_platform_addr_changed a p))" for a
    using to_register_carries [of "on_platform_addr_changed a p" now 0 "[]"]
    by (simp add: carries_on_def watched_over_def)
  then show ?thesis
    by (auto simp: start_l_def Let_def carries_on_def driven_def split: option.splits)
qed

lemma start_l_after:
  "su_running q = su_running p \<Longrightarrow> (watched_over p \<Longrightarrow> watched_over q) \<Longrightarrow> tasks es = [] \<Longrightarrow>
    carries_on p (fst (start_l ip_addr now q), es @ snd (start_l ip_addr now q))"
  using start_l_carries [of q ip_addr now] by (simp add: carries_on_def)

lemma unsent_carries: "carries_on p (on_register_unsent now True e err p)"
  by (auto simp: carries_on_def on_register_unsent_def driven_def watched_over_def split_beta)

lemma resolved_carries: "carries_on p (on_resolved addr p)"
  by (auto simp: carries_on_def on_resolved_def driven_def watched_over_def split: option.splits)

lemma success_carries:
  "on_register_success env now reply e a p = Inr r \<Longrightarrow> carries_on p r"
  by (auto simp: carries_on_def on_register_success_def driven_def watched_over_def Let_def split_beta
      split: if_splits option.splits)

lemma redirect_carries: "carries_on p (on_register_redirect env reply e a p)"
  by (auto simp: carries_on_def on_register_redirect_def driven_def watched_over_def Let_def split_beta
      split: option.splits)

lemma clear_redirection_keeps [simp]:
  "su_running (clear_redirection p) = su_running p" "su_status (clear_redirection p) = su_status p"
  "su_refresh_timer (clear_redirection p) = su_refresh_timer p"
  "su_keepalive_timer (clear_redirection p) = su_keepalive_timer p"
  by (simp_all add: clear_redirection_def)

lemma unauthorized_carries:
  assumes "on_register_unauthorized env now server cnonce reply e p = Inr r"
  shows "carries_on p r"
proof (cases "5 < sint (su_auth_failed_count p + 1)")
  case True
  let ?p = "p\<lparr>su_auth_failed_count := 0\<rparr>"
  have "r = start_l (en_ip_addr env) now (if su_moved_uri ?p \<noteq> [] then clear_redirection ?p else ?p)"
    using assms True by (simp add: on_register_unauthorized_def Let_def)
  moreover have "carries_on p (start_l (en_ip_addr env) now q)" if "su_running q = su_running p" "su_status q = su_status p"
      "su_refresh_timer q = su_refresh_timer p" "su_keepalive_timer q = su_keepalive_timer p" for q
    using start_l_carries [of q "en_ip_addr env" now] that by (simp add: carries_on_def watched_over_def)
  ultimately show ?thesis by simp
next
  case False
  then show ?thesis using assms
    by (auto simp: on_register_unauthorized_def carries_on_def driven_def watched_over_def Let_def split_beta
        split: sum.splits if_splits)
qed

lemma failed_carries: "carries_on p (on_register_failed env now code e p)"
proof (cases "su_moved_uri p = []")
  case True
  then show ?thesis
    by (auto simp: on_register_failed_def carries_on_def driven_def watched_over_def split_beta)
next
  case False
  let ?q = "clear_redirection (fst (set_super_status now Plat_auth_failure (''reply '' @ show_int code) p))"
  have "watched_over p \<Longrightarrow> watched_over ?q" by (simp add: watched_over_def)
  from start_l_after [of ?q p, OF _ this] show ?thesis
    using False by (simp add: on_register_failed_def split_beta)
qed

lemma tasks_contact [simp]: "tasks (map Contact ns) = []"
  by (induction ns) simp_all

lemma reply_carries:
  assumes "on_register_reply env now server cnonce True reply code e p = Inr r" "\<not> en_info env code"
  shows "carries_on p r"
proof (cases "if code = 408 then None else reply")
  case None
  then show ?thesis
    using assms by (auto simp: on_register_reply_def carries_on_def driven_def watched_over_def split_beta)
next
  case (Some rep)
  let ?q = "fst (update_remote_via server (get_via_rport rep) p)"
  let ?h = "if en_success env code then on_register_success env now rep e [] ?q
     else if en_redirect env code then Inr (on_register_redirect env rep e [] ?q)
     else if code = 401 then on_register_unauthorized env now server cnonce rep e ?q
     else Inr (on_register_failed env now code e ?q)"
  obtain r' where h: "?h = Inr r'" and r: "fst r = fst r'" "tasks (snd r) = tasks (snd r')"
    using assms Some by (auto simp: on_register_reply_def split_beta split: sum.splits)
  have "carries_on ?q r'"
    using h by (auto split: if_splits intro: success_carries redirect_carries unauthorized_carries failed_carries)
  then show ?thesis by (simp add: carries_on_def watched_over_def r)
qed

lemma keepalive_carries:
  "su_running (fst (on_keepalive_result env now ok p)) = su_running p
   \<and> (watched_over p \<longrightarrow> watched_over (fst (on_keepalive_result env now ok p)))
   \<and> (driven p ts \<longrightarrow> driven (fst (on_keepalive_result env now ok p)) (ts @ tasks (snd (on_keepalive_result env now ok p))))"
proof -
  let ?elapsed = "sc_tick_time now - su_keepalive_ticker p"
  let ?q = "fst (set_super_status now Plat_offline (''keepalive timeout, '' @ show_nat (unat (?elapsed div 1000)))
     (p\<lparr>su_keepalive_timer := False\<rparr>))"
  have "carries_on p (fst (start_l (en_ip_addr env) now ?q), [] @ snd (start_l (en_ip_addr env) now ?q))"
    by (rule start_l_after) (simp_all add: watched_over_def)
  moreover have "driven x ts \<Longrightarrow> driven x (ts @ us)" "driven x us \<Longrightarrow> driven x (ts @ us)" for x us
    by (auto simp: driven_def)
  ultimately show ?thesis
    by (auto simp: on_keepalive_result_def carries_on_def Let_def split_beta watched_over_def driven_def status_simps)
qed

lemma run_job_carries:
  assumes "run_job env now server j p = r"
  shows "su_running (fst r) = su_running p \<and> (watched_over p \<longrightarrow> watched_over (fst r))
    \<and> (j \<noteq> Keepalive \<longrightarrow> driven (fst r) (tasks (snd r))) \<and> (j = Keepalive \<longrightarrow> fst r = p)"
  using assms to_register_carries start_l_carries
  by (cases j) (auto simp: carries_on_def to_keepalive_def)

section \<open>Runs\<close>

definition run_inv :: "super_platform \<Rightarrow> task list \<Rightarrow> bool" where
  "run_inv p ts \<longleftrightarrow> driven p ts \<and> watched_over p"

lemma carries_inv:
  "carries_on p r \<Longrightarrow> watched_over p \<Longrightarrow> set (tasks (snd r)) \<subseteq> set ts \<Longrightarrow> run_inv (fst r) ts"
  by (auto simp: carries_on_def run_inv_def intro: driven_more)

lemma driven_drop: "driven p (ts1 @ t # ts2) \<Longrightarrow> \<not> registering t \<Longrightarrow> driven p (ts1 @ ts2)"
  by (auto simp: driven_def)

lemma super_run_keeps: "super_run env server p ts \<Longrightarrow> run_inv p ts"
proof (induction rule: super_run.induct)
  case (su_new account t)
  then show ?case
    by (simp add: run_inv_def driven_def watched_over_def SuperPlatformImpl_def su_status_def Let_def)
next
  case (su_start p ts now p' es)
  show ?case
  proof (cases "su_running p")
    case True
    then show ?thesis using su_start by (auto simp: super_start_def)
  next
    case False
    then have "(p', es) = start_l (en_ip_addr env) now (p\<lparr>su_running := True\<rparr>)" using su_start by (simp add: super_start_def)
    moreover have "watched_over (p\<lparr>su_running := True\<rparr>)" using su_start.IH by (simp add: run_inv_def watched_over_def)
    ultimately show ?thesis
      using carries_inv [OF start_l_carries, of "p\<lparr>su_running := True\<rparr>" "en_ip_addr env" now "ts @ tasks es"]
      by (metis fst_conv inf_sup_ord(4) set_append snd_conv)
  qed
next
  case (su_shutdown p ts now p' es)
  show ?case
  proof (cases "su_running p")
    case False
    then show ?thesis using su_shutdown by (auto simp: super_shutdown_def)
  next
    case True
    let ?q = "p\<lparr>su_running := False\<rparr>"
    have w: "watched_over ?q" using su_shutdown.IH by (simp add: run_inv_def watched_over_def)
    have "\<not> su_running p' \<and> watched_over p'"
      using su_shutdown.hyps(2) True w to_register_carries [of ?q now 0 "[]"]
      by (auto simp: super_shutdown_def Let_def carries_on_def split_beta split: if_splits)
    then show ?thesis by (simp add: run_inv_def driven_def)
  qed
next
  case (su_job p ts1 j ts2 now p' es)
  show ?case
  proof (cases "j = Keepalive")
    case True
    then show ?thesis
      using su_job run_job_carries [OF su_job.hyps(2)] driven_drop [of p ts1 "Job j" ts2]
      by (auto simp: run_inv_def intro: driven_more)
  next
    case False
    then show ?thesis
      using su_job.IH run_job_carries [OF su_job.hyps(2)] by (auto simp: run_inv_def intro: driven_more)
  qed
next
  case (su_refresh p ts j now p' es)
  have "j \<noteq> Keepalive" using su_refresh.IH su_refresh.hyps(2) by (auto simp: run_inv_def watched_over_def)
  then show ?case
    using su_refresh.IH run_job_carries [OF su_refresh.hyps(3)] by (auto simp: run_inv_def intro: driven_more)
next
  case (su_info p ts e code now cnonce reply p' es)
  then have "p' = p" "es = []" by (simp_all add: on_register_reply_def)
  then show ?case using su_info by simp
next
  case (su_reply p ts1 e ts2 code now cnonce reply p' es)
  have "carries_on p (p', es)" by (rule reply_carries [OF su_reply.hyps(3,2)])
  from carries_inv [OF this, of "ts1 @ ts2 @ tasks es"] show ?case using su_reply.IH by (auto simp: run_inv_def)
next
  case (su_unsent p ts1 e ts2 now err p' es)
  then show ?case
    using carries_inv [OF unsent_carries [of p now e err], of "ts1 @ ts2 @ tasks es"] by (auto simp: run_inv_def)
next
  case (su_name p ts1 h n ts2 addr p' es)
  then show ?case
    using carries_inv [OF resolved_carries [of p addr], of "ts1 @ ts2 @ tasks es"] by (auto simp: run_inv_def)
next
  case (su_tick p ts p' es)
  then show ?case by (auto simp: to_keepalive_def run_inv_def intro: driven_more)
next
  case (su_probe p ts1 ts2 now ok p' es)
  then show ?case
    using keepalive_carries [of env now ok p "ts1 @ ts2"] driven_drop [of p ts1 Probe ts2] by (simp add: run_inv_def)
qed

text \<open>C5. The registration with a platform above is never abandoned: while the platform runs, there always is a REGISTER under
way, an attempt scheduled, a name being resolved, or the refresh timer set, whatever replies, timeouts and
failures to send came before, and in whatever order.\<close>

theorem registration_never_abandoned:
  assumes "super_run env server p ts" "su_running p"
  shows "(\<exists>e a. su_refresh_timer p = Some (Register e a)) \<or> (\<exists>t \<in> set ts. registering t)"
  using super_run_keeps [OF assms(1)] assms(2) by (simp add: run_inv_def driven_def)

text \<open>C35. A platform that counts as online is watched: its keepalive timer is set, and a keepalive that fails when the limit
(interval times number) has passed since the last success takes it offline, stops the timer and starts
over with the registration.\<close>

theorem online_platform_watched:
  assumes "super_run env server p ts" "su_status p = Plat_online"
  shows "su_keepalive_timer p \<and> (case on_keepalive_result env now False p of (p', es) \<Rightarrow>
     if keepalive_limit p \<le> sc_tick_time now - su_keepalive_ticker p
     then su_status p' \<noteq> Plat_online \<and> \<not> su_keepalive_timer p' \<and> (su_running p \<longrightarrow> (\<exists>t \<in> set (tasks es). registering t))
     else p' = p \<and> es = [KeepaliveResult False])"
proof -
  let ?elapsed = "sc_tick_time now - su_keepalive_ticker p"
  define q where "q = fst (set_super_status now Plat_offline (''keepalive timeout, '' @ show_nat (unat (?elapsed div 1000)))
     (p\<lparr>su_keepalive_timer := False\<rparr>))"
  have result: "on_keepalive_result env now False p =
    (if keepalive_limit p \<le> ?elapsed
     then (fst (start_l (en_ip_addr env) now q), KeepaliveResult False # snd (set_super_status now Plat_offline
         (''keepalive timeout, '' @ show_nat (unat (?elapsed div 1000))) (p\<lparr>su_keepalive_timer := False\<rparr>))
       @ snd (start_l (en_ip_addr env) now q))
     else (p, [KeepaliveResult False]))"
    by (simp add: on_keepalive_result_def q_def Let_def split_beta)
  have q: "su_status q = Plat_offline" "\<not> su_keepalive_timer q" by (simp_all add: q_def)
  have "su_status (fst (start_l (en_ip_addr env) now q)) \<noteq> Plat_online
    \<and> \<not> su_keepalive_timer (fst (start_l (en_ip_addr env) now q))
    \<and> (\<exists>t \<in> set (tasks (snd (start_l (en_ip_addr env) now q))). registering t)"
    using q by (auto simp: start_l_def to_register_def Let_def split_beta split: option.splits)
  moreover have "watched_over p" using super_run_keeps [OF assms(1)] by (simp add: run_inv_def)
  ultimately show ?thesis
    unfolding result using assms(2) by (auto simp: watched_over_def)
qed

lemma start_l_quiet:
  "su_status x \<noteq> Plat_auth_failure \<Longrightarrow> su_status (fst (start_l ip_addr now x)) \<noteq> Plat_auth_failure
    \<and> (\<forall>n j. After n j \<notin> set (snd (start_l ip_addr now x)))"
  by (auto simp: start_l_def to_register_def Let_def split_beta split: option.splits)

text \<open>A wrong password is never reported: as long as the peer answers 401 with a challenge that can be answered, the
status never becomes an authorization failure, and the next attempt is made after one millisecond, or at
once when the count of failures is exceeded.\<close>

theorem wrong_password_never_reported:
  assumes "\<not> en_info env 401" "\<not> en_success env 401" "\<not> en_redirect env 401"
    and "\<And>pw uri nc. \<exists>auth nc'. generate_authorization (en_md5 env) (en_sha256 env) (sr_authenticate reply)
      (sr_payload reply) (sa_platform_id server) pw uri cnonce nc = Inr (auth, nc') \<and> auth \<noteq> []"
    and "su_status p \<noteq> Plat_auth_failure"
  shows "\<exists>p' es. on_register_reply env now server cnonce True (Some reply) 401 expires p = Inr (p', es)
    \<and> su_status p' \<noteq> Plat_auth_failure
    \<and> (\<forall>n j. After n j \<in> set es \<longrightarrow> n = 1 \<and> (\<exists>auth. j = Register expires auth \<and> auth \<noteq> []))"
proof -
  let ?q = "fst (update_remote_via server (get_via_rport reply) p)"
  have "\<exists>p' es. on_register_unauthorized env now server cnonce reply expires ?q = Inr (p', es)
    \<and> su_status p' \<noteq> Plat_auth_failure
    \<and> (\<forall>n j. After n j \<in> set es \<longrightarrow> n = 1 \<and> (\<exists>auth. j = Register expires auth \<and> auth \<noteq> []))"
  proof (cases "5 < sint (su_auth_failed_count ?q + 1)")
    case True
    let ?x = "if su_moved_uri ?q \<noteq> [] then clear_redirection (?q\<lparr>su_auth_failed_count := 0\<rparr>)
      else ?q\<lparr>su_auth_failed_count := 0\<rparr>"
    have r: "on_register_unauthorized env now server cnonce reply expires ?q = Inr (start_l (en_ip_addr env) now ?x)"
      using True by (simp add: on_register_unauthorized_def Let_def)
    have "su_status ?x \<noteq> Plat_auth_failure" using assms(5) by simp
    from start_l_quiet [OF this, of "en_ip_addr env" now] show ?thesis
      unfolding r by (intro exI [of _ "fst (start_l (en_ip_addr env) now ?x)"] exI [of _ "snd (start_l (en_ip_addr env) now ?x)"]) simp
  next
    case False
    let ?r = "super_get_to_uri (?q\<lparr>su_auth_failed_count := su_auth_failed_count ?q + 1\<rparr>)"
    obtain auth nc' where "generate_authorization (en_md5 env) (en_sha256 env) (sr_authenticate reply) (sr_payload reply)
        (sa_platform_id server) (sa_password (ph_account (fst ?r))) (snd ?r) cnonce (su_nc_pair (fst ?r)) = Inr (auth, nc')"
      "auth \<noteq> []" using assms(4) by blast
    then show ?thesis using False assms(5) by (simp add: on_register_unauthorized_def Let_def split_beta)
  qed
  then show ?thesis using assms(1-3) by (auto simp: on_register_reply_def split_beta split: sum.splits)
qed

section \<open>A registration that succeeds\<close>

definition demo_env :: sip_environment where
  "demo_env = \<lparr>en_info = (\<lambda>c. c < 200), en_success = (\<lambda>c. c = 200), en_redirect = (\<lambda>c. c = 302), en_ToInt = (\<lambda>s. None),
     en_md5 = (\<lambda>s. []), en_sha256 = (\<lambda>s. []), en_contact = (\<lambda>s. None), en_ip_addr = (\<lambda>h n. Some (AF_INET 1 5060))\<rparr>"

definition demo_reply :: sip_reply where
  "demo_reply = \<lparr>sr_via = None, sr_expires = None, sr_gb_version = None, sr_contact = None,
     sr_authenticate = Some (generate_www_authentication ''r'' ''n''), sr_payload = None\<rparr>"

definition demo_time :: super_clock where
  "demo_time = \<lparr>sc_wall_time = 0, sc_tick_time = 0\<rparr>"

abbreviation demo_answer :: "int \<Rightarrow> int \<Rightarrow> super_platform \<Rightarrow> super_fault + (super_platform \<times> effect list)" where
  "demo_answer code \<equiv> on_register_reply demo_env demo_time local_account_default [] True (Some demo_reply) code"

lemma demo_via [simp]: "update_remote_via sv (get_via_rport demo_reply) p = (p, False, [])"
  by (simp add: update_remote_via_def get_via_rport_def demo_reply_def)

lemma demo_env_simps [simp]:
  "en_info demo_env c = (c < 200)" "en_success demo_env c = (c = 200)" "en_redirect demo_env c = (c = 302)"
  "en_ip_addr demo_env h n = Some (AF_INET 1 5060)" "get_expires (en_ToInt demo_env) demo_reply = 0"
  "get_message_gbt_version demo_reply = Ver_unknown"
  by (simp_all add: demo_env_def demo_reply_def get_expires_def get_message_gbt_version_def)

lemma demo_online:
  "\<exists>p ts. super_run demo_env local_account_default p ts \<and> su_running p \<and> su_status p = Plat_online
    \<and> keepalive_limit p = 90000 \<and> su_keepalive_ticker p = 0"
proof -
  define p0 where "p0 = SuperPlatformImpl 0 local_account_default super_account_default"
  have p0: "su_running p0 = False" "su_status p0 = Plat_offline" "sint (su_register_expired (ph_account p0)) = 86400"
    "su_keepalive_interval (ph_account p0) = 30" "su_keepalive_times (ph_account p0) = 3"
    by (simp_all add: p0_def SuperPlatformImpl_def su_status_def super_account_default_def sip_account_status_default_def
        local_account_default_def Let_def)
  have run: "super_run demo_env local_account_default p0 []"
    unfolding p0_def by (rule su_new) (simp add: super_account_default_def sip_account_status_default_def)
  obtain p1 es1 where s1: "super_start (en_ip_addr demo_env) demo_time p0 = (p1, es1)" by fastforce
  have p1: "su_running p1" "su_status p1 = Plat_registering" "tasks es1 = [Transaction 0]"
    "su_register_expired (ph_account p1) = su_register_expired (ph_account p0)"
    "su_keepalive_interval (ph_account p1) = 30" "su_keepalive_times (ph_account p1) = 3"
    using s1 p0
    by (auto simp: super_start_def start_l_def to_register_def Let_def super_get_to_uri_def get_to_uri_def
        set_super_status_def with_super_status_def on_platform_addr_changed_def su_status_def split: if_splits)
  have run1: "super_run demo_env local_account_default p1 ([] @ Transaction 0 # [])"
    using su_start [OF run s1] p1(3) by simp
  obtain p2 es2 where s2: "demo_answer 200 0 p1 = Inr (p2, es2)"
    by (auto simp: on_register_reply_def on_register_success_def Let_def split_beta)
  have p2: "su_running p2" "su_status p2 = Plat_offline" "tasks es2 = [Job (Register 86400 [])]"
    "su_keepalive_interval (ph_account p2) = 30" "su_keepalive_times (ph_account p2) = 3"
    using s2 p1 p0(3)
    by (auto simp: on_register_reply_def on_register_success_def Let_def set_super_status_def with_super_status_def
        su_status_def split: if_splits)
  have run2: "super_run demo_env local_account_default p2 ([] @ Job (Register 86400 []) # [])"
    using su_reply [OF run1 _ s2] p2(3) by simp
  obtain p3 es3 where s3: "run_job demo_env demo_time local_account_default (Register 86400 []) p2 = (p3, es3)" by fastforce
  have p3: "su_running p3" "tasks es3 = [Transaction 86400]" "su_status p3 = Plat_registering"
    "su_keepalive_interval (ph_account p3) = 30" "su_keepalive_times (ph_account p3) = 3"
    using s3 p2
    by (auto simp: to_register_def Let_def super_get_to_uri_def get_to_uri_def set_super_status_def
        with_super_status_def su_status_def split: if_splits)
  have run3: "super_run demo_env local_account_default p3 ([] @ Transaction 86400 # [])"
    using su_job [OF run2 s3] p3(2) by simp
  obtain p4 es4 where s4: "demo_answer 200 86400 p3 = Inr (p4, es4)"
    by (auto simp: on_register_reply_def on_register_success_def refresh_delay_def Let_def split_beta)
  have "su_running p4" "su_status p4 = Plat_online" "su_keepalive_ticker p4 = 0"
    "su_keepalive_interval (ph_account p4) = 30" "su_keepalive_times (ph_account p4) = 3"
    using s4 p3
    by (auto simp: on_register_reply_def on_register_success_def refresh_delay_def Let_def set_super_status_def
        with_super_status_def su_status_def demo_time_def split: if_splits)
  moreover from this have "keepalive_limit p4 = 90000" by (simp add: keepalive_limit_def)
  ultimately show ?thesis using su_reply [OF run3 _ s4] by fastforce
qed

lemma registration_never_abandoned_witness:
  "\<exists>p ts. super_run demo_env local_account_default p ts \<and> su_running p
    \<and> ((\<exists>e a. su_refresh_timer p = Some (Register e a)) \<or> (\<exists>t \<in> set ts. registering t))"
proof -
  obtain p ts where "super_run demo_env local_account_default p ts" "su_running p" using demo_online by blast
  with registration_never_abandoned [OF this] show ?thesis by blast
qed

lemma online_platform_watched_witness:
  "\<exists>p. su_status p = Plat_online \<and> su_keepalive_timer p
    \<and> su_status (fst (on_keepalive_result demo_env (demo_time\<lparr>sc_tick_time := 90000\<rparr>) False p)) \<noteq> Plat_online
    \<and> su_status (fst (on_keepalive_result demo_env (demo_time\<lparr>sc_tick_time := 89999\<rparr>) False p)) = Plat_online"
proof -
  obtain p ts where p: "super_run demo_env local_account_default p ts" "su_status p = Plat_online"
    "keepalive_limit p = 90000" "su_keepalive_ticker p = 0" using demo_online by blast
  from online_platform_watched [OF p(1,2), of "demo_time\<lparr>sc_tick_time := 90000\<rparr>"]
    online_platform_watched [OF p(1,2), of "demo_time\<lparr>sc_tick_time := 89999\<rparr>"] p(2-)
  show ?thesis by (intro exI [of _ p]) (simp add: demo_time_def split_beta)
qed

lemma wrong_password_never_reported_witness:
  "\<exists>p' es. demo_answer 401 86400 (SuperPlatformImpl 0 local_account_default super_account_default) = Inr (p', es)
    \<and> su_status p' \<noteq> Plat_auth_failure"
proof -
  have plain: "plain ''r''" "plain ''n''" by (simp_all add: plain_def)
  have auth: "\<exists>auth nc'. generate_authorization (en_md5 demo_env) (en_sha256 demo_env) (sr_authenticate demo_reply)
      (sr_payload demo_reply) (sa_platform_id local_account_default) pw uri [] nc = Inr (auth, nc') \<and> auth \<noteq> []"
    for pw uri nc
    using generated_answer [OF plain, of "en_md5 demo_env" "en_sha256 demo_env" None "sa_platform_id local_account_default"
        pw uri "[]" nc] by (auto simp: demo_reply_def answer_def)
  have "su_status (SuperPlatformImpl 0 local_account_default super_account_default) \<noteq> Plat_auth_failure"
    by (simp add: SuperPlatformImpl_def su_status_def super_account_default_def sip_account_status_default_def Let_def)
  from wrong_password_never_reported [OF _ _ _ auth this, of demo_time 86400] show ?thesis by auto
qed

end
