(* ===== verification/Server.thy ===== *)
theory Server
  imports Subordinate Super_Platform
begin

text \<open>
  The local server (\<open>src/inner/sip_server.cpp\<close>): its account, its tables of platforms, the numbers of media streams,
  and which sockets it opens. The counters of stream numbers are one static table for all servers, keyed by domain.
\<close>

record sip_server = server +
  sv_super_platforms :: "string \<rightharpoonup> super_platform"
  sv_running :: bool
  sv_udp :: bool \<comment> \<open>\<open>udp_server_\<close>\<close>
  sv_tcp :: bool \<comment> \<open>\<open>tcp_server_\<close>\<close>
  sv_ssrc_domain :: u32
  sv_ssrc_sn :: "u32 \<rightharpoonup> i32" \<comment> \<open>\<open>server_ssrc_sn_\<close>\<close>

section \<open>Construction\<close>

text \<open>\<open>is_loopback_ip\<close>; \<open>inet_pton4\<close> and \<open>inet_pton6\<close> read an address, \<open>None\<close> for another text.\<close>

definition is_loopback_ip :: "(string \<Rightarrow> u32 option) \<Rightarrow> (string \<Rightarrow> 128 word option) \<Rightarrow> string \<Rightarrow> bool" where
  "is_loopback_ip inet_pton4 inet_pton6 ip =
     (if strcaseeq ip ''::'' \<or> strcaseeq ip ''0.0.0.0'' then True
      else case inet_pton4 ip of
        Some a \<Rightarrow> 0x7F000001 \<le> a \<and> a \<le> 0x7FFFFFFF
      | None \<Rightarrow> (case inet_pton6 ip of Some a \<Rightarrow> a = 1 | None \<Rightarrow> False))"

datatype server_fault = IdTooShort

text \<open>
  \<open>local_ip\<close> is the address \<open>get_local_ip\<close> finds for the host, and \<open>to_unsigned\<close> reads a number. \<open>substr(3, 5)\<close> throws when the
  platform's id is shorter than three characters.
\<close>

definition SipServer ::
    "(string \<Rightarrow> bool) \<Rightarrow> string \<Rightarrow> (string \<Rightarrow> u32 option) \<Rightarrow> (u32 \<rightharpoonup> i32) \<Rightarrow> local_account \<Rightarrow> server_fault + sip_server" where
  "SipServer is_loopback local_ip to_unsigned ssrc_sn account =
     (let account = (if sa_host account = [] then account\<lparr>sa_host := ''::''\<rparr> else account);
          account = (if sa_local_host account = []
                     then if \<not> is_loopback (sa_host account) then account\<lparr>sa_local_host := sa_host account\<rparr>
                          else account\<lparr>sa_local_host := local_ip\<rparr>
                     else account);
          account = (if sa_local_port account = 0 then account\<lparr>sa_local_port := sa_port account\<rparr> else account)
      in if length (sa_platform_id account) < 3 then Inl IdTooShort
         else (let domain = (case to_unsigned (take 5 (drop 3 (sa_platform_id account))) of None \<Rightarrow> 0 | Some d \<Rightarrow> d)
               in Inr \<lparr>sv_account = account, sv_sub_platforms = (\<lambda>i. None), sv_super_platforms = (\<lambda>i. None),
                    sv_running = False, sv_udp = False, sv_tcp = False, sv_ssrc_domain = domain,
                    sv_ssrc_sn = (if ssrc_sn domain = None then ssrc_sn(domain \<mapsto> 1) else ssrc_sn)\<rparr>))"

section \<open>Platforms\<close>

definition get_subordinate_platform :: "string \<Rightarrow> 's server_scheme \<Rightarrow> subordinate option" where
  "get_subordinate_platform platform_id sv = sv_sub_platforms sv platform_id"

definition get_super_platform :: "string \<Rightarrow> sip_server \<Rightarrow> super_platform option" where
  "get_super_platform platform_id sv = sv_super_platforms sv platform_id"

definition add_subordinate_platform ::
    "(string \<Rightarrow> u16 \<Rightarrow> sockaddr option) \<Rightarrow> platform_account \<Rightarrow> sip_server \<Rightarrow> sip_server" where
  "add_subordinate_platform ip_addr account sv =
     put_platform (sa_platform_id account) (SubordinatePlatformImpl ip_addr (sv_account sv) account) sv"

text \<open>Removing a platform that is there emits its shutdown.\<close>

definition remove_subordinate_platform :: "string \<Rightarrow> sip_server \<Rightarrow> sip_server \<times> bool" where
  "remove_subordinate_platform platform_id sv =
     (case sv_sub_platforms sv platform_id of
        None \<Rightarrow> (sv, False)
      | Some p \<Rightarrow> (sv\<lparr>sv_sub_platforms := (sv_sub_platforms sv)(platform_id := None)\<rparr>, True))"

definition add_super_platform ::
    "(string \<Rightarrow> u16 \<Rightarrow> sockaddr option) \<Rightarrow> super_clock \<Rightarrow> super_account \<Rightarrow> sip_server \<Rightarrow> sip_server \<times> effect list" where
  "add_super_platform ip_addr now account sv =
     (case super_start ip_addr now (SuperPlatformImpl (sc_tick_time now) (sv_account sv) account) of (p, es) \<Rightarrow>
        (sv\<lparr>sv_super_platforms := (sv_super_platforms sv)(sa_platform_id account \<mapsto> p)\<rparr>, es))"

definition remove_super_platform :: "super_clock \<Rightarrow> string \<Rightarrow> sip_server \<Rightarrow> sip_server \<times> effect list" where
  "remove_super_platform now platform_id sv =
     (case sv_super_platforms sv platform_id of
        None \<Rightarrow> (sv, [])
      | Some p \<Rightarrow> (sv\<lparr>sv_super_platforms := (sv_super_platforms sv)(platform_id := None)\<rparr>, snd (super_shutdown now p)))"

section \<open>Running\<close>

definition server_run :: "sip_server \<Rightarrow> sip_server" where
  "server_run sv =
     (if sv_running sv then sv
      else let sv = sv\<lparr>sv_running := True\<rparr>;
               sv = (if la_transport_type (sv_account sv) \<in> {Transport_both, Transport_udp} then sv\<lparr>sv_udp := True\<rparr> else sv)
           in if la_transport_type (sv_account sv) \<in> {Transport_both, Transport_tcp} then sv\<lparr>sv_tcp := True\<rparr> else sv)"

text \<open>\<open>shutdown\<close>: every platform is shut down after the tables were emptied; the effects are given per platform above.\<close>

definition server_shutdown :: "super_clock \<Rightarrow> sip_server \<Rightarrow> sip_server \<times> (string \<rightharpoonup> effect list)" where
  "server_shutdown now sv =
     (if \<not> sv_running sv then (sv, \<lambda>i. None)
      else (sv\<lparr>sv_running := False, sv_super_platforms := (\<lambda>i. None), sv_sub_platforms := (\<lambda>i. None),
               sv_udp := False, sv_tcp := False\<rparr>,
            \<lambda>i. map_option (\<lambda>p. snd (super_shutdown now p)) (sv_super_platforms sv i)))"

section \<open>Numbers of media streams\<close>

definition make_ssrc :: "bool \<Rightarrow> sip_server \<Rightarrow> sip_server \<times> u32" where
  "make_ssrc is_playback sv =
     (let old_value = (case sv_ssrc_sn sv (sv_ssrc_domain sv) of None \<Rightarrow> 0 | Some n \<Rightarrow> n);
          desired = (if 9999 \<le> sint old_value then 1 else old_value + 1)
      in (sv\<lparr>sv_ssrc_sn := (sv_ssrc_sn sv)(sv_ssrc_domain sv \<mapsto> desired)\<rparr>,
          (if is_playback then 1000000000 else 0) + sv_ssrc_domain sv * 10000 + old_value))"

fun make_ssrcs :: "bool list \<Rightarrow> sip_server \<Rightarrow> u32 list" where
  "make_ssrcs [] sv = []"
| "make_ssrcs (b # bs) sv = (case make_ssrc b sv of (sv, ssrc) \<Rightarrow> ssrc # make_ssrcs bs sv)"

text \<open>The counter goes round from 1 to 9999.\<close>

definition counter_after :: "nat \<Rightarrow> nat \<Rightarrow> nat" where
  "counter_after n k = (n - 1 + k) mod 9999 + 1"

lemma counter_next:
  assumes "sv_ssrc_sn sv (sv_ssrc_domain sv) = Some (of_nat n)" "1 \<le> n" "n \<le> 9999"
  shows "\<exists>sv'. make_ssrc b sv = (sv', (if b then 1000000000 else 0) + sv_ssrc_domain sv * 10000 + of_nat n)
    \<and> sv_ssrc_domain sv' = sv_ssrc_domain sv
    \<and> sv_ssrc_sn sv' (sv_ssrc_domain sv') = Some (of_nat (counter_after n 1))"
proof -
  have "uint (of_nat n :: i32) = int n" using assms(2,3) by (simp add: uint_nat unat_of_nat)
  then have s: "sint (of_nat n :: i32) = int n"
    using assms(3) by (simp add: sint_uint signed_take_bit_eq_take_bit_shift take_bit_eq_mod)
  have "(if 9999 \<le> sint (of_nat n :: i32) then 1 else of_nat n + 1) = (of_nat (counter_after n 1) :: i32)"
  proof (cases "n = 9999")
    case True
    then show ?thesis using s by (simp add: counter_after_def)
  next
    case False
    then have "counter_after n 1 = n + 1" using assms by (simp add: counter_after_def)
    then show ?thesis using s False assms(3) by (simp add: add.commute)
  qed
  then show ?thesis using assms(1) by (simp add: make_ssrc_def Let_def)
qed

lemma counter_after_bounds: "1 \<le> counter_after n k" "counter_after n k \<le> 9999"
  by (simp_all add: counter_after_def Suc_le_eq)

lemma counter_after_Suc: "1 \<le> n \<Longrightarrow> counter_after (counter_after n 1) k = counter_after n (Suc k)"
  by (simp add: counter_after_def mod_simps)

lemma make_ssrcs_nth:
  assumes "sv_ssrc_sn sv (sv_ssrc_domain sv) = Some (of_nat n)" "1 \<le> n" "n \<le> 9999" "k < length bs"
  shows "make_ssrcs bs sv ! k =
    (if bs ! k then 1000000000 else 0) + sv_ssrc_domain sv * 10000 + of_nat (counter_after n k)"
  using assms
proof (induction bs arbitrary: sv n k)
  case (Cons b bs)
  obtain sv' where sv': "make_ssrc b sv = (sv', (if b then 1000000000 else 0) + sv_ssrc_domain sv * 10000 + of_nat n)"
    "sv_ssrc_domain sv' = sv_ssrc_domain sv" "sv_ssrc_sn sv' (sv_ssrc_domain sv') = Some (of_nat (counter_after n 1))"
    using counter_next [OF Cons.prems(1-3)] by blast
  show ?case
  proof (cases k)
    case 0
    then show ?thesis using sv'(1) Cons.prems by (simp add: counter_after_def)
  next
    case (Suc j)
    have "make_ssrcs bs sv' ! j =
        (if bs ! j then 1000000000 else 0) + sv_ssrc_domain sv' * 10000 + of_nat (counter_after (counter_after n 1) j)"
      using Cons.IH [OF sv'(3)] counter_after_bounds Cons.prems(4) Suc by simp
    then show ?thesis using sv' Suc counter_after_Suc [OF Cons.prems(2)] by simp
  qed
qed simp

lemma make_ssrcs_length [simp]: "length (make_ssrcs bs sv) = length bs"
  by (induction bs arbitrary: sv) (auto split: prod.splits)

lemma ssrc_uint:
  assumes "uint (d :: u32) < 100000" "1 \<le> n" "n \<le> 9999"
  shows "uint ((if b then 1000000000 else 0) + d * 10000 + of_nat n) = (if b then 1000000000 else 0) + uint d * 10000 + int n"
proof -
  let ?x = "(if b then 1000000000 else 0) + uint d * 10000 + int n"
  have "(if b then 1000000000 else 0) + d * 10000 + of_nat n = (word_of_int ?x :: u32)"
    by (cases b) simp_all
  moreover have "take_bit 32 ?x = ?x"
  proof (rule take_bit_int_eq_self)
    show "0 \<le> ?x" by (cases b) simp_all
    show "?x < 2 ^ 32" using assms by (cases b) simp_all
  qed
  ultimately show ?thesis by (simp only: uint_word_of_int_eq) simp
qed

lemma ssrc_digits:
  assumes "0 \<le> d" "d < 100000" "0 \<le> n" "n \<le> (9999 :: int)"
  shows "(p * 1000000000 + d * 10000 + n) div 1000000000 = p" "(p * 1000000000 + d * 10000 + n) div 10000 mod 100000 = d"
    "(p * 1000000000 + d * 10000 + n) mod 10000 = n"
proof -
  have x: "p * 1000000000 + d * 10000 + n = n + (p * 100000 + d) * 10000" by simp
  have d4: "(n + (p * 100000 + d) * 10000) div 10000 = p * 100000 + d" using assms by (subst div_mult_self1) simp_all
  have "(n + (p * 100000 + d) * 10000) div (10000 * 100000) = (p * 100000 + d) div 100000"
    by (subst zdiv_zmult2_eq) (simp, simp only: d4)
  also have "\<dots> = (d + p * 100000) div 100000" by (simp only: add.commute)
  also have "\<dots> = p" using assms by (subst div_mult_self1) simp_all
  finally show "(p * 1000000000 + d * 10000 + n) div 1000000000 = p" unfolding x by simp
  have "(p * 100000 + d) mod 100000 = d" using assms by (subst add.commute) simp
  then show "(p * 1000000000 + d * 10000 + n) div 10000 mod 100000 = d" unfolding x d4 .
  show "(p * 1000000000 + d * 10000 + n) mod 10000 = n" unfolding x using assms by (subst mod_mult_self1) simp
qed

lemma rotation_inj:
  assumes "(a + i) mod m = (a + j) mod m" "i < m" "j < m"
  shows "i = (j :: nat)"
proof -
  have "int m dvd int (a + i) - int (a + j)" using assms(1) by (metis mod_eq_dvd_iff of_nat_mod)
  then have "int m dvd int i - int j" by simp
  then show ?thesis using assms(2,3) zdvd_imp_le [of "int m" "int i - int j"] zdvd_imp_le [of "int m" "int j - int i"]
    by (cases i j rule: linorder_cases) (auto simp: dvd_diff_commute)
qed

text \<open>C36. A stream number has the ten decimal digits the standard asks for: 1 for playback or 0 for live, the five digits of
the server's domain behind it, and a sequence number of four digits from 1 to 9999; the numbers of 9999 calls
in a row are all different, whichever of them are for playback.\<close>

theorem stream_numbers_unique:
  assumes "sv_ssrc_sn sv (sv_ssrc_domain sv) = Some (of_nat n)" "1 \<le> n" "n \<le> 9999" "uint (sv_ssrc_domain sv) < 100000"
    and "length bs \<le> 9999"
  shows "distinct (make_ssrcs bs sv)
    \<and> (\<forall>k < length bs. let ssrc = uint (make_ssrcs bs sv ! k) in
         ssrc div 1000000000 = (if bs ! k then 1 else 0) \<and> ssrc div 10000 mod 100000 = uint (sv_ssrc_domain sv)
         \<and> 1 \<le> ssrc mod 10000 \<and> ssrc mod 10000 \<le> 9999)"
proof -
  have at: "uint (make_ssrcs bs sv ! k) =
      (if bs ! k then 1000000000 else 0) + uint (sv_ssrc_domain sv) * 10000 + int (counter_after n k)" if "k < length bs" for k
    using make_ssrcs_nth [OF assms(1-3) that] ssrc_uint [OF assms(4) counter_after_bounds] by simp
  have "i = j" if "i < length bs" "j < length bs" "make_ssrcs bs sv ! i = make_ssrcs bs sv ! j" for i j
  proof -
    have "(if bs ! i then 1000000000 else 0) + int (counter_after n i) = (if bs ! j then 1000000000 else 0) + int (counter_after n j)"
      using at [OF that(1)] at [OF that(2)] that(3) by simp
    then have "counter_after n i = counter_after n j"
      using counter_after_bounds [of n i] counter_after_bounds [of n j] by (auto split: if_splits)
    then have "(n - 1 + i) mod 9999 = (n - 1 + j) mod 9999" by (simp add: counter_after_def)
    then show "i = j" by (rule rotation_inj) (use that(1,2) assms(5) in linarith)+
  qed
  then have "distinct (make_ssrcs bs sv)" by (auto simp: distinct_conv_nth)
  moreover have "let ssrc = uint (make_ssrcs bs sv ! k) in
         ssrc div 1000000000 = (if bs ! k then 1 else 0) \<and> ssrc div 10000 mod 100000 = uint (sv_ssrc_domain sv)
         \<and> 1 \<le> ssrc mod 10000 \<and> ssrc mod 10000 \<le> 9999" if "k < length bs" for k
    using at [OF that] counter_after_bounds [of n k] assms(4)
      ssrc_digits [of "uint (sv_ssrc_domain sv)" "int (counter_after n k)" "if bs ! k then 1 else 0"]
    unfolding Let_def by (simp split: if_splits)
  ultimately show ?thesis by blast
qed

lemma stream_numbers_unique_witness:
  "\<exists>sv. SipServer (\<lambda>h. True) ''10.0.0.1'' (\<lambda>s. Some 20000) (\<lambda>d. None)
        (local_account_default\<lparr>sa_platform_id := ''34020000002000000001''\<rparr>) = Inr sv
    \<and> distinct (make_ssrcs [True, False, True] sv)"
proof -
  obtain sv where sv: "SipServer (\<lambda>h. True) ''10.0.0.1'' (\<lambda>s. Some 20000) (\<lambda>d. None)
        (local_account_default\<lparr>sa_platform_id := ''34020000002000000001''\<rparr>) = Inr sv"
    "sv_ssrc_sn sv (sv_ssrc_domain sv) = Some (of_nat 1)" "uint (sv_ssrc_domain sv) < 100000"
    by (simp add: SipServer_def Let_def local_account_default_def)
  from stream_numbers_unique [OF sv(2) _ _ sv(3), of "[True, False, True]"] sv(1) show ?thesis by simp
qed

end
