(* ===== verification/Dispatch.thy ===== *)
theory Dispatch
  imports Server Query_Handlers
begin

text \<open>
  The way of a received MESSAGE (\<open>PlatformHelper::on_recv_message\<close> in \<open>src/platform_helper.cpp\<close>): the checks, the choice of the
  platform it comes from, its encoding, and the handler it is given to. The XML parser, the conversions of
  \<open>iconv\<close> and the user of the From header are parameters.
\<close>

section \<open>Reading\<close>

text \<open>\<open>Parse\<close> gives a document or an error text. A message that cannot be read has a reason.\<close>

definition read_message ::
    "'e tinyxml2 \<Rightarrow> (string \<Rightarrow> string + 'e XMLDocument) \<Rightarrow> string \<Rightarrow> (string + ('e, unit) MessageBase) outcome" where
  "read_message X Parse xml =
     (case Parse xml of
        Inl error \<Rightarrow> Inr (Inl error)
      | Inr doc \<Rightarrow> bind_outcome (load_from_xml X load_nothing (MessageBase_xml (Some doc) ()))
          (\<lambda>(ok, m). Inr (if ok then Inr m else Inl (mb_error m))))"

section \<open>The platform\<close>

datatype role = SuperRole | SubordinateRole

text \<open>Queries, controls and broadcasts come from above, everything else from below.\<close>

definition role_of :: "('e, unit) MessageBase \<Rightarrow> role" where
  "role_of m =
     (if mb_root m = Root_Query \<or> mb_root m = Root_Control then SuperRole
      else if mb_root m = Root_Notify \<and> mb_cmd m = Cmd_Broadcast then SuperRole
      else SubordinateRole)"

text \<open>The platform is looked up; the address of one below is updated.\<close>

definition find_platform :: "sockaddr option \<Rightarrow> role \<Rightarrow> string \<Rightarrow> sip_server \<Rightarrow> (sip_server \<times> CharEncodingType) option" where
  "find_platform peer_addr r platform_id sv =
     (case r of
        SuperRole \<Rightarrow> map_option (\<lambda>p. (sv, pa_encoding (ph_account p))) (get_super_platform platform_id sv)
      | SubordinateRole \<Rightarrow> map_option (\<lambda>p.
          (put_platform platform_id (on_platform_addr_changed peer_addr p) sv, pa_encoding (ph_account p)))
          (get_subordinate_platform platform_id sv))"

definition set_platform_encoding :: "role \<Rightarrow> string \<Rightarrow> CharEncodingType \<Rightarrow> sip_server \<Rightarrow> sip_server" where
  "set_platform_encoding r platform_id encoding sv =
     (case r of
        SuperRole \<Rightarrow> sv\<lparr>sv_super_platforms := (\<lambda>i. if i = platform_id
            then map_option (\<lambda>p. p\<lparr>ph_account := (ph_account p)\<lparr>pa_encoding := encoding\<rparr>\<rparr>) (sv_super_platforms sv i)
            else sv_super_platforms sv i)\<rparr>
      | SubordinateRole \<Rightarrow> sv\<lparr>sv_sub_platforms := (\<lambda>i. if i = platform_id
            then map_option (set_encoding encoding) (sv_sub_platforms sv i) else sv_sub_platforms sv i)\<rparr>)"

section \<open>Handlers\<close>

text \<open>
  The handlers by the class of the platform: a platform below does not override \<open>on_query\<close> and \<open>on_control\<close>, which
  refuse with 400.
\<close>

datatype handler =
    Super_on_query | Super_on_control | Super_on_notify
  | Subordinate_on_notify | On_response | Refuse400 | NoHandler

definition handler_of :: "role \<Rightarrow> MessageRootType \<Rightarrow> handler" where
  "handler_of r root =
     (case root of
        Root_Query \<Rightarrow> if r = SuperRole then Super_on_query else Refuse400
      | Root_Control \<Rightarrow> if r = SuperRole then Super_on_control else Refuse400
      | Root_Notify \<Rightarrow> if r = SuperRole then Super_on_notify else Subordinate_on_notify
      | Root_Response \<Rightarrow> On_response
      | _ \<Rightarrow> NoHandler)"

text \<open>A rejection carries its code and reason; a silent end sends no reply.\<close>

datatype 'e dispatch = Reject int string | Silent | Deliver role handler "('e, unit) MessageBase"

text \<open>The encoding of a message, and of its platform when it has none.\<close>

definition settle_encoding ::
    "role \<Rightarrow> string \<Rightarrow> CharEncodingType \<Rightarrow> ('e, unit) MessageBase \<Rightarrow> sip_server \<Rightarrow> sip_server \<times> ('e, unit) MessageBase" where
  "settle_encoding r platform_id platform_encoding m sv =
     (if mb_encoding m = Enc_invalid then (sv, m\<lparr>mb_encoding := platform_encoding\<rparr>)
      else if platform_encoding = Enc_invalid then (set_platform_encoding r platform_id (mb_encoding m) sv, m)
      else (sv, m))"

definition convert_payload ::
    "(string \<Rightarrow> string) \<Rightarrow> (string \<Rightarrow> string) \<Rightarrow> CharEncodingType \<Rightarrow> string \<Rightarrow> string" where
  "convert_payload gbk_to_utf8 gb2312_to_utf8 encoding payload =
     (case encoding of Enc_gbk \<Rightarrow> gbk_to_utf8 payload | Enc_gb2312 \<Rightarrow> gb2312_to_utf8 payload | _ \<Rightarrow> [])"

text \<open>
  From the platform on: the encoding, the second reading of a converted text, and the handler.
\<close>

definition deliver ::
    "'e tinyxml2 \<Rightarrow> (string \<Rightarrow> string + 'e XMLDocument) \<Rightarrow> (string \<Rightarrow> string) \<Rightarrow> (string \<Rightarrow> string) \<Rightarrow> string \<Rightarrow> role \<Rightarrow> string
      \<Rightarrow> CharEncodingType \<Rightarrow> ('e, unit) MessageBase \<Rightarrow> sip_server \<Rightarrow> (sip_server \<times> 'e dispatch) outcome" where
  "deliver X Parse gbk_to_utf8 gb2312_to_utf8 payload r platform_id platform_encoding m sv =
     (case settle_encoding r platform_id platform_encoding m sv of (sv, m) \<Rightarrow>
       (let convert_xml_str = convert_payload gbk_to_utf8 gb2312_to_utf8 (mb_encoding m) payload
        in bind_outcome
             (if convert_xml_str = [] then Inr (Inr m) else read_message X Parse convert_xml_str)
             (\<lambda>read. Inr (sv, case read of
                Inl reason \<Rightarrow> Reject 400 reason
              | Inr m \<Rightarrow> Deliver r (handler_of r (mb_root m)) m))))"

text \<open>The whole of \<open>on_recv_message\<close> up to the call of the handler. \<open>platform_id\<close> is empty when the request has no user.\<close>

definition on_recv_message ::
    "'e tinyxml2 \<Rightarrow> (string \<Rightarrow> string + 'e XMLDocument) \<Rightarrow> (string \<Rightarrow> string) \<Rightarrow> (string \<Rightarrow> string) \<Rightarrow> sockaddr option
      \<Rightarrow> string option \<Rightarrow> string \<Rightarrow> sip_server option \<Rightarrow> (sip_server option \<times> 'e dispatch) outcome" where
  "on_recv_message X Parse gbk_to_utf8 gb2312_to_utf8 peer_addr payload platform_id server =
     (case payload of
        None \<Rightarrow> Inr (server, Reject 400 ''payload is empty'')
      | Some text \<Rightarrow>
          if platform_id = [] then Inr (server, Reject 400 ''unable to identify the user'')
          else case server of
            None \<Rightarrow> Inr (None, Reject 503 ''service is temporarily unavailable'')
          | Some sv \<Rightarrow>
              bind_outcome (read_message X Parse text) (\<lambda>read. case read of
                Inl reason \<Rightarrow> Inr (server, Reject 400 reason)
              | Inr m \<Rightarrow>
                  if mb_root m = Root_invalid then Inr (server, Reject 400 ''invalid root message'')
                  else if mb_cmd m = Cmd_invalid then Inr (server, Reject 400 ''invalid Command'')
                  else (case find_platform peer_addr (role_of m) platform_id sv of
                    None \<Rightarrow> Inr (server, if mb_cmd m = Cmd_Keepalive then Silent else Reject 401 ''user not logged in'')
                  | Some (sv, platform_encoding) \<Rightarrow>
                      bind_outcome (deliver X Parse gbk_to_utf8 gb2312_to_utf8 text (role_of m) platform_id platform_encoding m sv)
                        (\<lambda>(sv, d). Inr (Some sv, d)))))"

text \<open>The reply after the handler returned its code.\<close>

definition reply_after :: "int \<Rightarrow> int option" where
  "reply_after sip_code = (if 0 < sip_code then Some sip_code else None)"

text \<open>\<open>PlatformHelper::on_query\<close>, \<open>on_notify\<close> and \<open>on_control\<close>.\<close>

definition default_handler :: int where
  "default_handler = 400"

section \<open>Who may ask\<close>

lemma put_platform_super [simp]: "sv_super_platforms (put_platform i p sv) = sv_super_platforms sv"
  by (simp add: put_platform_def)












text \<open>A document with an empty element where the identifier of a device should be.\<close>

definition demo_doc :: "dom XMLDocument" where
  "demo_doc = \<lparr>Declaration = None, RootElement = Some (Dom ''Query'' [] None
     [Dom ''CmdType'' [] (Some ''Catalog'') [], Dom ''SN'' [] (Some ''1'') [], Dom ''DeviceID'' [] None []])\<rparr>"

definition demo_sip_server :: sip_server where
  "demo_sip_server = \<lparr>sv_account = local_account_default, sv_sub_platforms = (\<lambda>i. None), sv_super_platforms = (\<lambda>i. None),
     sv_running = True, sv_udp = True, sv_tcp = False, sv_ssrc_domain = 0, sv_ssrc_sn = (\<lambda>d. None)\<rparr>"






text \<open>C37. A message with an empty DeviceID element stops the program (a string is made from a null pointer) before anything is
asked about its sender: any user name will do, known to the server or not.\<close>

theorem empty_device_id_faults:
  assumes "Parse text = Inr doc" "RootElement doc = Some root" "getRootType (Some (Name X root)) \<noteq> Root_invalid"
    and "FirstChildElement X root ''DeviceID'' = Some ele" "GetText X ele = None" "platform_id \<noteq> []"
  shows "on_recv_message X Parse f g peer_addr (Some text) platform_id (Some sv) = Inl NullText"
proof -
  have "load_header X root m = Inl NullText" for m :: "('a, unit) MessageBase"
    using assms(4,5) by (simp add: load_header_def string_of_text_def Let_def split: option.splits)
  then have "read_message X Parse text = Inl NullText"
    using assms(1-3) by (simp add: read_message_def load_from_xml_def MessageBase_xml_def MessageBase_default_def Let_def)
  then show ?thesis using assms(6) by (simp add: on_recv_message_def)
qed

lemma empty_device_id_faults_witness:
  "on_recv_message dom_xml (\<lambda>t. Inr demo_doc) id id None (Some ''x'') ''nobody'' (Some demo_sip_server) = Inl NullText"
proof (rule empty_device_id_faults [where doc = demo_doc and root = "the (RootElement demo_doc)" and ele = "Dom ''DeviceID'' [] None []"])
  show "getRootType (Some (Name dom_xml (the (RootElement demo_doc)))) \<noteq> Root_invalid" by code_simp
qed (simp_all add: demo_doc_def dom_xml_def FirstChildElement_def)

end
