(* ===== verification/Sdp.thy ===== *)
theory Sdp
  imports ConfigCodec Digest
begin

text \<open>
  Session descriptions (\<open>include/gb28181/request/sdp.h\<close>, \<open>src/request/sdp.cpp\<close>): the description of a stream
  that an INVITE and its answer carry, its parser and its generator. What comes from tinyxml2 and the toolkit is the
  record \<open>sdp_lib\<close>: the splitting of a text, the conversion of a C string to a number (\<open>None\<close> is the result
  \<open>false\<close>, which leaves the target unchanged), and the order in which an \<open>unordered_map\<close> is walked through.
  A member that the constructor leaves indeterminate is an option; a step whose behaviour is undefined is \<open>Fault\<close>.
\<close>

section \<open>Data\<close>

datatype SessionType = Session_UNKNOWN | PLAY | PLAYBACK | DOWNLOAD | TALK
datatype TransportProtocol = Transport_UNKNOWN | Transport_UDP | Transport_TCP
datatype SetupType = Setup_ACTIVE | Setup_PASSIVE | Setup_ACTPASS
datatype Direction = SENDRECV | SENDONLY | RECVONLY | INACTIVE
datatype SDPAddressType = IP4 | IP6
datatype ICECandidateType = HOST | SRFLX | PRFLX | RELAY | ICE_UNKNOWN
datatype ICEComponentType = ICE_Zero \<comment> \<open>the value of \<open>ICEComponentType {}\<close>, which has no name\<close> | RTP | RTCP

record PayloadInfo =
  pl_payload :: u8
  pl_sample_rate :: u32
  pl_name :: string

record ICECandidate =
  ic_foundation :: string
  ic_componentId :: ICEComponentType
  ic_transport :: TransportProtocol
  ic_type :: ICECandidateType
  ic_port :: u16
  ic_rport :: u16
  ic_address :: string
  ic_raddr :: string

record Origin =
  og_username :: string
  og_session_id :: string
  og_session_version :: string
  og_net_type :: string
  og_addr_type :: SDPAddressType
  og_address :: string

record Connection =
  cn_net_type :: string
  cn_addr_type :: SDPAddressType
  cn_address :: string
  cn_ttl :: i32
  cn_num_addr :: i32

datatype URIType = SIMPLE | HTTP
datatype URIFileType = File_ALL | File_MANUAL | File_ALARM | File_TIME

record URIInfo =
  ur_type :: URIType
  ur_file_type :: URIFileType
  ur_content :: string

record SessionInfo =
  ss_version :: i32
  ss_origin :: Origin
  ss_sessionType :: SessionType
  ss_connection :: Connection
  ss_uri :: URIInfo
  ss_start_time :: u64
  ss_end_time :: u64
  ss_iceLite :: bool
  ss_ice_ufrag :: string
  ss_ice_pwd :: string
  ss_ice_options :: "string list"
  ss_attributes :: "(string \<times> string) list"

datatype MediaType = Media_video | Media_audio

record MediaDescription =
  md_mediaType :: MediaType
  md_port :: u16
  md_stream_number :: u16
  md_download_speed :: i32
  md_file_size :: u64
  md_proto :: TransportProtocol
  md_payloads :: "PayloadInfo list"
  md_direction :: Direction
  md_connection :: Connection
  md_setup :: "SetupType option"
  md_newConnection :: bool
  md_ufrag :: string
  md_pwd :: string
  md_candidates :: "ICECandidate list"
  md_ssrc :: u32
  md_f_param :: string
  md_attributes :: "(string \<times> string) list"

record SdpDescription =
  sd_session :: SessionInfo
  sd_media :: "MediaDescription list"

definition PayloadInfo_default :: PayloadInfo where
  "PayloadInfo_default = \<lparr>pl_payload = 0, pl_sample_rate = 0, pl_name = []\<rparr>"

definition ICECandidate_default :: ICECandidate where
  "ICECandidate_default = \<lparr>ic_foundation = [], ic_componentId = ICE_Zero, ic_transport = Transport_UNKNOWN,
     ic_type = ICE_UNKNOWN, ic_port = 0, ic_rport = 0, ic_address = [], ic_raddr = []\<rparr>"

definition Origin_default :: Origin where
  "Origin_default = \<lparr>og_username = [], og_session_id = ''0'', og_session_version = ''0'', og_net_type = ''IN'',
     og_addr_type = IP4, og_address = []\<rparr>"

definition Connection_default :: Connection where
  "Connection_default = \<lparr>cn_net_type = ''IN'', cn_addr_type = IP4, cn_address = [], cn_ttl = 0, cn_num_addr = 1\<rparr>"

definition is_multicast :: "Connection \<Rightarrow> bool" where
  "is_multicast c \<longleftrightarrow> take 4 (cn_address c) = ''224.'' \<or> take 2 (cn_address c) = ''ff''"

definition URIInfo_default :: URIInfo where
  "URIInfo_default = \<lparr>ur_type = SIMPLE, ur_file_type = File_ALL, ur_content = []\<rparr>"

definition SessionInfo_default :: SessionInfo where
  "SessionInfo_default = \<lparr>ss_version = 0, ss_origin = Origin_default, ss_sessionType = PLAY,
     ss_connection = Connection_default, ss_uri = URIInfo_default, ss_start_time = 0, ss_end_time = 0,
     ss_iceLite = False, ss_ice_ufrag = [], ss_ice_pwd = [], ss_ice_options = [], ss_attributes = []\<rparr>"

definition MediaDescription_default :: MediaDescription where
  "MediaDescription_default = \<lparr>md_mediaType = Media_video, md_port = 0, md_stream_number = 0, md_download_speed = 0,
     md_file_size = 0, md_proto = Transport_UDP, md_payloads = [], md_direction = SENDRECV,
     md_connection = Connection_default, md_setup = None, md_newConnection = False, md_ufrag = [], md_pwd = [],
     md_candidates = [], md_ssrc = 0, md_f_param = [], md_attributes = []\<rparr>"

definition SdpDescription_default :: SdpDescription where
  "SdpDescription_default = \<lparr>sd_session = SessionInfo_default, sd_media = []\<rparr>"

section \<open>Parsing\<close>

record sdp_lib =
  lib_split :: "string \<Rightarrow> string \<Rightarrow> string list"
  lib_ToInt :: "string \<Rightarrow> i32 option"
  lib_ToUnsigned :: "string \<Rightarrow> u32 option"
  lib_ToUnsigned64 :: "string \<Rightarrow> u64 option"
  lib_order :: "(string \<times> string) list \<Rightarrow> (string \<times> string) list"

datatype 'a sdp_result = Value 'a | Throw | Fault

fun bind_sdp :: "'a sdp_result \<Rightarrow> ('a \<Rightarrow> 'b sdp_result) \<Rightarrow> 'b sdp_result" where
  "bind_sdp (Value a) f = f a"
| "bind_sdp Throw f = Throw"
| "bind_sdp Fault f = Fault"

text \<open>\<open>s.c_str()\<close> and \<open>s.data()\<close> as a C string.\<close>

definition c_str :: "string \<Rightarrow> string" where
  "c_str s = takeWhile (\<lambda>c. c \<noteq> CHR 0x00) s"

definition assign :: "'v option \<Rightarrow> ('v \<Rightarrow> 's \<Rightarrow> 's) \<Rightarrow> 's \<Rightarrow> 's" where
  "assign r f s = (case r of None \<Rightarrow> s | Some v \<Rightarrow> f v s)"

text \<open>\<open>find(c)\<close> with the two \<open>substr\<close> calls that follow it; the second part is \<open>None\<close> when there is no \<open>c\<close>.\<close>

definition cut_at :: "char \<Rightarrow> string \<Rightarrow> string \<times> string option" where
  "cut_at c s = (takeWhile (\<lambda>x. x \<noteq> c) s,
     case dropWhile (\<lambda>x. x \<noteq> c) s of [] \<Rightarrow> None | _ # r \<Rightarrow> Some r)"

text \<open>\<open>unordered_map::emplace\<close>: a key that is present keeps its value.\<close>

definition emplace :: "string \<Rightarrow> string \<Rightarrow> (string \<times> string) list \<Rightarrow> (string \<times> string) list" where
  "emplace k v m = (if k \<in> fst ` set m then m else m @ [(k, v)])"

definition string_to_ice_candidate_type :: "string \<Rightarrow> ICECandidateType" where
  "string_to_ice_candidate_type s =
     (if s = ''host'' then HOST else if s = ''srflx'' then SRFLX else if s = ''prflx'' then PRFLX
      else if s = ''relay'' then RELAY else ICE_UNKNOWN)"

definition parse_address_type :: "string \<Rightarrow> SDPAddressType sdp_result" where
  "parse_address_type s = (if s = ''IP4'' then Value IP4 else if s = ''IP6'' then Value IP6 else Throw)"

definition parseOrigin :: "sdp_lib \<Rightarrow> string \<Rightarrow> Origin sdp_result" where
  "parseOrigin L value =
     (let parts = lib_split L value '' '' in
      if length parts < 6 then Value Origin_default
      else bind_sdp (parse_address_type (parts ! 4)) (\<lambda>t.
        Value \<lparr>og_username = parts ! 0, og_session_id = parts ! 1, og_session_version = parts ! 2,
          og_net_type = parts ! 3, og_addr_type = t, og_address = parts ! 5\<rparr>))"

definition parseConnection :: "sdp_lib \<Rightarrow> string \<Rightarrow> Connection sdp_result" where
  "parseConnection L value =
     (let parts = lib_split L value '' '' in
      if length parts < 3 then Value Connection_default
      else bind_sdp (parse_address_type (parts ! 1)) (\<lambda>t.
        case lib_split L (parts ! 2) ''/'' of
          [] \<Rightarrow> Fault
        | a # r \<Rightarrow>
           (let conn = \<lparr>cn_net_type = parts ! 0, cn_addr_type = t, cn_address = a, cn_ttl = 0, cn_num_addr = 1\<rparr>;
                conn = (case r of [] \<Rightarrow> conn
                        | x # _ \<Rightarrow> assign (lib_ToInt L (c_str x)) (\<lambda>v c. c\<lparr>cn_ttl := v\<rparr>) conn);
                conn = (case r of _ # y # _ \<Rightarrow> assign (lib_ToInt L (c_str y)) (\<lambda>v c. c\<lparr>cn_num_addr := v\<rparr>) conn
                        | _ \<Rightarrow> conn)
            in Value conn)))"

text \<open>
  \<open>std::stoul\<close> with 64-bit \<open>long\<close>: blanks and a sign are skipped and the longest run of digits is read; \<open>None\<close> is an
  exception. A negative number is negated modulo 2 to the 64.
\<close>

definition std_stoul :: "string \<Rightarrow> u64 option" where
  "std_stoul s =
     (let t = dropWhile is_space s;
          neg = (t \<noteq> [] \<and> hd t = CHR ''-'');
          u = (if t \<noteq> [] \<and> (hd t = CHR ''-'' \<or> hd t = CHR ''+'') then tl t else t)
      in if u = [] \<or> \<not> is_digit (hd u) then None
         else let n = fst (read_digits 0 u)
              in if 2 ^ 64 \<le> n then None else Some (if neg then - of_nat n else of_nat n))"

text \<open>An exception of \<open>std::stoul\<close> is caught, and the members read before it are kept.\<close>

definition parseIceCandidate :: "sdp_lib \<Rightarrow> string \<Rightarrow> ICECandidate" where
  "parseIceCandidate L str =
     (let parts = lib_split L str '' '' in
      if length parts < 8 then ICECandidate_default
      else let c = ICECandidate_default\<lparr>ic_foundation := parts ! 0,
                     ic_componentId := (if parts ! 1 = ''2'' then RTCP else RTP),
                     ic_transport := (if parts ! 2 = ''TCP'' then Transport_TCP else Transport_UDP),
                     ic_address := parts ! 4\<rparr>
           in case std_stoul (parts ! 5) of
                None \<Rightarrow> c
              | Some port \<Rightarrow>
                 (let c = c\<lparr>ic_port := ucast port, ic_type := string_to_ice_candidate_type (parts ! 7)\<rparr>;
                      c = (if length parts > 9 then c\<lparr>ic_raddr := parts ! 9\<rparr> else c)
                  in if length parts > 11
                     then assign (lib_ToUnsigned L (c_str (parts ! 11))) (\<lambda>v c. c\<lparr>ic_rport := ucast v\<rparr>) c
                     else c))"

definition parseSessionType :: "string \<Rightarrow> SessionType" where
  "parseSessionType s =
     (if s = ''Play'' then PLAY else if s = ''Playback'' then PLAYBACK else if s = ''Download'' then DOWNLOAD
      else if s = ''Talk'' then TALK else Session_UNKNOWN)"

definition parseURI :: "string \<Rightarrow> URIInfo" where
  "parseURI value =
     (if take 7 value = ''http://'' then \<lparr>ur_type = HTTP, ur_file_type = File_ALL, ur_content = value\<rparr>
      else case cut_at (CHR '':'') value of (content, param) \<Rightarrow>
        \<lparr>ur_type = SIMPLE,
         ur_file_type = (if param = Some ''1'' then File_MANUAL else if param = Some ''2'' then File_ALARM
           else if param = Some ''3'' then File_TIME else File_ALL),
         ur_content = content\<rparr>)"

text \<open>
  The extractions of \<open>mediaParser\<close>. A word is what lies between blanks. A number that does not fit is replaced by the
  largest one and fails the stream, as does a text without digits, which gives 0; \<open>None\<close> for the rest is the failed
  stream, on which the following extractions do nothing. A minus sign makes a number other than 0 too large.
\<close>

definition take_word :: "string \<Rightarrow> string \<times> string" where
  "take_word s = (let t = dropWhile is_space s in (takeWhile (\<lambda>c. \<not> is_space c) t, dropWhile (\<lambda>c. \<not> is_space c) t))"

definition take_u16 :: "string \<Rightarrow> u16 \<times> string option" where
  "take_u16 s =
     (let t = dropWhile is_space s;
          neg = (t \<noteq> [] \<and> hd t = CHR ''-'');
          u = (if t \<noteq> [] \<and> (hd t = CHR ''-'' \<or> hd t = CHR ''+'') then tl t else t)
      in if u = [] \<or> \<not> is_digit (hd u) then (0, None)
         else case read_digits 0 u of (n, r) \<Rightarrow>
           if 2 ^ 16 \<le> n \<or> (neg \<and> 0 < n) then (65535, None) else (of_nat n, Some r))"

definition mediaParser :: "string \<Rightarrow> MediaDescription" where
  "mediaParser value =
     (case take_word value of (media_type_str, r) \<Rightarrow>
        case take_u16 r of (port, r') \<Rightarrow>
          (let protoStr = (case r' of None \<Rightarrow> [] | Some r'' \<Rightarrow> fst (take_word r''))
           in MediaDescription_default\<lparr>md_port := port,
                md_mediaType := (if media_type_str = ''video'' then Media_video else Media_audio),
                md_proto := (if protoStr = ''TCP/RTP/AVP'' then Transport_TCP else Transport_UDP)\<rparr>))"

definition handlePayloadMap :: "sdp_lib \<Rightarrow> string \<Rightarrow> MediaDescription \<Rightarrow> MediaDescription" where
  "handlePayloadMap L attr m =
     (case cut_at (CHR '' '') attr of
        (_, None) \<Rightarrow> m
      | (_, Some next) \<Rightarrow>
         (let p = PayloadInfo_default;
              p = assign (lib_ToUnsigned L (c_str attr)) (\<lambda>v p. if v > 0 then p\<lparr>pl_payload := ucast v\<rparr> else p) p
          in case cut_at (CHR ''/'') (rev next) of
               (_, None) \<Rightarrow> m
             | (rate, Some name) \<Rightarrow>
                 (let p = p\<lparr>pl_name := rev name\<rparr>;
                      p = assign (lib_ToUnsigned L (c_str (rev rate)))
                            (\<lambda>v p. if v > 0 then p\<lparr>pl_sample_rate := v\<rparr> else p) p
                  in m\<lparr>md_payloads := md_payloads m @ [p]\<rparr>)))"

definition session_attribute :: "sdp_lib \<Rightarrow> string \<Rightarrow> string \<Rightarrow> SessionInfo \<Rightarrow> SessionInfo" where
  "session_attribute L k v s =
     (if k = ''ice-ufrag'' then s\<lparr>ss_ice_ufrag := v\<rparr>
      else if k = ''ice-pwd'' then s\<lparr>ss_ice_pwd := v\<rparr>
      else if k = ''ice-options'' then s\<lparr>ss_ice_options := lib_split L (c_str v) '' ''\<rparr>
      else if k = ''ice-lite'' then s\<lparr>ss_iceLite := True\<rparr>
      else s\<lparr>ss_attributes := emplace k v (ss_attributes s)\<rparr>)"

definition media_attribute :: "sdp_lib \<Rightarrow> string \<Rightarrow> string \<Rightarrow> MediaDescription \<Rightarrow> MediaDescription" where
  "media_attribute L k v m =
     (let unhandled = m\<lparr>md_attributes := emplace k v (md_attributes m)\<rparr> in
      if k = ''ice-ufrag'' then m\<lparr>md_ufrag := v\<rparr>
      else if k = ''ice-pwd'' then m\<lparr>md_pwd := v\<rparr>
      else if k = ''candidate'' then m\<lparr>md_candidates := md_candidates m @ [parseIceCandidate L v]\<rparr>
      else if k = ''sendonly'' then m\<lparr>md_direction := SENDONLY\<rparr>
      else if k = ''recvonly'' then m\<lparr>md_direction := RECVONLY\<rparr>
      else if k = ''sendrecv'' then m\<lparr>md_direction := SENDRECV\<rparr>
      else if k = ''inactive'' then m\<lparr>md_direction := INACTIVE\<rparr>
      else if k = ''setup'' then
        m\<lparr>md_setup := Some (if v = ''active'' then Setup_ACTIVE else if v = ''passive'' then Setup_PASSIVE else Setup_ACTPASS)\<rparr>
      else if k = ''connection'' then m\<lparr>md_newConnection := (v = ''new'')\<rparr>
      else if k = ''rtpmap'' then handlePayloadMap L v m
      else if k = ''streamnumber'' \<or> k = ''streamprofile'' \<or> k = ''stream'' then
        assign (lib_ToUnsigned L (c_str v)) (\<lambda>x m. m\<lparr>md_stream_number := ucast x\<rparr>) m
      else if k = ''streamMode'' then
        (if v = ''sub'' \<or> v = ''Sub'' then m\<lparr>md_stream_number := 1\<rparr>
         else if v = ''main'' \<or> v = ''Main'' then m\<lparr>md_stream_number := 0\<rparr> else unhandled)
      else if k = ''filesize'' then
        (case lib_ToUnsigned64 L (c_str v) of Some x \<Rightarrow> m\<lparr>md_file_size := x\<rparr> | None \<Rightarrow> unhandled)
      else if k = ''downloadspeed'' then
        (case lib_ToInt L (c_str v) of Some x \<Rightarrow> m\<lparr>md_download_speed := x\<rparr> | None \<Rightarrow> unhandled)
      else unhandled)"

text \<open>
  The state of the loop is the description and whether \<open>currentMedia\<close> is set; it always points to the last media then.
\<close>

type_synonym sdp_state = "SdpDescription \<times> bool"

definition on_session :: "(SessionInfo \<Rightarrow> SessionInfo) \<Rightarrow> sdp_state \<Rightarrow> sdp_state" where
  "on_session f st = ((fst st)\<lparr>sd_session := f (sd_session (fst st))\<rparr>, snd st)"

definition on_media :: "(MediaDescription \<Rightarrow> MediaDescription) \<Rightarrow> sdp_state \<Rightarrow> sdp_state" where
  "on_media f st = ((fst st)\<lparr>sd_media := butlast (sd_media (fst st)) @ [f (last (sd_media (fst st)))]\<rparr>, snd st)"

definition parseAttribute :: "sdp_lib \<Rightarrow> string \<Rightarrow> sdp_state \<Rightarrow> sdp_state" where
  "parseAttribute L attr st =
     (case cut_at (CHR '':'') attr of (k, r) \<Rightarrow>
        (let v = (case r of None \<Rightarrow> [] | Some v \<Rightarrow> v)
         in if snd st then on_media (media_attribute L k v) st else on_session (session_attribute L k v) st))"

definition parse_field :: "sdp_lib \<Rightarrow> char \<Rightarrow> string \<Rightarrow> sdp_state \<Rightarrow> sdp_state sdp_result" where
  "parse_field L fld value st =
     (if fld = CHR ''v'' then
        Value (on_session (assign (lib_ToInt L (c_str value)) (\<lambda>v s. s\<lparr>ss_version := v\<rparr>)) st)
      else if fld = CHR ''o'' then
        bind_sdp (parseOrigin L value) (\<lambda>og. Value (on_session (\<lambda>s. s\<lparr>ss_origin := og\<rparr>) st))
      else if fld = CHR ''s'' then Value (on_session (\<lambda>s. s\<lparr>ss_sessionType := parseSessionType value\<rparr>) st)
      else if fld = CHR ''u'' then Value (on_session (\<lambda>s. s\<lparr>ss_uri := parseURI value\<rparr>) st)
      else if fld = CHR ''c'' then
        bind_sdp (parseConnection L value) (\<lambda>cn.
          Value (if snd st then on_media (\<lambda>m. m\<lparr>md_connection := cn\<rparr>) st
                 else on_session (\<lambda>s. s\<lparr>ss_connection := cn\<rparr>) st))
      else if fld = CHR ''t'' then
        (case lib_split L value '' '' of
           [a, b] \<Rightarrow> Value (on_session (\<lambda>s. assign (lib_ToUnsigned64 L (c_str b)) (\<lambda>v s. s\<lparr>ss_end_time := v\<rparr>)
                                     (assign (lib_ToUnsigned64 L (c_str a)) (\<lambda>v s. s\<lparr>ss_start_time := v\<rparr>) s)) st)
         | _ \<Rightarrow> Value st)
      else if fld = CHR ''m'' then
        Value ((fst st)\<lparr>sd_media := sd_media (fst st) @ [mediaParser value]\<rparr>, True)
      else if fld = CHR ''a'' then Value (parseAttribute L value st)
      else if fld = CHR ''y'' then
        Value (if snd st then on_media (assign (lib_ToUnsigned L (c_str value)) (\<lambda>v m. m\<lparr>md_ssrc := v\<rparr>)) st else st)
      else if fld = CHR ''f'' then Value (if snd st then on_media (\<lambda>m. m\<lparr>md_f_param := value\<rparr>) st else st)
      else Value st)"

definition strip_cr :: "string \<Rightarrow> string" where
  "strip_cr line = (if line \<noteq> [] \<and> last line = CHR 0x0D then butlast line else line)"

fun parse_line :: "sdp_lib \<Rightarrow> string \<Rightarrow> sdp_state \<Rightarrow> sdp_state sdp_result" where
  "parse_line L (fld # c # value) st = (if c = CHR ''='' then parse_field L fld value st else Value st)"
| "parse_line L _ st = Value st"

text \<open>An exception ends the loop with what has been read so far; \<open>None\<close> is undefined behaviour.\<close>

fun parse_lines :: "sdp_lib \<Rightarrow> string list \<Rightarrow> sdp_state \<Rightarrow> (bool \<times> SdpDescription) option" where
  "parse_lines L [] st = Some (True, fst st)"
| "parse_lines L (l # ls) st =
     (case parse_line L (strip_cr l) st of
        Value st' \<Rightarrow> parse_lines L ls st'
      | Throw \<Rightarrow> Some (False, fst st)
      | Fault \<Rightarrow> None)"

definition sdp_parse :: "sdp_lib \<Rightarrow> string \<Rightarrow> SdpDescription \<Rightarrow> (bool \<times> SdpDescription) option" where
  "sdp_parse L sdp d = parse_lines L (getlines (CHR 0x0A) sdp) (d, False)"

section \<open>Generating\<close>

definition crlf :: "string \<Rightarrow> string" where
  "crlf line = line @ [CHR 0x0D, CHR 0x0A]"

definition show_u :: "'a::len word \<Rightarrow> string" where
  "show_u w = show_nat (unat w)"

definition show_i :: "i32 \<Rightarrow> string" where
  "show_i w = show_int (sint w)"

fun ice_candidate_type_to_string :: "ICECandidateType \<Rightarrow> string" where
  "ice_candidate_type_to_string HOST = ''host''"
| "ice_candidate_type_to_string SRFLX = ''srflx''"
| "ice_candidate_type_to_string PRFLX = ''prflx''"
| "ice_candidate_type_to_string RELAY = ''relay''"
| "ice_candidate_type_to_string ICE_UNKNOWN = ''unknown''"

text \<open>The array of type preferences has four entries; for \<open>UNKNOWN\<close> the code reads a fifth.\<close>

fun typePref :: "ICECandidateType \<Rightarrow> u32 option" where
  "typePref HOST = Some 126"
| "typePref SRFLX = Some 100"
| "typePref PRFLX = Some 110"
| "typePref RELAY = Some 0"
| "typePref ICE_UNKNOWN = None"

fun component_int :: "ICEComponentType \<Rightarrow> nat" where
  "component_int ICE_Zero = 0"
| "component_int RTP = 1"
| "component_int RTCP = 2"

definition calculatePriority :: "ICECandidate \<Rightarrow> u32 option" where
  "calculatePriority c = map_option (\<lambda>pref.
     push_bit 24 pref OR push_bit 8 65535 OR (256 - of_nat (component_int (ic_componentId c)))) (typePref (ic_type c))"

definition show_candidate :: "ICECandidate \<Rightarrow> string option" where
  "show_candidate c = map_option (\<lambda>priority.
     ''a=candidate:'' @ ic_foundation c @ '' '' @ show_nat (component_int (ic_componentId c)) @ '' '' @
     (if ic_transport c = Transport_UDP then ''UDP'' else ''TCP'') @ '' '' @ show_u priority @ '' '' @
     ic_address c @ '' '' @ show_u (ic_port c) @ '' typ '' @ ice_candidate_type_to_string (ic_type c) @
     (if ic_raddr c \<noteq> [] then '' raddr '' @ ic_raddr c else []) @
     (if ic_rport c \<noteq> 0 then '' rport '' @ show_u (ic_rport c) else [])) (calculatePriority c)"

fun address_type_to_string :: "SDPAddressType \<Rightarrow> string" where
  "address_type_to_string IP4 = ''IP4''"
| "address_type_to_string IP6 = ''IP6''"

definition show_Origin :: "Origin \<Rightarrow> string" where
  "show_Origin og = og_username og @ '' '' @ og_session_id og @ '' '' @ og_session_version og @ '' '' @
     og_net_type og @ '' '' @ address_type_to_string (og_addr_type og) @ '' '' @ og_address og"

text \<open>An operator that writes a whole line, or nothing.\<close>

definition Connection_lines :: "Connection \<Rightarrow> string list" where
  "Connection_lines cn =
     (if cn_address cn = [] then []
      else [''c='' @ cn_net_type cn @ '' '' @ address_type_to_string (cn_addr_type cn) @ '' '' @ cn_address cn @
            (if 0 < sint (cn_ttl cn) \<or> 1 < sint (cn_num_addr cn)
             then ''/'' @ show_i (cn_ttl cn) @
                  (if 1 < sint (cn_num_addr cn) then ''/'' @ show_i (cn_num_addr cn) else [])
             else [])])"

fun file_type_int :: "URIFileType \<Rightarrow> nat" where
  "file_type_int File_ALL = 0"
| "file_type_int File_MANUAL = 1"
| "file_type_int File_ALARM = 2"
| "file_type_int File_TIME = 3"

definition URIInfo_lines :: "URIInfo \<Rightarrow> string list" where
  "URIInfo_lines uri =
     (if ur_content uri = [] then []
      else [''u='' @ ur_content uri @ (if ur_type uri \<noteq> HTTP then '':'' @ show_nat (file_type_int (ur_file_type uri)) else [])])"

fun show_SessionType :: "SessionType \<Rightarrow> string" where
  "show_SessionType Session_UNKNOWN = []"
| "show_SessionType PLAY = ''Play''"
| "show_SessionType PLAYBACK = ''Playback''"
| "show_SessionType DOWNLOAD = ''Download''"
| "show_SessionType TALK = ''Talk''"

definition transportProtoToString :: "TransportProtocol \<Rightarrow> string" where
  "transportProtoToString p = (if p = Transport_TCP then ''TCP/RTP/AVP'' else ''RTP/AVP'')"

fun setupTypeToString :: "SetupType \<Rightarrow> string" where
  "setupTypeToString Setup_ACTIVE = ''active''"
| "setupTypeToString Setup_PASSIVE = ''passive''"
| "setupTypeToString Setup_ACTPASS = ''actpass''"

fun show_Direction :: "Direction \<Rightarrow> string" where
  "show_Direction SENDRECV = ''sendrecv''"
| "show_Direction SENDONLY = ''sendonly''"
| "show_Direction RECVONLY = ''recvonly''"
| "show_Direction INACTIVE = ''inactive''"

definition attribute_lines :: "sdp_lib \<Rightarrow> (string \<times> string) list \<Rightarrow> string list" where
  "attribute_lines L m = map (\<lambda>(k, v). ''a='' @ k @ ''='' @ v) (lib_order L m)"

definition session_lines :: "sdp_lib \<Rightarrow> SessionInfo \<Rightarrow> string list" where
  "session_lines L s =
     [''v='' @ show_i (ss_version s), ''o='' @ show_Origin (ss_origin s), ''s='' @ show_SessionType (ss_sessionType s)] @
     URIInfo_lines (ss_uri s) @ Connection_lines (ss_connection s) @
     [''t='' @ show_u (ss_start_time s) @ '' '' @ show_u (ss_end_time s)] @
     (if ss_ice_ufrag s \<noteq> [] \<and> ss_ice_pwd s \<noteq> []
      then [''a=ice-ufrag:'' @ ss_ice_ufrag s, ''a=ice-pwd:'' @ ss_ice_pwd s] else []) @
     (if ss_iceLite s then [''a=ice-lite''] else []) @
     map (\<lambda>it. ''a=ice-options:'' @ it) (ss_ice_options s) @
     attribute_lines L (ss_attributes s)"

definition pad10 :: "string \<Rightarrow> string" where
  "pad10 s = replicate (10 - length s) (CHR ''0'') @ s"

definition setup_lines :: "MediaDescription \<Rightarrow> string list option" where
  "setup_lines m =
     (if md_proto m = Transport_TCP
      then map_option (\<lambda>setup. [''a=setup:'' @ setupTypeToString setup,
             ''a=connection:'' @ (if md_newConnection m then ''new'' else ''existing'')]) (md_setup m)
      else Some [])"

definition rtpmap_lines :: "PayloadInfo list \<Rightarrow> string list" where
  "rtpmap_lines ps = map (\<lambda>p. ''a=rtpmap:'' @ show_u (pl_payload p) @ '' '' @ pl_name p @ ''/'' @ show_u (pl_sample_rate p))
     (filter (\<lambda>p. pl_name p \<noteq> []) ps)"

definition stream_lines :: "MediaDescription \<Rightarrow> string list" where
  "stream_lines m =
     [''a=streamnumber:'' @ show_u (md_stream_number m), ''a=streamprofile:'' @ show_u (md_stream_number m),
      ''a=stream:'' @ show_u (md_stream_number m)] @
     (if md_stream_number m = 0 \<or> md_stream_number m = 1
      then [''a=streamMode:'' @ (if md_stream_number m = 0 then ''Main'' else ''Sub'')] else []) @
     (if md_file_size m \<noteq> 0 then [''a=filesize:'' @ show_u (md_file_size m)] else []) @
     (if md_download_speed m \<noteq> 0 then [''a=downloadspeed:'' @ show_i (md_download_speed m)] else [])"

definition media_lines :: "sdp_lib \<Rightarrow> MediaDescription \<Rightarrow> string list option" where
  "media_lines L m =
     (case (setup_lines m, those (map show_candidate (md_candidates m))) of
        (Some setup, Some candidates) \<Rightarrow> Some (
          [''m='' @ (if md_mediaType m = Media_video then ''video'' else ''audio'') @ '' '' @ show_u (md_port m) @ '' '' @
           transportProtoToString (md_proto m) @ concat (map (\<lambda>p. '' '' @ show_u (pl_payload p)) (md_payloads m))] @
          setup @ [''a='' @ show_Direction (md_direction m)] @ rtpmap_lines (md_payloads m) @
          (if md_ufrag m \<noteq> [] then [''a=ice-ufrag:'' @ md_ufrag m] else []) @
          (if md_pwd m \<noteq> [] then [''a=ice-pwd:'' @ md_pwd m] else []) @
          candidates @ stream_lines m @ attribute_lines L (md_attributes m) @
          (if md_ssrc m \<noteq> 0 then [''y='' @ pad10 (show_u (md_ssrc m))] else []) @
          (if md_f_param m \<noteq> [] then [''f='' @ md_f_param m] else []))
      | _ \<Rightarrow> None)"

text \<open>The text of a description; \<open>None\<close> when a step is undefined.\<close>

definition generate :: "sdp_lib \<Rightarrow> SdpDescription \<Rightarrow> string option" where
  "generate L d = map_option (\<lambda>ms. concat (map crlf (session_lines L (sd_session d) @ concat ms)))
     (those (map (media_lines L) (sd_media d)))"

end
