(* ===== verification/Sdp_Facts.thy ===== *)
theory Sdp_Facts
  imports Sdp
begin

text \<open>
  What survives a session description on its way from \<open>SdpDescription::generate\<close> to \<open>SdpDescription::parse\<close>: the
  laws the proofs need of the library functions, the descriptions they hold for (\<open>plain\<close>), the description the other
  side reads (\<open>as_read\<close>), and the cases in which the generator is undefined.
\<close>

section \<open>The library\<close>

definition number_end :: "string \<Rightarrow> bool" where
  "number_end r \<longleftrightarrow> (case r of [] \<Rightarrow> True | c # _ \<Rightarrow> c = CHR '' '' \<or> c = CHR ''/'')"

text \<open>
  Joined pieces are split again, a decimal number is read up to the blank or slash that follows it, and walking
  through a map visits every entry once.
\<close>

definition sdp_laws :: "sdp_lib \<Rightarrow> bool" where
  "sdp_laws L \<longleftrightarrow> split_law (lib_split L) \<and>
     (\<forall>ds n r. read_nat ds = Some n \<longrightarrow> number_end r \<longrightarrow>
        (n < 2 ^ 32 \<longrightarrow> lib_ToUnsigned L (ds @ r) = Some (of_nat n)) \<and>
        (n < 2 ^ 64 \<longrightarrow> lib_ToUnsigned64 L (ds @ r) = Some (of_nat n))) \<and>
     (\<forall>i. - (2 ^ 31) \<le> i \<longrightarrow> i < 2 ^ 31 \<longrightarrow> lib_ToInt L (show_int i) = Some (word_of_int i)) \<and>
     (\<forall>m. distinct m \<longrightarrow> distinct (lib_order L m) \<and> set (lib_order L m) = set m)"

definition sdp_ref :: sdp_lib where
  "sdp_ref = \<lparr>lib_split = split_ref,
     lib_ToInt = (\<lambda>s. map_option word_of_int (std_stoi s)),
     lib_ToUnsigned = (\<lambda>s. if s = [] \<or> \<not> is_digit (hd s) \<or> 2 ^ 32 \<le> fst (read_digits 0 s) then None
        else Some (of_nat (fst (read_digits 0 s)))),
     lib_ToUnsigned64 = std_stoul, lib_order = (\<lambda>m. m)\<rparr>"

lemma number_end_digits: "number_end r \<Longrightarrow> fst (read_digits n r) = n"
  by (cases r) (auto simp: number_end_def digit_val_def)

lemma read_nat_digits:
  assumes "read_nat ds = Some n" "number_end r"
  shows "ds \<noteq> []" "is_digit (hd ds)" "fst (read_digits 0 (ds @ r)) = n"
  using assms number_end_digits [of r] read_digits_append [of ds 0 r]
  by (auto simp: read_nat_def split: if_splits)

lemma digit_not_blank: "is_digit c \<Longrightarrow> \<not> is_space c \<and> c \<noteq> CHR ''-'' \<and> c \<noteq> CHR ''+''"
  by (auto simp: is_digit_def digit_val_def is_space_def Let_def split: option.splits if_splits)

lemma std_stoul_digits:
  assumes "read_nat ds = Some n" "number_end r" "n < 2 ^ 64"
  shows "std_stoul (ds @ r) = Some (of_nat n)"
proof -
  obtain c cs where ds: "ds = c # cs" "is_digit c" using read_nat_digits [OF assms(1,2)] by (cases ds) auto
  then show ?thesis using read_nat_digits(3) [OF assms(1,2)] digit_not_blank [of c] assms(3)
    by (simp add: std_stoul_def Let_def)
qed

lemma std_stoi_show_int:
  assumes "- (2 ^ 31) \<le> i" "i < 2 ^ 31"
  shows "std_stoi (show_int i) = Some i"
proof -
  obtain c cs where n: "show_nat (nat \<bar>i\<bar>) = c # cs" by (cases "show_nat (nat \<bar>i\<bar>)") auto
  then have c: "is_digit c" using show_nat_digits [of c "nat \<bar>i\<bar>"] by simp
  have v: "fst (read_digits 0 (c # cs)) = nat \<bar>i\<bar>"
    using read_nat_digits(3) [OF read_nat_show_nat, of "[]" "nat \<bar>i\<bar>"] n by (simp add: number_end_def)
  show ?thesis
  proof (cases "i < 0")
    case True
    then have "show_int i = CHR ''-'' # c # cs" using n by (simp add: show_int_def)
    then show ?thesis using True c v assms by (simp add: std_stoi_def Let_def is_space_def)
  next
    case False
    then have "show_int i = c # cs" using n by (simp add: show_int_def)
    then show ?thesis using False c v assms digit_not_blank [OF c] by (simp add: std_stoi_def Let_def)
  qed
qed

lemma sdp_ref_laws: "sdp_laws sdp_ref"
proof -
  have "lib_ToUnsigned sdp_ref (ds @ r) = Some (of_nat n)" if "read_nat ds = Some n" "number_end r" "n < 2 ^ 32" for ds n r
    using read_nat_digits [OF that(1,2)] that(3) by (auto simp: sdp_ref_def)
  then show ?thesis
    by (simp add: sdp_laws_def sdp_ref_def split_ref_law std_stoul_digits std_stoi_show_int)
qed

lemma sdp_lawsD:
  assumes "sdp_laws L"
  shows "split_law (lib_split L)"
    "\<lbrakk>read_nat ds = Some n; number_end r; n < 2 ^ 32\<rbrakk> \<Longrightarrow> lib_ToUnsigned L (ds @ r) = Some (of_nat n)"
    "\<lbrakk>read_nat ds = Some n; number_end r; n < 2 ^ 64\<rbrakk> \<Longrightarrow> lib_ToUnsigned64 L (ds @ r) = Some (of_nat n)"
    "\<lbrakk>- (2 ^ 31) \<le> i; i < 2 ^ 31\<rbrakk> \<Longrightarrow> lib_ToInt L (show_int i) = Some (word_of_int i)"
    "distinct m \<Longrightarrow> distinct (lib_order L m) \<and> set (lib_order L m) = set m"
  using assms by (auto simp: sdp_laws_def)

section \<open>Texts\<close>

definition text_ok :: "string \<Rightarrow> bool" where
  "text_ok s \<longleftrightarrow> CHR 0x00 \<notin> set s \<and> CHR 0x0A \<notin> set s"

definition word_ok :: "string \<Rightarrow> bool" where
  "word_ok s \<longleftrightarrow> text_ok s \<and> s \<noteq> [] \<and> CHR '' '' \<notin> set s"

lemma text_ok_simps [simp]:
  "text_ok []" "text_ok (c # s) \<longleftrightarrow> c \<noteq> CHR 0x00 \<and> c \<noteq> CHR 0x0A \<and> text_ok s" "text_ok (s @ t) \<longleftrightarrow> text_ok s \<and> text_ok t"
  by (auto simp: text_ok_def)

lemma c_str_ok [simp]: "text_ok s \<Longrightarrow> c_str s = s"
  by (auto simp: c_str_def text_ok_def takeWhile_eq_all_conv)

lemma show_nat_plain: "c \<in> set (show_nat n) \<Longrightarrow> c \<noteq> CHR 0x00 \<and> c \<noteq> CHR 0x0A \<and> c \<noteq> CHR '' '' \<and> c \<noteq> CHR ''/'' \<and> c \<noteq> CHR '':''"
  using show_nat_digits [of c n] by (auto simp: is_digit_def digit_val_def)

lemma show_u_ok [simp]: "word_ok (show_u w)" "text_ok (show_u w)" "CHR ''/'' \<notin> set (show_u w)" "show_u w \<noteq> []"
  "CHR '' '' \<notin> set (show_u w)"
  using show_nat_plain by (auto simp: show_u_def word_ok_def text_ok_def)

lemma show_i_ok [simp]: "word_ok (show_i w)" "text_ok (show_i w)" "CHR ''/'' \<notin> set (show_i w)" "show_i w \<noteq> []"
  "CHR '' '' \<notin> set (show_i w)"
  using show_nat_plain by (auto simp: show_i_def show_int_def word_ok_def text_ok_def split: if_splits)

lemma word_okD: "word_ok s \<Longrightarrow> text_ok s" "word_ok s \<Longrightarrow> s \<noteq> []" "word_ok s \<Longrightarrow> CHR '' '' \<notin> set s"
  by (simp_all add: word_ok_def)

lemma cut_at_simps [simp]:
  "c \<notin> set s \<Longrightarrow> cut_at c s = (s, None)"
  "c \<notin> set s \<Longrightarrow> cut_at c (s @ c # r) = (s, Some r)"
  using no_delimiter [of c s "[]"] no_delimiter [of c s "c # r"] by (simp_all add: cut_at_def dropWhile_eq_Nil_conv [THEN iffD2])

lemma split_words:
  assumes "sdp_laws L" "ps \<noteq> []" "\<forall>p \<in> set ps. word_ok p"
  shows "lib_split L (join '' '' ps) '' '' = ps"
  using sdp_lawsD(1) [OF assms(1)] assms(2,3) by (auto simp: split_law_def word_ok_def)

lemma split_slashes:
  assumes "sdp_laws L" "ps \<noteq> []" "\<forall>p \<in> set ps. p \<noteq> [] \<and> CHR ''/'' \<notin> set p"
  shows "lib_split L (join ''/'' ps) ''/'' = ps"
  using sdp_lawsD(1) [OF assms(1)] assms(2,3) by (auto simp: split_law_def)

lemma unat_bound: "unat (w :: 'a::len word) < 2 ^ LENGTH('a)"
  by (rule unsigned_less)

lemma read_u:
  assumes "sdp_laws L"
  shows "number_end r \<Longrightarrow> LENGTH('a) \<le> 32 \<Longrightarrow> lib_ToUnsigned L (show_u (w :: 'a::len word) @ r) = Some (of_nat (unat w))"
    "number_end r \<Longrightarrow> LENGTH('a) \<le> 64 \<Longrightarrow> lib_ToUnsigned64 L (show_u w @ r) = Some (of_nat (unat w))"
proof -
  have lt: "unat w < 2 ^ k" if "LENGTH('a) \<le> k" for k
    using unat_bound [of w] power_increasing [OF that, of "2 :: nat"] by linarith
  show "number_end r \<Longrightarrow> LENGTH('a) \<le> 32 \<Longrightarrow> lib_ToUnsigned L (show_u w @ r) = Some (of_nat (unat w))"
    unfolding show_u_def by (rule sdp_lawsD(2) [OF assms read_nat_show_nat]; (assumption | rule lt))
  show "number_end r \<Longrightarrow> LENGTH('a) \<le> 64 \<Longrightarrow> lib_ToUnsigned64 L (show_u w @ r) = Some (of_nat (unat w))"
    unfolding show_u_def by (rule sdp_lawsD(3) [OF assms read_nat_show_nat]; (assumption | rule lt))
qed

lemma read_i:
  assumes "sdp_laws L"
  shows "lib_ToInt L (show_i w) = Some w"
  using sdp_lawsD(4) [OF assms, of "sint w"] sint_bounds [of w] by (simp add: show_i_def)

lemma number_end_simps [simp]: "number_end []" "number_end (CHR '' '' # r)" "number_end (CHR ''/'' # r)"
  by (simp_all add: number_end_def)

section \<open>Reading lines one by one\<close>

fun feed :: "sdp_lib \<Rightarrow> string list \<Rightarrow> sdp_state \<Rightarrow> sdp_state sdp_result" where
  "feed L [] st = Value st"
| "feed L (l # ls) st = bind_sdp (parse_line L l st) (feed L ls)"

lemma feed_append: "feed L (ls @ ms) st = bind_sdp (feed L ls st) (feed L ms)"
proof (induction ls arbitrary: st)
  case (Cons l ls)
  then show ?case by (cases "parse_line L l st") auto
qed simp

lemma getlines_crlf:
  "\<forall>l \<in> set ls. CHR 0x0A \<notin> set l \<Longrightarrow> getlines (CHR 0x0A) (concat (map crlf ls)) = map (\<lambda>l. l @ [CHR 0x0D]) ls"
proof (induction ls)
  case (Cons l ls)
  have "concat (map crlf (l # ls)) = (l @ [CHR 0x0D]) @ CHR 0x0A # concat (map crlf ls)" by (simp add: crlf_def)
  moreover have "getlines (CHR 0x0A) ((l @ [CHR 0x0D]) @ CHR 0x0A # concat (map crlf ls)) =
      (l @ [CHR 0x0D]) # getlines (CHR 0x0A) (concat (map crlf ls))" by (rule getlines_Cons) (use Cons.prems in simp)
  ultimately show ?case using Cons by simp
qed simp

lemma strip_cr_line [simp]: "strip_cr (l @ [CHR 0x0D]) = l"
  by (simp add: strip_cr_def)

lemma parse_lines_feed:
  "feed L ls st = Value st' \<Longrightarrow> parse_lines L (map (\<lambda>l. l @ [CHR 0x0D]) ls) st = Some (True, fst st')"
proof (induction ls arbitrary: st)
  case (Cons l ls)
  then show ?case by (cases "parse_line L l st") auto
qed simp

lemma parse_generated:
  assumes "feed L ls (d, False) = Value st" "\<forall>l \<in> set ls. text_ok l"
  shows "sdp_parse L (concat (map crlf ls)) d = Some (True, fst st)"
  using assms parse_lines_feed [OF assms(1)] getlines_crlf [of ls] by (simp add: sdp_parse_def text_ok_def)

text \<open>The states of the loop: only session lines so far, or the last media is \<open>m\<close>.\<close>

definition in_session :: "SessionInfo \<Rightarrow> sdp_state" where
  "in_session s = (\<lparr>sd_session = s, sd_media = []\<rparr>, False)"

definition in_media :: "SessionInfo \<Rightarrow> MediaDescription list \<Rightarrow> MediaDescription \<Rightarrow> sdp_state" where
  "in_media s ms m = (\<lparr>sd_session = s, sd_media = ms @ [m]\<rparr>, True)"

lemma state_simps [simp]:
  "on_session f (in_session s) = in_session (f s)"
  "on_media g (in_media s ms m) = in_media s ms (g m)"
  "snd (in_session s) = False" "snd (in_media s ms m) = True"
  by (simp_all add: on_session_def on_media_def in_session_def in_media_def)

lemma attribute_line:
  assumes "CHR '':'' \<notin> set k"
  shows "parse_line L (CHR ''a'' # CHR ''='' # k @ CHR '':'' # v) (in_session s) = Value (in_session (session_attribute L k v s))"
    "parse_line L (CHR ''a'' # CHR ''='' # k @ CHR '':'' # v) (in_media s ms m) = Value (in_media s ms (media_attribute L k v m))"
    "parse_line L (CHR ''a'' # CHR ''='' # k) (in_session s) = Value (in_session (session_attribute L k [] s))"
    "parse_line L (CHR ''a'' # CHR ''='' # k) (in_media s ms m) = Value (in_media s ms (media_attribute L k [] m))"
  using assms by (simp_all add: parse_field_def parseAttribute_def)

section \<open>Descriptions\<close>

definition plain_origin :: "Origin \<Rightarrow> bool" where
  "plain_origin og \<longleftrightarrow> (\<forall>s \<in> {og_username og, og_session_id og, og_session_version og, og_net_type og, og_address og}. word_ok s)"

definition plain_connection :: "Connection \<Rightarrow> bool" where
  "plain_connection cn \<longleftrightarrow> cn_address cn = [] \<or>
     word_ok (cn_net_type cn) \<and> word_ok (cn_address cn) \<and> CHR ''/'' \<notin> set (cn_address cn) \<and>
     0 \<le> sint (cn_ttl cn) \<and> 1 \<le> sint (cn_num_addr cn)"

definition plain_uri :: "URIInfo \<Rightarrow> bool" where
  "plain_uri u \<longleftrightarrow> text_ok (ur_content u) \<and>
     (if ur_type u = HTTP then take 7 (ur_content u) = ''http://'' else CHR '':'' \<notin> set (ur_content u))"

definition plain_candidate :: "ICECandidate \<Rightarrow> bool" where
  "plain_candidate c \<longleftrightarrow> word_ok (ic_foundation c) \<and> word_ok (ic_address c) \<and> ic_componentId c \<noteq> ICE_Zero \<and>
     ic_transport c \<noteq> Transport_UNKNOWN \<and> ic_type c \<noteq> ICE_UNKNOWN \<and>
     (ic_raddr c = [] \<and> ic_rport c = 0 \<or> word_ok (ic_raddr c))"

definition plain_attributes :: "(string \<times> string) list \<Rightarrow> bool" where
  "plain_attributes m \<longleftrightarrow> distinct m \<and> inj_on fst (set m) \<and>
     (\<forall>(k, v) \<in> set m. text_ok k \<and> text_ok v \<and> CHR ''='' \<notin> set k \<and> CHR '':'' \<notin> set (k @ v))"

definition plain_session :: "SessionInfo \<Rightarrow> bool" where
  "plain_session s \<longleftrightarrow> plain_origin (ss_origin s) \<and> plain_connection (ss_connection s) \<and> plain_uri (ss_uri s) \<and>
     text_ok (ss_ice_ufrag s) \<and> text_ok (ss_ice_pwd s) \<and> (\<forall>w \<in> set (ss_ice_options s). word_ok w) \<and>
     plain_attributes (ss_attributes s)"

definition plain_media :: "MediaDescription \<Rightarrow> bool" where
  "plain_media m \<longleftrightarrow> md_proto m \<noteq> Transport_UNKNOWN \<and> (md_proto m = Transport_TCP \<longrightarrow> md_setup m \<noteq> None) \<and>
     (\<forall>p \<in> set (md_payloads m). text_ok (pl_name p)) \<and> text_ok (md_ufrag m) \<and> text_ok (md_pwd m) \<and>
     (\<forall>c \<in> set (md_candidates m). plain_candidate c) \<and> plain_attributes (md_attributes m) \<and> text_ok (md_f_param m)"

definition plain_sdp :: "SdpDescription \<Rightarrow> bool" where
  "plain_sdp d \<longleftrightarrow> plain_session (sd_session d) \<and> (\<forall>m \<in> set (sd_media d). plain_media m)"

text \<open>
  What the other side reads: an attribute arrives as a name without a value, only the last ICE option arrives, the
  user fragment and the password of a session only together, and a media loses its connection, the payloads without
  a name, and the set-up of a connection that is not TCP.
\<close>

definition read_attributes :: "sdp_lib \<Rightarrow> (string \<times> string) list \<Rightarrow> (string \<times> string) list" where
  "read_attributes L m = map (\<lambda>(k, v). (k @ ''='' @ v, [])) (lib_order L m)"

definition read_session :: "sdp_lib \<Rightarrow> SessionInfo \<Rightarrow> SessionInfo" where
  "read_session L s = s\<lparr>
     ss_uri := (if ur_content (ss_uri s) = [] then URIInfo_default
                else if ur_type (ss_uri s) = HTTP then (ss_uri s)\<lparr>ur_file_type := File_ALL\<rparr> else ss_uri s),
     ss_connection := (if cn_address (ss_connection s) = [] then Connection_default else ss_connection s),
     ss_ice_ufrag := (if ss_ice_ufrag s \<noteq> [] \<and> ss_ice_pwd s \<noteq> [] then ss_ice_ufrag s else []),
     ss_ice_pwd := (if ss_ice_ufrag s \<noteq> [] \<and> ss_ice_pwd s \<noteq> [] then ss_ice_pwd s else []),
     ss_ice_options := (if ss_ice_options s = [] then [] else [last (ss_ice_options s)]),
     ss_attributes := read_attributes L (ss_attributes s)\<rparr>"

definition read_media :: "sdp_lib \<Rightarrow> MediaDescription \<Rightarrow> MediaDescription" where
  "read_media L m = m\<lparr>
     md_connection := Connection_default,
     md_setup := (if md_proto m = Transport_TCP then md_setup m else None),
     md_newConnection := (md_proto m = Transport_TCP \<and> md_newConnection m),
     md_payloads := filter (\<lambda>p. pl_name p \<noteq> []) (md_payloads m),
     md_attributes := read_attributes L (md_attributes m)\<rparr>"

definition as_read :: "sdp_lib \<Rightarrow> SdpDescription \<Rightarrow> SdpDescription" where
  "as_read L d = \<lparr>sd_session = read_session L (sd_session d), sd_media = map (read_media L) (sd_media d)\<rparr>"

section \<open>Attributes\<close>

lemma emplace_new: "k \<notin> fst ` set m \<Longrightarrow> emplace k v m = m @ [(k, v)]"
  by (simp add: emplace_def)

lemma other_key: "\<lbrakk>c \<in> set k; c \<notin> set l\<rbrakk> \<Longrightarrow> (k = l) = False"
  by auto

lemma unknown_attribute:
  assumes "CHR ''='' \<in> set k"
  shows "session_attribute L k v s = s\<lparr>ss_attributes := emplace k v (ss_attributes s)\<rparr>"
    "media_attribute L k v m = m\<lparr>md_attributes := emplace k v (md_attributes m)\<rparr>"
  by (simp_all add: session_attribute_def media_attribute_def other_key [OF assms])

lemma attribute_name_inj:
  assumes "k @ CHR ''='' # v = k' @ CHR ''='' # v'" "CHR ''='' \<notin> set k" "CHR ''='' \<notin> set k'"
  shows "k = k'" "v = v'"
proof -
  have "(k, Some v) = cut_at (CHR ''='') (k' @ CHR ''='' # v')"
    unfolding assms(1) [symmetric] by (rule cut_at_simps(2) [OF assms(2), symmetric])
  also have "\<dots> = (k', Some v')" by (rule cut_at_simps(2) [OF assms(3)])
  finally have "(k, Some v) = (k', Some v')" .
  then show "k = k'" "v = v'" by simp_all
qed

definition attribute_names :: "(string \<times> string) list \<Rightarrow> bool" where
  "attribute_names m \<longleftrightarrow> distinct (map (\<lambda>(k, v). k @ ''='' @ v) m) \<and>
     (\<forall>(k, v) \<in> set m. text_ok k \<and> text_ok v \<and> CHR '':'' \<notin> set (k @ v))"

lemma plain_attribute_names:
  assumes "sdp_laws L" "plain_attributes m"
  shows "attribute_names (lib_order L m)"
proof -
  have m: "distinct (lib_order L m)" "set (lib_order L m) = set m"
    using sdp_lawsD(5) [OF assms(1)] assms(2) by (auto simp: plain_attributes_def)
  have "inj_on (\<lambda>(k, v). k @ ''='' @ v) (set m)"
  proof (rule inj_onI)
    fix p q assume "p \<in> set m" "q \<in> set m" "(\<lambda>(k, v). k @ ''='' @ v) p = (\<lambda>(k, v). k @ ''='' @ v) q"
    moreover obtain k v k' v' where "p = (k, v)" "q = (k', v')" by fastforce
    moreover have "CHR ''='' \<notin> set k" "CHR ''='' \<notin> set k'" using calculation assms(2) by (auto simp: plain_attributes_def)
    ultimately show "p = q" using attribute_name_inj [of k v k' v'] by simp
  qed
  then show ?thesis using assms(2) m by (auto simp: attribute_names_def plain_attributes_def distinct_map)
qed

lemma attributes_fed:
  assumes "attribute_names kvs" "\<forall>(k, v) \<in> set kvs. k @ ''='' @ v \<notin> fst ` set as"
  defines "ls \<equiv> map (\<lambda>(k, v). ''a='' @ k @ ''='' @ v) kvs" and "as' \<equiv> as @ map (\<lambda>(k, v). (k @ ''='' @ v, [])) kvs"
  shows "feed L ls (in_session (s\<lparr>ss_attributes := as\<rparr>)) = Value (in_session (s\<lparr>ss_attributes := as'\<rparr>))"
    and "feed L ls (in_media t ms (m\<lparr>md_attributes := as\<rparr>)) = Value (in_media t ms (m\<lparr>md_attributes := as'\<rparr>))"
proof -
  have "feed L (map (\<lambda>(k, v). ''a='' @ k @ ''='' @ v) kvs) (in_session (s\<lparr>ss_attributes := as\<rparr>)) =
      Value (in_session (s\<lparr>ss_attributes := as @ map (\<lambda>(k, v). (k @ ''='' @ v, [])) kvs\<rparr>)) \<and>
    feed L (map (\<lambda>(k, v). ''a='' @ k @ ''='' @ v) kvs) (in_media t ms (m\<lparr>md_attributes := as\<rparr>)) =
      Value (in_media t ms (m\<lparr>md_attributes := as @ map (\<lambda>(k, v). (k @ ''='' @ v, [])) kvs\<rparr>))"
    using assms(1,2)
  proof (induction kvs arbitrary: as)
  case (Cons p kvs)
  obtain k v where p: "p = (k, v)" by fastforce
  have c: "CHR '':'' \<notin> set (k @ CHR ''='' # v)" "CHR ''='' \<in> set (k @ CHR ''='' # v)"
    and new: "k @ CHR ''='' # v \<notin> fst ` set as"
    using Cons.prems by (auto simp: p attribute_names_def)
  have "k @ CHR ''='' # v \<notin> (\<lambda>(k, v). k @ CHR ''='' # v) ` set kvs" using Cons.prems(1) by (simp add: p attribute_names_def)
  then have "k' @ CHR ''='' # v' \<noteq> k @ CHR ''='' # v" if "(k', v') \<in> set kvs" for k' v'
    using that by (metis (mono_tags, lifting) case_prod_conv image_eqI)
  then have rest: "attribute_names kvs" "\<forall>(k', v') \<in> set kvs. k' @ ''='' @ v' \<notin> fst ` set (as @ [(k @ CHR ''='' # v, [])])"
    using Cons.prems by (auto simp: p attribute_names_def)
  show ?case
    using Cons.IH [OF rest] attribute_line(3,4) [OF c(1)] unknown_attribute [OF c(2)] new by (simp add: p emplace_new)
  qed simp
  then show "feed L ls (in_session (s\<lparr>ss_attributes := as\<rparr>)) = Value (in_session (s\<lparr>ss_attributes := as'\<rparr>))"
    "feed L ls (in_media t ms (m\<lparr>md_attributes := as\<rparr>)) = Value (in_media t ms (m\<lparr>md_attributes := as'\<rparr>))"
    unfolding ls_def as'_def by simp_all
qed

lemma attribute_lines_fed:
  assumes "sdp_laws L" "plain_attributes as"
  shows "ss_attributes s = [] \<Longrightarrow> feed L (attribute_lines L as) (in_session s) =
      Value (in_session (s\<lparr>ss_attributes := read_attributes L as\<rparr>))"
    "md_attributes m = [] \<Longrightarrow> feed L (attribute_lines L as) (in_media t ms m) =
      Value (in_media t ms (m\<lparr>md_attributes := read_attributes L as\<rparr>))"
proof -
  note fed = attributes_fed [OF plain_attribute_names [OF assms], of "[]" L]
  have same: "s\<lparr>ss_attributes := []\<rparr> = s" if "ss_attributes s = []" using that by (cases s) simp
  show "ss_attributes s = [] \<Longrightarrow> feed L (attribute_lines L as) (in_session s) =
      Value (in_session (s\<lparr>ss_attributes := read_attributes L as\<rparr>))"
    using fed(1) [of s] by (simp add: same attribute_lines_def read_attributes_def)
  have same: "m\<lparr>md_attributes := []\<rparr> = m" if "md_attributes m = []" using that by (cases m) simp
  show "md_attributes m = [] \<Longrightarrow> feed L (attribute_lines L as) (in_media t ms m) =
      Value (in_media t ms (m\<lparr>md_attributes := read_attributes L as\<rparr>))"
    using fed(2) [of t ms m] by (simp add: same attribute_lines_def read_attributes_def)
qed

section \<open>The session\<close>

lemma address_type_back [simp]: "parse_address_type (address_type_to_string t) = Value t" "word_ok (address_type_to_string t)"
  by (cases t; simp add: parse_address_type_def word_ok_def)+

lemma origin_back:
  assumes "sdp_laws L" "plain_origin og"
  shows "parseOrigin L (show_Origin og) = Value og"
proof -
  have "show_Origin og = join '' '' [og_username og, og_session_id og, og_session_version og, og_net_type og,
      address_type_to_string (og_addr_type og), og_address og]" by (simp add: show_Origin_def)
  then have "lib_split L (show_Origin og) '' '' = [og_username og, og_session_id og, og_session_version og, og_net_type og,
      address_type_to_string (og_addr_type og), og_address og]"
    using assms(2) by (simp only:) (rule split_words [OF assms(1)], simp_all add: plain_origin_def)
  then show ?thesis by (simp add: parseOrigin_def)
qed

definition connection_pieces :: "Connection \<Rightarrow> string list" where
  "connection_pieces cn = cn_address cn #
     (if 0 < sint (cn_ttl cn) \<or> 1 < sint (cn_num_addr cn)
      then show_i (cn_ttl cn) # (if 1 < sint (cn_num_addr cn) then [show_i (cn_num_addr cn)] else []) else [])"

lemma connection_back:
  assumes "sdp_laws L" "plain_connection cn" "cn_address cn \<noteq> []"
  shows "parseConnection L (cn_net_type cn @ '' '' @ address_type_to_string (cn_addr_type cn) @ '' '' @
     join ''/'' (connection_pieces cn)) = Value cn"
proof -
  have ok: "word_ok (cn_net_type cn)" "word_ok (cn_address cn)" "CHR ''/'' \<notin> set (cn_address cn)"
    and nn: "0 \<le> sint (cn_ttl cn)" "1 \<le> sint (cn_num_addr cn)"
    using assms(2,3) by (auto simp: plain_connection_def)
  have zero: "sint (cn_ttl cn) = 0 \<Longrightarrow> cn_ttl cn = 0" "sint (cn_num_addr cn) = 1 \<Longrightarrow> cn_num_addr cn = 1"
    using signed_word_eqI [of "cn_ttl cn" 0] signed_word_eqI [of "cn_num_addr cn" 1] by simp_all
  have "word_ok (join ''/'' (connection_pieces cn))"
    using ok by (auto simp: connection_pieces_def word_ok_def)
  then have "lib_split L (join '' '' [cn_net_type cn, address_type_to_string (cn_addr_type cn), join ''/'' (connection_pieces cn)]) '' '' =
      [cn_net_type cn, address_type_to_string (cn_addr_type cn), join ''/'' (connection_pieces cn)]"
    using ok by (intro split_words [OF assms(1)]) auto
  moreover have "lib_split L (join ''/'' (connection_pieces cn)) ''/'' = connection_pieces cn"
    using ok by (intro split_slashes [OF assms(1)]) (auto simp: connection_pieces_def word_ok_def)
  ultimately show ?thesis using read_i [OF assms(1)] nn zero
    by (cases cn) (auto simp: parseConnection_def connection_pieces_def assign_def)
qed

lemma file_type_shown:
  "show_nat (file_type_int File_ALL) = ''0''" "show_nat (file_type_int File_MANUAL) = ''1''"
  "show_nat (file_type_int File_ALARM) = ''2''" "show_nat (file_type_int File_TIME) = ''3''"
  by code_simp+

lemma file_type_back:
  obtains c where "show_nat (file_type_int f) = [c]" "c \<noteq> CHR ''/''"
    "(if c = CHR ''1'' then File_MANUAL else if c = CHR ''2'' then File_ALARM else if c = CHR ''3'' then File_TIME
      else File_ALL) = f"
  by (cases f) (use file_type_shown in auto)

lemma uri_back:
  assumes "plain_uri u" "ur_content u \<noteq> []"
  shows "parseURI (ur_content u @ (if ur_type u \<noteq> HTTP then '':'' @ show_nat (file_type_int (ur_file_type u)) else [])) =
    (if ur_type u = HTTP then u\<lparr>ur_file_type := File_ALL\<rparr> else u)"
proof (cases "ur_type u = HTTP")
  case True
  then show ?thesis using assms by (simp add: parseURI_def plain_uri_def)
next
  case False
  have no: "CHR '':'' \<notin> set (ur_content u)" using assms False by (simp add: plain_uri_def)
  obtain c where c: "show_nat (file_type_int (ur_file_type u)) = [c]" "c \<noteq> CHR ''/''"
    "(if c = CHR ''1'' then File_MANUAL else if c = CHR ''2'' then File_ALARM else if c = CHR ''3'' then File_TIME
      else File_ALL) = ur_file_type u" by (rule file_type_back)
  have "take 7 (ur_content u @ '':'' @ [c]) \<noteq> ''http://''"
  proof
    assume eq: "take 7 (ur_content u @ '':'' @ [c]) = ''http://''"
    then have "length (take 7 (ur_content u @ '':'' @ [c])) = 7" by simp
    then have "5 \<le> length (ur_content u)" by simp
    then have "CHR '':'' = ur_content u ! 4" using arg_cong [OF eq, of "\<lambda>s. s ! 4"] by (simp add: nth_append)
    then show False using no \<open>5 \<le> length (ur_content u)\<close> by simp
  qed
  moreover have "cut_at (CHR '':'') (ur_content u @ '':'' @ [c]) = (ur_content u, Some [c])" using no by simp
  ultimately show ?thesis using False c by (cases u; cases "ur_type u") (auto simp: parseURI_def split: if_splits)
qed

lemma session_type_back [simp]: "parseSessionType (show_SessionType t) = t"
  by (cases t) (simp_all add: parseSessionType_def)

lemma head_fed:
  assumes "sdp_laws L" "plain_origin og"
  shows "feed L [''v='' @ show_i v, ''o='' @ show_Origin og, ''s='' @ show_SessionType t] (in_session x) =
    Value (in_session (x\<lparr>ss_version := v, ss_origin := og, ss_sessionType := t\<rparr>))"
  using origin_back [OF assms] read_i [OF assms(1), of v] by (simp add: parse_field_def assign_def)

lemma uri_fed:
  assumes "plain_uri u"
  shows "feed L (URIInfo_lines u) (in_session x) = Value (in_session (if ur_content u = [] then x
    else x\<lparr>ss_uri := if ur_type u = HTTP then u\<lparr>ur_file_type := File_ALL\<rparr> else u\<rparr>))"
  using uri_back [OF assms] by (simp add: URIInfo_lines_def parse_field_def)

lemma connection_line: "cn_address cn \<noteq> [] \<Longrightarrow> Connection_lines cn = [''c='' @ cn_net_type cn @ '' '' @
    address_type_to_string (cn_addr_type cn) @ '' '' @ join ''/'' (connection_pieces cn)]"
  by (simp add: Connection_lines_def connection_pieces_def)

lemma connection_fed:
  assumes "sdp_laws L" "plain_connection cn"
  shows "feed L (Connection_lines cn) (in_session x) =
    Value (in_session (if cn_address cn = [] then x else x\<lparr>ss_connection := cn\<rparr>))"
proof (cases "cn_address cn = []")
  case True
  then show ?thesis by (simp add: Connection_lines_def)
next
  case False
  show ?thesis using connection_back [OF assms False] False
    by (simp add: connection_line [OF False] parse_field_def del: join.simps)
qed

lemma time_fed:
  assumes "sdp_laws L"
  shows "feed L [''t='' @ show_u a @ '' '' @ show_u b] (in_session x) =
    Value (in_session (x\<lparr>ss_start_time := a, ss_end_time := b\<rparr>))"
proof -
  have "lib_split L (show_u a @ '' '' @ show_u b) '' '' = [show_u a, show_u b]"
    using split_words [OF assms, of "[show_u a, show_u b]"] by simp
  then show ?thesis using read_u(2) [OF assms, of "[]" a] read_u(2) [OF assms, of "[]" b]
    by (simp add: parse_field_def assign_def)
qed

lemmas attribute_simps = parse_field_def parseAttribute_def cut_at_def session_attribute_def

lemma ice_fed:
  "feed L (if P then [''a=ice-ufrag:'' @ u, ''a=ice-pwd:'' @ w] else []) (in_session x) =
    Value (in_session (if P then x\<lparr>ss_ice_ufrag := u, ss_ice_pwd := w\<rparr> else x))"
  "feed L (if b then [''a=ice-lite''] else []) (in_session x) =
    Value (in_session (if b then x\<lparr>ss_iceLite := True\<rparr> else x))"
  by (simp_all add: attribute_simps)

lemma options_fed:
  assumes "sdp_laws L" "\<forall>w \<in> set ws. word_ok w"
  shows "feed L (map (\<lambda>it. ''a=ice-options:'' @ it) ws) (in_session x) =
    Value (in_session (if ws = [] then x else x\<lparr>ss_ice_options := [last ws]\<rparr>))"
  using assms(2)
proof (induction ws arbitrary: x)
  case (Cons w ws)
  then have "lib_split L (c_str w) '' '' = [w]" using split_words [OF assms(1), of "[w]"] by (simp add: word_okD)
  with Cons show ?case by (simp add: attribute_simps)
qed simp

lemma session_fed:
  assumes L: "sdp_laws L" and s: "plain_session s"
  shows "feed L (session_lines L s) (in_session SessionInfo_default) = Value (in_session (read_session L s))"
proof -
  note plain = s [unfolded plain_session_def]
  show ?thesis using plain
    by (cases s) (simp add: session_lines_def feed_append head_fed [OF L] uri_fed connection_fed [OF L] time_fed [OF L] ice_fed
        options_fed [OF L] attribute_lines_fed [OF L] read_session_def SessionInfo_default_def del: append_Cons append_Nil feed.simps(2))
qed

section \<open>A media\<close>

definition candidate_words :: "ICECandidate \<Rightarrow> u32 \<Rightarrow> string list" where
  "candidate_words c pref = [ic_foundation c, show_nat (component_int (ic_componentId c)),
     if ic_transport c = Transport_UDP then ''UDP'' else ''TCP'', show_u pref, ic_address c, show_u (ic_port c), ''typ'',
     ice_candidate_type_to_string (ic_type c)] @
     (if ic_raddr c \<noteq> [] then [''raddr'', ic_raddr c] else []) @
     (if ic_rport c \<noteq> 0 then [''rport'', show_u (ic_rport c)] else [])"

lemma no_word [simp]: "\<not> word_ok []"
  by (simp add: word_ok_def)

lemma candidate_literals [simp]: "word_ok ''UDP''" "word_ok ''TCP''" "word_ok ''typ''" "word_ok ''raddr''" "word_ok ''rport''"
  by (simp_all add: word_ok_def)

lemma candidate_shown:
  assumes "plain_candidate c"
  shows "\<exists>pref. show_candidate c = Some (''a=candidate:'' @ join '' '' (candidate_words c pref))"
proof -
  obtain pref where "calculatePriority c = Some pref"
    using assms by (cases "ic_type c") (auto simp: plain_candidate_def calculatePriority_def)
  then show ?thesis by (intro exI [of _ pref]) (auto simp: show_candidate_def candidate_words_def)
qed

lemma component_word [simp]: "word_ok (show_nat (component_int c))"
  using show_nat_plain by (auto simp: word_ok_def text_ok_def)

lemma component_back: "c \<noteq> ICE_Zero \<Longrightarrow> (if show_nat (component_int c) = ''2'' then RTCP else RTP) = c"
proof -
  have "show_nat 1 = ''1''" "show_nat 2 = ''2''" by code_simp+
  then show "c \<noteq> ICE_Zero \<Longrightarrow> (if show_nat (component_int c) = ''2'' then RTCP else RTP) = c" by (cases c) auto
qed

lemma candidate_type_back [simp]:
  "string_to_ice_candidate_type (ice_candidate_type_to_string t) = t" "word_ok (ice_candidate_type_to_string t)"
  by (cases t; simp add: string_to_ice_candidate_type_def word_ok_def)+

lemma stoul_u: "std_stoul (show_u (w :: u16)) = Some (of_nat (unat w))"
  using std_stoul_digits [OF read_nat_show_nat, of "[]" "unat w"] unat_bound [of w] by (simp add: show_u_def)

lemma same_word [simp]: "LENGTH('a) \<le> LENGTH('b) \<Longrightarrow> ucast (ucast w :: 'b::len word) = (w :: 'a::len word)"
  by (simp add: ucast_up_ucast_id is_up)

lemma candidate_back:
  assumes L: "sdp_laws L" and c: "plain_candidate c" and shown: "show_candidate c = Some (''a=candidate:'' @ line)"
  shows "parseIceCandidate L line = c"
proof -
  obtain pref where line: "line = join '' '' (candidate_words c pref)"
    using candidate_shown [OF c] shown by auto
  have "\<forall>p \<in> set (candidate_words c pref). word_ok p"
    using c by (auto simp: candidate_words_def plain_candidate_def)
  then have "lib_split L line '' '' = candidate_words c pref"
    unfolding line by (intro split_words [OF L]) (auto simp: candidate_words_def)
  moreover have "lib_ToUnsigned L (show_u (ic_rport c)) = Some (ucast (ic_rport c))"
    using read_u(1) [OF L, of "[]" "ic_rport c"] by simp
  moreover have "(if ic_transport c = Transport_UDP then ''UDP'' else ''TCP'') = ''TCP'' \<longleftrightarrow> ic_transport c = Transport_TCP"
    using c by (cases "ic_transport c") (auto simp: plain_candidate_def)
  moreover have "(if show_nat (component_int (ic_componentId c)) = ''2'' then RTCP else RTP) = ic_componentId c"
    using c by (intro component_back) (simp add: plain_candidate_def)
  ultimately show ?thesis using c stoul_u [of "ic_port c"]
    by (cases c; cases "ic_transport c"; cases "ic_raddr c = []"; cases "ic_rport c = 0")
       (auto simp: parseIceCandidate_def candidate_words_def plain_candidate_def ICECandidate_default_def Let_def assign_def)
qed

lemma take_word_back:
  assumes "w \<noteq> []" "\<forall>c \<in> set w. \<not> is_space c" "r = [] \<or> is_space (hd r)"
  shows "take_word (w @ r) = (w, r)" "take_word (CHR '' '' # w @ r) = (w, r)"
proof -
  have "takeWhile (\<lambda>c. \<not> is_space c) r = []" "dropWhile (\<lambda>c. \<not> is_space c) r = r" using assms(3) by (cases r; auto)+
  moreover have "dropWhile is_space (w @ r) = w @ r" using assms(1,2) by (cases w) auto
  ultimately show "take_word (w @ r) = (w, r)" "take_word (CHR '' '' # w @ r) = (w, r)"
    using assms(2) by (simp_all add: take_word_def takeWhile_append2 dropWhile_append2, simp_all add: is_space_def)
qed

lemma take_u16_back: "take_u16 (CHR '' '' # show_u p @ CHR '' '' # r) = (p, Some (CHR '' '' # r))"
proof -
  obtain c cs where n: "show_nat (unat p) = c # cs" by (cases "show_nat (unat p)") auto
  then have c: "is_digit c" using show_nat_digits [of c "unat p"] by simp
  have "fst (read_digits 0 (show_nat (unat p))) = unat p"
    using read_nat_digits(3) [OF read_nat_show_nat, of "[]" "unat p"] by simp
  then have "read_digits 0 (show_nat (unat p) @ CHR '' '' # r) = (unat p, CHR '' '' # r)"
    using show_nat_digits by (subst read_digits_append) (auto simp: digit_val_def)
  then show ?thesis using n digit_not_blank [OF c] c unat_bound [of p]
    by (simp add: take_u16_def show_u_def is_space_def [of "CHR '' ''"])
qed

lemma media_head_back:
  "mediaParser ((if t = Media_video then ''video'' else ''audio'') @ '' '' @ show_u port @ '' '' @
     transportProtoToString proto @ concat (map (\<lambda>p. '' '' @ show_u (pl_payload p)) ps)) =
   MediaDescription_default\<lparr>md_port := port, md_mediaType := t,
     md_proto := (if proto = Transport_TCP then Transport_TCP else Transport_UDP)\<rparr>"
proof -
  let ?pls = "concat (map (\<lambda>p. '' '' @ show_u (pl_payload p)) ps)"
  have pls: "?pls = [] \<or> is_space (hd ?pls)" by (cases ps) (simp_all add: is_space_def)
  have "take_word (CHR '' '' # transportProtoToString proto @ ?pls) = (transportProtoToString proto, ?pls)"
    by (rule take_word_back(2) [OF _ _ pls]) (simp_all add: transportProtoToString_def is_space_def)
  moreover have "take_word ((if t = Media_video then ''video'' else ''audio'') @ CHR '' '' # q) =
      (if t = Media_video then ''video'' else ''audio'', CHR '' '' # q)" for q
    by (rule take_word_back(1)) (simp_all add: is_space_def)
  ultimately show ?thesis
    by (cases t) (simp_all add: mediaParser_def take_u16_back transportProtoToString_def)
qed

lemma media_line_fed:
  assumes "l = ''m='' @ value"
  shows "parse_line L l (in_session s) = Value (in_media s [] (mediaParser value))"
    "parse_line L l (in_media s ms m) = Value (in_media s (ms @ [m]) (mediaParser value))"
  by (simp_all add: assms parse_field_def in_session_def in_media_def)

lemmas media_attribute_simps = parse_field_def parseAttribute_def cut_at_def media_attribute_def

lemma setup_fed:
  assumes "setup_lines m = Some ls"
  shows "feed L ls (in_media s ms x) = Value (in_media s ms (x\<lparr>
    md_setup := (if md_proto m = Transport_TCP then md_setup m else md_setup x),
    md_newConnection := (if md_proto m = Transport_TCP then md_newConnection m else md_newConnection x)\<rparr>))"
proof (cases "md_proto m = Transport_TCP")
  case True
  then obtain t where t: "md_setup m = Some t" using assms by (auto simp: setup_lines_def)
  have "ls = [''a=setup:'' @ setupTypeToString t, ''a=connection:'' @ (if md_newConnection m then ''new'' else ''existing'')]"
    using assms True t by (simp add: setup_lines_def)
  then show ?thesis using True t by (cases t) (simp_all add: media_attribute_simps)
next
  case False
  then show ?thesis using assms by (cases x) (simp add: setup_lines_def)
qed

lemma direction_fed:
  "feed L [''a='' @ show_Direction d] (in_media s ms x) = Value (in_media s ms (x\<lparr>md_direction := d\<rparr>))"
  by (cases d) (simp_all add: media_attribute_simps)

lemma rtpmap_back:
  assumes L: "sdp_laws L" and p: "text_ok (pl_name p)"
  shows "handlePayloadMap L (show_u (pl_payload p) @ '' '' @ pl_name p @ ''/'' @ show_u (pl_sample_rate p)) x =
    x\<lparr>md_payloads := md_payloads x @ [p]\<rparr>" (is "handlePayloadMap L ?line x = _")
proof -
  have "c_str ?line = ?line" using p by (intro c_str_ok) simp
  then have n: "lib_ToUnsigned L (c_str ?line) = Some (ucast (pl_payload p))"
    using read_u(1) [OF L, of "CHR '' '' # pl_name p @ ''/'' @ show_u (pl_sample_rate p)" "pl_payload p"] by simp
  have r: "lib_ToUnsigned L (show_u (pl_sample_rate p)) = Some (pl_sample_rate p)"
    using read_u(1) [OF L, of "[]" "pl_sample_rate p"] by simp
  have up: "ucast (ucast (pl_payload p) :: u32) = pl_payload p" by (rule same_word) simp
  have zero: "ucast (pl_payload p) > (0 :: u32) \<longleftrightarrow> pl_payload p \<noteq> 0" "pl_sample_rate p > 0 \<longleftrightarrow> pl_sample_rate p \<noteq> 0"
    using up by (auto simp: word_gt_0 simp del: same_word)
  have "rev (pl_name p @ ''/'' @ show_u (pl_sample_rate p)) = rev (show_u (pl_sample_rate p)) @ CHR ''/'' # rev (pl_name p)" by simp
  moreover have "cut_at (CHR ''/'') \<dots> = (rev (show_u (pl_sample_rate p)), Some (rev (pl_name p)))" by (rule cut_at_simps(2)) simp
  moreover have "cut_at (CHR '' '') ?line = (show_u (pl_payload p), Some (pl_name p @ ''/'' @ show_u (pl_sample_rate p)))"
    using cut_at_simps(2) [of "CHR '' ''" "show_u (pl_payload p)"] by simp
  ultimately have "handlePayloadMap L ?line x = x\<lparr>md_payloads := md_payloads x @
      [PayloadInfo_default\<lparr>pl_payload := pl_payload p, pl_name := pl_name p, pl_sample_rate := pl_sample_rate p\<rparr>]\<rparr>"
    using n r zero by (cases "pl_payload p = 0"; cases "pl_sample_rate p = 0")
      (simp_all add: handlePayloadMap_def assign_def PayloadInfo_default_def del: rev_append append.simps)
  then show ?thesis by (cases p) (simp add: PayloadInfo_default_def)
qed

lemma rtpmap_fed:
  assumes "sdp_laws L" "\<forall>p \<in> set ps. text_ok (pl_name p)"
  shows "feed L (rtpmap_lines ps) (in_media s ms x) =
    Value (in_media s ms (x\<lparr>md_payloads := md_payloads x @ filter (\<lambda>p. pl_name p \<noteq> []) ps\<rparr>))"
  using assms(2)
proof (induction ps arbitrary: x)
  case Nil
  show ?case by (cases x) (simp add: rtpmap_lines_def)
next
  case (Cons p ps)
  have "parse_line L (CHR ''a'' # CHR ''='' # ''rtpmap'' @ CHR '':'' # v) (in_media s ms x) =
      Value (in_media s ms (media_attribute L ''rtpmap'' v x))" for v by (rule attribute_line(2)) simp
  then show ?case using Cons rtpmap_back [OF assms(1), of p x] by (simp add: rtpmap_lines_def media_attribute_def)
qed

lemma credentials_fed:
  "feed L (if u \<noteq> [] then [''a=ice-ufrag:'' @ u] else []) (in_media s ms x) =
    Value (in_media s ms (x\<lparr>md_ufrag := (if u \<noteq> [] then u else md_ufrag x)\<rparr>))"
  "feed L (if w \<noteq> [] then [''a=ice-pwd:'' @ w] else []) (in_media s ms x) =
    Value (in_media s ms (x\<lparr>md_pwd := (if w \<noteq> [] then w else md_pwd x)\<rparr>))"
  "feed L (if f \<noteq> [] then [''f='' @ f] else []) (in_media s ms x) =
    Value (in_media s ms (x\<lparr>md_f_param := (if f \<noteq> [] then f else md_f_param x)\<rparr>))"
  by (cases x; simp add: media_attribute_simps)+

lemma candidates_fed:
  assumes "sdp_laws L" "\<forall>c \<in> set cs. plain_candidate c" "those (map show_candidate cs) = Some ls"
  shows "feed L ls (in_media s ms x) = Value (in_media s ms (x\<lparr>md_candidates := md_candidates x @ cs\<rparr>))"
  using assms(2,3)
proof (induction cs arbitrary: x ls)
  case Nil
  then show ?case by (cases x) simp
next
  case (Cons c cs)
  obtain pref where c: "show_candidate c = Some (''a=candidate:'' @ join '' '' (candidate_words c pref))"
    using candidate_shown Cons.prems by auto
  then obtain ls' where ls: "those (map show_candidate cs) = Some ls'"
      "ls = (''a=candidate:'' @ join '' '' (candidate_words c pref)) # ls'"
    using Cons.prems(2) by auto
  have "parse_line L (CHR ''a'' # CHR ''='' # ''candidate'' @ CHR '':'' # v) (in_media s ms x) =
      Value (in_media s ms (media_attribute L ''candidate'' v x))" for v by (rule attribute_line(2)) simp
  then show ?case using Cons.IH [OF _ ls(1)] Cons.prems(1) candidate_back [OF assms(1) _ c]
    by (simp add: ls(2) media_attribute_def)
qed

lemma stream_fed:
  assumes "sdp_laws L"
  shows "feed L (stream_lines m) (in_media s ms x) = Value (in_media s ms (x\<lparr>md_stream_number := md_stream_number m,
    md_file_size := (if md_file_size m \<noteq> 0 then md_file_size m else md_file_size x),
    md_download_speed := (if md_download_speed m \<noteq> 0 then md_download_speed m else md_download_speed x)\<rparr>))"
  using read_u(1) [OF assms, of "[]" "md_stream_number m"] read_u(2) [OF assms, of "[]" "md_file_size m"] read_i [OF assms]
  by (cases x) (simp add: stream_lines_def media_attribute_simps assign_def)

lemma pad10_back: "read_nat (pad10 (show_u w)) = Some (unat w)"
proof -
  have zeros: "read_digits 0 (replicate k (CHR ''0'') @ s) = read_digits 0 s" for k s
    by (induction k) (simp_all add: digit_val_def)
  have "is_digit (CHR ''0'')" by (simp add: is_digit_def digit_val_def)
  then show ?thesis using read_nat_digits(3) [OF read_nat_show_nat, of "[]" "unat w"] show_nat_digits [of _ "unat w"]
    by (auto simp: read_nat_def pad10_def show_u_def zeros)
qed

lemma ssrc_fed:
  assumes "sdp_laws L"
  shows "feed L (if ssrc \<noteq> 0 then [''y='' @ pad10 (show_u ssrc)] else []) (in_media s ms x) =
    Value (in_media s ms (x\<lparr>md_ssrc := (if ssrc \<noteq> 0 then ssrc else md_ssrc x)\<rparr>))"
proof -
  have "lib_ToUnsigned L (pad10 (show_u ssrc)) = Some ssrc"
    using sdp_lawsD(2) [OF assms pad10_back, of "[]" ssrc] unat_bound [of ssrc] by simp
  moreover have "text_ok (pad10 (show_u ssrc))" using show_u_ok(2) [of ssrc] by (simp add: pad10_def text_ok_def)
  ultimately show ?thesis by (cases x) (simp add: parse_field_def assign_def)
qed

lemma written_if [simp]: "(if u = [] then [] else u) = u" "(if w = 0 then 0 else w) = (w :: 'a::len word)"
  by simp_all

lemma media_fed:
  assumes L: "sdp_laws L" and m: "plain_media m" and lines: "media_lines L m = Some ls"
  shows "feed L ls (in_session s) = Value (in_media s [] (read_media L m))"
    "feed L ls (in_media s ms x) = Value (in_media s (ms @ [x]) (read_media L m))"
proof -
  note plain = m [unfolded plain_media_def]
  obtain sl cands where sl: "setup_lines m = Some sl" and cands: "those (map show_candidate (md_candidates m)) = Some cands"
    using lines by (auto simp: media_lines_def split: option.splits)
  let ?head = "MediaDescription_default\<lparr>md_port := md_port m, md_mediaType := md_mediaType m,
     md_proto := (if md_proto m = Transport_TCP then Transport_TCP else Transport_UDP)\<rparr>"
  obtain l rest where ls: "ls = l # rest" and head: "parse_line L l (in_session s) = Value (in_media s [] ?head)"
      "parse_line L l (in_media s ms x) = Value (in_media s (ms @ [x]) ?head)"
    and rest: "rest = sl @ [''a='' @ show_Direction (md_direction m)] @ rtpmap_lines (md_payloads m) @
       (if md_ufrag m \<noteq> [] then [''a=ice-ufrag:'' @ md_ufrag m] else []) @
       (if md_pwd m \<noteq> [] then [''a=ice-pwd:'' @ md_pwd m] else []) @
       cands @ stream_lines m @ attribute_lines L (md_attributes m) @
       (if md_ssrc m \<noteq> 0 then [''y='' @ pad10 (show_u (md_ssrc m))] else []) @
       (if md_f_param m \<noteq> [] then [''f='' @ md_f_param m] else [])"
    using lines media_line_fed [OF refl, of L] media_head_back [of "md_mediaType m" "md_port m" "md_proto m" "md_payloads m"]
    unfolding media_lines_def sl cands by auto
  have proto: "md_proto m = Transport_TCP \<or> md_proto m = Transport_UDP" using plain by (cases "md_proto m") auto
  have "feed L rest (in_media s q ?head) = Value (in_media s q (read_media L m))" for q
    using plain unfolding rest
    by (simp add: feed_append setup_fed [OF sl] direction_fed rtpmap_fed [OF L] credentials_fed candidates_fed [OF L _ cands]
        stream_fed [OF L] attribute_lines_fed [OF L] ssrc_fed [OF L] MediaDescription_default_def
        del: append_Cons append_Nil feed.simps(2) split del: if_split)
       (use proto in \<open>cases m, auto simp: read_media_def\<close>)
  then show "feed L ls (in_session s) = Value (in_media s [] (read_media L m))"
    "feed L ls (in_media s ms x) = Value (in_media s (ms @ [x]) (read_media L m))"
    by (simp_all add: ls head)
qed

lemma medias_fed:
  assumes "sdp_laws L" "\<forall>m \<in> set qs. plain_media m" "those (map (media_lines L) qs) = Some ls"
  shows "feed L (concat ls) (in_media s ms x) =
    Value (in_media s (butlast (ms @ x # map (read_media L) qs)) (last (x # map (read_media L) qs)))"
  using assms(2,3)
proof (induction qs arbitrary: ls ms x)
  case Nil
  then show ?case by (simp add: butlast_append)
next
  case (Cons m qs)
  obtain l ls' where ls: "ls = l # ls'" "media_lines L m = Some l" "those (map (media_lines L) qs) = Some ls'"
    using Cons.prems(2) by (auto split: option.splits)
  show ?case using Cons.IH [OF _ ls(3), of "ms @ [x]" "read_media L m"] Cons.prems(1) media_fed(2) [OF assms(1) _ ls(2)]
    by (simp add: ls(1) feed_append)
qed

section \<open>Whole descriptions\<close>

lemma those_defined: "(\<And>x. x \<in> set xs \<Longrightarrow> f x \<noteq> None) \<Longrightarrow> \<exists>ys. those (map f xs) = Some ys"
  by (induction xs) fastforce+

lemma those_undefined: "\<lbrakk>x \<in> set xs; f x = None\<rbrakk> \<Longrightarrow> those (map f xs) = None"
  by (induction xs) (auto split: option.splits)

lemma those_from: "\<lbrakk>those (map f xs) = Some ys; y \<in> set ys\<rbrakk> \<Longrightarrow> \<exists>x \<in> set xs. f x = Some y"
  by (induction xs arbitrary: ys) (auto split: option.splits)

lemma plain_media_defined: "plain_media m \<Longrightarrow> media_lines L m \<noteq> None"
proof -
  assume m: "plain_media m"
  have "\<exists>cands. those (map show_candidate (md_candidates m)) = Some cands"
    using m candidate_shown by (intro those_defined) (fastforce simp: plain_media_def)
  moreover have "setup_lines m \<noteq> None" using m by (auto simp: plain_media_def setup_lines_def)
  ultimately show ?thesis by (auto simp: media_lines_def)
qed

lemma attribute_texts:
  assumes "sdp_laws L" "plain_attributes m" "l \<in> set (attribute_lines L m)"
  shows "text_ok l"
  using assms sdp_lawsD(5) [OF assms(1), of m] by (auto simp: attribute_lines_def plain_attributes_def)

lemma show_text [simp]: "text_ok (show_nat n)"
  using show_nat_plain by (auto simp: text_ok_def)

lemma name_text [simp]: "text_ok (address_type_to_string t)" "text_ok (show_SessionType ty)"
  "text_ok (setupTypeToString st)" "text_ok (show_Direction d)" "text_ok (transportProtoToString pr)"
proof -
  show "text_ok (address_type_to_string t)" by (cases t) simp_all
  show "text_ok (show_SessionType ty)" by (cases ty) simp_all
  show "text_ok (setupTypeToString st)" by (cases st) simp_all
  show "text_ok (show_Direction d)" by (cases d) simp_all
  show "text_ok (transportProtoToString pr)" by (simp add: transportProtoToString_def)
qed

lemma session_texts:
  assumes "sdp_laws L" "plain_session s" "l \<in> set (session_lines L s)"
  shows "text_ok l"
proof -
  have "text_ok l" if "l \<in> set (URIInfo_lines (ss_uri s))"
    using that assms(2) by (auto simp: URIInfo_lines_def plain_session_def plain_uri_def split: if_splits)
  moreover have "text_ok l" if "l \<in> set (Connection_lines (ss_connection s))"
    using that assms(2) by (auto simp: Connection_lines_def plain_session_def plain_connection_def word_okD split: if_splits)
  moreover have "text_ok (show_Origin (ss_origin s))"
    using assms(2) by (simp add: show_Origin_def plain_session_def plain_origin_def word_okD)
  moreover have "text_ok l" if "l \<in> set (attribute_lines L (ss_attributes s))"
    using that assms(1,2) attribute_texts by (auto simp: plain_session_def)
  moreover have "text_ok (ss_ice_ufrag s)" "text_ok (ss_ice_pwd s)" "\<forall>w \<in> set (ss_ice_options s). text_ok w"
    using assms(2) by (auto simp: plain_session_def word_okD)
  ultimately show ?thesis using assms(3) by (auto simp: session_lines_def split: if_splits)
qed

lemma join_words: "\<forall>w \<in> set ws. word_ok w \<Longrightarrow> text_ok (join '' '' ws)"
  by (induction "'' ''" ws rule: join.induct) (auto simp: word_ok_def)

lemma candidate_texts:
  assumes "\<forall>c \<in> set cs. plain_candidate c" "those (map show_candidate cs) = Some ls" "l \<in> set ls"
  shows "text_ok l"
proof -
  obtain c where c: "c \<in> set cs" "show_candidate c = Some l" using those_from [OF assms(2,3)] by blast
  then have pc: "plain_candidate c" using assms(1) by simp
  obtain pref where "l = ''a=candidate:'' @ join '' '' (candidate_words c pref)" using candidate_shown [OF pc] c by auto
  moreover have "\<forall>w \<in> set (candidate_words c pref). word_ok w"
    using pc by (auto simp: candidate_words_def plain_candidate_def)
  ultimately show ?thesis using join_words by simp
qed

lemma media_texts:
  assumes "sdp_laws L" "plain_media m" "media_lines L m = Some ls"
  shows "\<forall>l \<in> set ls. text_ok l"
proof -
  obtain sl cands where sl: "setup_lines m = Some sl" and cands: "those (map show_candidate (md_candidates m)) = Some cands"
    using assms(3) by (auto simp: media_lines_def split: option.splits)
  have setup_ok: "\<forall>l \<in> set sl. text_ok l" using sl by (auto simp: setup_lines_def split: if_splits)
  have cands_ok: "\<forall>l \<in> set cands. text_ok l" using candidate_texts [OF _ cands] assms(2) by (simp add: plain_media_def)
  have attributes: "\<forall>l \<in> set (attribute_lines L (md_attributes m)). text_ok l"
    using attribute_texts [OF assms(1)] assms(2) by (auto simp: plain_media_def)
  have payloads: "text_ok (concat (map (\<lambda>p. '' '' @ show_u (pl_payload p)) ps))" for ps by (induction ps) simp_all
  have pad: "text_ok (pad10 (show_u w))" for w :: u32 using show_u_ok(2) [of w] by (simp add: pad10_def text_ok_def)
  have stream: "\<forall>l \<in> set (stream_lines m). text_ok l" by (auto simp: stream_lines_def)
  have rtpmap: "\<forall>l \<in> set (rtpmap_lines (md_payloads m)). text_ok l"
    using assms(2) by (auto simp: rtpmap_lines_def plain_media_def)
  have texts: "text_ok (md_ufrag m)" "text_ok (md_pwd m)" "text_ok (md_f_param m)" using assms(2) by (simp_all add: plain_media_def)
  show ?thesis using assms(3) setup_ok cands_ok attributes payloads pad stream rtpmap texts unfolding media_lines_def sl cands
    by (simp only: option.case prod.case option.inject) (elim subst, simp add: ball_Un)
qed

lemma generated:
  assumes L: "sdp_laws L" and d: "plain_sdp d"
  obtains ls where "generate L d = Some (concat (map crlf (session_lines L (sd_session d) @ concat ls)))"
    "those (map (media_lines L) (sd_media d)) = Some ls"
    "\<forall>l \<in> set (session_lines L (sd_session d) @ concat ls). text_ok l"
proof -
  obtain ls where ls: "those (map (media_lines L) (sd_media d)) = Some ls"
    using those_defined [of "sd_media d" "media_lines L"] plain_media_defined d by (auto simp: plain_sdp_def)
  have "\<forall>l \<in> set q. text_ok l" if "q \<in> set ls" for q
    using those_from [OF ls that] media_texts [OF L] d by (auto simp: plain_sdp_def)
  moreover have "\<forall>l \<in> set (session_lines L (sd_session d)). text_ok l"
    using session_texts [OF L] d unfolding plain_sdp_def by blast
  ultimately show ?thesis using that ls by (auto simp: generate_def)
qed

text \<open>C2. The round trip of a session description: a description of plain texts can be generated, the text is parsed
without an error, and what the other side reads is the description but for the members that \<open>read_session\<close> and
\<open>read_media\<close> list as lost (the connection of a media, the values of attributes, all but one ICE option).\<close>

theorem sdp_roundtrip:
  assumes "sdp_laws L" "plain_sdp d"
  shows "\<exists>s. generate L d = Some s \<and> sdp_parse L s SdpDescription_default = Some (True, as_read L d)"
proof -
  obtain ls where ls: "generate L d = Some (concat (map crlf (session_lines L (sd_session d) @ concat ls)))"
      "those (map (media_lines L) (sd_media d)) = Some ls"
      "\<forall>l \<in> set (session_lines L (sd_session d) @ concat ls). text_ok l" using generated [OF assms] .
  have head: "feed L (session_lines L (sd_session d)) (SdpDescription_default, False) = Value (in_session (read_session L (sd_session d)))"
    using session_fed [OF assms(1)] assms(2) by (simp add: plain_sdp_def in_session_def SdpDescription_default_def)
  have "\<exists>st. feed L (session_lines L (sd_session d) @ concat ls) (SdpDescription_default, False) = Value st \<and> fst st = as_read L d"
  proof (cases "sd_media d")
    case Nil
    then show ?thesis using ls(2) head by (simp add: feed_append in_session_def as_read_def)
  next
    case (Cons m qs)
    then obtain l ls' where l: "ls = l # ls'" "media_lines L m = Some l" "those (map (media_lines L) qs) = Some ls'"
      using ls(2) by (auto split: option.splits)
    have plain: "plain_media m" "\<forall>m \<in> set qs. plain_media m" using assms(2) Cons by (simp_all add: plain_sdp_def)
    show ?thesis
      using head media_fed(1) [OF assms(1) plain(1) l(2)] medias_fed [OF assms(1) plain(2) l(3), of _ "[]"]
        append_butlast_last_id [of "read_media L m # map (read_media L) qs"]
      by (simp add: feed_append l(1) Cons in_media_def as_read_def split: if_splits)
  qed
  then show ?thesis using parse_generated ls(1,3) by metis
qed

definition demo_sdp :: SdpDescription where
  "demo_sdp = \<lparr>sd_session = SessionInfo_default\<lparr>
       ss_origin := Origin_default\<lparr>og_username := ''34020000002000000001'', og_address := ''192.168.1.2''\<rparr>,
       ss_connection := Connection_default\<lparr>cn_address := ''192.168.1.2''\<rparr>, ss_sessionType := PLAYBACK,
       ss_uri := URIInfo_default\<lparr>ur_content := ''34020000001320000001''\<rparr>, ss_start_time := 1700000000, ss_end_time := 1700000600,
       ss_attributes := [(''vendor'', ''x'')]\<rparr>,
     sd_media = [MediaDescription_default\<lparr>md_port := 30000, md_proto := Transport_TCP, md_setup := Some Setup_PASSIVE,
       md_payloads := [\<lparr>pl_payload = 96, pl_sample_rate = 90000, pl_name = ''PS''\<rparr>], md_direction := RECVONLY,
       md_candidates := [\<lparr>ic_foundation = ''1'', ic_componentId = RTP, ic_transport = Transport_UDP, ic_type = HOST,
         ic_port = 30000, ic_rport = 0, ic_address = ''192.168.1.2'', ic_raddr = []\<rparr>], md_ssrc := 100000001\<rparr>]\<rparr>"

lemma demo_sdp_plain: "plain_sdp demo_sdp"
  by (simp add: demo_sdp_def plain_sdp_def plain_session_def plain_media_def plain_origin_def plain_connection_def plain_uri_def
      plain_candidate_def plain_attributes_def word_ok_def SessionInfo_default_def Origin_default_def Connection_default_def
      URIInfo_default_def MediaDescription_default_def)

lemma sdp_roundtrip_witness:
  "\<exists>s. generate sdp_ref demo_sdp = Some s \<and> sdp_parse sdp_ref s SdpDescription_default = Some (True, as_read sdp_ref demo_sdp)"
  by (rule sdp_roundtrip [OF sdp_ref_laws demo_sdp_plain])

section \<open>Candidates of an unknown type\<close>

lemma unknown_candidate_undefined:
  assumes "m \<in> set (sd_media d)" "c \<in> set (md_candidates m)" "ic_type c = ICE_UNKNOWN"
  shows "generate L d = None"
proof -
  have "show_candidate c = None" using assms(3) by (simp add: show_candidate_def calculatePriority_def)
  then have "those (map show_candidate (md_candidates m)) = None" by (rule those_undefined [OF assms(2)])
  then have "media_lines L m = None" by (simp add: media_lines_def split: option.splits)
  then show ?thesis using those_undefined [OF assms(1)] by (simp add: generate_def)
qed

text \<open>A candidate line that is too short, or names a type the code does not know, is stored with the type
\<open>UNKNOWN\<close>; generating the description afterwards reads past the end of the table of type preferences.\<close>

theorem unknown_candidate_faults:
  assumes "length (lib_split L v '' '') < 8 \<or> string_to_ice_candidate_type (lib_split L v '' '' ! 7) = ICE_UNKNOWN"
    and "parse_line L (''a=candidate:'' @ v) (d, True) = Value st" "sd_media d \<noteq> []"
  shows "generate L (fst st) = None"
proof -
  have "ic_type (parseIceCandidate L v) = ICE_UNKNOWN"
    using assms(1) by (auto simp: parseIceCandidate_def ICECandidate_default_def Let_def assign_def split: option.splits)
  moreover have "last (sd_media (fst st)) = (last (sd_media d))\<lparr>md_candidates :=
      md_candidates (last (sd_media d)) @ [parseIceCandidate L v]\<rparr>" "sd_media (fst st) \<noteq> []"
    using assms(2) by (auto simp: media_attribute_simps on_media_def)
  ultimately show ?thesis
    by (intro unknown_candidate_undefined [OF last_in_set, of _ "parseIceCandidate L v"]) simp_all
qed

lemma unknown_candidate_faults_witness:
  "\<exists>st. parse_line sdp_ref (''a=candidate:'' @ ''1 1 UDP 1 a 1 typ x'') (demo_sdp, True) = Value st \<and> generate sdp_ref (fst st) = None"
proof -
  obtain st where st: "parse_line sdp_ref (''a=candidate:'' @ ''1 1 UDP 1 a 1 typ x'') (demo_sdp, True) = Value st"
    by (simp add: media_attribute_simps)
  have "lib_split sdp_ref ''1 1 UDP 1 a 1 typ x'' '' '' ! 7 = ''x''" by code_simp
  then show ?thesis using unknown_candidate_faults [OF _ st] st by (simp add: string_to_ice_candidate_type_def demo_sdp_def)
qed

end
