(* ===== verification/Invite.thy ===== *)
theory Invite
  imports Server Sdp
begin

text \<open>
  The session of a media stream (\<open>InviteRequestImpl\<close> in \<open>src/request/invite_request_impl.cpp\<close>): as the side that
  calls, which sends the INVITE and waits for its answer, and as the side that is called. The table
  \<open>invite_request_map_\<close> is the flag \<open>iv_listed\<close> of a session: a handler that gets the session's pointer only finds
  the session while it is listed. A handler returns the new state and what it does; \<open>None\<close> is undefined behaviour.
\<close>

section \<open>State\<close>

datatype INVITE_STATUS_TYPE = Invite_invite | Invite_trying | Invite_ack | Invite_bye | Invite_cancel | Invite_failed

fun invite_status_int :: "INVITE_STATUS_TYPE \<Rightarrow> nat" where
  "invite_status_int Invite_invite = 0"
| "invite_status_int Invite_trying = 1"
| "invite_status_int Invite_ack = 2"
| "invite_status_int Invite_bye = 3"
| "invite_status_int Invite_cancel = 4"
| "invite_status_int Invite_failed = 5"

fun invite_status_name :: "INVITE_STATUS_TYPE \<Rightarrow> string" where
  "invite_status_name Invite_invite = ''invite''"
| "invite_status_name Invite_trying = ''trying''"
| "invite_status_name Invite_ack = ''ack''"
| "invite_status_name Invite_bye = ''bye''"
| "invite_status_name Invite_cancel = ''cancel''"
| "invite_status_name Invite_failed = ''failed''"

record invite =
  iv_local_sdp :: "SdpDescription option"
  iv_remote_sdp :: "SdpDescription option"
  iv_dialog :: bool \<comment> \<open>\<open>invite_dialog_\<close> is set\<close>
  iv_uac :: bool \<comment> \<open>\<open>uac_invite_transaction_\<close> is set\<close>
  iv_session :: bool \<comment> \<open>\<open>invite_session_\<close> is set\<close>
  iv_device_id :: string
  iv_subject :: string
  iv_invite_time :: u64
  iv_preferred_path :: "string list"
  iv_route_path :: "string list"
  iv_error :: string
  iv_status :: INVITE_STATUS_TYPE
  iv_rcb :: bool \<comment> \<open>\<open>rcb_\<close> is set\<close>
  iv_status_cb :: bool
  iv_play_cb :: bool \<comment> \<open>\<open>play_control_callback_\<close> is set\<close>
  iv_listed :: bool

definition invite_new :: invite where
  "invite_new = \<lparr>iv_local_sdp = None, iv_remote_sdp = None, iv_dialog = False, iv_uac = False, iv_session = False,
     iv_device_id = [], iv_subject = [], iv_invite_time = 0, iv_preferred_path = [], iv_route_path = [], iv_error = [],
     iv_status = Invite_invite, iv_rcb = False, iv_status_cb = False, iv_play_cb = False, iv_listed = False\<rparr>"

definition InviteRequestImpl :: "SdpDescription option \<Rightarrow> string \<Rightarrow> invite" where
  "InviteRequestImpl sdp device_id = invite_new\<lparr>iv_local_sdp := sdp, iv_device_id := device_id\<rparr>"

definition set_status_callback :: "invite \<Rightarrow> invite" where
  "set_status_callback iv = iv\<lparr>iv_status_cb := True\<rparr>"

text \<open>
  What a handler does: callbacks of the application, requests, and replies with a code and a body. \<open>Offer\<close> hands a
  received invitation to the application, \<open>Rejected\<close> is the immediate answer of a subordinate platform.
\<close>

datatype invite_effect =
    StatusCb INVITE_STATUS_TYPE string
  | ResultCb bool string "SdpDescription option"
  | SendInvite string string string string \<comment> \<open>from, to, subject, body\<close>
  | SendAck
  | SendCancel
  | SendBye
  | SendInfo string
  | UasReply int string
  | StartAckTimer
  | Offer
  | Rejected int
  | ControlCb bool string \<comment> \<open>the callback of \<open>to_pause\<close>, \<open>to_play\<close> or \<open>to_seek_scale\<close>\<close>
  | AskControl u32 \<comment> \<open>\<open>play_control_callback_\<close>\<close>

section \<open>Status\<close>

definition set_invite_status :: "INVITE_STATUS_TYPE \<Rightarrow> string \<Rightarrow> invite \<Rightarrow> invite \<times> invite_effect list" where
  "set_invite_status status error iv =
     (let es = (if iv_status iv \<noteq> status \<and> iv_status_cb iv then [StatusCb status error] else []);
          iv = iv\<lparr>iv_error := error, iv_status := status\<rparr>
      in (if 2 < invite_status_int status then iv\<lparr>iv_listed := False\<rparr> else iv, es))"

text \<open>\<open>to_bye\<close>; \<open>platform\<close> means that the platform still exists.\<close>

definition to_bye :: "bool \<Rightarrow> string \<Rightarrow> invite \<Rightarrow> invite \<times> invite_effect list" where
  "to_bye platform reason iv =
     (if invite_status_int Invite_ack < invite_status_int (iv_status iv) then (iv, [])
      else if \<not> platform then set_invite_status Invite_bye reason iv
      else if iv_uac iv then (case set_invite_status Invite_cancel reason iv of (iv, es) \<Rightarrow> (iv, SendCancel # es))
      else if iv_dialog iv then (case set_invite_status Invite_bye reason iv of (iv, es) \<Rightarrow> (iv, SendBye # es))
      else set_invite_status Invite_cancel reason iv)"

text \<open>\<open>to_teardown\<close>: with a dialog it is a BYE; without one, the body is sent in an INFO outside of any dialog first.\<close>

definition to_teardown :: "bool \<Rightarrow> string \<Rightarrow> string \<Rightarrow> invite \<Rightarrow> invite \<times> invite_effect list" where
  "to_teardown platform cseq reason iv =
     (if \<not> platform then (iv, [])
      else if iv_dialog iv then to_bye platform ''teardown'' iv
      else (case to_bye platform reason iv of (iv, es) \<Rightarrow>
              (iv, SendInfo (crlf ''TEARDOWN RTSP/1.0'' @ crlf (''CSeq:'' @ cseq)) # es)))"

text \<open>The destructor.\<close>

definition invite_destroyed :: "bool \<Rightarrow> invite \<Rightarrow> invite \<times> invite_effect list" where
  "invite_destroyed platform iv =
     (if invite_status_int (iv_status iv) < 3 then to_bye platform ''destruction'' iv else (iv, []))"

section \<open>The calling side\<close>

definition invite_subject :: "string \<Rightarrow> string \<Rightarrow> u32 \<Rightarrow> string" where
  "invite_subject device_id server_id ssrc =
     (let n = (if 1000000000 \<le> ssrc then show_u ssrc else CHR ''0'' # show_u ssrc)
      in device_id @ '':'' @ n @ '','' @ server_id @ '':'' @ n)"

text \<open>
  \<open>to_invite_request\<close>. The platform gives its two URIs and its id, and is not checked for null; neither is the
  description, whose first media must exist. \<open>replace\<close> is the toolkit's.
\<close>

definition to_invite_request ::
    "sdp_lib \<Rightarrow> (string \<Rightarrow> string \<Rightarrow> string \<Rightarrow> string) \<Rightarrow> (string \<times> string \<times> string) option \<Rightarrow> sip_server \<Rightarrow> invite
      \<Rightarrow> (invite \<times> sip_server \<times> invite_effect list) option" where
  "to_invite_request L replace platform sv iv =
     (case (platform, iv_local_sdp iv) of
        (Some (from, to, platform_id), Some sdp) \<Rightarrow>
          (case sd_media sdp of
             [] \<Rightarrow> None
           | m # ms \<Rightarrow>
              (let playback = (ss_sessionType (sd_session sdp) = PLAYBACK \<or> ss_sessionType (sd_session sdp) = DOWNLOAD);
                   (sv, ssrc) = (if md_ssrc m = 0 then make_ssrc playback sv else (sv, md_ssrc m));
                   sdp = sdp\<lparr>sd_media := m\<lparr>md_ssrc := ssrc\<rparr> # ms\<rparr>;
                   iv = iv\<lparr>iv_uac := True, iv_local_sdp := Some sdp\<rparr>;
                   iv = (if iv_subject iv = []
                         then iv\<lparr>iv_subject := invite_subject (iv_device_id iv) (sa_platform_id (sv_account sv)) ssrc\<rparr> else iv)
               in case generate L sdp of
                    None \<Rightarrow> None
                  | Some text \<Rightarrow>
                      if text = [] then Some (iv, sv, [ResultCb False ''No local sdp description'' None])
                      else Some (iv\<lparr>iv_rcb := True, iv_listed := True\<rparr>, sv,
                             [SendInvite from (replace to platform_id (iv_device_id iv)) (iv_subject iv) (c_str text)])))
      | _ \<Rightarrow> None)"

text \<open>The callback for an INVITE that could not be sent. The session to the platform is only kept then.\<close>

definition on_invite_unsent :: "string \<Rightarrow> bool \<Rightarrow> invite \<Rightarrow> invite \<times> invite_effect list" where
  "on_invite_unsent err session iv =
     (if iv_rcb iv
      then (case set_invite_status Invite_failed err (iv\<lparr>iv_session := session\<rparr>) of (iv, es) \<Rightarrow>
              (iv\<lparr>iv_rcb := False\<rparr>, es @ [ResultCb False err None]))
      else (iv, []))"

text \<open>
  A successful answer: its description is parsed and it is acknowledged, \<open>ack_sent\<close> is the result of that; the text
  is the error, if there is one. An answer without a body has no payload.
\<close>

definition on_invite_success ::
    "sdp_lib \<Rightarrow> bool \<Rightarrow> string option \<Rightarrow> invite \<Rightarrow> (invite \<times> invite_effect list \<times> string option) option" where
  "on_invite_success L ack_sent payload iv =
     (case payload of
        None \<Rightarrow> Some (iv, [], Some ''no reply remote sdp'')
      | Some text \<Rightarrow>
         (case sdp_parse L text SdpDescription_default of
            None \<Rightarrow> None
          | Some (True, sdp) \<Rightarrow>
             (let iv = iv\<lparr>iv_remote_sdp := Some sdp\<rparr>
              in if ack_sent
                 then (case set_invite_status Invite_ack [] iv of (iv, es) \<Rightarrow> Some (iv, SendAck # es, None))
                 else Some (iv, [], Some ''send ack failed''))
          | Some (False, _) \<Rightarrow> Some (iv, [], Some ''parse sdp failed'')))"

definition invite_result :: "string option \<Rightarrow> invite \<Rightarrow> invite \<times> invite_effect list" where
  "invite_result error iv =
     (case (case error of None \<Rightarrow> (iv, []) | Some e \<Rightarrow> set_invite_status Invite_failed e iv) of (iv, es) \<Rightarrow>
        if iv_rcb iv then (iv\<lparr>iv_rcb := False\<rparr>, es @ [ResultCb (error = None) (iv_error iv) (iv_remote_sdp iv)]) else (iv, es))"

definition on_invite_reply ::
    "sip_environment \<Rightarrow> sdp_lib \<Rightarrow> bool \<Rightarrow> bool \<Rightarrow> int \<Rightarrow> string option \<Rightarrow> bool \<Rightarrow> invite
      \<Rightarrow> (invite \<times> invite_effect list) option" where
  "on_invite_reply env L platform ack_sent code payload dialog iv =
     (if \<not> iv_listed iv then Some (iv, [])
      else if en_info env code then Some (set_invite_status Invite_trying [] iv)
      else
        (let iv = iv\<lparr>iv_uac := False\<rparr>;
             iv = (if dialog then iv\<lparr>iv_dialog := True\<rparr> else iv)
         in if en_success env code
            then (case on_invite_success L ack_sent payload iv of
                    None \<Rightarrow> None
                  | Some (iv, es, error) \<Rightarrow>
                     (case (if error \<noteq> None then to_bye platform [] iv else (iv, [])) of (iv, es') \<Rightarrow>
                        (case invite_result error iv of (iv, es'') \<Rightarrow> Some (iv, es @ es' @ es''))))
            else Some (invite_result (Some (''remote reply code '' @ show_int code)) iv)))"

section \<open>The called side\<close>

record invite_request =
  rq_payload :: string
  rq_platform_id :: string
  rq_preferred_path :: "string list"
  rq_device_id :: string
  rq_subject :: string

text \<open>
  \<open>on_recv_invite\<close>: the new session, if there is one. The description's kind decides from which side the peer may
  be; a subordinate platform, which is asked for audio of the other direction, always answers 400.
\<close>

definition on_recv_invite ::
    "sdp_lib \<Rightarrow> u64 \<Rightarrow> sip_server \<Rightarrow> invite_request \<Rightarrow> (invite option \<times> invite_effect list) option" where
  "on_recv_invite L now sv req =
     (case sdp_parse L (rq_payload req) SdpDescription_default of
        None \<Rightarrow> None
      | Some (False, _) \<Rightarrow> Some (None, [UasReply 400 []])
      | Some (True, sdp) \<Rightarrow>
         (let kind = ss_sessionType (sd_session sdp);
              known = (if kind = TALK then get_subordinate_platform (rq_platform_id req) sv \<noteq> None
                       else get_super_platform (rq_platform_id req) sv \<noteq> None)
          in if kind = Session_UNKNOWN then Some (None, [UasReply 400 []])
             else if \<not> known then Some (None, [UasReply 480 []])
             else (case set_invite_status Invite_invite []
                       (invite_new\<lparr>iv_remote_sdp := Some sdp, iv_dialog := True, iv_invite_time := now\<rparr>) of (iv, es) \<Rightarrow>
               Some (Some (iv\<lparr>iv_preferred_path := rq_preferred_path req, iv_device_id := rq_device_id req,
                       iv_subject := rq_subject req, iv_session := True\<rparr>),
                     es @ [UasReply 100 [], if kind = TALK then Rejected 400 else Offer]))))"

text \<open>\<open>handle_reply\<close>, the application's answer; \<open>alive\<close> means that somebody still holds the session.\<close>

definition handle_invite_reply ::
    "sip_environment \<Rightarrow> sdp_lib \<Rightarrow> string \<Rightarrow> bool \<Rightarrow> int \<Rightarrow> SdpDescription option \<Rightarrow> invite
      \<Rightarrow> (invite \<times> invite_effect list) option" where
  "handle_invite_reply env L server_id alive sip_code sdp iv =
     (if \<not> alive then Some (iv, [])
      else
        (let iv = (if iv_route_path iv = [] then iv\<lparr>iv_route_path := [server_id]\<rparr> else iv);
             refuse = (\<lambda>code error iv. case set_invite_status Invite_failed error iv of (iv, es) \<Rightarrow> Some (iv, UasReply code [] # es))
         in if en_success env sip_code
            then (case sdp of
                    None \<Rightarrow> refuse 400 ''local sdp error'' iv
                  | Some d \<Rightarrow>
                     (case generate L d of
                        None \<Rightarrow> None
                      | Some payload \<Rightarrow>
                         (let iv = iv\<lparr>iv_local_sdp := Some d\<rparr>
                          in if payload = [] then refuse 400 ''local sdp error'' iv
                             else Some (iv\<lparr>iv_listed := True\<rparr>, [UasReply sip_code payload, StartAckTimer]))))
            else refuse sip_code ''rejected'' iv))"

definition on_ack_timeout :: "bool \<Rightarrow> bool \<Rightarrow> invite \<Rightarrow> invite \<times> invite_effect list" where
  "on_ack_timeout alive platform iv =
     (if alive \<and> iv_status iv \<noteq> Invite_ack then to_bye platform ''wait ack timeout'' iv else (iv, []))"

section \<open>Requests within the session\<close>

definition on_recv_bye :: "invite \<Rightarrow> invite \<times> invite_effect list" where
  "on_recv_bye iv =
     (if \<not> iv_listed iv then (iv, [UasReply 481 []])
      else case set_invite_status Invite_bye ''they bye'' iv of (iv, es) \<Rightarrow> (iv, es @ [UasReply 200 []]))"

definition on_recv_cancel :: "invite \<Rightarrow> invite \<times> invite_effect list" where
  "on_recv_cancel iv =
     (if \<not> iv_listed iv then (iv, [UasReply 481 []])
      else case set_invite_status Invite_cancel ''they cancel'' iv of (iv, es) \<Rightarrow> (iv, es @ [UasReply 200 []]))"

definition on_recv_ack :: "invite \<Rightarrow> invite \<times> invite_effect list" where
  "on_recv_ack iv = (if \<not> iv_listed iv then (iv, []) else set_invite_status Invite_ack [] iv)"

definition on_recv_invite_message :: "invite \<Rightarrow> invite \<times> invite_effect list" where
  "on_recv_invite_message iv = (iv, [UasReply (if iv_listed iv then 404 else 481) []])"

end
