(* ===== verification/Playback.thy ===== *)
theory Playback
  imports Invite
begin

text \<open>
  The control of a playback (\<open>InviteRequestImpl\<close> in \<open>src/request/invite_request_impl.cpp\<close>): requests in the form of
  MANSRTSP that are sent in INFO requests within the session of a stream, and their responses, which are the body of
  the reply. The state is the session's. Floating-point numbers are their bits.
\<close>

section \<open>Data\<close>

datatype PlaybackAction = Playback_invalid | Playback_Play | Playback_Pause | Playback_Teardown

record PlaybackControl =
  pc_action :: PlaybackAction
  pc_is_now :: bool
  pc_scale :: "32 word"
  pc_ntp :: double
  pc_end_ntp :: double

record PlaybackControlResponse =
  pr_rtsp_code :: int
  pr_seq :: u32
  pr_rtptime :: u32
  pr_ntp :: double
  pr_reason :: string

definition PlaybackControl_default :: "PlaybackAction \<Rightarrow> PlaybackControl" where
  "PlaybackControl_default action = \<lparr>pc_action = action, pc_is_now = False, pc_scale = 0, pc_ntp = 0, pc_end_ntp = 0\<rparr>"

definition PlaybackControlResponse_default :: PlaybackControlResponse where
  "PlaybackControlResponse_default = \<lparr>pr_rtsp_code = 0, pr_seq = 0, pr_rtptime = 0, pr_ntp = 0, pr_reason = []\<rparr>"

text \<open>Further functions of the libraries: the reading and printing of floating-point numbers, and \<open>http_reason_phrase\<close>.\<close>

record playback_lib = sdp_lib +
  lib_ToFloat :: "string \<Rightarrow> 32 word option"
  lib_show_float :: "32 word \<Rightarrow> string"
  lib_show_double :: "double \<Rightarrow> string"
  lib_http_reason :: "int \<Rightarrow> string"

section \<open>Responses\<close>

definition rtsp_reasons :: "(int \<times> string) list" where
  "rtsp_reasons = [(200, ''OK''), (400, ''Bad Request''), (404, ''Not Found''), (405, ''Method Not Allowed''),
     (406, ''Not Acceptable''), (408, ''Request Timeout''), (451, ''Invalid Parameter''), (452, ''Conference Not Found''),
     (453, ''Not Enough Bandwidth''), (454, ''Session Not Found''), (455, ''Method Not Valid in This State''),
     (456, ''Header Field Not Valid for Resource''), (457, ''Invalid Range''), (459, ''Aggregate Operation Not Allowed''),
     (460, ''Only Aggregate Operation Allowed''), (462, ''Destination Unreachable''), (500, ''Internal Server Error''),
     (501, ''Not Implemented''), (505, ''RTSP Version Not Supported''), (551, ''Option not supported'')]"

definition get_rtsp_reason :: "'x playback_lib_scheme \<Rightarrow> int \<Rightarrow> string" where
  "get_rtsp_reason L code = (case map_of rtsp_reasons code of Some s \<Rightarrow> s | None \<Rightarrow> lib_http_reason L code)"

text \<open>\<open>ntp > 0\<close> for the bits of a binary64.\<close>

definition positive_double :: "double \<Rightarrow> bool" where
  "positive_double w \<longleftrightarrow> 0 < w \<and> w \<le> 0x7FF0000000000000"

definition rtsp_reply :: "'x playback_lib_scheme \<Rightarrow> u32 \<Rightarrow> int \<Rightarrow> PlaybackControlResponse option \<Rightarrow> string" where
  "rtsp_reply L seq code data =
     crlf (''RTSP/1.0 '' @ show_int code @ get_rtsp_reason L code) @ crlf (''CSeq: '' @ show_u seq) @
     (case data of
        None \<Rightarrow> []
      | Some r \<Rightarrow>
          (if positive_double (pr_ntp r) then crlf (''Range: '' @ lib_show_double L (pr_ntp r) @ ''-'') else []) @
          (if pr_seq r \<noteq> 0 \<or> pr_rtptime r \<noteq> 0
           then crlf (''RTP-Info: '' @ (if pr_seq r \<noteq> 0 then ''seq='' @ show_u (pr_seq r) else []) @
                  (if pr_rtptime r \<noteq> 0 then (if pr_seq r \<noteq> 0 then '';'' else []) @ ''rtptime='' @ show_u (pr_rtptime r) else []))
           else []))"

text \<open>\<open>do_reply\<close>: the flag makes it reply once; the code of the SIP reply always is 200.\<close>

definition do_reply ::
    "'x playback_lib_scheme \<Rightarrow> bool \<Rightarrow> u32 \<Rightarrow> int \<Rightarrow> PlaybackControlResponse option \<Rightarrow> bool \<times> invite_effect list" where
  "do_reply L reply_flag seq code data =
     (if reply_flag then (True, []) else (True, [UasReply 200 (rtsp_reply L seq code data)]))"

section \<open>Receiving a request\<close>

text \<open>The search for \<open>(PLAY|PAUSE|TEARDOWN) RTSP/1.0\<close>, whose dot is any character but a line terminator.\<close>

definition starts :: "string \<Rightarrow> string \<Rightarrow> bool" where
  "starts pat s \<longleftrightarrow> take (length pat) s = pat"

definition version_at :: "string \<Rightarrow> bool" where
  "version_at s = (case s of c # d # _ \<Rightarrow> c \<noteq> CHR 0x0A \<and> c \<noteq> CHR 0x0D \<and> d = CHR ''0'' | _ \<Rightarrow> False)"

definition method_at :: "string \<Rightarrow> PlaybackAction option" where
  "method_at s =
     (if starts ''PLAY RTSP/1'' s \<and> version_at (drop 11 s) then Some Playback_Play
      else if starts ''PAUSE RTSP/1'' s \<and> version_at (drop 12 s) then Some Playback_Pause
      else if starts ''TEARDOWN RTSP/1'' s \<and> version_at (drop 15 s) then Some Playback_Teardown
      else None)"

fun find_method :: "string \<Rightarrow> PlaybackAction option" where
  "find_method [] = None"
| "find_method (c # cs) = (case method_at (c # cs) of Some a \<Rightarrow> Some a | None \<Rightarrow> find_method cs)"

text \<open>
  The header lines. The regular expression for a Range is a raw string that ends one parenthesis too early, so that its
  construction throws; the flag is that exception.
\<close>

fun playback_headers ::
    "'x playback_lib_scheme \<Rightarrow> string list \<Rightarrow> PlaybackControl \<Rightarrow> u32 \<Rightarrow> PlaybackControl \<times> u32 \<times> bool" where
  "playback_headers L [] control cseq = (control, cseq, False)"
| "playback_headers L (l # ls) control cseq =
     (case cut_at (CHR '':'') (strip_cr l) of
        (_, None) \<Rightarrow> playback_headers L ls control cseq
      | (key, Some value) \<Rightarrow>
          if key = ''CSeq'' then playback_headers L ls control (assign (lib_ToUnsigned L (c_str value)) (\<lambda>v _. v) cseq)
          else if key = ''Scale'' then
            playback_headers L ls (assign (lib_ToFloat L (c_str value)) (\<lambda>v c. c\<lparr>pc_scale := v\<rparr>) control) cseq
          else if key = ''Range'' then (control, cseq, True)
          else if key = ''PauseTime'' \<and> pc_action control = Playback_Pause
          then playback_headers L ls (control\<lparr>pc_is_now := True\<rparr>) cseq
          else playback_headers L ls control cseq)"

text \<open>
  \<open>on_recv_info\<close>; the last component is the call of the application's callback, with the sequence number of the reply.
  A body that is null or empty is \<open>None\<close>.
\<close>

definition on_recv_info ::
    "'x playback_lib_scheme \<Rightarrow> bool \<Rightarrow> string option \<Rightarrow> invite \<Rightarrow> invite \<times> invite_effect list \<times> (u32 \<times> PlaybackControl) option" where
  "on_recv_info L platform payload iv =
     (if \<not> iv_listed iv then (iv, [UasReply 481 []], None)
      else case payload of
        None \<Rightarrow> (iv, [UasReply 400 []], None)
      | Some text \<Rightarrow>
         (case getlines (CHR 0x0A) text of
            [] \<Rightarrow> (iv, [UasReply 400 []], None)
          | l # ls \<Rightarrow>
             (case find_method l of
                None \<Rightarrow> (iv, [UasReply 400 []], None)
              | Some action \<Rightarrow>
                 (case playback_headers L ls (PlaybackControl_default action) 0 of
                    (control, cseq, True) \<Rightarrow>
                      if cseq \<noteq> 0 then (iv, snd (do_reply L False cseq 400 None), None) else (iv, [UasReply 400 []], None)
                  | (control, cseq, False) \<Rightarrow>
                      if pc_action control = Playback_Teardown
                      then (case to_bye platform ''recv teardown'' iv of (iv, es) \<Rightarrow>
                              (iv, snd (do_reply L False cseq 200 None) @ es, None))
                      else if \<not> iv_play_cb iv then (iv, snd (do_reply L False cseq 406 None), None)
                      else (iv, [], Some (cseq, control))))))"

text \<open>The answer of the application and the timer race for the reply.\<close>

definition info_answer ::
    "'x playback_lib_scheme \<Rightarrow> u32 \<Rightarrow> PlaybackControlResponse \<Rightarrow> bool \<Rightarrow> bool \<times> invite_effect list" where
  "info_answer L cseq resp reply_flag = do_reply L reply_flag cseq (pr_rtsp_code resp) (Some resp)"

definition info_timeout :: "'x playback_lib_scheme \<Rightarrow> u32 \<Rightarrow> bool \<Rightarrow> bool \<times> invite_effect list" where
  "info_timeout L cseq reply_flag = do_reply L reply_flag cseq 408 None"

section \<open>Sending a request\<close>

text \<open>A refusal at once is \<open>Inl\<close>, the body of the INFO is \<open>Inr\<close>; \<open>cseq\<close> is the printed \<open>get_new_sn\<close>.\<close>

definition playback_refused :: "bool \<Rightarrow> invite \<Rightarrow> string option" where
  "playback_refused platform iv =
     (if \<not> platform then Some ''illegal operation! the session closed .''
      else if \<not> iv_dialog iv then Some ''illegal operation! the session was closed or not established.''
      else case (iv_local_sdp iv, iv_remote_sdp iv) of
        (Some local, Some _) \<Rightarrow>
          if ss_sessionType (sd_session local) \<noteq> PLAYBACK \<and> ss_sessionType (sd_session local) \<noteq> DOWNLOAD
          then Some ''illegal operation! this operation is not supported by the session.'' else None
      | _ \<Rightarrow> Some ''illegal operation! the session was closed or not established.'')"

definition to_pause :: "bool \<Rightarrow> i32 \<Rightarrow> invite \<Rightarrow> string + string" where
  "to_pause platform sn iv =
     (case playback_refused platform iv of
        Some err \<Rightarrow> Inl err
      | None \<Rightarrow> Inr (crlf ''PAUSE RTSP/1.0'' @ crlf (''CSeq: '' @ show_i sn) @ crlf ''PauseTime: now''))"

text \<open>The reply to it: what the callback is called with, if it is.\<close>

definition on_pause_reply :: "sip_environment \<Rightarrow> int \<Rightarrow> (bool \<times> string) option" where
  "on_pause_reply env code =
     (if en_info env code then None else Some (en_success env code, ''reply code = '' @ show_int code))"

definition to_seek_scale ::
    "'x playback_lib_scheme \<Rightarrow> bool \<Rightarrow> i32 \<Rightarrow> 32 word option \<Rightarrow> u32 option \<Rightarrow> invite \<Rightarrow> string + string" where
  "to_seek_scale L platform sn scale ntp iv =
     (case playback_refused platform iv of
        Some err \<Rightarrow> Inl err
      | None \<Rightarrow> Inr (crlf ''PLAY RTSP/1.0'' @ crlf (''CSeq: '' @ show_i sn) @
          (case ntp of Some n \<Rightarrow> crlf (''Range: ntp='' @ show_u n @ ''-'') | None \<Rightarrow> crlf ''Range: ntp=now-'') @
          (case scale of Some x \<Rightarrow> crlf (''Scale: '' @ lib_show_float L x) | None \<Rightarrow> [])))"

definition to_play :: "'x playback_lib_scheme \<Rightarrow> bool \<Rightarrow> i32 \<Rightarrow> invite \<Rightarrow> string + string" where
  "to_play L platform sn iv = to_seek_scale L platform sn None None iv"

text \<open>
  The match of a whole status line with \<open>RTSP/(\d\.\d)\s(\d{3})\s(.+?)\r?\<close>: the code and the reason.
\<close>

definition parse_rtsp_status :: "string \<Rightarrow> (int \<times> string) option" where
  "parse_rtsp_status line =
     (if \<not> starts ''RTSP/'' line then None
      else case drop 5 line of
        a # dot # b # s1 # c1 # c2 # c3 # s2 # rest \<Rightarrow>
          (let reason = strip_cr rest in
           if is_digit a \<and> dot = CHR ''.'' \<and> is_digit b \<and> is_space s1 \<and> is_digit c1 \<and> is_digit c2 \<and> is_digit c3 \<and> is_space s2 \<and>
              reason \<noteq> [] \<and> (\<forall>c \<in> set reason. c \<noteq> CHR 0x0A \<and> c \<noteq> CHR 0x0D)
           then Some (int (fst (read_digits 0 [c1, c2, c3])), reason) else None)
      | _ \<Rightarrow> None)"

definition rtp_params :: "string \<Rightarrow> string \<rightharpoonup> string" where
  "rtp_params value = fold (\<lambda>pair m. case cut_at (CHR ''='') pair of (k, Some v) \<Rightarrow> m(k \<mapsto> v) | _ \<Rightarrow> m)
     (getlines (CHR '';'') value) Map.empty"

text \<open>The header lines of a response. A Range throws here as well, which ends the loop.\<close>

fun response_headers ::
    "'x playback_lib_scheme \<Rightarrow> string list \<Rightarrow> PlaybackControlResponse \<Rightarrow> PlaybackControlResponse" where
  "response_headers L [] r = r"
| "response_headers L (l # ls) r =
     (case cut_at (CHR '':'') (strip_cr l) of
        (_, None) \<Rightarrow> response_headers L ls r
      | (key, Some value) \<Rightarrow>
         (let value = dropWhile is_space value in
          if key = ''Range'' then r
          else if key = ''RTP-Info'' then
            (let params = rtp_params value;
                 r = (case params ''seq'' of None \<Rightarrow> r
                      | Some v \<Rightarrow> assign (lib_ToUnsigned L (c_str v)) (\<lambda>x r. r\<lparr>pr_seq := x\<rparr>) r);
                 r = (case params ''rtptime'' of None \<Rightarrow> r
                      | Some v \<Rightarrow> assign (lib_ToUnsigned L (c_str v)) (\<lambda>x r. r\<lparr>pr_rtptime := x\<rparr>) r)
             in response_headers L ls r)
          else response_headers L ls r))"

definition parse_rtsp_response ::
    "'x playback_lib_scheme \<Rightarrow> string \<Rightarrow> bool \<times> string \<times> PlaybackControlResponse" where
  "parse_rtsp_response L text =
     (case getlines (CHR 0x0A) text of
        [] \<Rightarrow> (False, ''bad response!'', PlaybackControlResponse_default)
      | l # ls \<Rightarrow>
         (case parse_rtsp_status (strip_cr l) of
            None \<Rightarrow> (False, ''Invalid status line format!'', PlaybackControlResponse_default)
          | Some (code, reason) \<Rightarrow>
              (True, [], response_headers L ls (PlaybackControlResponse_default\<lparr>pr_rtsp_code := code, pr_reason := reason\<rparr>))))"

definition on_seek_reply ::
    "sip_environment \<Rightarrow> 'x playback_lib_scheme \<Rightarrow> int \<Rightarrow> string \<Rightarrow> (bool \<times> string \<times> PlaybackControlResponse) option" where
  "on_seek_reply env L code payload =
     (if en_info env code then None
      else if code = 408 then Some (False, ''timeout'', PlaybackControlResponse_default)
      else if en_success env code then Some (parse_rtsp_response L payload)
      else Some (False, ''reply code = '' @ show_int code, PlaybackControlResponse_default))"

section \<open>Runs\<close>

text \<open>
  The calls of the environment in any order. The application: \<open>Call\<close> (\<open>to_invite_request\<close>, for a platform with its two URIs and
  its id), \<open>Close\<close> (\<open>to_bye\<close>), \<open>Teardown\<close>, \<open>Pause\<close>, \<open>SeekScale\<close>, \<open>Play\<close>, \<open>Answer\<close>, \<open>ControlAnswer\<close>, \<open>Watch\<close>
  (\<open>set_status_callback\<close>) and \<open>Drop\<close> (the destructor). The peer: \<open>GotReply\<close> (whether the platform exists and the ACK is
  sent, code, body, whether there is a dialog), the replies to control requests, and its own requests. The rest are failures to send
  and timers. A control request that is refused at once calls its callback and sends nothing.
\<close>

datatype invite_event =
    GotReply bool bool int "string option" bool
  | Unsent string bool
  | Close bool string
  | PeerBye
  | PeerCancel
  | PeerAck
  | PeerMessage
  | Answer bool int "SdpDescription option"
  | AckTimeout bool bool
  | Call "(string \<times> string \<times> string) option" sip_server
  | Teardown bool string string
  | Pause bool i32
  | SeekScale bool i32 "32 word option" "u32 option"
  | Play bool i32
  | PauseReply int
  | SeekReply int string
  | ControlUnsent string
  | PeerInfo bool "string option"
  | ControlAnswer u32 PlaybackControlResponse bool
  | ControlTimeout u32 bool
  | Watch
  | Drop bool

definition control_request :: "string + string \<Rightarrow> invite_effect list" where
  "control_request r = (case r of Inl err \<Rightarrow> [ControlCb False err] | Inr body \<Rightarrow> [SendInfo body])"

definition peer_info :: "'x playback_lib_scheme \<Rightarrow> bool \<Rightarrow> string option \<Rightarrow> invite \<Rightarrow> invite \<times> invite_effect list" where
  "peer_info P platform payload iv =
     (case on_recv_info P platform payload iv of
        (iv, es, call) \<Rightarrow> (iv, es @ (case call of None \<Rightarrow> [] | Some (cseq, control) \<Rightarrow> [AskControl cseq])))"

text \<open>The parameters: codes, the libraries, the toolkit's \<open>replace\<close> and the id of the server.\<close>

fun invite_step ::
    "sip_environment \<Rightarrow> sdp_lib \<Rightarrow> 'x playback_lib_scheme \<Rightarrow> (string \<Rightarrow> string \<Rightarrow> string \<Rightarrow> string) \<Rightarrow> string
      \<Rightarrow> invite_event \<Rightarrow> invite \<Rightarrow> (invite \<times> invite_effect list) option" where
  "invite_step env L P R i (GotReply platform ack code payload dialog) iv = on_invite_reply env L platform ack code payload dialog iv"
| "invite_step env L P R i (Unsent err session) iv = Some (on_invite_unsent err session iv)"
| "invite_step env L P R i (Close platform reason) iv = Some (to_bye platform reason iv)"
| "invite_step env L P R i PeerBye iv = Some (on_recv_bye iv)"
| "invite_step env L P R i PeerCancel iv = Some (on_recv_cancel iv)"
| "invite_step env L P R i PeerAck iv = Some (on_recv_ack iv)"
| "invite_step env L P R i PeerMessage iv = Some (on_recv_invite_message iv)"
| "invite_step env L P R i (Answer alive code sdp) iv = handle_invite_reply env L i alive code sdp iv"
| "invite_step env L P R i (AckTimeout alive platform) iv = Some (on_ack_timeout alive platform iv)"
| "invite_step env L P R i (Call platform sv) iv = map_option (\<lambda>(iv, sv, es). (iv, es)) (to_invite_request L R platform sv iv)"
| "invite_step env L P R i (Teardown platform cseq reason) iv = Some (to_teardown platform cseq reason iv)"
| "invite_step env L P R i (Pause platform sn) iv = Some (iv, control_request (to_pause platform sn iv))"
| "invite_step env L P R i (SeekScale platform sn scale ntp) iv = Some (iv, control_request (to_seek_scale P platform sn scale ntp iv))"
| "invite_step env L P R i (Play platform sn) iv = Some (iv, control_request (to_play P platform sn iv))"
| "invite_step env L P R i (PauseReply code) iv =
     Some (iv, case on_pause_reply env code of None \<Rightarrow> [] | Some (ok, err) \<Rightarrow> [ControlCb ok err])"
| "invite_step env L P R i (SeekReply code payload) iv =
     Some (iv, case on_seek_reply env P code payload of None \<Rightarrow> [] | Some (ok, err, resp) \<Rightarrow> [ControlCb ok err])"
| "invite_step env L P R i (ControlUnsent err) iv = Some (iv, [ControlCb False err])"
| "invite_step env L P R i (PeerInfo platform payload) iv = Some (peer_info P platform payload iv)"
| "invite_step env L P R i (ControlAnswer cseq resp flag) iv = Some (iv, snd (info_answer P cseq resp flag))"
| "invite_step env L P R i (ControlTimeout cseq flag) iv = Some (iv, snd (info_timeout P cseq flag))"
| "invite_step env L P R i Watch iv = Some (set_status_callback iv, [])"
| "invite_step env L P R i (Drop platform) iv = Some (invite_destroyed platform iv)"

fun invite_run ::
    "sip_environment \<Rightarrow> sdp_lib \<Rightarrow> 'x playback_lib_scheme \<Rightarrow> (string \<Rightarrow> string \<Rightarrow> string \<Rightarrow> string) \<Rightarrow> string
      \<Rightarrow> invite_event list \<Rightarrow> invite \<Rightarrow> (invite \<times> invite_effect list) option" where
  "invite_run env L P R i [] iv = Some (iv, [])"
| "invite_run env L P R i (e # es) iv =
     (case invite_step env L P R i e iv of
        None \<Rightarrow> None
      | Some (iv, fx) \<Rightarrow> map_option (\<lambda>(iv, fx'). (iv, fx @ fx')) (invite_run env L P R i es iv))"

end
