(* ===== verification/Invite_Facts.thy ===== *)
theory Invite_Facts
  imports Playback Sdp_Facts
begin

text \<open>
  The sessions of media streams: how often the caller hears of the result, what an established session rests on, what
  happens to a session that is closed, cancelled or never acknowledged, and why the control of a playback cannot work
  between two programs that use the library.
\<close>

section \<open>Results and requests\<close>

fun is_result :: "invite_effect \<Rightarrow> bool" where
  "is_result (ResultCb _ _ _) = True"
| "is_result _ = False"

fun is_request :: "invite_effect \<Rightarrow> bool" where
  "is_request (SendInvite _ _ _ _) = True"
| "is_request SendAck = True"
| "is_request SendCancel = True"
| "is_request SendBye = True"
| "is_request (SendInfo _) = True"
| "is_request _ = False"

abbreviation "results es \<equiv> length (filter is_result es)"

lemma set_invite_status_eq: "set_invite_status status error iv =
    (iv\<lparr>iv_error := error, iv_status := status, iv_listed := (iv_listed iv \<and> invite_status_int status \<le> 2)\<rparr>,
     if iv_status iv \<noteq> status \<and> iv_status_cb iv then [StatusCb status error] else [])"
  by (cases iv) (auto simp: set_invite_status_def Let_def)

lemmas session_defs = on_invite_reply_def on_invite_success_def invite_result_def on_invite_unsent_def to_bye_def
  handle_invite_reply_def on_ack_timeout_def on_recv_bye_def on_recv_cancel_def on_recv_ack_def on_recv_invite_message_def

lemma to_bye_sel:
  assumes "to_bye platform reason iv = (iv', es)"
  shows "results es = 0" "iv_rcb iv' = iv_rcb iv" "iv_play_cb iv' = iv_play_cb iv" "iv_status iv' \<noteq> Invite_ack \<or> iv' = iv"
    "iv_remote_sdp iv' = iv_remote_sdp iv"
  using assms by (auto simp: to_bye_def set_invite_status_eq split: if_splits)

lemma invite_result_sel:
  assumes "invite_result error iv = (iv', es)"
  shows "results es = (if iv_rcb iv then 1 else 0)" "\<not> iv_rcb iv'" "iv_play_cb iv' = iv_play_cb iv"
    "error = None \<Longrightarrow> iv_status iv' = iv_status iv" "error \<noteq> None \<Longrightarrow> iv_status iv' = Invite_failed"
  using assms by (auto simp: invite_result_def set_invite_status_eq split: if_splits option.splits)

lemma success_sel:
  assumes "on_invite_success L ack payload iv = Some (iv', es, error)"
  shows "results es = 0" "iv_rcb iv' = iv_rcb iv" "iv_play_cb iv' = iv_play_cb iv"
    "error = None \<Longrightarrow> ack \<and> (\<exists>text d. payload = Some text \<and> sdp_parse L text SdpDescription_default = Some (True, d))"
  using assms by (auto simp: on_invite_success_def set_invite_status_eq Let_def split: if_splits option.splits prod.splits bool.splits)

lemma reply_result:
  assumes "on_invite_reply env L platform ack code payload dialog iv = Some (iv', es)"
  shows "results es + (if iv_rcb iv' then 1 else 0) = (if iv_rcb iv then 1 else (0 :: nat))" "iv_play_cb iv' = iv_play_cb iv"
    "iv_status iv' = Invite_ack \<Longrightarrow> iv_status iv = Invite_ack \<or> ack \<and> en_success env code \<and>
       (\<exists>text d. payload = Some text \<and> sdp_parse L text SdpDescription_default = Some (True, d))"
proof -
  let ?iv = "(if dialog then iv\<lparr>iv_uac := False, iv_dialog := True\<rparr> else iv\<lparr>iv_uac := False\<rparr>)"
  have "(results es + (if iv_rcb iv' then 1 else 0) = (if iv_rcb iv then 1 else (0 :: nat))) \<and> iv_play_cb iv' = iv_play_cb iv \<and>
    (iv_status iv' = Invite_ack \<longrightarrow> iv_status iv = Invite_ack \<or> ack \<and> en_success env code \<and>
       (\<exists>text d. payload = Some text \<and> sdp_parse L text SdpDescription_default = Some (True, d)))"
  proof (cases "iv_listed iv \<and> \<not> en_info env code")
    case False
    then show ?thesis using assms by (auto simp: on_invite_reply_def set_invite_status_eq split: if_splits)
  next
    case running: True
    show ?thesis
    proof (cases "en_success env code")
      case False
      then have "invite_result (Some (''remote reply code '' @ show_int code)) ?iv = (iv', es)"
        using assms running by (auto simp: on_invite_reply_def Let_def split: if_splits)
      from invite_result_sel [OF this] show ?thesis by (auto split: if_splits)
    next
      case True
      then obtain iv1 es1 error where s: "on_invite_success L ack payload ?iv = Some (iv1, es1, error)"
        using assms running by (cases "on_invite_success L ack payload ?iv") (auto simp: on_invite_reply_def Let_def split: if_splits)
      obtain iv2 es2 where b: "(if error \<noteq> None then to_bye platform [] iv1 else (iv1, [])) = (iv2, es2)" by fastforce
      obtain iv3 es3 where r: "invite_result error iv2 = (iv3, es3)" by fastforce
      have e: "iv' = iv3" "es = es1 @ es2 @ es3"
        using assms running True s b r by (auto simp: on_invite_reply_def Let_def split: if_splits)
      have "results es2 = 0 \<and> iv_rcb iv2 = iv_rcb iv1 \<and> iv_play_cb iv2 = iv_play_cb iv1"
        using b to_bye_sel [of platform "[]" iv1 iv2 es2] by (auto split: if_splits)
      then show ?thesis using success_sel [OF s] invite_result_sel [OF r] True by (cases error) (auto simp: e split: if_splits)
    qed
  qed
  then show "results es + (if iv_rcb iv' then 1 else 0) = (if iv_rcb iv then 1 else (0 :: nat))" "iv_play_cb iv' = iv_play_cb iv"
    "iv_status iv' = Invite_ack \<Longrightarrow> iv_status iv = Invite_ack \<or> ack \<and> en_success env code \<and>
       (\<exists>text d. payload = Some text \<and> sdp_parse L text SdpDescription_default = Some (True, d))"
    by blast+
qed

definition earned :: "sip_environment \<Rightarrow> sdp_lib \<Rightarrow> invite_event \<Rightarrow> bool" where
  "earned env L e \<longleftrightarrow> e = PeerAck \<or>
     (\<exists>platform code text dialog d. e = GotReply platform True code (Some text) dialog \<and> en_success env code \<and>
        sdp_parse L text SdpDescription_default = Some (True, d))"

fun is_call :: "invite_event \<Rightarrow> bool" where
  "is_call (Call _ _) = True"
| "is_call _ = False"

abbreviation "calls evs \<equiv> length (filter is_call evs)"

lemma control_request_results: "filter is_result (control_request r) = []"
  by (simp add: control_request_def split: sum.splits)

lemma do_reply_results: "filter is_result (snd (do_reply P flag seq code data)) = []"
  by (simp add: do_reply_def)

lemma peer_info_sel:
  assumes "peer_info P platform payload iv = (iv', es)"
  shows "results es = 0" "iv_rcb iv' = iv_rcb iv" "iv_play_cb iv' = iv_play_cb iv" "iv_status iv' \<noteq> Invite_ack \<or> iv' = iv"
proof -
  obtain es' call where r: "on_recv_info P platform payload iv = (iv', es', call)"
      "es = es' @ (case call of None \<Rightarrow> [] | Some (cseq, control) \<Rightarrow> [AskControl cseq])"
    using assms by (auto simp: peer_info_def split: prod.splits)
  have "results es' = 0 \<and> iv_rcb iv' = iv_rcb iv \<and> iv_play_cb iv' = iv_play_cb iv \<and> (iv_status iv' \<noteq> Invite_ack \<or> iv' = iv)"
    using r(1) to_bye_sel [of platform "''recv teardown''" iv]
    by (auto simp: on_recv_info_def do_reply_def Let_def split: if_splits option.splits list.splits prod.splits bool.splits)
  then show "results es = 0" "iv_rcb iv' = iv_rcb iv" "iv_play_cb iv' = iv_play_cb iv" "iv_status iv' \<noteq> Invite_ack \<or> iv' = iv"
    by (auto simp: r(2) split: option.splits)
qed

lemma to_teardown_sel:
  assumes "to_teardown platform cseq reason iv = (iv', es)"
  shows "results es = 0" "iv_rcb iv' = iv_rcb iv" "iv_play_cb iv' = iv_play_cb iv" "iv_status iv' \<noteq> Invite_ack \<or> iv' = iv"
  using assms to_bye_sel [of platform _ iv] by (auto simp: to_teardown_def split: if_splits prod.splits)

lemma call_sel:
  assumes "to_invite_request L R platform sv iv = Some (iv', sv', es)"
  shows "results es + (if iv_rcb iv' then 1 else 0) \<le> (if iv_rcb iv then 1 else 0) + 1" "iv_play_cb iv' = iv_play_cb iv"
    "iv_status iv' = iv_status iv"
  using assms by (auto simp: to_invite_request_def Let_def split: option.splits list.splits prod.splits if_splits)

lemma step_result:
  assumes "invite_step env L P R i e iv = Some (iv', es)"
  shows "results es + (if iv_rcb iv' then 1 else 0) \<le> (if iv_rcb iv then 1 else (0 :: nat)) + calls [e]"
    "\<not> is_call e \<Longrightarrow> results es + (if iv_rcb iv' then 1 else 0) = (if iv_rcb iv then 1 else (0 :: nat))"
    "iv_play_cb iv' = iv_play_cb iv" "iv_status iv' = Invite_ack \<Longrightarrow> iv_status iv = Invite_ack \<or> earned env L e"
proof -
  have "(if is_call e then results es + (if iv_rcb iv' then 1 else 0) \<le> (if iv_rcb iv then 1 else (0 :: nat)) + 1
      else results es + (if iv_rcb iv' then 1 else 0) = (if iv_rcb iv then 1 else (0 :: nat))) \<and> iv_play_cb iv' = iv_play_cb iv \<and>
    (iv_status iv' = Invite_ack \<longrightarrow> iv_status iv = Invite_ack \<or> earned env L e)"
  proof (cases e)
    case (GotReply platform ack code payload dialog)
    then show ?thesis using assms reply_result [of env L platform ack code payload dialog iv iv' es] by (auto simp: earned_def)
  next
    case (Close platform reason)
    then show ?thesis using assms to_bye_sel [of platform reason iv iv' es] by auto
  next
    case (Drop platform)
    then show ?thesis using assms to_bye_sel [of platform "''destruction''" iv iv' es]
      by (auto simp: invite_destroyed_def split: if_splits)
  next
    case (AckTimeout alive platform)
    then show ?thesis using assms to_bye_sel [of platform "''wait ack timeout''" iv iv' es]
      by (auto simp: on_ack_timeout_def split: if_splits)
  next
    case (Teardown platform cseq reason)
    then show ?thesis using assms to_teardown_sel [of platform cseq reason iv iv' es] by auto
  next
    case (PeerInfo platform payload)
    then show ?thesis using assms peer_info_sel [of P platform payload iv iv' es] by auto
  next
    case (Call platform sv)
    then show ?thesis using assms call_sel [of L R platform sv iv iv' _ es] by auto
  next
    case (Answer alive code sdp)
    then show ?thesis using assms
      by (auto simp: handle_invite_reply_def set_invite_status_eq Let_def split: if_splits option.splits)
  next
    case (PauseReply code)
    then show ?thesis using assms by (auto split: option.splits)
  next
    case (SeekReply code payload)
    then show ?thesis using assms by (auto split: option.splits)
  qed (use assms in \<open>auto simp: session_defs set_invite_status_eq earned_def control_request_results info_answer_def info_timeout_def
        do_reply_results set_status_callback_def split: if_splits\<close>)
  then show "results es + (if iv_rcb iv' then 1 else 0) \<le> (if iv_rcb iv then 1 else (0 :: nat)) + calls [e]"
    "\<not> is_call e \<Longrightarrow> results es + (if iv_rcb iv' then 1 else 0) = (if iv_rcb iv then 1 else (0 :: nat))"
    "iv_play_cb iv' = iv_play_cb iv" "iv_status iv' = Invite_ack \<Longrightarrow> iv_status iv = Invite_ack \<or> earned env L e"
    by (auto split: if_splits)
qed

lemma run_result:
  assumes "invite_run env L P R i evs iv = Some (iv', es)"
  shows "results es + (if iv_rcb iv' then 1 else 0) \<le> (if iv_rcb iv then 1 else (0 :: nat)) + calls evs \<and>
    (calls evs = 0 \<longrightarrow> results es + (if iv_rcb iv' then 1 else 0) = (if iv_rcb iv then 1 else (0 :: nat))) \<and>
    iv_play_cb iv' = iv_play_cb iv \<and>
    (iv_status iv' = Invite_ack \<longrightarrow> iv_status iv = Invite_ack \<or> (\<exists>e \<in> set evs. earned env L e))"
  using assms
proof (induction evs arbitrary: iv es)
  case (Cons e evs)
  obtain iv1 es1 es2 where s: "invite_step env L P R i e iv = Some (iv1, es1)" "invite_run env L P R i evs iv1 = Some (iv', es2)" "es = es1 @ es2"
    using Cons.prems by (auto split: option.splits)
  show ?case using Cons.IH [OF s(2)] step_result [OF s(1)] by (auto simp: s(3) split: if_splits)
qed simp

text \<open>C3. However replies, failures to send, the peer's requests, the application's own calls and the timers follow on
one another, the callbacks of \<open>to_invite_request\<close> are called at most once for every call of it. After the call, as long as it is not
called again, its callback is called at most once, and exactly when the session gives it up.\<close>

theorem invite_result_once:
  assumes "invite_run env L P R i evs iv = Some (iv', es)"
  shows "results es \<le> (if iv_rcb iv then 1 else 0) + calls evs
    \<and> (calls evs = 0 \<longrightarrow> results es \<le> 1 \<and> (results es = 1 \<longleftrightarrow> iv_rcb iv \<and> \<not> iv_rcb iv'))"
  using run_result [OF assms] by (auto split: if_splits)

text \<open>C39. A session only becomes established by a successful reply whose description could be parsed and whose ACK was
sent, or by an ACK of the peer.\<close>

theorem established_is_earned:
  assumes "invite_run env L P R i evs iv = Some (iv', es)" "iv_status iv \<noteq> Invite_ack" "iv_status iv' = Invite_ack"
  shows "PeerAck \<in> set evs \<or> (\<exists>platform code text dialog d. GotReply platform True code (Some text) dialog \<in> set evs \<and>
    en_success env code \<and> sdp_parse L text SdpDescription_default = Some (True, d))"
  using run_result [OF assms(1)] assms(2,3) by (auto simp: earned_def)

section \<open>Sessions that are over\<close>

definition closed_session :: "invite \<Rightarrow> bool" where
  "closed_session iv \<longleftrightarrow> \<not> iv_listed iv \<and> iv_status iv \<in> {Invite_bye, Invite_cancel, Invite_failed}"

fun reopens :: "invite_event \<Rightarrow> bool" where
  "reopens (Answer _ _ _) = True"
| "reopens (Call _ _) = True"
| "reopens _ = False"

text \<open>The control requests that the application asks a session for.\<close>

fun asked_control :: "'x playback_lib_scheme \<Rightarrow> invite \<Rightarrow> invite_event \<Rightarrow> invite_effect list" where
  "asked_control P iv (Teardown platform cseq reason) =
     (if platform \<and> \<not> iv_dialog iv then [SendInfo (crlf ''TEARDOWN RTSP/1.0'' @ crlf (''CSeq:'' @ cseq))] else [])"
| "asked_control P iv (Pause platform sn) = (case to_pause platform sn iv of Inl _ \<Rightarrow> [] | Inr body \<Rightarrow> [SendInfo body])"
| "asked_control P iv (SeekScale platform sn scale ntp) =
     (case to_seek_scale P platform sn scale ntp iv of Inl _ \<Rightarrow> [] | Inr body \<Rightarrow> [SendInfo body])"
| "asked_control P iv (Play platform sn) = (case to_play P platform sn iv of Inl _ \<Rightarrow> [] | Inr body \<Rightarrow> [SendInfo body])"
| "asked_control P iv e = []"

definition same_media :: "invite \<Rightarrow> invite \<Rightarrow> bool" where
  "same_media iv iv' \<longleftrightarrow> iv_dialog iv' = iv_dialog iv \<and> iv_local_sdp iv' = iv_local_sdp iv \<and> iv_remote_sdp iv' = iv_remote_sdp iv"

lemma asked_control_cong: "same_media iv iv' \<Longrightarrow> asked_control P iv' e = asked_control P iv e"
  by (cases e) (simp_all add: same_media_def to_pause_def to_play_def to_seek_scale_def playback_refused_def)

lemma closed_to_bye: "closed_session iv \<Longrightarrow> to_bye platform reason iv = (iv, [])"
  by (auto simp: closed_session_def to_bye_def)

lemma closed_step:
  assumes "invite_step env L P R i e iv = Some (iv', es)" "closed_session iv" "\<not> reopens e"
  shows "closed_session iv'" "same_media iv iv'" "filter is_request es = asked_control P iv e"
proof -
  have "closed_session iv' \<and> same_media iv iv' \<and> filter is_request es = asked_control P iv e"
  proof (cases e)
    case (PeerInfo platform payload)
    then show ?thesis using assms by (auto simp: closed_session_def peer_info_def on_recv_info_def same_media_def)
  next
    case (Drop platform)
    then show ?thesis using assms by (auto simp: closed_session_def invite_destroyed_def same_media_def)
  next
    case (AckTimeout alive platform)
    then show ?thesis using assms by (auto simp: on_ack_timeout_def closed_to_bye same_media_def split: if_splits)
  qed (use assms in \<open>auto simp: closed_to_bye to_teardown_def same_media_def control_request_def info_answer_def info_timeout_def do_reply_def
      set_status_callback_def closed_session_def session_defs set_invite_status_eq split: if_splits sum.splits option.splits\<close>)
  then show "closed_session iv'" "same_media iv iv'" "filter is_request es = asked_control P iv e"
    by blast+
qed

lemma closed_run:
  assumes "invite_run env L P R i evs iv = Some (iv', es)" "closed_session iv" "\<forall>e \<in> set evs. \<not> reopens e"
  shows "closed_session iv' \<and> same_media iv iv' \<and> filter is_request es = concat (map (asked_control P iv) evs)"
  using assms
proof (induction evs arbitrary: iv es)
  case (Cons e evs)
  obtain iv1 es1 es2 where s: "invite_step env L P R i e iv = Some (iv1, es1)" "invite_run env L P R i evs iv1 = Some (iv', es2)" "es = es1 @ es2"
    using Cons.prems(1) by (auto split: option.splits)
  have e: "\<not> reopens e" using Cons.prems(3) by simp
  note step = closed_step [OF s(1) Cons.prems(2) e]
  have "asked_control P iv1 = asked_control P iv" using asked_control_cong [OF step(2)] by blast
  then show ?case using Cons.IH [OF s(2) step(1)] Cons.prems(3) step by (auto simp: s(3) same_media_def)
qed (simp add: same_media_def)

text \<open>C4. A session that is over (BYE, CANCEL or failure) stays so whatever happens, and never sends an INVITE, ACK, CANCEL or BYE
any more, as long as the application neither answers the invitation nor calls again afterwards. The only requests it still sends
are the INFO requests of the application's own \<open>to_pause\<close>, \<open>to_play\<close>, \<open>to_seek_scale\<close> and \<open>to_teardown\<close>: one for each such call
that is not refused, although the session is closed.\<close>

theorem closed_session_silent:
  assumes "invite_run env L P R i evs iv = Some (iv', es)" "closed_session iv" "\<forall>e \<in> set evs. \<not> reopens e"
  shows "closed_session iv' \<and> filter is_request es = concat (map (asked_control P iv) evs)
    \<and> (\<forall>x \<in> set es. is_request x \<longrightarrow> (\<exists>body. x = SendInfo body))"
proof -
  have "\<exists>body. x = SendInfo body" if "x \<in> set (asked_control P iv e)" for x e
    using that by (cases e) (auto split: if_splits sum.splits)
  moreover have "x \<in> set (concat (map (asked_control P iv) evs))" if "x \<in> set es" "is_request x" for x
    using that closed_run [OF assms] by (metis (no_types, lifting) filter_set mem_Collect_eq set_filter)
  ultimately show ?thesis using closed_run [OF assms] by fastforce
qed

text \<open>After a BYE the dialog is still set, so that a PAUSE is still sent in it.\<close>

lemma closed_session_still_paused:
  assumes "to_pause True sn iv = Inr body" "iv_dialog iv" "\<not> iv_uac iv" "iv_status iv = Invite_ack" "to_bye True reason iv = (iv', es)"
  shows "SendBye \<in> set es \<and> closed_session iv' \<and> to_pause True sn iv' = Inr body"
  using assms by (auto simp: to_bye_def closed_session_def set_invite_status_eq to_pause_def playback_refused_def split: option.splits if_splits)

text \<open>C40. A call that is cancelled while it waits is forgotten: the CANCEL is sent, but no reply after it is looked at.
The callback of \<open>to_invite_request\<close> is still set and never called, and a successful reply that crosses the
CANCEL is neither acknowledged nor ended.\<close>

theorem cancelled_call_abandoned:
  assumes "iv_listed iv" "iv_uac iv" "iv_rcb iv" "iv_status iv \<in> {Invite_invite, Invite_trying}"
    and "to_bye True reason iv = (iv', es)" "\<forall>e \<in> set evs. \<exists>platform ack code payload dialog. e = GotReply platform ack code payload dialog"
  shows "SendCancel \<in> set es \<and> iv_rcb iv' \<and> invite_run env L P R i evs iv' = Some (iv', [])"
proof -
  have iv': "SendCancel \<in> set es" "iv_rcb iv'" "\<not> iv_listed iv'"
    using assms(1-5) by (auto simp: to_bye_def set_invite_status_eq split: if_splits)
  have "invite_step env L P R i e iv' = Some (iv', [])" if "e \<in> set evs" for e
    using assms(6) that iv'(3) by (fastforce simp: on_invite_reply_def)
  then have "invite_run env L P R i evs iv' = Some (iv', [])" by (induction evs) auto
  then show ?thesis using iv' by simp
qed

section \<open>The called side\<close>

text \<open>An invitation that the application has not answered yet is not in the table: a CANCEL or a BYE for it is answered
with 481 and changes nothing, and the application's answer still sets the stream up.\<close>

theorem unanswered_invite_cannot_be_cancelled:
  assumes "on_recv_invite L now sv req = Some (Some iv, fx)" "generate L d = Some text" "text \<noteq> []" "en_success env code"
  shows "on_recv_cancel iv = (iv, [UasReply 481 []]) \<and> on_recv_bye iv = (iv, [UasReply 481 []]) \<and>
    (\<exists>iv'. handle_invite_reply env L i True code (Some d) iv = Some (iv', [UasReply code text, StartAckTimer]) \<and> iv_listed iv')"
proof -
  have "\<not> iv_listed iv"
    using assms(1) by (auto simp: on_recv_invite_def set_invite_status_eq invite_new_def Let_def split: option.splits prod.splits bool.splits if_splits)
  then show ?thesis using assms(2-4) by (simp add: on_recv_cancel_def on_recv_bye_def handle_invite_reply_def)
qed

text \<open>A stream that was answered but is not acknowledged within the time is ended by a BYE; one that was acknowledged
is left alone by the timer.\<close>

theorem unacknowledged_answer_ended:
  assumes "on_recv_invite L now sv req = Some (Some iv, fx)"
    and "handle_invite_reply env L i True code (Some d) iv = Some (iv', [UasReply code text, StartAckTimer])"
  shows "(\<exists>iv'' es. on_ack_timeout True True iv' = (iv'', es) \<and> SendBye \<in> set es \<and> iv_status iv'' = Invite_bye \<and> \<not> iv_listed iv'') \<and>
    on_ack_timeout True True (fst (on_recv_ack iv')) = (fst (on_recv_ack iv'), [])"
proof -
  have iv: "iv_status iv = Invite_invite" "iv_dialog iv" "\<not> iv_uac iv"
    using assms(1) by (auto simp: on_recv_invite_def set_invite_status_eq invite_new_def Let_def split: option.splits prod.splits bool.splits if_splits)
  then have iv': "iv_status iv' = Invite_invite" "iv_dialog iv'" "\<not> iv_uac iv'" "iv_listed iv'"
    using assms(2) by (auto simp: handle_invite_reply_def set_invite_status_eq Let_def split: if_splits option.splits)
  then show ?thesis by (simp add: on_ack_timeout_def to_bye_def on_recv_ack_def set_invite_status_eq)
qed

section \<open>Playback\<close>

lemma getlines_crlf_Cons: "CHR 0x0A \<notin> set l \<Longrightarrow> getlines (CHR 0x0A) (crlf l @ r) = (l @ [CHR 0x0D]) # getlines (CHR 0x0A) r"
  using getlines_Cons [of "CHR 0x0A" "l @ [CHR 0x0D]" r] by (simp add: crlf_def)

lemma no_newline: "CHR 0x0A \<notin> set (show_i w)" "CHR 0x0A \<notin> set (show_u v)"
  using show_i_ok(2) [of w] show_u_ok(2) [of v] by (auto simp: text_ok_def)

lemma methods_found:
  "find_method (''PLAY RTSP/1.0'' @ [CHR 0x0D]) = Some Playback_Play"
  "find_method (''PAUSE RTSP/1.0'' @ [CHR 0x0D]) = Some Playback_Pause"
  by (simp_all add: method_at_def starts_def version_at_def)

lemma header_line: "CHR '':'' \<notin> set k \<Longrightarrow> cut_at (CHR '':'') (strip_cr ((k @ '':'' @ v) @ [CHR 0x0D])) = (k, Some v)"
  using cut_at_simps(2) [of "CHR '':''" k v] by (simp del: append_assoc)

text \<open>The status line that \<open>do_reply\<close> writes has no blank before the reason.\<close>

lemma own_status_unreadable:
  assumes "code = 400 \<or> code = 406"
  shows "parse_rtsp_response L (rtsp_reply L' seq code None) = (False, ''Invalid status line format!'', PlaybackControlResponse_default)"
proof -
  have n: "show_int 400 = ''400''" "show_int 406 = ''406''" by code_simp+
  obtain reason where r: "get_rtsp_reason L' code = reason"
      "reason = ''Bad Request'' \<or> reason = ''Not Acceptable''"
    using assms by (auto simp: get_rtsp_reason_def rtsp_reasons_def)
  then have "CHR 0x0A \<notin> set (''RTSP/1.0 '' @ show_int code @ reason)" using assms n by auto
  then have "getlines (CHR 0x0A) (rtsp_reply L' seq code None) = ((''RTSP/1.0 '' @ show_int code @ reason) @ [CHR 0x0D]) #
      getlines (CHR 0x0A) (crlf (''CSeq: '' @ show_u seq))"
    unfolding rtsp_reply_def r option.case append_Nil2 by (rule getlines_crlf_Cons)
  moreover have "parse_rtsp_status (''RTSP/1.0 '' @ show_int code @ reason) = None"
    using assms n r(2) by (auto simp: parse_rtsp_status_def starts_def is_space_def)
  ultimately show ?thesis by (simp add: parse_rtsp_response_def del: append.simps append_assoc)
qed

lemma play_refused:
  assumes "to_seek_scale L platform sn scale ntp iv = Inr text" "iv_listed iv'"
  shows "\<exists>code body. on_recv_info L' platform' (Some text) iv' = (iv', [UasReply code body], None) \<and>
    (code = 400 \<or> code = 200 \<and> (\<exists>cseq. body = rtsp_reply L' cseq 400 None))"
proof -
  obtain range rest where whole: "text = crlf ''PLAY RTSP/1.0'' @ crlf (''CSeq'' @ '':'' @ '' '' @ show_i sn) @
      crlf (''Range'' @ '':'' @ range) @ rest" and range: "CHR 0x0A \<notin> set range"
  proof -
    have "text = crlf ''PLAY RTSP/1.0'' @ crlf (''CSeq'' @ '':'' @ '' '' @ show_i sn) @
        crlf (''Range'' @ '':'' @ (case ntp of Some n \<Rightarrow> '' ntp='' @ show_u n @ ''-'' | None \<Rightarrow> '' ntp=now-'')) @
        (case scale of Some x \<Rightarrow> crlf (''Scale: '' @ lib_show_float L x) | None \<Rightarrow> [])"
      using assms(1) by (auto simp: to_seek_scale_def split: option.splits)
    moreover have "CHR 0x0A \<notin> set (case ntp of Some n \<Rightarrow> '' ntp='' @ show_u n @ ''-'' | None \<Rightarrow> '' ntp=now-'')"
      using no_newline(2) by (auto split: option.splits)
    ultimately show ?thesis using that by blast
  qed
  have lines: "getlines (CHR 0x0A) text = (''PLAY RTSP/1.0'' @ [CHR 0x0D]) # ((''CSeq'' @ '':'' @ '' '' @ show_i sn) @ [CHR 0x0D]) #
      ((''Range'' @ '':'' @ range) @ [CHR 0x0D]) # getlines (CHR 0x0A) rest"
    unfolding whole using range no_newline(1) by (subst getlines_crlf_Cons, simp)+ simp
  have cseq: "cut_at (CHR '':'') (strip_cr ((''CSeq'' @ '':'' @ '' '' @ show_i sn) @ [CHR 0x0D])) = (''CSeq'', Some ('' '' @ show_i sn))"
    by (rule header_line) simp
  have rng: "cut_at (CHR '':'') (strip_cr ((''Range'' @ '':'' @ range) @ [CHR 0x0D])) = (''Range'', Some range)"
    by (rule header_line) simp
  obtain n where "playback_headers L' (((''CSeq'' @ '':'' @ '' '' @ show_i sn) @ [CHR 0x0D]) #
      ((''Range'' @ '':'' @ range) @ [CHR 0x0D]) # getlines (CHR 0x0A) rest) (PlaybackControl_default Playback_Play) 0 =
      (PlaybackControl_default Playback_Play, n, True)"
    by (simp only: playback_headers.simps cseq rng prod.case option.case) simp
  then show ?thesis using assms(2) methods_found(1)
    by (cases "n = 0") (auto simp add: on_recv_info_def lines do_reply_def simp del: find_method.simps append.simps playback_headers.simps)
qed

text \<open>Between two programs that use the library, a playback can neither be started nor moved: whatever the caller of
\<open>to_play\<close> or \<open>to_seek_scale\<close> asks for, the other side refuses it, and the caller hears either of the code 400 or that the
status line of the response is invalid.\<close>

theorem playback_cannot_be_controlled:
  assumes "to_seek_scale L platform sn scale ntp iv = Inr text" "iv_listed iv'"
    and "\<not> en_info env 200" "\<not> en_info env 400" "en_success env 200" "\<not> en_success env 400"
  shows "\<exists>code body err. on_recv_info L' platform' (Some text) iv' = (iv', [UasReply code body], None) \<and>
    on_seek_reply env L code body = Some (False, err, PlaybackControlResponse_default) \<and>
    err \<in> {''Invalid status line format!'', ''reply code = 400''}"
proof -
  obtain code body where r: "on_recv_info L' platform' (Some text) iv' = (iv', [UasReply code body], None)"
      "code = 400 \<or> code = 200 \<and> (\<exists>cseq. body = rtsp_reply L' cseq 400 None)"
    using play_refused [OF assms(1,2)] by blast
  have "show_int 400 = ''400''" by code_simp
  then show ?thesis using r assms(3-6) own_status_unreadable [of 400 L L']
    by (auto simp: on_seek_reply_def)
qed

text \<open>No call sets the callback for playback requests, so a PAUSE is refused with 406 in the body; but \<open>to_pause\<close> only
looks at the code of the reply, which is 200, and reports success.\<close>

theorem refused_pause_reported_as_success:
  assumes "to_pause platform sn iv = Inr text"
    and "on_recv_invite L now sv req = Some (Some iv0, fx)" "invite_run env L P R i evs iv0 = Some (iv', es)" "iv_listed iv'"
    and "\<not> en_info env 200" "en_success env 200"
  shows "\<exists>cseq. on_recv_info L' platform' (Some text) iv' = (iv', [UasReply 200 (rtsp_reply L' cseq 406 None)], None) \<and>
    on_pause_reply env 200 = Some (True, ''reply code = 200'')"
proof -
  have no_cb: "\<not> iv_play_cb iv'"
    using run_result [OF assms(3)] assms(2)
    by (auto simp: on_recv_invite_def set_invite_status_eq invite_new_def Let_def split: option.splits prod.splits bool.splits if_splits)
  have whole: "text = crlf ''PAUSE RTSP/1.0'' @ crlf (''CSeq'' @ '':'' @ '' '' @ show_i sn) @ crlf (''PauseTime'' @ '':'' @ '' now'')"
    using assms(1) by (auto simp: to_pause_def split: option.splits)
  have lines: "getlines (CHR 0x0A) text = [''PAUSE RTSP/1.0'' @ [CHR 0x0D], (''CSeq'' @ '':'' @ '' '' @ show_i sn) @ [CHR 0x0D],
      (''PauseTime'' @ '':'' @ '' now'') @ [CHR 0x0D]]"
    unfolding whole using no_newline(1) getlines_crlf_Cons [of "''PauseTime'' @ '':'' @ '' now''" "[]"]
    by (subst getlines_crlf_Cons, simp)+ simp
  have cseq: "cut_at (CHR '':'') (strip_cr ((''CSeq'' @ '':'' @ '' '' @ show_i sn) @ [CHR 0x0D])) = (''CSeq'', Some ('' '' @ show_i sn))"
    by (rule header_line) simp
  have time: "cut_at (CHR '':'') (strip_cr ((''PauseTime'' @ '':'' @ '' now'') @ [CHR 0x0D])) = (''PauseTime'', Some '' now'')"
    by (rule header_line) simp
  obtain n where "playback_headers L' [(''CSeq'' @ '':'' @ '' '' @ show_i sn) @ [CHR 0x0D], (''PauseTime'' @ '':'' @ '' now'') @ [CHR 0x0D]]
      (PlaybackControl_default Playback_Pause) 0 = ((PlaybackControl_default Playback_Pause)\<lparr>pc_is_now := True\<rparr>, n, False)"
    by (simp only: playback_headers.simps cseq time prod.case option.case) (simp add: PlaybackControl_default_def)
  moreover have "show_int 200 = ''200''" by code_simp
  ultimately show ?thesis using assms(4-6) methods_found(2) no_cb
    by (intro exI [of _ n]) (simp add: on_recv_info_def lines do_reply_def on_pause_reply_def PlaybackControl_default_def
        del: find_method.simps append.simps playback_headers.simps)
qed

section \<open>Examples\<close>

definition demo_codes :: sip_environment where
  "demo_codes = \<lparr>en_info = (\<lambda>c. 100 \<le> c \<and> c < 200), en_success = (\<lambda>c. 200 \<le> c \<and> c < 300), en_redirect = (\<lambda>c. c = 302),
     en_ToInt = (\<lambda>s. None), en_md5 = (\<lambda>s. []), en_sha256 = (\<lambda>s. []), en_contact = (\<lambda>s. None), en_ip_addr = (\<lambda>h p. None)\<rparr>"

definition demo_call :: invite where
  "demo_call = (InviteRequestImpl (Some demo_sdp) ''34020000001320000001'')\<lparr>iv_uac := True, iv_rcb := True, iv_listed := True\<rparr>"

lemma demo_call_sel: "iv_rcb demo_call" "iv_listed demo_call" "iv_uac demo_call" "iv_status demo_call = Invite_invite"
  by (simp_all add: demo_call_def InviteRequestImpl_def invite_new_def)

lemma demo_texts:
  "sdp_parse sdp_ref ''s=Playback'' SdpDescription_default =
    Some (True, SdpDescription_default\<lparr>sd_session := SessionInfo_default\<lparr>ss_sessionType := PLAYBACK\<rparr>\<rparr>)"
  "\<exists>body. generate sdp_ref demo_sdp = Some body \<and> body \<noteq> []"
proof -
  have "getlines (CHR 0x0A) ''s=Playback'' = [''s=Playback'']" by (rule getlines_last) simp_all
  then show "sdp_parse sdp_ref ''s=Playback'' SdpDescription_default =
    Some (True, SdpDescription_default\<lparr>sd_session := SessionInfo_default\<lparr>ss_sessionType := PLAYBACK\<rparr>\<rparr>)"
    by (simp add: sdp_parse_def strip_cr_def parse_field_def on_session_def parseSessionType_def SdpDescription_default_def)
  obtain ls where ls: "generate sdp_ref demo_sdp = Some (concat (map crlf (session_lines sdp_ref (sd_session demo_sdp) @ concat ls)))"
    using generated [OF sdp_ref_laws demo_sdp_plain] by metis
  have "concat (map crlf (session_lines sdp_ref (sd_session demo_sdp))) \<noteq> []" by (simp add: session_lines_def crlf_def)
  then show "\<exists>body. generate sdp_ref demo_sdp = Some body \<and> body \<noteq> []" using ls by simp
qed

definition demo_host :: sip_server where
  "demo_host = \<lparr>sv_account = local_account_default, sv_sub_platforms = Map.empty, sv_super_platforms = [''p'' \<mapsto> SuperPlatformImpl 0 local_account_default super_account_default],
     sv_running = True, sv_udp = True, sv_tcp = False, sv_ssrc_domain = 0, sv_ssrc_sn = Map.empty\<rparr>"

definition demo_invitation :: invite_request where
  "demo_invitation = \<lparr>rq_payload = ''s=Playback'', rq_platform_id = ''p'', rq_preferred_path = [], rq_device_id = ''d'', rq_subject = []\<rparr>"

lemma demo_received: "\<exists>iv fx. on_recv_invite sdp_ref 0 demo_host demo_invitation = Some (Some iv, fx)"
  by (simp add: on_recv_invite_def demo_invitation_def demo_texts(1) demo_host_def get_super_platform_def set_invite_status_eq Let_def
      SessionInfo_default_def split: prod.splits)

definition demo_playback_lib :: "playback_lib" where
  "demo_playback_lib = \<lparr>lib_split = split_ref, lib_ToInt = (\<lambda>s. None), lib_ToUnsigned = (\<lambda>s. None), lib_ToUnsigned64 = (\<lambda>s. None),
     lib_order = (\<lambda>m. m), lib_ToFloat = (\<lambda>s. None), lib_show_float = (\<lambda>w. ''1''), lib_show_double = (\<lambda>w. ''1''),
     lib_http_reason = (\<lambda>c. [])\<rparr>"

lemma invite_result_once_witness:
  "\<exists>iv' es. invite_run demo_codes sdp_ref demo_playback_lib (\<lambda>s a b. s) ''3'' [GotReply True True 180 None False, GotReply True True 404 None False,
     Unsent ''timeout'' False] demo_call = Some (iv', es) \<and> results es \<le> 1 \<and> (results es = 1 \<longleftrightarrow> iv_rcb demo_call \<and> \<not> iv_rcb iv')"
proof -
  obtain iv' es where r: "invite_run demo_codes sdp_ref demo_playback_lib (\<lambda>s a b. s) ''3'' [GotReply True True 180 None False, GotReply True True 404 None False,
     Unsent ''timeout'' False] demo_call = Some (iv', es)"
    by (simp add: demo_codes_def on_invite_reply_def set_invite_status_eq demo_call_sel split_beta)
  from invite_result_once [OF this] r show ?thesis by auto
qed

lemma established_is_earned_witness:
  "\<exists>evs iv' es. invite_run demo_codes sdp_ref demo_playback_lib (\<lambda>s a b. s) ''3'' evs demo_call = Some (iv', es) \<and> iv_status iv' = Invite_ack \<and>
     (PeerAck \<in> set evs \<or> (\<exists>platform code body dialog d. GotReply platform True code (Some body) dialog \<in> set evs \<and>
        en_success demo_codes code \<and> sdp_parse sdp_ref body SdpDescription_default = Some (True, d)))"
proof -
  obtain iv' es where r: "invite_run demo_codes sdp_ref demo_playback_lib (\<lambda>s a b. s) ''3'' [GotReply True True 200 (Some ''s=Playback'') True] demo_call = Some (iv', es)"
      "iv_status iv' = Invite_ack"
    by (simp add: demo_codes_def on_invite_reply_def on_invite_success_def demo_texts(1) set_invite_status_eq invite_result_def demo_call_sel)
  have "iv_status demo_call \<noteq> Invite_ack" by (simp add: demo_call_sel)
  from established_is_earned [OF r(1) this r(2)] r show ?thesis by blast
qed

lemma closed_session_silent_witness:
  "\<exists>iv iv' es. closed_session iv \<and> invite_run demo_codes sdp_ref demo_playback_lib (\<lambda>s a b. s) ''3''
      [PeerAck, Close True ''again'', Pause True 7, AckTimeout True True, Teardown True ''8'' ''over''] iv = Some (iv', es)
    \<and> closed_session iv' \<and> (\<exists>body. filter is_request es = [SendInfo body])"
proof -
  let ?open = "demo_call\<lparr>iv_uac := False, iv_dialog := True, iv_remote_sdp := Some demo_sdp, iv_status := Invite_ack\<rparr>"
  let ?evs = "[PeerAck, Close True ''again'', Pause True 7, AckTimeout True True, Teardown True ''8'' ''over'']"
  obtain body where body: "to_pause True 7 ?open = Inr body"
    by (simp add: to_pause_def playback_refused_def demo_call_def InviteRequestImpl_def invite_new_def demo_sdp_def)
  obtain iv es where b: "to_bye True ''bye'' ?open = (iv, es)" by fastforce
  have c: "closed_session iv" "to_pause True 7 iv = Inr body" "iv_dialog iv"
    using closed_session_still_paused [OF body _ _ _ b] b by (auto simp: to_bye_def set_invite_status_eq)
  obtain iv' es' where r: "invite_run demo_codes sdp_ref demo_playback_lib (\<lambda>s a b. s) ''3'' ?evs iv = Some (iv', es')"
    by (simp add: split_beta)
  have "filter is_request es' = [SendInfo body]" "closed_session iv'"
    using closed_session_silent [OF r c(1)] c(2,3) by auto
  with r c show ?thesis by blast
qed

lemma cancelled_call_abandoned_witness:
  "\<exists>iv' es. to_bye True ''bye'' demo_call = (iv', es) \<and> SendCancel \<in> set es \<and> iv_rcb iv' \<and>
     invite_run demo_codes sdp_ref demo_playback_lib (\<lambda>s a b. s) ''3'' [GotReply True True 200 (Some ''s=Playback'') True] iv' = Some (iv', [])"
proof -
  obtain iv' es where b: "to_bye True ''bye'' demo_call = (iv', es)" by fastforce
  have "iv_status demo_call \<in> {Invite_invite, Invite_trying}" by (simp add: demo_call_sel)
  moreover have "\<forall>e \<in> set [GotReply True True 200 (Some ''s=Playback'') True]. \<exists>platform ack code payload dialog.
      e = GotReply platform ack code payload dialog" by auto
  ultimately show ?thesis
    using cancelled_call_abandoned [OF demo_call_sel(2) demo_call_sel(3) demo_call_sel(1) _ b] b by (metis (no_types, lifting))
qed

lemma unanswered_invite_cannot_be_cancelled_witness:
  "\<exists>iv. on_recv_cancel iv = (iv, [UasReply 481 []]) \<and> on_recv_bye iv = (iv, [UasReply 481 []])"
proof -
  obtain iv fx where r: "on_recv_invite sdp_ref 0 demo_host demo_invitation = Some (Some iv, fx)" using demo_received by blast
  obtain body where "generate sdp_ref demo_sdp = Some body" "body \<noteq> []" using demo_texts(2) by blast
  from unanswered_invite_cannot_be_cancelled [OF r this, of demo_codes 200] show ?thesis by (auto simp: demo_codes_def)
qed

lemma unacknowledged_answer_ended_witness:
  "\<exists>iv' iv'' es. on_ack_timeout True True iv' = (iv'', es) \<and> SendBye \<in> set es \<and> iv_status iv'' = Invite_bye"
proof -
  obtain iv fx where r: "on_recv_invite sdp_ref 0 demo_host demo_invitation = Some (Some iv, fx)" using demo_received by blast
  obtain body where "generate sdp_ref demo_sdp = Some body" "body \<noteq> []" using demo_texts(2) by blast
  then obtain iv' where "handle_invite_reply demo_codes sdp_ref ''3'' True 200 (Some demo_sdp) iv = Some (iv', [UasReply 200 body, StartAckTimer])"
    by (simp add: handle_invite_reply_def demo_codes_def)
  from unacknowledged_answer_ended [OF r this] show ?thesis by blast
qed

lemma playback_cannot_be_controlled_witness:
  "\<exists>code body err. on_recv_info demo_playback_lib True (Some (crlf ''PLAY RTSP/1.0'' @ crlf (''CSeq: '' @ show_i 1) @
       crlf ''Range: ntp=now-'' @ [])) demo_call = (demo_call, [UasReply code body], None) \<and>
     on_seek_reply demo_codes demo_playback_lib code body = Some (False, err, PlaybackControlResponse_default)"
proof -
  have s: "to_seek_scale demo_playback_lib True 1 None None
      (demo_call\<lparr>iv_dialog := True, iv_remote_sdp := Some demo_sdp\<rparr>) = Inr (crlf ''PLAY RTSP/1.0'' @ crlf (''CSeq: '' @ show_i 1) @
       crlf ''Range: ntp=now-'' @ [])"
    by (simp add: to_seek_scale_def playback_refused_def demo_call_def InviteRequestImpl_def invite_new_def demo_sdp_def)
  from playback_cannot_be_controlled [OF s demo_call_sel(2), of demo_codes demo_playback_lib True] show ?thesis
    by (auto simp: demo_codes_def)
qed

lemma refused_pause_reported_as_success_witness:
  "\<exists>iv' cseq body. on_recv_info demo_playback_lib True (Some body) iv' = (iv', [UasReply 200 (rtsp_reply demo_playback_lib cseq 406 None)], None) \<and>
     on_pause_reply demo_codes 200 = Some (True, ''reply code = 200'')"
proof -
  obtain iv fx where r: "on_recv_invite sdp_ref 0 demo_host demo_invitation = Some (Some iv, fx)" using demo_received by blast
  obtain body where g: "generate sdp_ref demo_sdp = Some body" "body \<noteq> []" using demo_texts(2) by blast
  then obtain iv' where a: "handle_invite_reply demo_codes sdp_ref ''3'' True 200 (Some demo_sdp) iv = Some (iv', [UasReply 200 body, StartAckTimer])"
      "iv_listed iv'" by (simp add: handle_invite_reply_def demo_codes_def)
  have run: "invite_run demo_codes sdp_ref demo_playback_lib (\<lambda>s a b. s) ''3'' [Answer True 200 (Some demo_sdp)] iv = Some (iv', [UasReply 200 body, StartAckTimer])"
    using a by simp
  obtain t where p: "to_pause True 1 (demo_call\<lparr>iv_dialog := True, iv_remote_sdp := Some demo_sdp\<rparr>) = Inr t"
    by (simp add: to_pause_def playback_refused_def demo_call_def InviteRequestImpl_def invite_new_def demo_sdp_def)
  have "\<not> en_info demo_codes 200" "en_success demo_codes 200" by (simp_all add: demo_codes_def)
  from refused_pause_reported_as_success [OF p r run a(2) this, of demo_playback_lib True] show ?thesis by blast
qed

end
