(* ===== verification/Subscribe.thy ===== *)
theory Subscribe
  imports Enums Request_Table Platform_Helper
begin

text \<open>
  Subscriptions (\<open>src/request/subscribe_request_impl.cpp\<close>): those this program makes with a subordinate platform, which it
  refreshes, and those a super platform makes with it. The table \<open>subscribe_request_map_\<close> is the flag \<open>sb_listed\<close>. The
  shared \<open>sip_subscribe_t\<close> of the SIP library is its lifetime. A handler returns the new state and what it starts; \<open>None\<close>
  is undefined behaviour. Replacing or resetting the handle of a delayed job does not cancel the job.
\<close>

section \<open>State\<close>

datatype TERMINATED_TYPE_E = Term_invalid | Term_deactivated | Term_timeout | Term_rejected | Term_noresource | Term_probation
  | Term_giveup | Term_expired | Term_invariant

datatype SUBSCRIBER_STATUS_TYPE_E = Subst_unknown | Subst_active | Subst_pending | Subst_terminated

record subscribe_info =
  si_event :: string
  si_subscribe_id :: u64
  si_expires :: u32
  si_type :: SubscribeType

definition subscribe_info_default :: subscribe_info where
  "subscribe_info_default = \<lparr>si_event = [], si_subscribe_id = 0, si_expires = 3600, si_type = Sub_invalid\<rparr>"

datatype sub_job = Resubscribe | ExpiryCheck

record subscription =
  sb_sn :: "i32 option" \<comment> \<open>the serial number of \<open>subscribe_message_\<close>, if there is one\<close>
  sb_error :: string
  sb_subscribe_time :: u64
  sb_terminated_time :: u64
  sb_info :: subscribe_info
  sb_status :: SUBSCRIBER_STATUS_TYPE_E
  sb_terminated_type :: TERMINATED_TYPE_E
  sb_incoming :: bool
  sb_running :: bool
  sb_expires :: i32
  sb_sip :: "i32 option" \<comment> \<open>\<open>sip_subscribe_ptr_\<close> with its \<open>expires\<close>\<close>
  sb_subscriber_cb :: bool
  sb_notify_cb :: bool
  sb_delay_task :: "sub_job option"
  sb_listed :: bool
  sb_platform_cb :: bool \<comment> \<open>a callback for the platform's status is registered\<close>

definition subscription_new :: subscription where
  "subscription_new = \<lparr>sb_sn = None, sb_error = [], sb_subscribe_time = 0, sb_terminated_time = 0,
     sb_info = subscribe_info_default, sb_status = Subst_terminated, sb_terminated_type = Term_invalid, sb_incoming = False,
     sb_running = False, sb_expires = 0, sb_sip = None, sb_subscriber_cb = False, sb_notify_cb = False,
     sb_delay_task = None, sb_listed = False, sb_platform_cb = False\<rparr>"

text \<open>The two constructors.\<close>

definition outgoing_subscription :: "i32 option \<Rightarrow> subscribe_info \<Rightarrow> subscription" where
  "outgoing_subscription message info = subscription_new\<lparr>sb_sn := message, sb_info := info\<rparr>"

definition incoming_subscription :: "u64 \<Rightarrow> i32 \<Rightarrow> subscription" where
  "incoming_subscription now expires = subscription_new\<lparr>sb_subscribe_time := now, sb_status := Subst_pending, sb_incoming := True,
     sb_expires := expires, sb_sip := Some expires\<rparr>"

text \<open>
  What a handler starts: a SUBSCRIBE within the dialog or a new one, with its lifetime; a NOTIFY with its state; a message
  outside of the subscription; delayed and asynchronous jobs; callbacks; replies.
\<close>

datatype sub_effect =
    SendResubscribe i32
  | SendSubscribe string string string i32 \<comment> \<open>from, to, event, lifetime\<close>
  | SendNotify string
  | SendMessage
  | SubAfter u64 sub_job
  | SubSoon sub_job
  | StatusLater \<comment> \<open>the status callback, called later with the status of then\<close>
  | NotifyResult bool string
  | NotifyReceived
  | SubscribeOffered
  | SubReply int string "i32 option" \<comment> \<open>code, reason, \<open>Expires\<close>\<close>

text \<open>The names the SIP library has for the states and reasons of a subscription.\<close>

datatype substate_name = Name_active | Name_pending | Name_terminated | Name_deactivated | Name_probation | Name_rejected
  | Name_timeout | Name_giveup | Name_noresource | Name_invariant

section \<open>Status\<close>

definition set_sub_status ::
    "u64 \<Rightarrow> SUBSCRIBER_STATUS_TYPE_E \<Rightarrow> TERMINATED_TYPE_E \<Rightarrow> string \<Rightarrow> subscription \<Rightarrow> subscription \<times> sub_effect list" where
  "set_sub_status now status terminated_type reason sb =
     (let sb = sb\<lparr>sb_status := status, sb_terminated_type := terminated_type, sb_error := reason\<rparr>
      in (if status = Subst_terminated then sb\<lparr>sb_terminated_time := now\<rparr> else sb, [StatusLater]))"

text \<open>The difference of the clocks is unsigned and cut to an \<open>int\<close>.\<close>

definition time_remain :: "u64 \<Rightarrow> subscription \<Rightarrow> int" where
  "time_remain now sb =
     (case sb_sip sb of
        None \<Rightarrow> 0
      | Some expires \<Rightarrow> if expires = 0 then 0
          else sint expires - sint (ucast ((now - sb_subscribe_time sb) div 1000000) :: i32))"

definition get_notify_state_str :: "(substate_name \<Rightarrow> string) \<Rightarrow> u64 \<Rightarrow> subscription \<Rightarrow> string" where
  "get_notify_state_str nm now sb =
     (if sb_status sb = Subst_active then nm Name_active @ '';expires='' @ show_int (time_remain now sb)
      else if sb_status sb = Subst_pending then nm Name_pending
      else nm Name_terminated @ '';reason='' @
        (case sb_terminated_type sb of
           Term_deactivated \<Rightarrow> nm Name_deactivated
         | Term_timeout \<Rightarrow> nm Name_timeout
         | Term_rejected \<Rightarrow> nm Name_rejected
         | Term_noresource \<Rightarrow> nm Name_noresource
         | Term_probation \<Rightarrow> nm Name_probation
         | Term_giveup \<Rightarrow> nm Name_giveup
         | Term_expired \<Rightarrow> ''expired''
         | Term_invariant \<Rightarrow> ''invariant''
         | Term_invalid \<Rightarrow> []))"

text \<open>A delay in seconds as the milliseconds of the poller: the product is an \<open>int\<close>, which may overflow.\<close>

definition delay_ms :: "int \<Rightarrow> u64 option" where
  "delay_ms s = (let ms = s * 1000 in if - (2 ^ 31) \<le> ms \<and> ms < 2 ^ 31 then Some (word_of_int ms) else None)"

section \<open>Subscribing\<close>

text \<open>
  What a handler needs of its platform, if that still exists: the URIs, whether it is online, and the next serial number.
  \<open>agent\<close> means that the SIP agent exists, \<open>made\<close> that the library could make the transaction.
\<close>

record sub_platform =
  sp_from :: string
  sp_to :: string
  sp_online :: bool
  sp_agent :: bool
  sp_made :: bool
  sp_sn :: i32

definition to_subscribe ::
    "u64 \<Rightarrow> sub_platform option \<Rightarrow> u32 \<Rightarrow> subscription \<Rightarrow> (subscription \<times> sub_effect list) option" where
  "to_subscribe now platform expires sb =
     (case platform of
        None \<Rightarrow> Some (sb\<lparr>sb_listed := False\<rparr>, [])
      | Some p \<Rightarrow>
         if \<not> sp_agent p then Some (sb, [])
         else (case sb_sn sb of
            None \<Rightarrow> None
          | Some sn \<Rightarrow>
             (let sn = (if sn = 0 then fst (get_new_sn (sp_sn p)) else sn);
                  sb = sb\<lparr>sb_sn := Some sn\<rparr>;
                  sb = (if si_subscribe_id (sb_info sb) = 0 then sb\<lparr>sb_info := (sb_info sb)\<lparr>si_subscribe_id := scast sn\<rparr>\<rparr> else sb);
                  sb = sb\<lparr>sb_expires := expires\<rparr>;
                  event = si_event (sb_info sb) @ '';id='' @ show_nat (unat (si_subscribe_id (sb_info sb)))
              in if \<not> sp_made p then Some (sb, [])
                 else if sb_sip sb \<noteq> None then Some (sb, [SendResubscribe expires])
                 else (case set_sub_status now Subst_pending (sb_terminated_type sb) [] sb of (sb, es) \<Rightarrow>
                         Some (sb, es @ [SendSubscribe (sp_from p) (sp_to p) event (si_expires (sb_info sb))])))))"

text \<open>The callback for a SUBSCRIBE that could not be sent.\<close>

definition on_subscribe_unsent :: "u64 \<Rightarrow> string \<Rightarrow> subscription \<Rightarrow> subscription \<times> sub_effect list" where
  "on_subscribe_unsent now err sb =
     (case set_sub_status now Subst_terminated Term_invalid err (sb\<lparr>sb_delay_task := Some Resubscribe\<rparr>) of (sb, es) \<Rightarrow>
        (sb, SubAfter 3000 Resubscribe # es))"

text \<open>The classes of codes are the SIP library's.\<close>

record sip_codes =
  sc_info :: "int \<Rightarrow> bool"
  sc_success :: "int \<Rightarrow> bool"
  sc_server_error :: "int \<Rightarrow> bool"

definition on_subscribe_reply ::
    "sip_codes \<Rightarrow> u64 \<Rightarrow> sub_platform option \<Rightarrow> int \<Rightarrow> subscription \<Rightarrow> (subscription \<times> sub_effect list) option" where
  "on_subscribe_reply cs now platform code sb =
     (if \<not> sb_listed sb \<or> sc_info cs code then Some (sb, [])
      else if sc_success cs code
      then (let sb = sb\<lparr>sb_sip := Some (sb_expires sb)\<rparr>
            in if sb_expires sb \<noteq> 0
               then (case delay_ms (sint (sb_expires sb) - 5) of
                       None \<Rightarrow> None
                     | Some ms \<Rightarrow>
                        (case set_sub_status now Subst_active Term_invalid []
                                (sb\<lparr>sb_subscribe_time := now, sb_delay_task := Some Resubscribe\<rparr>) of (sb, es) \<Rightarrow>
                           Some (sb, SubAfter ms Resubscribe # es)))
               else Some (set_sub_status now Subst_terminated Term_deactivated []
                       (sb\<lparr>sb_delay_task := None, sb_terminated_time := now\<rparr>)))
      else (let sb = (if sb_subscribe_time sb \<noteq> 0 then sb\<lparr>sb_terminated_time := now\<rparr> else sb)
            in case set_sub_status now Subst_terminated Term_rejected (''peer return '' @ show_int code)
                      (sb\<lparr>sb_sip := None, sb_delay_task := None\<rparr>) of (sb, es) \<Rightarrow>
                 if sc_server_error cs code
                 then map_option (\<lambda>(sb, es'). (sb, es @ es')) (to_subscribe now platform (si_expires (sb_info sb)) sb)
                 else Some (sb, es)))"

text \<open>The job of a refresh, and the platform's status callback.\<close>

definition run_resubscribe :: "u64 \<Rightarrow> sub_platform option \<Rightarrow> subscription \<Rightarrow> (subscription \<times> sub_effect list) option" where
  "run_resubscribe now platform sb = to_subscribe now platform (si_expires (sb_info sb)) sb"

definition on_platform_status ::
    "u64 \<Rightarrow> sub_platform option \<Rightarrow> PlatformStatusType \<Rightarrow> subscription \<Rightarrow> (subscription \<times> sub_effect list) option" where
  "on_platform_status now platform status sb =
     (if \<not> sb_platform_cb sb then Some (sb, [])
      else if status = Plat_online then to_subscribe now platform (si_expires (sb_info sb)) sb
      else Some (set_sub_status now Subst_terminated Term_rejected ''platform offline'' (sb\<lparr>sb_delay_task := None\<rparr>)))"

section \<open>Notifications to the subscriber\<close>

text \<open>
  \<open>subscribe_send_notify\<close>. \<open>body\<close> is the result of writing the message: an error, or that there is something or nothing to
  send.
\<close>

definition subscribe_send_notify ::
    "(substate_name \<Rightarrow> string) \<Rightarrow> u64 \<Rightarrow> sub_platform option \<Rightarrow> string option \<Rightarrow> string \<Rightarrow> subscription
      \<Rightarrow> (subscription \<times> sub_effect list) option" where
  "subscribe_send_notify nm now platform write_error state sb =
     (let notify_state = (if state = [] then get_notify_state_str nm now sb else state)
      in case platform of
           None \<Rightarrow> Some (sb\<lparr>sb_listed := False\<rparr>, [])
         | Some p \<Rightarrow>
            if \<not> sp_agent p then Some (sb, [NotifyResult False ''sip_agent is nullptr''])
            else (case write_error of
                    Some err \<Rightarrow> Some (sb, [NotifyResult False err])
                  | None \<Rightarrow>
                     if \<not> sp_made p then Some (sb, [NotifyResult False ''make sip_uac_transaction_t failed''])
                     else Some (sb, [SendNotify notify_state])))"

text \<open>The reply to a NOTIFY; \<open>reason\<close> is that of the reply, if there was one.\<close>

definition on_notify_reply :: "sip_codes \<Rightarrow> string option \<Rightarrow> int \<Rightarrow> sub_effect list" where
  "on_notify_reply cs reason code =
     (if sc_info cs code then []
      else [NotifyResult (sc_success cs code)
              (''recv '' @ show_int code @ '', '' @ (case reason of None \<Rightarrow> ''timeout'' | Some r \<Rightarrow> r))])"

definition sub_send_notify ::
    "(substate_name \<Rightarrow> string) \<Rightarrow> u64 \<Rightarrow> sub_platform option \<Rightarrow> string option \<Rightarrow> subscription
      \<Rightarrow> (subscription \<times> sub_effect list) option" where
  "sub_send_notify nm now platform write_error sb =
     (if sb_status sb = Subst_active then subscribe_send_notify nm now platform write_error [] sb else Some (sb, [SendMessage]))"

section \<open>Start and shutdown\<close>

text \<open>An incoming subscription has a \<open>sip_subscribe_t\<close>; its lifetime, in seconds, is used as milliseconds.\<close>

definition sub_start ::
    "(substate_name \<Rightarrow> string) \<Rightarrow> u64 \<Rightarrow> sub_platform option \<Rightarrow> subscription \<Rightarrow> (subscription \<times> sub_effect list) option" where
  "sub_start nm now platform sb =
     (if sb_running sb then Some (sb, [])
      else
        (let sb = sb\<lparr>sb_running := True, sb_listed := True\<rparr>
         in if sb_incoming sb
            then (case sb_sip sb of
                    None \<Rightarrow> None
                  | Some expires \<Rightarrow>
                     map_option (\<lambda>(sb, es). (sb\<lparr>sb_delay_task := Some ExpiryCheck\<rparr>, es @ [SubAfter (scast expires) ExpiryCheck]))
                       (subscribe_send_notify nm now platform None (nm Name_active @ '';expires='' @ show_int (sint expires)) sb))
            else (case platform of
                    None \<Rightarrow> Some (sb\<lparr>sb_listed := False\<rparr>, [])
                  | Some p \<Rightarrow>
                     map_option (\<lambda>(sb, es). (sb\<lparr>sb_platform_cb := True\<rparr>, es))
                       (if sp_online p then to_subscribe now platform (si_expires (sb_info sb)) sb else Some (sb, [])))))"

text \<open>
  \<open>shutdown\<close>; the reason is not used. \<open>remove_platform_status_cb\<close> erases a key that is not in the map, so the platform's
  callback stays.
\<close>

definition sub_shutdown :: "subscription \<Rightarrow> subscription \<times> sub_effect list" where
  "sub_shutdown sb = (if sb_running sb then (sb\<lparr>sb_running := False, sb_listed := False\<rparr>, []) else (sb, []))"

definition run_expiry_check :: "u64 \<Rightarrow> subscription \<Rightarrow> subscription \<times> sub_effect list" where
  "run_expiry_check now sb = (if time_remain now sb \<le> 1 then sub_shutdown sb else (sb, []))"

section \<open>Receiving\<close>

definition on_subscribe :: "u64 \<Rightarrow> subscription \<Rightarrow> subscription \<times> sub_effect list \<times> int" where
  "on_subscribe now sb =
     (case (if sb_sip sb = Some 0 then set_sub_status now Subst_terminated Term_deactivated ''deactivated'' sb
            else set_sub_status now Subst_active Term_invalid [] sb) of (sb, es) \<Rightarrow> (sb, es, 200))"

text \<open>
  \<open>recv_subscribe_request\<close>. \<open>existing\<close> is the subscription the dialog belongs to, when it is in the table; the SIP library
  has set its lifetime to \<open>expires\<close> then. \<open>known\<close> is the server's table of super platforms, if there is a server.
  \<open>parse_error\<close> is the error of parsing a body that is there.
\<close>

definition recv_subscribe_request ::
    "u64 \<Rightarrow> subscription option \<Rightarrow> string \<Rightarrow> (string \<Rightarrow> bool) option \<Rightarrow> i32 \<Rightarrow> string option \<Rightarrow> subscription option \<times> sub_effect list" where
  "recv_subscribe_request now existing platform_id known expires parse_error =
     (case existing of
        Some sb \<Rightarrow>
          (case on_subscribe now (sb\<lparr>sb_sip := Some expires\<rparr>) of (sb, es, code) \<Rightarrow>
             (Some sb, es @ [SubReply code [] (Some expires)]))
      | None \<Rightarrow>
          if platform_id = [] then (None, [SubReply 400 ''unable to verify provenance'' None])
          else (case known of
             None \<Rightarrow> (None, [SubReply 403 ''user not found'' None])
           | Some is_known \<Rightarrow>
              if \<not> is_known platform_id then (None, [SubReply 403 ''user not found'' None])
              else if expires = 0 then (None, [SubReply 200 [] None])
              else if sint expires < 5 then (None, [SubReply 400 ''validity is too short'' None])
              else (case parse_error of
                 Some err \<Rightarrow> (None, [SubReply 400 err None])
               | None \<Rightarrow> (Some (incoming_subscription now expires), [SubscribeOffered, SubReply 200 [] (Some expires)]))))"

text \<open>
  The state in a NOTIFY: state, reason and lifetime, when the header is there and can be read. A lifetime that is
  longer than what is left replaces it.
\<close>

definition notify_terminated :: "(substate_name \<Rightarrow> string) \<Rightarrow> string \<Rightarrow> (TERMINATED_TYPE_E \<times> string) option" where
  "notify_terminated nm reason =
     (if strcaseeq reason (nm Name_deactivated) then Some (Term_deactivated, ''recv deactivated'')
      else if strcaseeq reason (nm Name_probation) then Some (Term_probation, ''recv probation'')
      else if strcaseeq reason (nm Name_rejected) then Some (Term_rejected, ''recv rejected'')
      else if strcaseeq reason (nm Name_timeout) then Some (Term_timeout, ''recv timeout'')
      else if strcaseeq reason (nm Name_giveup) then Some (Term_giveup, ''recv giveup'')
      else if strcaseeq reason (nm Name_noresource) then Some (Term_noresource, ''recv noresource'')
      else if strcaseeq reason (nm Name_invariant) then Some (Term_invariant, ''recv invariant'')
      else None)"

definition on_notify_active :: "u64 \<Rightarrow> i32 \<Rightarrow> subscription \<Rightarrow> (subscription \<times> sub_effect list) option" where
  "on_notify_active now expires sb =
     (case (if expires \<noteq> 0 \<and> time_remain now sb + 5 < sint expires \<and> 30 < sint expires
            then (case (sb_sip sb, delay_ms (sint expires - 30)) of
                    (Some _, Some ms) \<Rightarrow> Some (sb\<lparr>sb_subscribe_time := now, sb_sip := Some expires,
                        sb_info := (sb_info sb)\<lparr>si_expires := expires\<rparr>, sb_delay_task := Some Resubscribe\<rparr>, [SubAfter ms Resubscribe])
                  | _ \<Rightarrow> None)
            else Some (sb, [])) of
        None \<Rightarrow> None
      | Some (sb, es) \<Rightarrow> (case set_sub_status now Subst_active Term_invalid [] sb of (sb, es') \<Rightarrow> Some (sb, es @ es')))"

definition on_notify_state ::
    "(substate_name \<Rightarrow> string) \<Rightarrow> u64 \<Rightarrow> (string \<times> string \<times> i32) option \<Rightarrow> subscription \<Rightarrow> (subscription \<times> sub_effect list) option" where
  "on_notify_state nm now state sb =
     (case state of
        None \<Rightarrow> Some (sb, [])
      | Some (st, reason, expires) \<Rightarrow>
          if st = [] then Some (sb, [])
          else if strcaseeq st (nm Name_active) then on_notify_active now expires sb
          else if strcaseeq st (nm Name_pending) then Some (set_sub_status now Subst_pending Term_invalid [] sb)
          else if strcaseeq st (nm Name_terminated)
          then (let sb = sb\<lparr>sb_delay_task := None\<rparr>
                in case (case notify_terminated nm reason of
                           Some (t, r) \<Rightarrow> set_sub_status now Subst_terminated t r sb
                         | None \<Rightarrow> (sb, [])) of (sb, es) \<Rightarrow> Some (sb, es @ [SubSoon Resubscribe]))
          else Some (sb, []))"

text \<open>
  \<open>on_recv_notify\<close>. \<open>body\<close> is \<open>None\<close> for an empty one, else the error of its parser or what the application's callback
  returns; without a callback an event is broadcast.
\<close>

definition on_recv_notify ::
    "(substate_name \<Rightarrow> string) \<Rightarrow> u64 \<Rightarrow> (string \<times> string \<times> i32) option \<Rightarrow> (string + int \<times> string) option \<Rightarrow> subscription
      \<Rightarrow> (subscription \<times> sub_effect list) option" where
  "on_recv_notify nm now state body sb =
     map_option (\<lambda>(sb, es).
        (sb, es @ (case body of
           None \<Rightarrow> [SubReply 200 [] None]
         | Some (Inl err) \<Rightarrow> [SubReply 400 err None]
         | Some (Inr (code, reason)) \<Rightarrow> [NotifyReceived, SubReply (if sb_notify_cb sb then code else 200) reason None])))
       (on_notify_state nm now state sb)"

end
