(* ===== verification/Subscribe_Facts.thy ===== *)
theory Subscribe_Facts
  imports Subscribe
begin

text \<open>
  Subscriptions: one that was started is refreshed until the peer refuses it; servers that fail are asked again without
  a pause; who may subscribe; what \<open>shutdown\<close> leaves behind; and why an incoming subscription is neither active nor ended
  in time.
\<close>

section \<open>Refreshing\<close>

text \<open>
  A subscription with what is under way for it: the number of refresh jobs that wait and of SUBSCRIBE requests that have
  no final reply yet. The platform stays and its agent can make transactions.
\<close>

record sub_world =
  sw_sub :: subscription
  sw_jobs :: nat
  sw_open :: nat

fun jobs_in :: "sub_effect \<Rightarrow> nat" where
  "jobs_in (SubAfter _ Resubscribe) = 1"
| "jobs_in (SubSoon Resubscribe) = 1"
| "jobs_in _ = 0"

fun requests_in :: "sub_effect \<Rightarrow> nat" where
  "requests_in (SendResubscribe _) = 1"
| "requests_in (SendSubscribe _ _ _ _) = 1"
| "requests_in _ = 0"

definition absorb :: "subscription \<times> sub_effect list \<Rightarrow> nat \<Rightarrow> nat \<Rightarrow> sub_world" where
  "absorb r jobs opened = \<lparr>sw_sub = fst r, sw_jobs = jobs + sum_list (map jobs_in (snd r)), sw_open = opened + sum_list (map requests_in (snd r))\<rparr>"

datatype sub_event =
    GotSubReply u64 int
  | SubUnsent u64 string
  | RunJob u64
  | GotNotify u64 "(string \<times> string \<times> i32) option" "(string + int \<times> string) option"
  | PlatformStatus u64 PlatformStatusType
  | StopSub

text \<open>A reply needs a request, a job has to wait, and a NOTIFY comes in the dialog of a subscription.\<close>

fun sub_step :: "(substate_name \<Rightarrow> string) \<Rightarrow> sip_codes \<Rightarrow> sub_platform \<Rightarrow> sub_event \<Rightarrow> sub_world \<Rightarrow> sub_world option" where
  "sub_step nm cs p (GotSubReply now code) w =
     (if sw_open w = 0 then None
      else map_option (\<lambda>r. absorb r (sw_jobs w) (if sc_info cs code then sw_open w else sw_open w - 1))
             (on_subscribe_reply cs now (Some p) code (sw_sub w)))"
| "sub_step nm cs p (SubUnsent now err) w =
     (if sw_open w = 0 then None else Some (absorb (on_subscribe_unsent now err (sw_sub w)) (sw_jobs w) (sw_open w - 1)))"
| "sub_step nm cs p (RunJob now) w =
     (if sw_jobs w = 0 then None
      else map_option (\<lambda>r. absorb r (sw_jobs w - 1) (sw_open w)) (run_resubscribe now (Some p) (sw_sub w)))"
| "sub_step nm cs p (GotNotify now state body) w =
     (if sb_sip (sw_sub w) = None then None
      else map_option (\<lambda>r. absorb r (sw_jobs w) (sw_open w)) (on_recv_notify nm now state body (sw_sub w)))"
| "sub_step nm cs p (PlatformStatus now status) w =
     map_option (\<lambda>r. absorb r (sw_jobs w) (sw_open w)) (on_platform_status now (Some p) status (sw_sub w))"
| "sub_step nm cs p StopSub w = Some (absorb (sub_shutdown (sw_sub w)) (sw_jobs w) (sw_open w))"

fun sub_run :: "(substate_name \<Rightarrow> string) \<Rightarrow> sip_codes \<Rightarrow> sub_platform \<Rightarrow> sub_event list \<Rightarrow> sub_world \<Rightarrow> sub_world option" where
  "sub_run nm cs p [] w = Some w"
| "sub_run nm cs p (e # es) w = (case sub_step nm cs p e w of None \<Rightarrow> None | Some w' \<Rightarrow> sub_run nm cs p es w')"

definition kept_alive :: "sub_world \<Rightarrow> bool" where
  "kept_alive w \<longleftrightarrow> (let sb = sw_sub w in
     si_expires (sb_info sb) \<noteq> 0 \<and> sb_sn sb \<noteq> None \<and> (0 < sw_open w \<longrightarrow> sb_expires sb \<noteq> 0) \<and>
     (sb_listed sb \<longrightarrow> 0 < sw_open w \<or> 0 < sw_jobs w \<or> sb_sip sb = None \<and> sb_status sb = Subst_terminated))"

lemma set_sub_status_eq: "set_sub_status now status t reason sb =
    (sb\<lparr>sb_status := status, sb_terminated_type := t, sb_error := reason,
        sb_terminated_time := (if status = Subst_terminated then now else sb_terminated_time sb)\<rparr>, [StatusLater])"
  by (cases sb) (simp add: set_sub_status_def Let_def)

lemma to_subscribe_sends:
  assumes "sp_agent p" "sp_made p" "sb_sn sb \<noteq> None"
  obtains sb' es where "to_subscribe now (Some p) expires sb = Some (sb', es)" "sum_list (map requests_in es) = 1"
    "sum_list (map jobs_in es) = 0" "si_expires (sb_info sb') = si_expires (sb_info sb)" "sb_sn sb' \<noteq> None"
    "sb_expires sb' = expires" "sb_listed sb' = sb_listed sb" "sb_sip sb' = sb_sip sb" "sb_running sb' = sb_running sb"
proof -
  obtain sn where sn: "sb_sn sb = Some sn" using assms(3) by blast
  have "\<exists>sb' es. to_subscribe now (Some p) expires sb = Some (sb', es) \<and> sum_list (map requests_in es) = 1 \<and>
    sum_list (map jobs_in es) = 0 \<and> si_expires (sb_info sb') = si_expires (sb_info sb) \<and> sb_sn sb' \<noteq> None \<and>
    sb_expires sb' = expires \<and> sb_listed sb' = sb_listed sb \<and> sb_sip sb' = sb_sip sb \<and> sb_running sb' = sb_running sb"
    using assms sn by (cases "sb_sip sb"; cases "si_subscribe_id (sb_info sb) = 0") (simp_all add: to_subscribe_def set_sub_status_eq Let_def)
  then show ?thesis using that by blast
qed

lemma resubscribe_in_dialog:
  assumes "sp_agent p" "sp_made p" "sb_sn sb \<noteq> None" "sb_sip sb \<noteq> None"
  shows "\<exists>sb'. to_subscribe now (Some p) expires sb = Some (sb', [SendResubscribe expires]) \<and> sb_listed sb' = sb_listed sb"
  using assms by (cases "si_subscribe_id (sb_info sb) = 0") (auto simp: to_subscribe_def Let_def)

lemma reply_kept:
  assumes "kept_alive w" "sp_agent p" "sp_made p" "sub_step nm cs p (GotSubReply now code) w = Some w'"
  shows "kept_alive w'"
proof -
  let ?sb = "sw_sub w"
  obtain sb es where r: "on_subscribe_reply cs now (Some p) code ?sb = Some (sb, es)" and w: "0 < sw_open w"
      "w' = absorb (sb, es) (sw_jobs w) (if sc_info cs code then sw_open w else sw_open w - 1)"
    using assms(4) by (auto split: if_splits)
  show ?thesis
  proof (cases "sb_listed ?sb \<and> \<not> sc_info cs code \<and> \<not> sc_success cs code \<and> sc_server_error cs code")
    case False
    then show ?thesis using assms(1) r w
      by (auto simp: on_subscribe_reply_def set_sub_status_eq kept_alive_def absorb_def Let_def split: if_splits option.splits)
  next
    case True
    let ?sb1 = "fst (set_sub_status now Subst_terminated Term_rejected (''peer return '' @ show_int code)
        ((if sb_subscribe_time ?sb \<noteq> 0 then ?sb\<lparr>sb_terminated_time := now\<rparr> else ?sb)\<lparr>sb_sip := None, sb_delay_task := None\<rparr>))"
    have sn: "sb_sn ?sb1 \<noteq> None" using assms(1) by (simp add: set_sub_status_eq kept_alive_def Let_def)
    obtain sb' es' where t: "to_subscribe now (Some p) (si_expires (sb_info ?sb1)) ?sb1 = Some (sb', es')" "sum_list (map requests_in es') = 1"
        "si_expires (sb_info sb') = si_expires (sb_info ?sb1)" "sb_sn sb' \<noteq> None" "sb_expires sb' = si_expires (sb_info ?sb1)"
      using to_subscribe_sends [OF assms(2,3) sn] by metis
    have "sb = sb'" "sum_list (map requests_in es) = 1"
      using r True t(1,2) by (auto simp: on_subscribe_reply_def set_sub_status_eq Let_def split: if_splits)
    then show ?thesis using t(3-5) assms(1) w(2) True by (auto simp: kept_alive_def absorb_def set_sub_status_eq Let_def)
  qed
qed

lemma notify_active_frame:
  assumes "on_notify_active now expires sb = Some (sb', es)"
  shows "sb_sn sb' = sb_sn sb \<and> sb_expires sb' = sb_expires sb \<and> sb_listed sb' = sb_listed sb \<and> (sb_sip sb \<noteq> None \<longrightarrow> sb_sip sb' \<noteq> None)
    \<and> sum_list (map requests_in es) = 0 \<and> (si_expires (sb_info sb') = si_expires (sb_info sb) \<or> si_expires (sb_info sb') \<noteq> 0)"
  using assms by (auto simp: on_notify_active_def set_sub_status_eq split: if_splits option.splits)

lemma notify_state_frame:
  assumes "on_notify_state nm now state sb = Some (sb', es)"
  shows "sb_sn sb' = sb_sn sb \<and> sb_expires sb' = sb_expires sb \<and> sb_listed sb' = sb_listed sb \<and> (sb_sip sb \<noteq> None \<longrightarrow> sb_sip sb' \<noteq> None)
    \<and> sum_list (map requests_in es) = 0 \<and> (si_expires (sb_info sb') = si_expires (sb_info sb) \<or> si_expires (sb_info sb') \<noteq> 0)"
proof (cases state)
  case None
  then show ?thesis using assms by (auto simp: on_notify_state_def)
next
  case (Some x)
  obtain st reason expires where x: "x = (st, reason, expires)" by (cases x)
  consider (keep) "st = []" | (active) "st \<noteq> []" "strcaseeq st (nm Name_active)"
    | (other) "st \<noteq> []" "\<not> strcaseeq st (nm Name_active)" by blast
  then show ?thesis
  proof cases
    case active
    then show ?thesis using assms Some x notify_active_frame by (simp add: on_notify_state_def)
  next
    case other
    then show ?thesis using assms Some x
      by (cases "notify_terminated nm reason") (auto simp: on_notify_state_def set_sub_status_eq Let_def split: if_splits)
  qed (use assms Some x in \<open>auto simp: on_notify_state_def\<close>)
qed

lemma notify_kept:
  assumes "kept_alive w" "sub_step nm cs p (GotNotify now state body) w = Some w'"
  shows "kept_alive w'"
proof -
  obtain sb es where r: "on_notify_state nm now state (sw_sub w) = Some (sb, es)" and sip: "sb_sip (sw_sub w) \<noteq> None"
    using assms(2) by (auto simp: on_recv_notify_def split: if_splits)
  let ?more = "case body of None \<Rightarrow> [SubReply 200 [] None] | Some (Inl err) \<Rightarrow> [SubReply 400 err None]
    | Some (Inr (code, reason)) \<Rightarrow> [NotifyReceived, SubReply (if sb_notify_cb sb then code else 200) reason None]"
  have "w' = absorb (sb, es @ ?more) (sw_jobs w) (sw_open w)" using assms(2) r sip by (simp add: on_recv_notify_def)
  moreover have "sum_list (map requests_in ?more) = 0" by (simp split: option.split sum.split prod.split)
  ultimately show ?thesis using notify_state_frame [OF r] assms(1) sip by (auto simp: kept_alive_def absorb_def Let_def)
qed

lemma kept_step:
  assumes "kept_alive w" "sp_agent p" "sp_made p" "sub_step nm cs p e w = Some w'"
  shows "kept_alive w'"
proof (cases e)
  case (GotSubReply now code)
  then show ?thesis using reply_kept assms by blast
next
  case (RunJob now)
  have sn: "sb_sn (sw_sub w) \<noteq> None" using assms(1) by (simp add: kept_alive_def Let_def)
  show ?thesis using RunJob assms(1,4)
    by (cases rule: to_subscribe_sends [OF assms(2,3) sn, of now "si_expires (sb_info (sw_sub w))"])
       (auto simp: run_resubscribe_def kept_alive_def absorb_def Let_def split: if_splits)
next
  case (PlatformStatus now status)
  have sn: "sb_sn (sw_sub w) \<noteq> None" using assms(1) by (simp add: kept_alive_def Let_def)
  obtain sb es where t: "to_subscribe now (Some p) (si_expires (sb_info (sw_sub w))) (sw_sub w) = Some (sb, es)"
      "sum_list (map requests_in es) = 1" "si_expires (sb_info sb) = si_expires (sb_info (sw_sub w))" "sb_sn sb \<noteq> None"
      "sb_expires sb = si_expires (sb_info (sw_sub w))"
    using to_subscribe_sends [OF assms(2,3) sn] by metis
  consider "\<not> sb_platform_cb (sw_sub w)" | "sb_platform_cb (sw_sub w)" "status = Plat_online"
    | "sb_platform_cb (sw_sub w)" "status \<noteq> Plat_online" by blast
  then show ?thesis
  proof cases
    case 1
    then show ?thesis using PlatformStatus assms(1,4) by (cases w) (simp add: on_platform_status_def absorb_def)
  next
    case 2
    then have "w' = absorb (sb, es) (sw_jobs w) (sw_open w)" using PlatformStatus assms(4) t(1) by (simp add: on_platform_status_def)
    then show ?thesis using t assms(1) by (simp add: kept_alive_def absorb_def Let_def)
  next
    case 3
    then show ?thesis using PlatformStatus assms(1,4)
      by (auto simp: on_platform_status_def set_sub_status_eq kept_alive_def absorb_def Let_def)
  qed
next
  case (GotNotify now state body)
  then show ?thesis using notify_kept assms(1,4) by blast
qed (use assms in \<open>auto simp: on_subscribe_unsent_def sub_shutdown_def set_sub_status_eq kept_alive_def absorb_def Let_def split: if_splits\<close>)

lemma kept_run:
  "\<lbrakk>kept_alive w; sp_agent p; sp_made p; sub_run nm cs p es w = Some w'\<rbrakk> \<Longrightarrow> kept_alive w'"
proof (induction es arbitrary: w)
  case (Cons e es)
  then show ?case using kept_step by (fastforce split: option.splits)
qed simp

text \<open>C7. A subscription with a lifetime that was started on an online platform is never forgotten: however replies, failures
to send, notifications and changes of the platform follow on one another, as long as it is not shut down a SUBSCRIBE is under way
or a job to send one waits, unless the peer or the platform has just ended it.\<close>

theorem subscription_never_forgotten:
  assumes "sub_start nm now (Some p) (outgoing_subscription (Some sn) info) = Some r" "sp_online p" "sp_agent p" "sp_made p"
    and "si_expires info \<noteq> 0" "sub_run nm cs p es (absorb r 0 0) = Some w" "sb_listed (sw_sub w)"
  shows "0 < sw_open w \<or> 0 < sw_jobs w \<or> sb_sip (sw_sub w) = None \<and> sb_status (sw_sub w) = Subst_terminated"
proof -
  let ?sb = "(outgoing_subscription (Some sn) info)\<lparr>sb_running := True, sb_listed := True\<rparr>"
  have sb: "\<not> sb_running (outgoing_subscription (Some sn) info)" "\<not> sb_incoming (outgoing_subscription (Some sn) info)"
      "sb_sn ?sb \<noteq> None" "sb_info ?sb = info"
    by (simp_all add: outgoing_subscription_def subscription_new_def)
  obtain sb' es' where t: "to_subscribe now (Some p) (si_expires info) ?sb = Some (sb', es')" "sum_list (map requests_in es') = 1"
      "si_expires (sb_info sb') = si_expires info" "sb_sn sb' \<noteq> None" "sb_expires sb' = si_expires info"
    using to_subscribe_sends [OF assms(3,4) sb(3), of now "si_expires info"] sb(4) by metis
  have "r = (sb'\<lparr>sb_platform_cb := True\<rparr>, es')" using assms(1,2) sb t(1) by (simp add: sub_start_def)
  then have "kept_alive (absorb r 0 0)" using t assms(5) by (simp add: kept_alive_def absorb_def Let_def)
  from kept_run [OF this assms(3,4,6)] show ?thesis using assms(7) by (simp add: kept_alive_def Let_def)
qed

definition sample_sub_platform :: sub_platform where
  "sample_sub_platform = \<lparr>sp_from = ''a'', sp_to = ''b'', sp_online = True, sp_agent = True, sp_made = True, sp_sn = 7\<rparr>"

definition sample_subscribe_info :: subscribe_info where
  "sample_subscribe_info = \<lparr>si_event = ''Catalog'', si_subscribe_id = 0, si_expires = 60, si_type = Sub_invalid\<rparr>"

definition sample_sip_codes :: sip_codes where
  "sample_sip_codes = \<lparr>sc_info = (\<lambda>c. c < 200), sc_success = (\<lambda>c. 200 \<le> c \<and> c < 300), sc_server_error = (\<lambda>c. 500 \<le> c \<and> c < 600)\<rparr>"

definition sample_state_names :: "substate_name \<Rightarrow> string" where
  "sample_state_names n = (case n of Name_active \<Rightarrow> ''active'' | Name_pending \<Rightarrow> ''pending'' | _ \<Rightarrow> ''terminated'')"

lemma subscription_never_forgotten_witness:
  "\<exists>r w. sub_start sample_state_names 5 (Some sample_sub_platform) (outgoing_subscription (Some 0) sample_subscribe_info) = Some r \<and>
    sub_run sample_state_names sample_sip_codes sample_sub_platform
      [GotSubReply 6 100, GotSubReply 7 503, SubUnsent 8 ''down'', RunJob 9, GotSubReply 10 200, GotNotify 11 (Some (''active'', [], 50)) None]
      (absorb r 0 0) = Some w \<and> (0 < sw_open w \<or> 0 < sw_jobs w \<or> sb_sip (sw_sub w) = None \<and> sb_status (sw_sub w) = Subst_terminated)"
proof -
  let ?r = "sub_start sample_state_names 5 (Some sample_sub_platform) (outgoing_subscription (Some 0) sample_subscribe_info)"
  let ?w = "sub_run sample_state_names sample_sip_codes sample_sub_platform
      [GotSubReply 6 100, GotSubReply 7 503, SubUnsent 8 ''down'', RunJob 9, GotSubReply 10 200, GotNotify 11 (Some (''active'', [], 50)) None]
      (absorb (the ?r) 0 0)"
  have r: "?r = Some (the ?r)" by code_simp
  have w: "?w = Some (the ?w)" "sb_listed (sw_sub (the ?w))" by code_simp+
  have p: "sp_online sample_sub_platform" "sp_agent sample_sub_platform" "sp_made sample_sub_platform" "si_expires sample_subscribe_info \<noteq> 0"
    by (simp_all add: sample_sub_platform_def sample_subscribe_info_def)
  show ?thesis using subscription_never_forgotten [OF r p w] r w(1) by blast
qed

section \<open>Failing servers\<close>

fun server_errors :: "sip_codes \<Rightarrow> u64 \<Rightarrow> sub_platform \<Rightarrow> int list \<Rightarrow> subscription \<Rightarrow> (subscription \<times> sub_effect list) option" where
  "server_errors cs now p [] sb = Some (sb, [])"
| "server_errors cs now p (c # codes) sb =
     (case on_subscribe_reply cs now (Some p) c sb of
        None \<Rightarrow> None
      | Some (sb, es) \<Rightarrow> map_option (\<lambda>(sb, es'). (sb, es @ es')) (server_errors cs now p codes sb))"

lemma no_delay: "\<lbrakk>to_subscribe now platform expires sb = Some (sb', es); e \<in> set es\<rbrakk> \<Longrightarrow> e \<noteq> SubAfter ms j \<and> e \<noteq> SubSoon j"
  by (auto simp: to_subscribe_def set_sub_status_eq Let_def split: option.splits if_splits)

text \<open>A server error is answered with a new SUBSCRIBE at once: n such replies in a row give n requests and not one delay.\<close>

theorem server_errors_retried_at_once:
  assumes "\<forall>c \<in> set codes. sc_server_error cs c \<and> \<not> sc_info cs c \<and> \<not> sc_success cs c"
    and "sb_listed sb" "sb_sn sb \<noteq> None" "sp_agent p" "sp_made p"
  shows "\<exists>sb' es. server_errors cs now p codes sb = Some (sb', es) \<and> sum_list (map requests_in es) = length codes \<and>
    (\<forall>e \<in> set es. \<forall>ms j. e \<noteq> SubAfter ms j \<and> e \<noteq> SubSoon j)"
  using assms
proof (induction codes arbitrary: sb)
  case (Cons c codes)
  let ?sb1 = "fst (set_sub_status now Subst_terminated Term_rejected (''peer return '' @ show_int c)
      ((if sb_subscribe_time sb \<noteq> 0 then sb\<lparr>sb_terminated_time := now\<rparr> else sb)\<lparr>sb_sip := None, sb_delay_task := None\<rparr>))"
  have sn: "sb_sn ?sb1 \<noteq> None" using Cons.prems(3) by (simp add: set_sub_status_eq)
  obtain sb' es0 where t: "to_subscribe now (Some p) (si_expires (sb_info ?sb1)) ?sb1 = Some (sb', es0)" "sum_list (map requests_in es0) = 1"
      "sb_sn sb' \<noteq> None" "sb_listed sb' = sb_listed ?sb1"
    using to_subscribe_sends [OF Cons.prems(4,5) sn] by metis
  then have t': "sb_listed sb'" using Cons.prems(2) by (simp add: set_sub_status_eq)
  have "on_subscribe_reply cs now (Some p) c sb = Some (sb', StatusLater # es0)"
    using Cons.prems t(1) by (simp add: on_subscribe_reply_def set_sub_status_eq Let_def)
  moreover obtain sb'' es where "server_errors cs now p codes sb' = Some (sb'', es)" "sum_list (map requests_in es) = length codes"
      "\<forall>e \<in> set es. \<forall>ms j. e \<noteq> SubAfter ms j \<and> e \<noteq> SubSoon j"
    using Cons.IH [of sb'] Cons.prems t(3) t' by auto
  ultimately show ?case using t(2) no_delay [OF t(1)] by auto
qed simp

lemma server_errors_retried_at_once_witness:
  "\<exists>sb' es. server_errors sample_sip_codes 9 sample_sub_platform [500, 503, 503]
      ((outgoing_subscription (Some 0) sample_subscribe_info)\<lparr>sb_listed := True\<rparr>) = Some (sb', es) \<and>
    sum_list (map requests_in es) = length [500 :: int, 503, 503] \<and> (\<forall>e \<in> set es. \<forall>ms j. e \<noteq> SubAfter ms j \<and> e \<noteq> SubSoon j)"
  by (rule server_errors_retried_at_once)
    (simp_all add: sample_sip_codes_def sample_sub_platform_def outgoing_subscription_def subscription_new_def)

section \<open>Shutdown\<close>

text \<open>\<open>shutdown\<close> sends nothing, although the interface promises that it cancels the subscription. As long as the
application keeps the object, the refresh job that waits still renews the subscription for its whole lifetime, and the reply
to that is ignored.\<close>

theorem shutdown_does_not_unsubscribe:
  assumes "sb_running sb" "sb_sip sb = Some e" "sb_sn sb \<noteq> None" "sp_agent p" "sp_made p"
  shows "\<exists>sb' sb''. sub_shutdown sb = (sb', []) \<and>
    run_resubscribe now (Some p) sb' = Some (sb'', [SendResubscribe (si_expires (sb_info sb))]) \<and>
    on_subscribe_reply cs later q code sb'' = Some (sb'', [])"
proof -
  let ?sb' = "sb\<lparr>sb_running := False, sb_listed := False\<rparr>"
  have sn: "sb_sn ?sb' \<noteq> None" "sb_sip ?sb' \<noteq> None" using assms(2,3) by simp_all
  obtain sb'' where "to_subscribe now (Some p) (si_expires (sb_info ?sb')) ?sb' = Some (sb'', [SendResubscribe (si_expires (sb_info ?sb'))])"
      "sb_listed sb'' = sb_listed ?sb'"
    using resubscribe_in_dialog [OF assms(4,5) sn] by metis
  then show ?thesis using assms(1) by (simp add: sub_shutdown_def run_resubscribe_def on_subscribe_reply_def)
qed

definition active_subscription :: subscription where
  "active_subscription = (outgoing_subscription (Some 4) sample_subscribe_info)
     \<lparr>sb_running := True, sb_listed := True, sb_sip := Some 60, sb_status := Subst_active\<rparr>"

lemma shutdown_does_not_unsubscribe_witness:
  "\<exists>sb' sb''. sub_shutdown active_subscription = (sb', []) \<and>
    run_resubscribe 20 (Some sample_sub_platform) sb' = Some (sb'', [SendResubscribe (si_expires (sb_info active_subscription))]) \<and>
    on_subscribe_reply sample_sip_codes 21 None 200 sb'' = Some (sb'', [])"
  by (rule shutdown_does_not_unsubscribe [of _ 60])
    (simp_all add: active_subscription_def sample_sub_platform_def outgoing_subscription_def subscription_new_def)

section \<open>Incoming subscriptions\<close>

lemma sint_ucast_small: "unat w < 2147483648 \<Longrightarrow> sint (ucast (w :: u64) :: i32) = int (unat w)"
proof -
  assume a: "unat w < 2147483648"
  have e: "uint w = int (unat w)" by (rule uint_nat)
  have u: "0 \<le> uint w" "uint w < 2147483648" using a unfolding e by linarith+
  have "take_bit 32 (uint w) = uint w" by (rule take_bit_int_eq_self) (use u in simp_all)
  moreover have "signed_take_bit 31 (uint w) = uint w"
  proof (rule signed_take_bit_int_eq_self)
    have "- (2 ^ 31) \<le> (0 :: int)" by simp
    then show "- (2 ^ 31) \<le> uint w" using u(1) by (rule order_trans)
    show "uint w < 2 ^ 31" using u(2) by simp
  qed
  moreover have "sint (ucast w :: i32) = signed_take_bit 31 (take_bit 32 (uint w))"
    unfolding sint_uint unsigned_ucast_eq by simp
  ultimately show ?thesis by (simp only: e)
qed

text \<open>C24. A new subscription is only accepted from a known super platform and for at least five seconds; any other request
is answered without one, with 200 only for a lifetime of 0.\<close>

theorem subscriber_is_known:
  assumes "recv_subscribe_request now None platform_id known expires parse_error = (r, es)"
  shows "(r \<noteq> None \<longrightarrow> platform_id \<noteq> [] \<and> (\<exists>k. known = Some k \<and> k platform_id) \<and> 5 \<le> sint expires \<and> parse_error = None) \<and>
    (r = None \<longrightarrow> (\<exists>code reason. es = [SubReply code reason None] \<and> (code = 200 \<and> expires = 0 \<or> code \<in> {400, 403})))"
  using assms by (auto simp: recv_subscribe_request_def split: if_splits option.splits)

lemma subscriber_is_known_witness:
  "\<exists>sb es. recv_subscribe_request 1000 None ''34'' (Some (\<lambda>k. k = ''34'')) 60 None = (Some sb, es) \<and> 5 \<le> sint (60 :: i32)"
proof -
  let ?r = "recv_subscribe_request 1000 None ''34'' (Some (\<lambda>k. k = ''34'')) 60 None"
  have r: "?r = (fst ?r, snd ?r)" by simp
  have s: "fst ?r \<noteq> None" by (simp add: recv_subscribe_request_def)
  then show ?thesis using subscriber_is_known [OF r] by (cases "fst ?r") (auto simp: prod_eq_iff)
qed

text \<open>An accepted subscription that was started is neither active nor ended in time: its state is still pending, so that its
notifications go out as messages outside of it; and the only timer, which takes the lifetime in seconds as milliseconds,
finds it unexpired.\<close>

theorem incoming_subscription_not_active:
  assumes "recv_subscribe_request now None platform_id known expires parse_error = (Some sb, fx)"
    and "sub_start nm now1 (Some p) sb = Some (sb', es)" "int (unat (later - now)) < (sint expires - 1) * 1000000"
  shows "(\<forall>q err. sub_send_notify nm t q err sb' = Some (sb', [SendMessage])) \<and>
    filter (\<lambda>e. \<exists>ms j. e = SubAfter ms j) es = [SubAfter (scast expires) ExpiryCheck] \<and> run_expiry_check later sb' = (sb', [])"
proof -
  have e: "5 \<le> sint expires" "sb = incoming_subscription now expires"
    using assms(1) by (auto simp: recv_subscribe_request_def split: if_splits option.splits)
  then have sb': "sb_status sb' = Subst_pending" "sb_sip sb' = Some expires" "sb_subscribe_time sb' = now"
      "filter (\<lambda>e. \<exists>ms j. e = SubAfter ms j) es = [SubAfter (scast expires) ExpiryCheck]"
    using assms(2) by (auto simp: incoming_subscription_def subscription_new_def sub_start_def subscribe_send_notify_def Let_def
        split: if_splits)
  have lt: "int (unat (later - now)) div 1000000 < sint expires - 1" using assms(3) by (simp add: div_less_iff_less_mult)
  have "sint expires < 2147483648" using sint_lt [of expires] by simp
  then have "int (unat (later - now) div 1000000) < 2147483648" using lt by (simp add: zdiv_int)
  then have small: "unat (later - now) div 1000000 < 2147483648" by linarith
  have d: "unat ((later - now) div 1000000) = unat (later - now) div 1000000" by (simp add: unat_div)
  have "sint (ucast ((later - now) div 1000000) :: i32) = int (unat (later - now) div 1000000)"
    using small d by (simp add: sint_ucast_small)
  then have "1 < time_remain later sb'" using lt sb' e by (auto simp: time_remain_def zdiv_int)
  then show ?thesis using sb' by (simp add: sub_send_notify_def run_expiry_check_def)
qed

lemma incoming_subscription_not_active_witness:
  "\<exists>sb sb' es. recv_subscribe_request 1000 None ''34'' (Some (\<lambda>k. k = ''34'')) 60 None = (Some sb, [SubscribeOffered, SubReply 200 [] (Some 60)]) \<and>
    sub_start sample_state_names 2000 (Some sample_sub_platform) sb = Some (sb', es) \<and> run_expiry_check 61000 sb' = (sb', [])"
proof -
  let ?sb = "incoming_subscription 1000 60"
  let ?s = "sub_start sample_state_names 2000 (Some sample_sub_platform) ?sb"
  have r: "recv_subscribe_request 1000 None ''34'' (Some (\<lambda>k. k = ''34'')) 60 None = (Some ?sb, [SubscribeOffered, SubReply 200 [] (Some 60)])"
    by (simp add: recv_subscribe_request_def)
  have s: "?s = Some (fst (the ?s), snd (the ?s))" by code_simp
  have t: "int (unat (61000 - 1000 :: u64)) < (sint (60 :: i32) - 1) * 1000000" by simp
  show ?thesis using incoming_subscription_not_active [OF r s t] r s by blast
qed

end
