(* ===== verification/Message_Notify.thy ===== *)
theory Message_Notify
  imports Message_Lists Device_Control
begin

text \<open>
  Recordings, notifications, alarms and the single cruise track (\<open>src/message/record_info_message.cpp\<close>,
  \<open>notify_message.cpp\<close>, \<open>alarm_request_message.cpp\<close>, \<open>cruise_track_message.cpp\<close>): the members of each class, its
  reader and writer, and its interpretation of the contract of a message. \<open>toolkit::getTimeStr\<close> is the parameter \<open>now\<close>.
\<close>

section \<open>Shared pieces\<close>

text \<open>\<open>if (!s.empty()) new_xml_element(s, root, key)\<close>\<close>

definition new_if_text :: "'e tinyxml2 \<Rightarrow> string \<Rightarrow> string \<Rightarrow> 'e \<Rightarrow> 'e" where
  "new_if_text X s key root = (if s \<noteq> [] then new_xml_element_string X s key root else root)"

lemma new_if_text_under: "tinyxml2_laws X \<Longrightarrow> k \<noteq> [] \<Longrightarrow> writes_under X k (new_if_text X s k)"
  by (auto simp: writes_under_def new_if_text_def MAKE_NEW_sel Insert_sel tinyxml2_lawsD)

lemmas new_if_text_pass [xml_simps] = writes_underD[OF new_if_text_under]

lemma new_if_text_found [xml_simps]:
  assumes "tinyxml2_laws X" and "k \<noteq> []"
  shows "ChildElementsNamed X (new_if_text X s k e) k
      = ChildElementsNamed X e k @ (if s = [] then [] else [SetText X s (NewElement X k)])"
    "FirstChildElement X e k = None \<Longrightarrow>
      FirstChildElement X (new_if_text X s k e) k = (if s = [] then None else Some (SetText X s (NewElement X k)))"
  using assms by (simp_all add: new_if_text_def MAKE_NEW_sel Insert_found tinyxml2_lawsD)

lemma new_if_text_NoChildren [xml_simps]:
  "tinyxml2_laws X \<Longrightarrow> k \<noteq> [] \<Longrightarrow> NoChildren X (new_if_text X s k e) \<longleftrightarrow> s = [] \<and> NoChildren X e"
  by (simp add: new_if_text_def MAKE_NEW_sel Insert_sel)

lemma text_read [xml_simps]:
  assumes "tinyxml2_laws X" and "k \<noteq> []" and "FirstChildElement X e k = None"
  shows "from_xml_element_string X [] (new_if_text X s k e) k = (s \<noteq> [], s)"
  using assms by (simp add: from_xml_element_string_def select_element_def new_if_text_found tinyxml2_lawsD)

lemma text_passed [xml_simps]:
  assumes "tinyxml2_laws X" and "k \<noteq> []" and "k \<noteq> k'" and "k' \<noteq> []"
  shows "from_xml_element_string X v (new_if_text X s k e) k' = from_xml_element_string X v e k'"
  using assms by (simp add: from_xml_element_string_def select_element_def new_if_text_pass)

section \<open>Recordings\<close>

record RecordInfoRequestMessage =
  rq_start_time :: string
  rq_end_time :: string
  rq_file_path :: string
  rq_address :: string
  rq_type :: string
  rq_recorder_id :: string
  rq_indistinct_query :: string
  rq_alarm_method :: string
  rq_alarm_type :: string
  rq_secrecy :: i32
  rq_stream_number :: "i8 option"

definition RecordInfoRequestMessage_default :: RecordInfoRequestMessage where
  "RecordInfoRequestMessage_default =
     \<lparr>rq_start_time = [], rq_end_time = [], rq_file_path = [], rq_address = [], rq_type = [], rq_recorder_id = [],
      rq_indistinct_query = [], rq_alarm_method = [], rq_alarm_type = [], rq_secrecy = 0, rq_stream_number = None\<rparr>"

definition RecordInfoRequestMessage_new :: "string \<Rightarrow> string \<Rightarrow> string \<Rightarrow> ('e, RecordInfoRequestMessage) MessageBase" where
  "RecordInfoRequestMessage_new device_id start_time end_time =
     MessageBase_new Root_Query Cmd_RecordInfo (Some device_id) []
       (RecordInfoRequestMessage_default\<lparr>rq_start_time := start_time, rq_end_time := end_time\<rparr>)"

definition load_RecordInfoRequest :: "'e tinyxml2 \<Rightarrow> ('e, RecordInfoRequestMessage) load_detail" where
  "load_RecordInfoRequest X root m =
     (let d = mb_detail m; (ok, s) = from_xml_element_string X (rq_start_time d) root ''StartTime''; d = d\<lparr>rq_start_time := s\<rparr>
      in if \<not> ok then Inr (reject ''StartTime not found'' (m\<lparr>mb_detail := d\<rparr>))
      else let (ok, e) = from_xml_element_string X (rq_end_time d) root ''EndTime''; d = d\<lparr>rq_end_time := e\<rparr>
      in if \<not> ok then Inr (reject ''EndTime not found'' (m\<lparr>mb_detail := d\<rparr>))
      else Inr (accept (d
        \<lparr>rq_file_path := snd (from_xml_element_string X (rq_file_path d) root ''FilePath''),
         rq_address := snd (from_xml_element_string X (rq_address d) root ''Address''),
         rq_secrecy := snd (from_xml_element_int X (rq_secrecy d) root ''Secrecy''),
         rq_type := snd (from_xml_element_string X (rq_type d) root ''Type''),
         rq_recorder_id := snd (from_xml_element_string X (rq_recorder_id d) root ''RecorderID''),
         rq_indistinct_query := snd (from_xml_element_string X (rq_indistinct_query d) root ''IndistinctQuery''),
         rq_alarm_method := snd (from_xml_element_string X (rq_alarm_method d) root ''AlarmMethod''),
         rq_alarm_type := snd (from_xml_element_string X (rq_alarm_type d) root ''AlarmType''),
         rq_stream_number := snd (from_xml_element_opt (from_xml_element_int X) (rq_stream_number d) root ''StreamNumber'')\<rparr>) m))"

text \<open>The writer reads the secrecy from the document it writes.\<close>

definition parse_RecordInfoRequest :: "'e tinyxml2 \<Rightarrow> ('e, RecordInfoRequestMessage) parse_detail" where
  "parse_RecordInfoRequest X root m =
     (let d = mb_detail m
      in if rq_start_time d = [] then (False, m\<lparr>mb_error := ''StartTime invalid''\<rparr>, root)
         else if rq_end_time d = [] then (False, m\<lparr>mb_error := ''EndTime invalid''\<rparr>, root)
         else let root = block
                [new_xml_element_string X (rq_start_time d) ''StartTime'',
                 new_xml_element_string X (rq_end_time d) ''EndTime'',
                 new_if_text X (rq_file_path d) ''FilePath'',
                 new_if_text X (rq_address d) ''Address''] root;
              m = m\<lparr>mb_detail := d\<lparr>rq_secrecy := snd (from_xml_element_int X (rq_secrecy d) root ''Secrecy'')\<rparr>\<rparr>
         in (True, m, block
                [new_if_text X (rq_type d) ''Type'',
                 new_if_text X (rq_recorder_id d) ''RecorderID'',
                 new_if_text X (rq_indistinct_query d) ''IndistinctQuery'',
                 new_if_text X (rq_alarm_method d) ''AlarmMethod'',
                 new_if_text X (rq_alarm_type d) ''AlarmType'',
                 new_xml_element_opt (new_xml_element_int X) (rq_stream_number d) ''StreamNumber''] root))"

interpretation RecordInfoRequest: message_codec load_RecordInfoRequest parse_RecordInfoRequest
  RecordInfoRequestMessage_default "\<lambda>d. d\<lparr>rq_secrecy := 0, rq_stream_number := None\<rparr>"
  "\<lambda>i r d. rq_start_time d \<noteq> [] \<and> rq_end_time d \<noteq> []"
  by unfold_locales
    (simp_all add: parse_RecordInfoRequest_def load_RecordInfoRequest_def RecordInfoRequestMessage_default_def
      codec_simps xml_simps)

record RecordInfoResponseMessage =
  ri_sum_num :: i32 \<comment> \<open>\<open>ListMessageBase::sum_num_\<close>\<close>
  ri_name :: string
  ri_record_list :: "ItemFileType list"
  ri_extra_info :: "string list"

definition RecordInfoResponseMessage_default :: RecordInfoResponseMessage where
  "RecordInfoResponseMessage_default = \<lparr>ri_sum_num = 0, ri_name = [], ri_record_list = [], ri_extra_info = []\<rparr>"

definition RecordInfoResponseMessage_new ::
    "string \<Rightarrow> string \<Rightarrow> i32 \<Rightarrow> ItemFileType list \<Rightarrow> string list \<Rightarrow> ('e, RecordInfoResponseMessage) MessageBase" where
  "RecordInfoResponseMessage_new device_id name sum_num l extra_info =
     MessageBase_new Root_Response Cmd_RecordInfo (Some device_id) []
       \<lparr>ri_sum_num = sum_num, ri_name = name, ri_record_list = l, ri_extra_info = extra_info\<rparr>"

definition RecordInfoResponseMessage_short ::
    "string \<Rightarrow> i32 \<Rightarrow> ItemFileType list \<Rightarrow> ('e, RecordInfoResponseMessage) MessageBase" where
  "RecordInfoResponseMessage_short device_id sum_num l =
     MessageBase_new Root_Response Cmd_RecordInfo (Some device_id) []
       (RecordInfoResponseMessage_default\<lparr>ri_sum_num := sum_num, ri_record_list := l\<rparr>)"

definition write_ItemFile :: "'e tinyxml2 \<Rightarrow> ItemFileType \<Rightarrow> 'e \<Rightarrow> 'e" where
  "write_ItemFile X it = block
     [new_if_text X (fl_DeviceID it) ''DeviceID'',
      new_if_text X (fl_Name it) ''Name'',
      new_if_text X (fl_FilePath it) ''FilePath '',
      new_if_text X (fl_Address it) ''Address'',
      new_if_text X (fl_StartTime it) ''StartTime'',
      new_if_text X (fl_EndTime it) ''EndTime'',
      new_xml_element_int X (fl_Secrecy it) ''Secrecy'',
      new_if_text X (fl_Type it) ''Type'',
      new_if_text X (fl_RecorderID it) ''RecorderID'',
      new_if_text X (fl_FileSize it) ''FileSize'',
      new_if_text X (fl_RecordLocation it) ''RecordLocation'',
      new_xml_element_opt (new_xml_element_int X) (fl_StreamNumber it) ''StreamNumber'']"

definition read_ItemFile :: "'e tinyxml2 \<Rightarrow> ItemFileType \<Rightarrow> 'e \<Rightarrow> ItemFileType" where
  "read_ItemFile X it item = it
     \<lparr>fl_DeviceID := snd (from_xml_element_string X (fl_DeviceID it) item ''DeviceID''),
      fl_Name := snd (from_xml_element_string X (fl_Name it) item ''Name''),
      fl_FilePath := snd (from_xml_element_string X (fl_FilePath it) item ''FilePath ''),
      fl_Address := snd (from_xml_element_string X (fl_Address it) item ''Address''),
      fl_StartTime := snd (from_xml_element_string X (fl_StartTime it) item ''StartTime''),
      fl_EndTime := snd (from_xml_element_string X (fl_EndTime it) item ''EndTime''),
      fl_Secrecy := snd (from_xml_element_int X (fl_Secrecy it) item ''Secrecy''),
      fl_Type := snd (from_xml_element_string X (fl_Type it) item ''Type''),
      fl_RecorderID := snd (from_xml_element_string X (fl_RecorderID it) item ''RecorderID''),
      fl_FileSize := snd (from_xml_element_string X (fl_FileSize it) item ''FileSize''),
      fl_RecordLocation := snd (from_xml_element_string X (fl_RecordLocation it) item ''RecordLocation''),
      fl_StreamNumber := snd (from_xml_element_opt (from_xml_element_int X) (fl_StreamNumber it) item ''StreamNumber'')\<rparr>"

interpretation ItemFile: struct_codec write_ItemFile read_ItemFile ItemFileType_default
  "\<lambda>v. v\<lparr>fl_StreamNumber := None\<rparr>" "\<lambda>v. True"
  by unfold_locales
    (simp_all add: write_ItemFile_def read_ItemFile_def ItemFileType_default_def xml_simps)

text \<open>The extra information is written into the list, but looked for in the root.\<close>

definition load_RecordInfoResponse :: "'e tinyxml2 \<Rightarrow> ('e, RecordInfoResponseMessage) load_detail" where
  "load_RecordInfoResponse X root m =
     (let d = mb_detail m;
          d = d\<lparr>ri_name := snd (from_xml_element_string X (ri_name d) root ''Name''),
                ri_sum_num := snd (from_xml_element_int X (ri_sum_num d) root ''SumNum'')\<rparr>;
          d = (case FirstChildElement X root ''RecordList'' of
                 None \<Rightarrow> d
               | Some l \<Rightarrow> d\<lparr>ri_record_list := ri_record_list d @ load_items X (read_ItemFile X) ItemFileType_default l ''Item''\<rparr>)
      in bind_outcome (strings_of_texts X (ChildElementsNamed X root ''ExtraInfo''))
           (\<lambda>ts. Inr (accept (d\<lparr>ri_extra_info := ri_extra_info d @ ts\<rparr>) m)))"

definition parse_RecordInfoResponse :: "'e tinyxml2 \<Rightarrow> ('e, RecordInfoResponseMessage) parse_detail" where
  "parse_RecordInfoResponse X root m =
     (let d = mb_detail m in (True, m, block
        [new_xml_element_string X (ri_name d) ''Name'',
         new_xml_element_int X (ri_sum_num d) ''SumNum'',
         InsertNewChildElement X ''RecordList'' (block
           [SetAttribute X ''Num'' (int (length (ri_record_list d))),
            append_items X ''Item'' (write_ItemFile X) (ri_record_list d),
            write_texts X ''ExtraInfo'' (ri_extra_info d)])] root))"

interpretation RecordInfoResponse: message_codec load_RecordInfoResponse parse_RecordInfoResponse
  RecordInfoResponseMessage_default
  "\<lambda>d. d\<lparr>ri_record_list := map (\<lambda>v. v\<lparr>fl_StreamNumber := None\<rparr>) (ri_record_list d), ri_extra_info := []\<rparr>" "\<lambda>i r d. True"
  by unfold_locales
    (simp_all add: parse_RecordInfoResponse_def load_RecordInfoResponse_def RecordInfoResponseMessage_default_def
      load_items_def ItemFile.items_roundtrip ItemFile.items_name ItemFile.name_new ItemFile.get_put ItemFile.put_empty
      append_items_sel append_items_found filter_map o_def string_back_old codec_simps xml_simps)

section \<open>Notifications\<close>

record UploadSnapShotFinishedNotifyMessage =
  us_session_id :: string
  us_snap_shot_lists :: "string list"

definition UploadSnapShotFinishedNotifyMessage_default :: UploadSnapShotFinishedNotifyMessage where
  "UploadSnapShotFinishedNotifyMessage_default = \<lparr>us_session_id = [], us_snap_shot_lists = []\<rparr>"

definition UploadSnapShotFinishedNotifyMessage_new ::
    "string \<Rightarrow> string \<Rightarrow> string list \<Rightarrow> ('e, UploadSnapShotFinishedNotifyMessage) MessageBase" where
  "UploadSnapShotFinishedNotifyMessage_new device_id session_id l =
     MessageBase_new Root_Notify Cmd_UploadSnapShotFinished (Some device_id) [] \<lparr>us_session_id = session_id, us_snap_shot_lists = l\<rparr>"

definition load_UploadSnapShot :: "'e tinyxml2 \<Rightarrow> ('e, UploadSnapShotFinishedNotifyMessage) load_detail" where
  "load_UploadSnapShot X root m =
     (let d = mb_detail m; (ok, s) = from_xml_element_string X (us_session_id d) root ''SessionID''; d = d\<lparr>us_session_id := s\<rparr>
      in if \<not> ok then Inr (reject ''SessionID not found'' (m\<lparr>mb_detail := d\<rparr>))
      else case FirstChildElement X root ''SnapShotList'' of
        None \<Rightarrow> Inr (reject ''SnapShotList not found'' (m\<lparr>mb_detail := d\<rparr>))
      | Some l \<Rightarrow> bind_outcome (strings_of_texts X (ChildElementsNamed X l ''SnapShotFileID''))
          (\<lambda>ts. Inr (accept (d\<lparr>us_snap_shot_lists := us_snap_shot_lists d @ ts\<rparr>) m)))"

definition parse_UploadSnapShot :: "'e tinyxml2 \<Rightarrow> ('e, UploadSnapShotFinishedNotifyMessage) parse_detail" where
  "parse_UploadSnapShot X root m =
     (let d = mb_detail m
      in if us_session_id d = [] then (False, m\<lparr>mb_error := ''SessionID not found''\<rparr>, root)
         else (True, m, block
           [new_xml_element_string X (us_session_id d) ''SessionID'',
            InsertNewChildElement X ''SnapShotList'' (write_texts X ''SnapShotFileID'' (us_snap_shot_lists d))] root))"

interpretation UploadSnapShot: message_codec load_UploadSnapShot parse_UploadSnapShot
  UploadSnapShotFinishedNotifyMessage_default "\<lambda>d. d" "\<lambda>i r d. us_session_id d \<noteq> [] \<and> [] \<notin> set (us_snap_shot_lists d)"
  by unfold_locales
    (simp_all add: parse_UploadSnapShot_def load_UploadSnapShot_def UploadSnapShotFinishedNotifyMessage_default_def
      codec_simps xml_simps)

record MobilePositionNotifyMessage =
  mn_time :: string
  mn_sum_num :: i32
  mn_device_list :: "ItemMobilePositionType list"

definition MobilePositionNotifyMessage_default :: MobilePositionNotifyMessage where
  "MobilePositionNotifyMessage_default = \<lparr>mn_time = [], mn_sum_num = 0, mn_device_list = []\<rparr>"

definition MobilePositionNotifyMessage_new ::
    "string \<Rightarrow> string \<Rightarrow> i32 \<Rightarrow> ItemMobilePositionType list \<Rightarrow> ('e, MobilePositionNotifyMessage) MessageBase" where
  "MobilePositionNotifyMessage_new device_id time sum_num l =
     MessageBase_new Root_Notify Cmd_MobilePosition (Some device_id) [] \<lparr>mn_time = time, mn_sum_num = sum_num, mn_device_list = l\<rparr>"

definition write_ItemMobilePosition :: "'e tinyxml2 \<Rightarrow> ItemMobilePositionType \<Rightarrow> 'e \<Rightarrow> 'e" where
  "write_ItemMobilePosition X it = block
     [new_xml_element_string X (mp_DeviceID it) ''DeviceID'',
      new_xml_element_string X (mp_CaptureTime it) ''CaptureTime'',
      new_xml_element_double X (mp_Longitude it) ''Longitude'',
      new_xml_element_double X (mp_Latitude it) ''Latitude'',
      new_xml_element_opt (new_xml_element_double X) (mp_Speed it) ''Speed'',
      new_xml_element_opt (new_xml_element_double X) (mp_Direction it) ''Direction'',
      new_xml_element_opt (new_xml_element_double X) (mp_Altitude it) ''Altitude'',
      new_xml_element_opt (new_xml_element_double X) (mp_Height it) ''Height'']"

definition read_ItemMobilePosition :: "'e tinyxml2 \<Rightarrow> ItemMobilePositionType \<Rightarrow> 'e \<Rightarrow> ItemMobilePositionType" where
  "read_ItemMobilePosition X it item = it
     \<lparr>mp_DeviceID := snd (from_xml_element_string X (mp_DeviceID it) item ''DeviceID''),
      mp_CaptureTime := snd (from_xml_element_string X (mp_CaptureTime it) item ''CaptureTime''),
      mp_Longitude := snd (from_xml_element_double X (mp_Longitude it) item ''Longitude''),
      mp_Latitude := snd (from_xml_element_double X (mp_Latitude it) item ''Latitude''),
      mp_Speed := snd (from_xml_element_opt (from_xml_element_double X) (mp_Speed it) item ''Speed''),
      mp_Direction := snd (from_xml_element_opt (from_xml_element_double X) (mp_Direction it) item ''Direction''),
      mp_Altitude := snd (from_xml_element_opt (from_xml_element_double X) (mp_Altitude it) item ''Altitude''),
      mp_Height := snd (from_xml_element_opt (from_xml_element_double X) (mp_Height it) item ''Height'')\<rparr>"

definition load_MobilePositionNotify :: "'e tinyxml2 \<Rightarrow> ('e, MobilePositionNotifyMessage) load_detail" where
  "load_MobilePositionNotify X root m =
     (let d = mb_detail m;
          d = d\<lparr>mn_time := snd (from_xml_element_string X (mn_time d) root ''Time''),
                mn_sum_num := snd (from_xml_element_int X (mn_sum_num d) root ''SumNum'')\<rparr>
      in Inr (accept (case FirstChildElement X root ''DeviceList'' of
           None \<Rightarrow> d
         | Some l \<Rightarrow> d\<lparr>mn_device_list := mn_device_list d @
             map (read_ItemMobilePosition X ItemMobilePositionType_default) (ChildElementsNamed X l ''Item'')\<rparr>) m))"

definition parse_MobilePositionNotify :: "string \<Rightarrow> 'e tinyxml2 \<Rightarrow> ('e, MobilePositionNotifyMessage) parse_detail" where
  "parse_MobilePositionNotify now X root m =
     (let d = mb_detail m; d = (if mn_time d = [] then d\<lparr>mn_time := now\<rparr> else d) in (True, m\<lparr>mb_detail := d\<rparr>, block
        [new_xml_element_string X (mn_time d) ''Time'',
         new_xml_element_int X (mn_sum_num d) ''SumNum'',
         InsertNewChildElement X ''DeviceList'' (append_items X ''Item'' (write_ItemMobilePosition X) (mn_device_list d))] root))"

definition ItemMobilePosition_after :: "ItemMobilePositionType \<Rightarrow> ItemMobilePositionType" where
  "ItemMobilePosition_after it = it\<lparr>mp_Speed := None, mp_Direction := None, mp_Altitude := None, mp_Height := None\<rparr>"

lemma ItemMobilePosition_name:
  "tinyxml2_laws X \<Longrightarrow> Name X (write_ItemMobilePosition X it (NewElement X k)) = k"
  by (simp add: write_ItemMobilePosition_def xml_simps)

lemma ItemMobilePosition_back:
  assumes "tinyxml2_laws X" "finite_double (mp_Longitude it)" "finite_double (mp_Latitude it)"
  shows "read_ItemMobilePosition X ItemMobilePositionType_default (write_ItemMobilePosition X it (NewElement X k))
    = ItemMobilePosition_after it"
  using assms
  by (simp add: write_ItemMobilePosition_def read_ItemMobilePosition_def ItemMobilePositionType_default_def
      ItemMobilePosition_after_def from_xml_element_double_def MAKE_FROM_XML_ELE_def select_element_def xml_simps)

interpretation MobilePositionNotify: message_codec load_MobilePositionNotify "parse_MobilePositionNotify now"
  MobilePositionNotifyMessage_default
  "\<lambda>d. d\<lparr>mn_time := (if mn_time d = [] then now else mn_time d), mn_device_list := map ItemMobilePosition_after (mn_device_list d)\<rparr>"
  "\<lambda>i r d. \<forall>it \<in> set (mn_device_list d). finite_double (mp_Longitude it) \<and> finite_double (mp_Latitude it)"
  for now
  by unfold_locales
    (simp_all add: parse_MobilePositionNotify_def load_MobilePositionNotify_def MobilePositionNotifyMessage_default_def
      ItemMobilePosition_name ItemMobilePosition_back append_items_sel append_items_found o_def string_back_old codec_simps
      xml_simps cong: map_cong)

text \<open>The file was played to its end.\<close>

record MediaStatusNotifyMessage =
  ms_notify_type :: string

definition MediaStatusNotifyMessage_default :: MediaStatusNotifyMessage where
  "MediaStatusNotifyMessage_default = \<lparr>ms_notify_type = []\<rparr>"

definition MediaStatusNotifyMessage_new :: "string \<Rightarrow> string \<Rightarrow> ('e, MediaStatusNotifyMessage) MessageBase" where
  "MediaStatusNotifyMessage_new device_id notify_type =
     MessageBase_new Root_Notify Cmd_MediaStatus (Some device_id) [] \<lparr>ms_notify_type = notify_type\<rparr>"

definition load_MediaStatus :: "'e tinyxml2 \<Rightarrow> ('e, MediaStatusNotifyMessage) load_detail" where
  "load_MediaStatus X root m =
     (let (ok, t) = from_xml_element_string X (ms_notify_type (mb_detail m)) root ''NotifyType'';
          d = (mb_detail m)\<lparr>ms_notify_type := t\<rparr>
      in if \<not> ok then Inr (reject ''NotifyType not found'' (m\<lparr>mb_detail := d\<rparr>)) else Inr (accept d m))"

definition parse_MediaStatus :: "'e tinyxml2 \<Rightarrow> ('e, MediaStatusNotifyMessage) parse_detail" where
  "parse_MediaStatus X root m =
     (if ms_notify_type (mb_detail m) = [] then (False, m\<lparr>mb_error := ''NotifyType not found''\<rparr>, root)
      else (True, m, new_xml_element_string X (ms_notify_type (mb_detail m)) ''NotifyType'' root))"

interpretation MediaStatus: message_codec load_MediaStatus parse_MediaStatus
  MediaStatusNotifyMessage_default "\<lambda>d. d" "\<lambda>i r d. ms_notify_type d \<noteq> []"
  by unfold_locales
    (simp_all add: parse_MediaStatus_def load_MediaStatus_def MediaStatusNotifyMessage_default_def codec_simps xml_simps)

record VideoUploadNotifyMessage =
  vu_time :: string
  vu_longitude :: "double option"
  vu_latitude :: "double option"

definition VideoUploadNotifyMessage_default :: VideoUploadNotifyMessage where
  "VideoUploadNotifyMessage_default = \<lparr>vu_time = [], vu_longitude = None, vu_latitude = None\<rparr>"

definition VideoUploadNotifyMessage_new ::
    "string \<Rightarrow> string \<Rightarrow> double option \<Rightarrow> double option \<Rightarrow> ('e, VideoUploadNotifyMessage) MessageBase" where
  "VideoUploadNotifyMessage_new device_id time longitude latitude =
     MessageBase_new Root_Notify Cmd_VideoUploadNotify (Some device_id) []
       \<lparr>vu_time = time, vu_longitude = longitude, vu_latitude = latitude\<rparr>"

definition load_VideoUpload :: "'e tinyxml2 \<Rightarrow> ('e, VideoUploadNotifyMessage) load_detail" where
  "load_VideoUpload X root m =
     (let d = mb_detail m; (ok, t) = from_xml_element_string X (vu_time d) root ''Time''; d = d\<lparr>vu_time := t\<rparr>
      in if \<not> ok then Inr (reject ''Time not found'' (m\<lparr>mb_detail := d\<rparr>))
         else Inr (accept (d
           \<lparr>vu_longitude := snd (from_xml_element_opt (from_xml_element_double X) (vu_longitude d) root ''Longitude''),
            vu_latitude := snd (from_xml_element_opt (from_xml_element_double X) (vu_latitude d) root ''Latitude'')\<rparr>) m))"

definition parse_VideoUpload :: "string \<Rightarrow> 'e tinyxml2 \<Rightarrow> ('e, VideoUploadNotifyMessage) parse_detail" where
  "parse_VideoUpload now X root m =
     (let d = mb_detail m; d = (if vu_time d = [] then d\<lparr>vu_time := now\<rparr> else d) in (True, m\<lparr>mb_detail := d\<rparr>, block
        [new_xml_element_string X (vu_time d) ''Time'',
         new_xml_element_opt (new_xml_element_double X) (vu_longitude d) ''Longitude'',
         new_xml_element_opt (new_xml_element_double X) (vu_latitude d) ''Latitude''] root))"

interpretation VideoUpload: message_codec load_VideoUpload "parse_VideoUpload now" VideoUploadNotifyMessage_default
  "\<lambda>d. \<lparr>vu_time = (if vu_time d = [] then now else vu_time d), vu_longitude = None, vu_latitude = None\<rparr>"
  "\<lambda>i r d. vu_time d \<noteq> [] \<or> now \<noteq> []"
  for now
  by unfold_locales
    (auto simp: parse_VideoUpload_def load_VideoUpload_def VideoUploadNotifyMessage_default_def codec_simps xml_simps)

text \<open>The reason of a failed upgrade is the reason of the header, and is written and read a second time.\<close>

record DeviceUpgradeResultNotifyMessage =
  ug_result :: ResultType
  ug_session_id :: string
  ug_firmware :: string

definition DeviceUpgradeResultNotifyMessage_default :: DeviceUpgradeResultNotifyMessage where
  "DeviceUpgradeResultNotifyMessage_default = \<lparr>ug_result = Result_invalid, ug_session_id = [], ug_firmware = []\<rparr>"

definition DeviceUpgradeResultNotifyMessage_new ::
    "string \<Rightarrow> string \<Rightarrow> string \<Rightarrow> ResultType \<Rightarrow> string \<Rightarrow> ('e, DeviceUpgradeResultNotifyMessage) MessageBase" where
  "DeviceUpgradeResultNotifyMessage_new device_id session_id firmware result reason =
     MessageBase_new Root_Notify Cmd_DeviceUpgradeResult (Some device_id) reason
       \<lparr>ug_result = result, ug_session_id = session_id, ug_firmware = firmware\<rparr>"

definition load_DeviceUpgradeResult :: "'e tinyxml2 \<Rightarrow> ('e, DeviceUpgradeResultNotifyMessage) load_detail" where
  "load_DeviceUpgradeResult X root m =
     (let d = mb_detail m; (ok, s) = from_xml_element_string X (ug_session_id d) root ''SessionID''; d = d\<lparr>ug_session_id := s\<rparr>
      in if \<not> ok then Inr (reject ''SessionID not found'' (m\<lparr>mb_detail := d\<rparr>))
      else let (ok, r) = from_Result X (ug_result d) root ''Result''; d = d\<lparr>ug_result := r\<rparr>
      in if \<not> ok then Inr (reject ''Result not found'' (m\<lparr>mb_detail := d\<rparr>))
      else let d = d\<lparr>ug_firmware := snd (from_xml_element_string X (ug_firmware d) root ''Firmware'')\<rparr>
      in Inr (accept d (m\<lparr>mb_reason := snd (from_xml_element_string X (mb_reason m) root ''UpgradeFailedReason'')\<rparr>)))"

definition parse_DeviceUpgradeResult :: "'e tinyxml2 \<Rightarrow> ('e, DeviceUpgradeResultNotifyMessage) parse_detail" where
  "parse_DeviceUpgradeResult X root m =
     (let d = mb_detail m
      in if ug_session_id d = [] then (False, m\<lparr>mb_error := ''SessionID not found''\<rparr>, root)
         else if ug_result d = Result_invalid then (False, m\<lparr>mb_error := ''Result not found''\<rparr>, root)
         else (True, m, block
           [new_xml_element_string X (ug_session_id d) ''SessionID'',
            new_Result X (ug_result d) ''Result'',
            new_xml_element_string X (ug_firmware d) ''Firmware'',
            new_xml_element_string X (mb_reason m) ''UpgradeFailedReason''] root))"

lemma string_back_same:
  assumes "tinyxml2_laws X"
  shows "snd (case GetText X (SetText X s (NewElement X k)) of None \<Rightarrow> (False, s) | Some t \<Rightarrow> (True, t)) = s"
proof (cases "s = []")
  case True
  then show ?thesis by (rule string_back_old [OF assms])
qed (use assms in \<open>simp add: tinyxml2_lawsD\<close>)

interpretation DeviceUpgradeResult: loose_codec load_DeviceUpgradeResult parse_DeviceUpgradeResult
  DeviceUpgradeResultNotifyMessage_default "\<lambda>d. d" "\<lambda>i r d. ug_session_id d \<noteq> [] \<and> ug_result d \<noteq> Result_invalid"
  by unfold_locales
    (simp_all add: parse_DeviceUpgradeResult_def load_DeviceUpgradeResult_def DeviceUpgradeResultNotifyMessage_default_def
      string_back_same string_back_old codec_simps enum_codec xml_simps)

section \<open>Alarms\<close>

record AlarmRequestMessage =
  aq_start_alarm_priority :: string
  aq_end_alarm_priority :: string
  aq_alarm_method :: string
  aq_alarm_type :: string
  aq_start_alarm_time :: string
  aq_end_alarm_time :: string

definition AlarmRequestMessage_default :: AlarmRequestMessage where
  "AlarmRequestMessage_default = \<lparr>aq_start_alarm_priority = [], aq_end_alarm_priority = [], aq_alarm_method = [],
     aq_alarm_type = [], aq_start_alarm_time = [], aq_end_alarm_time = []\<rparr>"

definition AlarmRequestMessage_new :: "string \<Rightarrow> ('e, AlarmRequestMessage) MessageBase" where
  "AlarmRequestMessage_new device_id = MessageBase_new Root_Query Cmd_Alarm (Some device_id) [] AlarmRequestMessage_default"

definition load_AlarmRequest :: "'e tinyxml2 \<Rightarrow> ('e, AlarmRequestMessage) load_detail" where
  "load_AlarmRequest X root m =
     (let d = mb_detail m in Inr (accept (d
        \<lparr>aq_start_alarm_priority := snd (from_xml_element_string X (aq_start_alarm_priority d) root ''StartAlarmPriority''),
         aq_end_alarm_priority := snd (from_xml_element_string X (aq_end_alarm_priority d) root ''EndAlarmPriority''),
         aq_alarm_method := snd (from_xml_element_string X (aq_alarm_method d) root ''AlarmMethod''),
         aq_alarm_type := snd (from_xml_element_string X (aq_alarm_type d) root ''AlarmType''),
         aq_start_alarm_time := snd (from_xml_element_string X (aq_start_alarm_time d) root ''StartAlarmTime''),
         aq_end_alarm_time := snd (from_xml_element_string X (aq_end_alarm_time d) root ''EndAlarmTime'')\<rparr>) m))"

definition parse_AlarmRequest :: "'e tinyxml2 \<Rightarrow> ('e, AlarmRequestMessage) parse_detail" where
  "parse_AlarmRequest X root m =
     (let d = mb_detail m in (True, m, block
        [new_if_text X (aq_start_alarm_priority d) ''StartAlarmPriority'',
         new_if_text X (aq_end_alarm_priority d) ''EndAlarmPriority'',
         new_if_text X (aq_alarm_method d) ''AlarmMethod'',
         new_if_text X (aq_alarm_type d) ''AlarmType'',
         new_if_text X (aq_start_alarm_time d) ''StartAlarmTime'',
         new_if_text X (aq_end_alarm_time d) ''EndAlarmTime''] root))"

interpretation AlarmRequest: message_codec load_AlarmRequest parse_AlarmRequest AlarmRequestMessage_default
  "\<lambda>d. d" "\<lambda>i r d. True"
  by unfold_locales
    (simp_all add: parse_AlarmRequest_def load_AlarmRequest_def AlarmRequestMessage_default_def codec_simps xml_simps)

text \<open>\<open>alarm_info_type\<close> is the pair of \<open>alarm_type\<close> and \<open>alarm_type_param.event_type\<close>.\<close>

record AlarmNotifyMessage =
  an_alarm_priority :: string
  an_alarm_method :: string
  an_alarm_time :: string
  an_alarm_description :: string
  an_longitude :: double
  an_latitude :: double
  an_alarm_type :: i32
  an_event_type :: i32
  an_extra_info :: "string list"

definition AlarmNotifyMessage_default :: AlarmNotifyMessage where
  "AlarmNotifyMessage_default = \<lparr>an_alarm_priority = [], an_alarm_method = [], an_alarm_time = [],
     an_alarm_description = [], an_longitude = 0, an_latitude = 0, an_alarm_type = 0, an_event_type = 0, an_extra_info = []\<rparr>"

definition AlarmNotifyMessage_new :: "string \<Rightarrow> ('e, AlarmNotifyMessage) MessageBase" where
  "AlarmNotifyMessage_new device_id = MessageBase_new Root_Notify Cmd_Alarm (Some device_id) [] AlarmNotifyMessage_default"

definition load_AlarmNotify :: "'e tinyxml2 \<Rightarrow> ('e, AlarmNotifyMessage) load_detail" where
  "load_AlarmNotify X root m =
     (let d = mb_detail m;
          d = d
            \<lparr>an_alarm_priority := snd (from_xml_element_string X (an_alarm_priority d) root ''AlarmPriority''),
             an_alarm_method := snd (from_xml_element_string X (an_alarm_method d) root ''AlarmMethod''),
             an_alarm_time := snd (from_xml_element_string X (an_alarm_time d) root ''AlarmTime''),
             an_alarm_description := snd (from_xml_element_string X (an_alarm_description d) root ''AlarmDescription''),
             an_latitude := snd (from_xml_element_double X (an_latitude d) root ''Latitude''),
             an_longitude := snd (from_xml_element_double X (an_longitude d) root ''Longitude'')\<rparr>;
          d = (case FirstChildElement X root ''Info'' of
                 None \<Rightarrow> d
               | Some ele \<Rightarrow>
                  (let d = d\<lparr>an_alarm_type := snd (from_xml_element_int X (an_alarm_type d) ele ''AlarmType'')\<rparr>
                   in case FirstChildElement X ele ''AlarmTypeParam'' of
                        None \<Rightarrow> d
                      | Some ele \<Rightarrow> d\<lparr>an_event_type := snd (from_xml_element_int X (an_event_type d) ele ''EventType'')\<rparr>))
      in bind_outcome (strings_of_texts X (ChildElementsNamed X root ''ExtraInfo''))
           (\<lambda>ts. Inr (accept (d\<lparr>an_extra_info := an_extra_info d @ ts\<rparr>) m)))"

text \<open>A double is true in a condition unless it is a zero of either sign.\<close>

definition double_true :: "double \<Rightarrow> bool" where
  "double_true d \<longleftrightarrow> push_bit 1 d \<noteq> 0"

text \<open>\<open>if (d) new_xml_element(d, root, key)\<close>\<close>

definition new_if_double :: "'e tinyxml2 \<Rightarrow> double \<Rightarrow> string \<Rightarrow> 'e \<Rightarrow> 'e" where
  "new_if_double X d key root = (if double_true d then new_xml_element_double X d key root else root)"

lemma new_if_double_under: "tinyxml2_laws X \<Longrightarrow> k \<noteq> [] \<Longrightarrow> writes_under X k (new_if_double X d k)"
  by (auto simp: writes_under_def new_if_double_def MAKE_NEW_sel Insert_sel tinyxml2_lawsD)

lemmas new_if_double_pass = writes_underD[OF new_if_double_under]

lemma double_read:
  assumes "tinyxml2_laws X" and "k \<noteq> []" and "FirstChildElement X e k = None" and "finite_double d"
  shows "snd (from_xml_element_double X 0 (new_if_double X d k e) k) = (if double_true d then d else 0)"
  using assms by (simp add: new_if_double_def from_xml_element_double_def MAKE_FROM_XML_ELE_def select_element_def
      MAKE_NEW_sel Insert_found tinyxml2_lawsD)

lemma double_passed:
  assumes "tinyxml2_laws X" and "k' \<noteq> []" and "FirstChildElement X (f e) k' = FirstChildElement X e k'"
  shows "from_xml_element_double X v (f e) k' = from_xml_element_double X v e k'"
  using assms by (simp add: from_xml_element_double_def MAKE_FROM_XML_ELE_def select_element_def)

definition write_alarm_info :: "'e tinyxml2 \<Rightarrow> AlarmNotifyMessage \<Rightarrow> 'e \<Rightarrow> 'e" where
  "write_alarm_info X d = block
     [new_xml_element_int X (an_alarm_type d) ''AlarmType'',
      (if an_event_type d \<noteq> 0
       then InsertNewChildElement X ''AlarmTypeParam'' (new_xml_element_int X (an_event_type d) ''EventType'')
       else (\<lambda>e. e))]"

definition parse_AlarmNotify :: "'e tinyxml2 \<Rightarrow> ('e, AlarmNotifyMessage) parse_detail" where
  "parse_AlarmNotify X root m =
     (let d = mb_detail m in (True, m, block
        [new_xml_element_string X (an_alarm_priority d) ''AlarmPriority'',
         new_xml_element_string X (an_alarm_method d) ''AlarmMethod'',
         new_xml_element_string X (an_alarm_time d) ''AlarmTime'',
         new_xml_element_string X (an_alarm_description d) ''AlarmDescription'',
         new_if_double X (an_longitude d) ''Longitude'',
         new_if_double X (an_latitude d) ''Latitude'',
         (if an_alarm_type d \<noteq> 0 then InsertNewChildElement X ''Info'' (write_alarm_info X d) else (\<lambda>e. e)),
         append_items X ''ExtraInfo'' (\<lambda>it. SetText X it) (an_extra_info d)] root))"

text \<open>The negative zero arrives as zero, and the event type only with an alarm type.\<close>

definition AlarmNotify_after :: "AlarmNotifyMessage \<Rightarrow> AlarmNotifyMessage" where
  "AlarmNotify_after d = d
     \<lparr>an_longitude := (if double_true (an_longitude d) then an_longitude d else 0),
      an_latitude := (if double_true (an_latitude d) then an_latitude d else 0),
      an_event_type := (if an_alarm_type d = 0 then 0 else an_event_type d)\<rparr>"

lemma alarm_info_name: "tinyxml2_laws X \<Longrightarrow> Name X (write_alarm_info X d e) = Name X e"
  by (simp add: write_alarm_info_def xml_simps)

lemma alarm_info_back:
  assumes "tinyxml2_laws X"
  shows "snd (from_xml_element_int X 0 (write_alarm_info X d (NewElement X k)) ''AlarmType'') = an_alarm_type d"
    "FirstChildElement X (write_alarm_info X d (NewElement X k)) ''AlarmTypeParam''
      = (if an_event_type d = 0 then None
         else Some (new_xml_element_int X (an_event_type d) ''EventType'' (NewElement X ''AlarmTypeParam'')))"
  using assms by (simp_all add: write_alarm_info_def xml_simps)

lemma AlarmNotify_written:
  assumes "tinyxml2_laws X" "header_only X r"
  shows "snd (from_xml_element_string X [] (snd (snd (parse_AlarmNotify X r m))) ''AlarmPriority'') = an_alarm_priority (mb_detail m)"
    "snd (from_xml_element_string X [] (snd (snd (parse_AlarmNotify X r m))) ''AlarmMethod'') = an_alarm_method (mb_detail m)"
    "snd (from_xml_element_string X [] (snd (snd (parse_AlarmNotify X r m))) ''AlarmTime'') = an_alarm_time (mb_detail m)"
    "snd (from_xml_element_string X [] (snd (snd (parse_AlarmNotify X r m))) ''AlarmDescription'') = an_alarm_description (mb_detail m)"
    "FirstChildElement X (snd (snd (parse_AlarmNotify X r m))) ''Info''
      = (if an_alarm_type (mb_detail m) = 0 then None else Some (write_alarm_info X (mb_detail m) (NewElement X ''Info'')))"
    "ChildElementsNamed X (snd (snd (parse_AlarmNotify X r m))) ''ExtraInfo''
      = map (\<lambda>it. SetText X it (NewElement X ''ExtraInfo'')) (an_extra_info (mb_detail m))"
  using assms
  by (simp_all add: parse_AlarmNotify_def codec_simps new_if_double_pass string_back_old append_items_found alarm_info_name xml_simps)

lemma AlarmNotify_doubles:
  assumes "tinyxml2_laws X" "header_only X r" "finite_double (an_longitude (mb_detail m))" "finite_double (an_latitude (mb_detail m))"
  shows "snd (from_xml_element_double X 0 (snd (snd (parse_AlarmNotify X r m))) ''Longitude'')
      = (if double_true (an_longitude (mb_detail m)) then an_longitude (mb_detail m) else 0)"
    "snd (from_xml_element_double X 0 (snd (snd (parse_AlarmNotify X r m))) ''Latitude'')
      = (if double_true (an_latitude (mb_detail m)) then an_latitude (mb_detail m) else 0)"
  using assms
  by (simp_all add: parse_AlarmNotify_def codec_simps from_xml_element_double_def MAKE_FROM_XML_ELE_def select_element_def
      new_if_double_def alarm_info_name xml_simps)

interpretation AlarmNotify: message_codec load_AlarmNotify parse_AlarmNotify AlarmNotifyMessage_default AlarmNotify_after
  "\<lambda>i r d. finite_double (an_longitude d) \<and> finite_double (an_latitude d) \<and> [] \<notin> set (an_extra_info d)"
proof (unfold_locales, goal_cases)
  case (1 X m)
  then show ?case by (simp add: parse_AlarmNotify_def codec_simps new_if_double_pass alarm_info_name xml_simps)
next
  case (2 X m r w)
  then have X: "tinyxml2_laws X" and d: "finite_double (an_longitude (mb_detail m))" "finite_double (an_latitude (mb_detail m))" by simp_all
  obtain root where root: "snd (snd (parse_AlarmNotify X r m)) = root" by simp
  note facts = AlarmNotify_written [OF X 2(3), of m, unfolded root] AlarmNotify_doubles [OF X 2(3) d, unfolded root]
  have texts: "strings_of_texts X (map (\<lambda>it. SetText X it (NewElement X ''ExtraInfo'')) (an_extra_info (mb_detail m)))
      = Inr (an_extra_info (mb_detail m))"
    using 2(2) strings_back [OF X] by blast
  have event: "snd (from_xml_element_int X 0 (new_xml_element_int X (an_event_type (mb_detail m)) ''EventType''
      (NewElement X ''AlarmTypeParam'')) ''EventType'') = an_event_type (mb_detail m)"
    using X by (simp add: xml_simps)
  have w: "mb_detail w = \<lparr>an_alarm_priority = [], an_alarm_method = [], an_alarm_time = [],
     an_alarm_description = [], an_longitude = 0, an_latitude = 0, an_alarm_type = 0, an_event_type = 0, an_extra_info = []\<rparr>"
    using 2(4) by (simp add: AlarmNotifyMessage_default_def)
  show ?case
    unfolding root load_AlarmNotify_def w Let_def
    by (cases "an_alarm_type (mb_detail m) = 0"; cases "an_event_type (mb_detail m) = 0")
      (simp_all add: facts texts event alarm_info_back [OF X] accept_def AlarmNotify_after_def)
qed

definition AlarmNotifyResponseMessage_new :: "string \<Rightarrow> ResultType \<Rightarrow> string \<Rightarrow> ('e, ResultResponse) MessageBase" where
  "AlarmNotifyResponseMessage_new device_id result reason =
     MessageBase_new Root_Response Cmd_Alarm (Some device_id) reason \<lparr>rr_result = result\<rparr>"

definition load_AlarmNotifyResponse :: "'e tinyxml2 \<Rightarrow> ('e, ResultResponse) load_detail" where
  "load_AlarmNotifyResponse X root m =
     (let (ok, r) = from_Result X (rr_result (mb_detail m)) root ''Result'';
          d = (mb_detail m)\<lparr>rr_result := r\<rparr>
      in if \<not> ok then Inr (reject ''invalid result'' (m\<lparr>mb_detail := d\<rparr>)) else Inr (accept d m))"

definition parse_AlarmNotifyResponse :: "'e tinyxml2 \<Rightarrow> ('e, ResultResponse) parse_detail" where
  "parse_AlarmNotifyResponse X root m =
     (if rr_result (mb_detail m) = Result_invalid then (False, m\<lparr>mb_error := ''invalid result''\<rparr>, root)
      else (True, m, new_Result X (rr_result (mb_detail m)) ''Result'' root))"

interpretation AlarmNotifyResponse: message_codec load_AlarmNotifyResponse parse_AlarmNotifyResponse
  ResultResponse_default "\<lambda>d. d" "\<lambda>i r d. rr_result d \<noteq> Result_invalid"
  by unfold_locales
    (simp_all add: load_AlarmNotifyResponse_def parse_AlarmNotifyResponse_def ResultResponse_default_def
      codec_simps enum_codec xml_simps)

section \<open>The single cruise track\<close>

record CruiseTrackResponseMessage =
  cs_sum_num :: i32 \<comment> \<open>\<open>ListMessageBase::sum_num_\<close>\<close>
  cs_result :: ResultType
  cs_name :: string
  cs_cruise_points :: "CruisePointType list"

definition CruiseTrackResponseMessage_default :: CruiseTrackResponseMessage where
  "CruiseTrackResponseMessage_default = \<lparr>cs_sum_num = 0, cs_result = Result_invalid, cs_name = [], cs_cruise_points = []\<rparr>"

definition CruiseTrackResponseMessage_new ::
    "string \<Rightarrow> string \<Rightarrow> i32 \<Rightarrow> CruisePointType list \<Rightarrow> ResultType \<Rightarrow> string \<Rightarrow> ('e, CruiseTrackResponseMessage) MessageBase" where
  "CruiseTrackResponseMessage_new device_id name sum_num l result reason =
     MessageBase_new Root_Response Cmd_CruiseTrackQuery (Some device_id) reason
       \<lparr>cs_sum_num = sum_num, cs_result = result, cs_name = name, cs_cruise_points = l\<rparr>"

definition CruiseTrackResponseMessage_short ::
    "string \<Rightarrow> i32 \<Rightarrow> CruisePointType list \<Rightarrow> ('e, CruiseTrackResponseMessage) MessageBase" where
  "CruiseTrackResponseMessage_short device_id sum_num l =
     MessageBase_new Root_Response Cmd_CruiseTrackQuery (Some device_id) []
       \<lparr>cs_sum_num = sum_num, cs_result = Result_OK, cs_name = [], cs_cruise_points = l\<rparr>"

definition write_CruisePoint :: "'e tinyxml2 \<Rightarrow> CruisePointType \<Rightarrow> 'e \<Rightarrow> 'e" where
  "write_CruisePoint X v = block
     [new_xml_element_int X (cp_PresetIndex v) ''PresetIndex'',
      new_xml_element_int X (cp_StayTime v) ''StayTime'',
      new_xml_element_int X (cp_Speed v) ''Speed'']"

definition read_CruisePoint :: "'e tinyxml2 \<Rightarrow> CruisePointType \<Rightarrow> 'e \<Rightarrow> CruisePointType" where
  "read_CruisePoint X v item = v
     \<lparr>cp_PresetIndex := snd (from_xml_element_int X (cp_PresetIndex v) item ''PresetIndex''),
      cp_StayTime := snd (from_xml_element_int X (cp_StayTime v) item ''StayTime''),
      cp_Speed := snd (from_xml_element_int X (cp_Speed v) item ''Speed'')\<rparr>"

interpretation CruisePoint: struct_codec write_CruisePoint read_CruisePoint CruisePointType_default "\<lambda>v. v" "\<lambda>v. True"
  by unfold_locales (simp_all add: write_CruisePoint_def read_CruisePoint_def CruisePointType_default_def xml_simps)

definition load_CruiseTrack :: "'e tinyxml2 \<Rightarrow> ('e, CruiseTrackResponseMessage) load_detail" where
  "load_CruiseTrack X root m =
     (let (ok, r) = from_Result X (cs_result (mb_detail m)) root ''Result''; d = (mb_detail m)\<lparr>cs_result := r\<rparr>
      in if \<not> ok then Inr (reject ''Result not found'' (m\<lparr>mb_detail := d\<rparr>))
         else let d = d\<lparr>cs_sum_num := snd (from_xml_element_int X (cs_sum_num d) root ''SumNum''),
                        cs_name := snd (from_xml_element_string X (cs_name d) root ''Name'')\<rparr>
         in case FirstChildElement X root ''CruisePointList'' of
              None \<Rightarrow> Inr (accept d m)
            | Some l \<Rightarrow> Inr (accept (d\<lparr>cs_cruise_points := cs_cruise_points d @
                 map (read_CruisePoint X CruisePointType_default) (ChildElementsNamed X l ''CruisePoint'')\<rparr>) m))"

text \<open>The writer reads the name from the document it writes.\<close>

definition parse_CruiseTrack :: "'e tinyxml2 \<Rightarrow> ('e, CruiseTrackResponseMessage) parse_detail" where
  "parse_CruiseTrack X root m =
     (let d = mb_detail m;
          root = block [new_Result X (cs_result d) ''Result'', new_xml_element_int X (cs_sum_num d) ''SumNum''] root;
          m = m\<lparr>mb_detail := d\<lparr>cs_name := snd (from_xml_element_string X (cs_name d) root ''Name'')\<rparr>\<rparr>
      in (True, m,
         if cs_cruise_points d \<noteq> []
         then InsertNewChildElement X ''CruisePointList'' (block
            [SetAttribute X ''Num'' (int (length (cs_cruise_points d))),
             append_items X ''CruisePoint'' (write_CruisePoint X) (cs_cruise_points d)]) root
         else root))"

interpretation CruiseTrack: message_codec load_CruiseTrack parse_CruiseTrack
  CruiseTrackResponseMessage_default "\<lambda>d. d\<lparr>cs_name := []\<rparr>" "\<lambda>i r d. cs_result d \<noteq> Result_invalid"
proof (unfold_locales, goal_cases)
  case (1 X m)
  then show ?case by (simp add: parse_CruiseTrack_def codec_simps enum_codec append_items_sel xml_simps)
next
  case (2 X m r w)
  then show ?case
    by (cases "cs_cruise_points (mb_detail m) = []")
      (simp_all add: parse_CruiseTrack_def load_CruiseTrack_def CruiseTrackResponseMessage_default_def
        CruisePoint.name_new CruisePoint.get_put append_items_sel append_items_found o_def codec_simps enum_codec xml_simps)
qed

end
