(* ===== verification/Catalog.thy ===== *)
theory Catalog
  imports Message_Notify
begin

text \<open>
  The catalog of devices (\<open>src/message/catalog_message.cpp\<close>). An item is read by a walk over its child elements: each name
  selects the member to read, from two tables. The lemmas say what such a walk makes of one member, so that the round trip of
  an item is proved member by member.
\<close>

section \<open>The query\<close>

record CatalogRequestMessage =
  cq_start_time :: string
  cq_end_time :: string

definition CatalogRequestMessage_default :: CatalogRequestMessage where
  "CatalogRequestMessage_default = \<lparr>cq_start_time = [], cq_end_time = []\<rparr>"

definition CatalogRequestMessage_new :: "string \<Rightarrow> string \<Rightarrow> string \<Rightarrow> ('e, CatalogRequestMessage) MessageBase" where
  "CatalogRequestMessage_new device_id start_time end_time =
     MessageBase_new Root_Query Cmd_Catalog (Some device_id) [] \<lparr>cq_start_time = start_time, cq_end_time = end_time\<rparr>"

text \<open>\<open>device_id_->empty()\<close> is undefined without a device id.\<close>

definition load_CatalogRequest :: "'e tinyxml2 \<Rightarrow> ('e, CatalogRequestMessage) load_detail" where
  "load_CatalogRequest X root m =
     (case mb_device_id m of
        None \<Rightarrow> Inl NoValue
      | Some i \<Rightarrow>
          if i = [] then Inr (reject ''The DeviceID field invalid'' m)
          else let d = mb_detail m in Inr (accept (d
            \<lparr>cq_start_time := snd (from_xml_element_string X (cq_start_time d) root ''StartTime''),
             cq_end_time := snd (from_xml_element_string X (cq_end_time d) root ''EndTime'')\<rparr>) m))"

definition parse_CatalogRequest :: "'e tinyxml2 \<Rightarrow> ('e, CatalogRequestMessage) parse_detail" where
  "parse_CatalogRequest X root m =
     (let d = mb_detail m
      in (True, m, block [new_if_text X (cq_start_time d) ''StartTime'', new_if_text X (cq_end_time d) ''EndTime''] root))"

interpretation CatalogRequest: message_codec load_CatalogRequest parse_CatalogRequest CatalogRequestMessage_default
  "\<lambda>d. d" "\<lambda>i r d. i \<noteq> None \<and> i \<noteq> Some []"
  by unfold_locales
    (auto simp: parse_CatalogRequest_def load_CatalogRequest_def CatalogRequestMessage_default_def codec_simps xml_simps)

section \<open>Walking over child elements\<close>

definition visit :: "'e tinyxml2 \<Rightarrow> (string \<Rightarrow> 'v \<Rightarrow> 'e \<Rightarrow> 'v) \<Rightarrow> 'e \<Rightarrow> 'v \<Rightarrow> 'v" where
  "visit X fld e v = fold (\<lambda>c v. fld (Name X c) v c) (ChildElements X e) v"

lemma visit_sel:
  assumes "\<And>k' v c. k' \<noteq> k \<Longrightarrow> sel (fld k' v c) = sel v" and "\<And>v c. sel (fld k v c) = g (sel v) c"
  shows "sel (visit X fld e v) = fold (\<lambda>c x. g x c) (ChildElementsNamed X e k) (sel v)"
proof -
  have "sel (fold (\<lambda>c v. fld (Name X c) v c) cs v) = fold (\<lambda>c x. g x c) (filter (\<lambda>c. Name X c = k) cs) (sel v)" for cs
    by (induction cs arbitrary: v) (simp_all add: assms)
  then show ?thesis by (simp add: visit_def ChildElementsNamed_def)
qed

lemma visit_keeps:
  assumes "\<And>k v c. sel v = x \<Longrightarrow> sel (fld k v c) = x" and "sel v = x"
  shows "sel (visit X fld e v) = x"
proof -
  have "sel (fold (\<lambda>c v. fld (Name X c) v c) cs v) = x" for cs
    using assms(2) by (induction cs arbitrary: v) (simp_all add: assms(1))
  then show ?thesis by (simp add: visit_def)
qed

text \<open>A walk that looks names up in a table.\<close>

definition by_name :: "(string \<times> ('v \<Rightarrow> 'e \<Rightarrow> 'v)) list \<Rightarrow> string \<Rightarrow> 'v \<Rightarrow> 'e \<Rightarrow> 'v" where
  "by_name table name v c = (case map_of table name of None \<Rightarrow> v | Some f \<Rightarrow> f v c)"

lemma by_name_other:
  assumes "list_all (\<lambda>(k', f). k' \<noteq> k \<longrightarrow> (\<forall>v c. sel (f v c) = sel v)) table" and "k' \<noteq> k"
  shows "sel (by_name table k' v c) = sel v"
  using assms by (induction table) (auto simp: by_name_def)

lemma by_name_never:
  assumes "list_all (\<lambda>(k, f). \<forall>v c. sel (f v c) = sel v) table"
  shows "sel (by_name table k v c) = sel v"
  using assms by (induction table) (auto simp: by_name_def)

lemma visit_table:
  assumes "list_all (\<lambda>(k', f). k' \<noteq> k \<longrightarrow> (\<forall>v c. sel (f v c) = sel v)) table"
    and "map_of table k \<noteq> None" "\<And>v c. sel (the (map_of table k) v c) = g (sel v) c"
  shows "sel (visit X (by_name table) e v) = fold (\<lambda>c x. g x c) (ChildElementsNamed X e k) (sel v)"
  by (rule visit_sel) (use by_name_other [OF assms(1)] assms(2,3) in \<open>auto simp: by_name_def\<close>)

section \<open>Items\<close>

definition sub_elements_map :: "'e tinyxml2 \<Rightarrow> (string \<times> (ItemTypeInfoDetail \<Rightarrow> 'e \<Rightarrow> ItemTypeInfoDetail)) list" where
  "sub_elements_map X =
     [(''PTZType'', \<lambda>v c. v\<lparr>id_PTZType := snd (from_xml_element_string X (id_PTZType v) c [])\<rparr>),
      (''PhotoelectricImagingType'',
        \<lambda>v c. v\<lparr>id_PhotoelectricImagingType := snd (from_xml_element_string X (id_PhotoelectricImagingType v) c [])\<rparr>),
      (''CapturePositionType'', \<lambda>v c. v\<lparr>id_CapturePositionType := snd (from_xml_element_string X (id_CapturePositionType v) c [])\<rparr>),
      (''RoomType'', \<lambda>v c. v\<lparr>id_RoomType := snd (from_xml_element_int X (id_RoomType v) c [])\<rparr>),
      (''SupplyLightType'', \<lambda>v c. v\<lparr>id_SupplyLightType := snd (from_xml_element_int X (id_SupplyLightType v) c [])\<rparr>),
      (''DirectionType'',
        \<lambda>v c. v\<lparr>id_DirectionType := snd (from_xml_element_opt (from_xml_element_int X) (id_DirectionType v) c [])\<rparr>),
      (''Resolution'', \<lambda>v c. v\<lparr>id_Resolution := snd (from_xml_element_string X (id_Resolution v) c [])\<rparr>),
      (''StreamNumberList'', \<lambda>v c. v\<lparr>id_StreamNumberList := snd (from_xml_element_string X (id_StreamNumberList v) c [])\<rparr>),
      (''DownloadSpeed'', \<lambda>v c. v\<lparr>id_DownloadSpeed := snd (from_xml_element_string X (id_DownloadSpeed v) c [])\<rparr>),
      (''SVCSpaceSupportMode'', \<lambda>v c. v\<lparr>id_SVCSpaceSupportMode := snd (from_xml_element_int X (id_SVCSpaceSupportMode v) c [])\<rparr>),
      (''SVCTimeSupportMode'', \<lambda>v c. v\<lparr>id_SVCTimeSupportMode := snd (from_xml_element_int X (id_SVCTimeSupportMode v) c [])\<rparr>),
      (''SSVCRatioSupportList'', \<lambda>v c. v\<lparr>id_SSVCRatioSupportList := snd (from_xml_element_string X (id_SSVCRatioSupportList v) c [])\<rparr>),
      (''MobileDeviceType'',
        \<lambda>v c. v\<lparr>id_MobileDeviceType := snd (from_xml_element_opt (from_xml_element_int X) (id_MobileDeviceType v) c [])\<rparr>),
      (''HorizontalFieldAngle'',
        \<lambda>v c. v\<lparr>id_HorizontalFieldAngle := snd (from_xml_element_opt (from_xml_element_double X) (id_HorizontalFieldAngle v) c [])\<rparr>),
      (''VerticalFieldAngle'',
        \<lambda>v c. v\<lparr>id_VerticalFieldAngle := snd (from_xml_element_opt (from_xml_element_double X) (id_VerticalFieldAngle v) c [])\<rparr>),
      (''MaxViewDistance'',
        \<lambda>v c. v\<lparr>id_MaxViewDistance := snd (from_xml_element_opt (from_xml_element_double X) (id_MaxViewDistance v) c [])\<rparr>),
      (''GrassrootsCode'', \<lambda>v c. v\<lparr>id_GrassrootsCode := snd (from_xml_element_string X (id_GrassrootsCode v) c [])\<rparr>),
      (''PointType'', \<lambda>v c. v\<lparr>id_PointType := snd (from_xml_element_opt (from_xml_element_int X) (id_PointType v) c [])\<rparr>),
      (''PointCommonName'', \<lambda>v c. v\<lparr>id_PointCommonName := snd (from_xml_element_string X (id_PointCommonName v) c [])\<rparr>),
      (''MAC'', \<lambda>v c. v\<lparr>id_MAC := snd (from_xml_element_string X (id_MAC v) c [])\<rparr>),
      (''FunctionType'', \<lambda>v c. v\<lparr>id_FunctionType := snd (from_xml_element_string X (id_FunctionType v) c [])\<rparr>),
      (''EncodeType'', \<lambda>v c. v\<lparr>id_EncodeType := snd (from_xml_element_string X (id_EncodeType v) c [])\<rparr>),
      (''InstallTime'', \<lambda>v c. v\<lparr>id_InstallTime := snd (from_xml_element_string X (id_InstallTime v) c [])\<rparr>),
      (''ManagementUnit'', \<lambda>v c. v\<lparr>id_ManagementUnit := snd (from_xml_element_string X (id_ManagementUnit v) c [])\<rparr>),
      (''ContactInfo'', \<lambda>v c. v\<lparr>id_ContactInfo := snd (from_xml_element_string X (id_ContactInfo v) c [])\<rparr>),
      (''RecordSaveDays'',
        \<lambda>v c. v\<lparr>id_RecordSaveDays := snd (from_xml_element_opt (from_xml_element_int X) (id_RecordSaveDays v) c [])\<rparr>),
      (''IndustrialClassification'',
        \<lambda>v c. v\<lparr>id_IndustrialClassification := snd (from_xml_element_string X (id_IndustrialClassification v) c [])\<rparr>)]"

definition fields_map :: "'e tinyxml2 \<Rightarrow> (string \<times> (ItemTypeInfo \<Rightarrow> 'e \<Rightarrow> ItemTypeInfo)) list" where
  "fields_map X =
     [(''DeviceID'', \<lambda>v c. v\<lparr>it_DeviceID := snd (from_xml_element_string X (it_DeviceID v) c [])\<rparr>),
      (''Name'', \<lambda>v c. v\<lparr>it_Name := snd (from_xml_element_string X (it_Name v) c [])\<rparr>),
      (''Manufacturer'', \<lambda>v c. v\<lparr>it_Manufacturer := snd (from_xml_element_string X (it_Manufacturer v) c [])\<rparr>),
      (''Model'', \<lambda>v c. v\<lparr>it_Model := snd (from_xml_element_string X (it_Model v) c [])\<rparr>),
      (''CivilCode'', \<lambda>v c. v\<lparr>it_CivilCode := snd (from_xml_element_string X (it_CivilCode v) c [])\<rparr>),
      (''Block'', \<lambda>v c. v\<lparr>it_Block := snd (from_xml_element_string X (it_Block v) c [])\<rparr>),
      (''Address'', \<lambda>v c. v\<lparr>it_Address := snd (from_xml_element_string X (it_Address v) c [])\<rparr>),
      (''Parental'', \<lambda>v c. v\<lparr>it_Parental := snd (from_xml_element_opt (from_xml_element_int X) (it_Parental v) c [])\<rparr>),
      (''ParentID'', \<lambda>v c. v\<lparr>it_ParentID := snd (from_xml_element_string X (it_ParentID v) c [])\<rparr>),
      (''RegisterWay'', \<lambda>v c. v\<lparr>it_RegisterWay := snd (from_xml_element_opt (from_xml_element_int X) (it_RegisterWay v) c [])\<rparr>),
      (''SecurityLevelCode'', \<lambda>v c. v\<lparr>it_SecurityLevelCode := snd (from_xml_element_string X (it_SecurityLevelCode v) c [])\<rparr>),
      (''Secrecy'', \<lambda>v c. v\<lparr>it_Secrecy := snd (from_xml_element_opt (from_xml_element_int X) (it_Secrecy v) c [])\<rparr>),
      (''IPAddress'', \<lambda>v c. v\<lparr>it_IPAddress := snd (from_xml_element_string X (it_IPAddress v) c [])\<rparr>),
      (''Port'', \<lambda>v c. v\<lparr>it_Port := snd (from_xml_element_opt (from_xml_element_int X) (it_Port v) c [])\<rparr>),
      (''Password'', \<lambda>v c. v\<lparr>it_Password := snd (from_xml_element_string X (it_Password v) c [])\<rparr>),
      (''Status'', \<lambda>v c. v\<lparr>it_Status := Some (snd (from_xml_element_enum X StatusTypeMap Status_invalid Status_invalid c []))\<rparr>),
      (''Longitude'', \<lambda>v c. v\<lparr>it_Longitude := snd (from_xml_element_opt (from_xml_element_double X) (it_Longitude v) c [])\<rparr>),
      (''Latitude'', \<lambda>v c. v\<lparr>it_Latitude := snd (from_xml_element_opt (from_xml_element_double X) (it_Latitude v) c [])\<rparr>),
      (''Event'', \<lambda>v c. v\<lparr>it_Event := Some (snd (from_xml_element_enum X ItemEventTypeMap Event_invalid Event_invalid c []))\<rparr>)]"

definition item_field :: "'e tinyxml2 \<Rightarrow> string \<Rightarrow> ItemTypeInfo \<Rightarrow> 'e \<Rightarrow> ItemTypeInfo" where
  "item_field X name v c =
     (if strcaseeq name ''Info'' then v\<lparr>it_Info := Some (visit X (by_name (sub_elements_map X)) c ItemTypeInfoDetail_default)\<rparr>
      else by_name (fields_map X) name v c)"

definition read_Item :: "'e tinyxml2 \<Rightarrow> ItemTypeInfo \<Rightarrow> 'e \<Rightarrow> ItemTypeInfo" where
  "read_Item X v item = visit X (item_field X) item v"

text \<open>The direction is written as \<open>Direction\<close>, the business group has no reader.\<close>

definition write_ItemDetail :: "'e tinyxml2 \<Rightarrow> ItemTypeInfoDetail \<Rightarrow> 'e \<Rightarrow> 'e" where
  "write_ItemDetail X v = block
     [new_if_text X (id_PTZType v) ''PTZType'',
      new_if_text X (id_PhotoelectricImagingType v) ''PhotoelectricImagingType'',
      new_if_text X (id_CapturePositionType v) ''CapturePositionType'',
      new_xml_element_int X (id_RoomType v) ''RoomType'',
      new_xml_element_int X (id_SupplyLightType v) ''SupplyLightType'',
      new_xml_element_opt (new_xml_element_int X) (id_DirectionType v) ''Direction'',
      new_if_text X (id_Resolution v) ''Resolution'',
      new_if_text X (id_StreamNumberList v) ''StreamNumberList'',
      new_if_text X (id_DownloadSpeed v) ''DownloadSpeed'',
      new_xml_element_int X (id_SVCSpaceSupportMode v) ''SVCSpaceSupportMode'',
      new_xml_element_int X (id_SVCTimeSupportMode v) ''SVCTimeSupportMode'',
      new_if_text X (id_SSVCRatioSupportList v) ''SSVCRatioSupportList'',
      new_xml_element_opt (new_xml_element_int X) (id_MobileDeviceType v) ''MobileDeviceType'',
      new_xml_element_opt (new_xml_element_double X) (id_HorizontalFieldAngle v) ''HorizontalFieldAngle'',
      new_xml_element_opt (new_xml_element_double X) (id_VerticalFieldAngle v) ''VerticalFieldAngle'',
      new_xml_element_opt (new_xml_element_double X) (id_MaxViewDistance v) ''MaxViewDistance'',
      new_if_text X (id_GrassrootsCode v) ''GrassrootsCode'',
      new_xml_element_opt (new_xml_element_int X) (id_PointType v) ''PointType'',
      new_if_text X (id_PointCommonName v) ''PointCommonName'',
      new_if_text X (id_MAC v) ''MAC'',
      new_if_text X (id_FunctionType v) ''FunctionType'',
      new_if_text X (id_EncodeType v) ''EncodeType'',
      new_if_text X (id_InstallTime v) ''InstallTime'',
      new_if_text X (id_ManagementUnit v) ''ManagementUnit'',
      new_if_text X (id_ContactInfo v) ''ContactInfo'',
      new_xml_element_opt (new_xml_element_int X) (id_RecordSaveDays v) ''RecordSaveDays'',
      new_if_text X (id_IndustrialClassification v) ''IndustrialClassification'']"

definition write_Item :: "'e tinyxml2 \<Rightarrow> ItemTypeInfo \<Rightarrow> 'e \<Rightarrow> 'e" where
  "write_Item X it = block
     [new_xml_element_string X (it_DeviceID it) ''DeviceID'',
      new_if_text X (it_Name it) ''Name'',
      new_if_text X (it_Manufacturer it) ''Manufacturer'',
      new_if_text X (it_Model it) ''Model'',
      new_if_text X (it_CivilCode it) ''CivilCode'',
      new_if_text X (it_Block it) ''Block'',
      new_if_text X (it_Address it) ''Address'',
      new_xml_element_opt (new_xml_element_int X) (it_Parental it) ''Parental'',
      new_if_text X (it_ParentID it) ''ParentID'',
      new_xml_element_opt (new_xml_element_int X) (it_RegisterWay it) ''RegisterWay'',
      new_if_text X (it_SecurityLevelCode it) ''SecurityLevelCode'',
      new_xml_element_opt (new_xml_element_int X) (it_Secrecy it) ''Secrecy'',
      new_if_text X (it_IPAddress it) ''IPAddress'',
      new_xml_element_opt (new_xml_element_int X) (it_Port it) ''Port'',
      new_if_text X (it_Password it) ''Password'',
      (case it_Status it of
         None \<Rightarrow> (\<lambda>e. e)
       | Some s \<Rightarrow> if s \<noteq> Status_invalid then new_xml_element_enum X StatusTypeMap Status_invalid s ''Status'' else (\<lambda>e. e)),
      new_xml_element_opt (new_xml_element_double X) (it_Longitude it) ''Longitude'',
      new_xml_element_opt (new_xml_element_double X) (it_Latitude it) ''Latitude'',
      new_if_text X (it_BusinessGroupID it) ''BusinessGroupID'',
      (case it_Event it of None \<Rightarrow> (\<lambda>e. e) | Some v \<Rightarrow> new_xml_element_enum X ItemEventTypeMap Event_invalid v ''Event''),
      (case it_Info it of None \<Rightarrow> (\<lambda>e. e) | Some v \<Rightarrow> InsertNewChildElement X ''Info'' (write_ItemDetail X v))]"

section \<open>The round trip of an item\<close>

definition ItemDetail_after :: "ItemTypeInfoDetail \<Rightarrow> ItemTypeInfoDetail" where
  "ItemDetail_after v = v
     \<lparr>id_DirectionType := None, id_MobileDeviceType := None, id_HorizontalFieldAngle := None, id_VerticalFieldAngle := None,
      id_MaxViewDistance := None, id_PointType := None,
      id_GrassrootsCode := (if id_GrassrootsCode v = [] then ''000000'' else id_GrassrootsCode v),
      id_RecordSaveDays := Some (case id_RecordSaveDays v of None \<Rightarrow> 0 | Some n \<Rightarrow> n)\<rparr>"

definition Item_after :: "ItemTypeInfo \<Rightarrow> ItemTypeInfo" where
  "Item_after it = it
     \<lparr>it_Parental := None, it_RegisterWay := None, it_Secrecy := None, it_Port := None, it_Longitude := None,
      it_Latitude := None, it_BusinessGroupID := [],
      it_Status := (if it_Status it = Some Status_invalid then None else it_Status it),
      it_Event := (if it_Event it = Some Event_invalid then None else it_Event it),
      it_Info := map_option ItemDetail_after (it_Info it)\<rparr>"

text \<open>What each member of a walk depends on.\<close>

lemma detail_member1:
  "id_PTZType (visit X (by_name (sub_elements_map X)) e v) = fold (\<lambda>c x. snd (from_xml_element_string X x c [])) (ChildElementsNamed X e ''PTZType'') (id_PTZType v)"
  "id_PhotoelectricImagingType (visit X (by_name (sub_elements_map X)) e v) = fold (\<lambda>c x. snd (from_xml_element_string X x c [])) (ChildElementsNamed X e ''PhotoelectricImagingType'') (id_PhotoelectricImagingType v)"
  "id_CapturePositionType (visit X (by_name (sub_elements_map X)) e v) = fold (\<lambda>c x. snd (from_xml_element_string X x c [])) (ChildElementsNamed X e ''CapturePositionType'') (id_CapturePositionType v)"
  "id_RoomType (visit X (by_name (sub_elements_map X)) e v) = fold (\<lambda>c x. snd (from_xml_element_int X x c [])) (ChildElementsNamed X e ''RoomType'') (id_RoomType v)"
  "id_SupplyLightType (visit X (by_name (sub_elements_map X)) e v) = fold (\<lambda>c x. snd (from_xml_element_int X x c [])) (ChildElementsNamed X e ''SupplyLightType'') (id_SupplyLightType v)"
  "id_DirectionType (visit X (by_name (sub_elements_map X)) e v) = fold (\<lambda>c x. snd (from_xml_element_opt (from_xml_element_int X) x c [])) (ChildElementsNamed X e ''DirectionType'') (id_DirectionType v)"
  "id_Resolution (visit X (by_name (sub_elements_map X)) e v) = fold (\<lambda>c x. snd (from_xml_element_string X x c [])) (ChildElementsNamed X e ''Resolution'') (id_Resolution v)"
  "id_StreamNumberList (visit X (by_name (sub_elements_map X)) e v) = fold (\<lambda>c x. snd (from_xml_element_string X x c [])) (ChildElementsNamed X e ''StreamNumberList'') (id_StreamNumberList v)"
  "id_DownloadSpeed (visit X (by_name (sub_elements_map X)) e v) = fold (\<lambda>c x. snd (from_xml_element_string X x c [])) (ChildElementsNamed X e ''DownloadSpeed'') (id_DownloadSpeed v)"
  by - (rule visit_table; simp add: sub_elements_map_def)+

lemma detail_member2:
  "id_SVCSpaceSupportMode (visit X (by_name (sub_elements_map X)) e v) = fold (\<lambda>c x. snd (from_xml_element_int X x c [])) (ChildElementsNamed X e ''SVCSpaceSupportMode'') (id_SVCSpaceSupportMode v)"
  "id_SVCTimeSupportMode (visit X (by_name (sub_elements_map X)) e v) = fold (\<lambda>c x. snd (from_xml_element_int X x c [])) (ChildElementsNamed X e ''SVCTimeSupportMode'') (id_SVCTimeSupportMode v)"
  "id_SSVCRatioSupportList (visit X (by_name (sub_elements_map X)) e v) = fold (\<lambda>c x. snd (from_xml_element_string X x c [])) (ChildElementsNamed X e ''SSVCRatioSupportList'') (id_SSVCRatioSupportList v)"
  "id_MobileDeviceType (visit X (by_name (sub_elements_map X)) e v) = fold (\<lambda>c x. snd (from_xml_element_opt (from_xml_element_int X) x c [])) (ChildElementsNamed X e ''MobileDeviceType'') (id_MobileDeviceType v)"
  "id_HorizontalFieldAngle (visit X (by_name (sub_elements_map X)) e v) = fold (\<lambda>c x. snd (from_xml_element_opt (from_xml_element_double X) x c [])) (ChildElementsNamed X e ''HorizontalFieldAngle'') (id_HorizontalFieldAngle v)"
  "id_VerticalFieldAngle (visit X (by_name (sub_elements_map X)) e v) = fold (\<lambda>c x. snd (from_xml_element_opt (from_xml_element_double X) x c [])) (ChildElementsNamed X e ''VerticalFieldAngle'') (id_VerticalFieldAngle v)"
  "id_MaxViewDistance (visit X (by_name (sub_elements_map X)) e v) = fold (\<lambda>c x. snd (from_xml_element_opt (from_xml_element_double X) x c [])) (ChildElementsNamed X e ''MaxViewDistance'') (id_MaxViewDistance v)"
  "id_GrassrootsCode (visit X (by_name (sub_elements_map X)) e v) = fold (\<lambda>c x. snd (from_xml_element_string X x c [])) (ChildElementsNamed X e ''GrassrootsCode'') (id_GrassrootsCode v)"
  "id_PointType (visit X (by_name (sub_elements_map X)) e v) = fold (\<lambda>c x. snd (from_xml_element_opt (from_xml_element_int X) x c [])) (ChildElementsNamed X e ''PointType'') (id_PointType v)"
  by - (rule visit_table; simp add: sub_elements_map_def)+

lemma detail_member3:
  "id_PointCommonName (visit X (by_name (sub_elements_map X)) e v) = fold (\<lambda>c x. snd (from_xml_element_string X x c [])) (ChildElementsNamed X e ''PointCommonName'') (id_PointCommonName v)"
  "id_MAC (visit X (by_name (sub_elements_map X)) e v) = fold (\<lambda>c x. snd (from_xml_element_string X x c [])) (ChildElementsNamed X e ''MAC'') (id_MAC v)"
  "id_FunctionType (visit X (by_name (sub_elements_map X)) e v) = fold (\<lambda>c x. snd (from_xml_element_string X x c [])) (ChildElementsNamed X e ''FunctionType'') (id_FunctionType v)"
  "id_EncodeType (visit X (by_name (sub_elements_map X)) e v) = fold (\<lambda>c x. snd (from_xml_element_string X x c [])) (ChildElementsNamed X e ''EncodeType'') (id_EncodeType v)"
  "id_InstallTime (visit X (by_name (sub_elements_map X)) e v) = fold (\<lambda>c x. snd (from_xml_element_string X x c [])) (ChildElementsNamed X e ''InstallTime'') (id_InstallTime v)"
  "id_ManagementUnit (visit X (by_name (sub_elements_map X)) e v) = fold (\<lambda>c x. snd (from_xml_element_string X x c [])) (ChildElementsNamed X e ''ManagementUnit'') (id_ManagementUnit v)"
  "id_ContactInfo (visit X (by_name (sub_elements_map X)) e v) = fold (\<lambda>c x. snd (from_xml_element_string X x c [])) (ChildElementsNamed X e ''ContactInfo'') (id_ContactInfo v)"
  "id_RecordSaveDays (visit X (by_name (sub_elements_map X)) e v) = fold (\<lambda>c x. snd (from_xml_element_opt (from_xml_element_int X) x c [])) (ChildElementsNamed X e ''RecordSaveDays'') (id_RecordSaveDays v)"
  "id_IndustrialClassification (visit X (by_name (sub_elements_map X)) e v) = fold (\<lambda>c x. snd (from_xml_element_string X x c [])) (ChildElementsNamed X e ''IndustrialClassification'') (id_IndustrialClassification v)"
  by - (rule visit_table; simp add: sub_elements_map_def)+

lemma not_info:
  "\<not> strcaseeq ''DeviceID'' ''Info''" "\<not> strcaseeq ''Name'' ''Info''" "\<not> strcaseeq ''Manufacturer'' ''Info''"
  "\<not> strcaseeq ''Model'' ''Info''" "\<not> strcaseeq ''CivilCode'' ''Info''" "\<not> strcaseeq ''Block'' ''Info''"
  "\<not> strcaseeq ''Address'' ''Info''" "\<not> strcaseeq ''Parental'' ''Info''" "\<not> strcaseeq ''ParentID'' ''Info''"
  "\<not> strcaseeq ''RegisterWay'' ''Info''" "\<not> strcaseeq ''SecurityLevelCode'' ''Info''" "\<not> strcaseeq ''Secrecy'' ''Info''"
  "\<not> strcaseeq ''IPAddress'' ''Info''" "\<not> strcaseeq ''Port'' ''Info''" "\<not> strcaseeq ''Password'' ''Info''"
  "\<not> strcaseeq ''Status'' ''Info''" "\<not> strcaseeq ''Longitude'' ''Info''" "\<not> strcaseeq ''Latitude'' ''Info''"
  "\<not> strcaseeq ''Event'' ''Info''" "\<not> strcaseeq ''BusinessGroupID'' ''Info''" "strcaseeq ''Info'' ''Info''"
  by code_simp+

lemma visit_item:
  assumes "list_all (\<lambda>(k', f). k' \<noteq> k \<longrightarrow> (\<forall>v c. sel (f v c) = sel v)) (fields_map X)"
    and "map_of (fields_map X) k \<noteq> None" "\<And>v c. sel (the (map_of (fields_map X) k) v c) = g (sel v) c"
    and "\<not> strcaseeq k ''Info''" "\<And>v i. sel (v\<lparr>it_Info := i\<rparr>) = sel v"
  shows "sel (visit X (item_field X) e v) = fold (\<lambda>c x. g x c) (ChildElementsNamed X e k) (sel v)"
  by (rule visit_sel) (use by_name_other [OF assms(1)] assms(2-) in \<open>auto simp: item_field_def by_name_def\<close>)

lemma item_member1:
  "it_DeviceID (visit X (item_field X) e v) = fold (\<lambda>c x. snd (from_xml_element_string X x c [])) (ChildElementsNamed X e ''DeviceID'') (it_DeviceID v)"
  "it_Name (visit X (item_field X) e v) = fold (\<lambda>c x. snd (from_xml_element_string X x c [])) (ChildElementsNamed X e ''Name'') (it_Name v)"
  "it_Manufacturer (visit X (item_field X) e v) = fold (\<lambda>c x. snd (from_xml_element_string X x c [])) (ChildElementsNamed X e ''Manufacturer'') (it_Manufacturer v)"
  "it_Model (visit X (item_field X) e v) = fold (\<lambda>c x. snd (from_xml_element_string X x c [])) (ChildElementsNamed X e ''Model'') (it_Model v)"
  "it_CivilCode (visit X (item_field X) e v) = fold (\<lambda>c x. snd (from_xml_element_string X x c [])) (ChildElementsNamed X e ''CivilCode'') (it_CivilCode v)"
  "it_Block (visit X (item_field X) e v) = fold (\<lambda>c x. snd (from_xml_element_string X x c [])) (ChildElementsNamed X e ''Block'') (it_Block v)"
  "it_Address (visit X (item_field X) e v) = fold (\<lambda>c x. snd (from_xml_element_string X x c [])) (ChildElementsNamed X e ''Address'') (it_Address v)"
  "it_Parental (visit X (item_field X) e v) = fold (\<lambda>c x. snd (from_xml_element_opt (from_xml_element_int X) x c [])) (ChildElementsNamed X e ''Parental'') (it_Parental v)"
  "it_ParentID (visit X (item_field X) e v) = fold (\<lambda>c x. snd (from_xml_element_string X x c [])) (ChildElementsNamed X e ''ParentID'') (it_ParentID v)"
  "it_RegisterWay (visit X (item_field X) e v) = fold (\<lambda>c x. snd (from_xml_element_opt (from_xml_element_int X) x c [])) (ChildElementsNamed X e ''RegisterWay'') (it_RegisterWay v)"
  by - (rule visit_item; simp add: fields_map_def not_info)+

lemma item_member2:
  "it_SecurityLevelCode (visit X (item_field X) e v) = fold (\<lambda>c x. snd (from_xml_element_string X x c [])) (ChildElementsNamed X e ''SecurityLevelCode'') (it_SecurityLevelCode v)"
  "it_Secrecy (visit X (item_field X) e v) = fold (\<lambda>c x. snd (from_xml_element_opt (from_xml_element_int X) x c [])) (ChildElementsNamed X e ''Secrecy'') (it_Secrecy v)"
  "it_IPAddress (visit X (item_field X) e v) = fold (\<lambda>c x. snd (from_xml_element_string X x c [])) (ChildElementsNamed X e ''IPAddress'') (it_IPAddress v)"
  "it_Port (visit X (item_field X) e v) = fold (\<lambda>c x. snd (from_xml_element_opt (from_xml_element_int X) x c [])) (ChildElementsNamed X e ''Port'') (it_Port v)"
  "it_Password (visit X (item_field X) e v) = fold (\<lambda>c x. snd (from_xml_element_string X x c [])) (ChildElementsNamed X e ''Password'') (it_Password v)"
  "it_Status (visit X (item_field X) e v) = fold (\<lambda>c x. Some (snd (from_xml_element_enum X StatusTypeMap Status_invalid Status_invalid c []))) (ChildElementsNamed X e ''Status'') (it_Status v)"
  "it_Longitude (visit X (item_field X) e v) = fold (\<lambda>c x. snd (from_xml_element_opt (from_xml_element_double X) x c [])) (ChildElementsNamed X e ''Longitude'') (it_Longitude v)"
  "it_Latitude (visit X (item_field X) e v) = fold (\<lambda>c x. snd (from_xml_element_opt (from_xml_element_double X) x c [])) (ChildElementsNamed X e ''Latitude'') (it_Latitude v)"
  "it_Event (visit X (item_field X) e v) = fold (\<lambda>c x. Some (snd (from_xml_element_enum X ItemEventTypeMap Event_invalid Event_invalid c []))) (ChildElementsNamed X e ''Event'') (it_Event v)"
  by - (rule visit_item; simp add: fields_map_def not_info)+

lemma event_name: "xmap_string ItemEventTypeMap e = None \<longleftrightarrow> e = Event_invalid"
  by (cases e) (simp_all add: xmap_string_def ItemEventTypeMap_def)

lemmas event_codec = enum_write [OF event_map.enum_map_axioms] enum_read [OF _ event_map.enum_map_axioms] event_name

lemma read_texts:
  assumes "tinyxml2_laws X"
  shows "snd (from_xml_element_string X [] (SetText X s (NewElement X k)) []) = s"
    "s \<noteq> [] \<Longrightarrow> snd (from_xml_element_string X v (SetText X s (NewElement X k)) []) = s"
  using assms by (simp_all add: from_xml_element_string_def select_element_def string_back tinyxml2_lawsD)

lemma read_numbers:
  fixes i v :: i32
  assumes "tinyxml2_laws X"
  shows "snd (from_xml_element_int X v (SetTextInt X (sint i) (NewElement X k)) []) = i"
  using assms int_back (1) [OF assms, of i]
  by (simp add: from_xml_element_int_def MAKE_FROM_XML_ELE_def select_element_def)

lemma fold_unread: "fold (\<lambda>c x. snd (from_xml_element_opt f x c [])) cs None = None"
  by (induction cs) (simp_all add: from_xml_element_opt_def)

lemma read_opt_Some: "snd (from_xml_element_opt f (Some v) c k) = Some (snd (f v c k))"
  by (simp add: from_xml_element_opt_def)

lemma opt_found:
  assumes "tinyxml2_laws X" "k \<noteq> []" "ChildElementsNamed X e k = []"
  shows "ChildElementsNamed X (new_xml_element_opt (new_xml_element_int X) (v :: i32 option) k e) k
    = (case v of None \<Rightarrow> [] | Some i \<Rightarrow> [SetTextInt X (sint i) (NewElement X k)])"
  using assms by (simp add: new_xml_element_opt_def MAKE_NEW_sel Insert_found tinyxml2_lawsD split: option.split)

lemma ItemDetail_back:
  assumes "tinyxml2_laws X"
  shows "visit X (by_name (sub_elements_map X)) (write_ItemDetail X v (NewElement X ''Info'')) ItemTypeInfoDetail_default
    = ItemDetail_after v"
proof (rule ItemTypeInfoDetail.equality)
qed (use assms in \<open>simp_all add: detail_member1 detail_member2 detail_member3 write_ItemDetail_def ItemTypeInfoDetail_default_def
    ItemDetail_after_def read_texts read_numbers fold_unread opt_found read_opt_Some xml_simps split: option.split\<close>)

text \<open>The statements of an item whose condition is a value.\<close>

lemma writes_nothing: "writes_under X k (\<lambda>e. e)"
  by (simp add: writes_under_def)

lemma opt_enum_under:
  assumes "tinyxml2_laws X" and "k \<noteq> []"
  shows "writes_under X k (case v of None \<Rightarrow> (\<lambda>e. e) | Some t \<Rightarrow> new_xml_element_enum X m bad t k)"
proof (cases v)
  case None
  then show ?thesis by (simp add: writes_nothing)
next
  case (Some t)
  show ?thesis unfolding Some option.case by (rule writes_opt(4) [OF assms])
qed

lemma opt_enum_if_under:
  assumes "tinyxml2_laws X" and "k \<noteq> []"
  shows "writes_under X k (case v of None \<Rightarrow> (\<lambda>e. e) | Some t \<Rightarrow> if t \<noteq> bad' then new_xml_element_enum X m bad t k else (\<lambda>e. e))"
proof (cases "v = None \<or> v = Some bad'")
  case True
  then show ?thesis by (auto simp: writes_nothing)
next
  case False
  then obtain t where "v = Some t" "t \<noteq> bad'" by (cases v) auto
  then show ?thesis using writes_opt(4) [OF assms, of m bad t] by simp
qed

lemmas opt_enum_pass = writes_underD [OF opt_enum_under] writes_underD [OF opt_enum_if_under]

lemma info_under:
  assumes "tinyxml2_laws X" and "\<And>d. Name X (put d (NewElement X k)) = k"
  shows "writes_under X k (case v of None \<Rightarrow> (\<lambda>e. e) | Some d \<Rightarrow> InsertNewChildElement X k (put d))"
  using writes_Insert [OF assms(1), of "put _" k] assms(2) by (auto simp: writes_under_def split: option.split)

lemma ItemDetail_name: "tinyxml2_laws X \<Longrightarrow> Name X (write_ItemDetail X v e) = Name X e"
  by (simp add: write_ItemDetail_def xml_simps)

lemmas info_pass = writes_underD [OF info_under]

lemma status_found:
  assumes "tinyxml2_laws X" "ChildElementsNamed X e ''Status'' = []"
  shows "fold (\<lambda>c x. Some (snd (from_xml_element_enum X StatusTypeMap Status_invalid Status_invalid c [])))
      (ChildElementsNamed X ((case v of None \<Rightarrow> (\<lambda>e. e)
         | Some s \<Rightarrow> if s \<noteq> Status_invalid then new_xml_element_enum X StatusTypeMap Status_invalid s ''Status'' else (\<lambda>e. e)) e) ''Status'') None
    = (if v = Some Status_invalid then None else v)"
  using assms
  by (cases v) (auto simp: enum_codec Insert_found tinyxml2_lawsD from_xml_element_enum_def select_element_def)

lemma event_found:
  assumes "tinyxml2_laws X" "ChildElementsNamed X e ''Event'' = []"
  shows "fold (\<lambda>c x. Some (snd (from_xml_element_enum X ItemEventTypeMap Event_invalid Event_invalid c [])))
      (ChildElementsNamed X ((case v of None \<Rightarrow> (\<lambda>e. e) | Some t \<Rightarrow> new_xml_element_enum X ItemEventTypeMap Event_invalid t ''Event'') e) ''Event'') None
    = (if v = Some Event_invalid then None else v)"
  using assms
  by (cases v; cases "v = Some Event_invalid")
    (auto simp: event_codec enum_unwritten Insert_found tinyxml2_lawsD from_xml_element_enum_def select_element_def)

lemma group_unread:
  assumes "it_BusinessGroupID v = []"
  shows "it_BusinessGroupID (visit X (item_field X) e v) = []"
proof (rule visit_keeps [where sel = it_BusinessGroupID and x = "[]"])
  show "it_BusinessGroupID (item_field X k w c) = []" if "it_BusinessGroupID w = []" for k w c
    using that by_name_never [of it_BusinessGroupID "fields_map X"] by (simp add: item_field_def fields_map_def)
qed (rule assms)

lemma item_info:
  "it_Info (visit X (item_field X) e v)
    = fold (\<lambda>c x. Some (visit X (by_name (sub_elements_map X)) c ItemTypeInfoDetail_default))
        (filter (\<lambda>c. strcaseeq (Name X c) ''Info'') (ChildElements X e)) (it_Info v)"
proof -
  have "it_Info (by_name (fields_map X) k w c) = it_Info w" for k w c
    by (rule by_name_never) (simp add: fields_map_def)
  then have "it_Info (fold (\<lambda>c v. item_field X (Name X c) v c) cs v)
      = fold (\<lambda>c x. Some (visit X (by_name (sub_elements_map X)) c ItemTypeInfoDetail_default))
          (filter (\<lambda>c. strcaseeq (Name X c) ''Info'') cs) (it_Info v)" for cs
    by (induction cs arbitrary: v) (simp_all add: item_field_def)
  then show ?thesis by (simp add: visit_def)
qed

lemma no_info:
  assumes "writes_under X k g" "\<not> strcaseeq k ''Info''"
  shows "filter (\<lambda>c. strcaseeq (Name X c) ''Info'') (ChildElements X (g e)) = filter (\<lambda>c. strcaseeq (Name X c) ''Info'') (ChildElements X e)"
  using assms by (auto simp: writes_under_def filter_empty_conv dest!: spec [of _ e])

lemmas no_infos = no_info [OF new_if_text_under] no_info [OF writes_opt(1)] no_info [OF writes_opt(3)]
  no_info [OF opt_enum_under] no_info [OF opt_enum_if_under]

lemma Item_name: "tinyxml2_laws X \<Longrightarrow> Name X (write_Item X it e) = Name X e"
  by (simp add: write_Item_def opt_enum_pass info_pass ItemDetail_name xml_simps)

lemma keeps_children:
  assumes "tinyxml2_laws X" "k \<noteq> []" "\<not> NoChildren X e"
  shows "\<not> NoChildren X ((case v of None \<Rightarrow> (\<lambda>e. e) | Some t \<Rightarrow> new_xml_element_enum X m bad t k) e)"
    "\<not> NoChildren X ((case v of None \<Rightarrow> (\<lambda>e. e) | Some t \<Rightarrow> if t \<noteq> bad then new_xml_element_enum X m bad t k else (\<lambda>e. e)) e)"
    "\<not> NoChildren X ((case i of None \<Rightarrow> (\<lambda>e. e) | Some d \<Rightarrow> InsertNewChildElement X k (put d)) e)"
  using assms by (simp_all add: new_xml_element_enum_def Insert_sel split: option.split)

lemma Item_not_empty: "tinyxml2_laws X \<Longrightarrow> \<not> NoChildren X (write_Item X it (NewElement X k))"
  by (simp add: write_Item_def keeps_children xml_simps)

lemma Item_back:
  assumes "tinyxml2_laws X"
  shows "read_Item X ItemTypeInfo_default (write_Item X it (NewElement X k)) = Item_after it"
  unfolding read_Item_def
proof (rule ItemTypeInfo.equality, goal_cases)
  case 20
  then show ?case
    using assms by (cases "it_Info it")
      (simp_all add: item_info write_Item_def ItemTypeInfo_default_def Item_after_def no_infos not_info ItemDetail_back
        ItemDetail_name MAKE_NEW_sel Insert_sel tinyxml2_lawsD)
qed (use assms in \<open>simp_all add: item_member1 item_member2 write_Item_def ItemTypeInfo_default_def group_unread
    Item_after_def read_texts read_numbers fold_unread opt_found read_opt_Some status_found event_found opt_enum_pass info_pass
    ItemDetail_name xml_simps split: option.split\<close>)

interpretation Item: struct_codec write_Item read_Item ItemTypeInfo_default Item_after "\<lambda>v. True"
  by unfold_locales (simp_all add: Item_name Item_not_empty Item_back)

section \<open>The answer and the notification\<close>

record CatalogResponseMessage =
  cg_sum_num :: i32 \<comment> \<open>\<open>ListMessageBase::sum_num_\<close>\<close>
  cg_items :: "ItemTypeInfo list"
  cg_extra :: "string list"

definition CatalogResponseMessage_default :: CatalogResponseMessage where
  "CatalogResponseMessage_default = \<lparr>cg_sum_num = 0, cg_items = [], cg_extra = []\<rparr>"

definition CatalogResponseMessage_new ::
    "string \<Rightarrow> i32 \<Rightarrow> ItemTypeInfo list \<Rightarrow> string list \<Rightarrow> ('e, CatalogResponseMessage) MessageBase" where
  "CatalogResponseMessage_new device_id sum_num items extra =
     MessageBase_new Root_Response Cmd_Catalog (Some device_id) [] \<lparr>cg_sum_num = sum_num, cg_items = items, cg_extra = extra\<rparr>"

definition CatalogNotifyMessage_new ::
    "string \<Rightarrow> i32 \<Rightarrow> ItemTypeInfo list \<Rightarrow> string list \<Rightarrow> ('e, CatalogResponseMessage) MessageBase" where
  "CatalogNotifyMessage_new device_id sum_num items extra =
     (CatalogResponseMessage_new device_id sum_num items extra)\<lparr>mb_root := Root_Notify\<rparr>"

definition load_Catalog :: "'e tinyxml2 \<Rightarrow> ('e, CatalogResponseMessage) load_detail" where
  "load_Catalog X root m =
     (let d = mb_detail m; d = d\<lparr>cg_sum_num := snd (from_xml_element_int X (cg_sum_num d) root ''SumNum'')\<rparr>;
          d = (case FirstChildElement X root ''DeviceList'' of
                 None \<Rightarrow> d
               | Some l \<Rightarrow> d\<lparr>cg_items := cg_items d @ load_items X (read_Item X) ItemTypeInfo_default l ''Item''\<rparr>)
      in bind_outcome (strings_of_texts X (ChildElementsNamed X root ''ExtraInfo''))
           (\<lambda>ts. Inr (accept (d\<lparr>cg_extra := cg_extra d @ ts\<rparr>) m)))"

definition parse_Catalog :: "'e tinyxml2 \<Rightarrow> ('e, CatalogResponseMessage) parse_detail" where
  "parse_Catalog X root m =
     (let d = mb_detail m in (True, m, block
        [new_xml_element_int X (cg_sum_num d) ''SumNum'',
         InsertNewChildElement X ''DeviceList'' (block
           [SetAttribute X ''Num'' (int (length (cg_items d))), append_items X ''Item'' (write_Item X) (cg_items d)]),
         write_texts X ''ExtraInfo'' (cg_extra d)] root))"

text \<open>The notification passes both calls on.\<close>

definition load_CatalogNotify :: "'e tinyxml2 \<Rightarrow> ('e, CatalogResponseMessage) load_detail" where
  "load_CatalogNotify X = load_Catalog X"

definition parse_CatalogNotify :: "'e tinyxml2 \<Rightarrow> ('e, CatalogResponseMessage) parse_detail" where
  "parse_CatalogNotify X = parse_Catalog X"

interpretation CatalogResponse: message_codec load_Catalog parse_Catalog CatalogResponseMessage_default
  "\<lambda>d. d\<lparr>cg_items := map Item_after (cg_items d)\<rparr>" "\<lambda>i r d. [] \<notin> set (cg_extra d)"
  by unfold_locales
    (simp_all add: parse_Catalog_def load_Catalog_def CatalogResponseMessage_default_def Item.items_roundtrip Item.name_new
      append_items_sel codec_simps xml_simps)

end
