(* ===== verification/Message_Config.thy ===== *)
theory Message_Config
  imports Message_Notify
begin

text \<open>
  The messages that carry device configurations (\<open>src/message/config_download_messsage.cpp\<close>, \<open>device_config_message.cpp\<close>),
  on top of the writers and readers of \<open>ConfigXml\<close>. A \<open>shared_ptr<DeviceConfigBase>\<close> is an optional value of one of the
  twelve types; casting it to another type gives the null pointer. An \<open>unordered_map\<close> from types to configurations is the list
  of its entries in the order in which they are visited. \<open>fmt\<close> and \<open>split\<close> are those of \<open>ConfigXml\<close>.
\<close>

section \<open>Configurations of any type\<close>

datatype DeviceConfig =
    Conf_BasicParam BasicParamCfgType
  | Conf_VideoParamOpt VideoParamOptCfgType
  | Conf_SVACEncode SVACEncodeCfgType
  | Conf_SVACDecode SVACDecodeCfgType
  | Conf_VideoParamAttribute VideoParamAttributeCfgType
  | Conf_VideoRecordPlan VideoRecordPlanCfgType
  | Conf_VideoAlarmRecord VideoAlarmRecordCfgType
  | Conf_PictureMask PictureMaskClgType
  | Conf_FrameMirror FrameMirrorCfgType
  | Conf_AlarmReport AlarmReportCfgType
  | Conf_OSDConfig OSDCfgType
  | Conf_SnapShot SnapShotCfgType

text \<open>\<open>std::dynamic_pointer_cast\<close> to each type.\<close>

definition as_BasicParam :: "DeviceConfig option \<Rightarrow> BasicParamCfgType option" where
  "as_BasicParam c = (case c of Some (Conf_BasicParam v) \<Rightarrow> Some v | _ \<Rightarrow> None)"

definition as_VideoParamOpt :: "DeviceConfig option \<Rightarrow> VideoParamOptCfgType option" where
  "as_VideoParamOpt c = (case c of Some (Conf_VideoParamOpt v) \<Rightarrow> Some v | _ \<Rightarrow> None)"

definition as_SVACEncode :: "DeviceConfig option \<Rightarrow> SVACEncodeCfgType option" where
  "as_SVACEncode c = (case c of Some (Conf_SVACEncode v) \<Rightarrow> Some v | _ \<Rightarrow> None)"

definition as_SVACDecode :: "DeviceConfig option \<Rightarrow> SVACDecodeCfgType option" where
  "as_SVACDecode c = (case c of Some (Conf_SVACDecode v) \<Rightarrow> Some v | _ \<Rightarrow> None)"

definition as_VideoParamAttribute :: "DeviceConfig option \<Rightarrow> VideoParamAttributeCfgType option" where
  "as_VideoParamAttribute c = (case c of Some (Conf_VideoParamAttribute v) \<Rightarrow> Some v | _ \<Rightarrow> None)"

definition as_VideoRecordPlan :: "DeviceConfig option \<Rightarrow> VideoRecordPlanCfgType option" where
  "as_VideoRecordPlan c = (case c of Some (Conf_VideoRecordPlan v) \<Rightarrow> Some v | _ \<Rightarrow> None)"

definition as_VideoAlarmRecord :: "DeviceConfig option \<Rightarrow> VideoAlarmRecordCfgType option" where
  "as_VideoAlarmRecord c = (case c of Some (Conf_VideoAlarmRecord v) \<Rightarrow> Some v | _ \<Rightarrow> None)"

definition as_PictureMask :: "DeviceConfig option \<Rightarrow> PictureMaskClgType option" where
  "as_PictureMask c = (case c of Some (Conf_PictureMask v) \<Rightarrow> Some v | _ \<Rightarrow> None)"

definition as_FrameMirror :: "DeviceConfig option \<Rightarrow> FrameMirrorCfgType option" where
  "as_FrameMirror c = (case c of Some (Conf_FrameMirror v) \<Rightarrow> Some v | _ \<Rightarrow> None)"

definition as_AlarmReport :: "DeviceConfig option \<Rightarrow> AlarmReportCfgType option" where
  "as_AlarmReport c = (case c of Some (Conf_AlarmReport v) \<Rightarrow> Some v | _ \<Rightarrow> None)"

definition as_OSDConfig :: "DeviceConfig option \<Rightarrow> OSDCfgType option" where
  "as_OSDConfig c = (case c of Some (Conf_OSDConfig v) \<Rightarrow> Some v | _ \<Rightarrow> None)"

definition as_SnapShot :: "DeviceConfig option \<Rightarrow> SnapShotCfgType option" where
  "as_SnapShot c = (case c of Some (Conf_SnapShot v) \<Rightarrow> Some v | _ \<Rightarrow> None)"

lemmas as_defs = as_BasicParam_def as_VideoParamOpt_def as_SVACEncode_def as_SVACDecode_def as_VideoParamAttribute_def as_VideoRecordPlan_def as_VideoAlarmRecord_def as_PictureMask_def as_FrameMirror_def as_AlarmReport_def as_OSDConfig_def as_SnapShot_def

text \<open>The \<open>switch\<close> of both writers: an unknown type writes nothing.\<close>

definition write_device_config ::
    "'e tinyxml2 \<Rightarrow> (int list \<Rightarrow> string) \<Rightarrow> DeviceConfigType \<times> DeviceConfig option \<Rightarrow> 'e \<Rightarrow> 'e" where
  "write_device_config X fmt = (\<lambda>(t, c).
     if t = 1 then new_config X (write_BasicParam X) (as_BasicParam c) ''BasicParam''
     else if t = 2 then new_config X (write_VideoParamOpt X) (as_VideoParamOpt c) ''VideoParamOpt''
     else if t = 4 then new_config X (write_SVACEncode X) (as_SVACEncode c) ''SVACEncodeConfig''
     else if t = 8 then new_config X (write_SVACDecode X) (as_SVACDecode c) ''SVACDecodeConfig''
     else if t = 16 then new_xml_element_VideoParamAttribute X (as_VideoParamAttribute c) ''VideoParamAttribute''
     else if t = 32 then new_config X (write_VideoRecordPlan X) (as_VideoRecordPlan c) ''VideoRecordPlan''
     else if t = 64 then new_config X (write_VideoAlarmRecord X) (as_VideoAlarmRecord c) ''VideoAlarmRecord''
     else if t = 128 then new_config X (write_PictureMask X fmt) (as_PictureMask c) ''PictureMask''
     else if t = 256 then new_xml_element_FrameMirror X (as_FrameMirror c) ''FrameMirror''
     else if t = 512 then new_config X (write_AlarmReport X) (as_AlarmReport c) ''AlarmReport''
     else if t = 1024 then new_config X (write_OSDConfig X) (as_OSDConfig c) ''OSDConfig''
     else if t = 2048 then new_config X (write_SnapShot X) (as_SnapShot c) ''SnapShotConfig''
     else (\<lambda>e. e))"

text \<open>
  One configuration of a received document: its element is there, and its value is read unless it has no children. A frame mirror
  is taken over when it is there.
\<close>

definition found_config :: "('c \<Rightarrow> DeviceConfig) \<Rightarrow> bool \<times> bool \<times> 'c \<Rightarrow> DeviceConfig option option" where
  "found_config con r = (case r of (has, ok, v) \<Rightarrow> if ok \<or> has then Some (if has then Some (con v) else None) else None)"

definition found_mirror :: "bool \<times> bool \<times> FrameMirrorCfgType \<Rightarrow> DeviceConfig option option" where
  "found_mirror r = (case r of (has, ok, v) \<Rightarrow> if ok \<or> has then Some (Some (Conf_FrameMirror v)) else None)"

definition config_readers ::
    "'e tinyxml2 \<Rightarrow> (string \<Rightarrow> string \<Rightarrow> string list) \<Rightarrow> (DeviceConfigType \<times> ('e \<Rightarrow> DeviceConfig option option)) list" where
  "config_readers X split =
     [(1, \<lambda>root. found_config Conf_BasicParam (from_config X (read_BasicParam X) BasicParamCfgType_default root ''BasicParam'')),
      (2, \<lambda>root. found_config Conf_VideoParamOpt (from_config X (read_VideoParamOpt X) VideoParamOptCfgType_default root ''VideoParamOpt'')),
      (4, \<lambda>root. found_config Conf_SVACEncode (from_config X (read_SVACEncode X) SVACEncodeCfgType_default root ''SVACEncodeConfig'')),
      (8, \<lambda>root. found_config Conf_SVACDecode (from_config X (read_SVACDecode X) SVACDecodeCfgType_default root ''SVACDecodeConfig'')),
      (16, \<lambda>root. found_config Conf_VideoParamAttribute (from_config X (read_VideoParamAttribute X) VideoParamAttributeCfgType_default root ''VideoParamAttribute'')),
      (32, \<lambda>root. found_config Conf_VideoRecordPlan (from_config X (read_VideoRecordPlan X) VideoRecordPlanCfgType_default root ''VideoRecordPlan'')),
      (64, \<lambda>root. found_config Conf_VideoAlarmRecord (from_config X (read_VideoAlarmRecord X) VideoAlarmRecordCfgType_default root ''VideoAlarmRecord'')),
      (128, \<lambda>root. found_config Conf_PictureMask (from_config X (read_PictureMask X split) PictureMaskClgType_default root ''PictureMask'')),
      (256, \<lambda>root. found_mirror (from_xml_element_FrameMirror X FrameMirrorCfgType_default root ''FrameMirror'')),
      (512, \<lambda>root. found_config Conf_AlarmReport (from_config X (read_AlarmReport X) AlarmReportCfgType_default root ''AlarmReport'')),
      (1024, \<lambda>root. found_config Conf_OSDConfig (from_config X (read_OSDConfig X) OSDCfgType_default root ''OSDConfig'')),
      (2048, \<lambda>root. found_config Conf_SnapShot (from_config X (read_SnapShot X) SnapShotCfgType_default root ''SnapShotConfig''))]"

text \<open>\<open>configs_.emplace\<close>: an entry that is there stays.\<close>

definition emplace_config ::
    "DeviceConfigType \<Rightarrow> DeviceConfig option \<Rightarrow> (DeviceConfigType \<times> DeviceConfig option) list \<Rightarrow> (DeviceConfigType \<times> DeviceConfig option) list" where
  "emplace_config t c cfgs = (if t \<in> fst ` set cfgs then cfgs else cfgs @ [(t, c)])"

definition load_configs ::
    "(DeviceConfigType \<times> ('e \<Rightarrow> DeviceConfig option option)) list \<Rightarrow> 'e \<Rightarrow> (DeviceConfigType \<times> DeviceConfig option) list
      \<Rightarrow> (DeviceConfigType \<times> DeviceConfig option) list" where
  "load_configs readers root cfgs =
     fold (\<lambda>(t, rd) cfgs. case rd root of None \<Rightarrow> cfgs | Some c \<Rightarrow> emplace_config t c cfgs) readers cfgs"

section \<open>Downloading configurations\<close>

record ConfigDownloadRequestMessage =
  dl_config_type :: DeviceConfigType

definition ConfigDownloadRequestMessage_default :: ConfigDownloadRequestMessage where
  "ConfigDownloadRequestMessage_default = \<lparr>dl_config_type = 0\<rparr>"

definition ConfigDownloadRequestMessage_new :: "string \<Rightarrow> DeviceConfigType \<Rightarrow> ('e, ConfigDownloadRequestMessage) MessageBase" where
  "ConfigDownloadRequestMessage_new device_id config_type =
     MessageBase_new Root_Query Cmd_ConfigDownload (Some device_id) [] \<lparr>dl_config_type = config_type\<rparr>"

definition parse_ConfigDownloadRequest ::
    "(DeviceConfigType \<times> string) list \<Rightarrow> 'e tinyxml2 \<Rightarrow> ('e, ConfigDownloadRequestMessage) parse_detail" where
  "parse_ConfigDownloadRequest order X root m =
     (let t = dl_config_type (mb_detail m)
      in if t = 0 then (False, m\<lparr>mb_error := ''The ConfigType field invalid''\<rparr>, root)
         else (True, m, new_xml_element_DeviceConfigType X order t ''ConfigType'' root))"

definition load_ConfigDownloadRequest ::
    "(string \<Rightarrow> string \<Rightarrow> string list) \<Rightarrow> (DeviceConfigType \<times> string) list \<Rightarrow> 'e tinyxml2 \<Rightarrow> ('e, ConfigDownloadRequestMessage) load_detail" where
  "load_ConfigDownloadRequest split order X root m =
     (let d = mb_detail m; (ok, t) = from_xml_element_DeviceConfigType X split order (dl_config_type d) root ''ConfigType'';
          d = d\<lparr>dl_config_type := t\<rparr>
      in if \<not> ok then Inr (reject ''The ConfigType field invalid'' (m\<lparr>mb_detail := d\<rparr>)) else Inr (accept d m))"

record ConfigDownloadResponseMessage =
  cd_result :: ResultType
  cd_configs :: "(DeviceConfigType \<times> DeviceConfig option) list"

definition ConfigDownloadResponseMessage_default :: ConfigDownloadResponseMessage where
  "ConfigDownloadResponseMessage_default = \<lparr>cd_result = Result_invalid, cd_configs = []\<rparr>"

definition ConfigDownloadResponseMessage_new ::
    "string \<Rightarrow> ResultType \<Rightarrow> (DeviceConfigType \<times> DeviceConfig option) list \<Rightarrow> ('e, ConfigDownloadResponseMessage) MessageBase" where
  "ConfigDownloadResponseMessage_new device_id result_type config =
     MessageBase_new Root_Response Cmd_ConfigDownload (Some device_id) [] \<lparr>cd_result = result_type, cd_configs = config\<rparr>"

text \<open>\<open>set_config\<close> replaces an entry, \<open>get_config\<close> looks one up.\<close>

definition set_config ::
    "DeviceConfigType \<Rightarrow> DeviceConfig option \<Rightarrow> ConfigDownloadResponseMessage \<Rightarrow> ConfigDownloadResponseMessage" where
  "set_config t c d = d\<lparr>cd_configs := (if t \<in> fst ` set (cd_configs d)
     then map (\<lambda>(t', c'). (t', if t' = t then c else c')) (cd_configs d) else cd_configs d @ [(t, c)])\<rparr>"

definition get_config :: "(DeviceConfig option \<Rightarrow> 'c option) \<Rightarrow> DeviceConfigType \<Rightarrow> ConfigDownloadResponseMessage \<Rightarrow> 'c option" where
  "get_config cast t d = (case map_of (cd_configs d) t of None \<Rightarrow> None | Some c \<Rightarrow> cast c)"

definition get_config_type :: "ConfigDownloadResponseMessage \<Rightarrow> DeviceConfigType" where
  "get_config_type d = fold (\<lambda>(t, c) r. config_or r t) (cd_configs d) 0"

definition load_ConfigDownload ::
    "(string \<Rightarrow> string \<Rightarrow> string list) \<Rightarrow> 'e tinyxml2 \<Rightarrow> ('e, ConfigDownloadResponseMessage) load_detail" where
  "load_ConfigDownload split X root m =
     (let (ok, r) = from_Result X (cd_result (mb_detail m)) root ''Result''; d = (mb_detail m)\<lparr>cd_result := r\<rparr>
      in if \<not> ok then Inr (reject ''The Result field invalid'' (m\<lparr>mb_detail := d\<rparr>))
         else Inr (accept (d\<lparr>cd_configs := load_configs (config_readers X split) root (cd_configs d)\<rparr>) m))"

definition parse_ConfigDownload :: "(int list \<Rightarrow> string) \<Rightarrow> 'e tinyxml2 \<Rightarrow> ('e, ConfigDownloadResponseMessage) parse_detail" where
  "parse_ConfigDownload fmt X root m =
     (let d = mb_detail m
      in if cd_result d = Result_invalid then (False, m\<lparr>mb_error := ''The Result field invalid''\<rparr>, root)
         else if cd_configs d = [] \<and> cd_result d \<noteq> Result_Error then (False, m\<lparr>mb_error := ''The Config is empty''\<rparr>, root)
         else (True, m, fold (write_device_config X fmt) (cd_configs d) (new_Result X (cd_result d) ''Result'' root)))"

section \<open>Setting a configuration\<close>

record DeviceConfigRequestMessage =
  cf_config :: "DeviceConfigType \<times> DeviceConfig option"

definition DeviceConfigRequestMessage_default :: DeviceConfigRequestMessage where
  "DeviceConfigRequestMessage_default = \<lparr>cf_config = (0, None)\<rparr>"

definition DeviceConfigRequestMessage_new ::
    "string \<Rightarrow> DeviceConfigType \<times> DeviceConfig option \<Rightarrow> ('e, DeviceConfigRequestMessage) MessageBase" where
  "DeviceConfigRequestMessage_new device_id config =
     MessageBase_new Root_Control Cmd_DeviceConfig (Some device_id) [] \<lparr>cf_config = config\<rparr>"

text \<open>
  The reader looks at every child element: its name is compared without regard to case, but the value is read from the first
  element of exactly that name; the last configuration counts.
\<close>

definition requested_config ::
    "'e tinyxml2 \<Rightarrow> (string \<Rightarrow> string \<Rightarrow> string list) \<Rightarrow> 'e \<Rightarrow> 'e \<Rightarrow> DeviceConfigType \<times> DeviceConfig option \<Rightarrow> DeviceConfigType \<times> DeviceConfig option" where
  "requested_config X split root ele config =
     (let name = Name X ele
      in if strcaseeq ''DeviceID'' name \<or> strcaseeq ''CmdType'' name \<or> strcaseeq ''SN'' name then config
         else if strcaseeq ''BasicParam'' name then (1, Some (Conf_BasicParam (snd (snd (from_config X (read_BasicParam X) BasicParamCfgType_default root ''BasicParam'')))))
         else if strcaseeq ''VideoParamOpt'' name then (2, Some (Conf_VideoParamOpt (snd (snd (from_config X (read_VideoParamOpt X) VideoParamOptCfgType_default root ''VideoParamOpt'')))))
         else if strcaseeq ''SVACEncodeConfig'' name then (4, Some (Conf_SVACEncode (snd (snd (from_config X (read_SVACEncode X) SVACEncodeCfgType_default root ''SVACEncodeConfig'')))))
         else if strcaseeq ''SVACDecodeConfig'' name then (8, Some (Conf_SVACDecode (snd (snd (from_config X (read_SVACDecode X) SVACDecodeCfgType_default root ''SVACDecodeConfig'')))))
         else if strcaseeq ''VideoParamAttribute'' name then (16, Some (Conf_VideoParamAttribute (snd (snd (from_config X (read_VideoParamAttribute X) VideoParamAttributeCfgType_default root ''VideoParamAttribute'')))))
         else if strcaseeq ''VideoRecordPlan'' name then (32, Some (Conf_VideoRecordPlan (snd (snd (from_config X (read_VideoRecordPlan X) VideoRecordPlanCfgType_default root ''VideoRecordPlan'')))))
         else if strcaseeq ''VideoAlarmRecord'' name then (64, Some (Conf_VideoAlarmRecord (snd (snd (from_config X (read_VideoAlarmRecord X) VideoAlarmRecordCfgType_default root ''VideoAlarmRecord'')))))
         else if strcaseeq ''PictureMask'' name then (128, Some (Conf_PictureMask (snd (snd (from_config X (read_PictureMask X split) PictureMaskClgType_default root ''PictureMask'')))))
         else if strcaseeq ''FrameMirror'' name then (256, Some (Conf_FrameMirror (snd (snd (from_xml_element_FrameMirror X FrameMirrorCfgType_default root ''FrameMirror'')))))
         else if strcaseeq ''AlarmReport'' name then (512, Some (Conf_AlarmReport (snd (snd (from_config X (read_AlarmReport X) AlarmReportCfgType_default root ''AlarmReport'')))))
         else if strcaseeq ''OSDConfig'' name then (1024, Some (Conf_OSDConfig (snd (snd (from_config X (read_OSDConfig X) OSDCfgType_default root ''OSDConfig'')))))
         else if strcaseeq ''SnapShotConfig'' name then (2048, Some (Conf_SnapShot (snd (snd (from_config X (read_SnapShot X) SnapShotCfgType_default root ''SnapShotConfig'')))))
         else config)"

definition load_DeviceConfigRequest ::
    "(string \<Rightarrow> string \<Rightarrow> string list) \<Rightarrow> 'e tinyxml2 \<Rightarrow> ('e, DeviceConfigRequestMessage) load_detail" where
  "load_DeviceConfigRequest split X root m =
     (let d = mb_detail m; d = d\<lparr>cf_config := fold (requested_config X split root) (ChildElements X root) (cf_config d)\<rparr>
      in if fst (cf_config d) = 0 then Inr (reject ''Invalid device config'' (m\<lparr>mb_detail := d\<rparr>)) else Inr (accept d m))"

definition parse_DeviceConfigRequest :: "(int list \<Rightarrow> string) \<Rightarrow> 'e tinyxml2 \<Rightarrow> ('e, DeviceConfigRequestMessage) parse_detail" where
  "parse_DeviceConfigRequest fmt X root m =
     (let c = cf_config (mb_detail m)
      in if fst c = 0 then (False, m\<lparr>mb_error := ''invalid config''\<rparr>, root)
         else (True, m, write_device_config X fmt c root))"

definition DeviceConfigResponseMessage_new :: "string \<Rightarrow> ResultType \<Rightarrow> string \<Rightarrow> ('e, ResultResponse) MessageBase" where
  "DeviceConfigResponseMessage_new device_id result reason =
     MessageBase_new Root_Response Cmd_DeviceConfig (Some device_id) reason \<lparr>rr_result = result\<rparr>"

definition load_DeviceConfigResponse :: "'e tinyxml2 \<Rightarrow> ('e, ResultResponse) load_detail" where
  "load_DeviceConfigResponse X root m =
     (let (ok, r) = from_Result X (rr_result (mb_detail m)) root ''Result'';
          d = (mb_detail m)\<lparr>rr_result := r\<rparr>
      in if \<not> ok then Inr (reject ''invalid result'' (m\<lparr>mb_detail := d\<rparr>)) else Inr (accept d m))"

definition parse_DeviceConfigResponse :: "'e tinyxml2 \<Rightarrow> ('e, ResultResponse) parse_detail" where
  "parse_DeviceConfigResponse X root m =
     (if rr_result (mb_detail m) = Result_invalid then (False, m\<lparr>mb_error := ''invalid result''\<rparr>, root)
      else (True, m, new_Result X (rr_result (mb_detail m)) ''Result'' root))"

interpretation DeviceConfigResponse: message_codec load_DeviceConfigResponse parse_DeviceConfigResponse
  ResultResponse_default "\<lambda>d. d" "\<lambda>i r d. rr_result d \<noteq> Result_invalid"
  by unfold_locales
    (simp_all add: load_DeviceConfigResponse_def parse_DeviceConfigResponse_def ResultResponse_default_def
      codec_simps enum_codec xml_simps)

section \<open>What arrives of a configuration\<close>

definition config_name :: "DeviceConfigType \<Rightarrow> string" where
  "config_name t = (case map_of DeviceConfigTypeMap t of None \<Rightarrow> [] | Some s \<Rightarrow> s)"

definition received_config :: "DeviceConfigType \<Rightarrow> DeviceConfig option \<Rightarrow> DeviceConfig" where
  "received_config t c =
     (if t = 1 then Conf_BasicParam (case as_BasicParam c of None \<Rightarrow> BasicParamCfgType_default | Some v \<Rightarrow> v\<lparr>bp_Expiration := None, bp_HeartBeatInterval := None, bp_HeartBeatCount := None\<rparr>)
      else if t = 2 then Conf_VideoParamOpt (case as_VideoParamOpt c of None \<Rightarrow> VideoParamOptCfgType_default | Some v \<Rightarrow> v)
      else if t = 4 then Conf_SVACEncode (case as_SVACEncode c of None \<Rightarrow> SVACEncodeCfgType_default | Some v \<Rightarrow> (if v = SVACEncodeCfgType_default then v else SVACEncode_after v))
      else if t = 8 then Conf_SVACDecode (case as_SVACDecode c of None \<Rightarrow> SVACDecodeCfgType_default | Some v \<Rightarrow> (if v = SVACDecodeCfgType_default then v else SVACDecode_after v))
      else if t = 16 then Conf_VideoParamAttribute (case as_VideoParamAttribute c of None \<Rightarrow> VideoParamAttributeCfgType_default | Some v \<Rightarrow> (if va_Item v = [] then VideoParamAttributeCfgType_default else v\<lparr>va_Num := of_nat (length (va_Item v))\<rparr>))
      else if t = 32 then Conf_VideoRecordPlan (case as_VideoRecordPlan c of None \<Rightarrow> VideoRecordPlanCfgType_default | Some v \<Rightarrow> v\<lparr>rp_RecordSchedule := map (\<lambda>s. s\<lparr>rs_TimeSegment := []\<rparr>) (rp_RecordSchedule v)\<rparr>)
      else if t = 64 then Conf_VideoAlarmRecord (case as_VideoAlarmRecord c of None \<Rightarrow> VideoAlarmRecordCfgType_default | Some v \<Rightarrow> v\<lparr>ar_RecordTime := None, ar_PreRecordTime := None\<rparr>)
      else if t = 128 then Conf_PictureMask (case as_PictureMask c of None \<Rightarrow> PictureMaskClgType_default | Some v \<Rightarrow> PictureMask_after v)
      else if t = 256 then Conf_FrameMirror (case as_FrameMirror c of None \<Rightarrow> FrameMirrorCfgType_default | Some v \<Rightarrow> v)
      else if t = 512 then Conf_AlarmReport (case as_AlarmReport c of None \<Rightarrow> AlarmReportCfgType_default | Some v \<Rightarrow> v)
      else if t = 1024 then Conf_OSDConfig (case as_OSDConfig c of None \<Rightarrow> OSDCfgType_default | Some v \<Rightarrow> v\<lparr>os_TimeType := None, os_FontSize := None, os_Item := map (\<lambda>it. it\<lparr>ot_FontSize := None\<rparr>) (os_Item v)\<rparr>)
      else Conf_SnapShot (case as_SnapShot c of None \<Rightarrow> SnapShotCfgType_default | Some v \<Rightarrow> v))"

text \<open>The element a configuration is written as.\<close>

definition config_element :: "'e tinyxml2 \<Rightarrow> (int list \<Rightarrow> string) \<Rightarrow> DeviceConfigType \<Rightarrow> DeviceConfig option \<Rightarrow> 'e" where
  "config_element X fmt t c = last (ChildElements X (write_device_config X fmt (t, c) (NewElement X [])))"

definition config_types :: "DeviceConfigType set" where
  "config_types = fst ` set DeviceConfigTypeMap"

lemma config_types_eq: "config_types = {1, 2, 4, 8, 16, 32, 64, 128, 256, 512, 1024, 2048}"
  by (auto simp: config_types_def DeviceConfigTypeMap_def push_bit_eq_mult)

lemma config_names_of [simp]:
  "config_name 1 = ''BasicParam''"
  "config_name 2 = ''VideoParamOpt''"
  "config_name 4 = ''SVACEncodeConfig''"
  "config_name 8 = ''SVACDecodeConfig''"
  "config_name 16 = ''VideoParamAttribute''"
  "config_name 32 = ''VideoRecordPlan''"
  "config_name 64 = ''VideoAlarmRecord''"
  "config_name 128 = ''PictureMask''"
  "config_name 256 = ''FrameMirror''"
  "config_name 512 = ''AlarmReport''"
  "config_name 1024 = ''OSDConfig''"
  "config_name 2048 = ''SnapShotConfig''"
  by (simp_all add: config_name_def DeviceConfigTypeMap_def push_bit_eq_mult)

lemma elements_of:
  assumes "tinyxml2_laws X"
  shows
    "config_element X fmt 1 c = (case as_BasicParam c of None \<Rightarrow> NewElement X ''BasicParam'' | Some v \<Rightarrow> write_BasicParam X v (NewElement X ''BasicParam''))"
    "config_element X fmt 2 c = (case as_VideoParamOpt c of None \<Rightarrow> NewElement X ''VideoParamOpt'' | Some v \<Rightarrow> write_VideoParamOpt X v (NewElement X ''VideoParamOpt''))"
    "config_element X fmt 4 c = (case as_SVACEncode c of None \<Rightarrow> NewElement X ''SVACEncodeConfig'' | Some v \<Rightarrow> write_SVACEncode X v (NewElement X ''SVACEncodeConfig''))"
    "config_element X fmt 8 c = (case as_SVACDecode c of None \<Rightarrow> NewElement X ''SVACDecodeConfig'' | Some v \<Rightarrow> write_SVACDecode X v (NewElement X ''SVACDecodeConfig''))"
    "config_element X fmt 16 c = (case as_VideoParamAttribute c of None \<Rightarrow> SetAttribute X ''Num'' 0 (NewElement X ''VideoParamAttribute'') | Some v \<Rightarrow> block
        [SetAttribute X ''Num'' (int (length (va_Item v))), append_items X ''Item'' (write_VideoParamAttributeItem X) (va_Item v)] (NewElement X ''VideoParamAttribute''))"
    "config_element X fmt 32 c = (case as_VideoRecordPlan c of None \<Rightarrow> NewElement X ''VideoRecordPlan'' | Some v \<Rightarrow> write_VideoRecordPlan X v (NewElement X ''VideoRecordPlan''))"
    "config_element X fmt 64 c = (case as_VideoAlarmRecord c of None \<Rightarrow> NewElement X ''VideoAlarmRecord'' | Some v \<Rightarrow> write_VideoAlarmRecord X v (NewElement X ''VideoAlarmRecord''))"
    "config_element X fmt 128 c = (case as_PictureMask c of None \<Rightarrow> NewElement X ''PictureMask'' | Some v \<Rightarrow> write_PictureMask X fmt v (NewElement X ''PictureMask''))"
    "config_element X fmt 256 c = (case as_FrameMirror c of None \<Rightarrow> NewElement X ''FrameMirror'' | Some v \<Rightarrow> SetTextInt X (sint (fm_FrameMirror v)) (NewElement X ''FrameMirror''))"
    "config_element X fmt 512 c = (case as_AlarmReport c of None \<Rightarrow> NewElement X ''AlarmReport'' | Some v \<Rightarrow> write_AlarmReport X v (NewElement X ''AlarmReport''))"
    "config_element X fmt 1024 c = (case as_OSDConfig c of None \<Rightarrow> NewElement X ''OSDConfig'' | Some v \<Rightarrow> write_OSDConfig X v (NewElement X ''OSDConfig''))"
    "config_element X fmt 2048 c = (case as_SnapShot c of None \<Rightarrow> NewElement X ''SnapShotConfig'' | Some v \<Rightarrow> write_SnapShot X v (NewElement X ''SnapShotConfig''))"
  using assms
  by (simp_all add: config_element_def write_device_config_def new_config_def new_xml_element_VideoParamAttribute_def
      new_xml_element_FrameMirror_def new_xml_element_FrameMirrorType_def Insert_sel split: option.split)

lemma config_written:
  assumes "tinyxml2_laws X" "t \<in> config_types"
  shows "write_device_config X fmt (t, c) root = InsertEndChild X root (config_element X fmt t c)"
    "Name X (config_element X fmt t c) = config_name t"
  using assms
  by (auto simp: config_types_eq elements_of write_device_config_def new_config_def new_xml_element_VideoParamAttribute_def
      new_xml_element_FrameMirror_def new_xml_element_FrameMirrorType_def InsertNewChildElement_def tinyxml2_lawsD
      append_items_sel VideoParamAttributeItem.name_new
      BasicParam.name_new VideoParamOpt.name_new SVACEncode.name_new SVACDecode.name_new VideoRecordPlan.name_new
      VideoAlarmRecord.name_new PictureMask.name_new AlarmReport.name_new OSDConfig.name_new SnapShot.name_new
      split: option.split)

lemma configs_back:
  assumes "tinyxml2_laws X" "FirstChildElement X root (config_name t) = Some (config_element X fmt t c)"
  shows
    "t = 1 \<Longrightarrow> \<exists>ok. from_config X (read_BasicParam X) BasicParamCfgType_default root ''BasicParam'' = (True, ok, case as_BasicParam c of None \<Rightarrow> BasicParamCfgType_default | Some v \<Rightarrow> v\<lparr>bp_Expiration := None, bp_HeartBeatInterval := None, bp_HeartBeatCount := None\<rparr>)"
    "t = 2 \<Longrightarrow> \<exists>ok. from_config X (read_VideoParamOpt X) VideoParamOptCfgType_default root ''VideoParamOpt'' = (True, ok, case as_VideoParamOpt c of None \<Rightarrow> VideoParamOptCfgType_default | Some v \<Rightarrow> v)"
    "t = 4 \<Longrightarrow> \<exists>ok. from_config X (read_SVACEncode X) SVACEncodeCfgType_default root ''SVACEncodeConfig'' = (True, ok, case as_SVACEncode c of None \<Rightarrow> SVACEncodeCfgType_default | Some v \<Rightarrow> (if v = SVACEncodeCfgType_default then v else SVACEncode_after v))"
    "t = 8 \<Longrightarrow> \<exists>ok. from_config X (read_SVACDecode X) SVACDecodeCfgType_default root ''SVACDecodeConfig'' = (True, ok, case as_SVACDecode c of None \<Rightarrow> SVACDecodeCfgType_default | Some v \<Rightarrow> (if v = SVACDecodeCfgType_default then v else SVACDecode_after v))"
    "t = 16 \<Longrightarrow> \<exists>ok. from_config X (read_VideoParamAttribute X) VideoParamAttributeCfgType_default root ''VideoParamAttribute'' = (True, ok, case as_VideoParamAttribute c of None \<Rightarrow> VideoParamAttributeCfgType_default | Some v \<Rightarrow> (if va_Item v = [] then VideoParamAttributeCfgType_default else v\<lparr>va_Num := of_nat (length (va_Item v))\<rparr>))"
    "t = 32 \<Longrightarrow> \<exists>ok. from_config X (read_VideoRecordPlan X) VideoRecordPlanCfgType_default root ''VideoRecordPlan'' = (True, ok, case as_VideoRecordPlan c of None \<Rightarrow> VideoRecordPlanCfgType_default | Some v \<Rightarrow> v\<lparr>rp_RecordSchedule := map (\<lambda>s. s\<lparr>rs_TimeSegment := []\<rparr>) (rp_RecordSchedule v)\<rparr>)"
    "t = 64 \<Longrightarrow> \<exists>ok. from_config X (read_VideoAlarmRecord X) VideoAlarmRecordCfgType_default root ''VideoAlarmRecord'' = (True, ok, case as_VideoAlarmRecord c of None \<Rightarrow> VideoAlarmRecordCfgType_default | Some v \<Rightarrow> v\<lparr>ar_RecordTime := None, ar_PreRecordTime := None\<rparr>)"
    "t = 128 \<Longrightarrow> \<exists>ok. from_config X (read_PictureMask X split) PictureMaskClgType_default root ''PictureMask'' = (True, ok, case as_PictureMask c of None \<Rightarrow> PictureMaskClgType_default | Some v \<Rightarrow> PictureMask_after v)"
    "t = 256 \<Longrightarrow> as_FrameMirror c \<noteq> None \<Longrightarrow> \<exists>ok. from_xml_element_FrameMirror X FrameMirrorCfgType_default root ''FrameMirror'' = (True, ok, case as_FrameMirror c of None \<Rightarrow> FrameMirrorCfgType_default | Some v \<Rightarrow> v)"
    "t = 512 \<Longrightarrow> \<exists>ok. from_config X (read_AlarmReport X) AlarmReportCfgType_default root ''AlarmReport'' = (True, ok, case as_AlarmReport c of None \<Rightarrow> AlarmReportCfgType_default | Some v \<Rightarrow> v)"
    "t = 1024 \<Longrightarrow> \<exists>ok. from_config X (read_OSDConfig X) OSDCfgType_default root ''OSDConfig'' = (True, ok, case as_OSDConfig c of None \<Rightarrow> OSDCfgType_default | Some v \<Rightarrow> v\<lparr>os_TimeType := None, os_FontSize := None, os_Item := map (\<lambda>it. it\<lparr>ot_FontSize := None\<rparr>) (os_Item v)\<rparr>)"
    "t = 2048 \<Longrightarrow> \<exists>ok. from_config X (read_SnapShot X) SnapShotCfgType_default root ''SnapShotConfig'' = (True, ok, case as_SnapShot c of None \<Rightarrow> SnapShotCfgType_default | Some v \<Rightarrow> v)"
  using assms
  by (auto simp: elements_of from_config_def tinyxml2_lawsD from_xml_element_FrameMirror_def from_xml_element_FrameMirrorType_def
      select_element_def append_items_sel read_VideoParamAttribute_def Let_def VideoParamAttributeItem.items_roundtrip
      VideoParamAttributeCfgType_default_def Named_New Set_pass
      BasicParam.get_put VideoParamOpt.get_put SVACEncode.get_put SVACDecode.get_put VideoRecordPlan.get_put
      VideoAlarmRecord.get_put PictureMask.get_put AlarmReport.get_put OSDConfig.get_put SnapShot.get_put
      BasicParam.put_empty VideoParamOpt.put_empty SVACEncode.put_empty SVACDecode.put_empty VideoRecordPlan.put_empty
      VideoAlarmRecord.put_empty PictureMask.put_empty AlarmReport.put_empty OSDConfig.put_empty SnapShot.put_empty
      FrameMirrorCfgType_default_def int_back split: option.split)

lemma config_reader:
  assumes "tinyxml2_laws X" "(t, rd) \<in> set (config_readers X split)"
    and "FirstChildElement X root (config_name t) = Some (config_element X fmt t c)" "t = 256 \<Longrightarrow> as_FrameMirror c \<noteq> None"
  shows "rd root = Some (Some (received_config t c))"
  using assms(2,4) configs_back(1-7,9-12) [OF assms(1,3)] configs_back(8) [OF assms(1,3), where split = split]
  by (auto simp: config_readers_def found_config_def found_mirror_def received_config_def)

lemma config_unread:
  assumes "(t, rd) \<in> set (config_readers X split)" "FirstChildElement X root (config_name t) = None"
  shows "rd root = None"
  using assms by (auto simp: config_readers_def found_config_def found_mirror_def from_config_def from_xml_element_FrameMirror_def)

lemma reader_types: "map fst (config_readers X split) = map fst DeviceConfigTypeMap"
  by (simp add: config_readers_def DeviceConfigTypeMap_def push_bit_eq_mult)

lemma types_distinct: "distinct (map fst DeviceConfigTypeMap)"
  by (simp add: DeviceConfigTypeMap_def push_bit_eq_mult)

lemma config_name_inj:
  assumes "t \<in> config_types" "t' \<in> config_types" "config_name t = config_name t'"
  shows "t = t'"
  using assms by (auto simp: config_types_eq)

lemma load_configs_eq:
  assumes "distinct (map fst readers)" "fst ` set readers \<inter> fst ` set cfgs = {}"
  shows "load_configs readers root cfgs = cfgs @ concat (map (\<lambda>(t, rd). case rd root of None \<Rightarrow> [] | Some c \<Rightarrow> [(t, c)]) readers)"
  using assms
proof (induction readers arbitrary: cfgs)
  case (Cons r readers)
  obtain t rd where r: "r = (t, rd)" by (cases r)
  show ?case
  proof (cases "rd root")
    case None
    then show ?thesis using Cons r by (simp add: load_configs_def)
  next
    case (Some c)
    have "load_configs readers root (cfgs @ [(t, c)]) = (cfgs @ [(t, c)])
        @ concat (map (\<lambda>(t, rd). case rd root of None \<Rightarrow> [] | Some c \<Rightarrow> [(t, c)]) readers)"
      using Cons r by (intro Cons.IH) auto
    moreover have "t \<notin> fst ` set cfgs" using Cons.prems r by auto
    ultimately show ?thesis using r Some by (simp add: load_configs_def emplace_config_def)
  qed
qed (simp add: load_configs_def)

lemma configs_name:
  assumes "tinyxml2_laws X" "fst ` set cfgs \<subseteq> config_types"
  shows "Name X (fold (write_device_config X fmt) cfgs e) = Name X e"
  using assms by (induction cfgs arbitrary: e) (force simp: config_written tinyxml2_lawsD)+

lemma configs_passed:
  assumes "tinyxml2_laws X" "fst ` set cfgs \<subseteq> config_types" "k \<notin> config_name ` fst ` set cfgs"
  shows "FirstChildElement X (fold (write_device_config X fmt) cfgs e) k = FirstChildElement X e k"
  using assms
  by (induction cfgs arbitrary: e)
    (force simp: config_written tinyxml2_lawsD FirstChildElement_def find_append split: option.split)+

lemma config_found:
  assumes "tinyxml2_laws X" "fst ` set cfgs \<subseteq> config_types" "distinct (map fst cfgs)" "t \<in> config_types"
    and "FirstChildElement X e (config_name t) = None"
  shows "FirstChildElement X (fold (write_device_config X fmt) cfgs e) (config_name t)
    = map_option (config_element X fmt t) (map_of cfgs t)"
  using assms
proof (induction cfgs arbitrary: e)
  case (Cons a cfgs)
  obtain t' c where a: "a = (t', c)" by (cases a)
  then have t': "t' \<in> config_types" using Cons.prems by auto
  let ?e = "InsertEndChild X e (config_element X fmt t' c)"
  show ?case
  proof (cases "t' = t")
    case True
    have k: "config_name t \<notin> config_name ` fst ` set cfgs"
    proof
      assume "config_name t \<in> config_name ` fst ` set cfgs"
      then obtain u where "config_name t = config_name u" "u \<in> fst ` set cfgs" by (rule imageE)
      moreover from this have "t = u" using config_name_inj Cons.prems(2,4) by auto
      ultimately have "t \<in> fst ` set cfgs" by simp
      then show False using Cons.prems(3) a True by simp
    qed
    have "FirstChildElement X ?e (config_name t) = Some (config_element X fmt t' c)"
      using Cons.prems(1,5) config_written(2) [OF Cons.prems(1) t'] True
      by (simp add: FirstChildElement_def find_append tinyxml2_lawsD)
    then show ?thesis
      using configs_passed [OF Cons.prems(1) _ k, of fmt ?e] Cons.prems(2) a True config_written(1) [OF Cons.prems(1) t'] by simp
  next
    case False
    then have "config_name t' \<noteq> config_name t" using config_name_inj Cons.prems(4) t' by blast
    then have "FirstChildElement X ?e (config_name t) = None"
      using Cons.prems(1,5) config_written(2) [OF Cons.prems(1) t'] by (simp add: FirstChildElement_def find_append tinyxml2_lawsD)
    then show ?thesis
      using Cons.IH [of ?e] Cons.prems a False config_written(1) [OF Cons.prems(1) t'] by simp
  qed
qed simp

definition received_download ::
    "(DeviceConfigType \<times> DeviceConfig option) list \<Rightarrow> (DeviceConfigType \<times> DeviceConfig option) list" where
  "received_download cfgs = concat (map (\<lambda>t. case map_of cfgs t of None \<Rightarrow> [] | Some c \<Rightarrow> [(t, Some (received_config t c))])
     (map fst DeviceConfigTypeMap))"

text \<open>An entry of a known type, with a mirror that is not null.\<close>

definition sendable_config :: "DeviceConfigType \<times> DeviceConfig option \<Rightarrow> bool" where
  "sendable_config = (\<lambda>(t, c). t \<in> config_types \<and> (t = 256 \<longrightarrow> as_FrameMirror c \<noteq> None))"

lemma configs_loaded:
  assumes "tinyxml2_laws X" "\<forall>x \<in> set cfgs. sendable_config x" "distinct (map fst cfgs)"
    and "\<And>t. t \<in> config_types \<Longrightarrow> FirstChildElement X e (config_name t) = None"
  shows "load_configs (config_readers X split) (fold (write_device_config X fmt) cfgs e) [] = received_download cfgs"
proof -
  let ?root = "fold (write_device_config X fmt) cfgs e"
  let ?g = "\<lambda>t. case map_of cfgs t of None \<Rightarrow> [] | Some c \<Rightarrow> [(t, Some (received_config t c))]"
  have sub: "fst ` set cfgs \<subseteq> config_types" using assms(2) by (auto simp: sendable_config_def)
  have "(case rd ?root of None \<Rightarrow> [] | Some c \<Rightarrow> [(t, c)]) = ?g t" if r: "(t, rd) \<in> set (config_readers X split)" for t rd
  proof -
    have "t \<in> set (map fst (config_readers X split))" using r by force
    then have t: "t \<in> config_types" unfolding reader_types by (simp add: config_types_def)
    note found = config_found [OF assms(1) sub assms(3) t assms(4) [OF t], of fmt]
    show ?thesis
    proof (cases "map_of cfgs t")
      case None
      then show ?thesis using config_unread [OF r, of ?root] found by simp
    next
      case (Some c)
      then have "t = 256 \<Longrightarrow> as_FrameMirror c \<noteq> None" using assms(2) by (auto simp: sendable_config_def dest!: map_of_SomeD)
      then show ?thesis using config_reader [OF assms(1) r, of ?root fmt c] found Some by simp
    qed
  qed
  then have "map (\<lambda>(t, rd). case rd ?root of None \<Rightarrow> [] | Some c \<Rightarrow> [(t, c)]) (config_readers X split) = map (?g \<circ> fst) (config_readers X split)"
    by (intro map_cong [OF refl]) (auto simp only: o_apply prod.case fst_conv)
  then show ?thesis
    using load_configs_eq [of "config_readers X split" "[]" ?root] types_distinct
    by (simp add: reader_types received_download_def flip: map_map)
qed

interpretation ConfigDownload: message_codec "load_ConfigDownload split" "parse_ConfigDownload fmt"
  ConfigDownloadResponseMessage_default "\<lambda>d. d\<lparr>cd_configs := received_download (cd_configs d)\<rparr>"
  "\<lambda>i r d. cd_result d \<noteq> Result_invalid \<and> (cd_configs d = [] \<longrightarrow> cd_result d = Result_Error)
     \<and> (\<forall>x \<in> set (cd_configs d). sendable_config x) \<and> distinct (map fst (cd_configs d))"
  for split :: "string \<Rightarrow> string \<Rightarrow> string list" and fmt :: "int list \<Rightarrow> string"
proof (unfold_locales, goal_cases)
  case (1 X m)
  then have sub: "fst ` set (cd_configs (mb_detail m)) \<subseteq> config_types" by (auto simp: sendable_config_def)
  have "k \<notin> config_name ` fst ` set (cd_configs (mb_detail m))" if "k \<in> base_keys" for k
    using sub that by (auto simp: config_types_eq base_keys_def dest!: subsetD)
  then show ?case
    using 1 configs_passed [OF 1(1) sub] configs_name [OF 1(1) sub]
    by (simp add: parse_ConfigDownload_def Let_def continues_def enum_codec base_keys_def xml_simps)
next
  case (2 X m r w)
  let ?cfgs = "cd_configs (mb_detail m)"
  let ?e = "new_Result X (cd_result (mb_detail m)) ''Result'' r"
  let ?root = "fold (write_device_config X fmt) ?cfgs ?e"
  have sub: "fst ` set ?cfgs \<subseteq> config_types" using 2(2) by (auto simp: sendable_config_def)
  have none: "FirstChildElement X ?e (config_name t) = None" if "t \<in> config_types" for t
    using that 2(1-3) by (auto simp: config_types_eq enum_codec base_keys_def xml_simps)
  have result: "''Result'' \<notin> config_name ` fst ` set ?cfgs" using sub by (auto simp: config_types_eq dest!: subsetD)
  have "from_Result X Result_invalid ?root ''Result'' = (True, cd_result (mb_detail m))"
    using 2(1-3) configs_passed [OF 2(1) sub result, of fmt ?e]
    by (simp add: from_xml_element_enum_def select_element_def enum_codec base_keys_def xml_simps)
  moreover have "load_configs (config_readers X split) ?root [] = received_download ?cfgs"
    using configs_loaded [OF 2(1) _ _ none] 2(2) by simp
  moreover have "snd (snd (parse_ConfigDownload fmt X r m)) = ?root"
    using 2(2) by (auto simp: parse_ConfigDownload_def Let_def)
  ultimately show ?case
    using 2(4) by (simp add: load_ConfigDownload_def ConfigDownloadResponseMessage_default_def accept_def Let_def)
qed

lemma requested_header:
  assumes "Name X c \<in> base_keys"
  shows "requested_config X split root c cfg = cfg"
  using assms by (auto simp: requested_config_def base_keys_def strcaseeq_def tolower_def)

lemma requested_headers:
  "\<forall>c \<in> set cs. Name X c \<in> base_keys \<Longrightarrow> fold (requested_config X split root) cs cfg = cfg"
  by (induction cs) (simp_all add: requested_header)

lemma requested_found:
  assumes "tinyxml2_laws X" "sendable_config (t, c)" "Name X ele = config_name t"
    and "FirstChildElement X root (config_name t) = Some (config_element X fmt t c)"
  shows "requested_config X split root ele cfg = (t, Some (received_config t c))"
  using assms(2,3) configs_back(1-7,9-12) [OF assms(1,4)] configs_back(8) [OF assms(1,4), where split = split]
  by (auto simp: requested_config_def sendable_config_def config_types_eq received_config_def strcaseeq_def tolower_def)

interpretation DeviceConfigRequest: message_codec "load_DeviceConfigRequest split" "parse_DeviceConfigRequest fmt"
  DeviceConfigRequestMessage_default
  "\<lambda>d. \<lparr>cf_config = (fst (cf_config d), Some (received_config (fst (cf_config d)) (snd (cf_config d))))\<rparr>"
  "\<lambda>i r d. sendable_config (cf_config d)"
  for split :: "string \<Rightarrow> string \<Rightarrow> string list" and fmt :: "int list \<Rightarrow> string"
proof (unfold_locales, goal_cases)
  case (1 X m)
  obtain t c where c: "cf_config (mb_detail m) = (t, c)" by (cases "cf_config (mb_detail m)")
  then have t: "t \<in> config_types" "t \<noteq> 0" using 1(2) by (auto simp: sendable_config_def config_types_eq)
  have "config_name t \<notin> base_keys" using t(1) by (auto simp: config_types_eq base_keys_def)
  then show ?case
    using 1(1) c t config_written [OF 1(1) t(1), of fmt]
    by (auto simp: parse_DeviceConfigRequest_def continues_def tinyxml2_lawsD FirstChildElement_def find_append split: option.split)
next
  case (2 X m r w)
  obtain t c where c: "cf_config (mb_detail m) = (t, c)" by (cases "cf_config (mb_detail m)")
  then have s: "sendable_config (t, c)" and t: "t \<in> config_types" "t \<noteq> 0"
    using 2(2) by (auto simp: sendable_config_def config_types_eq)
  let ?root = "InsertEndChild X r (config_element X fmt t c)"
  have root: "snd (snd (parse_DeviceConfigRequest fmt X r m)) = ?root"
    using c t config_written(1) [OF 2(1) t(1)] by (simp add: parse_DeviceConfigRequest_def)
  have head: "Name X d \<in> base_keys" if "d \<in> set (ChildElements X r)" for d using 2(3) that by (simp add: header_only_def)
  have "find (\<lambda>d. Name X d = config_name t) (ChildElements X r) = None"
    using head t(1) by (fastforce simp: find_None_iff config_types_eq base_keys_def)
  then have first: "FirstChildElement X ?root (config_name t) = Some (config_element X fmt t c)"
    using config_written(2) [OF 2(1) t(1)] 2(1) by (simp add: FirstChildElement_def find_append tinyxml2_lawsD)
  have "fold (requested_config X split ?root) (ChildElements X r) cfg = cfg" for cfg
    using head by (simp add: requested_headers)
  then have "fold (requested_config X split ?root) (ChildElements X ?root) cfg = (t, Some (received_config t c))" for cfg
    using requested_found [OF 2(1) s config_written(2) [OF 2(1) t(1)] first] 2(1) by (simp add: tinyxml2_lawsD)
  then show ?case
    using 2(4) c t(2) by (simp add: root load_DeviceConfigRequest_def DeviceConfigRequestMessage_default_def accept_def Let_def)
qed

section \<open>Typed entries\<close>

text \<open>The type a value of each class belongs to, and an entry whose value is of the type it is filed under.\<close>

fun config_kind :: "DeviceConfig \<Rightarrow> DeviceConfigType" where
  "config_kind (Conf_BasicParam _) = 1"
| "config_kind (Conf_VideoParamOpt _) = 2"
| "config_kind (Conf_SVACEncode _) = 4"
| "config_kind (Conf_SVACDecode _) = 8"
| "config_kind (Conf_VideoParamAttribute _) = 16"
| "config_kind (Conf_VideoRecordPlan _) = 32"
| "config_kind (Conf_VideoAlarmRecord _) = 64"
| "config_kind (Conf_PictureMask _) = 128"
| "config_kind (Conf_FrameMirror _) = 256"
| "config_kind (Conf_AlarmReport _) = 512"
| "config_kind (Conf_OSDConfig _) = 1024"
| "config_kind (Conf_SnapShot _) = 2048"

definition typed_entry :: "DeviceConfigType \<times> DeviceConfig option \<Rightarrow> bool" where
  "typed_entry = (\<lambda>(t, c). \<exists>v. c = Some v \<and> config_kind v = t)"

lemma reader_typed:
  assumes "(t, rd) \<in> set (config_readers X split)" "rd root = Some c"
  shows "typed_entry (t, c)"
  using assms
  by (auto simp: config_readers_def typed_entry_def found_config_def found_mirror_def from_config_def from_xml_element_FrameMirror_def
      split: if_splits prod.splits option.splits)

lemma emplace_typed:
  assumes "\<forall>x \<in> set cfgs. typed_entry x" "typed_entry (t, c)"
  shows "\<forall>x \<in> set (emplace_config t c cfgs). typed_entry x"
  using assms by (simp add: emplace_config_def)

lemma emplace_distinct: "distinct (map fst cfgs) \<Longrightarrow> distinct (map fst (emplace_config t c cfgs))"
  by (simp add: emplace_config_def)

lemma load_configs_step:
  "load_configs ((t, rd) # readers) root cfgs
    = load_configs readers root (case rd root of None \<Rightarrow> cfgs | Some c \<Rightarrow> emplace_config t c cfgs)"
  by (simp add: load_configs_def)

lemma load_configs_typed:
  assumes "\<And>t rd c. (t, rd) \<in> set readers \<Longrightarrow> rd root = Some c \<Longrightarrow> typed_entry (t, c)" "\<forall>x \<in> set cfgs. typed_entry x"
  shows "\<forall>x \<in> set (load_configs readers root cfgs). typed_entry x"
  using assms
proof (induction readers arbitrary: cfgs)
  case (Cons r readers)
  obtain t rd where r: "r = (t, rd)" by (cases r)
  have new: "typed_entry (t, c)" if "rd root = Some c" for c
    by (rule Cons.prems(1) [of t rd c]) (simp_all only: r list.set_intros(1) that)
  have rest: "typed_entry (t, c)" if "(t, rd) \<in> set readers" "rd root = Some c" for t rd c
    by (rule Cons.prems(1) [of t rd c]) (simp_all only: list.set_intros(2) [OF that(1)] that(2))
  have emplaced: "\<forall>x \<in> set (case rd root of None \<Rightarrow> cfgs | Some c \<Rightarrow> emplace_config t c cfgs). typed_entry x"
  proof (cases "rd root")
    case (Some c)
    show ?thesis unfolding Some option.case by (rule emplace_typed) (use Cons.prems(2) new [OF Some] in simp_all)
  qed (use Cons.prems(2) in simp)
  show ?case
    unfolding r load_configs_step
  proof (rule Cons.IH [of "case rd root of None \<Rightarrow> cfgs | Some c \<Rightarrow> emplace_config t c cfgs"])
    show "typed_entry (t, c)" if "(t, rd) \<in> set readers" "rd root = Some c" for t rd c using that by (rule rest)
  qed (rule emplaced)
qed (simp add: load_configs_def)

lemma load_configs_distinct:
  "distinct (map fst cfgs) \<Longrightarrow> distinct (map fst (load_configs readers root cfgs))"
proof (induction readers arbitrary: cfgs)
  case (Cons r readers)
  obtain t rd where r: "r = (t, rd)" by (cases r)
  show ?case unfolding r load_configs_step using Cons.prems by (intro Cons.IH) (simp add: emplace_distinct split: option.split)
qed (simp add: load_configs_def)

text \<open>No configuration yet, or a typed one.\<close>

definition request_typed :: "DeviceConfigType \<times> DeviceConfig option \<Rightarrow> bool" where
  "request_typed cfg \<longleftrightarrow> cfg = (0, None) \<or> typed_entry cfg"

lemma request_typed_if: "request_typed a \<Longrightarrow> request_typed b \<Longrightarrow> request_typed (if c then a else b)"
  by simp

lemma request_typed_value:
  "request_typed (1, Some (Conf_BasicParam v0))"
  "request_typed (2, Some (Conf_VideoParamOpt v1))"
  "request_typed (4, Some (Conf_SVACEncode v2))"
  "request_typed (8, Some (Conf_SVACDecode v3))"
  "request_typed (16, Some (Conf_VideoParamAttribute v4))"
  "request_typed (32, Some (Conf_VideoRecordPlan v5))"
  "request_typed (64, Some (Conf_VideoAlarmRecord v6))"
  "request_typed (128, Some (Conf_PictureMask v7))"
  "request_typed (256, Some (Conf_FrameMirror v8))"
  "request_typed (512, Some (Conf_AlarmReport v9))"
  "request_typed (1024, Some (Conf_OSDConfig v10))"
  "request_typed (2048, Some (Conf_SnapShot v11))"
  by (simp_all add: request_typed_def typed_entry_def)

lemma requested_typed:
  assumes "request_typed cfg"
  shows "request_typed (fold (requested_config X split root) eles cfg)"
proof -
  have "request_typed (requested_config X split root ele cfg)" if "request_typed cfg" for ele cfg
    unfolding requested_config_def Let_def
    by (rule that request_typed_if request_typed_value)+
  then show ?thesis using assms by (induction eles arbitrary: cfg) simp_all
qed

end
