(* ===== verification/Wire_Facts.thy ===== *)
theory Wire_Facts
  imports Catalog Message_Config Message_Facts
begin

text \<open>
  The properties of the messages of \<open>Message_Notify\<close>, \<open>Catalog\<close> and \<open>Message_Config\<close>: what arrives of them on the other
  side, and that whatever document comes in, the configurations taken from it have the type they are filed under.
\<close>

section \<open>The type of received configurations\<close>

lemma config_kind_known: "config_kind v \<in> config_types"
  by (cases v) (simp_all add: config_types_eq)

lemma typed_entry_known: "typed_entry (t, c) \<Longrightarrow> t \<in> config_types \<and> c \<noteq> None"
  using config_kind_known by (auto simp: typed_entry_def)

lemma typed_entry_sendable: "typed_entry x \<Longrightarrow> sendable_config x"
  using typed_entry_known [of "fst x" "snd x"]
  by (auto simp: typed_entry_def sendable_config_def as_FrameMirror_def split: DeviceConfig.split)

lemma request_typed_nonzero: "request_typed c \<Longrightarrow> (fst c \<noteq> 0) = typed_entry c"
  using typed_entry_known [of "fst c" "snd c"] by (auto simp: request_typed_def typed_entry_def config_types_eq)

text \<open>
  C19. Whatever document a configuration answer is read from, reading it succeeds exactly when its result could be read (is there
  and known), which is then the message's, and
  leaves a list in which every entry has a value of the very type it is filed under (so the cast of \<open>get_config\<close> to that
  type is never null), no type twice, and every entry of a type that can be sent on. Whatever document a request to set a
  configuration is read from, it is accepted exactly when it has come to hold a configuration of the type it says.
\<close>

theorem received_configurations_typed:
  fixes w :: "('e, ConfigDownloadResponseMessage) MessageBase" and v :: "('e, DeviceConfigRequestMessage) MessageBase"
  shows "(\<exists>w'. load_ConfigDownload split X root (w\<lparr>mb_detail := ConfigDownloadResponseMessage_default\<rparr>) =
        Inr (fst (from_Result X Result_invalid root ''Result''), w')
      \<and> cd_result (mb_detail w') = snd (from_Result X Result_invalid root ''Result'')
      \<and> list_all typed_entry (cd_configs (mb_detail w')) \<and> list_all sendable_config (cd_configs (mb_detail w'))
      \<and> distinct (map fst (cd_configs (mb_detail w'))))
    \<and> (\<exists>ok v'. load_DeviceConfigRequest split X root (v\<lparr>mb_detail := DeviceConfigRequestMessage_default\<rparr>) = Inr (ok, v')
      \<and> ok = typed_entry (cf_config (mb_detail v')))"
proof (rule conjI)
  let ?cfgs = "load_configs (config_readers X split) root []"
  have "\<forall>x \<in> set ?cfgs. typed_entry x"
    by (rule load_configs_typed) (auto intro: reader_typed)
  then have "list_all typed_entry ?cfgs" "list_all sendable_config ?cfgs" "distinct (map fst ?cfgs)"
    using load_configs_distinct [of "[]"] typed_entry_sendable by (auto simp: list_all_iff)
  then show "\<exists>w'. load_ConfigDownload split X root (w\<lparr>mb_detail := ConfigDownloadResponseMessage_default\<rparr>) =
        Inr (fst (from_Result X Result_invalid root ''Result''), w')
      \<and> cd_result (mb_detail w') = snd (from_Result X Result_invalid root ''Result'')
      \<and> list_all typed_entry (cd_configs (mb_detail w')) \<and> list_all sendable_config (cd_configs (mb_detail w'))
      \<and> distinct (map fst (cd_configs (mb_detail w')))"
  proof (cases "from_Result X Result_invalid root ''Result''")
    case (Pair ok r)
    then show ?thesis
      using \<open>list_all typed_entry ?cfgs\<close> \<open>list_all sendable_config ?cfgs\<close> \<open>distinct (map fst ?cfgs)\<close>
      by (cases ok) (auto simp: load_ConfigDownload_def ConfigDownloadResponseMessage_default_def accept_def reject_def)
  qed
  let ?c = "fold (requested_config X split root) (ChildElements X root) (0, None)"
  have "request_typed ?c" by (rule requested_typed) (simp add: request_typed_def)
  then show "\<exists>ok v'. load_DeviceConfigRequest split X root (v\<lparr>mb_detail := DeviceConfigRequestMessage_default\<rparr>) = Inr (ok, v')
      \<and> ok = typed_entry (cf_config (mb_detail v'))"
    by (simp add: request_typed_nonzero [OF \<open>request_typed ?c\<close>, symmetric] load_DeviceConfigRequest_def DeviceConfigRequestMessage_default_def accept_def reject_def Let_def)
qed

section \<open>Configurations on the wire\<close>

lemma config_type_request_codec:
  assumes "split_law split" "set order = set DeviceConfigTypeMap" "set order' = set DeviceConfigTypeMap"
  shows "loose_codec (load_ConfigDownloadRequest split order') (parse_ConfigDownloadRequest order)
    ConfigDownloadRequestMessage_default (\<lambda>d. d) (\<lambda>i r d. dl_config_type d \<noteq> 0 \<and> dl_config_type d AND NOT (mask 12) = 0)"
proof (rule loose_codec.intro, goal_cases)
  case (1 X m)
  then show ?case
    by (auto simp: parse_ConfigDownloadRequest_def Let_def continues_def base_keys_def new_xml_element_DeviceConfigType_def xml_simps)
next
  case (2 X m r w)
  then have "FirstChildElement X r ''ConfigType'' = None"
    by (simp add: base_keys_def xml_simps)
  then show ?case
    using 2 config_type_set_roundtrip [OF 2(1) assms(1) _ _ assms(2,3), of "''ConfigType''" r "dl_config_type (mb_detail m)"]
    by (simp add: parse_ConfigDownloadRequest_def load_ConfigDownloadRequest_def ConfigDownloadRequestMessage_default_def accept_def Let_def)
qed

lemma config_bits: "bit (fold (\<lambda>(t, c) r. config_or r t) cfgs r0) n = (bit r0 n \<or> (\<exists>t \<in> fst ` set cfgs. bit t n))"
  by (induction cfgs arbitrary: r0) (auto simp: config_or_def bit_or_iff)

lemma received_entry:
  "fst ` set (case map_of cfgs t of None \<Rightarrow> [] | Some c \<Rightarrow> [(t, Some (received_config t c))]) = {t} \<inter> fst ` set cfgs"
proof (cases "map_of cfgs t")
  case None
  then have "t \<notin> fst ` set cfgs" by (simp add: map_of_eq_None_iff)
  then show ?thesis unfolding None by simp
next
  case (Some c)
  then have "t \<in> fst ` set cfgs" by (metis map_of_eq_None_iff option.distinct(1))
  then show ?thesis unfolding Some by simp
qed

lemma received_keys:
  assumes "fst ` set cfgs \<subseteq> config_types"
  shows "fst ` set (received_download cfgs) = fst ` set cfgs"
proof -
  have "fst ` set (received_download cfgs) = (\<Union>t \<in> config_types. {t} \<inter> fst ` set cfgs)"
    unfolding received_download_def config_types_def set_concat set_map image_UN image_image received_entry ..
  then show ?thesis using assms by blast
qed

lemma received_type: "fst ` set (cd_configs d) \<subseteq> config_types \<Longrightarrow>
  get_config_type (d\<lparr>cd_configs := received_download (cd_configs d)\<rparr>) = get_config_type d"
  by (rule bit_eqI) (simp add: get_config_type_def config_bits received_keys)

text \<open>
  C20. Configurations cross the wire. A set of configuration types arrives as the same set, in whatever order the two sides
  walk over their table of names; an answer arrives with its result and one entry per entry sent, in the order of the types,
  each with the value \<open>received_config\<close> says, and stands for the same set of types; a configuration to be set arrives under
  its type; and so does the answer to that.
\<close>

theorem configurations_survive_wire:
  assumes "tinyxml2_laws X" "split_law split" "set order = set DeviceConfigTypeMap" "set order' = set DeviceConfigTypeMap"
  shows "(sendable q \<and> dl_config_type (mb_detail q) \<noteq> 0 \<and> dl_config_type (mb_detail q) AND NOT (mask 12) = 0 \<longrightarrow>
      survives_wire X (load_ConfigDownloadRequest split order' X) (parse_ConfigDownloadRequest order X)
        ConfigDownloadRequestMessage_default (\<lambda>d. d) q)
    \<and> (sendable p \<and> cd_result (mb_detail p) \<noteq> Result_invalid \<and> (cd_configs (mb_detail p) = [] \<longrightarrow> cd_result (mb_detail p) = Result_Error)
        \<and> list_all sendable_config (cd_configs (mb_detail p)) \<and> distinct (map fst (cd_configs (mb_detail p))) \<longrightarrow>
      survives_wire X (load_ConfigDownload split X) (parse_ConfigDownload fmt X) ConfigDownloadResponseMessage_default
        (\<lambda>d. d\<lparr>cd_configs := received_download (cd_configs d)\<rparr>) p
      \<and> get_config_type ((mb_detail p)\<lparr>cd_configs := received_download (cd_configs (mb_detail p))\<rparr>) = get_config_type (mb_detail p))
    \<and> (sendable c \<and> sendable_config (cf_config (mb_detail c)) \<longrightarrow>
      survives_wire X (load_DeviceConfigRequest split X) (parse_DeviceConfigRequest fmt X) DeviceConfigRequestMessage_default
        (\<lambda>d. \<lparr>cf_config = (fst (cf_config d), Some (received_config (fst (cf_config d)) (snd (cf_config d))))\<rparr>) c)
    \<and> (sendable a \<and> rr_result (mb_detail a) \<noteq> Result_invalid \<longrightarrow>
      survives_wire X (load_DeviceConfigResponse X) (parse_DeviceConfigResponse X) ResultResponse_default (\<lambda>d. d) a)"
proof -
  have "get_config_type ((mb_detail p)\<lparr>cd_configs := received_download (cd_configs (mb_detail p))\<rparr>) = get_config_type (mb_detail p)"
    if "list_all sendable_config (cd_configs (mb_detail p))"
    by (rule received_type) (use that in \<open>auto simp: list_all_iff sendable_config_def\<close>)
  then show ?thesis
    using loose_codec.message_roundtrip [OF config_type_request_codec [OF assms(2-4)] assms(1), of q]
      ConfigDownload.message_roundtrip [OF assms(1), of p split fmt] DeviceConfigRequest.message_roundtrip [OF assms(1), of c split fmt]
      DeviceConfigResponse.message_roundtrip [OF assms(1), of a]
    by (auto simp: list_all_iff)
qed

theorem configurations_survive_wire_witness:
  "\<forall>fmt. survives_wire wire_xml (load_DeviceConfigRequest split_ref wire_xml) (parse_DeviceConfigRequest fmt wire_xml)
     DeviceConfigRequestMessage_default
     (\<lambda>d. \<lparr>cf_config = (fst (cf_config d), Some (received_config (fst (cf_config d)) (snd (cf_config d))))\<rparr>)
     (DeviceConfigRequestMessage_new ''3402'' (512, Some (Conf_AlarmReport AlarmReportCfgType_default)))"
  using configurations_survive_wire [OF wire_xml_laws split_ref_law refl refl, of _ _ _
      "DeviceConfigRequestMessage_new ''3402'' (512, Some (Conf_AlarmReport AlarmReportCfgType_default))"]
  by (simp add: DeviceConfigRequestMessage_new_def sendable_def sendable_config_def config_types_eq MessageBase_new_def
      MessageBase_default_def)

section \<open>Catalogs\<close>

lemma empty_text_faults:
  assumes "tinyxml2_laws X" "GetText X (SetText X [] (NewElement X k)) = None" "[] \<in> set its"
  shows "strings_of_texts X (map (\<lambda>it. SetText X it (NewElement X k)) its) = Inl NullText"
  using assms(3)
proof (induction its)
  case (Cons t ts)
  then show ?case using assms(1,2) by (cases "t = []") (auto simp: string_of_text_def tinyxml2_lawsD)
qed simp

text \<open>
  C21. A catalog crosses the wire, as an answer or as a notification, with its total, every item in its order and the extra
  information, and each item with all its texts, its state, its event and its details, except for what \<open>Item_after\<close> says: the
  optional numbers and the business group do not arrive, an empty grassroots code and absent days of recording arrive as
  their default. An answer that holds an empty extra text makes the receiver construct a string from a null pointer.
\<close>

theorem catalog_on_the_wire:
  assumes "tinyxml2_laws X" "sendable m"
  shows "([] \<notin> set (cg_extra (mb_detail m)) \<longrightarrow>
      survives_wire X (load_Catalog X) (parse_Catalog X) CatalogResponseMessage_default
        (\<lambda>d. d\<lparr>cg_items := map Item_after (cg_items d)\<rparr>) m
      \<and> survives_wire X (load_CatalogNotify X) (parse_CatalogNotify X) CatalogResponseMessage_default
        (\<lambda>d. d\<lparr>cg_items := map Item_after (cg_items d)\<rparr>) m)
    \<and> (GetText X (SetText X [] (NewElement X ''ExtraInfo'')) = None \<and> [] \<in> set (cg_extra (mb_detail m)) \<and> header_only X r \<longrightarrow>
      load_Catalog X (snd (snd (parse_Catalog X r m))) w = Inl NullText)"
proof (rule conjI; rule impI)
  assume ok: "[] \<notin> set (cg_extra (mb_detail m))"
  have "load_CatalogNotify X = load_Catalog X" "parse_CatalogNotify X = parse_Catalog X"
    by (simp_all add: load_CatalogNotify_def parse_CatalogNotify_def)
  then show "survives_wire X (load_Catalog X) (parse_Catalog X) CatalogResponseMessage_default
        (\<lambda>d. d\<lparr>cg_items := map Item_after (cg_items d)\<rparr>) m
      \<and> survives_wire X (load_CatalogNotify X) (parse_CatalogNotify X) CatalogResponseMessage_default
        (\<lambda>d. d\<lparr>cg_items := map Item_after (cg_items d)\<rparr>) m"
    using CatalogResponse.message_roundtrip [OF assms] ok by simp
next
  assume "GetText X (SetText X [] (NewElement X ''ExtraInfo'')) = None \<and> [] \<in> set (cg_extra (mb_detail m)) \<and> header_only X r"
  then show "load_Catalog X (snd (snd (parse_Catalog X r m))) w = Inl NullText"
    using assms(1)
    by (simp add: load_Catalog_def parse_Catalog_def Let_def Item.name_new append_items_sel base_keys_def empty_text_faults xml_simps)
qed

theorem catalog_on_the_wire_witness:
  "survives_wire wire_xml (load_Catalog wire_xml) (parse_Catalog wire_xml) CatalogResponseMessage_default
     (\<lambda>d. d\<lparr>cg_items := map Item_after (cg_items d)\<rparr>) (CatalogResponseMessage_new ''3402'' 1 [ItemTypeInfo_default] [])"
  using conjunct1 [OF catalog_on_the_wire [OF wire_xml_laws,
      of "CatalogResponseMessage_new ''3402'' 1 [ItemTypeInfo_default] []" "Dom [] [] None []" undefined]]
  by (simp add: CatalogResponseMessage_new_def sendable_def MessageBase_new_def MessageBase_default_def)

section \<open>Notifications\<close>

text \<open>
  The notifications and their answers cross the wire: the end of a snapshot upload, the media status, an upgrade's result,
  alarm subscriptions and the answers to alarms unchanged; positions with the time filled in, and each coordinate as
  \<open>ItemMobilePosition_after\<close> says; an uploaded video without its coordinates; an alarm as \<open>AlarmNotify_after\<close> says.
\<close>

theorem notifications_survive_wire:
  assumes "tinyxml2_laws X"
  shows "(sendable s \<and> us_session_id (mb_detail s) \<noteq> [] \<and> [] \<notin> set (us_snap_shot_lists (mb_detail s)) \<longrightarrow>
      survives_wire X (load_UploadSnapShot X) (parse_UploadSnapShot X) UploadSnapShotFinishedNotifyMessage_default (\<lambda>d. d) s)
    \<and> (sendable p \<and> list_all (\<lambda>it. finite_double (mp_Longitude it) \<and> finite_double (mp_Latitude it)) (mn_device_list (mb_detail p)) \<longrightarrow>
      survives_wire X (load_MobilePositionNotify X) (parse_MobilePositionNotify now X) MobilePositionNotifyMessage_default
        (\<lambda>d. d\<lparr>mn_time := (if mn_time d = [] then now else mn_time d), mn_device_list := map ItemMobilePosition_after (mn_device_list d)\<rparr>) p)
    \<and> (sendable e \<and> ms_notify_type (mb_detail e) \<noteq> [] \<longrightarrow>
      survives_wire X (load_MediaStatus X) (parse_MediaStatus X) MediaStatusNotifyMessage_default (\<lambda>d. d) e)
    \<and> (sendable v \<and> (vu_time (mb_detail v) \<noteq> [] \<or> now \<noteq> []) \<longrightarrow>
      survives_wire X (load_VideoUpload X) (parse_VideoUpload now X) VideoUploadNotifyMessage_default
        (\<lambda>d. \<lparr>vu_time = (if vu_time d = [] then now else vu_time d), vu_longitude = None, vu_latitude = None\<rparr>) v)
    \<and> (sendable u \<and> ug_session_id (mb_detail u) \<noteq> [] \<and> ug_result (mb_detail u) \<noteq> Result_invalid \<longrightarrow>
      survives_wire X (load_DeviceUpgradeResult X) (parse_DeviceUpgradeResult X) DeviceUpgradeResultNotifyMessage_default (\<lambda>d. d) u)
    \<and> (sendable r \<longrightarrow>
      survives_wire X (load_AlarmRequest X) (parse_AlarmRequest X) AlarmRequestMessage_default (\<lambda>d. d) r)
    \<and> (sendable a \<and> finite_double (an_longitude (mb_detail a)) \<and> finite_double (an_latitude (mb_detail a))
        \<and> [] \<notin> set (an_extra_info (mb_detail a)) \<longrightarrow>
      survives_wire X (load_AlarmNotify X) (parse_AlarmNotify X) AlarmNotifyMessage_default AlarmNotify_after a)
    \<and> (sendable b \<and> rr_result (mb_detail b) \<noteq> Result_invalid \<longrightarrow>
      survives_wire X (load_AlarmNotifyResponse X) (parse_AlarmNotifyResponse X) ResultResponse_default (\<lambda>d. d) b)"
  using UploadSnapShot.message_roundtrip [OF assms, of s] MobilePositionNotify.message_roundtrip [OF assms, of p now]
    MediaStatus.message_roundtrip [OF assms, of e] VideoUpload.message_roundtrip [OF assms, of v now]
    DeviceUpgradeResult.message_roundtrip [OF assms, of u] AlarmRequest.message_roundtrip [OF assms, of r]
    AlarmNotify.message_roundtrip [OF assms, of a] AlarmNotifyResponse.message_roundtrip [OF assms, of b]
  by (intro conjI impI) (simp_all add: list_all_iff)

theorem notifications_survive_wire_witness:
  "survives_wire wire_xml (load_AlarmRequest wire_xml) (parse_AlarmRequest wire_xml) AlarmRequestMessage_default (\<lambda>d. d)
     (MessageBase_new Root_Query Cmd_Alarm (Some ''3402'') [] AlarmRequestMessage_default)"
  using notifications_survive_wire [OF wire_xml_laws, of _ _ _ _ _ _ "MessageBase_new Root_Query Cmd_Alarm (Some ''3402'') [] AlarmRequestMessage_default"]
  by (simp add: sendable_new)

text \<open>
  Records and the points of a cruise track: what a query loses (the secrecy and the stream number), what the
  answer loses (the stream numbers of the files and the extra information), and the track's name.
\<close>

theorem records_on_the_wire:
  assumes "tinyxml2_laws X"
  shows "(sendable q \<and> rq_start_time (mb_detail q) \<noteq> [] \<and> rq_end_time (mb_detail q) \<noteq> [] \<longrightarrow>
      survives_wire X (load_RecordInfoRequest X) (parse_RecordInfoRequest X) RecordInfoRequestMessage_default
        (\<lambda>d. d\<lparr>rq_secrecy := 0, rq_stream_number := None\<rparr>) q)
    \<and> (sendable r \<longrightarrow>
      survives_wire X (load_RecordInfoResponse X) (parse_RecordInfoResponse X) RecordInfoResponseMessage_default
        (\<lambda>d. d\<lparr>ri_record_list := map (\<lambda>v. v\<lparr>fl_StreamNumber := None\<rparr>) (ri_record_list d), ri_extra_info := []\<rparr>) r)
    \<and> (sendable c \<and> cs_result (mb_detail c) \<noteq> Result_invalid \<longrightarrow>
      survives_wire X (load_CruiseTrack X) (parse_CruiseTrack X) CruiseTrackResponseMessage_default (\<lambda>d. d\<lparr>cs_name := []\<rparr>) c)"
  using RecordInfoRequest.message_roundtrip [OF assms, of q] RecordInfoResponse.message_roundtrip [OF assms, of r]
    CruiseTrack.message_roundtrip [OF assms, of c]
  by (intro conjI impI) simp_all

end
