(* ===== verification/Subordinate_Calls.thy ===== *)
theory Subordinate_Calls
  imports Subordinate_Facts Query_Facts Wire_Facts Invite Subscribe
begin

text \<open>
  What the application asks of a platform below, and what it hears from it (\<open>src/subordinate_platform_impl.cpp\<close>): the
  queries, controls and configurations, each the message and the request proxy that carries it, and \<open>on_notify\<close>, which
  hands the notifications of the platform to the application. An event of the notice centre is an effect.
\<close>

section \<open>Requests\<close>

text \<open>
  A request on its way: the message, the kind of its proxy, whether the data callback is installed, and whether a callback for the
  result is given. \<open>control\<close> is what the cast to \<open>DeviceControlRequestMessage\<close> finds.
\<close>

record ('e, 'd) outgoing =
  og_message :: "('e, 'd) MessageBase"
  og_kind :: "(proxy_class \<times> RequestType) option"
  og_data_callback :: bool
  og_rcb :: bool

definition send_request :: "DeviceControlType option \<Rightarrow> ('e, 'd) MessageBase \<Rightarrow> bool \<Rightarrow> ('e, 'd) outgoing" where
  "send_request control m rcb =
     \<lparr>og_message = m, og_kind = newRequestProxy (mb_root m) (mb_cmd m) control, og_data_callback = False, og_rcb = rcb\<rparr>"

text \<open>\<open>device_id.empty() ? account_.platform_id : device_id\<close>\<close>

definition own_id :: "subordinate \<Rightarrow> string \<Rightarrow> string" where
  "own_id p device_id = (if device_id = [] then sa_platform_id (ph_account p) else device_id)"

definition query_device_status :: "subordinate \<Rightarrow> string \<Rightarrow> bool \<Rightarrow> ('e, unit) outgoing" where
  "query_device_status p device_id rcb = send_request None (DeviceStatusMessageRequest_new (own_id p device_id)) rcb"

text \<open>The data callback is installed when the result callback is given.\<close>

definition query_catalog :: "string \<Rightarrow> bool \<Rightarrow> bool \<Rightarrow> ('e, CatalogRequestMessage) outgoing" where
  "query_catalog device_id data_callback rcb =
     (send_request None (CatalogRequestMessage_new device_id [] []) rcb)\<lparr>og_data_callback := rcb \<and> data_callback\<rparr>"

definition query_device_info :: "subordinate \<Rightarrow> string \<Rightarrow> bool \<Rightarrow> ('e, unit) outgoing" where
  "query_device_info p device_id rcb = send_request None (DeviceInfoMessageRequest_new (own_id p device_id)) rcb"

definition query_record_info ::
    "('e, RecordInfoRequestMessage) MessageBase \<Rightarrow> bool \<Rightarrow> ('e, RecordInfoRequestMessage) outgoing" where
  "query_record_info req rcb = send_request None req rcb"

definition query_home_position :: "string \<Rightarrow> bool \<Rightarrow> ('e, unit) outgoing" where
  "query_home_position device_id rcb = send_request None (HomePositionRequestMessage_new device_id) rcb"

definition query_cruise_list :: "string \<Rightarrow> bool \<Rightarrow> ('e, unit) outgoing" where
  "query_cruise_list device_id rcb = send_request None (CruiseTrackListRequestMessage_new device_id) rcb"

definition query_cruise :: "string \<Rightarrow> i32 \<Rightarrow> bool \<Rightarrow> ('e, CruiseTrackRequestMessage) outgoing" where
  "query_cruise device_id number rcb = send_request None (CruiseTrackRequestMessage_new device_id number) rcb"

definition query_ptz_position :: "string \<Rightarrow> bool \<Rightarrow> ('e, unit) outgoing" where
  "query_ptz_position device_id rcb = send_request None (PTZPositionRequestMessage_new device_id) rcb"

definition query_sd_card_status :: "string \<Rightarrow> bool \<Rightarrow> ('e, unit) outgoing" where
  "query_sd_card_status device_id rcb = send_request None (SdCardRequestMessage_new device_id) rcb"

definition query_config :: "subordinate \<Rightarrow> string \<Rightarrow> DeviceConfigType \<Rightarrow> bool \<Rightarrow> ('e, ConfigDownloadRequestMessage) outgoing" where
  "query_config p device_id config_type rcb =
     send_request None (ConfigDownloadRequestMessage_new (own_id p device_id) config_type) rcb"

definition query_preset :: "subordinate \<Rightarrow> string \<Rightarrow> bool \<Rightarrow> ('e, unit) outgoing" where
  "query_preset p device_id rcb = send_request None (PresetRequestMessage_new (own_id p device_id)) rcb"

definition set_device_config ::
    "subordinate \<Rightarrow> string \<Rightarrow> DeviceConfigType \<times> DeviceConfig option \<Rightarrow> bool \<Rightarrow> ('e, DeviceConfigRequestMessage) outgoing" where
  "set_device_config p device_id config rcb = send_request None (DeviceConfigRequestMessage_new (own_id p device_id) config) rcb"

section \<open>Controls\<close>

text \<open>The constructors of the requests; the additional texts of the application come first in each record.\<close>

definition TeleBootRequest_new :: "string \<Rightarrow> string list \<Rightarrow> ('e, TeleBootRequest) MessageBase" where
  "TeleBootRequest_new device_id extra = DeviceControl_new device_id (TeleBootRequest_default\<lparr>dc_extra_info := extra\<rparr>)"

definition RecordCmdRequest_new :: "string \<Rightarrow> RecordType \<Rightarrow> i8 \<Rightarrow> string list \<Rightarrow> ('e, RecordCmdRequest) MessageBase" where
  "RecordCmdRequest_new device_id type stream_number extra = DeviceControl_new device_id 
     \<lparr>dc_extra_info = extra, rc_record_type = type, rc_stream_number = stream_number\<rparr>"

definition GuardCmdRequest_new :: "string \<Rightarrow> GuardType \<Rightarrow> string list \<Rightarrow> ('e, GuardCmdRequest) MessageBase" where
  "GuardCmdRequest_new device_id type extra = DeviceControl_new device_id \<lparr>dc_extra_info = extra, gc_guard_type = type\<rparr>"

definition AlarmCmdRequest_new :: "string \<Rightarrow> AlarmCmdInfoType option \<Rightarrow> string list \<Rightarrow> ('e, AlarmCmdRequest) MessageBase" where
  "AlarmCmdRequest_new device_id info extra = DeviceControl_new device_id 
     (AlarmCmdRequest_default\<lparr>dc_extra_info := extra, am_info := info\<rparr>)"

definition IFrameCmdRequest_new :: "string \<Rightarrow> string list \<Rightarrow> ('e, IFrameCmdRequest) MessageBase" where
  "IFrameCmdRequest_new device_id extra = DeviceControl_new device_id (IFrameCmdRequest_default\<lparr>dc_extra_info := extra\<rparr>)"

definition DragZoomInRequest_new :: "string \<Rightarrow> DragZoomType \<Rightarrow> string list \<Rightarrow> ('e, DragZoomRequest) MessageBase" where
  "DragZoomInRequest_new device_id drag_zoom extra = DeviceControl_new device_id \<lparr>dc_extra_info = extra, dr_drag_zoom = drag_zoom\<rparr>"

definition DragZoomOutRequest_new :: "string \<Rightarrow> DragZoomType \<Rightarrow> string list \<Rightarrow> ('e, DragZoomRequest) MessageBase" where
  "DragZoomOutRequest_new device_id drag_zoom extra = DragZoomInRequest_new device_id drag_zoom extra"

definition HomePositionControl_new :: "string \<Rightarrow> i8 \<Rightarrow> u8 option \<Rightarrow> i32 option \<Rightarrow> string list \<Rightarrow> ('e, HomePositionRequest) MessageBase" where
  "HomePositionControl_new device_id flag preset_index reset_time extra = DeviceControl_new device_id 
     \<lparr>dc_extra_info = extra, hq_enabled = flag, hq_preset_index = preset_index, hq_reset_time = reset_time\<rparr>"

definition PtzPreciseCtrlRequest_new :: "string \<Rightarrow> PTZPreciseCtrlType \<Rightarrow> string list \<Rightarrow> ('e, PtzPreciseCtrlRequest) MessageBase" where
  "PtzPreciseCtrlRequest_new device_id ctrl extra = DeviceControl_new device_id \<lparr>dc_extra_info = extra, px_ctrl = ctrl\<rparr>"

definition DeviceUpgradeRequest_new :: "string \<Rightarrow> DeviceUpgradeType \<Rightarrow> string list \<Rightarrow> ('e, DeviceUpgradeRequest) MessageBase" where
  "DeviceUpgradeRequest_new device_id upgrade extra = DeviceControl_new device_id \<lparr>dc_extra_info = extra, dg_upgrade = upgrade\<rparr>"

definition FormatSDCardRequest_new :: "string \<Rightarrow> u8 \<Rightarrow> string list \<Rightarrow> ('e, FormatSDCardRequest) MessageBase" where
  "FormatSDCardRequest_new device_id index extra = DeviceControl_new device_id \<lparr>dc_extra_info = extra, fs_index = index\<rparr>"

definition TargetTrackRequest_new :: "string \<Rightarrow> TargetTraceType \<Rightarrow> string \<Rightarrow> DragZoomType option \<Rightarrow> string list \<Rightarrow> ('e, TargetTrackRequest) MessageBase" where
  "TargetTrackRequest_new device_id trace device_id2 area extra = DeviceControl_new device_id 
     \<lparr>dc_extra_info = extra, tt_target_trace = trace, tt_device_id2 = device_id2, tt_target_area = area\<rparr>"

lemmas control_new_defs = TeleBootRequest_new_def RecordCmdRequest_new_def GuardCmdRequest_new_def AlarmCmdRequest_new_def
  IFrameCmdRequest_new_def DragZoomInRequest_new_def DragZoomOutRequest_new_def FormatSDCardRequest_new_def

definition device_control_ptz :: "string \<Rightarrow> PTZCommand \<Rightarrow> string \<Rightarrow> bool \<Rightarrow> ('e, PTZCmdRequest) outgoing" where
  "device_control_ptz device_id ptz_cmd name rcb =
     (let m = PTZCmdRequest_new device_id ptz_cmd None [];
          m = (if name = [] then m
               else m\<lparr>mb_detail := (mb_detail m)\<lparr>pz_params :=
                 Some (PtzCmdParams_default\<lparr>pp_CruiseTrackName := name, pp_PresetName := name\<rparr>)\<rparr>\<rparr>)
      in send_request (Some DC_PTZCmd) m rcb)"

definition device_control_tele_boot :: "string \<Rightarrow> bool \<Rightarrow> ('e, TeleBootRequest) outgoing" where
  "device_control_tele_boot device_id rcb = send_request (Some DC_TeleBoot) (TeleBootRequest_new device_id []) rcb"

text \<open>The number of the stream is an \<open>int\<close>, which the constructor takes as an \<open>int8_t\<close>.\<close>

definition device_control_record_cmd :: "string \<Rightarrow> RecordType \<Rightarrow> i32 \<Rightarrow> bool \<Rightarrow> ('e, RecordCmdRequest) outgoing" where
  "device_control_record_cmd device_id type stream_number rcb = send_request (Some DC_RecordCmd)
     (RecordCmdRequest_new device_id type (ucast stream_number) []) rcb"

definition device_control_guard_cmd :: "string \<Rightarrow> GuardType \<Rightarrow> bool \<Rightarrow> ('e, GuardCmdRequest) outgoing" where
  "device_control_guard_cmd device_id type rcb = send_request (Some DC_GuardCmd)
     (GuardCmdRequest_new device_id type []) rcb"

definition device_control_alarm_cmd :: "string \<Rightarrow> AlarmCmdInfoType option \<Rightarrow> bool \<Rightarrow> ('e, AlarmCmdRequest) outgoing" where
  "device_control_alarm_cmd device_id info rcb = send_request (Some DC_AlarmCmd)
     (AlarmCmdRequest_new device_id info []) rcb"

definition device_control_i_frame_cmd :: "string \<Rightarrow> bool \<Rightarrow> ('e, IFrameCmdRequest) outgoing" where
  "device_control_i_frame_cmd device_id rcb = send_request (Some DC_IFrameCmd) (IFrameCmdRequest_new device_id []) rcb"

definition device_control_drag_zoom_in :: "string \<Rightarrow> DragZoomType \<Rightarrow> bool \<Rightarrow> ('e, DragZoomRequest) outgoing" where
  "device_control_drag_zoom_in device_id drag rcb = send_request (Some DC_DragZoomIn)
     (DragZoomInRequest_new device_id drag []) rcb"

definition device_control_drag_zoom_out :: "string \<Rightarrow> DragZoomType \<Rightarrow> bool \<Rightarrow> ('e, DragZoomRequest) outgoing" where
  "device_control_drag_zoom_out device_id drag rcb = send_request (Some DC_DragZoomOut)
     (DragZoomOutRequest_new device_id drag []) rcb"

definition device_control_home_position :: "('e, HomePositionRequest) MessageBase \<Rightarrow> bool \<Rightarrow> ('e, HomePositionRequest) outgoing" where
  "device_control_home_position req rcb = send_request (Some DC_HomePosition) req rcb"

definition device_control_ptz_precise_ctrl ::
    "('e, PtzPreciseCtrlRequest) MessageBase \<Rightarrow> bool \<Rightarrow> ('e, PtzPreciseCtrlRequest) outgoing" where
  "device_control_ptz_precise_ctrl req rcb = send_request (Some DC_PtzPreciseCtrl) req rcb"

definition device_control_device_upgrade ::
    "('e, DeviceUpgradeRequest) MessageBase \<Rightarrow> bool \<Rightarrow> ('e, DeviceUpgradeRequest) outgoing" where
  "device_control_device_upgrade req rcb = send_request (Some DC_DeviceUpgrade) req rcb"

text \<open>The index is an \<open>int\<close>, which the constructor takes as an \<open>uint8_t\<close>.\<close>

definition device_control_format_sd_card :: "string \<Rightarrow> i32 \<Rightarrow> bool \<Rightarrow> ('e, FormatSDCardRequest) outgoing" where
  "device_control_format_sd_card device_id index rcb = send_request (Some DC_FormatSDCard)
     (FormatSDCardRequest_new device_id (ucast index) []) rcb"

definition device_control_target_track :: "('e, TargetTrackRequest) MessageBase \<Rightarrow> bool \<Rightarrow> ('e, TargetTrackRequest) outgoing" where
  "device_control_target_track req rcb = send_request (Some DC_TargetTrack) req rcb"

text \<open>Invitations and subscriptions are made here and live on their own.\<close>

definition platform_invite :: "SdpDescription option \<Rightarrow> string \<Rightarrow> invite" where
  "platform_invite sdp device_id = InviteRequestImpl sdp device_id"

definition platform_subscribe :: "i32 option \<Rightarrow> subscribe_info \<Rightarrow> subscription" where
  "platform_subscribe message info = outgoing_subscription message info"

section \<open>Notifications\<close>

text \<open>
  What a notification sets off: an event with the message that was read, and for an alarm its confirmation, which a proxy
  without a response carries under the number of the alarm.
\<close>

datatype 'e notify_effect =
    NotifyKeepalive "('e, KeepaliveMessageRequest) MessageBase"
  | NotifyAlarm "('e, AlarmNotifyMessage) MessageBase"
  | ConfirmAlarm i32 "('e, ResultResponse) MessageBase"
  | NotifyCatalog "('e, CatalogResponseMessage) MessageBase"
  | NotifyMediaStatus "('e, MediaStatusNotifyMessage) MessageBase"
  | NotifyMobilePosition "('e, MobilePositionNotifyMessage) MessageBase"
  | NotifyUploadSnapShotFinished "('e, UploadSnapShotFinishedNotifyMessage) MessageBase"
  | NotifyVideoUpload "('e, VideoUploadNotifyMessage) MessageBase"
  | NotifyDeviceUpgradeResult "('e, DeviceUpgradeResultNotifyMessage) MessageBase"

text \<open>The result of \<open>load_from_xml\<close> is ignored; the keepalive is not even read.\<close>

definition notify_loaded ::
    "'e tinyxml2 \<Rightarrow> ('e, 'd) load_detail \<Rightarrow> 'd \<Rightarrow> (('e, 'd) MessageBase \<Rightarrow> 'e notify_effect list) \<Rightarrow> ('e, unit) MessageBase
      \<Rightarrow> subordinate \<Rightarrow> (subordinate \<times> 'e notify_effect list \<times> nat) outcome" where
  "notify_loaded X load fresh emit m p =
     bind_outcome (load_from_xml X load (MessageBase_move m fresh)) (\<lambda>(ok, m). Inr (p, emit m, 200))"

definition confirm_alarm :: "('e, AlarmNotifyMessage) MessageBase \<Rightarrow> 'e notify_effect" where
  "confirm_alarm m = ConfirmAlarm (mb_sn m)
     (AlarmNotifyResponseMessage_new (case mb_device_id m of None \<Rightarrow> [] | Some i \<Rightarrow> i) Result_OK [])"

definition on_notify ::
    "'e tinyxml2 \<Rightarrow> clock \<Rightarrow> ('e, unit) MessageBase \<Rightarrow> subordinate \<Rightarrow> (subordinate \<times> 'e notify_effect list \<times> nat) outcome" where
  "on_notify X now m p =
     (case mb_cmd m of
        Cmd_Keepalive \<Rightarrow>
          (case on_keep_alive now p of (p, ns, code) \<Rightarrow>
             Inr (p, map (\<lambda>_. NotifyKeepalive (MessageBase_move m KeepaliveMessageRequest_default)) ns, code))
      | Cmd_Alarm \<Rightarrow>
          notify_loaded X (load_AlarmNotify X) AlarmNotifyMessage_default (\<lambda>m. [NotifyAlarm m, confirm_alarm m]) m p
      | Cmd_Catalog \<Rightarrow>
          notify_loaded X (load_CatalogNotify X) CatalogResponseMessage_default (\<lambda>m. [NotifyCatalog m]) m p
      | Cmd_MediaStatus \<Rightarrow>
          notify_loaded X (load_MediaStatus X) MediaStatusNotifyMessage_default (\<lambda>m. [NotifyMediaStatus m]) m p
      | Cmd_MobilePosition \<Rightarrow>
          notify_loaded X (load_MobilePositionNotify X) MobilePositionNotifyMessage_default (\<lambda>m. [NotifyMobilePosition m]) m p
      | Cmd_UploadSnapShotFinished \<Rightarrow>
          notify_loaded X (load_UploadSnapShot X) UploadSnapShotFinishedNotifyMessage_default
            (\<lambda>m. [NotifyUploadSnapShotFinished m]) m p
      | Cmd_VideoUploadNotify \<Rightarrow>
          notify_loaded X (load_VideoUpload X) VideoUploadNotifyMessage_default (\<lambda>m. [NotifyVideoUpload m]) m p
      | Cmd_DeviceUpgradeResult \<Rightarrow>
          notify_loaded X (load_DeviceUpgradeResult X) DeviceUpgradeResultNotifyMessage_default
            (\<lambda>m. [NotifyDeviceUpgradeResult m]) m p
      | _ \<Rightarrow> Inr (p, [], 404))"

section \<open>From the sender to the application\<close>

text \<open>The header is read twice: by the dispatch and by the class of the notification.\<close>

lemma load_header_again:
  assumes "load_header X root m = Inr w"
    and "mb_cmd m' = mb_cmd w" "mb_sn m' = mb_sn w" "mb_device_id m' = mb_device_id w" "mb_reason m' = mb_reason w"
  shows "load_header X root m' = Inr m'"
  using assms
  by (auto simp: load_header_def Let_def bind_outcome_def split: option.splits sum.splits)

text \<open>\<open>base\<close> is what the dispatch has read of the document that the sender of \<open>m\<close> wrote.\<close>

definition arrives :: "'e tinyxml2 \<Rightarrow> ('e, 'd) parse_detail \<Rightarrow> ('e, 'd) MessageBase \<Rightarrow> 'e XMLDocument \<Rightarrow> ('e, unit) MessageBase \<Rightarrow> bool" where
  "arrives X parse m doc base \<longleftrightarrow>
     fst (parse_to_xml X parse True m) \<and> mb_xml (snd (parse_to_xml X parse True m)) = Some doc
     \<and> load_from_xml X load_nothing (MessageBase_xml (Some doc) ()) = Inr (True, base)"

context loose_codec begin

lemma arrived:
  assumes X: "tinyxml2_laws X" and m: "sendable m" "ok (mb_device_id m) (mb_reason m) (mb_detail m)"
    and base: "arrives X (parse X) m doc base"
  shows "mb_cmd base = mb_cmd m \<and> mb_sn base = mb_sn m \<and> mb_device_id base = wire_device_id (mb_device_id m)"
    "load_from_xml X (load X) (MessageBase_move base fresh) = Inr (True, received norm m doc)"
proof -
  let ?msg = "m\<lparr>mb_xml := None\<rparr>"
  obtain m' r where p: "parse X (header_root X ?msg) ?msg = (True, m', r)" "continues X (header_root X ?msg) r"
      "mb_extend_data m' = mb_extend_data m"
    using writes [OF X, of ?msg] m by auto
  have doc: "doc = \<lparr>Declaration = Some (xml_declaration (mb_encoding m)), RootElement = Some r\<rparr>"
    using base m p by (auto simp: arrives_def parse_to_xml_def sendable_def load_extend_data_def)
  let ?empty = "(MessageBase_xml (Some doc) ())\<lparr>mb_root := mb_root m\<rparr>"
  have head: "getRootType (Some (Name X r)) = mb_root m"
    "load_header X r ?empty = Inr (?empty\<lparr>mb_cmd := mb_cmd m, mb_sn := mb_sn m,
       mb_device_id := wire_device_id (mb_device_id m), mb_reason := mb_reason m\<rparr>)"
    using load_header_back [OF X _ _ p(2), of ?empty] m
    by (simp_all add: sendable_def MessageBase_xml_def MessageBase_default_def)
  let ?b = "(MessageBase_xml (Some doc) ())\<lparr>mb_root := mb_root m, mb_cmd := mb_cmd m, mb_is_valid := True, mb_sn := mb_sn m,
      mb_encoding := wire_encoding (mb_encoding m), mb_reason := mb_reason m, mb_device_id := wire_device_id (mb_device_id m)\<rparr>"
  have "load_from_xml X load_nothing (MessageBase_xml (Some doc) ()) = Inr (True, ?b)"
    using m head
    by (simp add: load_from_xml_def load_encoding_def encoding_roundtrip sendable_def load_nothing_def doc
        MessageBase_xml_def MessageBase_default_def wire_encoding_def Let_def)
  then have b: "base = ?b" using base by (simp add: arrives_def)
  then show "mb_cmd base = mb_cmd m \<and> mb_sn base = mb_sn m \<and> mb_device_id base = wire_device_id (mb_device_id m)" by simp
  let ?w = "MessageBase_move base fresh"
  have again: "load_header X r ?w = Inr ?w"
    by (rule load_header_again [OF head(2)]) (simp_all add: b MessageBase_move_def)
  have detail: "load X r m0 = Inr (True, m0\<lparr>mb_detail := norm (mb_detail m)\<rparr>)"
    if "mb_detail m0 = fresh" "mb_device_id m0 = wire_device_id (mb_device_id m)" "mb_reason m0 = mb_reason m" for m0
    using reads [OF X, where m = ?msg and r = "header_root X ?msg" and w = m0] p(1) m that
      header_root_only(1) [OF X, of ?msg] by simp
  have same: "?w\<lparr>mb_root := mb_root m\<rparr> = ?w" by (simp add: b MessageBase_move_def)
  have enc: "load_encoding doc ?w = ?w" by (simp add: load_encoding_def b MessageBase_move_def wire_encoding_def)
  show "load_from_xml X (load X) ?w = Inr (True, received norm m doc)"
    using m head(1) detail [of ?w] same again enc
    by (simp add: load_from_xml_def sendable_def doc Let_def) (simp add: b doc MessageBase_move_def received_def MessageBase_xml_def MessageBase_default_def)
qed

end

end
