(* ===== verification/Call_Facts.thy ===== *)
theory Call_Facts
  imports Subordinate_Calls
begin

text \<open>
  The properties of the calls and notifications of \<open>Subordinate_Calls\<close>: what one side sends is what the other side's application
  gets, and both sides expect the same number of answers.
\<close>

section \<open>Notifications\<close>



text \<open>A media status and its document, for the witnesses.\<close>

definition demo_status :: "(dom, MediaStatusNotifyMessage) MessageBase" where
  "demo_status = (MediaStatusNotifyMessage_new ''34'' ''121'')\<lparr>mb_sn := 5\<rparr>"

definition demo_document :: "dom XMLDocument" where
  "demo_document = the (mb_xml (snd (parse_to_xml wire_xml (parse_MediaStatus wire_xml) True demo_status)))"

definition demo_base :: "(dom, unit) MessageBase" where
  "demo_base = (case load_from_xml wire_xml load_nothing (MessageBase_xml (Some demo_document) ()) of Inr (ok, b) \<Rightarrow> b)"

lemma demo_arrives: "arrives wire_xml (parse_MediaStatus wire_xml) demo_status demo_document demo_base"
  by code_simp


text \<open>
  A notification is confirmed exactly when its sender waits for an answer: \<open>on_notify\<close> confirms a message if and only if the
  proxy that carries this kind of notification expects a response. It never changes the platform, a keepalive apart, and its
  code is 200, 404 for a kind it does not know, or 0 for a keepalive of a platform that is not online.
\<close>

theorem notifications_confirmed_as_expected:
  assumes "on_notify X now m p = Inr (p', es, code)"
  shows "(\<exists>sn r. ConfirmAlarm sn r \<in> set es) = (newRequestProxy Root_Notify (mb_cmd m) control = Some (C_Plain, OneResponse))
    \<and> (mb_cmd m = Cmd_Keepalive \<or> p' = p) \<and> code \<in> {0, 200, 404}"
proof -
  have other: "newRequestProxy Root_Notify c control = Some (C_Plain, if c = Cmd_Alarm then OneResponse else NoResponse)" for c
    by (simp add: newRequestProxy_def Let_def)
  show ?thesis
    using assms unfolding other
    by (cases "mb_cmd m") (auto simp: on_notify_def notify_loaded_def bind_outcome_def confirm_alarm_def on_keep_alive_def
        split: sum.splits prod.splits if_splits)
qed

theorem notifications_confirmed_as_expected_witness:
  "\<not> (\<exists>sn r. ConfirmAlarm sn r \<in> set [NotifyMediaStatus (received (\<lambda>d. d) demo_status demo_document)])"
proof -
  have "on_notify wire_xml now demo_base p = Inr (p, [NotifyMediaStatus (received (\<lambda>d. d) demo_status demo_document)], 200)" for now p
    using MediaStatus.arrived [OF wire_xml_laws _ _ demo_arrives]
    by (simp add: on_notify_def notify_loaded_def demo_status_def MediaStatusNotifyMessage_new_def sendable_def MessageBase_new_def
        MessageBase_default_def)
  moreover have "mb_cmd demo_base = Cmd_MediaStatus" by code_simp
  ultimately show ?thesis
    using notifications_confirmed_as_expected [of wire_xml undefined demo_base undefined undefined _ 200 None]
    by (simp add: newRequestProxy_def)
qed

section \<open>Calls\<close>

text \<open>The handler of the platform that gets the request sends what the proxy of the request expects.\<close>

definition answered_alike :: "DeviceControlType option \<Rightarrow> ('e, 'd) outgoing \<Rightarrow> bool" where
  "answered_alike control g \<longleftrightarrow>
     sendable (og_message g) \<and> mb_sn (og_message g) = 0 \<and>
     (case control of
        None \<Rightarrow> \<exists>k cls. on_query_handler (mb_cmd (og_message g)) = Some k \<and> mb_root (og_message g) = Root_Query
          \<and> og_kind g = Some (cls, if k = MultiResponseQueryHandler then MultipleResponses else OneResponse)
      | Some c \<Rightarrow> mb_root (og_message g) = Root_Control \<and> mb_cmd (og_message g) = Cmd_DeviceControl
          \<and> og_kind g = Some (C_Plain, if on_control_handler c = NoResponseQueryHandler then NoResponse else OneResponse))"

lemma queries_alike:
  assumes "on_query_handler c = Some k"
  shows "answered_alike None (send_request None (MessageBase_new Root_Query c i [] d) rcb)"
  using assms unfolding answered_alike_def send_request_def
  by (cases c) (simp_all add: on_query_handler_def newRequestProxy_def Let_def multi_mask sendable_def MessageBase_new_def
      MessageBase_default_def)

lemma control_proxy:
  "newRequestProxy Root_Control Cmd_DeviceControl (Some c)
    = Some (C_Plain, if on_control_handler c = NoResponseQueryHandler then NoResponse else OneResponse)"
  unfolding newRequestProxy_def Let_def
  by (simp add: silent_mask) (cases c; simp add: on_control_handler_def)

lemma controls_alike: "answered_alike (Some c) (send_request (Some c) (DeviceControl_new i d) rcb)"
  by (simp add: answered_alike_def send_request_def control_proxy sendable_def DeviceControl_new_def MessageBase_new_def MessageBase_default_def)

lemma call_simps:
  "answered_alike c (g\<lparr>og_data_callback := b\<rparr>) = answered_alike c g"
  "og_message (send_request c m rcb) = m"
  "og_kind (send_request None (MessageBase_new Root_Control Cmd_DeviceConfig i r d) rcb) = Some (C_Plain, OneResponse)"
  "mb_device_id (MessageBase_new root cmd i r d) = i" "mb_device_id (DeviceControl_new j d') = Some j"
  by (cases c; simp add: answered_alike_def)
    (simp_all add: send_request_def newRequestProxy_def Let_def MessageBase_new_def DeviceControl_new_def)

lemma config_sendable:
  "sendable (MessageBase_new Root_Control Cmd_DeviceConfig i r d)" "mb_sn (MessageBase_new root cmd i r d) = 0"
  "mb_root (MessageBase_new root cmd i r d) = root" "mb_cmd (MessageBase_new root cmd i r d) = cmd"
  by (simp_all add: sendable_def MessageBase_new_def MessageBase_default_def)

text \<open>
  A catalog query that the application makes for an empty device id stops the platform that gets it. The empty id is
  not written, so the document has no \<open>DeviceID\<close>; it is accepted by the dispatch, and the reader of the
  query then looks at the characters of an id that is not there, instead of refusing the message with the error it has for this
  case.
\<close>

theorem catalog_query_without_id_faults:
  assumes "tinyxml2_laws X" "arrives X (parse_CatalogRequest X) (og_message (query_catalog [] cb rcb)) doc base"
  shows "mb_cmd base = Cmd_Catalog \<and> mb_root base = Root_Query \<and>
    load_from_xml X (load_CatalogRequest X) (MessageBase_move base CatalogRequestMessage_default) = Inl NoValue"
proof -
  let ?m = "og_message (query_catalog [] cb rcb) :: ('a, CatalogRequestMessage) MessageBase"
  have m: "?m = CatalogRequestMessage_new [] [] []" by (simp add: query_catalog_def call_simps)
  obtain r where r: "r = header_root X ?m" by simp
  have p: "parse_CatalogRequest X (header_root X ?m) ?m = (True, ?m, r)"
    unfolding r by (simp add: parse_CatalogRequest_def m CatalogRequestMessage_new_def MessageBase_new_def MessageBase_default_def
      new_if_text_def Let_def)
  have same: "?m\<lparr>mb_xml := None\<rparr> = ?m" and m: "mb_xml ?m = None" "sendable ?m"
    and id: "mb_device_id ?m = Some []" "mb_root ?m = Root_Query" "mb_cmd ?m = Cmd_Catalog" "mb_reason ?m = []" "mb_sn ?m = 0"
    by (simp_all add: m CatalogRequestMessage_new_def MessageBase_new_def MessageBase_default_def sendable_def)
  have "parse_to_xml X (parse_CatalogRequest X) True ?m
      = (True, ?m\<lparr>mb_xml := Some \<lparr>Declaration = Some (xml_declaration (mb_encoding ?m)), RootElement = Some r\<rparr>\<rparr>)"
    unfolding parse_to_xml_def Let_def if_True same using p m by (simp add: sendable_def load_extend_data_def)
  then have doc: "doc = \<lparr>Declaration = Some (xml_declaration (mb_encoding ?m)), RootElement = Some r\<rparr>"
    using assms(2) by (simp add: arrives_def)
  let ?empty = "(MessageBase_xml (Some doc) ())\<lparr>mb_root := Root_Query\<rparr>"
  have head: "getRootType (Some (Name X r)) = Root_Query"
    "load_header X r ?empty = Inr (?empty\<lparr>mb_cmd := Cmd_Catalog, mb_sn := 0, mb_device_id := None, mb_reason := []\<rparr>)"
    using load_header_back [OF assms(1), of ?m r ?empty] r
    by (simp_all add: id continues_def MessageBase_xml_def MessageBase_default_def wire_device_id_def)
  have b: "mb_cmd base = Cmd_Catalog" "mb_root base = Root_Query" "mb_sn base = 0" "mb_device_id base = None" "mb_reason base = []"
      "mb_xml base = Some doc"
    using assms(2) head
    by (auto simp: arrives_def load_from_xml_def load_encoding_def load_nothing_def doc MessageBase_xml_def
        MessageBase_default_def Let_def split: if_splits)
  let ?w = "MessageBase_move base CatalogRequestMessage_default"
  have again: "load_header X r ?w = Inr ?w"
    by (rule load_header_again [OF head(2)]) (simp_all add: b MessageBase_move_def)
  have same: "?w\<lparr>mb_root := Root_Query\<rparr> = ?w" by (simp add: b(2) MessageBase_move_def)
  have "load_header X r (?w\<lparr>mb_root := Root_Query\<rparr>) = Inr ?w" unfolding same by (rule again)
  moreover have "mb_device_id (load_encoding doc ?w) = None" by (simp add: load_encoding_def b MessageBase_move_def Let_def doc)
  moreover have "mb_xml ?w = Some doc" "mb_root ?w = Root_Query" by (simp_all add: MessageBase_move_def b)
  ultimately show ?thesis
    using head(1) b by (simp add: load_from_xml_def load_CatalogRequest_def doc Let_def)
qed

theorem catalog_query_without_id_faults_witness:
  "\<exists>doc base. arrives dom_xml (parse_CatalogRequest dom_xml) (og_message (query_catalog [] True True)) doc base
    \<and> load_from_xml dom_xml (load_CatalogRequest dom_xml) (MessageBase_move base CatalogRequestMessage_default) = Inl NoValue"
proof -
  let ?doc = "the (mb_xml (snd (parse_to_xml dom_xml (parse_CatalogRequest dom_xml) True
    (og_message (query_catalog [] True True)))))"
  let ?base = "case load_from_xml dom_xml load_nothing (MessageBase_xml (Some ?doc) ()) of Inr (ok, b) \<Rightarrow> b"
  have "arrives dom_xml (parse_CatalogRequest dom_xml) (og_message (query_catalog [] True True)) ?doc ?base" by code_simp
  from catalog_query_without_id_faults [OF dom_xml_laws this] this show ?thesis by blast
qed

end
