(* ===== verification/Sip_Headers.thy ===== *)
theory Sip_Headers
  imports Super_Platform ConfigCodec
begin

text \<open>
  The headers of SIP messages (\<open>src/inner/sip_common.cpp\<close>): what the setters add to a request or a reply, and what the getters
  read of a received message. The message is the SIP library's; its functions are the parameter \<open>L\<close>. An absent or empty
  header value (\<open>cstrvalid\<close>) is \<open>None\<close>. Requests and replies have a setter each with the same body.
\<close>

record 'm header_library =
  AddHeader :: "string \<Rightarrow> string \<Rightarrow> 'm \<Rightarrow> 'm" \<comment> \<open>\<open>sip_uac_add_header\<close>, \<open>sip_uas_add_header\<close>\<close>
  SetHeader :: "string \<Rightarrow> string \<Rightarrow> 'm \<Rightarrow> 'm" \<comment> \<open>\<open>sip_params_add_or_update\<close>\<close>
  GetHeader :: "'m \<Rightarrow> string \<Rightarrow> string option" \<comment> \<open>\<open>sip_message_get_header_by_name\<close>, \<open>sip_params_find\<close>\<close>
  FromUser :: "'m \<Rightarrow> string option" \<comment> \<open>\<open>sip_uri_username\<close> of the From, the To and the request's URI\<close>
  ToUser :: "'m \<Rightarrow> string option"
  RequestUser :: "'m \<Rightarrow> string option"

text \<open>A header that is added can be read when there was none of its name, and no other header changes.\<close>

definition header_library_laws :: "'m header_library \<Rightarrow> bool" where
  "header_library_laws L \<longleftrightarrow>
     (\<forall>k v m. v \<noteq> [] \<longrightarrow> GetHeader L m k = None \<longrightarrow> GetHeader L (AddHeader L k v m) k = Some v)
     \<and> (\<forall>k v m. v \<noteq> [] \<longrightarrow> GetHeader L (SetHeader L k v m) k = Some v)
     \<and> (\<forall>k k' v m. k' \<noteq> k \<longrightarrow> GetHeader L (AddHeader L k v m) k' = GetHeader L m k'
          \<and> GetHeader L (SetHeader L k v m) k' = GetHeader L m k')"

section \<open>Setters\<close>

text \<open>\<open>force\<close> is the build option \<open>FORCE_USER_AGENT\<close>, \<open>agent\<close> the text of the header.\<close>

definition set_message_agent :: "'m header_library \<Rightarrow> bool \<Rightarrow> string \<Rightarrow> 'm \<Rightarrow> 'm" where
  "set_message_agent L force agent m =
     (if force then SetHeader L ''User-Agent'' agent m
      else if GetHeader L m ''User-Agent'' = None then AddHeader L ''User-Agent'' agent m else m)"

definition set_message_gbt_version :: "'m header_library \<Rightarrow> PlatformVersionType \<Rightarrow> 'm \<Rightarrow> 'm" where
  "set_message_gbt_version L version m =
     (case version of
        Ver_v10 \<Rightarrow> AddHeader L ''X-GB-Ver'' ''1.0'' m
      | Ver_v11 \<Rightarrow> AddHeader L ''X-GB-Ver'' ''1.1'' m
      | Ver_v20 \<Rightarrow> AddHeader L ''X-GB-Ver'' ''2.0'' m
      | Ver_v30 \<Rightarrow> AddHeader L ''X-GB-Ver'' ''3.0'' m
      | Ver_unknown \<Rightarrow> m)"

definition set_message_header :: "'m header_library \<Rightarrow> bool \<Rightarrow> string \<Rightarrow> 'm \<Rightarrow> 'm" where
  "set_message_header L force agent m = set_message_gbt_version L Ver_v30 (set_message_agent L force agent m)"

definition set_message_contact :: "'m header_library \<Rightarrow> string \<Rightarrow> 'm \<Rightarrow> 'm" where
  "set_message_contact L contact m = AddHeader L ''Contact'' contact m"

datatype SipContentType = SipContentType_XML | SipContentType_SDP | SipContentType_MANSRTSP

definition set_message_content_type :: "'m header_library \<Rightarrow> SipContentType \<Rightarrow> 'm \<Rightarrow> 'm" where
  "set_message_content_type L content_type m = AddHeader L ''Content-Type''
     (case content_type of
        SipContentType_XML \<Rightarrow> ''Application/MANSCDP+xml''
      | SipContentType_SDP \<Rightarrow> ''Application/sdp''
      | SipContentType_MANSRTSP \<Rightarrow> ''Application/MANSRTSP'') m"

definition set_message_reason :: "'m header_library \<Rightarrow> string \<Rightarrow> 'm \<Rightarrow> 'm" where
  "set_message_reason L reason m = AddHeader L ''Reason'' reason m"

text \<open>The segments of a path are joined with hyphens; an empty text is not sent.\<close>

definition set_x_preferred_path :: "'m header_library \<Rightarrow> string list \<Rightarrow> 'm \<Rightarrow> 'm" where
  "set_x_preferred_path L path m =
     (let data = join ''-'' path in if data = [] then m else AddHeader L ''X-PreferredPath'' data m)"

definition set_x_route_path :: "'m header_library \<Rightarrow> string list \<Rightarrow> 'm \<Rightarrow> 'm" where
  "set_x_route_path L path m =
     (let data = join ''-'' path in if data = [] then m else AddHeader L ''X-RoutePath'' data m)"

definition set_x_route_path_pair :: "'m header_library \<Rightarrow> string \<Rightarrow> string option \<Rightarrow> 'm \<Rightarrow> 'm" where
  "set_x_route_path_pair L local sub m =
     AddHeader L ''X-RoutePath'' (case sub of None \<Rightarrow> local | Some s \<Rightarrow> local @ ''-'' @ s) m"

definition set_message_authorization :: "'m header_library \<Rightarrow> string \<Rightarrow> 'm \<Rightarrow> 'm" where
  "set_message_authorization L authorization m =
     (if authorization = [] then m else AddHeader L ''Authorization'' authorization m)"

text \<open>Without a transaction nothing is set.\<close>

definition set_invite_subject :: "'m header_library \<Rightarrow> string \<Rightarrow> 'm option \<Rightarrow> 'm option" where
  "set_invite_subject L subject m = map_option (AddHeader L ''Subject'' subject) m"

text \<open>\<open>now\<close> is \<open>toolkit::getTimeStr\<close>.\<close>

definition set_message_date :: "'m header_library \<Rightarrow> string \<Rightarrow> 'm \<Rightarrow> 'm" where
  "set_message_date L now m = AddHeader L ''Date'' now m"

definition set_message_expires :: "'m header_library \<Rightarrow> int \<Rightarrow> 'm \<Rightarrow> 'm" where
  "set_message_expires L expires m = AddHeader L ''Expires'' (show_int expires) m"

definition set_message_www_authenticate :: "'m header_library \<Rightarrow> string \<Rightarrow> string \<Rightarrow> 'm \<Rightarrow> 'm" where
  "set_message_www_authenticate L nonce realm m = AddHeader L ''WWW-Authenticate'' (generate_www_authentication realm nonce) m"

section \<open>Getters\<close>

text \<open>A null message, and a header that is not valid, give the empty text.\<close>

definition header_text :: "'m header_library \<Rightarrow> string \<Rightarrow> 'm option \<Rightarrow> string" where
  "header_text L k msg =
     (case msg of None \<Rightarrow> [] | Some m \<Rightarrow> (case GetHeader L m k of None \<Rightarrow> [] | Some hv \<Rightarrow> hv))"

definition get_message_reason :: "'m header_library \<Rightarrow> 'm option \<Rightarrow> string" where
  "get_message_reason L = header_text L ''Reason''"

definition get_invite_subject :: "'m header_library \<Rightarrow> 'm option \<Rightarrow> string" where
  "get_invite_subject L = header_text L ''Subject''"

definition get_www_authenticate :: "'m header_library \<Rightarrow> 'm option \<Rightarrow> string" where
  "get_www_authenticate L = header_text L ''WWW-Authenticate''"

definition get_x_preferred_path :: "'m header_library \<Rightarrow> (string \<Rightarrow> string \<Rightarrow> string list) \<Rightarrow> 'm \<Rightarrow> string list" where
  "get_x_preferred_path L split m =
     (case GetHeader L m ''X-PreferredPath'' of None \<Rightarrow> [] | Some hv \<Rightarrow> split hv ''-'')"

definition get_x_route_path :: "'m header_library \<Rightarrow> (string \<Rightarrow> string \<Rightarrow> string list) \<Rightarrow> 'm \<Rightarrow> string list" where
  "get_x_route_path L split m =
     (case GetHeader L m ''X-RoutePath'' of None \<Rightarrow> [] | Some hv \<Rightarrow> split hv ''-'')"

definition get_platform_id :: "'m header_library \<Rightarrow> 'm option \<Rightarrow> string" where
  "get_platform_id L msg =
     (case msg of None \<Rightarrow> [] | Some m \<Rightarrow> (case FromUser L m of None \<Rightarrow> [] | Some s \<Rightarrow> s))"

text \<open>The device of an invitation is the user of the request's URI, or else of the To.\<close>

definition get_invite_device_id :: "'m header_library \<Rightarrow> 'm option \<Rightarrow> string" where
  "get_invite_device_id L msg =
     (case msg of None \<Rightarrow> []
      | Some m \<Rightarrow> (case RequestUser L m of
          Some s \<Rightarrow> s
        | None \<Rightarrow> (case ToUser L m of None \<Rightarrow> [] | Some s \<Rightarrow> s)))"

section \<open>A message as a list of headers\<close>

record sip_headers =
  sh_fields :: "(string \<times> string) list"
  sh_user :: "string option"

definition list_library :: "sip_headers header_library" where
  "list_library = \<lparr>
     AddHeader = (\<lambda>k v m. m\<lparr>sh_fields := sh_fields m @ [(k, v)]\<rparr>),
     SetHeader = (\<lambda>k v m. m\<lparr>sh_fields := (k, v) # sh_fields m\<rparr>),
     GetHeader = (\<lambda>m k. map_of (filter (\<lambda>(k, v). v \<noteq> []) (sh_fields m)) k),
     FromUser = sh_user, ToUser = sh_user, RequestUser = (\<lambda>m. None)\<rparr>"

lemma list_library_laws: "header_library_laws list_library"
  by (auto simp: header_library_laws_def list_library_def map_add_def split: option.split)

lemma added_header:
  assumes "header_library_laws L"
  shows "v \<noteq> [] \<Longrightarrow> GetHeader L m k = None \<Longrightarrow> GetHeader L (AddHeader L k v m) k = Some v"
    "v \<noteq> [] \<Longrightarrow> GetHeader L (SetHeader L k v m) k = Some v"
    "k' \<noteq> k \<Longrightarrow> GetHeader L (AddHeader L k v m) k' = GetHeader L m k'"
    "k' \<noteq> k \<Longrightarrow> GetHeader L (SetHeader L k v m) k' = GetHeader L m k'"
  using assms unfolding header_library_laws_def by blast+

section \<open>Properties\<close>

text \<open>
  C32. What one side writes into a header that the message does not have yet, the other reads: a known version of the protocol, the
  reason, the subject, the challenge, and the two paths, whose segments must neither be empty nor hold a hyphen; an empty reason
  or subject need not be read as such, and a path without segments is read as none. The agent is added to every message, but one that is
  there stays unless it is forced.
\<close>

theorem headers_roundtrip:
  assumes "header_library_laws L" "split_law split" "agent \<noteq> []"
  shows "(GetHeader L m ''X-GB-Ver'' = None \<and> version \<noteq> Ver_unknown
        \<and> sr_gb_version r = GetHeader L (set_message_gbt_version L version m) ''X-GB-Ver'' \<longrightarrow> get_message_gbt_version r = version)
    \<and> GetHeader L (set_message_header L force agent m) ''User-Agent''
        = Some (case GetHeader L m ''User-Agent'' of None \<Rightarrow> agent | Some a \<Rightarrow> if force then agent else a)
    \<and> (GetHeader L m ''Reason'' = None \<longrightarrow> get_message_reason L (Some (set_message_reason L text m)) = text \<or> text = [])
    \<and> (GetHeader L m ''Subject'' = None \<longrightarrow> get_invite_subject L (set_invite_subject L text (Some m)) = text \<or> text = [])
    \<and> (GetHeader L m ''WWW-Authenticate'' = None \<longrightarrow>
        get_www_authenticate L (Some (set_message_www_authenticate L nonce realm m)) = generate_www_authentication realm nonce)
    \<and> (GetHeader L m ''X-PreferredPath'' = None \<and> list_all (\<lambda>s. s \<noteq> [] \<and> CHR ''-'' \<notin> set s) path \<longrightarrow>
        get_x_preferred_path L split (set_x_preferred_path L path m) = path)
    \<and> (GetHeader L m ''X-RoutePath'' = None \<and> list_all (\<lambda>s. s \<noteq> [] \<and> CHR ''-'' \<notin> set s) path \<longrightarrow>
        get_x_route_path L split (set_x_route_path L path m) = path)"
proof -
  note laws = added_header [OF assms(1)]
  have path: "join ''-'' path \<noteq> [] \<and> split (join ''-'' path) ''-'' = path"
    if "list_all (\<lambda>s. s \<noteq> [] \<and> CHR ''-'' \<notin> set s) path" "path \<noteq> []"
  proof
    have "[] \<notin> set path" using that(1) by (auto simp: list_all_iff)
    then show "join ''-'' path \<noteq> []" by (rule join_nonempty [OF that(2)])
    show "split (join ''-'' path) ''-'' = path" using assms(2) that unfolding split_law_def list_all_iff by blast
  qed
  have challenge: "generate_www_authentication realm nonce \<noteq> []" by (simp add: generate_www_authentication_def)
  show ?thesis
  proof (intro conjI impI, goal_cases)
    case 1
    then show ?case by (cases version) (simp_all add: set_message_gbt_version_def laws get_message_gbt_version_def)
  next
    case 2
    show ?case
      using assms(3) by (simp add: set_message_header_def set_message_gbt_version_def set_message_agent_def laws split: option.split)
  next
    case 6
    then show ?case using path
      by (cases "path = []") (simp_all add: set_x_preferred_path_def get_x_preferred_path_def laws)
  next
    case 7
    then show ?case using path
      by (cases "path = []") (simp_all add: set_x_route_path_def get_x_route_path_def laws)
  qed (use challenge in \<open>auto simp: get_message_reason_def set_message_reason_def get_invite_subject_def set_invite_subject_def
      get_www_authenticate_def set_message_www_authenticate_def header_text_def laws\<close>)
qed

theorem headers_roundtrip_witness:
  "get_x_route_path list_library split_ref (set_x_route_path list_library [''34020000'', ''34020001''] \<lparr>sh_fields = [], sh_user = None\<rparr>)
    = [''34020000'', ''34020001'']"
  using headers_roundtrip [OF list_library_laws split_ref_law, of "''agent''" "\<lparr>sh_fields = [], sh_user = None\<rparr>" _ _ _ _ _ _
      "[''34020000'', ''34020001'']"]
  by (simp add: list_library_def)

end
