(* ===== verification/Sip_Timer.thy ===== *)
theory Sip_Timer
  imports Prelude "HOL-Library.Multiset"
begin

text \<open>
  The timers of the SIP library on the event poller (\<open>src/inner/timer_impl.cpp\<close>). A timer is started once; then the delayed
  task on the poller and the calls of \<open>sip_timer_stop\<close> on any threads race for one atomic flag, and every stop queues a job that
  cancels the task and deletes the context. The steps below are the atomic ones of the code: the two reads of the handle, the
  exchange of the flag, the queueing of the job and the clearing of the handle are five steps of the calling thread, and a step that
  uses a context already deleted is a fault.
\<close>

datatype stop_pc =
    StopEntered
  | StopTested \<comment> \<open>the first test saw a handle\<close>
  | StopHolding \<comment> \<open>\<open>context\<close> was read from the handle\<close>
  | StopExchanged bool \<comment> \<open>\<open>flag\<close>\<close>
  | StopDeferred bool \<comment> \<open>the job is queued, the handle not yet cleared\<close>
  | StopReturned int
  | StopFaulted bool

record sip_timer =
  tm_id :: bool \<comment> \<open>the handle of the user is not null\<close>
  tm_handled :: bool \<comment> \<open>\<open>handle_flag\<close>\<close>
  tm_queued :: bool \<comment> \<open>the poller still has the delayed task\<close>
  tm_jobs :: nat \<comment> \<open>queued jobs that delete the context\<close>
  tm_freed :: bool
  tm_stops :: "stop_pc multiset" \<comment> \<open>the calls of \<open>sip_timer_stop\<close> on this handle\<close>

datatype timer_effect = RunHandler | StopReturns int | DeleteContext bool \<comment> \<open>whether it was deleted before\<close> | UseDeleted

definition sip_timer_start :: sip_timer where
  "sip_timer_start = \<lparr>tm_id = True, tm_handled = False, tm_queued = True, tm_jobs = 0, tm_freed = False, tm_stops = {#}\<rparr>"

text \<open>The delayed task; it runs once.\<close>

definition timer_task :: "sip_timer \<Rightarrow> sip_timer \<times> timer_effect list" where
  "timer_task t =
     (if tm_handled t then (t\<lparr>tm_queued := False\<rparr>, [])
      else (t\<lparr>tm_handled := True, tm_queued := False\<rparr>, [RunHandler]))"

text \<open>The next step of a call of \<open>sip_timer_stop\<close>.\<close>

fun sip_timer_stop :: "stop_pc \<Rightarrow> sip_timer \<Rightarrow> stop_pc \<times> sip_timer \<times> timer_effect list" where
  "sip_timer_stop StopEntered t =
     (if \<not> tm_id t then (StopReturned (-1), t, [StopReturns (-1)]) else (StopTested, t, []))"
| "sip_timer_stop StopTested t =
     (if \<not> tm_id t then (StopReturned (-1), t\<lparr>tm_id := False\<rparr>, [StopReturns (-1)]) else (StopHolding, t, []))"
| "sip_timer_stop StopHolding t =
     (if tm_freed t then (StopFaulted False, t, [UseDeleted])
      else (StopExchanged (\<not> tm_handled t), t\<lparr>tm_handled := True\<rparr>, []))"
| "sip_timer_stop (StopExchanged flag) t =
     (if tm_freed t then (StopFaulted flag, t, [UseDeleted])
      else (StopDeferred flag, t\<lparr>tm_jobs := tm_jobs t + 1\<rparr>, []))"
| "sip_timer_stop (StopDeferred flag) t =
     (let r = (if flag then 0 else -1) in (StopReturned r, t\<lparr>tm_id := False\<rparr>, [StopReturns r]))"
| "sip_timer_stop (StopReturned r) t = (StopReturned r, t, [])"
| "sip_timer_stop (StopFaulted flag) t = (StopFaulted flag, t, [])"

fun stop_running :: "stop_pc \<Rightarrow> bool" where
  "stop_running (StopReturned r) = False"
| "stop_running (StopFaulted flag) = False"
| "stop_running p = True"

definition timer_cleanup :: "sip_timer \<Rightarrow> sip_timer \<times> timer_effect list" where
  "timer_cleanup t = (t\<lparr>tm_queued := False, tm_jobs := tm_jobs t - 1, tm_freed := True\<rparr>, [DeleteContext (tm_freed t)])"

text \<open>
  The runs of a timer where at most \<open>n\<close> calls of \<open>sip_timer_stop\<close> are in progress at the same time: with \<open>n = 1\<close> a stop starts
  only when the stop before it has returned.
\<close>

inductive timer_run :: "nat \<Rightarrow> timer_effect list \<Rightarrow> sip_timer \<Rightarrow> bool" for n where
  started: "timer_run n [] sip_timer_start"
| task: "timer_run n es t \<Longrightarrow> tm_queued t \<Longrightarrow> timer_task t = (t', es') \<Longrightarrow> timer_run n (es @ es') t'"
| calls: "timer_run n es t \<Longrightarrow> size (filter_mset stop_running (tm_stops t)) < n
    \<Longrightarrow> timer_run n es (t\<lparr>tm_stops := add_mset StopEntered (tm_stops t)\<rparr>)"
| stop: "timer_run n es t \<Longrightarrow> tm_stops t = add_mset p ps \<Longrightarrow> stop_running p \<Longrightarrow> sip_timer_stop p t = (p', t', es')
    \<Longrightarrow> timer_run n (es @ es') (t'\<lparr>tm_stops := add_mset p' ps\<rparr>)"
| cleanup: "timer_run n es t \<Longrightarrow> 0 < tm_jobs t \<Longrightarrow> timer_cleanup t = (t', es') \<Longrightarrow> timer_run n (es @ es') t'"

lemmas timer_steps = timer_task_def timer_cleanup_def Let_def

text \<open>What holds between the steps: who won the flag, and whether the poller can still run the task.\<close>

fun stop_won :: "stop_pc \<Rightarrow> bool" where
  "stop_won (StopExchanged flag) = flag"
| "stop_won (StopDeferred flag) = flag"
| "stop_won (StopFaulted flag) = flag"
| "stop_won p = False"

fun past_exchange :: "stop_pc \<Rightarrow> bool" where
  "past_exchange (StopExchanged flag) = True"
| "past_exchange (StopDeferred flag) = True"
| "past_exchange p = False"

definition timer_inv :: "timer_effect list \<Rightarrow> sip_timer \<Rightarrow> bool" where
  "timer_inv es t \<longleftrightarrow>
     count_list es RunHandler + count_list es (StopReturns 0) + size (filter_mset stop_won (tm_stops t)) = (if tm_handled t then 1 else 0)
     \<and> (tm_queued t \<longrightarrow> \<not> tm_freed t \<and> RunHandler \<notin> set es)
     \<and> (\<not> tm_handled t \<longrightarrow> tm_queued t \<and> tm_jobs t = 0 \<and> tm_id t \<and> filter_mset past_exchange (tm_stops t) = {#})"

lemma timer_invariant: "timer_run n es t \<Longrightarrow> timer_inv es t"
proof (induction rule: timer_run.induct)
  case started
  then show ?case by (simp add: timer_inv_def sip_timer_start_def)
next
  case (task es t t' es')
  then show ?case by (auto simp: timer_inv_def timer_steps split: if_splits)
next
  case (calls es t)
  then show ?case by (simp add: timer_inv_def)
next
  case (stop es t p ps p' t' es')
  then show ?case by (cases p) (auto simp: timer_inv_def Let_def split: if_splits)
next
  case (cleanup es t t' es')
  then show ?case by (auto simp: timer_inv_def timer_steps split: if_splits)
qed

text \<open>With one stop at a time every part of the code that uses the context comes before its deletion.\<close>

fun before_deferral :: "stop_pc \<Rightarrow> bool" where
  "before_deferral StopHolding = True"
| "before_deferral (StopExchanged flag) = True"
| "before_deferral p = False"

fun deferred :: "stop_pc \<Rightarrow> bool" where
  "deferred (StopDeferred flag) = True"
| "deferred p = False"

definition one_stop_inv :: "timer_effect list \<Rightarrow> sip_timer \<Rightarrow> bool" where
  "one_stop_inv es t \<longleftrightarrow>
     size (filter_mset stop_running (tm_stops t)) \<le> 1
     \<and> (filter_mset before_deferral (tm_stops t) \<noteq> {#} \<or> filter_mset deferred (tm_stops t) \<noteq> {#} \<longrightarrow> tm_id t)
     \<and> tm_jobs t + (if tm_freed t then 1 else 0) = (if tm_id t \<and> filter_mset deferred (tm_stops t) = {#} then 0 else 1)
     \<and> count_list es (DeleteContext False) = (if tm_freed t then 1 else 0) \<and> DeleteContext True \<notin> set es \<and> UseDeleted \<notin> set es"

lemma running_alone:
  assumes "stop_running p" "size (filter_mset stop_running (add_mset p ps)) \<le> 1"
  shows "filter_mset before_deferral ps = {#}" "filter_mset deferred ps = {#}" "size (filter_mset stop_running ps) \<le> 1"
proof -
  have none: "filter_mset stop_running ps = {#}"
    using assms by simp
  have "before_deferral q \<Longrightarrow> stop_running q" "deferred q \<Longrightarrow> stop_running q" for q
    by (cases q; simp)+
  with none show "filter_mset before_deferral ps = {#}" "filter_mset deferred ps = {#}"
    by auto
  show "size (filter_mset stop_running ps) \<le> 1"
    by (simp only: none size_empty)
qed

lemma one_stop_step:
  assumes "stop_running p" "sip_timer_stop p t = (p', t', es')" "tm_stops t = add_mset p ps" "one_stop_inv es t"
    and alone: "filter_mset before_deferral ps = {#}" "filter_mset deferred ps = {#}" "size (filter_mset stop_running ps) \<le> 1"
  shows "one_stop_inv (es @ es') (t'\<lparr>tm_stops := add_mset p' ps\<rparr>)"
proof (cases p)
  case StopEntered
  then show ?thesis using assms(2-4) alone by (cases "tm_id t") (auto simp: one_stop_inv_def)
next
  case StopTested
  then show ?thesis using assms(2-4) alone by (cases "tm_id t") (auto simp: one_stop_inv_def)
next
  case StopHolding
  then show ?thesis using assms(2-4) alone by (cases "tm_freed t") (auto simp: one_stop_inv_def)
next
  case (StopExchanged flag)
  then show ?thesis using assms(2-4) alone by (cases "tm_freed t") (auto simp: one_stop_inv_def)
next
  case (StopDeferred flag)
  then show ?thesis using assms(2-4) alone by (cases "tm_freed t") (auto simp: one_stop_inv_def Let_def)
qed (use assms(1) in simp_all)

lemma one_stop_invariant: "timer_run n es t \<Longrightarrow> n \<le> 1 \<Longrightarrow> one_stop_inv es t"
proof (induction rule: timer_run.induct)
  case started
  then show ?case by (simp add: one_stop_inv_def sip_timer_start_def)
next
  case (task es t t' es')
  then show ?case by (auto simp: one_stop_inv_def timer_steps split: if_splits)
next
  case (calls es t)
  then have "size (filter_mset stop_running (tm_stops t)) = 0" "size (filter_mset stop_running (tm_stops t)) \<le> 1" by linarith+
  with calls show ?case by (simp add: one_stop_inv_def)
next
  case (stop es t p ps p' t' es')
  have "size (filter_mset stop_running (add_mset p ps)) \<le> 1"
    using stop.IH [OF stop.prems] stop.hyps(2) unfolding one_stop_inv_def by metis
  note alone = running_alone [OF stop.hyps(3) this]
  with stop.hyps(3,4,2) stop.IH [OF stop.prems] show ?case by (rule one_stop_step)
next
  case (cleanup es t t' es')
  then show ?case by (auto simp: one_stop_inv_def timer_steps split: if_splits)
qed

text \<open>
  C22. However the expiry and any number of stops of a timer interleave, its handler runs at most once, at most one stop says that it
  was in time, and never both; while neither has happened and no stop is between winning the flag and its return, the task is still
  queued. The context is never deleted while the poller can still run the task. When the stops of a handle do not overlap, it is
  deleted at most once and never used afterwards; \<open>overlapping_stops_delete_twice\<close> shows that two stops at the same time
  both delete it.
\<close>

theorem timer_fires_or_stops:
  assumes "timer_run n es t"
  shows "count_list es RunHandler + count_list es (StopReturns 0) \<le> 1
    \<and> (count_list es RunHandler + count_list es (StopReturns 0) = 0 \<and> filter_mset stop_won (tm_stops t) = {#}
        \<longrightarrow> tm_queued t \<and> tm_id t)
    \<and> (tm_queued t \<longrightarrow> \<not> tm_freed t)
    \<and> (n \<le> 1 \<longrightarrow> count_list es (DeleteContext False) \<le> 1 \<and> DeleteContext True \<notin> set es \<and> UseDeleted \<notin> set es)"
proof -
  note inv = timer_invariant [OF assms, unfolded timer_inv_def] and one = one_stop_invariant [OF assms, unfolded one_stop_inv_def]
  have "\<not> tm_handled t" if "count_list es RunHandler + count_list es (StopReturns 0) = 0" "filter_mset stop_won (tm_stops t) = {#}"
    using inv [THEN conjunct1, unfolded that] by (simp split: if_splits)
  moreover have "count_list es RunHandler + count_list es (StopReturns 0) \<le> 1"
    using inv [THEN conjunct1] by (simp split: if_splits)
  ultimately show ?thesis using inv one by (auto split: if_splits)
qed

text \<open>The runs below, with the fields of the state in their order.\<close>

definition at_state :: "nat \<Rightarrow> timer_effect list \<Rightarrow> bool \<Rightarrow> bool \<Rightarrow> bool \<Rightarrow> nat \<Rightarrow> bool \<Rightarrow> stop_pc multiset \<Rightarrow> bool" where
  "at_state n es i h q j f ps \<longleftrightarrow>
     timer_run n es \<lparr>tm_id = i, tm_handled = h, tm_queued = q, tm_jobs = j, tm_freed = f, tm_stops = ps\<rparr>"

lemma at_start: "at_state n [] True False True 0 False {#}"
  using timer_run.started [of n] by (simp add: at_state_def sip_timer_start_def)

lemma at_call: "at_state n es i h q j f ps \<Longrightarrow> size (filter_mset stop_running ps) < n
  \<Longrightarrow> at_state n es i h q j f (add_mset StopEntered ps)"
  unfolding at_state_def by (drule timer_run.calls) simp_all

lemma at_stop:
  assumes "at_state n es i h q j f qs" "qs = add_mset p ps" "stop_running p"
    and "sip_timer_stop p \<lparr>tm_id = i, tm_handled = h, tm_queued = q, tm_jobs = j, tm_freed = f, tm_stops = qs\<rparr> =
      (p', \<lparr>tm_id = i', tm_handled = h', tm_queued = q', tm_jobs = j', tm_freed = f', tm_stops = ps'\<rparr>, es')"
  shows "at_state n (es @ es') i' h' q' j' f' (add_mset p' ps)"
  using timer_run.stop [OF assms(1) [unfolded at_state_def] _ assms(3,4), of ps] assms(2) by (simp add: at_state_def)

lemma at_stop_as:
  assumes "at_state n es i h q j f qs" "qs = add_mset p ps" "stop_running p"
    and "sip_timer_stop p \<lparr>tm_id = i, tm_handled = h, tm_queued = q, tm_jobs = j, tm_freed = f, tm_stops = qs\<rparr> =
      (p', \<lparr>tm_id = i', tm_handled = h', tm_queued = q', tm_jobs = j', tm_freed = f', tm_stops = ps'\<rparr>, es')"
    and "rs = add_mset p' ps"
  shows "at_state n (es @ es') i' h' q' j' f' rs"
  using at_stop [OF assms(1-4)] assms(5) by simp

lemma at_cleanup: "at_state n es i h q j f ps \<Longrightarrow> 0 < j \<Longrightarrow> at_state n (es @ [DeleteContext f]) i h False (j - 1) True ps"
  unfolding at_state_def by (drule timer_run.cleanup) (simp_all add: timer_cleanup_def)

text \<open>A stop that meets no other is in time, and the context is deleted once.\<close>

lemma stop_alone: "at_state 1 [StopReturns 0, DeleteContext False] False True False 0 True {#StopReturned 0#}"
proof -
  have "at_state 1 [] True False True 0 False {#StopEntered#}"
    using at_call [OF at_start, of 1] by simp
  then have "at_state 1 ([] @ []) True False True 0 False {#StopTested#}"
    by (rule at_stop_as [where p = "StopEntered" and p' = "StopTested" and ps = "{#}"]) (simp_all add: Let_def)
  then have "at_state 1 (([] @ []) @ []) True False True 0 False {#StopHolding#}"
    by (rule at_stop_as [where p = "StopTested" and p' = "StopHolding" and ps = "{#}"]) (simp_all add: Let_def)
  then have "at_state 1 ((([] @ []) @ []) @ []) True True True 0 False {#StopExchanged True#}"
    by (rule at_stop_as [where p = "StopHolding" and p' = "StopExchanged True" and ps = "{#}"]) (simp_all add: Let_def)
  then have "at_state 1 (((([] @ []) @ []) @ []) @ []) True True True 1 False {#StopDeferred True#}"
    by (rule at_stop_as [where p = "StopExchanged True" and p' = "StopDeferred True" and ps = "{#}"]) (simp_all add: Let_def)
  then have "at_state 1 ((((([] @ []) @ []) @ []) @ []) @ [StopReturns 0]) False True True 1 False {#StopReturned 0#}"
    by (rule at_stop_as [where p = "StopDeferred True" and p' = "StopReturned 0" and ps = "{#}"]) (simp_all add: Let_def)
  from at_cleanup [OF this] show ?thesis by simp
qed

text \<open>Two stops whose tests of the handle both come before either clears it delete the context twice.\<close>

lemma overlapping_stops_delete_twice:
  "at_state 2 [StopReturns 0, StopReturns (-1), DeleteContext False, DeleteContext True] False True False 0 True
    {#StopReturned 0, StopReturned (-1)#}"
proof -
  have "at_state 2 [] True False True 0 False {#StopEntered, StopEntered#}"
    using at_call [OF at_call [OF at_start], of 2] by simp
  then have "at_state 2 ([] @ []) True False True 0 False {#StopTested, StopEntered#}"
    by (rule at_stop_as [where p = "StopEntered" and p' = "StopTested" and ps = "{#StopEntered#}"]) (simp_all add: Let_def)
  then have "at_state 2 (([] @ []) @ []) True False True 0 False {#StopTested, StopTested#}"
    by (rule at_stop_as [where p = "StopEntered" and p' = "StopTested" and ps = "{#StopTested#}"]) (simp_all add: Let_def)
  then have "at_state 2 ((([] @ []) @ []) @ []) True False True 0 False {#StopHolding, StopTested#}"
    by (rule at_stop_as [where p = "StopTested" and p' = "StopHolding" and ps = "{#StopTested#}"]) (simp_all add: Let_def)
  then have "at_state 2 (((([] @ []) @ []) @ []) @ []) True False True 0 False {#StopHolding, StopHolding#}"
    by (rule at_stop_as [where p = "StopTested" and p' = "StopHolding" and ps = "{#StopHolding#}"]) (simp_all add: Let_def)
  then have "at_state 2 ((((([] @ []) @ []) @ []) @ []) @ []) True True True 0 False {#StopExchanged True, StopHolding#}"
    by (rule at_stop_as [where p = "StopHolding" and p' = "StopExchanged True" and ps = "{#StopHolding#}"]) (simp_all add: Let_def)
  then have "at_state 2 (((((([] @ []) @ []) @ []) @ []) @ []) @ []) True True True 0 False {#StopExchanged True, StopExchanged False#}"
    by (rule at_stop_as [where p = "StopHolding" and p' = "StopExchanged False" and ps = "{#StopExchanged True#}"]) (simp_all add: Let_def)
  then have "at_state 2 ((((((([] @ []) @ []) @ []) @ []) @ []) @ []) @ []) True True True 1 False {#StopDeferred True, StopExchanged False#}"
    by (rule at_stop_as [where p = "StopExchanged True" and p' = "StopDeferred True" and ps = "{#StopExchanged False#}"]) (simp_all add: Let_def)
  then have "at_state 2 (((((((([] @ []) @ []) @ []) @ []) @ []) @ []) @ []) @ []) True True True 2 False {#StopDeferred True, StopDeferred False#}"
    by (rule at_stop_as [where p = "StopExchanged False" and p' = "StopDeferred False" and ps = "{#StopDeferred True#}"]) (simp_all add: Let_def)
  then have "at_state 2 ((((((((([] @ []) @ []) @ []) @ []) @ []) @ []) @ []) @ []) @ [StopReturns 0]) False True True 2 False {#StopReturned 0, StopDeferred False#}"
    by (rule at_stop_as [where p = "StopDeferred True" and p' = "StopReturned 0" and ps = "{#StopDeferred False#}"]) (simp_all add: Let_def)
  then have "at_state 2 (((((((((([] @ []) @ []) @ []) @ []) @ []) @ []) @ []) @ []) @ [StopReturns 0]) @ [StopReturns (-1)]) False True True 2 False {#StopReturned 0, StopReturned (-1)#}"
    by (rule at_stop_as [where p = "StopDeferred False" and p' = "StopReturned (-1)" and ps = "{#StopReturned 0#}"]) (simp_all add: Let_def)
  note at_cleanup [OF at_cleanup [OF this]]
  then show ?thesis by simp
qed

theorem timer_fires_or_stops_witness:
  "at_state 1 [StopReturns 0, DeleteContext False] False True False 0 True {#StopReturned 0#}
    \<and> UseDeleted \<notin> set [StopReturns 0, DeleteContext False]"
  using timer_fires_or_stops [OF stop_alone [unfolded at_state_def]] stop_alone by simp

end
