(* ===== verification/Sip_Callbacks.thy ===== *)
theory Sip_Callbacks
  imports Sip_Headers Dispatch Invite Subscribe
begin

text \<open>
  The edge to the SIP library (\<open>src/inner/sip_server.cpp\<close>): the callbacks \<open>init_agent\<close> registers, by the method of the
  request, and what each does before it hands the request on; the platforms the server makes and lists, and its connections to
  other hosts. A callback gives the reply with the headers it has set and what it calls next.
\<close>

section \<open>Callbacks\<close>

text \<open>
  \<open>param\<close> tells whether the library passed the session of the transport. \<open>sent\<close> is whether \<open>sip_uas_reply\<close> returns 0. The pointer of a
  dialog is an optional invite session, listed or not; that of a subscription likewise.
\<close>

datatype sip_route =
    UnknownHost
  | OnRecvRegister string string int
  | OnRecvInvite | OnRecvAck | OnRecvInfo | OnRecvBye | OnRecvCancel | OnRecvSubscribe | OnRecvNotify
  | OnRecvMessage
  | InviteDoes invite_effect
  | AgentReply nat

record 'm sip_front =
  fr_library :: "'m header_library"
  fr_force :: bool
  fr_agent :: string

definition header_of :: "'m sip_front \<Rightarrow> 'm \<Rightarrow> 'm" where
  "header_of F m = set_message_header (fr_library F) (fr_force F) (fr_agent F) m"

definition agent_of :: "'m sip_front \<Rightarrow> 'm \<Rightarrow> 'm" where
  "agent_of F m = set_message_agent (fr_library F) (fr_force F) (fr_agent F) m"

definition GetSipSession :: "bool \<Rightarrow> sip_route list \<Rightarrow> sip_route list" where
  "GetSipSession param next = (if param then next else [UnknownHost])"

text \<open>Only this one looks at the session before it sets the headers.\<close>

definition onregister :: "'m sip_front \<Rightarrow> bool \<Rightarrow> string \<Rightarrow> string \<Rightarrow> int \<Rightarrow> 'm \<Rightarrow> 'm \<times> sip_route list" where
  "onregister F param user location expires m =
     (if \<not> param then (m, [UnknownHost]) else (header_of F m, [OnRecvRegister user location expires]))"

definition oninvite :: "'m sip_front \<Rightarrow> bool \<Rightarrow> 'm \<Rightarrow> 'm \<times> sip_route list" where
  "oninvite F param m = (header_of F m, GetSipSession param [OnRecvInvite])"

definition onack :: "'m sip_front \<Rightarrow> bool \<Rightarrow> 'm \<Rightarrow> 'm \<times> sip_route list" where
  "onack F param m = (header_of F m, GetSipSession param [OnRecvAck])"

definition onprack :: "'m sip_front \<Rightarrow> 'm \<Rightarrow> 'm \<times> sip_route list" where
  "onprack F m = (agent_of F m, [AgentReply 404])"

definition onupdate :: "'m sip_front \<Rightarrow> 'm \<Rightarrow> 'm \<times> sip_route list" where
  "onupdate F m = (agent_of F m, [AgentReply 404])"

definition oninfo :: "'m sip_front \<Rightarrow> bool \<Rightarrow> 'm \<Rightarrow> 'm \<times> sip_route list" where
  "oninfo F param m = (header_of F m, GetSipSession param [OnRecvInfo])"

definition onbye :: "'m sip_front \<Rightarrow> bool \<Rightarrow> 'm \<Rightarrow> 'm \<times> sip_route list" where
  "onbye F param m = (header_of F m, GetSipSession param [OnRecvBye])"

definition oncancel :: "'m sip_front \<Rightarrow> bool \<Rightarrow> 'm \<Rightarrow> 'm \<times> sip_route list" where
  "oncancel F param m = (header_of F m, GetSipSession param [OnRecvCancel])"

definition onsubscribe :: "'m sip_front \<Rightarrow> bool \<Rightarrow> 'm \<Rightarrow> 'm \<times> sip_route list" where
  "onsubscribe F param m = (header_of F m, GetSipSession param [OnRecvSubscribe])"

definition onpublish :: "'m sip_front \<Rightarrow> 'm \<Rightarrow> 'm \<times> sip_route list" where
  "onpublish F m = (agent_of F m, [AgentReply 404])"

definition onrefer :: "'m sip_front \<Rightarrow> 'm \<Rightarrow> 'm \<times> sip_route list" where
  "onrefer F m = (agent_of F m, [AgentReply 404])"

text \<open>Within a dialog the invite session answers; only when its answer cannot be sent, the platforms get the message too.\<close>

definition onmessage :: "'m sip_front \<Rightarrow> bool \<Rightarrow> bool \<Rightarrow> invite option \<Rightarrow> 'm \<Rightarrow> 'm \<times> sip_route list" where
  "onmessage F param sent session m =
     (header_of F m, GetSipSession param
        (case session of
           None \<Rightarrow> [OnRecvMessage]
         | Some iv \<Rightarrow> map InviteDoes (snd (on_recv_invite_message iv)) @ (if sent then [] else [OnRecvMessage])))"

text \<open>A subscription that is not listed is passed on as the dialog of a message, where no invite session is found for it.\<close>

definition onnotify :: "'m sip_front \<Rightarrow> bool \<Rightarrow> bool \<Rightarrow> subscription option \<Rightarrow> bool \<Rightarrow> 'm \<Rightarrow> 'm \<times> sip_route list" where
  "onnotify F param sent sub payload m =
     (let m = agent_of F m
      in if (case sub of None \<Rightarrow> False | Some s \<Rightarrow> sb_listed s) then (m, GetSipSession param [OnRecvNotify])
         else if payload then onmessage F param sent (map_option (\<lambda>s. invite_new) sub) m
         else (m, [AgentReply 481]))"

section \<open>The table of callbacks\<close>

datatype sip_method =
    M_REGISTER string string int | M_INVITE | M_ACK | M_PRACK | M_UPDATE | M_INFO | M_BYE | M_CANCEL | M_SUBSCRIBE
  | M_NOTIFY "subscription option" bool | M_PUBLISH | M_MESSAGE "invite option" | M_REFER

fun init_agent :: "'m sip_front \<Rightarrow> bool \<Rightarrow> bool \<Rightarrow> sip_method \<Rightarrow> 'm \<Rightarrow> 'm \<times> sip_route list" where
  "init_agent F param sent (M_REGISTER user location expires) m = onregister F param user location expires m"
| "init_agent F param sent M_INVITE m = oninvite F param m"
| "init_agent F param sent M_ACK m = onack F param m"
| "init_agent F param sent M_PRACK m = onprack F m"
| "init_agent F param sent M_UPDATE m = onupdate F m"
| "init_agent F param sent M_INFO m = oninfo F param m"
| "init_agent F param sent M_BYE m = onbye F param m"
| "init_agent F param sent M_CANCEL m = oncancel F param m"
| "init_agent F param sent M_SUBSCRIBE m = onsubscribe F param m"
| "init_agent F param sent (M_NOTIFY sub payload) m = onnotify F param sent sub payload m"
| "init_agent F param sent M_PUBLISH m = onpublish F m"
| "init_agent F param sent (M_MESSAGE session) m = onmessage F param sent session m"
| "init_agent F param sent M_REFER m = onrefer F m"

lemmas callback_defs = onregister_def oninvite_def onack_def onprack_def onupdate_def oninfo_def onbye_def oncancel_def
  onsubscribe_def onpublish_def onrefer_def onmessage_def onnotify_def GetSipSession_def header_of_def agent_of_def
  on_recv_invite_message_def Let_def

lemma agent_kept:
  assumes "header_library_laws L" "agent \<noteq> []"
  shows "GetHeader L (set_message_agent L force agent m) ''User-Agent'' \<noteq> None"
    "GetHeader L (set_message_header L force agent m) ''User-Agent'' \<noteq> None"
  using assms(2)
  by (auto simp: set_message_header_def set_message_gbt_version_def set_message_agent_def added_header [OF assms(1)])

text \<open>
  A MESSAGE within the dialog of an invite session, and a NOTIFY with a body for a subscription that is over, never reach the
  platforms as long as the reply can be sent: the former is answered with 404, or 481 when the session is over, the latter with 481. The
  reply names the agent.
\<close>

lemma dialog_messages_never_dispatched:
  assumes "header_library_laws (fr_library F)" "fr_agent F \<noteq> []"
  shows "\<exists>m'. init_agent F True True (M_MESSAGE (Some iv)) m = (m', [InviteDoes (UasReply (if iv_listed iv then 404 else 481) [])])
      \<and> GetHeader (fr_library F) m' ''User-Agent'' \<noteq> None"
    and "\<not> sb_listed s \<Longrightarrow> \<exists>m'. init_agent F True True (M_NOTIFY (Some s) True) m = (m', [InviteDoes (UasReply 481 [])])
      \<and> GetHeader (fr_library F) m' ''User-Agent'' \<noteq> None"
  using agent_kept [OF assms] by (simp_all add: callback_defs invite_new_def)

section \<open>Platforms and connections\<close>

text \<open>
  \<open>new_subordinate_account\<close>: \<open>allow\<close> is the decision of the application's callback (\<open>None\<close> without one), \<open>alive\<close> whether the server
  still exists when it decides. A platform that was added meanwhile is kept.
\<close>

definition new_subordinate_account ::
    "(string \<Rightarrow> u16 \<Rightarrow> sockaddr option) \<Rightarrow> bool option \<Rightarrow> bool \<Rightarrow> platform_account \<Rightarrow> sip_server \<Rightarrow> sip_server \<times> subordinate option" where
  "new_subordinate_account ip_addr allow alive account sv =
     (case allow of
        None \<Rightarrow> (sv, None)
      | Some False \<Rightarrow> (sv, None)
      | Some True \<Rightarrow>
          if \<not> alive then (sv, None)
          else case get_subordinate_platform (sa_platform_id account) sv of
            Some p \<Rightarrow> (sv, Some p)
          | None \<Rightarrow> (let p = SubordinatePlatformImpl ip_addr (sv_account sv) account
                     in (put_platform (sa_platform_id account) p sv, Some p)))"

definition get_all_subordinate_platform :: "sip_server \<Rightarrow> subordinate set" where
  "get_all_subordinate_platform sv = ran (sv_sub_platforms sv)"

definition get_all_super_platforms :: "sip_server \<Rightarrow> super_platform set" where
  "get_all_super_platforms sv = ran (sv_super_platforms sv)"

text \<open>A connection to another host: an error, or the start of a connection from the server's own address.\<close>

datatype tcp_client = TcpError string | TcpConnect sockaddr u16 string

definition get_tcp_client_l :: "sockaddr \<Rightarrow> sip_server \<Rightarrow> tcp_client" where
  "get_tcp_client_l addr sv =
     (if \<not> sv_tcp sv then TcpError ''no tcp server''
      else TcpConnect addr (sa_port (sv_account sv)) (sa_host (sv_account sv)))"

text \<open>\<open>ip_addr\<close> reads an address, \<open>getDomainIP\<close> asks the name service, on another thread; the server may be gone then.\<close>

definition get_tcp_client ::
    "(string \<Rightarrow> u16 \<Rightarrow> sockaddr option) \<Rightarrow> (string \<Rightarrow> u16 \<Rightarrow> sockaddr option) \<Rightarrow> bool \<Rightarrow> string \<Rightarrow> u16 \<Rightarrow> sip_server \<Rightarrow> tcp_client" where
  "get_tcp_client ip_addr getDomainIP alive host port sv =
     (case ip_addr host port of
        Some addr \<Rightarrow> get_tcp_client_l addr sv
      | None \<Rightarrow> (case getDomainIP host port of
            None \<Rightarrow> TcpError (''dns resolution failed'' @ host)
          | Some addr \<Rightarrow> if alive then get_tcp_client_l addr sv else TcpError ''server destruction''))"

text \<open>The account of a new platform: nobody is added without a decision for it, and nobody is replaced.\<close>

theorem new_account_decided:
  assumes "new_subordinate_account ip_addr allow alive account sv = (sv', p)"
  shows "(p \<noteq> None \<longrightarrow> allow = Some True \<and> alive \<and> get_subordinate_platform (sa_platform_id account) sv' = p)
    \<and> (sv' \<noteq> sv \<longrightarrow> get_subordinate_platform (sa_platform_id account) sv = None)
    \<and> (\<forall>q \<in> get_all_subordinate_platform sv. q \<in> get_all_subordinate_platform sv')"
  using assms
  by (auto simp: new_subordinate_account_def get_subordinate_platform_def get_all_subordinate_platform_def put_platform_def ran_def
      Let_def split: option.splits bool.splits if_splits) (metis option.distinct(1))

end
