(* ===== verification/Sip_Sending.thy ===== *)
theory Sip_Sending
  imports Sip_Headers
begin

text \<open>
  Sending a request of a platform (\<open>uac_send2\<close>, \<open>uac_send3\<close> in \<open>src/platform_helper.cpp\<close>): the common headers, the session, and the
  report of what became of it. The context that \<open>uac_send3\<close> gives to the SIP library is on the heap and is deleted by hand; an
  access after that is an effect of its own. \<open>session\<close> is what \<open>get_session\<close> reports: an error, or whether there is a session; \<open>sent\<close> is
  whether \<open>sip_uac_send\<close> returned 0.
\<close>

definition uac_headers :: "'m header_library \<Rightarrow> bool \<Rightarrow> string \<Rightarrow> string \<Rightarrow> 'm \<Rightarrow> 'm" where
  "uac_headers L force agent contact_uri m = set_message_header L force agent (set_message_contact L contact_uri m)"

datatype send_effect =
    SipUacSend
  | SendReport bool string \<comment> \<open>the callback for the outcome of the sending\<close>
  | ReplyReport int
  | DeleteContext
  | UseAfterDelete

definition uac_send2 ::
    "'m header_library \<Rightarrow> bool \<Rightarrow> string \<Rightarrow> string \<Rightarrow> string + bool \<Rightarrow> bool \<Rightarrow> 'm \<Rightarrow> 'm \<times> send_effect list" where
  "uac_send2 L force agent contact_uri session sent m =
     (uac_headers L force agent contact_uri m,
      case session of
        Inl e \<Rightarrow> [SendReport False e]
      | Inr False \<Rightarrow> [SendReport False ''got session failed'']
      | Inr True \<Rightarrow> SipUacSend #
          (if \<not> sent then [SendReport False ''failed to send request, call sip_uac_send failed''] else [SendReport True []]))"

text \<open>The second component tells whether the context lives after the call.\<close>

definition uac_send3 ::
    "'m header_library \<Rightarrow> bool \<Rightarrow> string \<Rightarrow> string \<Rightarrow> string + bool \<Rightarrow> bool \<Rightarrow> 'm \<Rightarrow> 'm \<times> bool \<times> send_effect list" where
  "uac_send3 L force agent contact_uri session sent m =
     (uac_headers L force agent contact_uri m,
      case session of
        Inl e \<Rightarrow> (False, [SendReport False e])
      | Inr False \<Rightarrow> (False, [SendReport False ''got session failed''])
      | Inr True \<Rightarrow>
          (if \<not> sent then (False, [SipUacSend, DeleteContext, SendReport False ''failed to send request, call sip_uac_send failed''])
           else (True, [SipUacSend])))"

text \<open>The adapter the library calls with every reply, or with a code of its own when there was none.\<close>

definition uac_adapter :: "(int \<Rightarrow> bool) \<Rightarrow> bool \<Rightarrow> int \<Rightarrow> bool \<Rightarrow> bool \<times> send_effect list" where
  "uac_adapter info rcb code live =
     (if \<not> live then (False, [UseAfterDelete])
      else (info code, (if \<not> info code then [DeleteContext] else []) @ (if rcb then [ReplyReport code] else [])))"

section \<open>Every request is reported once\<close>

text \<open>
  A request that was sent is answered by provisional replies and one final code, after which the transaction of the library is
  over. \<open>owed\<close> tells whether something is still to come.
\<close>

inductive send_run :: "'m header_library \<Rightarrow> bool \<Rightarrow> string \<Rightarrow> string \<Rightarrow> 'm \<Rightarrow> (int \<Rightarrow> bool) \<Rightarrow> bool \<Rightarrow> bool \<Rightarrow> bool \<Rightarrow> send_effect list \<Rightarrow> bool"
  for L force agent contact_uri m info rcb where
  send_start: "uac_send3 L force agent contact_uri session sent m = (m', live, es) \<Longrightarrow>
    send_run L force agent contact_uri m info rcb (session = Inr True \<and> sent) live es"
| send_reply: "send_run L force agent contact_uri m info rcb True live es \<Longrightarrow> uac_adapter info rcb code live = (live', es') \<Longrightarrow>
    send_run L force agent contact_uri m info rcb (info code) live' (es @ es')"

definition final_report :: "(int \<Rightarrow> bool) \<Rightarrow> send_effect \<Rightarrow> bool" where
  "final_report info e = (case e of SendReport ok err \<Rightarrow> True | ReplyReport code \<Rightarrow> \<not> info code | _ \<Rightarrow> False)"

lemma send_run_state:
  assumes "send_run L force agent contact_uri m info rcb owed live es"
  shows "live = owed \<and> UseAfterDelete \<notin> set es \<and> count_list es DeleteContext \<le> 1 \<and> (owed \<longrightarrow> DeleteContext \<notin> set es)
    \<and> (SipUacSend \<in> set es \<and> \<not> owed \<longrightarrow> DeleteContext \<in> set es)
    \<and> length (filter (final_report info) es) \<le> 1 \<and> (owed \<longrightarrow> filter (final_report info) es = [])
    \<and> (\<not> owed \<and> rcb \<longrightarrow> filter (final_report info) es \<noteq> [])"
  using assms
proof (induction rule: send_run.induct)
  case (send_start session sent m' live es)
  then show ?case by (auto simp: uac_send3_def final_report_def split: sum.splits bool.splits if_splits)
next
  case (send_reply live es code live' es')
  then show ?case by (auto simp: uac_adapter_def final_report_def split: if_splits)
qed

text \<open>
  C27. Whatever the session and the library do, a request handed to \<open>uac_send3\<close> ends with exactly one report: that it could not be
  sent, or its final reply, which is also how a transaction without a reply ends. Until then its context lives; it is
  deleted once and never used afterwards. A library that reported a second final reply would use a deleted context.
\<close>

theorem request_reported_once:
  assumes "send_run L force agent contact_uri m info rcb owed live es"
  shows "live = owed \<and> UseAfterDelete \<notin> set es \<and> count_list es DeleteContext \<le> 1
    \<and> (SipUacSend \<in> set es \<longrightarrow> (DeleteContext \<in> set es \<longleftrightarrow> \<not> owed))
    \<and> (rcb \<longrightarrow> length (filter (final_report info) es) = (if owed then 0 else 1))
    \<and> (\<not> owed \<longrightarrow> snd (uac_adapter info rcb code live) = [UseAfterDelete])"
  using send_run_state [OF assms]
  by (auto simp: uac_adapter_def le_Suc_eq)

theorem request_reported_once_witness:
  "\<exists>es. send_run list_library False ''a'' ''sip:1@h'' \<lparr>sh_fields = [], sh_user = None\<rparr> (\<lambda>c. c < 200) True False False es
    \<and> es = [SipUacSend, ReplyReport 100, DeleteContext, ReplyReport 200] \<and> count_list es DeleteContext \<le> 1"
proof -
  let ?m = "\<lparr>sh_fields = [], sh_user = None\<rparr>" and ?info = "\<lambda>c :: int. c < 200"
  have "send_run list_library False ''a'' ''sip:1@h'' ?m ?info True True True [SipUacSend]"
    using send_run.send_start [of list_library False "''a''" "''sip:1@h''" "Inr True" True ?m _ True "[SipUacSend]" ?info True]
    by (simp add: uac_send3_def)
  from send_run.send_reply [OF this, of 100 True "[ReplyReport 100]"]
  have "send_run list_library False ''a'' ''sip:1@h'' ?m ?info True True True [SipUacSend, ReplyReport 100]" by (simp add: uac_adapter_def)
  from send_run.send_reply [OF this, of 200 False "[DeleteContext, ReplyReport 200]"]
  have r: "send_run list_library False ''a'' ''sip:1@h'' ?m ?info True False False [SipUacSend, ReplyReport 100, DeleteContext, ReplyReport 200]"
    by (simp add: uac_adapter_def)
  from request_reported_once [OF r] r show ?thesis by blast
qed

end
