(* ===== verification/Sip_Connect.thy ===== *)
theory Sip_Connect
  imports Sip_Session
begin

text \<open>
  A session that connects to another host itself (\<open>startConnect\<close>, \<open>onSockConnect\<close> and \<open>onError\<close> in
  \<open>src/inner/sip_session.cpp\<close>). The callbacks of the socket hold the session weakly and remember the socket they were made
  for; sockets are numbers here. An exception of \<open>onRecv\<close> is its text.
\<close>

record tcp_session =
  tc_alive :: bool \<comment> \<open>the session still exists\<close>
  tc_sock :: nat
  tc_timer :: bool
  tc_local_ip :: string
  tc_on_err :: "nat option" \<comment> \<open>the socket the callback was made for\<close>
  tc_on_flush :: "nat option"
  tc_on_read :: "nat option"
  tc_error_cb :: bool \<comment> \<open>\<open>_on_error\<close>\<close>

datatype tcp_effect =
    Connect string u16
  | ConnectResult "string option"
  | Manage
  | Flush
  | Recv string
  | ErrorCb string
  | ShutDown string

definition startConnect :: "string \<Rightarrow> u16 \<Rightarrow> tcp_session \<Rightarrow> tcp_session \<times> tcp_effect list" where
  "startConnect host port t = (t\<lparr>tc_timer := True, tc_on_err := Some (tc_sock t)\<rparr>, [Connect host port])"

text \<open>The timer: it goes on as long as the session exists.\<close>

definition manager_tick :: "tcp_session \<Rightarrow> tcp_session \<times> tcp_effect list" where
  "manager_tick t = (if \<not> tc_alive t then (t\<lparr>tc_timer := False\<rparr>, []) else (t, [Manage]))"

definition tcp_onError :: "string \<Rightarrow> tcp_session \<Rightarrow> tcp_effect list" where
  "tcp_onError ex t = (if tc_error_cb t then [ErrorCb ex] else [])"

text \<open>The callbacks of the socket \<open>s\<close>; one for a socket that was replaced does nothing.\<close>

definition sock_err :: "nat \<Rightarrow> string \<Rightarrow> tcp_session \<Rightarrow> tcp_session \<times> tcp_effect list" where
  "sock_err s ex t =
     (if \<not> tc_alive t then (t, [])
      else if s \<noteq> tc_sock t then (t, [])
      else (t\<lparr>tc_timer := False\<rparr>, tcp_onError ex t))"

text \<open>\<open>local_ip\<close> is that of the socket.\<close>

definition onSockConnect :: "string \<Rightarrow> string option \<Rightarrow> tcp_session \<Rightarrow> tcp_session" where
  "onSockConnect local_ip ex t =
     (if ex \<noteq> None then t\<lparr>tc_timer := False\<rparr>
      else t\<lparr>tc_local_ip := (if tc_local_ip t = [] then local_ip else tc_local_ip t),
             tc_on_flush := Some (tc_sock t), tc_on_read := Some (tc_sock t)\<rparr>)"

definition connected :: "string \<Rightarrow> string option \<Rightarrow> tcp_session \<Rightarrow> tcp_session \<times> tcp_effect list" where
  "connected local_ip err t =
     (if tc_alive t then (onSockConnect local_ip err t, [ConnectResult err]) else (t, []))"

definition sock_flush :: "nat \<Rightarrow> tcp_session \<Rightarrow> tcp_effect list \<times> bool" where
  "sock_flush s t =
     (if \<not> tc_alive t then ([], False)
      else if s \<noteq> tc_sock t then ([], False)
      else ([Flush], True))"

definition sock_read :: "nat \<Rightarrow> string \<Rightarrow> string option \<Rightarrow> tcp_session \<Rightarrow> tcp_effect list" where
  "sock_read s buf throws t =
     (if \<not> tc_alive t then []
      else if s \<noteq> tc_sock t then []
      else Recv buf # (case throws of None \<Rightarrow> [] | Some what \<Rightarrow> [ShutDown what]))"

section \<open>Runs\<close>

text \<open>
  A run from \<open>startConnect\<close>: the socket library reports the connection once and calls the callbacks that are installed; the socket may be
  replaced and the session may go. \<open>pending\<close> tells whether the result of the connection is still to come.
\<close>

inductive tcp_run :: "string \<Rightarrow> u16 \<Rightarrow> tcp_session \<Rightarrow> bool \<Rightarrow> tcp_effect list \<Rightarrow> tcp_session \<Rightarrow> bool"
  for host port t0 where
  tcp_start: "startConnect host port t0 = (t, es) \<Longrightarrow> tcp_run host port t0 True es t"
| tcp_connected: "tcp_run host port t0 True es t \<Longrightarrow> connected local_ip err t = (t', es') \<Longrightarrow> tcp_run host port t0 False (es @ es') t'"
| tcp_tick: "tcp_run host port t0 p es t \<Longrightarrow> tc_timer t \<Longrightarrow> manager_tick t = (t', es') \<Longrightarrow> tcp_run host port t0 p (es @ es') t'"
| tcp_err: "tcp_run host port t0 p es t \<Longrightarrow> tc_on_err t = Some s \<Longrightarrow> sock_err s ex t = (t', es') \<Longrightarrow> tcp_run host port t0 p (es @ es') t'"
| tcp_flush: "tcp_run host port t0 p es t \<Longrightarrow> tc_on_flush t = Some s \<Longrightarrow> tcp_run host port t0 p (es @ fst (sock_flush s t)) t"
| tcp_read: "tcp_run host port t0 p es t \<Longrightarrow> tc_on_read t = Some s \<Longrightarrow> tcp_run host port t0 p (es @ sock_read s buf throws t) t"
| tcp_replaced: "tcp_run host port t0 p es t \<Longrightarrow> tcp_run host port t0 p es (t\<lparr>tc_sock := s\<rparr>)"
| tcp_gone: "tcp_run host port t0 p es t \<Longrightarrow> tcp_run host port t0 p es (t\<lparr>tc_alive := False\<rparr>)"

lemmas tcp_steps = startConnect_def connected_def onSockConnect_def manager_tick_def sock_err_def tcp_onError_def sock_flush_def
  sock_read_def

definition is_connect_result :: "tcp_effect \<Rightarrow> bool" where
  "is_connect_result e \<longleftrightarrow> (\<exists>err. e = ConnectResult err)"

text \<open>What holds along a run.\<close>

definition tcp_inv :: "bool \<Rightarrow> tcp_effect list \<Rightarrow> tcp_session \<Rightarrow> bool" where
  "tcp_inv pending es t \<longleftrightarrow>
     length (filter is_connect_result es) \<le> 1
     \<and> (pending \<longrightarrow> filter is_connect_result es = [])
     \<and> (ConnectResult None \<notin> set es \<longrightarrow> tc_on_read t = None \<and> tc_on_flush t = None \<and> Flush \<notin> set es \<and> (\<forall>b. Recv b \<notin> set es))
     \<and> (\<not> tc_error_cb t \<longrightarrow> (\<forall>ex. ErrorCb ex \<notin> set es))"

lemma tcp_invariant:
  assumes "tcp_run host port t0 pending es t" "tc_on_read t0 = None" "tc_on_flush t0 = None"
  shows "tcp_inv pending es t"
  using assms
  by (induction rule: tcp_run.induct)
    (auto simp: tcp_inv_def tcp_steps is_connect_result_def split: if_splits option.splits)

text \<open>
  A connection is reported at most once, and nothing is read from it before it has been reported as established. A session that is gone,
  or whose socket was replaced, does not react to anything.
\<close>

theorem connection_reported_once:
  assumes "tcp_run host port t0 pending es t" "tc_on_read t0 = None" "tc_on_flush t0 = None"
  shows "length (filter is_connect_result es) \<le> 1 \<and> (pending \<longrightarrow> filter is_connect_result es = [])
    \<and> ((\<exists>b. Recv b \<in> set es) \<longrightarrow> ConnectResult None \<in> set es)
    \<and> (\<not> tc_alive t \<or> s \<noteq> tc_sock t \<longrightarrow> snd (sock_err s ex t) = [] \<and> fst (sock_flush s t) = [] \<and> sock_read s buf throws t = [])"
  using tcp_invariant [OF assms] by (auto simp: tcp_inv_def tcp_steps)

definition demo_tcp :: tcp_session where
  "demo_tcp = \<lparr>tc_alive = True, tc_sock = 3, tc_timer = False, tc_local_ip = [], tc_on_err = None, tc_on_flush = None,
     tc_on_read = None, tc_error_cb = True\<rparr>"

theorem connection_reported_once_witness:
  "\<exists>es t. tcp_run ''h'' 5060 demo_tcp False es t \<and> es = [Connect ''h'' 5060, ConnectResult None, Recv ''x'']
    \<and> sock_read 4 ''y'' None t = []"
proof -
  let ?t = "demo_tcp\<lparr>tc_timer := True, tc_on_err := Some 3\<rparr>"
  let ?u = "?t\<lparr>tc_local_ip := ''127.0.0.1'', tc_on_flush := Some 3, tc_on_read := Some 3\<rparr>"
  have "tcp_run ''h'' 5060 demo_tcp True [Connect ''h'' 5060] ?t"
    by (rule tcp_run.tcp_start) (simp add: tcp_steps demo_tcp_def)
  from tcp_run.tcp_connected [OF this, of "''127.0.0.1''" None ?u "[ConnectResult None]"]
  have "tcp_run ''h'' 5060 demo_tcp False [Connect ''h'' 5060, ConnectResult None] ?u" by (simp add: tcp_steps demo_tcp_def)
  from tcp_run.tcp_read [OF this, of 3 "''x''" None]
  have r: "tcp_run ''h'' 5060 demo_tcp False [Connect ''h'' 5060, ConnectResult None, Recv ''x''] ?u"
    by (simp add: tcp_steps demo_tcp_def)
  have "tc_on_read demo_tcp = None" "tc_on_flush demo_tcp = None" by (simp_all add: demo_tcp_def)
  from connection_reported_once [OF r this, of 4] r show ?thesis by (auto simp: demo_tcp_def)
qed

end
