(* ===== verification/Encoding.thy ===== *)
theory Encoding
  imports Dispatch
begin

text \<open>
  The conversions of characters (\<open>encode_convert\<close> and the functions that use it, \<open>src/type_define_ext.cpp\<close>). The library
  \<open>iconv\<close> is the parameter \<open>open_conv\<close>: for the target and the source encoding, in this order, it gives no converter, or one
  that takes a text and the room for the result and gives the result or fails.
\<close>

type_synonym converter = "string \<Rightarrow> nat \<Rightarrow> string option"
type_synonym iconv = "string \<Rightarrow> string \<Rightarrow> converter option"

text \<open>The arguments are passed on in the order they have here, where the library takes the target first.\<close>

definition iconv_supports_ignore :: "iconv \<Rightarrow> string \<Rightarrow> string \<Rightarrow> bool" where
  "iconv_supports_ignore open_conv src target \<longleftrightarrow> open_conv src target \<noteq> None"

definition iconv_gb2312_support_ignore :: "iconv \<Rightarrow> bool" where
  "iconv_gb2312_support_ignore open_conv = iconv_supports_ignore open_conv ''UTF-8'' ''GB2312//IGNORE''"

definition iconv_gbk_support_ignore :: "iconv \<Rightarrow> bool" where
  "iconv_gbk_support_ignore open_conv = iconv_supports_ignore open_conv ''UTF-8'' ''GBK//IGNORE''"

definition iconv_utf8_support_ignore :: "iconv \<Rightarrow> bool" where
  "iconv_utf8_support_ignore open_conv = iconv_supports_ignore open_conv ''GB2312'' ''UTF-8//IGNORE''"

text \<open>\<open>data\<close> is null or a text without octets 0; the room is twice its length.\<close>

definition encode_convert :: "iconv \<Rightarrow> string option \<Rightarrow> string \<Rightarrow> string \<Rightarrow> string" where
  "encode_convert open_conv data src target =
     (case data of
        None \<Rightarrow> []
      | Some [] \<Rightarrow> []
      | Some text \<Rightarrow>
          (case open_conv target src of
             None \<Rightarrow> text
           | Some cd \<Rightarrow> (case cd text (length text * 2) of
               None \<Rightarrow> text
             | Some out \<Rightarrow> out)))"

definition utf8_to_gb2312 :: "iconv \<Rightarrow> string option \<Rightarrow> string" where
  "utf8_to_gb2312 open_conv data =
     (if iconv_gb2312_support_ignore open_conv then encode_convert open_conv data ''UTF-8'' ''GB2312//IGNORE''
      else encode_convert open_conv data ''UTF-8'' ''GB2312'')"

definition gb2312_to_utf8 :: "iconv \<Rightarrow> string option \<Rightarrow> string" where
  "gb2312_to_utf8 open_conv data =
     (if iconv_utf8_support_ignore open_conv then encode_convert open_conv data ''GB2312'' ''UTF-8//IGNORE''
      else encode_convert open_conv data ''GB2312'' ''UTF-8'')"

definition gbk_to_utf8 :: "iconv \<Rightarrow> string option \<Rightarrow> string" where
  "gbk_to_utf8 open_conv data =
     (if iconv_utf8_support_ignore open_conv then encode_convert open_conv data ''GBK'' ''UTF-8//IGNORE''
      else encode_convert open_conv data ''GBK'' ''UTF-8'')"

definition utf8_to_gbk :: "iconv \<Rightarrow> string option \<Rightarrow> string" where
  "utf8_to_gbk open_conv data =
     (if iconv_gbk_support_ignore open_conv then encode_convert open_conv data ''UTF-8'' ''GBK//IGNORE''
      else encode_convert open_conv data ''UTF-8'' ''GBK'')"

section \<open>Texts in two encodings\<close>

text \<open>
  What the code relies on for a text \<open>u\<close> in UTF-8 and its form \<open>g\<close> in an encoding \<open>e\<close>: no converter between the two, with or
  without \<open>//IGNORE\<close> on its target, gives anything else when there is room, or none when there is room enough.
\<close>

definition same_text :: "iconv \<Rightarrow> string \<Rightarrow> string \<Rightarrow> string \<Rightarrow> bool" where
  "same_text open_conv e u g \<longleftrightarrow>
     (\<forall>t \<in> {e, e @ ''//IGNORE''}. \<forall>cd. open_conv t ''UTF-8'' = Some cd \<longrightarrow> (\<forall>n. cd u n = (if length g \<le> n then Some g else None)))
     \<and> (\<forall>t \<in> {''UTF-8'', ''UTF-8//IGNORE''}. \<forall>cd. open_conv t e = Some cd \<longrightarrow> (\<forall>n. cd g n = (if length u \<le> n then Some u else None)))"

definition converts :: "iconv \<Rightarrow> string \<Rightarrow> bool" where
  "converts open_conv e \<longleftrightarrow> (\<forall>t \<in> {e, e @ ''//IGNORE''}. open_conv t ''UTF-8'' \<noteq> None)
     \<and> (\<forall>t \<in> {''UTF-8'', ''UTF-8//IGNORE''}. open_conv t e \<noteq> None)"

lemma encode_convert_Some:
  "x \<noteq> [] \<Longrightarrow> open_conv target src = Some cd \<Longrightarrow> cd x (length x * 2) = Some y \<Longrightarrow> encode_convert open_conv (Some x) src target = y"
  by (cases x) (simp_all add: encode_convert_def)

text \<open>
  There and back: when the library converts at all, and neither form is longer than twice the other, which holds for Chinese
  (two octets against three) and for ASCII.
\<close>

lemma converted:
  assumes "u \<noteq> []" "g \<noteq> []" "length g \<le> length u * 2" "length u \<le> length g * 2" "same_text open_conv e u g" "converts open_conv e"
  shows "t \<in> {e, e @ ''//IGNORE''} \<Longrightarrow> encode_convert open_conv (Some u) ''UTF-8'' t = g"
    "t \<in> {''UTF-8'', ''UTF-8//IGNORE''} \<Longrightarrow> encode_convert open_conv (Some g) e t = u"
proof -
  assume t: "t \<in> {e, e @ ''//IGNORE''}"
  then obtain cd where cd: "open_conv t ''UTF-8'' = Some cd" using assms(6) unfolding converts_def by blast
  then have "\<forall>n. cd u n = (if length g \<le> n then Some g else None)" using t assms(5) unfolding same_text_def by blast
  then show "encode_convert open_conv (Some u) ''UTF-8'' t = g" using encode_convert_Some [of u open_conv, OF assms(1) cd] assms(3) by simp
next
  assume t: "t \<in> {''UTF-8'', ''UTF-8//IGNORE''}"
  then obtain cd where cd: "open_conv t e = Some cd" using assms(6) unfolding converts_def by blast
  then have "\<forall>n. cd g n = (if length u \<le> n then Some u else None)" using t assms(5) unfolding same_text_def by blast
  then show "encode_convert open_conv (Some g) e t = u" using encode_convert_Some [of g open_conv, OF assms(2) cd] assms(4) by simp
qed

text \<open>
  A text that cannot be converted goes on as it is, in the wrong encoding and without an error: so does one whose result
  is more than twice as long.
\<close>

theorem failed_conversion_passes_through:
  "encode_convert open_conv (Some t) src target = t \<or>
     (\<exists>cd u. open_conv target src = Some cd \<and> cd t (length t * 2) = Some u \<and> encode_convert open_conv (Some t) src target = u)"
  by (cases t) (auto simp: encode_convert_def split: option.split)

text \<open>
  A message for a platform with GBK or GB2312 is printed in that encoding, and the dispatch of the other side, which reads the encoding
  from the declaration, gets the printed text back.
\<close>

theorem encoded_message_read_back:
  assumes "mb_xml m = Some doc" "Print doc \<noteq> []" "g \<noteq> []" "length g \<le> length (Print doc) * 2" "length (Print doc) \<le> length g * 2"
    and "mb_encoding m = Enc_gbk \<and> k = ''GBK'' \<or> mb_encoding m = Enc_gb2312 \<and> k = ''GB2312''"
    and "same_text open_conv k (Print doc) g" "converts open_conv k"
  shows "fst (MessageBase_str Print (\<lambda>t. utf8_to_gb2312 open_conv (Some t)) (\<lambda>t. utf8_to_gbk open_conv (Some t)) m) = g
    \<and> convert_payload (\<lambda>t. gbk_to_utf8 open_conv (Some t)) (\<lambda>t. gb2312_to_utf8 open_conv (Some t)) (mb_encoding m) g = Print doc"
proof -
  note c = converted [OF assms(2-5,7,8)]
  show ?thesis
    using assms(6)
  proof (elim disjE conjE)
    assume k: "mb_encoding m = Enc_gbk" "k = ''GBK''"
    show ?thesis
      using c(1) [of "''GBK''"] c(1) [of "''GBK//IGNORE''"] c(2) [of "''UTF-8''"] c(2) [of "''UTF-8//IGNORE''"] assms(1) k
      by (simp add: MessageBase_str_def convert_payload_def utf8_to_gbk_def gbk_to_utf8_def Let_def)
  next
    assume k: "mb_encoding m = Enc_gb2312" "k = ''GB2312''"
    show ?thesis
      using c(1) [of "''GB2312''"] c(1) [of "''GB2312//IGNORE''"] c(2) [of "''UTF-8''"] c(2) [of "''UTF-8//IGNORE''"] assms(1) k
      by (simp add: MessageBase_str_def convert_payload_def utf8_to_gb2312_def gb2312_to_utf8_def Let_def)
  qed
qed

end
