(* ===== verification/Super_Calls.thy ===== *)
theory Super_Calls
  imports Call_Facts
begin

text \<open>
  How a platform above is served (\<open>src/super_platform_impl.cpp\<close>): \<open>on_query\<close> and \<open>on_notify\<close> with the reading of each request, and the
  remaining answers a handler sends by itself when the application takes too long.
\<close>

section \<open>The response of a query that timed out\<close>

definition create_Catalog :: "string \<Rightarrow> ('e, CatalogResponseMessage) MessageBase" where
  "create_Catalog device_id = (CatalogResponseMessage_new device_id 0 [] [])\<lparr>mb_reason := ''timeout''\<rparr>"

definition create_RecordInfo :: "string \<Rightarrow> ('e, RecordInfoResponseMessage) MessageBase" where
  "create_RecordInfo device_id = RecordInfoResponseMessage_short device_id 0 []"

definition create_ConfigDownload :: "string \<Rightarrow> ('e, ConfigDownloadResponseMessage) MessageBase" where
  "create_ConfigDownload device_id = ConfigDownloadResponseMessage_new device_id Result_Error []"

definition create_CruiseTrack :: "string \<Rightarrow> ('e, CruiseTrackResponseMessage) MessageBase" where
  "create_CruiseTrack device_id = CruiseTrackResponseMessage_short device_id 0 []"

definition create_DeviceControl :: "string \<Rightarrow> ('e, ResultResponse) MessageBase" where
  "create_DeviceControl device_id = DeviceControlResponseMessage_new device_id Result_Error ''timeout''"

definition create_DeviceConfig :: "string \<Rightarrow> ('e, ResultResponse) MessageBase" where
  "create_DeviceConfig device_id = DeviceConfigResponseMessage_new device_id Result_Error ''timeout''"

section \<open>Reading a request\<close>

text \<open>The first lines of \<open>process\<close>, the same in all templates: the class of the request takes the message over and reads it.\<close>

definition loaded_query ::
    "'e tinyxml2 \<Rightarrow> ('e, 'd) load_detail \<Rightarrow> 'd \<Rightarrow> ('e, unit) MessageBase \<Rightarrow> (i32 \<times> string option) option outcome" where
  "loaded_query X load fresh m =
     bind_outcome (load_from_xml X load (MessageBase_move m fresh))
       (\<lambda>(ok, m). Inr (if ok then Some (mb_sn m, mb_device_id m) else None))"

definition handle_one ::
    "'e tinyxml2 \<Rightarrow> ('e, 'd) load_detail \<Rightarrow> 'd \<Rightarrow> ('e, unit) MessageBase \<Rightarrow> nat \<Rightarrow> (int \<times> one_context option) outcome" where
  "handle_one X load fresh m listeners =
     bind_outcome (loaded_query X load fresh m) (\<lambda>loaded. Inr (one_process loaded listeners))"

definition handle_multi ::
    "'e tinyxml2 \<Rightarrow> ('e, 'd) load_detail \<Rightarrow> 'd \<Rightarrow> ('e, unit) MessageBase \<Rightarrow> nat \<Rightarrow> (int \<times> ('e, 'r) multi_context option) outcome" where
  "handle_multi X load fresh m listeners =
     bind_outcome (loaded_query X load fresh m) (\<lambda>loaded. Inr (multi_process loaded listeners))"

text \<open>The contexts by the class of the responses.\<close>

datatype 'e query_context =
    OneResponse_context one_context
  | Catalog_context "('e, CatalogResponseMessage) multi_context"
  | RecordInfo_context "('e, RecordInfoResponseMessage) multi_context"
  | ConfigDownload_context "('e, ConfigDownloadResponseMessage) multi_context"
  | Preset_context "('e, PresetResponseMessage) multi_context"
  | CruiseTrackList_context "('e, CruiseTrackListResponseMessage) multi_context"
  | CruiseTrack_context "('e, CruiseTrackResponseMessage) multi_context"

definition in_context :: "('c \<Rightarrow> 'e query_context) \<Rightarrow> (int \<times> 'c option) outcome \<Rightarrow> (int \<times> 'e query_context option) outcome" where
  "in_context C r = bind_outcome r (\<lambda>(code, ctx). Inr (code, map_option C ctx))"

text \<open>\<open>split\<close> and \<open>order\<close> are the parameters of the configuration types; the plain queries have nothing of their own to read.\<close>

definition super_on_query ::
    "(string \<Rightarrow> string \<Rightarrow> string list) \<Rightarrow> (DeviceConfigType \<times> string) list \<Rightarrow> 'e tinyxml2 \<Rightarrow> ('e, unit) MessageBase \<Rightarrow> nat
      \<Rightarrow> (int \<times> 'e query_context option) outcome" where
  "super_on_query split order X m listeners =
     (case mb_cmd m of
        Cmd_DeviceStatus \<Rightarrow> in_context OneResponse_context (handle_one X load_nothing () m listeners)
      | Cmd_Catalog \<Rightarrow> in_context Catalog_context (handle_multi X (load_CatalogRequest X) CatalogRequestMessage_default m listeners)
      | Cmd_DeviceInfo \<Rightarrow> in_context OneResponse_context (handle_one X load_nothing () m listeners)
      | Cmd_RecordInfo \<Rightarrow> in_context RecordInfo_context (handle_multi X (load_RecordInfoRequest X) RecordInfoRequestMessage_default m listeners)
      | Cmd_ConfigDownload \<Rightarrow> in_context ConfigDownload_context
          (handle_multi X (load_ConfigDownloadRequest split order X) ConfigDownloadRequestMessage_default m listeners)
      | Cmd_PresetQuery \<Rightarrow> in_context Preset_context (handle_multi X load_nothing () m listeners)
      | Cmd_HomePositionQuery \<Rightarrow> in_context OneResponse_context (handle_one X load_nothing () m listeners)
      | Cmd_CruiseTrackListQuery \<Rightarrow> in_context CruiseTrackList_context (handle_multi X load_nothing () m listeners)
      | Cmd_CruiseTrackQuery \<Rightarrow> in_context CruiseTrack_context
          (handle_multi X (load_CruiseTrackRequest X) CruiseTrackRequestMessage_default m listeners)
      | Cmd_PTZPosition \<Rightarrow> in_context OneResponse_context (handle_one X load_nothing () m listeners)
      | Cmd_SDCardStatus \<Rightarrow> in_context OneResponse_context (handle_one X load_nothing () m listeners)
      | _ \<Rightarrow> Inr (404, None))"

text \<open>The only notification from above is the voice broadcast.\<close>

definition super_on_notify :: "'e tinyxml2 \<Rightarrow> ('e, unit) MessageBase \<Rightarrow> nat \<Rightarrow> (int \<times> one_context option) outcome" where
  "super_on_notify X m listeners =
     (if mb_cmd m = Cmd_Broadcast then handle_one X (load_BroadcastRequest X) BroadcastNotifyRequest_default m listeners
      else Inr (404, None))"

text \<open>
  \<open>on_control\<close>: \<open>eles\<close> are the children of the root of the document. No device control gets as far as a context
  (\<open>device_controls_never_dispatched\<close>).
\<close>

definition super_on_control ::
    "(string \<Rightarrow> string \<Rightarrow> string list) \<Rightarrow> 'e tinyxml2 \<Rightarrow> 'e list \<Rightarrow> ('e, unit) MessageBase \<Rightarrow> (control_class \<Rightarrow> nat) \<Rightarrow> nat
      \<Rightarrow> (int \<times> one_context option) outcome" where
  "super_on_control split X eles m control_listeners listeners =
     (if mb_cmd m = Cmd_DeviceControl
      then bind_outcome (on_device_control X eles m control_listeners) (\<lambda>(code, emitted). Inr (int code, None))
      else if mb_cmd m = Cmd_DeviceConfig
      then handle_one X (load_DeviceConfigRequest split X) DeviceConfigRequestMessage_default m listeners
      else Inr (404, None))"

section \<open>What a query leads to\<close>

lemma load_encoding_keeps:
  "mb_cmd (load_encoding doc m) = mb_cmd m" "mb_sn (load_encoding doc m) = mb_sn m" "mb_xml (load_encoding doc m) = mb_xml m"
  "mb_device_id (load_encoding doc m) = mb_device_id m" "mb_reason (load_encoding doc m) = mb_reason m"
  "mb_root (load_encoding doc m) = mb_root m" "mb_detail (load_encoding doc m) = mb_detail m"
  by (simp_all add: load_encoding_def Let_def split: option.split)

lemma read_again:
  assumes "load_from_xml X load_nothing (MessageBase_xml (Some doc) ()) = Inr (True, m)"
  shows "\<exists>root w. load_from_xml X load (MessageBase_move m fresh)
      = bind_outcome (load root w) (\<lambda>(valid, m). Inr (valid, m\<lparr>mb_is_valid := valid\<rparr>))
    \<and> mb_detail w = fresh \<and> mb_sn w = mb_sn m \<and> mb_device_id w = mb_device_id m"
proof -
  obtain root h where root: "RootElement doc = Some root" "getRootType (Some (Name X root)) \<noteq> Root_invalid"
    and h: "load_header X root ((MessageBase_xml (Some doc) ())\<lparr>mb_root := getRootType (Some (Name X root))\<rparr>) = Inr h"
      "m = (load_encoding doc h)\<lparr>mb_is_valid := True\<rparr>"
    using assms by (auto simp: load_from_xml_def load_nothing_def bind_outcome_def MessageBase_xml_def MessageBase_default_def Let_def
        split: option.splits sum.splits if_splits)
  have kept: "mb_cmd m = mb_cmd h" "mb_sn m = mb_sn h" "mb_device_id m = mb_device_id h" "mb_reason m = mb_reason h"
      "mb_xml m = mb_xml h" "mb_root m = mb_root h"
    by (simp_all add: h(2) load_encoding_keeps)
  have own: "mb_xml h = Some doc" "mb_root h = getRootType (Some (Name X root))"
    using h(1) by (auto simp: load_header_def MessageBase_xml_def Let_def bind_outcome_def split: option.splits sum.splits)
  let ?w = "MessageBase_move m fresh"
  have again: "load_header X root ?w = Inr ?w"
    by (rule load_header_again [OF h(1)]) (simp_all add: MessageBase_move_def kept)
  have same: "?w\<lparr>mb_root := getRootType (Some (Name X root))\<rparr> = ?w" by (simp add: MessageBase_move_def kept own)
  have "load_from_xml X load ?w = bind_outcome (load root (load_encoding doc ?w)) (\<lambda>(valid, m). Inr (valid, m\<lparr>mb_is_valid := valid\<rparr>))"
    unfolding load_from_xml_def
    using again same root by (simp add: MessageBase_move_def kept own bind_outcome_def Let_def)
  then show ?thesis
    by (intro exI [of _ root] exI [of _ "load_encoding doc ?w"])
      (simp add: load_encoding_keeps MessageBase_move_def)
qed

definition context_sn :: "'e query_context \<Rightarrow> i32" where
  "context_sn c =
     (case c of OneResponse_context c \<Rightarrow> oc_sn c | Catalog_context c \<Rightarrow> mc_sn c | RecordInfo_context c \<Rightarrow> mc_sn c
      | ConfigDownload_context c \<Rightarrow> mc_sn c | Preset_context c \<Rightarrow> mc_sn c | CruiseTrackList_context c \<Rightarrow> mc_sn c
      | CruiseTrack_context c \<Rightarrow> mc_sn c)"

text \<open>A reader is harmless when it never faults and keeps the number of the message.\<close>

definition harmless :: "('e, 'd) load_detail \<Rightarrow> bool" where
  "harmless load \<longleftrightarrow> (\<forall>root w. \<exists>ok w'. load root w = Inr (ok, w') \<and> mb_sn w' = mb_sn w)"

text \<open>Whether the class of a request can read the message that the dispatch has read.\<close>

definition reads_request :: "'e tinyxml2 \<Rightarrow> ('e, 'd) load_detail \<Rightarrow> 'd \<Rightarrow> ('e, unit) MessageBase \<Rightarrow> bool" where
  "reads_request X load fresh m = (case load_from_xml X load (MessageBase_move m fresh) of Inr (ok, _) \<Rightarrow> ok | Inl _ \<Rightarrow> False)"

lemma query_loaded:
  assumes "load_from_xml X load_nothing (MessageBase_xml (Some doc) ()) = Inr (True, m)" "harmless load"
  shows "\<exists>i. loaded_query X load fresh m = Inr (if reads_request X load fresh m then Some (mb_sn m, i) else None)"
proof -
  obtain root w where r: "load_from_xml X load (MessageBase_move m fresh)
      = bind_outcome (load root w) (\<lambda>(valid, m). Inr (valid, m\<lparr>mb_is_valid := valid\<rparr>))" "mb_sn w = mb_sn m"
    using read_again [OF assms(1), of load fresh] by blast
  obtain ok w' where "load root w = Inr (ok, w')" "mb_sn w' = mb_sn w"
    using assms(2) unfolding harmless_def by blast
  then show ?thesis using r by (cases ok) (simp_all add: loaded_query_def reads_request_def)
qed

lemma plain_read:
  assumes "load_from_xml X load_nothing (MessageBase_xml (Some doc) ()) = Inr (True, m)"
  shows "reads_request X load_nothing () m"
  using read_again [OF assms, of load_nothing "()"] by (auto simp: reads_request_def load_nothing_def)

lemma readers_harmless:
  "harmless load_nothing" "harmless (load_RecordInfoRequest X)" "harmless (load_ConfigDownloadRequest split order X)"
  "harmless (load_CruiseTrackRequest X)" "harmless (load_BroadcastRequest X)"
  by (auto simp: harmless_def load_nothing_def load_RecordInfoRequest_def load_ConfigDownloadRequest_def load_CruiseTrackRequest_def
      load_BroadcastRequest_def accept_def reject_def Let_def split: prod.split option.split)

lemma catalog_loaded:
  assumes "load_from_xml X load_nothing (MessageBase_xml (Some doc) ()) = Inr (True, m)"
  shows "if mb_device_id m = None then loaded_query X (load_CatalogRequest X) fresh m = Inl NoValue
    else \<exists>i. loaded_query X (load_CatalogRequest X) fresh m
      = Inr (if reads_request X (load_CatalogRequest X) fresh m then Some (mb_sn m, i) else None)"
proof -
  obtain root w where r: "load_from_xml X (load_CatalogRequest X) (MessageBase_move m fresh)
      = bind_outcome (load_CatalogRequest X root w) (\<lambda>(valid, m). Inr (valid, m\<lparr>mb_is_valid := valid\<rparr>))"
      "mb_sn w = mb_sn m" "mb_device_id w = mb_device_id m"
    using read_again [OF assms(1), of "load_CatalogRequest X" fresh] by blast
  then show ?thesis
    by (cases "mb_device_id m"; cases "mb_device_id m = Some []")
      (simp_all add: loaded_query_def reads_request_def load_CatalogRequest_def accept_def reject_def Let_def)
qed

lemma process_codes:
  "one_process loaded listeners = (case loaded of None \<Rightarrow> (400, None) | Some (sn, i) \<Rightarrow> if listeners = 0 then (404, None)
     else (200, Some \<lparr>oc_flag = False, oc_timeout = True, oc_sn = sn, oc_device_id = i\<rparr>))"
  "multi_process loaded listeners = (case loaded of None \<Rightarrow> (400, None) | Some (sn, i) \<Rightarrow> if listeners = 0 then (404, None)
     else (200, Some \<lparr>mc_flag = False, mc_timeout = True, mc_sn = sn, mc_device_id = i, mc_responses = [], mc_stop = False,
       mc_ignore_4xx = False\<rparr>))"
  by (auto simp: one_process_def multi_process_def split: option.split)

text \<open>Every message that can be sent gets through, so the hypotheses about the way of documents can be met.\<close>

context loose_codec begin

lemma can_arrive:
  assumes X: "tinyxml2_laws X" and m: "sendable m" "ok (mb_device_id m) (mb_reason m) (mb_detail m)"
  shows "\<exists>doc base. arrives X (parse X) m doc base"
proof -
  let ?msg = "m\<lparr>mb_xml := None\<rparr>"
  obtain m' r where p: "parse X (header_root X ?msg) ?msg = (True, m', r)" "continues X (header_root X ?msg) r"
      "mb_extend_data m' = mb_extend_data m"
    using writes [OF X, of ?msg] m by auto
  let ?doc = "\<lparr>Declaration = Some (xml_declaration (mb_encoding m)), RootElement = Some r\<rparr>"
  let ?empty = "(MessageBase_xml (Some ?doc) ())\<lparr>mb_root := mb_root m\<rparr>"
  have head: "getRootType (Some (Name X r)) = mb_root m"
    "load_header X r ?empty = Inr (?empty\<lparr>mb_cmd := mb_cmd m, mb_sn := mb_sn m,
       mb_device_id := wire_device_id (mb_device_id m), mb_reason := mb_reason m\<rparr>)"
    using load_header_back [OF X _ _ p(2), of ?empty] m
    by (simp_all add: sendable_def MessageBase_xml_def MessageBase_default_def)
  have "\<exists>base. load_from_xml X load_nothing (MessageBase_xml (Some ?doc) ()) = Inr (True, base)"
    using m head
    by (simp add: load_from_xml_def sendable_def load_nothing_def MessageBase_xml_def MessageBase_default_def Let_def)
  then obtain base where "load_from_xml X load_nothing (MessageBase_xml (Some ?doc) ()) = Inr (True, base)" by blast
  then have "arrives X (parse X) m ?doc base"
    using m p by (simp add: arrives_def parse_to_xml_def sendable_def load_extend_data_def)
  then show ?thesis by blast
qed

end

lemmas context_defs = in_context_def handle_one_def handle_multi_def process_codes context_sn_def

text \<open>Only four kinds of query have something of their own to read.\<close>

definition query_readable ::
    "(string \<Rightarrow> string \<Rightarrow> string list) \<Rightarrow> (DeviceConfigType \<times> string) list \<Rightarrow> 'e tinyxml2 \<Rightarrow> ('e, unit) MessageBase \<Rightarrow> bool" where
  "query_readable split order X m =
     (case mb_cmd m of
        Cmd_Catalog \<Rightarrow> reads_request X (load_CatalogRequest X) CatalogRequestMessage_default m
      | Cmd_RecordInfo \<Rightarrow> reads_request X (load_RecordInfoRequest X) RecordInfoRequestMessage_default m
      | Cmd_ConfigDownload \<Rightarrow> reads_request X (load_ConfigDownloadRequest split order X) ConfigDownloadRequestMessage_default m
      | Cmd_CruiseTrackQuery \<Rightarrow> reads_request X (load_CruiseTrackRequest X) CruiseTrackRequestMessage_default m
      | _ \<Rightarrow> True)"

text \<open>
  C25. A query from above that the dispatch could read is answered with 404 exactly when its kind is not served, or it can be read
  and nobody listens; with 400 exactly when its kind is served but its class cannot read it, which only catalog, record, configuration and
  cruise track queries can fail; and otherwise with 200. With 200, and only then, a handler waits for the application, under the number
  of the query. There is one way out: a catalog query without a device id stops the program.
\<close>

theorem queries_answered_or_refused:
  assumes "load_from_xml X load_nothing (MessageBase_xml (Some doc) ()) = Inr (True, m)"
  shows "if mb_cmd m = Cmd_Catalog \<and> mb_device_id m = None then super_on_query split order X m listeners = Inl NoValue
    else \<exists>code ctx. super_on_query split order X m listeners = Inr (code, ctx)
      \<and> code = (if on_query_handler (mb_cmd m) = None then 404
          else if \<not> query_readable split order X m then 400
          else if listeners = 0 then 404 else 200)
      \<and> (code = 200 \<longleftrightarrow> ctx \<noteq> None) \<and> (\<forall>c. ctx = Some c \<longrightarrow> context_sn c = mb_sn m)"
proof (cases "mb_cmd m = Cmd_Catalog")
  case True
  then show ?thesis
    using catalog_loaded [OF assms, of CatalogRequestMessage_default]
    by (auto simp: super_on_query_def context_defs on_query_handler_def query_readable_def split: if_splits)
next
  case False
  note q = query_loaded [OF assms]
  note plain = plain_read [OF assms]
  show ?thesis
    using False q [OF readers_harmless(1), where fresh = "()"] plain
      q [OF readers_harmless(2) [of X], where fresh = RecordInfoRequestMessage_default]
      q [OF readers_harmless(3) [of split order X], where fresh = ConfigDownloadRequestMessage_default]
      q [OF readers_harmless(4) [of X], where fresh = CruiseTrackRequestMessage_default]
    by (cases "mb_cmd m") (auto simp: super_on_query_def context_defs on_query_handler_def query_readable_def split: if_splits)
qed

theorem queries_answered_or_refused_witness:
  "\<exists>base ctx. mb_cmd base = Cmd_DeviceInfo
    \<and> super_on_query split_ref DeviceConfigTypeMap wire_xml base 1 = Inr (200, Some ctx)
    \<and> super_on_query split_ref DeviceConfigTypeMap wire_xml base 0 = Inr (404, None)"
proof -
  let ?m = "DeviceInfoMessageRequest_new ''34'' :: (dom, unit) MessageBase"
  have m: "sendable ?m" "mb_cmd ?m = Cmd_DeviceInfo"
    by (simp_all add: DeviceInfoMessageRequest_new_def sendable_def MessageBase_new_def MessageBase_default_def)
  from PlainRequest.can_arrive [OF wire_xml_laws m(1) TrueI] obtain doc base where
    base: "arrives wire_xml (\<lambda>root m. parse_nothing root m) ?m doc base" by auto
  then have b: "mb_cmd base = Cmd_DeviceInfo" "load_from_xml wire_xml load_nothing (MessageBase_xml (Some doc) ()) = Inr (True, base)"
    using PlainRequest.arrived(1) [OF wire_xml_laws m(1) TrueI base] m(2) by (simp_all add: arrives_def)
  have served: "on_query_handler Cmd_DeviceInfo \<noteq> None" "query_readable split_ref DeviceConfigTypeMap wire_xml base"
    using b(1) by (simp_all add: on_query_handler_def query_readable_def)
  from queries_answered_or_refused [OF b(2), of split_ref DeviceConfigTypeMap 1]
    queries_answered_or_refused [OF b(2), of split_ref DeviceConfigTypeMap 0] b(1) served
  show ?thesis by auto
qed

section \<open>Calls\<close>

text \<open>
  C23. Every call of the application on a platform below makes a message that can be sent, without a number of its own, and
  the proxy that carries it waits for just as many responses as the handler of the platform that gets it sends: none, one or
  several; the message of \<open>set_device_config\<close> goes to the handler for one response. The queries of the device's status and information, of presets and configurations and \<open>set_device_config\<close> put
  the platform's own id for an empty device id, all the others that are given a device id leave it empty.
\<close>

theorem calls_answered_alike:
  "answered_alike None (query_device_status p i rcb) \<and> answered_alike None (query_device_info p i rcb)
    \<and> answered_alike None (query_preset p i rcb) \<and> answered_alike None (query_config p i types rcb)
    \<and> answered_alike None (query_catalog i cb rcb) \<and> answered_alike None (query_home_position i rcb)
    \<and> answered_alike None (query_cruise_list i rcb) \<and> answered_alike None (query_cruise i n rcb)
    \<and> answered_alike None (query_ptz_position i rcb) \<and> answered_alike None (query_sd_card_status i rcb)
    \<and> answered_alike None (query_record_info (RecordInfoRequestMessage_new i s t) rcb)
    \<and> answered_alike (Some DC_TeleBoot) (device_control_tele_boot i rcb)
    \<and> answered_alike (Some DC_RecordCmd) (device_control_record_cmd i rt n rcb)
    \<and> answered_alike (Some DC_GuardCmd) (device_control_guard_cmd i gt rcb)
    \<and> answered_alike (Some DC_AlarmCmd) (device_control_alarm_cmd i info rcb)
    \<and> answered_alike (Some DC_IFrameCmd) (device_control_i_frame_cmd i rcb)
    \<and> answered_alike (Some DC_DragZoomIn) (device_control_drag_zoom_in i drag rcb)
    \<and> answered_alike (Some DC_DragZoomOut) (device_control_drag_zoom_out i drag rcb)
    \<and> answered_alike (Some DC_FormatSDCard) (device_control_format_sd_card i n rcb)
    \<and> answered_alike (Some DC_PTZCmd) (device_control_ptz i ptz name rcb)
    \<and> answered_alike (Some DC_HomePosition) (device_control_home_position (DeviceControl_new i hp) rcb)
    \<and> answered_alike (Some DC_PtzPreciseCtrl) (device_control_ptz_precise_ctrl (DeviceControl_new i px) rcb)
    \<and> answered_alike (Some DC_DeviceUpgrade) (device_control_device_upgrade (DeviceControl_new i dg) rcb)
    \<and> answered_alike (Some DC_TargetTrack) (device_control_target_track (DeviceControl_new i tt) rcb)
    \<and> sendable (og_message (set_device_config p i cfg rcb)) \<and> mb_sn (og_message (set_device_config p i cfg rcb)) = 0
    \<and> og_kind (set_device_config p i cfg rcb) = Some (C_Plain, OneResponse)
    \<and> mb_root (og_message (set_device_config p i cfg rcb)) = Root_Control
    \<and> super_on_control split X eles (m\<lparr>mb_cmd := mb_cmd (og_message (set_device_config p i cfg rcb))\<rparr>) control_listeners listeners
      = handle_one X (load_DeviceConfigRequest split X) DeviceConfigRequestMessage_default (m\<lparr>mb_cmd := Cmd_DeviceConfig\<rparr>) listeners
    \<and> mb_device_id (og_message (query_device_status p [] rcb)) = Some (sa_platform_id (ph_account p))
    \<and> mb_device_id (og_message (query_device_info p [] rcb)) = Some (sa_platform_id (ph_account p))
    \<and> mb_device_id (og_message (query_preset p [] rcb)) = Some (sa_platform_id (ph_account p))
    \<and> mb_device_id (og_message (query_config p [] types rcb)) = Some (sa_platform_id (ph_account p))
    \<and> mb_device_id (og_message (set_device_config p [] cfg rcb)) = Some (sa_platform_id (ph_account p))
    \<and> mb_device_id (og_message (query_catalog [] cb rcb)) = Some []
    \<and> mb_device_id (og_message (query_home_position [] rcb)) = Some []
    \<and> mb_device_id (og_message (query_cruise_list [] rcb)) = Some []
    \<and> mb_device_id (og_message (query_cruise [] n rcb)) = Some []
    \<and> mb_device_id (og_message (query_ptz_position [] rcb)) = Some []
    \<and> mb_device_id (og_message (query_sd_card_status [] rcb)) = Some []
    \<and> mb_device_id (og_message (device_control_ptz [] ptz name rcb)) = Some []
    \<and> mb_device_id (og_message (device_control_tele_boot [] rcb)) = Some []
    \<and> mb_device_id (og_message (device_control_record_cmd [] rt n rcb)) = Some []
    \<and> mb_device_id (og_message (device_control_guard_cmd [] gt rcb)) = Some []
    \<and> mb_device_id (og_message (device_control_alarm_cmd [] info rcb)) = Some []
    \<and> mb_device_id (og_message (device_control_i_frame_cmd [] rcb)) = Some []
    \<and> mb_device_id (og_message (device_control_drag_zoom_in [] drag rcb)) = Some []
    \<and> mb_device_id (og_message (device_control_drag_zoom_out [] drag rcb)) = Some []
    \<and> mb_device_id (og_message (device_control_format_sd_card [] n rcb)) = Some []"
proof (intro conjI)
  show "answered_alike (Some DC_PTZCmd) (device_control_ptz i ptz name rcb)"
    by (cases "name = []") (simp_all add: device_control_ptz_def PTZCmdRequest_new_def DeviceControl_new_def MessageBase_new_def
        MessageBase_default_def answered_alike_def send_request_def sendable_def control_proxy)
  show "mb_device_id (og_message (device_control_ptz [] ptz name rcb)) = Some []"
    by (cases "name = []") (simp_all add: device_control_ptz_def PTZCmdRequest_new_def call_simps Let_def)
qed (simp_all add: queries_alike controls_alike call_simps config_sendable control_new_defs on_query_handler_def own_id_def
    query_device_status_def query_device_info_def query_preset_def query_config_def query_home_position_def query_cruise_list_def
    query_cruise_def query_ptz_position_def query_sd_card_status_def query_record_info_def query_catalog_def set_device_config_def
    device_control_tele_boot_def device_control_record_cmd_def device_control_guard_cmd_def device_control_alarm_cmd_def
    device_control_i_frame_cmd_def device_control_drag_zoom_in_def device_control_drag_zoom_out_def
    device_control_format_sd_card_def device_control_home_position_def device_control_ptz_precise_ctrl_def
    device_control_device_upgrade_def device_control_target_track_def
    DeviceStatusMessageRequest_new_def DeviceInfoMessageRequest_new_def PresetRequestMessage_new_def
    ConfigDownloadRequestMessage_new_def HomePositionRequestMessage_new_def CruiseTrackListRequestMessage_new_def
    CruiseTrackRequestMessage_new_def PTZPositionRequestMessage_new_def SdCardRequestMessage_new_def
    RecordInfoRequestMessage_new_def CatalogRequestMessage_new_def DeviceConfigRequestMessage_new_def super_on_control_def)

end
