(* ===== verification/End_To_End.thy ===== *)
theory End_To_End
  imports Super_Calls Request_Lists
begin

text \<open>
  A query from one application to the other and its answer back: the call (\<open>Subordinate_Calls\<close>), the way of the documents
  (\<open>Message_Base\<close>), the handler of the platform that is asked (\<open>Super_Calls\<close>, \<open>Query_Handlers\<close>), and the proxy of the
  request (\<open>Request_Proxy\<close>). The contract of an answer in several parts is the locale \<open>list_answer\<close>, which each class of such
  an answer interprets.
\<close>

section \<open>A received part\<close>

text \<open>
  What \<open>on_response\<close> makes of a message that the dispatch has read: the class of its command takes it over and reads it. \<open>num\<close> and
  \<open>sum\<close> are those of the class.
\<close>

definition read_response ::
    "'e tinyxml2 \<Rightarrow> ('e, 'd) load_detail \<Rightarrow> 'd \<Rightarrow> ('d \<Rightarrow> i32) \<Rightarrow> ('d \<Rightarrow> i32) \<Rightarrow> ('e, unit) MessageBase
      \<Rightarrow> (response \<times> ('e, 'd) MessageBase) outcome" where
  "read_response X load fresh num sum_num base =
     bind_outcome (load_from_xml X load (MessageBase_move base fresh)) (\<lambda>(ok, m). Inr
       (\<lparr>rs_cmd = mb_cmd base, rs_loads = ok, rs_error = mb_error m, rs_num = num (mb_detail m), rs_sum_num = sum_num (mb_detail m),
         rs_config_type = 0, rs_result = Result_invalid, rs_reason = mb_reason m\<rparr>, m))"

definition list_num :: "('d \<Rightarrow> 'i list) \<Rightarrow> 'd \<Rightarrow> i32" where
  "list_num items d = of_nat (length (items d))"

text \<open>A response that was sent under way: its document, and what the dispatch reads of it.\<close>

fun carried :: "'e tinyxml2 \<Rightarrow> ('e, 'd) parse_detail \<Rightarrow> ('e, 'd) action \<Rightarrow> 'e XMLDocument \<times> ('e, unit) MessageBase \<Rightarrow> bool" where
  "carried X parse (Send sn m) (doc, base) = arrives X parse m doc base"

text \<open>The last packet completes the request when every packet after the first holds something.\<close>

lemma packet_total_pos: "rs \<noteq> [] \<Longrightarrow> \<forall>r \<in> set rs. 0 < sint (rs_num r) \<Longrightarrow> 0 < packet_total rs"
proof (induction rs)
  case (Cons r rs)
  then show ?case by (cases "rs = []") (auto intro: add_pos_pos)
qed simp

lemma delivered_all:
  assumes "rs \<noteq> []" "\<forall>r \<in> set (tl rs). 0 < sint (rs_num r)" "acc + packet_total rs = announced"
  shows "delivered announced acc rs = map (\<lambda>r. (r, False)) (butlast rs) @ [(last rs, True)]"
  using assms
proof (induction rs arbitrary: acc)
  case (Cons r rs)
  show ?case
  proof (cases "rs = []")
    case True
    then show ?thesis using Cons.prems by simp
  next
    case False
    then have "0 < packet_total rs" using packet_total_pos Cons.prems(2) by simp
    moreover have "\<forall>x \<in> set (tl rs). 0 < sint (rs_num x)" using Cons.prems(2) False by (simp add: list.set_sel(2))
    ultimately show ?thesis using Cons.IH [of "acc + sint (rs_num r)"] Cons.prems(3) False by simp
  qed
qed simp

lemma sint_of_length: "n < 2 ^ 31 \<Longrightarrow> sint (of_nat n :: i32) = int n"
  by (simp add: sint_uint unsigned_of_nat take_bit_nat_eq_self signed_take_bit_int_eq_self)

lemma length_in_total: "m \<in> set ms \<Longrightarrow> length (items (f m)) \<le> (\<Sum>m\<leftarrow>ms. length (items (f m)))"
  by (induction ms) auto

section \<open>The contract of an answer in parts\<close>

definition response_of :: "MessageCmdType \<Rightarrow> ('d \<Rightarrow> 'i list) \<Rightarrow> ('d \<Rightarrow> i32) \<Rightarrow> ('e, 'd) MessageBase \<Rightarrow> response" where
  "response_of cmd items sum_num m =
     \<lparr>rs_cmd = cmd, rs_loads = True, rs_error = [], rs_num = list_num items (mb_detail m), rs_sum_num = sum_num (mb_detail m),
      rs_config_type = 0, rs_result = Result_invalid, rs_reason = mb_reason m\<rparr>"

lemma responses_total:
  assumes "(\<Sum>m\<leftarrow>ms. length (items (mb_detail m))) < 2 ^ 31"
  shows "packet_total (map (response_of cmd items sum_num) ms) = int (\<Sum>m\<leftarrow>ms. length (items (mb_detail m)))"
  using assms by (induction ms) (simp_all add: response_of_def list_num_def sint_of_length)

lemma responses_delivered:
  assumes p: "pq_class p = C_List" "\<not> pq_result_flag p" "pq_response_callback p" "pq_recv_num p = 0"
    and cmd: "known_response cmd" "is_list_response cmd"
    and ms: "ms \<noteq> []" "\<forall>m \<in> set ms. sum_num (mb_detail m) = announced" "\<forall>m \<in> set (tl ms). items (mb_detail m) \<noteq> []"
    and total: "int (\<Sum>m\<leftarrow>ms. length (items (mb_detail m))) = sint announced"
    and rs: "rs = map (response_of cmd items sum_num) ms"
  shows "snd (handle_all success info (respond_all now code rs) p) =
    map (\<lambda>r. ResponseCallback r False) (butlast rs) @ ResponseCallback (last rs) True
      # (if pq_rcb p then [ResultCallback Succeeded (pq_error p)] else []) @ [RemoveProxy (pq_sn p)]"
proof -
  have small: "(\<Sum>m\<leftarrow>ms. length (items (mb_detail m))) < 2 ^ 31"
    using total sint_lt [of announced] by simp
  have num: "sint (rs_num (response_of cmd items sum_num m)) = int (length (items (mb_detail m)))" if "m \<in> set ms" for m
    using length_in_total [OF that, of items mb_detail] small by (simp add: response_of_def list_num_def sint_of_length)
  have packets: "list_all (list_packet announced) rs"
    using cmd ms(2) num by (auto simp: rs list_all_iff list_packet_def response_of_def)
  have "0 < sint (rs_num r)" if r: "r \<in> set (tl rs)" for r
  proof -
    obtain m where "r = response_of cmd items sum_num m" "m \<in> set (tl ms)" using r unfolding rs map_tl [symmetric] set_map by blast
    then show ?thesis using num ms(3) list.set_sel(2) [OF ms(1)] by auto
  qed
  then have "delivered (sint announced) 0 rs = map (\<lambda>r. (r, False)) (butlast rs) @ [(last rs, True)]"
    using delivered_all [of rs 0] ms(1) responses_total [OF small] total by (simp add: rs)
  moreover have "packet_total rs = sint announced" using responses_total [OF small] total by (simp add: rs)
  ultimately show ?thesis
    using list_packets_aux [OF p(1-3) refl refl packets] p(4) ms(1) sint_lt [of announced] by (simp add: rs o_def)
qed

locale list_answer = message_codec load parse fresh norm ok
  for load :: "'e tinyxml2 \<Rightarrow> ('e, 'd) load_detail" and parse :: "'e tinyxml2 \<Rightarrow> ('e, 'd) parse_detail"
    and fresh :: 'd and norm :: "'d \<Rightarrow> 'd" and ok :: "string option \<Rightarrow> string \<Rightarrow> 'd \<Rightarrow> bool" +
  fixes cmd :: MessageCmdType and items :: "'d \<Rightarrow> 'i list" and sum_num :: "'d \<Rightarrow> i32"
  assumes list_cmd: "known_response cmd" "is_list_response cmd"
    and counted: "ok i r d \<Longrightarrow> length (items (norm d)) = length (items d)" "ok i r d \<Longrightarrow> sum_num (norm d) = sum_num d"
begin

text \<open>A part as the handler sends it, under the number of the query, comes through.\<close>

lemma part_received:
  assumes "tinyxml2_laws X" "sendable m" "mb_cmd m = cmd" "ok (mb_device_id m) (mb_reason m) (mb_detail m)"
    and "arrives X (parse X) (m\<lparr>mb_sn := q\<rparr>) doc base"
  shows "mb_sn base = q"
    "read_response X (load X) fresh (list_num items) sum_num base
      = Inr (response_of cmd items sum_num m, received norm (m\<lparr>mb_sn := q\<rparr>) doc)"
proof -
  have m: "sendable (m\<lparr>mb_sn := q\<rparr>)" "ok (mb_device_id (m\<lparr>mb_sn := q\<rparr>)) (mb_reason (m\<lparr>mb_sn := q\<rparr>)) (mb_detail (m\<lparr>mb_sn := q\<rparr>))"
    using assms(2,4) by (simp_all add: sendable_def)
  note a = arrived [OF assms(1) m assms(5)]
  show "mb_sn base = q" using a(1) by simp
  show "read_response X (load X) fresh (list_num items) sum_num base
      = Inr (response_of cmd items sum_num m, received norm (m\<lparr>mb_sn := q\<rparr>) doc)"
    using a assms(3)
    by (simp add: read_response_def response_of_def list_num_def counted [OF assms(4)] received_def MessageBase_xml_def MessageBase_default_def)
qed

text \<open>
  All parts in their order: the proxy of the query hands each to its application, as it was sent up to what its class loses, and
  completes with the last.
\<close>

lemma answer_delivered:
  assumes X: "tinyxml2_laws X" and p: "pq_class p = C_List" "\<not> pq_result_flag p" "pq_response_callback p" "pq_recv_num p = 0"
    and ms: "ms \<noteq> []" "\<forall>m \<in> set (tl ms). items (mb_detail m) \<noteq> []"
      "\<forall>m \<in> set ms. sendable m \<and> mb_cmd m = cmd \<and> ok (mb_device_id m) (mb_reason m) (mb_detail m) \<and> sum_num (mb_detail m) = announced"
    and total: "int (\<Sum>m\<leftarrow>ms. length (items (mb_detail m))) = sint announced"
    and wire: "list_all2 (carried X (parse X)) (sent_as q ms) wire"
  shows "\<exists>rs heard. list_all2 (\<lambda>w r. mb_sn (snd w) = q \<and> read_response X (load X) fresh (list_num items) sum_num (snd w) = Inr r)
        wire (zip rs heard)
    \<and> map mb_detail heard = map (\<lambda>m. norm (mb_detail m)) ms \<and> length rs = length ms
    \<and> snd (handle_all success info (respond_all now code rs) p) =
        map (\<lambda>r. ResponseCallback r False) (butlast rs) @ ResponseCallback (last rs) True
          # (if pq_rcb p then [ResultCallback Succeeded (pq_error p)] else []) @ [RemoveProxy (pq_sn p)]"
proof -
  let ?rs = "map (response_of cmd items sum_num) ms"
    and ?heard = "map (\<lambda>(m, w). received norm (m\<lparr>mb_sn := q\<rparr>) (fst w)) (zip ms wire)"
  have w: "list_all2 (\<lambda>m w. arrives X (parse X) (m\<lparr>mb_sn := q\<rparr>) (fst w) (snd w)) ms wire"
    using wire unfolding sent_as_def list.rel_map by (rule list_all2_mono) (auto elim: carried.elims)
  then have len: "length wire = length ms" by (simp add: list_all2_lengthD)
  have "list_all2 (\<lambda>w r. mb_sn (snd w) = q \<and> read_response X (load X) fresh (list_num items) sum_num (snd w) = Inr r)
      wire (zip ?rs ?heard)"
  proof (rule list_all2_all_nthI)
    fix k
    assume k: "k < length wire"
    then have m: "ms ! k \<in> set ms" "arrives X (parse X) ((ms ! k)\<lparr>mb_sn := q\<rparr>) (fst (wire ! k)) (snd (wire ! k))"
      using list_all2_nthD2 [OF w k] by (simp_all add: len)
    have "sendable (ms ! k)" "mb_cmd (ms ! k) = cmd"
        "ok (mb_device_id (ms ! k)) (mb_reason (ms ! k)) (mb_detail (ms ! k))"
      using ms(3) m(1) by auto
    from part_received [OF X this m(2)]
    show "mb_sn (snd (wire ! k)) = q \<and> read_response X (load X) fresh (list_num items) sum_num (snd (wire ! k))
        = Inr (zip ?rs ?heard ! k)"
      using k by (simp add: len)
  qed (simp add: len)
  moreover have "map mb_detail ?heard = map (\<lambda>m. norm (mb_detail m)) ms"
    by (rule nth_equalityI) (simp_all add: len received_def MessageBase_xml_def MessageBase_default_def)
  moreover have "snd (handle_all success info (respond_all now code ?rs) p) =
        map (\<lambda>r. ResponseCallback r False) (butlast ?rs) @ ResponseCallback (last ?rs) True
          # (if pq_rcb p then [ResultCallback Succeeded (pq_error p)] else []) @ [RemoveProxy (pq_sn p)]"
    by (rule responses_delivered [OF p list_cmd ms(1) _ ms(2) total refl]) (use ms(3) in blast)
  ultimately show ?thesis by (intro exI [of _ ?rs] exI [of _ ?heard]) simp
qed

end

interpretation CatalogAnswer: list_answer load_Catalog parse_Catalog CatalogResponseMessage_default
  "\<lambda>d. d\<lparr>cg_items := map Item_after (cg_items d)\<rparr>" "\<lambda>i r d. [] \<notin> set (cg_extra d)" Cmd_Catalog cg_items cg_sum_num
  by unfold_locales (simp_all add: known_response_def is_list_response_def)

interpretation RecordAnswer: list_answer load_RecordInfoResponse parse_RecordInfoResponse RecordInfoResponseMessage_default
  "\<lambda>d. d\<lparr>ri_record_list := map (\<lambda>v. v\<lparr>fl_StreamNumber := None\<rparr>) (ri_record_list d), ri_extra_info := []\<rparr>" "\<lambda>i r d. True"
  Cmd_RecordInfo ri_record_list ri_sum_num
  by unfold_locales (simp_all add: known_response_def is_list_response_def)

interpretation CruiseTrackListAnswer: list_answer load_CruiseTrackList parse_CruiseTrackList
  CruiseTrackListResponseMessage_default "\<lambda>d. d" "\<lambda>i r d. True" Cmd_CruiseTrackListQuery cl_cruise_track_list cl_sum_num
  by unfold_locales (simp_all add: known_response_def is_list_response_def)

interpretation CruiseTrackAnswer: list_answer load_CruiseTrack parse_CruiseTrack CruiseTrackResponseMessage_default
  "\<lambda>d. d\<lparr>cs_name := []\<rparr>" "\<lambda>i r d. cs_result d \<noteq> Result_invalid" Cmd_CruiseTrackQuery cs_cruise_points cs_sum_num
  by unfold_locales (simp_all add: known_response_def is_list_response_def)

interpretation PresetAnswer: list_answer load_Preset parse_Preset PresetResponseMessage_default
  "\<lambda>d. \<lparr>pr_base_sum_num = 0, pr_sum_num = (if pr_sum_num d \<noteq> 0 then 0 else of_nat (length (pr_preset_list d))),
     pr_preset_list = pr_preset_list d\<rparr>"
  "\<lambda>i r d. pr_base_sum_num d = 0 \<and> length (pr_preset_list d) < 2 ^ 31" Cmd_PresetQuery pr_preset_list pr_base_sum_num
  by unfold_locales (simp_all add: known_response_def is_list_response_def)

section \<open>The whole way\<close>

lemma catalog_query_handled:
  assumes "tinyxml2_laws X" "i \<noteq> []" "0 < listeners"
    and "arrives X (parse_CatalogRequest X) ((og_message (query_catalog i cb rcb))\<lparr>mb_sn := q\<rparr>) doc base"
  shows "super_on_query split order X base listeners = Inr (200, Some (Catalog_context
    \<lparr>mc_flag = False, mc_timeout = True, mc_sn = q, mc_device_id = Some i, mc_responses = [], mc_stop = False, mc_ignore_4xx = False\<rparr>))"
proof -
  let ?m = "(og_message (query_catalog i cb rcb))\<lparr>mb_sn := q\<rparr> :: ('a, CatalogRequestMessage) MessageBase"
  have m: "sendable ?m" "mb_cmd ?m = Cmd_Catalog" "mb_device_id ?m = Some i"
    by (simp_all add: query_catalog_def call_simps CatalogRequestMessage_new_def sendable_def MessageBase_new_def MessageBase_default_def)
  have ok: "mb_device_id ?m \<noteq> None \<and> mb_device_id ?m \<noteq> Some []" using m(3) assms(2) by simp
  note a = CatalogRequest.arrived [OF assms(1) m(1) ok assms(4)]
  show ?thesis
    using a m assms(2,3)
    by (simp add: super_on_query_def handle_multi_def loaded_query_def in_context_def process_codes received_def wire_device_id_def)
qed

lemma replied_list:
  assumes "success 200"
  shows "snd (handle_all success info (I_Reply t True 200 # is) (sent_proxy C_List MultipleResponses q 0 False True))
      = snd (handle_all success info is (fst (on_reply success info t True 200 (sent_proxy C_List MultipleResponses q 0 False True))))"
    "pq_class (fst (on_reply success info t True 200 (sent_proxy C_List MultipleResponses q 0 False True))) = C_List"
    "\<not> pq_result_flag (fst (on_reply success info t True 200 (sent_proxy C_List MultipleResponses q 0 False True)))"
    "pq_response_callback (fst (on_reply success info t True 200 (sent_proxy C_List MultipleResponses q 0 False True)))"
    "pq_recv_num (fst (on_reply success info t True 200 (sent_proxy C_List MultipleResponses q 0 False True))) = 0"
    "pq_rcb (fst (on_reply success info t True 200 (sent_proxy C_List MultipleResponses q 0 False True)))"
    "pq_error (fst (on_reply success info t True 200 (sent_proxy C_List MultipleResponses q 0 False True))) = []"
    "pq_sn (fst (on_reply success info t True 200 (sent_proxy C_List MultipleResponses q 0 False True))) = q"
  using assms
  by (simp_all add: handle_all_simps on_reply_def on_reply_l_def sent_proxy_def send_def proxy_new_def Let_def split: prod.split)

text \<open>
  C9. A catalog query goes from the application of one platform to that of the other and its answer comes back whole. The query
  that \<open>query_catalog\<close> makes for a device is handled with 200 when the other application listens, and its proxy is one for a
  list. When that application answers with catalogs that announce the number of their items in all, have no empty additional text, and
  of which every one after the first has at least one item, and all of them have
  been sent, under whatever concurrency, and carried in their order after the confirmation of the query, then each arrives under the
  number of the query and is handed to the asking application once, in order, with its items as \<open>Item_after\<close> says; the last one is
  marked, the request succeeds there, and its proxy is removed. (With an empty catalog later on the request completes with the
  catalog before it, and the rest is dropped; an empty additional text faults in the reader, see \<open>catalog_on_the_wire\<close>.)
\<close>

theorem catalog_query_answered:
  fixes X :: "'e tinyxml2"
  assumes X: "tinyxml2_laws X" and query: "i \<noteq> []" "q \<noteq> 0" "0 < listeners"
      "arrives X (parse_CatalogRequest X) ((og_message (query_catalog i True True))\<lparr>mb_sn := q\<rparr>) doc base"
    and ms: "ms \<noteq> []" "list_all (\<lambda>m. sendable m \<and> mb_cmd m = Cmd_Catalog \<and> [] \<notin> set (cg_extra (mb_detail m))
        \<and> cg_sum_num (mb_detail m) = announced) ms" "list_all (\<lambda>m. cg_items (mb_detail m) \<noteq> []) (tl ms)"
      "int (\<Sum>m\<leftarrow>ms. length (cg_items (mb_detail m))) = sint announced"
    and concurrency: "0 \<le> concurrency" and ok200: "success 200"
  shows "og_kind (query_catalog i True True :: ('e, CatalogRequestMessage) outgoing) = Some (C_List, MultipleResponses)
    \<and> (\<exists>ctx0. super_on_query split order X base listeners = Inr (200, Some (Catalog_context ctx0))
      \<and> (\<forall>ctx sn sent wire. multi_run client_error ms concurrency ignore_4xx ctx0 sn0 ctx sn sent 0 False
            \<and> list_all2 (carried X (parse_Catalog X)) sent wire \<longrightarrow>
          (\<exists>rs heard. list_all2 (\<lambda>w r. mb_sn (snd w) = q \<and> read_response X (load_Catalog X) CatalogResponseMessage_default
                (list_num cg_items) cg_sum_num (snd w) = Inr r) wire (zip rs heard)
            \<and> map (cg_items \<circ> mb_detail) heard = map (map Item_after \<circ> (cg_items \<circ> mb_detail)) ms \<and> length rs = length ms
            \<and> snd (handle_all success info (I_Reply t True 200 # respond_all now code rs)
                  (sent_proxy C_List MultipleResponses q 0 False True))
              = map (\<lambda>r. ResponseCallback r False) (butlast rs)
                @ [ResponseCallback (last rs) True, ResultCallback Succeeded [], RemoveProxy q])))"
proof -
  let ?ctx0 = "\<lparr>mc_flag = False, mc_timeout = True, mc_sn = q, mc_device_id = Some i, mc_responses = [], mc_stop = False,
      mc_ignore_4xx = False\<rparr> :: ('e, CatalogResponseMessage) multi_context"
  have start: "multi_process (Some (q, Some i)) listeners = (200, Some ?ctx0)" using query by (simp add: process_codes)
  have comes: "\<exists>rs heard. list_all2 (\<lambda>w r. mb_sn (snd w) = q \<and> read_response X (load_Catalog X) CatalogResponseMessage_default
          (list_num cg_items) cg_sum_num (snd w) = Inr r) wire (zip rs heard)
      \<and> map (cg_items \<circ> mb_detail) heard = map (map Item_after \<circ> (cg_items \<circ> mb_detail)) ms \<and> length rs = length ms
      \<and> snd (handle_all success info (I_Reply t True 200 # respond_all now code rs) (sent_proxy C_List MultipleResponses q 0 False True))
        = map (\<lambda>r. ResponseCallback r False) (butlast rs) @ [ResponseCallback (last rs) True, ResultCallback Succeeded [], RemoveProxy q]"
    if run: "multi_run client_error ms concurrency ignore_4xx ?ctx0 sn0 ctx sn sent 0 False"
      and wire: "list_all2 (carried X (parse_Catalog X)) sent wire" for ctx sn sent wire
  proof -
    have sent: "sent = sent_as q ms"
      by (rule multi_all_sent [OF start query(2) concurrency run])
    let ?p = "fst (on_reply success info t True 200 (sent_proxy C_List MultipleResponses q 0 False True))"
    note p = ok200 replied_list(2-8) [of success info t q, OF ok200]
    obtain rs heard where r: "list_all2 (\<lambda>w r. mb_sn (snd w) = q \<and> read_response X (load_Catalog X) CatalogResponseMessage_default
          (list_num cg_items) cg_sum_num (snd w) = Inr r) wire (zip rs heard)"
      "length rs = length ms" "map mb_detail heard = map (\<lambda>m. (mb_detail m)\<lparr>cg_items := map Item_after (cg_items (mb_detail m))\<rparr>) ms"
      "snd (handle_all success info (respond_all now code rs) ?p) = map (\<lambda>r. ResponseCallback r False) (butlast rs)
        @ ResponseCallback (last rs) True # (if pq_rcb ?p then [ResultCallback Succeeded (pq_error ?p)] else []) @ [RemoveProxy (pq_sn ?p)]"
      using CatalogAnswer.answer_delivered [OF X p(2-5) ms(1) _ _ ms(4) wire [unfolded sent], where success = success and info = info
          and now = now and code = code] ms(2,3) unfolding list_all_iff by blast
    have e: "snd (handle_all success info (I_Reply t True 200 # respond_all now code rs) (sent_proxy C_List MultipleResponses q 0 False True))
        = map (\<lambda>r. ResponseCallback r False) (butlast rs) @ [ResponseCallback (last rs) True, ResultCallback Succeeded [], RemoveProxy q]"
      unfolding replied_list(1) [of success, OF ok200] r(4) using p(6-8) by simp
    have "map (cg_items \<circ> mb_detail) heard = map (map Item_after \<circ> (cg_items \<circ> mb_detail)) ms"
      using arg_cong [OF r(3), of "map cg_items"] by (simp add: o_def)
    with r e show ?thesis by blast
  qed
  have "og_kind (query_catalog i True True :: ('e, CatalogRequestMessage) outgoing) = Some (C_List, MultipleResponses)"
    by (simp add: query_catalog_def send_request_def CatalogRequestMessage_new_def MessageBase_new_def newRequestProxy_def Let_def
        multi_mask)
  then show ?thesis
    using catalog_query_handled [OF X query(1,3,4), of split order] comes by blast
qed

text \<open>One catalog of one item, with one worker.\<close>

definition demo_catalog :: "(dom, CatalogResponseMessage) MessageBase" where
  "demo_catalog = CatalogResponseMessage_new ''34'' 1 [ItemTypeInfo_default] []"

lemma demo_catalog_simps:
  "sendable demo_catalog" "mb_cmd demo_catalog = Cmd_Catalog" "cg_extra (mb_detail demo_catalog) = []"
  "cg_sum_num (mb_detail demo_catalog) = 1" "cg_items (mb_detail demo_catalog) = [ItemTypeInfo_default]"
  by (simp_all add: demo_catalog_def CatalogResponseMessage_new_def sendable_def MessageBase_new_def MessageBase_default_def)

lemma demo_run:
  assumes "ctx0 = \<lparr>mc_flag = False, mc_timeout = True, mc_sn = q, mc_device_id = Some i, mc_responses = [], mc_stop = False,
      mc_ignore_4xx = False\<rparr>" "q \<noteq> 0"
  shows "\<exists>ctx sn. multi_run client_error [m] 1 False ctx0 sn0 ctx sn (sent_as q [m]) 0 False"
proof -
  let ?ctx1 = "ctx0\<lparr>mc_flag := True, mc_timeout := False, mc_responses := [], mc_ignore_4xx := False\<rparr>"
  have "multi_run client_error [m] 1 False ctx0 sn0 ?ctx1 sn0 (sent_as q [m]) (Suc 0) False"
    using multi_run.multi_start [of "[m]" 1 False ctx0 sn0 ?ctx1 sn0 "sent_as q [m]" client_error] assms
    by (simp add: multi_respond_def do_send_response_def send_response_def)
  from multi_run.multi_step [OF this, of Succeeded 200 "?ctx1\<lparr>mc_stop := True\<rparr>" sn0 "[]"] show ?thesis
    using assms by (auto simp: multi_done_def do_send_response_def)
qed

theorem catalog_query_answered_witness:
  "\<exists>base ctx0 r. super_on_query split_ref DeviceConfigTypeMap wire_xml base 1 = Inr (200, Some (Catalog_context ctx0))
    \<and> snd (handle_all ok_code info_code (I_Reply 3 True 200 # respond_all 5 200 [r]) (sent_proxy C_List MultipleResponses 1 0 False True))
      = [ResponseCallback r True, ResultCallback Succeeded [], RemoveProxy 1]"
proof -
  let ?query = "(og_message (query_catalog ''34'' True True))\<lparr>mb_sn := 1\<rparr> :: (dom, CatalogRequestMessage) MessageBase"
  have "sendable ?query" "mb_device_id ?query \<noteq> None \<and> mb_device_id ?query \<noteq> Some []"
    by (simp_all add: query_catalog_def call_simps CatalogRequestMessage_new_def sendable_def MessageBase_new_def MessageBase_default_def)
  from CatalogRequest.can_arrive [OF wire_xml_laws this] obtain doc base where
    q: "arrives wire_xml (parse_CatalogRequest wire_xml) ?query doc base" by blast
  have "sendable (demo_catalog\<lparr>mb_sn := 1\<rparr>)" "[] \<notin> set (cg_extra (mb_detail (demo_catalog\<lparr>mb_sn := 1\<rparr>)))"
    using demo_catalog_simps by (simp_all add: sendable_def)
  from CatalogResponse.can_arrive [OF wire_xml_laws this] obtain w where
    w: "list_all2 (carried wire_xml (parse_Catalog wire_xml)) (sent_as 1 [demo_catalog]) [w]" by auto
  have "ok_code 200" by (simp add: ok_code_def)
  from catalog_query_answered [OF wire_xml_laws _ _ _ q, of 1 "[demo_catalog]" 1 1 ok_code split_ref DeviceConfigTypeMap "\<lambda>c. False"
      False 0 info_code 3 5 200] demo_catalog_simps this
  obtain ctx0 where ctx0: "super_on_query split_ref DeviceConfigTypeMap wire_xml base 1 = Inr (200, Some (Catalog_context ctx0))"
    and runs: "\<And>ctx sn sent wire. multi_run (\<lambda>c. False) [demo_catalog] 1 False ctx0 0 ctx sn sent 0 False \<Longrightarrow>
      list_all2 (carried wire_xml (parse_Catalog wire_xml)) sent wire \<Longrightarrow>
      \<exists>rs heard. list_all2 (\<lambda>w r. mb_sn (snd w) = 1 \<and> read_response wire_xml (load_Catalog wire_xml) CatalogResponseMessage_default
          (list_num cg_items) cg_sum_num (snd w) = Inr r) wire (zip rs heard)
        \<and> map (cg_items \<circ> mb_detail) heard = map (map Item_after \<circ> (cg_items \<circ> mb_detail)) [demo_catalog] \<and> length rs = length [demo_catalog]
        \<and> snd (handle_all ok_code info_code (I_Reply 3 True 200 # respond_all 5 200 rs) (sent_proxy C_List MultipleResponses 1 0 False True))
          = map (\<lambda>r. ResponseCallback r False) (butlast rs) @ [ResponseCallback (last rs) True, ResultCallback Succeeded [], RemoveProxy 1]"
    by auto
  have "ctx0 = \<lparr>mc_flag = False, mc_timeout = True, mc_sn = 1, mc_device_id = Some ''34'', mc_responses = [], mc_stop = False,
      mc_ignore_4xx = False\<rparr>"
    using ctx0 catalog_query_handled [OF wire_xml_laws _ _ q, of 1 split_ref DeviceConfigTypeMap] by simp
  from demo_run [OF this, of "\<lambda>c. False" demo_catalog 0] obtain ctx sn where
    "multi_run (\<lambda>c. False) [demo_catalog] 1 False ctx0 0 ctx sn (sent_as 1 [demo_catalog]) 0 False" by auto
  from runs [OF this w] obtain rs where r: "length rs = 1"
    "snd (handle_all ok_code info_code (I_Reply 3 True 200 # respond_all 5 200 rs) (sent_proxy C_List MultipleResponses 1 0 False True))
          = map (\<lambda>r. ResponseCallback r False) (butlast rs) @ [ResponseCallback (last rs) True, ResultCallback Succeeded [], RemoveProxy 1]"
    by fastforce
  obtain r1 where "rs = [r1]" using r(1) by (auto simp: length_Suc_conv)
  then show ?thesis using ctx0 r(2) by (intro exI [of _ base] exI [of _ ctx0] exI [of _ r1]) simp
qed

section \<open>A query that timed out\<close>

lemma timeout_sent:
  assumes "\<not> mc_flag ctx" "\<not> mc_stop ctx" "mc_sn ctx \<noteq> 0" "multi_timeout mk True ctx sn = (ctx', sn', acts)"
  shows "acts = sent_as (mc_sn ctx) [timeout_response mk (mc_device_id ctx)]"
  using assms by (auto simp: multi_timeout_def multi_respond_def do_send_response_def send_response_def Let_def)

text \<open>What a handler's own answer comes to, for one class of answers.\<close>

definition timeout_told_as_success ::
    "'e tinyxml2 \<Rightarrow> ('e, 'd) load_detail \<Rightarrow> ('e, 'd) parse_detail \<Rightarrow> 'd \<Rightarrow> ('d \<Rightarrow> 'i list) \<Rightarrow> ('d \<Rightarrow> i32)
      \<Rightarrow> (string \<Rightarrow> ('e, 'd) MessageBase) \<Rightarrow> (int \<Rightarrow> bool) \<Rightarrow> (int \<Rightarrow> bool) \<Rightarrow> bool" where
  "timeout_told_as_success X load parse fresh items sum_num mk success info \<longleftrightarrow>
     (\<forall>c c' sn sn' acts wire t now code. \<not> mc_flag c \<and> \<not> mc_stop c \<and> mc_sn c \<noteq> 0 \<and> multi_timeout mk True c sn = (c', sn', acts)
        \<and> list_all2 (carried X parse) acts wire \<longrightarrow>
      (\<exists>doc base r. wire = [(doc, base)] \<and> mb_sn base = mc_sn c
        \<and> (\<exists>heard. read_response X load fresh (list_num items) sum_num base = Inr (r, heard) \<and> items (mb_detail heard) = [])
        \<and> snd (handle_all success info (I_Reply t True 200 # respond_all now code [r]) (sent_proxy C_List MultipleResponses (mc_sn c) 0 False True))
          = [ResponseCallback r True, ResultCallback Succeeded [], RemoveProxy (mc_sn c)]))"

context list_answer begin

lemma empty_part_succeeds:
  assumes X: "tinyxml2_laws X" and ok200: "success 200"
    and m: "sendable m" "mb_cmd m = cmd" "ok (mb_device_id m) (mb_reason m) (mb_detail m)" "sum_num (mb_detail m) = 0" "items (mb_detail m) = []"
    and wire: "list_all2 (carried X (parse X)) (sent_as q [m]) wire"
  shows "\<exists>doc base r. wire = [(doc, base)] \<and> mb_sn base = q
    \<and> (\<exists>heard. read_response X (load X) fresh (list_num items) sum_num base = Inr (r, heard) \<and> items (mb_detail heard) = [])
    \<and> snd (handle_all success info (I_Reply t True 200 # respond_all now code [r]) (sent_proxy C_List MultipleResponses q 0 False True))
      = [ResponseCallback r True, ResultCallback Succeeded [], RemoveProxy q]"
proof -
  obtain doc base where w: "wire = [(doc, base)]" "arrives X (parse X) (m\<lparr>mb_sn := q\<rparr>) doc base"
    using wire by (auto simp: list_all2_Cons1)
  let ?p = "fst (on_reply success info t True 200 (sent_proxy C_List MultipleResponses q 0 False True))"
  let ?r = "response_of cmd items sum_num m"
  note p = replied_list(2-8) [of success info t q, OF ok200]
  have "snd (handle_all success info (respond_all now code [?r]) ?p) = map (\<lambda>r. ResponseCallback r False) (butlast [?r])
      @ ResponseCallback (last [?r]) True # (if pq_rcb ?p then [ResultCallback Succeeded (pq_error ?p)] else []) @ [RemoveProxy (pq_sn ?p)]"
    by (rule responses_delivered [OF p(1-4) list_cmd, of "[m]" sum_num 0 items]) (simp_all add: m)
  then have "snd (handle_all success info (I_Reply t True 200 # respond_all now code [?r]) (sent_proxy C_List MultipleResponses q 0 False True))
      = [ResponseCallback ?r True, ResultCallback Succeeded [], RemoveProxy q]"
    unfolding replied_list(1) [of success, OF ok200] using p(5-7) by simp
  moreover note part_received [OF X m(1-3) w(2)]
  moreover have "items (norm (mb_detail m)) = []" using counted(1) [OF m(3)] m(5) by simp
  ultimately show ?thesis
    using w(1) by (auto simp: received_def MessageBase_xml_def MessageBase_default_def)
qed

lemma timeout_succeeds:
  assumes X: "tinyxml2_laws X" and ok200: "success 200"
    and mk: "\<And>i. sendable (timeout_response mk i) \<and> mb_cmd (timeout_response mk i) = cmd
      \<and> ok (mb_device_id (timeout_response mk i)) (mb_reason (timeout_response mk i)) (mb_detail (timeout_response mk i))
      \<and> sum_num (mb_detail (timeout_response mk i)) = 0 \<and> items (mb_detail (timeout_response mk i)) = []"
  shows "timeout_told_as_success X (load X) (parse X) fresh items sum_num mk success info"
  unfolding timeout_told_as_success_def
proof (intro allI impI; elim conjE)
  fix c c' :: "('e, 'd) multi_context" and sn sn' acts wire t now code
  assume "\<not> mc_flag c" "\<not> mc_stop c" "mc_sn c \<noteq> 0" "multi_timeout mk True c sn = (c', sn', acts)"
    and wire: "list_all2 (carried X (parse X)) acts wire"
  from timeout_sent [OF this(1-4)] wire
  have "list_all2 (carried X (parse X)) (sent_as (mc_sn c) [timeout_response mk (mc_device_id c)]) wire" by simp
  from empty_part_succeeds [OF X, of success, OF ok200 _ _ _ _ _ this] mk
  show "\<exists>doc base r. wire = [(doc, base)] \<and> mb_sn base = mc_sn c
      \<and> (\<exists>heard. read_response X (load X) fresh (list_num items) sum_num base = Inr (r, heard) \<and> items (mb_detail heard) = [])
      \<and> snd (handle_all success info (I_Reply t True 200 # respond_all now code [r]) (sent_proxy C_List MultipleResponses (mc_sn c) 0 False True))
        = [ResponseCallback r True, ResultCallback Succeeded [], RemoveProxy (mc_sn c)]"
    by blast
qed

end

lemmas timeout_defs = timeout_response_def create_Catalog_def CatalogResponseMessage_new_def create_RecordInfo_def
  RecordInfoResponseMessage_short_def RecordInfoResponseMessage_default_def create_Preset_def PresetResponseMessage_new_def
  create_CruiseTrackList_def CruiseTrackListResponseMessage_new_def create_CruiseTrack_def CruiseTrackResponseMessage_short_def
  sendable_def MessageBase_new_def MessageBase_default_def

text \<open>
  C26. When the application of the platform that is asked does not answer a list query in time (a query of catalogs, records, presets,
  cruise track lists or cruise tracks), the platform answers by itself, and the asking application is told that its request
  succeeded, with an empty list: the answer announces no items, which completes the request, and nothing looks at its result or at
  its reason, which is timeout.
\<close>

theorem timed_out_query_succeeds:
  assumes X: "tinyxml2_laws X" and ok200: "success 200"
  shows "timeout_told_as_success X (load_Catalog X) (parse_Catalog X) CatalogResponseMessage_default cg_items cg_sum_num
      create_Catalog success info
    \<and> timeout_told_as_success X (load_RecordInfoResponse X) (parse_RecordInfoResponse X) RecordInfoResponseMessage_default
      ri_record_list ri_sum_num create_RecordInfo success info
    \<and> timeout_told_as_success X (load_Preset X) (parse_Preset X) PresetResponseMessage_default pr_preset_list pr_base_sum_num
      create_Preset success info
    \<and> timeout_told_as_success X (load_CruiseTrackList X) (parse_CruiseTrackList X) CruiseTrackListResponseMessage_default
      cl_cruise_track_list cl_sum_num create_CruiseTrackList success info
    \<and> timeout_told_as_success X (load_CruiseTrack X) (parse_CruiseTrack X) CruiseTrackResponseMessage_default cs_cruise_points
      cs_sum_num create_CruiseTrack success info"
  by (intro conjI CatalogAnswer.timeout_succeeds RecordAnswer.timeout_succeeds PresetAnswer.timeout_succeeds
      CruiseTrackListAnswer.timeout_succeeds CruiseTrackAnswer.timeout_succeeds X ok200) (simp_all add: timeout_defs)

theorem timed_out_query_succeeds_witness:
  "\<exists>(c :: (dom, CatalogResponseMessage) multi_context) sent r. snd (snd (multi_timeout create_Catalog True c 0)) = sent_as 1 [sent]
    \<and> snd (handle_all ok_code info_code (I_Reply 3 True 200 # respond_all 5 200 [r]) (sent_proxy C_List MultipleResponses 1 0 False True))
      = [ResponseCallback r True, ResultCallback Succeeded [], RemoveProxy 1]"
proof -
  let ?c = "\<lparr>mc_flag = False, mc_timeout = True, mc_sn = 1, mc_device_id = Some ''34'', mc_responses = [], mc_stop = False,
      mc_ignore_4xx = False\<rparr> :: (dom, CatalogResponseMessage) multi_context"
  let ?m = "timeout_response create_Catalog (Some ''34'') :: (dom, CatalogResponseMessage) MessageBase"
  have run: "multi_timeout create_Catalog True ?c 0
      = (?c\<lparr>mc_flag := True, mc_timeout := False, mc_ignore_4xx := True\<rparr>, 0, sent_as 1 [?m])"
    by (simp add: multi_timeout_def multi_respond_def do_send_response_def send_response_def)
  have "sendable (?m\<lparr>mb_sn := 1\<rparr>)" "[] \<notin> set (cg_extra (mb_detail (?m\<lparr>mb_sn := 1\<rparr>)))"
    by (simp_all add: timeout_defs)
  from CatalogResponse.can_arrive [OF wire_xml_laws this] obtain w where
    w: "list_all2 (carried wire_xml (parse_Catalog wire_xml)) (sent_as 1 [?m]) [w]" by auto
  have ok: "ok_code 200" by (simp add: ok_code_def)
  have c: "\<not> mc_flag ?c \<and> \<not> mc_stop ?c \<and> mc_sn ?c \<noteq> 0 \<and> multi_timeout create_Catalog True ?c 0
      = (?c\<lparr>mc_flag := True, mc_timeout := False, mc_ignore_4xx := True\<rparr>, 0, sent_as 1 [?m])
      \<and> list_all2 (carried wire_xml (parse_Catalog wire_xml)) (sent_as 1 [?m]) [w]" and sn: "mc_sn ?c = 1"
    using run w by simp_all
  have "timeout_told_as_success wire_xml (load_Catalog wire_xml) (parse_Catalog wire_xml) CatalogResponseMessage_default cg_items
      cg_sum_num create_Catalog ok_code info_code"
    using timed_out_query_succeeds [OF wire_xml_laws, of ok_code info_code, OF ok] by blast
  from this [unfolded timeout_told_as_success_def, rule_format, OF c, unfolded sn, of 3 5 200] obtain r where
    "snd (handle_all ok_code info_code (I_Reply 3 True 200 # respond_all 5 200 [r]) (sent_proxy C_List MultipleResponses 1 0 False True))
      = [ResponseCallback r True, ResultCallback Succeeded [], RemoveProxy 1]" by blast
  moreover have "snd (snd (multi_timeout create_Catalog True ?c 0)) = sent_as 1 [?m]" unfolding run by (simp only: snd_conv)
  ultimately show ?thesis by blast
qed

end
