(* ===== verification/Spec2Isabelle.thy ===== *)
theory Spec2Isabelle
  imports PTZ ConfigCodec Message_Facts Request_Facts Request_Lists Query_Facts Subordinate_Facts Session_Facts Super_Facts
    Dispatch Sdp_Facts Invite_Facts Subscribe_Facts Wire_Facts Call_Facts Sip_Headers Sip_Timer Sip_Callbacks
    Sip_Sending Sip_Connect Encoding Super_Calls End_To_End
begin

text \<open>
  A model of libgb28181, a C++ library for the signalling of GB/T 28181 video surveillance. A program that links it
  is at once a platform of its own, a server to the platforms below it (subordinate platforms) and a client of the
  platforms above it (super platforms). All three roles exchange XML documents in SIP MESSAGE requests; streams are
  set up with INVITE requests that carry session descriptions.

  \<^bold>\<open>Parts and theories.\<close> Each theory models the files it names, with their names; records are the C++
  structs and the data members of the classes, functions are the methods, from top to bottom.

  \<^item> \<open>Prelude\<close>: machine integers, decimal numbers, the functions on strings the code takes from C and C++.
  \<^item> \<open>PTZ\<close> (\<open>PTZCommand\<close> in \<open>include/gb28181/type_define.h\<close>): the eight octets of a camera command, their checksum and
    hexadecimal form.
  \<^item> \<open>Enums\<close>, \<open>Records\<close> (\<open>type_define.h\<close>): enumerations with the name maps the X-macros make of them, and the structs.
  \<^item> \<open>Xml\<close>, \<open>ConfigXml\<close>, \<open>ConfigCodec\<close> (\<open>src/type_define_ext.cpp\<close>): element builders and readers, over an abstract DOM
    whose laws are \<open>tinyxml2_laws\<close> and which \<open>dom_xml\<close> implements; the twelve device configurations.
  \<^item> \<open>Message_Base\<close>, \<open>Messages\<close>, \<open>Message_Lists\<close>, \<open>Device_Control\<close>, \<open>Message_Facts\<close> (\<open>src/message/\<close>): the header
    every message shares and the members of each class. The contract of a class is the locale \<open>message_codec\<close>, which
    each class interprets.
  \<^item> \<open>Message_Notify\<close>, \<open>Catalog\<close>, \<open>Message_Config\<close>, \<open>Wire_Facts\<close> (\<open>src/message/\<close>): the messages with lists and variants: records,
    notifications and alarms, catalogs with the table of their items' fields, and configurations, whose entries
    carry a value of the type they are filed under.
  \<^item> \<open>Request_Proxy\<close> and \<open>Request_Runs\<close>, \<open>Request_Facts\<close>, \<open>Request_Lists\<close> (\<open>src/request/RequestProxyImpl.cpp\<close>,
    \<open>RequestListImpl.cpp\<close>, \<open>RequestConfigDownloadImpl.cpp\<close>): a request that waits for its reply and its responses. The
    handlers are functions on the state of the proxy; a run is a list of events in any order.
  \<^item> \<open>Request_Table\<close>, \<open>Platform_Helper\<close> (\<open>src/platform_helper.cpp\<close>): serial numbers, the table of pending requests, the
    sessions to a platform.
  \<^item> \<open>Query_Handlers\<close>, \<open>Query_Facts\<close> and \<open>Super_Platform\<close>, \<open>Super_Facts\<close> (\<open>src/super_platform_impl.cpp\<close>): how a query
    of a super platform is answered, and how the library registers with it. Timers and queued lambdas are values of
    a datatype of jobs, and the runtime may run any waiting job.
  \<^item> \<open>Subordinate\<close>, \<open>Subordinate_Facts\<close> (\<open>src/subordinate_platform_impl.cpp\<close>), \<open>Digest\<close>
    (\<open>src/inner/sip_common.cpp\<close>): registration of a subordinate platform, its password check, its keepalives.
  \<^item> \<open>Subordinate_Calls\<close>, \<open>Call_Facts\<close> (the rest of \<open>subordinate_platform_impl.cpp\<close>): every query, control and configuration an
    application can send to a platform below, and \<open>on_notify\<close>, by which it hears of the platform.
  \<^item> \<open>Super_Calls\<close> (\<open>src/super_platform_impl.cpp\<close>): \<open>on_query\<close>, \<open>on_control\<close> and \<open>on_notify\<close> for a platform above, with the reading of each
    request.
  \<^item> \<open>End_To_End\<close>: the parts together, from the call of one application over both platforms to the answer in its callback. An
    answer in several parts is the locale \<open>list_answer\<close>.
  \<^item> \<open>Sip_Sending\<close> (\<open>src/platform_helper.cpp\<close>): a request handed to the SIP library and its report. \<open>Sip_Connect\<close>
    (\<open>src/inner/sip_session.cpp\<close>): outgoing TCP connections. \<open>Encoding\<close> (\<open>src/type_define_ext.cpp\<close>): the conversions of characters.
  \<^item> \<open>Sip_Headers\<close> (\<open>src/inner/sip_common.cpp\<close>), \<open>Sip_Callbacks\<close> (\<open>src/inner/sip_server.cpp\<close>), \<open>Sip_Timer\<close>
    (\<open>src/inner/timer_impl.cpp\<close>): the edge to the SIP library, its headers, its callbacks by the method of the request, and
    its timers, where the expiry and the stops of any number of threads race for a flag, each step of a stop for itself.
  \<^item> \<open>Sip_Session\<close>, \<open>Session_Facts\<close> (\<open>src/inner/sip_session.cpp\<close>): the framing of received octets into messages.
  \<^item> \<open>Server\<close>, \<open>Dispatch\<close> (\<open>src/inner/sip_server.cpp\<close> and the receiving half of \<open>platform_helper.cpp\<close>): the tables of
    platforms, the numbers of streams, and the way of a received message to its handler.
  \<^item> \<open>Sdp\<close>, \<open>Sdp_Facts\<close> (\<open>src/request/sdp.cpp\<close>): session descriptions, as a parser and a generator of lines.
  \<^item> \<open>Invite\<close>, \<open>Playback\<close>, \<open>Invite_Facts\<close> (\<open>src/request/invite_request_impl.cpp\<close>): the session of a stream on the calling
    and on the called side, and the control of a playback within it. A run (\<open>invite_run\<close> in \<open>Playback\<close>) is a list of calls of the
    application, the peer and the timers: every call that \<open>InviteRequestImpl\<close> has.
  \<^item> \<open>Subscribe\<close>, \<open>Subscribe_Facts\<close> (\<open>src/request/subscribe_request_impl.cpp\<close>): subscriptions in both directions, with
    their refresh; replies, notifications, jobs and changes of the platform are the steps of a run.

  \<^bold>\<open>What the lemmas show.\<close> Formats: what a writer wrote, the reader of the other side reads back, for every message,
  configuration and command, with the exact losses where there are any. Requests: whatever the order of replies,
  responses and timeouts, a request completes at most once, is never forgotten, and succeeds only on an answer.
  Platforms: a platform is taken online only with its password, goes offline when it is silent, and a registration
  is never given up. Dispatch: only known platforms reach a handler, and the answer finds its request unless a proxy was made under
  the same number, taken from the peer. Whole ways: a catalog query comes
  back with the items the other application gave, each once and in order. Calls: what an
  application asks is answered as its proxy expects, and what a platform notifies is what the application hears. Types: whatever
  document arrives, a configuration has the type it is filed under. Where the code
  does not keep its promise, a theorem shows what it does instead.

  \<^bold>\<open>Parameters.\<close> Code outside the repository is an argument: tinyxml2, the toolkit's \<open>split\<close>, iconv, the digests MD5
  and SHA-256, and the SIP library with its parsers of headers and its transactions. What a proof needs of them is a
  named predicate (\<open>tinyxml2_laws\<close>, \<open>split_law\<close>, \<open>header_library_laws\<close>), which a concrete function is shown to satisfy.

  \<^bold>\<open>Loops.\<close> Every loop is a terminating function. The loop over the received packets in \<open>Sip_Session\<close> puts what the parser
  has left back into the queue; it ends because every turn uses up an octet or a packet (\<open>unread\<close>).

  \<^bold>\<open>Not modelled.\<close> Logging, reference counts, locks and thread pools, except that callbacks may come in any order; the public
  interfaces and the events, which are declarations; the writing of a URI, which is the SIP library's.
\<close>

end
